(* ===== verification/Prelude.thy ===== *)
theory Prelude
  imports Main "HOL-Library.AList" "HOL-Library.Sublist" "HOL-Library.Monad_Syntax"
begin

text \<open>
  The vocabulary the component theories share: the result type of a handler that may throw an
  \<open>HttpError\<close> (\<open>utils/httpError.ts\<close>), the string operations the source calls on JavaScript strings,
  insertion-ordered key/value tables (a JavaScript \<open>Map\<close> or object, an association list here), and
  the row operations of a database table (\<open>find\<close>, \<open>update where\<close>, \<open>delete where\<close>) with their laws.
  Strings are lists of 8-bit characters: a character outside ASCII stands for its UTF-8 bytes, and
  case folding acts on ASCII letters only.
\<close>

named_theorems soar_defs
  \<open>definitions that unfold in the routine proofs about a component\<close>

section \<open>Results\<close>

datatype http_error = HttpError (statusCode: nat) (error_detail: string)

type_synonym 'a result = "http_error + 'a"

definition throw :: "nat \<Rightarrow> string \<Rightarrow> 'a result" where
  "throw code msg = Inl (HttpError code msg)"

definition andThen :: "'a result \<Rightarrow> ('a \<Rightarrow> 'b result) \<Rightarrow> 'b result" where
  "andThen r f = (case r of Inl e \<Rightarrow> Inl e | Inr a \<Rightarrow> f a)"

definition guard_that :: "bool \<Rightarrow> nat \<Rightarrow> string \<Rightarrow> unit result" where
  "guard_that b code msg = (if b then Inr () else throw code msg)"

lemma andThen_simps [simp]:
  "andThen (Inl e) f = Inl e"
  "andThen (Inr a) f = f a"
  by (simp_all add: andThen_def)

lemma throw_not_Inr [simp]: "throw c m \<noteq> Inr x" "Inr x \<noteq> throw c m"
  by (simp_all add: throw_def)

lemma andThen_throw [simp]: "andThen (throw c m) f = throw c m"
  by (simp add: throw_def)

lemma andThen_InrE:
  assumes "andThen r f = Inr y"
  obtains x where "r = Inr x" "f x = Inr y"
  using assms by (cases r) auto

lemma guard_that_simps [simp]:
  "guard_that True c m = Inr ()"
  "guard_that False c m = throw c m"
  by (simp_all add: guard_that_def)

lemma guard_that_Inr [simp]: "guard_that b c m = Inr u \<longleftrightarrow> b"
  by (cases b) auto

section \<open>Strings\<close>

definition em_dash :: string where
  "em_dash = [char_of (226 :: nat), char_of (128 :: nat), char_of (148 :: nat)]"

definition char_lower :: "char \<Rightarrow> char" where
  "char_lower c = (let n = (of_char c :: nat) in if 65 \<le> n \<and> n \<le> 90 then char_of (n + 32) else c)"

definition char_upper :: "char \<Rightarrow> char" where
  "char_upper c = (let n = (of_char c :: nat) in if 97 \<le> n \<and> n \<le> 122 then char_of (n - 32) else c)"

definition toLowerCase :: "string \<Rightarrow> string" where
  "toLowerCase s = map char_lower s"

definition toUpperCase :: "string \<Rightarrow> string" where
  "toUpperCase s = map char_upper s"

definition is_space :: "char \<Rightarrow> bool" where
  "is_space c = (let n = (of_char c :: nat) in (9 \<le> n \<and> n \<le> 13) \<or> n = 32)"

definition is_digit :: "char \<Rightarrow> bool" where
  "is_digit c = (let n = (of_char c :: nat) in 48 \<le> n \<and> n \<le> 57)"

definition is_letter :: "char \<Rightarrow> bool" where
  "is_letter c = (let n = (of_char c :: nat) in (65 \<le> n \<and> n \<le> 90) \<or> (97 \<le> n \<and> n \<le> 122))"

definition digit_value :: "char \<Rightarrow> nat" where
  "digit_value c = (of_char c :: nat) - 48"

definition js_trim :: "string \<Rightarrow> string" where
  "js_trim s = rev (dropWhile is_space (rev (dropWhile is_space s)))"

fun str_includes :: "string \<Rightarrow> string \<Rightarrow> bool" where
  "str_includes [] p = (p = [])"
| "str_includes (c # cs) p = (prefix p (c # cs) \<or> str_includes cs p)"

definition startsWith :: "string \<Rightarrow> string \<Rightarrow> bool" where
  "startsWith s p = prefix p s"

fun split_on :: "(char \<Rightarrow> bool) \<Rightarrow> string \<Rightarrow> string list" where
  "split_on p [] = [[]]"
| "split_on p (c # cs) =
     (if p c then [] # split_on p cs
      else (case split_on p cs of [] \<Rightarrow> [[c]] | w # ws \<Rightarrow> (c # w) # ws))"

definition nat_of_digits :: "string \<Rightarrow> nat" where
  "nat_of_digits ds = foldl (\<lambda>n d. 10 * n + digit_value d) 0 ds"

fun show_nat_acc :: "nat \<Rightarrow> string \<Rightarrow> string" where
  "show_nat_acc n acc =
     (let acc' = char_of (48 + n mod 10) # acc
      in if n < 10 then acc' else show_nat_acc (n div 10) acc')"

declare show_nat_acc.simps [simp del]

definition show_nat :: "nat \<Rightarrow> string" where
  "show_nat n = show_nat_acc n []"

definition show_int :: "int \<Rightarrow> string" where
  "show_int i = (if i < 0 then ''-'' @ show_nat (nat (- i)) else show_nat (nat i))"

fun joinWith :: "string \<Rightarrow> string list \<Rightarrow> string" where
  "joinWith sep [] = []"
| "joinWith sep [x] = x"
| "joinWith sep (x # y # xs) = x @ sep @ joinWith sep (y # xs)"

lemma str_includes_empty [simp]: "str_includes s []"
  by (cases s) auto

lemma includes_iff_sublist: "str_includes s p \<longleftrightarrow> sublist p s"
  by (induction s p rule: str_includes.induct) (auto simp: sublist_Cons_right)

lemma split_on_nonempty [simp]: "split_on p s \<noteq> []"
  by (induction s) (auto split: list.splits)

section \<open>Insertion-ordered tables\<close>

definition map_set :: "'k \<Rightarrow> 'v \<Rightarrow> ('k \<times> 'v) list \<Rightarrow> ('k \<times> 'v) list" where
  "map_set = AList.update"

definition map_del :: "'k \<Rightarrow> ('k \<times> 'v) list \<Rightarrow> ('k \<times> 'v) list" where
  "map_del k xs = filter (\<lambda>p. fst p \<noteq> k) xs"

lemma map_set_simps [simp]:
  "map_set k v [] = [(k, v)]"
  "map_set k v (p # ps) = (if fst p = k then (k, v) # ps else p # map_set k v ps)"
  by (simp_all add: map_set_def split: prod.splits)

lemma map_of_map_set [simp]: "map_of (map_set k v xs) = (map_of xs)(k \<mapsto> v)"
  by (simp add: map_set_def update_conv')

lemma map_of_filter_key:
  "map_of (filter (\<lambda>p. P (fst p)) xs) k = (if P k then map_of xs k else None)"
  by (induction xs) auto

lemma map_of_map_del [simp]: "map_of (map_del k xs) = (map_of xs)(k := None)"
  unfolding map_del_def using map_of_filter_key [of "\<lambda>x. x \<noteq> k" xs] by (auto simp: fun_eq_iff)

lemma map_del_commute: "map_del k (map_del j xs) = map_del j (map_del k xs)"
  unfolding map_del_def by (induction xs) auto

section \<open>Database rows\<close>

definition upd_where :: "('a \<Rightarrow> bool) \<Rightarrow> ('a \<Rightarrow> 'a) \<Rightarrow> 'a list \<Rightarrow> 'a list" where
  "upd_where p f xs = map (\<lambda>r. if p r then f r else r) xs"

definition del_where :: "('a \<Rightarrow> bool) \<Rightarrow> 'a list \<Rightarrow> 'a list" where
  "del_where p xs = filter (\<lambda>r. \<not> p r) xs"

lemma upd_where_simps [simp]:
  "upd_where p f [] = []"
  "upd_where p f (x # xs) = (if p x then f x else x) # upd_where p f xs"
  by (simp_all add: upd_where_def)

lemma upd_where_append [simp]: "upd_where p f (xs @ ys) = upd_where p f xs @ upd_where p f ys"
  by (simp add: upd_where_def)

lemma length_upd_where [simp]: "length (upd_where p f xs) = length xs"
  by (simp add: upd_where_def)

lemma set_upd_where: "set (upd_where p f xs) = (\<lambda>r. if p r then f r else r) ` set xs"
  by (simp add: upd_where_def)

lemma in_upd_whereE:
  assumes "r \<in> set (upd_where p f xs)"
  obtains x where "x \<in> set xs" "p x" "r = f x" | "r \<in> set xs" "\<not> p r"
  using assms by (auto simp: set_upd_where split: if_splits)

lemma map_upd_where: "(\<And>x. p x \<Longrightarrow> g (f x) = g x) \<Longrightarrow> map g (upd_where p f xs) = map g xs"
  by (auto simp: upd_where_def)

lemma filter_upd_where_same:
  "(\<And>x. p x \<Longrightarrow> q (f x) = q x) \<Longrightarrow> filter q (upd_where p f xs) = upd_where p f (filter q xs)"
  by (induction xs) (auto simp: upd_where_def)

lemma find_Some_in: "List.find p xs = Some x \<Longrightarrow> x \<in> set xs \<and> p x"
  by (induction xs) (auto split: if_splits)

lemma find_None_all: "List.find p xs = None \<longleftrightarrow> (\<forall>x\<in>set xs. \<not> p x)"
  by (induction xs) auto

lemma find_append:
  "List.find p (xs @ ys) = (case List.find p xs of Some x \<Rightarrow> Some x | None \<Rightarrow> List.find p ys)"
  by (induction xs) auto

lemma filter_full: "length xs \<le> length (filter P xs) \<longleftrightarrow> (\<forall>x\<in>set xs. P x)"
proof (induction xs)
  case (Cons x xs)
  then show ?case
    using length_filter_le [of P xs] by (cases "P x") (simp_all del: length_filter_le)
qed simp

lemma find_upd_where:
  "(\<And>x. p x \<Longrightarrow> p (f x)) \<Longrightarrow> List.find p (upd_where p f xs) = map_option f (List.find p xs)"
  by (induction xs) auto

section \<open>Index of an element, and the element after it\<close>

fun indexOf :: "'a list \<Rightarrow> 'a \<Rightarrow> nat option" where
  "indexOf [] y = None"
| "indexOf (x # xs) y = (if x = y then Some 0 else map_option Suc (indexOf xs y))"

lemma indexOf_Some: "indexOf xs y = Some i \<Longrightarrow> i < length xs \<and> xs ! i = y"
  by (induction xs arbitrary: i) (auto split: if_splits)

lemma indexOf_None: "indexOf xs y = None \<longleftrightarrow> y \<notin> set xs"
  by (induction xs) auto

lemma indexOf_first: "indexOf xs y = Some i \<Longrightarrow> j < i \<Longrightarrow> xs ! j \<noteq> y"
  by (induction xs arbitrary: i j) (auto split: if_splits simp: nth_Cons split: nat.splits)

end
