(* ===== verification/JsValue.thy ===== *)
theory JsValue
  imports Prelude Complex_Main
begin

text \<open>
  The JavaScript values the source computes with where it is untyped (\<open>any\<close>, \<open>unknown\<close>, JSON columns
  of the database, answers of the Applivery API) and the coercions it applies to them: \<open>String(x)\<close>,
  \<open>Number(x)\<close>, \<open>Boolean(x)\<close>, \<open>??\<close>, \<open>||\<close>, \<open>?.\<close>, property reads that throw on \<open>null\<close>, \<open>parseInt\<close> and
  the ISO 8601 forms of \<open>new Date(s)\<close>. A thrown \<open>TypeError\<close> is \<open>None\<close>. Finite numbers are exact
  rationals (no rounding); \<open>String(n)\<close> prints up to 17 fractional digits and no exponent, which is what
  JavaScript prints for the decimals of that size between 1e-6 and 1e21.
\<close>

section \<open>Values\<close>

datatype jsnum = Fin rat | PosInf | NegInf | NaN

datatype jsval =
    JUndef
  | JNull
  | JBool bool
  | JNum jsnum
  | JStr string
  | JArr "jsval list"
  | JObj "(string \<times> jsval) list"

abbreviation jint :: "int \<Rightarrow> jsval" where
  "jint i \<equiv> JNum (Fin (rat_of_int i))"

fun nullish :: "jsval \<Rightarrow> bool" where
  "nullish JUndef = True"
| "nullish JNull = True"
| "nullish _ = False"

fun truthy :: "jsval \<Rightarrow> bool" where
  "truthy JUndef = False"
| "truthy JNull = False"
| "truthy (JBool b) = b"
| "truthy (JNum (Fin q)) = (q \<noteq> 0)"
| "truthy (JNum NaN) = False"
| "truthy (JNum _) = True"
| "truthy (JStr s) = (s \<noteq> [])"
| "truthy (JArr _) = True"
| "truthy (JObj _) = True"

definition coalesce :: "jsval \<Rightarrow> jsval \<Rightarrow> jsval" where
  "coalesce a b = (if nullish a then b else a)"

definition js_or :: "jsval \<Rightarrow> jsval \<Rightarrow> jsval" where
  "js_or a b = (if truthy a then a else b)"

text \<open>\<open>o.p\<close> throws on \<open>null\<close> and \<open>undefined\<close>; \<open>o?.p\<close> is \<open>undefined\<close> there.\<close>

definition own_prop :: "jsval \<Rightarrow> string \<Rightarrow> jsval" where
  "own_prop v p =
     (case v of
        JObj fs \<Rightarrow> (case map_of fs p of Some x \<Rightarrow> x | None \<Rightarrow> JUndef)
      | _ \<Rightarrow> JUndef)"

definition jget :: "jsval \<Rightarrow> string \<Rightarrow> jsval option" where
  "jget v p = (if nullish v then None else Some (own_prop v p))"

definition has_prop :: "jsval \<Rightarrow> string \<Rightarrow> bool" where
  "has_prop v p = (case v of JObj fs \<Rightarrow> p \<in> fst ` set fs | _ \<Rightarrow> False)"

definition set_prop :: "string \<Rightarrow> jsval \<Rightarrow> jsval \<Rightarrow> jsval" where
  "set_prop p x v = (case v of JObj fs \<Rightarrow> JObj (map_set p x fs) | _ \<Rightarrow> v)"

lemma own_prop_set_prop [simp]:
  "own_prop (set_prop p x (JObj fs)) q = (if p = q then x else own_prop (JObj fs) q)"
  by (simp add: own_prop_def set_prop_def)

section \<open>Numbers\<close>

fun frac_digits :: "nat \<Rightarrow> rat \<Rightarrow> string" where
  "frac_digits 0 r = []"
| "frac_digits (Suc n) r =
     (if r = 0 then []
      else char_of (48 + nat \<lfloor>r * 10\<rfloor>) # frac_digits n (r * 10 - of_int \<lfloor>r * 10\<rfloor>))"

definition show_rat :: "rat \<Rightarrow> string" where
  "show_rat q =
     (let a = \<bar>q\<bar>; i = \<lfloor>a\<rfloor>; f = frac_digits 17 (a - of_int i)
      in (if q < 0 then ''-'' else []) @ show_nat (nat i) @ (if f = [] then [] else ''.'' @ f))"

fun show_num :: "jsnum \<Rightarrow> string" where
  "show_num (Fin q) = show_rat q"
| "show_num PosInf = ''Infinity''"
| "show_num NegInf = ''-Infinity''"
| "show_num NaN = ''NaN''"

fun neg_num :: "jsnum \<Rightarrow> jsnum" where
  "neg_num (Fin q) = Fin (- q)"
| "neg_num PosInf = NegInf"
| "neg_num NegInf = PosInf"
| "neg_num NaN = NaN"

definition ten_pow :: "int \<Rightarrow> rat" where
  "ten_pow e = (if 0 \<le> e then 10 ^ nat e else 1 / 10 ^ nat (- e))"

text \<open>A signed exponent: \<open>e\<close> or \<open>E\<close>, an optional sign, at least one digit, and nothing after.\<close>

definition parse_exponent :: "string \<Rightarrow> int option" where
  "parse_exponent s =
     (case s of
        [] \<Rightarrow> Some 0
      | c # cs \<Rightarrow>
          if c = CHR ''e'' \<or> c = CHR ''E'' then
            (let (neg, ds) = (case cs of
                 CHR ''-'' # ds \<Rightarrow> (True, ds)
               | CHR ''+'' # ds \<Rightarrow> (False, ds)
               | _ \<Rightarrow> (False, cs))
             in if ds \<noteq> [] \<and> list_all is_digit ds
                then Some (if neg then - int (nat_of_digits ds) else int (nat_of_digits ds))
                else None)
          else None)"

definition parse_unsigned :: "string \<Rightarrow> jsnum" where
  "parse_unsigned s =
     (if s = ''Infinity'' then PosInf
      else
        let ip = takeWhile is_digit s; r1 = dropWhile is_digit s;
            (fp, r2) = (case r1 of
                CHR ''.'' # cs \<Rightarrow> (takeWhile is_digit cs, dropWhile is_digit cs)
              | _ \<Rightarrow> ([], r1))
        in if ip = [] \<and> fp = [] then NaN
           else (case parse_exponent r2 of
                   None \<Rightarrow> NaN
                 | Some e \<Rightarrow> Fin (of_nat (nat_of_digits (ip @ fp)) * ten_pow (e - int (length fp)))))"

definition parse_number :: "string \<Rightarrow> jsnum" where
  "parse_number str =
     (let s = js_trim str in
      case s of
        [] \<Rightarrow> Fin 0
      | CHR ''-'' # cs \<Rightarrow> neg_num (parse_unsigned cs)
      | CHR ''+'' # cs \<Rightarrow> parse_unsigned cs
      | _ \<Rightarrow> parse_unsigned s)"

fun to_string :: "jsval \<Rightarrow> string" where
  "to_string JUndef = ''undefined''"
| "to_string JNull = ''null''"
| "to_string (JBool b) = (if b then ''true'' else ''false'')"
| "to_string (JNum n) = show_num n"
| "to_string (JStr s) = s"
| "to_string (JArr xs) = joinWith '','' (map (\<lambda>x. if nullish x then [] else to_string x) xs)"
| "to_string (JObj _) = ''[object Object]''"

fun to_number :: "jsval \<Rightarrow> jsnum" where
  "to_number JUndef = NaN"
| "to_number JNull = Fin 0"
| "to_number (JBool b) = Fin (if b then 1 else 0)"
| "to_number (JNum n) = n"
| "to_number (JStr s) = parse_number s"
| "to_number (JArr xs) = parse_number (to_string (JArr xs))"
| "to_number (JObj _) = NaN"

fun num_less :: "jsnum \<Rightarrow> jsnum \<Rightarrow> bool" where
  "num_less NaN _ = False"
| "num_less _ NaN = False"
| "num_less (Fin a) (Fin b) = (a < b)"
| "num_less NegInf b = (b \<noteq> NegInf)"
| "num_less PosInf b = False"
| "num_less (Fin a) PosInf = True"
| "num_less (Fin a) NegInf = False"

fun num_add :: "jsnum \<Rightarrow> jsnum \<Rightarrow> jsnum" where
  "num_add NaN _ = NaN"
| "num_add _ NaN = NaN"
| "num_add (Fin a) (Fin b) = Fin (a + b)"
| "num_add (Fin _) b = b"
| "num_add a (Fin _) = a"
| "num_add PosInf PosInf = PosInf"
| "num_add NegInf NegInf = NegInf"
| "num_add _ _ = NaN"

fun num_scale :: "jsnum \<Rightarrow> rat \<Rightarrow> jsnum" where
  "num_scale (Fin a) k = Fin (a * k)"
| "num_scale PosInf k = (if 0 < k then PosInf else if k < 0 then NegInf else NaN)"
| "num_scale NegInf k = (if 0 < k then NegInf else if k < 0 then PosInf else NaN)"
| "num_scale NaN k = NaN"

lemma num_less_irrefl [simp]: "\<not> num_less a a"
  by (cases a) auto

lemma num_less_trans: "num_less a b \<Longrightarrow> num_less b c \<Longrightarrow> num_less a c"
  by (cases a; cases b; cases c) auto

lemma num_less_asym: "num_less a b \<Longrightarrow> \<not> num_less b a"
  using num_less_trans num_less_irrefl by blast

text \<open>\<open>a + b\<close>: concatenation when a side is a string, addition otherwise.\<close>

definition js_add :: "jsval \<Rightarrow> jsval \<Rightarrow> jsval" where
  "js_add a b =
     (case (a, b) of
        (JStr s, _) \<Rightarrow> JStr (s @ to_string b)
      | (_, JStr t) \<Rightarrow> JStr (to_string a @ t)
      | _ \<Rightarrow> JNum (num_add (to_number a) (to_number b)))"

text \<open>\<open>===\<close>; arrays and objects that reach a comparison in the source are never the same reference.\<close>

fun strict_eq :: "jsval \<Rightarrow> jsval \<Rightarrow> bool" where
  "strict_eq JUndef JUndef = True"
| "strict_eq JNull JNull = True"
| "strict_eq (JBool a) (JBool b) = (a = b)"
| "strict_eq (JNum a) (JNum b) = (a = b \<and> a \<noteq> NaN)"
| "strict_eq (JStr a) (JStr b) = (a = b)"
| "strict_eq _ _ = False"

definition same_value_zero :: "jsval \<Rightarrow> jsval \<Rightarrow> bool" where
  "same_value_zero a b = (strict_eq a b \<or> (a = JNum NaN \<and> b = JNum NaN))"

section \<open>Integers and dates in strings\<close>

text \<open>\<open>Number.parseInt(s, 10)\<close>; \<open>None\<close> is NaN.\<close>

definition parseInt10 :: "string \<Rightarrow> int option" where
  "parseInt10 str =
     (let s = dropWhile is_space str;
          (neg, r) = (case s of
              CHR ''-'' # cs \<Rightarrow> (True, cs)
            | CHR ''+'' # cs \<Rightarrow> (False, cs)
            | _ \<Rightarrow> (False, s));
          ds = takeWhile is_digit r
      in if ds = [] then None
         else Some (if neg then - int (nat_of_digits ds) else int (nat_of_digits ds)))"

text \<open>Days from 1970-01-01 of a proleptic Gregorian date.\<close>

definition days_from_civil :: "int \<Rightarrow> int \<Rightarrow> int \<Rightarrow> int" where
  "days_from_civil y m d =
     (let y' = (if m \<le> 2 then y - 1 else y);
          era = y' div 400;
          yoe = y' - era * 400;
          doy = (153 * (m + (if 2 < m then - 3 else 9)) + 2) div 5 + d - 1;
          doe = yoe * 365 + yoe div 4 - yoe div 100 + doy
      in era * 146097 + doe - 719468)"

definition fixed_digits :: "nat \<Rightarrow> string \<Rightarrow> (int \<times> string) option" where
  "fixed_digits n s =
     (let ds = take n s
      in if length ds = n \<and> list_all is_digit ds then Some (int (nat_of_digits ds), drop n s) else None)"

definition after_char :: "char \<Rightarrow> string \<Rightarrow> string option" where
  "after_char c s = (case s of x # xs \<Rightarrow> if x = c then Some xs else None | [] \<Rightarrow> None)"

definition parse_ymd :: "string \<Rightarrow> (int \<times> string) option" where
  "parse_ymd s0 =
     do {
       (y, s1) \<leftarrow> fixed_digits 4 s0;
       (case after_char (CHR ''-'') s1 of
          None \<Rightarrow> Some (days_from_civil y 1 1, s1)
        | Some s2 \<Rightarrow>
            do {
              (m, s3) \<leftarrow> fixed_digits 2 s2;
              (if 1 \<le> m \<and> m \<le> 12 then
                 (case after_char (CHR ''-'') s3 of
                    None \<Rightarrow> Some (days_from_civil y m 1, s3)
                  | Some s4 \<Rightarrow>
                      do {
                        (d, s5) \<leftarrow> fixed_digits 2 s4;
                        (if 1 \<le> d \<and> d \<le> 31 then Some (days_from_civil y m d, s5) else None)
                      })
               else None)
            })
     }"

text \<open>Seconds with an optional fraction, in milliseconds (digits after the third are dropped).\<close>

definition parse_seconds :: "string \<Rightarrow> (int \<times> string) option" where
  "parse_seconds s0 =
     (case after_char (CHR '':'') s0 of
        None \<Rightarrow> Some (0, s0)
      | Some s1 \<Rightarrow>
          do {
            (sec, s2) \<leftarrow> fixed_digits 2 s1;
            (if sec \<le> 59 then
               (case after_char (CHR ''.'') s2 of
                  None \<Rightarrow> Some (sec * 1000, s2)
                | Some s3 \<Rightarrow>
                    (let f = takeWhile is_digit s3
                     in if f = [] then None
                        else Some (sec * 1000 + int (nat_of_digits (take 3 (f @ ''000''))),
                                   dropWhile is_digit s3)))
             else None)
          })"

definition parse_offset :: "string \<Rightarrow> int option" where
  "parse_offset s =
     (if s = [] \<or> s = ''Z'' then Some 0
      else case s of
          c # cs \<Rightarrow>
            (if c = CHR ''+'' \<or> c = CHR ''-'' then
               do {
                 (h, s1) \<leftarrow> fixed_digits 2 cs;
                 s2 \<leftarrow> after_char (CHR '':'') s1;
                 (m, s3) \<leftarrow> fixed_digits 2 s2;
                 (if s3 = [] \<and> h \<le> 23 \<and> m \<le> 59
                  then Some ((if c = CHR ''+'' then 1 else - 1) * (h * 60 + m) * 60000) else None)
               }
             else None)
        | [] \<Rightarrow> Some 0)"

text \<open>\<open>new Date(s).getTime()\<close> on ISO 8601 strings; \<open>None\<close> is an invalid date. A date-time without
  an offset is read as UTC (the server's local zone in the source).\<close>

definition date_parse :: "string \<Rightarrow> int option" where
  "date_parse s0 =
     do {
       (days, s1) \<leftarrow> parse_ymd s0;
       (case s1 of
          [] \<Rightarrow> Some (days * 86400000)
        | c # s2 \<Rightarrow>
            if c = CHR ''T'' then
              do {
                (h, s3) \<leftarrow> fixed_digits 2 s2;
                s4 \<leftarrow> after_char (CHR '':'') s3;
                (m, s5) \<leftarrow> fixed_digits 2 s4;
                (ms, s6) \<leftarrow> parse_seconds s5;
                off \<leftarrow> parse_offset s6;
                (if h \<le> 23 \<and> m \<le> 59
                 then Some (days * 86400000 + h * 3600000 + m * 60000 + ms - off) else None)
              }
            else None)
     }"

text \<open>\<open>s.replace("Z", "+00:00")\<close>: the first \<open>Z\<close> only.\<close>

fun replace_Z :: "string \<Rightarrow> string" where
  "replace_Z [] = []"
| "replace_Z (c # cs) = (if c = CHR ''Z'' then ''+00:00'' @ cs else c # replace_Z cs)"

text \<open>The inverse of \<open>days_from_civil\<close>, and \<open>new Date(ms).toISOString()\<close> (a year outside 0..9999 is
  written with a sign and six digits).\<close>

definition civil_from_days :: "int \<Rightarrow> int \<times> int \<times> int" where
  "civil_from_days days =
     (let z = days + 719468;
          era = z div 146097;
          doe = z mod 146097;
          yoe = (doe - doe div 1460 + doe div 36524 - doe div 146096) div 365;
          doy = doe - (365 * yoe + yoe div 4 - yoe div 100);
          mp = (5 * doy + 2) div 153;
          m = (if mp < 10 then mp + 3 else mp - 9)
      in (yoe + era * 400 + (if m \<le> 2 then 1 else 0), m, doy - (153 * mp + 2) div 5 + 1))"

definition pad_left :: "nat \<Rightarrow> int \<Rightarrow> string" where
  "pad_left n i = (let s = show_nat (nat i) in replicate (n - length s) (CHR ''0'') @ s)"

definition show_year :: "int \<Rightarrow> string" where
  "show_year y =
     (if 0 \<le> y \<and> y \<le> 9999 then pad_left 4 y
      else (if y < 0 then ''-'' else ''+'') @ pad_left 6 \<bar>y\<bar>)"

definition toISOString :: "int \<Rightarrow> string" where
  "toISOString ms =
     (case civil_from_days (ms div 86400000) of
        (y, m, d) \<Rightarrow>
          (let t = ms mod 86400000
           in show_year y @ ''-'' @ pad_left 2 m @ ''-'' @ pad_left 2 d @ ''T''
              @ pad_left 2 (t div 3600000) @ '':'' @ pad_left 2 (t div 60000 mod 60) @ '':''
              @ pad_left 2 (t div 1000 mod 60) @ ''.'' @ pad_left 3 (t mod 1000) @ ''Z''))"

end
