(* ===== verification/Templates.thy ===== *)
theory Templates
  imports JsValue
begin

text \<open>
  Text the workflow engine produces from values: \<open>renderTemplate\<close> (\<open>modules/workflows/templateRender.ts\<close>)
  and \<open>JSON.stringify\<close>. \<open>\s\<close> and \<open>\w\<close> are read on ASCII; properties a value inherits from a
  JavaScript prototype are not modelled.
\<close>

section \<open>JSON text\<close>

definition hex_digit :: "nat \<Rightarrow> char" where
  "hex_digit n = (if n < 10 then char_of (48 + n) else char_of (87 + n))"

definition json_char :: "char \<Rightarrow> string" where
  "json_char c =
     (let n = (of_char c :: nat)
      in if n = 34 then [CHR 0x5C, CHR 0x22]
         else if n = 92 then [CHR 0x5C, CHR 0x5C]
         else if n = 8 then [CHR 0x5C, CHR ''b'']
         else if n = 9 then [CHR 0x5C, CHR ''t'']
         else if n = 10 then [CHR 0x5C, CHR ''n'']
         else if n = 12 then [CHR 0x5C, CHR ''f'']
         else if n = 13 then [CHR 0x5C, CHR ''r'']
         else if n < 32 then [CHR 0x5C] @ ''u00'' @ [hex_digit (n div 16), hex_digit (n mod 16)]
         else [c])"

definition json_quote :: "string \<Rightarrow> string" where
  "json_quote s = CHR 0x22 # concat (map json_char s) @ [CHR 0x22]"

fun json_text :: "jsval \<Rightarrow> string" where
  "json_text JUndef = ''null''"
| "json_text JNull = ''null''"
| "json_text (JBool b) = (if b then ''true'' else ''false'')"
| "json_text (JNum (Fin q)) = show_rat q"
| "json_text (JNum _) = ''null''"
| "json_text (JStr s) = json_quote s"
| "json_text (JArr xs) = ''['' @ joinWith '','' (map json_text xs) @ '']''"
| "json_text (JObj fs) =
     ''{'' @ joinWith '','' (map (\<lambda>(k, v). json_quote k @ '':'' @ json_text v)
               (filter (\<lambda>p. snd p \<noteq> JUndef) fs)) @ ''}''"

text \<open>\<open>String(JSON.stringify(v))\<close>.\<close>

definition stringified :: "jsval \<Rightarrow> string" where
  "stringified v = (if v = JUndef then ''undefined'' else json_text v)"

section \<open>Placeholders\<close>

definition path_char :: "char \<Rightarrow> bool" where
  "path_char c \<longleftrightarrow> is_letter c \<or> is_digit c \<or> c = CHR ''_'' \<or> c = CHR ''.''"

text \<open>A match of the placeholder pattern at the start: its path and the text after it.\<close>

definition match_placeholder :: "string \<Rightarrow> (string \<times> string) option" where
  "match_placeholder s =
     (if startsWith s ''{{'' then
        (let r1 = dropWhile is_space (drop 2 s);
             path = takeWhile path_char r1;
             r2 = dropWhile is_space (dropWhile path_char r1)
         in if path \<noteq> [] \<and> startsWith r2 ''}}'' then Some (path, drop 2 r2) else None)
      else None)"

lemma match_placeholder_shorter:
  assumes "match_placeholder s = Some (path, rest)"
  shows "length rest < length s"
proof -
  define r1 where "r1 = dropWhile is_space (drop 2 s)"
  define r2 where "r2 = dropWhile is_space (dropWhile path_char r1)"
  have two: "2 \<le> length s" and r: "rest = drop 2 r2" "startsWith r2 ''}}''"
    using assms unfolding match_placeholder_def r1_def r2_def
    by (auto simp: Let_def startsWith_def split: if_splits dest: prefix_length_le)
  have "length r2 \<le> length (drop 2 s)"
    unfolding r2_def r1_def by (meson le_trans length_dropWhile_le)
  moreover have "2 \<le> length r2" using r(2) by (auto simp: startsWith_def dest: prefix_length_le)
  ultimately show ?thesis using two r(1) by simp
qed

definition array_index :: "string \<Rightarrow> nat option" where
  "array_index key =
     (if key \<noteq> [] \<and> list_all is_digit key \<and> (key = ''0'' \<or> hd key \<noteq> CHR ''0'')
      then Some (nat_of_digits key) else None)"

definition member :: "jsval \<Rightarrow> string \<Rightarrow> jsval" where
  "member acc key =
     (case acc of
        JObj _ \<Rightarrow> own_prop acc key
      | JArr xs \<Rightarrow>
          (if key = ''length'' then jint (int (length xs))
           else case array_index key of
             Some i \<Rightarrow> if i < length xs then xs ! i else JUndef
           | None \<Rightarrow> JUndef)
      | _ \<Rightarrow> JUndef)"

definition placeholder_value :: "jsval \<Rightarrow> string \<Rightarrow> string" where
  "placeholder_value ctx path =
     (let v = foldl member ctx (split_on (\<lambda>c. c = CHR ''.'') path)
      in if nullish v then [] else to_string v)"

function renderTemplate :: "jsval \<Rightarrow> string \<Rightarrow> string" where
  "renderTemplate ctx s =
     (case s of
        [] \<Rightarrow> []
      | c # cs \<Rightarrow>
          (case match_placeholder s of
             Some (path, rest) \<Rightarrow> placeholder_value ctx path @ renderTemplate ctx rest
           | None \<Rightarrow> c # renderTemplate ctx cs))"
  by pat_completeness auto

termination
  by (relation "measure (length \<circ> snd)") (auto dest: match_placeholder_shorter)

declare renderTemplate.simps [simp del]

text \<open>\<open>renderTemplate\<close> on an untyped value: falsy gives \<open>value ?? ""\<close>; a value with no \<open>replace\<close> throws (None).\<close>

definition renderValue :: "jsval \<Rightarrow> jsval \<Rightarrow> jsval option" where
  "renderValue ctx v =
     (if \<not> truthy v then Some (coalesce v (JStr []))
      else case v of JStr s \<Rightarrow> Some (JStr (renderTemplate ctx s)) | _ \<Rightarrow> None)"

section \<open>Lemmas\<close>

lemma render_Nil [simp]: "renderTemplate ctx [] = []"
  by (simp add: renderTemplate.simps)

lemma render_plain_char:
  "match_placeholder (c # cs) = None \<Longrightarrow> renderTemplate ctx (c # cs) = c # renderTemplate ctx cs"
  by (subst renderTemplate.simps) simp

lemma render_match:
  assumes "match_placeholder s = Some (path, rest)"
  shows "renderTemplate ctx s = placeholder_value ctx path @ renderTemplate ctx rest"
proof (cases s)
  case Nil
  then show ?thesis using assms by (simp add: match_placeholder_def startsWith_def)
next
  case (Cons c cs)
  then show ?thesis using assms by (subst renderTemplate.simps) simp
qed

lemma no_brace_no_match: "c \<noteq> CHR ''{'' \<Longrightarrow> match_placeholder (c # cs) = None"
  by (simp add: match_placeholder_def startsWith_def)

lemma render_no_brace_append:
  "CHR ''{'' \<notin> set a \<Longrightarrow> renderTemplate ctx (a @ s) = a @ renderTemplate ctx s"
  by (induction a) (auto simp: render_plain_char no_brace_no_match)

lemma takeWhile_all_then: "list_all P p \<Longrightarrow> \<not> P c \<Longrightarrow> takeWhile P (p @ c # r) = p \<and> dropWhile P (p @ c # r) = c # r"
  by (induction p) auto

lemma match_placeholder_exact:
  assumes "p \<noteq> []" "list_all path_char p" "list_all is_space sp1" "list_all is_space sp2"
  shows "match_placeholder (''{{'' @ sp1 @ p @ sp2 @ ''}}'' @ rest) = Some (p, rest)"
proof -
  have disj: "path_char c \<Longrightarrow> \<not> is_space c" for c
    by (auto simp: path_char_def is_space_def is_letter_def is_digit_def Let_def)
  have brace: "\<not> path_char (CHR ''}'')" "\<not> is_space (CHR ''}'')"
    by (simp_all add: path_char_def is_space_def is_letter_def is_digit_def)
  obtain c p' where p: "p = c # p'" using assms(1) by (cases p) auto
  have s1: "dropWhile is_space (sp1 @ p @ sp2 @ ''}}'' @ rest) = p @ sp2 @ ''}}'' @ rest"
    using takeWhile_all_then [OF assms(3), of c "p' @ sp2 @ ''}}'' @ rest"] assms(2) disj p by simp
  have s2: "takeWhile path_char (p @ sp2 @ ''}}'' @ rest) = p \<and>
      dropWhile path_char (p @ sp2 @ ''}}'' @ rest) = sp2 @ ''}}'' @ rest"
  proof (cases sp2)
    case Nil
    then show ?thesis using takeWhile_all_then [OF assms(2) brace(1), of "CHR ''}'' # rest"] by simp
  next
    case (Cons x xs)
    then have "\<not> path_char x" using assms(4) disj by auto
    then show ?thesis using takeWhile_all_then [OF assms(2), of x "xs @ ''}}'' @ rest"] Cons by simp
  qed
  have s3: "dropWhile is_space (sp2 @ ''}}'' @ rest) = ''}}'' @ rest"
    using takeWhile_all_then [OF assms(4) brace(2), of "CHR ''}'' # rest"] by simp
  show ?thesis
    using s1 s2 s3 assms(1) by (simp add: match_placeholder_def startsWith_def)
qed

section \<open>Properties\<close>

text \<open>
  Placeholder interpolation. Text without a brace is unchanged, and in text of the form
  plain, placeholder, rest, the placeholder (with any spaces around its dotted path) is replaced by the
  value at that path, empty when the path does not resolve, which is not rendered again.
\<close>
lemma renderTemplate_substitutes:
  assumes "CHR ''{'' \<notin> set a" "p \<noteq> []" "list_all path_char p" "list_all is_space sp1" "list_all is_space sp2"
  shows "renderTemplate ctx a = a \<and>
    renderTemplate ctx (a @ ''{{'' @ sp1 @ p @ sp2 @ ''}}'' @ rest) =
      a @ placeholder_value ctx p @ renderTemplate ctx rest"
  using render_no_brace_append [OF assms(1), of ctx "[]"]
    render_no_brace_append [OF assms(1), of ctx "''{{'' @ sp1 @ p @ sp2 @ ''}}'' @ rest"]
    render_match [OF match_placeholder_exact [OF assms(2-5)], of ctx rest]
  by (simp only: append_Nil2 render_Nil)

theorem renderTemplate_substitutes_witness:
  "renderTemplate (JObj [(''device'', JObj [(''model'', JStr ''{{x}}'')])]) ''m={{ device.model }}!'' = ''m={{x}}!''"
proof -
  have "placeholder_value (JObj [(''device'', JObj [(''model'', JStr ''{{x}}'')])]) ''device.model'' = ''{{x}}''"
    by code_simp
  with renderTemplate_substitutes [of "''m=''" "''device.model''" "'' ''" "'' ''"
      "JObj [(''device'', JObj [(''model'', JStr ''{{x}}'')])]" "''!''"]
    render_no_brace_append [of "''!''" "JObj [(''device'', JObj [(''model'', JStr ''{{x}}'')])]" "[]"]
  show ?thesis by (simp add: path_char_def is_space_def is_letter_def is_digit_def)
qed

end
