(* ===== verification/RateControl.thy ===== *)
theory RateControl
  imports Prelude Complex_Main
begin

text \<open>
  The in-process limiters and caches every request and every background job passes through:
  the outbound token bucket (\<open>utils/tokenBucket.ts\<close>), the inbound fixed-window limiter
  (\<open>middleware/rateLimiter.middleware.ts\<close>), the live TTL cache (\<open>services/liveCache.ts\<close>) and the
  reentrancy guard of the job runner (\<open>jobs/jobReentrancyGuard.ts\<close>, \<open>jobs/backgroundJobs.ts\<close>).
  \<open>Date.now()\<close> is an argument (milliseconds); token counts are exact rationals.
\<close>

section \<open>Token bucket\<close>

record token_bucket =
  capacity :: rat
  refillRatePerSec :: rat
  tokens :: rat
  lastRefill :: int

definition new_bucket :: "rat \<Rightarrow> rat \<Rightarrow> int \<Rightarrow> token_bucket" where
  "new_bucket cap rate now =
     \<lparr>capacity = cap, refillRatePerSec = rate, tokens = cap, lastRefill = now\<rparr>"

definition refill :: "int \<Rightarrow> token_bucket \<Rightarrow> token_bucket" where
  "refill now b =
     (let elapsedSeconds = rat_of_int (now - lastRefill b) / 1000
      in b\<lparr>tokens := min (capacity b) (tokens b + elapsedSeconds * refillRatePerSec b),
           lastRefill := now\<rparr>)"

definition consume :: "int \<Rightarrow> rat \<Rightarrow> token_bucket \<Rightarrow> bool \<times> token_bucket" where
  "consume now k b =
     (let b' = refill now b
      in if k \<le> tokens b' then (True, b'\<lparr>tokens := tokens b' - k\<rparr>) else (False, b'))"

text \<open>\<open>waitForToken\<close> polls; \<open>clock i\<close> is the time of the i-th poll, fuel bounds the polls.\<close>

fun waitForToken :: "nat \<Rightarrow> (nat \<Rightarrow> int) \<Rightarrow> nat \<Rightarrow> rat \<Rightarrow> token_bucket \<Rightarrow> (nat \<times> token_bucket) option" where
  "waitForToken 0 clock i k b = None"
| "waitForToken (Suc fuel) clock i k b =
     (case consume (clock i) k b of
        (True, b') \<Rightarrow> Some (i, b')
      | (False, b') \<Rightarrow> waitForToken fuel clock (Suc i) k b')"

text \<open>A run of \<open>consume\<close> calls and the number of tokens it grants.\<close>

fun consume_run :: "(int \<times> rat) list \<Rightarrow> token_bucket \<Rightarrow> rat \<times> token_bucket" where
  "consume_run [] b = (0, b)"
| "consume_run ((now, k) # cs) b =
     (case consume now k b of (ok, b') \<Rightarrow>
        (case consume_run cs b' of (g, b'') \<Rightarrow> ((if ok then k else 0) + g, b'')))"

definition bucket_ok :: "token_bucket \<Rightarrow> bool" where
  "bucket_ok b \<longleftrightarrow> 0 \<le> tokens b \<and> tokens b \<le> capacity b \<and> 0 \<le> refillRatePerSec b"

lemma refill_frame [simp]:
  "capacity (refill now b) = capacity b"
  "refillRatePerSec (refill now b) = refillRatePerSec b"
  "lastRefill (refill now b) = now"
  by (simp_all add: refill_def Let_def)

lemma consume_frame:
  assumes "consume now k b = (ok, b')"
  shows "capacity b' = capacity b" "refillRatePerSec b' = refillRatePerSec b" "lastRefill b' = now"
  using assms by (auto simp: consume_def Let_def split: if_splits)

lemma bucket_ok_refill:
  assumes "bucket_ok b" "lastRefill b \<le> now"
  shows "bucket_ok (refill now b)"
proof -
  have "0 \<le> rat_of_int (now - lastRefill b) / 1000 * refillRatePerSec b"
    using assms by (intro mult_nonneg_nonneg) (auto simp: bucket_ok_def)
  then show ?thesis using assms(1) by (auto simp: bucket_ok_def refill_def Let_def)
qed

lemma bucket_ok_consume:
  assumes "bucket_ok b" "lastRefill b \<le> now" "0 \<le> k" "consume now k b = (ok, b')"
  shows "bucket_ok b'"
  using bucket_ok_refill [OF assms(1,2)] assms(3,4)
  by (auto simp: consume_def Let_def bucket_ok_def split: if_splits)

lemma refill_le: "tokens (refill now b) \<le>
    tokens b + rat_of_int (now - lastRefill b) / 1000 * refillRatePerSec b"
  by (simp add: refill_def Let_def)

lemma consume_balance:
  assumes "consume now k b = (ok, b')"
  shows "tokens b' + (if ok then k else 0) = tokens (refill now b)"
  using assms by (auto simp: consume_def Let_def split: if_splits)

text \<open>Call times that never go back: each is at least the previous one, the first at least \<open>t\<close>.\<close>

fun times_from :: "int \<Rightarrow> int list \<Rightarrow> bool" where
  "times_from t [] = True"
| "times_from t (x # xs) = (t \<le> x \<and> times_from x xs)"

lemma times_from_bounds: "times_from t xs \<Longrightarrow> x \<in> set xs \<Longrightarrow> t \<le> x"
  by (induction xs arbitrary: t) fastforce+

lemma times_from_last: "times_from t xs \<Longrightarrow> t \<le> last (t # xs)"
  by (induction xs arbitrary: t) (auto, force)

lemma times_from_mono: "times_from t xs \<Longrightarrow> s \<le> t \<Longrightarrow> times_from s xs"
  by (cases xs) auto

lemma consume_run_balance:
  assumes "bucket_ok b" "times_from (lastRefill b) (map fst cs)" "\<forall>c\<in>set cs. 0 \<le> snd c"
    and "consume_run cs b = (g, b')"
  shows "bucket_ok b' \<and> g + tokens b' \<le> tokens b +
    rat_of_int (last (lastRefill b # map fst cs) - lastRefill b) / 1000 * refillRatePerSec b"
  using assms
proof (induction cs arbitrary: b g)
  case Nil
  then show ?case by simp
next
  case (Cons c cs)
  obtain now k where c: "c = (now, k)" by (cases c)
  obtain ok b1 where con: "consume now k b = (ok, b1)" by (cases "consume now k b")
  obtain g1 where run: "consume_run cs b1 = (g1, b')" and g: "g = (if ok then k else 0) + g1"
    using Cons.prems(4) con c by (auto split: prod.splits)
  note frame = consume_frame [OF con]
  have ok1: "bucket_ok b1"
    using bucket_ok_consume [OF Cons.prems(1) _ _ con] Cons.prems(2,3) c by auto
  have times: "times_from (lastRefill b1) (map fst cs)" "\<forall>c\<in>set cs. 0 \<le> snd c"
    using Cons.prems(2,3) c frame by auto
  note IH = Cons.IH [OF ok1 times run]
  have bal: "tokens b1 + (if ok then k else 0) \<le>
      tokens b + rat_of_int (now - lastRefill b) / 1000 * refillRatePerSec b"
    using consume_balance [OF con] refill_le [of now b] by simp
  have last_eq: "last (lastRefill b # map fst (c # cs)) = last (now # map fst cs)"
    using c by simp
  let ?e = "\<lambda>s t. rat_of_int (t - s) / 1000 * refillRatePerSec b"
  have add: "?e now (last (now # map fst cs)) + ?e (lastRefill b) now
      = ?e (lastRefill b) (last (now # map fst cs))"
    by (simp add: field_simps)
  have IH': "bucket_ok b'" "g1 + tokens b' \<le> tokens b1 + ?e now (last (now # map fst cs))"
    using IH frame by simp_all
  show ?case unfolding last_eq using IH' bal add g by (cases ok) simp_all
qed

lemma consume_run_capacity: "consume_run cs b = (g, b') \<Longrightarrow> capacity b' = capacity b"
proof (induction cs arbitrary: b g)
  case (Cons c cs)
  then show ?case
    by (cases c) (auto split: prod.splits dest: consume_frame(1))
qed simp

text \<open>With a positive rate and a request within capacity, polling at least every 100 ms ends.\<close>

lemma refill_progress:
  assumes "lastRefill b + 100 \<le> now" "0 \<le> refillRatePerSec b"
  shows "min (capacity b) (tokens b + refillRatePerSec b / 10) \<le> tokens (refill now b)"
proof -
  have "rat_of_int 100 \<le> rat_of_int (now - lastRefill b)"
    using assms(1) by (simp only: of_int_le_iff)
  then have "(1::rat) / 10 \<le> rat_of_int (now - lastRefill b) / 1000"
    by simp
  then have "refillRatePerSec b / 10 \<le> rat_of_int (now - lastRefill b) / 1000 * refillRatePerSec b"
    using assms(2) mult_right_mono by fastforce
  then show ?thesis by (auto simp: refill_def Let_def min_def)
qed

lemma waitForToken_progress:
  assumes "k \<le> capacity b" "0 \<le> refillRatePerSec b" "\<And>j. clock j + 100 \<le> clock (Suc j)"
    and "lastRefill b + 100 \<le> clock i"
    and "k \<le> tokens b + of_nat (Suc n) * (refillRatePerSec b / 10)"
  shows "\<exists>j b'. waitForToken (Suc n) clock i k b = Some (j, b') \<and> j \<le> i + n"
  using assms
proof (induction n arbitrary: i b)
  case 0
  have "k \<le> tokens (refill (clock i) b)"
    using refill_progress [OF 0(4,2)] 0(1,5) by (auto simp: min_def split: if_splits)
  then show ?case by (auto simp: consume_def Let_def)
next
  case (Suc n)
  show ?case
  proof (cases "k \<le> tokens (refill (clock i) b)")
    case True
    then show ?thesis by (auto simp: consume_def Let_def)
  next
    case False
    let ?b = "refill (clock i) b"
    have "tokens b + refillRatePerSec b / 10 \<le> tokens ?b"
      using refill_progress [OF Suc.prems(4,2)] False Suc.prems(1) by (auto simp: min_def split: if_splits)
    moreover have "rat_of_nat (Suc (Suc n)) * (refillRatePerSec b / 10)
        = refillRatePerSec b / 10 + rat_of_nat (Suc n) * (refillRatePerSec b / 10)"
      by (simp add: field_simps)
    ultimately have "k \<le> tokens ?b + of_nat (Suc n) * (refillRatePerSec ?b / 10)"
      using Suc.prems(5) unfolding refill_frame by linarith
    then obtain j b' where "waitForToken (Suc n) clock (Suc i) k ?b = Some (j, b')" "j \<le> Suc i + n"
      using Suc.IH [of ?b "Suc i"] Suc.prems(1-3) by auto
    then show ?thesis using False by (auto simp: consume_def Let_def)
  qed
qed


section \<open>Inbound fixed-window limiter\<close>

record window =
  count :: nat
  windowStartedAt :: int

datatype limit_decision = Next | TooMany int

definition WINDOW_MS :: int where
  "WINDOW_MS = 60000"

text \<open>\<open>Math.ceil(x / 1000)\<close> on integers.\<close>

definition ceil_seconds :: "int \<Rightarrow> int" where
  "ceil_seconds ms = - ((- ms) div 1000)"

definition limiter :: "nat \<Rightarrow> string \<Rightarrow> int \<Rightarrow> (string \<times> window) list \<Rightarrow>
    limit_decision \<times> (string \<times> window) list" where
  "limiter limit ip now buckets =
     (case map_of buckets ip of
        None \<Rightarrow> (Next, map_set ip \<lparr>count = 1, windowStartedAt = now\<rparr> buckets)
      | Some w \<Rightarrow>
          if WINDOW_MS \<le> now - windowStartedAt w
          then (Next, map_set ip \<lparr>count = 1, windowStartedAt = now\<rparr> buckets)
          else if limit \<le> count w
          then (TooMany (ceil_seconds (windowStartedAt w + WINDOW_MS - now)), buckets)
          else (Next, map_set ip (w\<lparr>count := count w + 1\<rparr>) buckets))"

record limiter_state =
  loginBuckets :: "(string \<times> window) list"
  secretPathBuckets :: "(string \<times> window) list"
  defaultApiBuckets :: "(string \<times> window) list"

definition rateLimiterMiddleware :: "string \<Rightarrow> string \<Rightarrow> int \<Rightarrow> limiter_state \<Rightarrow>
    limit_decision \<times> limiter_state" where
  "rateLimiterMiddleware path ip now st =
     (if path = ''/api/auth/login'' then
        (case limiter 10 ip now (loginBuckets st) of (d, b) \<Rightarrow> (d, st\<lparr>loginBuckets := b\<rparr>))
      else if startsWith path ''/api/triggers/fire/'' \<or>
              startsWith path ''/api/applivery-webhook/receive/'' then
        (case limiter 120 ip now (secretPathBuckets st) of (d, b) \<Rightarrow> (d, st\<lparr>secretPathBuckets := b\<rparr>))
      else if startsWith path ''/api/'' then
        (case limiter 300 ip now (defaultApiBuckets st) of (d, b) \<Rightarrow> (d, st\<lparr>defaultApiBuckets := b\<rparr>))
      else (Next, st))"

text \<open>A run of requests of one client, and how many of them pass.\<close>

fun limiter_run :: "nat \<Rightarrow> string \<Rightarrow> int list \<Rightarrow> (string \<times> window) list \<Rightarrow>
    nat \<times> (string \<times> window) list" where
  "limiter_run limit ip [] b = (0, b)"
| "limiter_run limit ip (t # ts) b =
     (case limiter limit ip t b of (d, b') \<Rightarrow>
        (case limiter_run limit ip ts b' of (n, b'') \<Rightarrow> ((if d = Next then 1 else 0) + n, b'')))"

definition limiter_ok :: "nat \<Rightarrow> (string \<times> window) list \<Rightarrow> bool" where
  "limiter_ok limit b \<longleftrightarrow> (\<forall>w\<in>ran (map_of b). count w \<le> limit)"

lemma limiter_okD: "limiter_ok limit b \<Longrightarrow> map_of b ip = Some w \<Longrightarrow> count w \<le> limit"
  by (auto simp: limiter_ok_def ran_def)

lemma limiter_ok_step:
  assumes "limiter_ok limit b" "0 < limit"
  shows "limiter_ok limit (snd (limiter limit ip now b))"
  using assms
  by (auto simp: limiter_def limiter_ok_def ran_def split: option.splits if_splits)

lemma limiter_frame: "jp \<noteq> ip \<Longrightarrow> map_of (snd (limiter limit ip now b)) jp = map_of b jp"
  by (auto simp: limiter_def split: option.splits)

text \<open>Inside one window that is already open, at most \<open>limit - count\<close> more requests pass.\<close>

lemma limiter_run_in_window:
  assumes "map_of b ip = Some w" "\<forall>x\<in>set ts. x - windowStartedAt w < WINDOW_MS"
  shows "fst (limiter_run limit ip ts b) \<le> limit - count w"
  using assms
proof (induction ts arbitrary: b w)
  case Nil
  then show ?case by simp
next
  case (Cons t ts)
  show ?case
  proof (cases "limit \<le> count w")
    case True
    then have "limiter limit ip t b = (TooMany (ceil_seconds (windowStartedAt w + WINDOW_MS - t)), b)"
      using Cons.prems by (simp add: limiter_def)
    then show ?thesis using Cons.IH [OF Cons.prems(1)] Cons.prems(2) True
      by (auto split: prod.splits)
  next
    case False
    let ?w = "w\<lparr>count := count w + 1\<rparr>"
    have step: "limiter limit ip t b = (Next, map_set ip ?w b)"
      using Cons.prems False by (simp add: limiter_def)
    have "fst (limiter_run limit ip ts (map_set ip ?w b)) \<le> limit - count ?w"
      using Cons.prems by (intro Cons.IH) auto
    then show ?thesis using step False by (auto split: prod.splits)
  qed
qed

text \<open>A request that opens a window leaves room for \<open>limit - 1\<close> more in it.\<close>

lemma limiter_run_new_window:
  assumes "limiter limit ip u b = (Next, map_set ip \<lparr>count = 1, windowStartedAt = u\<rparr> b)" "0 < limit"
    and "\<forall>x\<in>set us. x - u < WINDOW_MS"
  shows "fst (limiter_run limit ip (u # us) b) \<le> limit"
proof -
  have "fst (limiter_run limit ip us (map_set ip \<lparr>count = 1, windowStartedAt = u\<rparr> b)) \<le> limit - 1"
    using limiter_run_in_window [where w = "\<lparr>count = 1, windowStartedAt = u\<rparr>"] assms(3) by simp
  then show ?thesis using assms(1,2) by (auto split: prod.splits)
qed

lemma limiter_run_window:
  assumes "0 < limit" "times_from t ts" "\<forall>x\<in>set ts. x < t + WINDOW_MS"
  shows "fst (limiter_run limit ip ts b) \<le>
    (case map_of b ip of None \<Rightarrow> 0 | Some w \<Rightarrow> limit - count w) + limit"
  using assms
proof (induction ts arbitrary: b t)
  case Nil
  then show ?case by simp
next
  case (Cons u ts)
  have later: "\<forall>x\<in>set ts. x - u < WINDOW_MS" "times_from t ts" "\<forall>x\<in>set ts. x < t + WINDOW_MS"
    using Cons.prems by (auto elim: times_from_mono)
  note new = limiter_run_new_window [OF _ Cons.prems(1) later(1)]
  show ?case
  proof (cases "map_of b ip")
    case None
    then show ?thesis using new [of ip b] by (simp add: limiter_def)
  next
    case (Some w)
    show ?thesis
    proof (cases "WINDOW_MS \<le> u - windowStartedAt w")
      case True
      then show ?thesis using new [of ip b] Some by (simp add: limiter_def)
    next
      case open_window: False
      show ?thesis
        using Cons.IH [OF Cons.prems(1) later(2,3), of b]
          Cons.IH [OF Cons.prems(1) later(2,3), of "map_set ip (w\<lparr>count := count w + 1\<rparr>) b"]
          Some open_window
        by (auto simp: limiter_def split: prod.splits)
    qed
  qed
qed

lemma ceil_seconds_bounds: "0 < ms \<Longrightarrow> ms \<le> 60000 \<Longrightarrow> 1 \<le> ceil_seconds ms \<and> ceil_seconds ms \<le> 60"
  using div_mult_mod_eq [of "- ms" 1000] pos_mod_bound [of 1000 "- ms"] pos_mod_sign [of 1000 "- ms"]
  unfolding ceil_seconds_def by linarith

lemma ceil_seconds_covers: "ms \<le> ceil_seconds ms * 1000"
  using div_mult_mod_eq [of "- ms" 1000] pos_mod_sign [of 1000 "- ms"]
  unfolding ceil_seconds_def by linarith

section \<open>TTL stores\<close>

text \<open>
  What the callers of an in-memory TTL cache rely on: a value just stored is returned while it is
  fresh, is never returned once it is older than its lifetime, and other keys are untouched.
\<close>

locale ttl_store =
  fixes put :: "'k \<Rightarrow> 'v \<Rightarrow> int \<Rightarrow> 's \<Rightarrow> 's"
    and get :: "'k \<Rightarrow> int \<Rightarrow> 's \<Rightarrow> 'v option"
    and ttl :: int
  assumes get_put_fresh: "t' < t + ttl \<Longrightarrow> get k t' (put k v t s) = Some v"
    and get_put_stale: "t + ttl < t' \<Longrightarrow> get k t' (put k v t s) = None"
    and get_put_same: "get k t' (put k v t s) = Some v' \<Longrightarrow> v' = v"
    and get_put_other: "k \<noteq> k' \<Longrightarrow> get k' t' (put k v t s) = get k' t' s"
begin

fun puts :: "('k \<times> 'v \<times> int) list \<Rightarrow> 's \<Rightarrow> 's" where
  "puts [] s = s"
| "puts ((k, v, t) # ps) s = puts ps (put k v t s)"

lemma puts_other: "k \<notin> fst ` set ps \<Longrightarrow> get k t' (puts ps s) = get k t' s"
  by (induction ps arbitrary: s) (auto simp: get_put_other)

lemma last_put_wins:
  assumes "k \<notin> fst ` set qs" "t' < t + ttl"
  shows "get k t' (puts (ps @ (k, v, t) # qs) s) = Some v"
  using assms(1)
proof (induction ps arbitrary: s)
  case Nil
  then show ?case using assms(2) by (simp add: puts_other get_put_fresh)
next
  case (Cons p ps)
  then show ?case by (cases p) simp
qed

lemma stale_put_forgotten:
  assumes "k \<notin> fst ` set qs" "t + ttl < t'"
  shows "get k t' (puts (ps @ (k, v, t) # qs) s) = None"
  using assms(1)
proof (induction ps arbitrary: s)
  case Nil
  then show ?case using assms(2) by (simp add: puts_other get_put_stale)
next
  case (Cons p ps)
  then show ?case by (cases p) simp
qed

lemma get_within_ttl:
  assumes "\<And>k. get k t' s0 = None" "get k t' (puts ps s0) = Some v"
  shows "\<exists>t. (k, v, t) \<in> set ps \<and> t' \<le> t + ttl"
  using assms(2)
proof (induction ps rule: rev_induct)
  case Nil
  then show ?case using assms(1) by simp
next
  case (snoc p ps)
  obtain k1 v1 t1 where p: "p = (k1, v1, t1)" by (cases p) auto
  have app: "puts (ps @ [p]) s0 = put k1 v1 t1 (puts ps s0)"
    by (induction ps arbitrary: s0) (auto simp: p)
  show ?case
  proof (cases "k1 = k")
    case True
    have "\<not> t1 + ttl < t'" using snoc.prems get_put_stale app True by fastforce
    moreover have "v = v1" using snoc.prems get_put_same app True by fastforce
    ultimately show ?thesis using p True by auto
  next
    case False
    then show ?thesis using snoc app by (auto simp: get_put_other)
  qed
qed

end


section \<open>Live cache\<close>

record 'a cache_entry =
  cached :: 'a
  expiresAtMs :: int

type_synonym 'a live_cache = "(string \<times> 'a cache_entry) list"

definition LIVE_CACHE_TTL_SECONDS :: int where
  "LIVE_CACHE_TTL_SECONDS = 300"

definition DEVICES_CACHE_TTL_SECONDS :: int where
  "DEVICES_CACHE_TTL_SECONDS = 900"

definition cacheKey :: "string \<Rightarrow> string \<Rightarrow> string" where
  "cacheKey workspaceSlug source = workspaceSlug @ '':'' @ source"

definition cache_lookup :: "string \<Rightarrow> int \<Rightarrow> 'a live_cache \<Rightarrow> 'a option" where
  "cache_lookup key now c =
     (case map_of c key of
        Some e \<Rightarrow> if now < expiresAtMs e then Some (cached e) else None
      | None \<Rightarrow> None)"

definition cache_store :: "int \<Rightarrow> string \<Rightarrow> 'a \<Rightarrow> int \<Rightarrow> 'a live_cache \<Rightarrow> 'a live_cache" where
  "cache_store ttlSeconds key data now c =
     map_set key \<lparr>cached = data, expiresAtMs = now + ttlSeconds * 1000\<rparr> c"

definition liveCacheGet :: "string \<Rightarrow> string \<Rightarrow> int \<Rightarrow> 'a live_cache \<Rightarrow> 'a option" where
  "liveCacheGet workspaceSlug source now c = cache_lookup (cacheKey workspaceSlug source) now c"

definition liveCacheSet :: "int \<Rightarrow> string \<Rightarrow> string \<Rightarrow> 'a \<Rightarrow> int \<Rightarrow> 'a live_cache \<Rightarrow> 'a live_cache" where
  "liveCacheSet ttlSeconds workspaceSlug source data now c =
     cache_store ttlSeconds (cacheKey workspaceSlug source) data now c"

definition liveCacheInvalidateSource :: "string \<Rightarrow> string \<Rightarrow> 'a live_cache \<Rightarrow> 'a live_cache" where
  "liveCacheInvalidateSource workspaceSlug source c = map_del (cacheKey workspaceSlug source) c"

definition liveCacheInvalidateWorkspace :: "string \<Rightarrow> 'a live_cache \<Rightarrow> 'a live_cache" where
  "liveCacheInvalidateWorkspace workspaceSlug c =
     filter (\<lambda>p. \<not> startsWith (fst p) (workspaceSlug @ '':'')) c"

interpretation live: ttl_store "cache_store ttlSeconds" cache_lookup "ttlSeconds * 1000" for ttlSeconds
  by unfold_locales (auto simp: cache_store_def cache_lookup_def split: if_splits)

lemma cache_lookup_invalidated:
  "cache_lookup key now (liveCacheInvalidateWorkspace slug c) =
     (if startsWith key (slug @ '':'') then None else cache_lookup key now c)"
  using map_of_filter_key [of "\<lambda>k. \<not> startsWith k (slug @ '':'')" c key]
  by (auto simp: cache_lookup_def liveCacheInvalidateWorkspace_def)

lemma prefix_colon:
  "CHR '':'' \<notin> set a \<Longrightarrow> CHR '':'' \<notin> set b \<Longrightarrow> prefix (a @ '':'') (b @ '':'' @ s) \<longleftrightarrow> a = b"
  by (induction a arbitrary: b) (case_tac b; auto)+

section \<open>Job runner and its reentrancy guard\<close>

definition tryAcquireJobSlot :: "string \<Rightarrow> string list \<Rightarrow> bool \<times> string list" where
  "tryAcquireJobSlot jobKey running =
     (if jobKey \<in> set running then (False, running) else (True, running @ [jobKey]))"

definition releaseJobSlot :: "string \<Rightarrow> string list \<Rightarrow> string list" where
  "releaseJobSlot jobKey running = filter (\<lambda>k. k \<noteq> jobKey) running"

datatype heartbeat = HbOk string | HbError string string

text \<open>
  The job runner's state: the guard set, how many instances of each job are between the acquire and
  the release of \<open>runJobOnce\<close>, and the heartbeats written so far.
\<close>

record runner =
  runningJobKeys :: "string list"
  inFlight :: "string \<Rightarrow> nat"
  heartbeats :: "heartbeat list"

definition runner_init :: runner where
  "runner_init = \<lparr>runningJobKeys = [], inFlight = (\<lambda>_. 0), heartbeats = []\<rparr>"

definition runJobOnce_begin :: "string \<Rightarrow> runner \<Rightarrow> runner" where
  "runJobOnce_begin jobKey r =
     (case tryAcquireJobSlot jobKey (runningJobKeys r) of
        (False, _) \<Rightarrow> r
      | (True, running) \<Rightarrow>
          r\<lparr>runningJobKeys := running, inFlight := (inFlight r)(jobKey := Suc (inFlight r jobKey))\<rparr>)"

definition runJobOnce_end :: "string \<Rightarrow> string option \<Rightarrow> runner \<Rightarrow> runner" where
  "runJobOnce_end jobKey err r =
     r\<lparr>runningJobKeys := releaseJobSlot jobKey (runningJobKeys r),
       inFlight := (inFlight r)(jobKey := inFlight r jobKey - 1),
       heartbeats := heartbeats r @
         [case err of None \<Rightarrow> HbOk jobKey | Some e \<Rightarrow> HbError jobKey (take 300 e)]\<rparr>"

inductive runner_step :: "runner \<Rightarrow> runner \<Rightarrow> bool" where
  tick: "runner_step r (runJobOnce_begin jobKey r)"
| finish: "0 < inFlight r jobKey \<Longrightarrow> runner_step r (runJobOnce_end jobKey err r)"

inductive runner_reachable :: "runner \<Rightarrow> bool" where
  init: "runner_reachable runner_init"
| step: "runner_reachable r \<Longrightarrow> runner_step r r' \<Longrightarrow> runner_reachable r'"

inductive_cases runner_stepE: "runner_step r r'"

definition runner_inv :: "runner \<Rightarrow> bool" where
  "runner_inv r \<longleftrightarrow> (\<forall>k. inFlight r k = (if k \<in> set (runningJobKeys r) then 1 else 0))"

lemma runner_inv_init: "runner_inv runner_init"
  by (simp add: runner_inv_def runner_init_def)

lemma runner_inv_begin: "runner_inv r \<Longrightarrow> runner_inv (runJobOnce_begin k r)"
  by (auto simp: runner_inv_def runJobOnce_begin_def tryAcquireJobSlot_def split: if_splits)

lemma runner_inv_end: "runner_inv r \<Longrightarrow> 0 < inFlight r k \<Longrightarrow> runner_inv (runJobOnce_end k e r)"
  by (auto simp: runner_inv_def runJobOnce_end_def releaseJobSlot_def split: if_splits)

lemma runner_inv_step: "runner_step r r' \<Longrightarrow> runner_inv r \<Longrightarrow> runner_inv r'"
  by (auto elim!: runner_stepE intro: runner_inv_begin runner_inv_end)

lemma runner_inv_reachable: "runner_reachable r \<Longrightarrow> runner_inv r"
  by (induction rule: runner_reachable.induct) (auto intro: runner_inv_init runner_inv_step)

section \<open>Properties\<close>

text \<open>
  C29: Outbound rate limit. Over any run of \<open>consume\<close> calls whose clock never goes back, a new bucket
  grants at most its capacity plus rate times elapsed seconds, and its token count never leaves
  the range from 0 to the capacity.
\<close>
theorem bucket_never_overgrants:
  assumes "0 \<le> cap" "0 \<le> rate" "times_from t0 (map fst cs)" "\<forall>c\<in>set cs. 0 \<le> snd c"
    and "consume_run cs (new_bucket cap rate t0) = (granted, b')"
  shows "granted \<le> cap + rat_of_int (last (t0 # map fst cs) - t0) / 1000 * rate \<and>
    0 \<le> tokens b' \<and> tokens b' \<le> cap"
proof -
  have "bucket_ok (new_bucket cap rate t0)" using assms(1,2) by (simp add: bucket_ok_def new_bucket_def)
  note run = consume_run_balance [OF this _ assms(4,5)]
  have "capacity b' = cap" using consume_run_capacity [OF assms(5)] by (simp add: new_bucket_def)
  then show ?thesis using run assms(3) by (simp add: new_bucket_def bucket_ok_def)
qed

theorem bucket_never_overgrants_witness:
  "fst (consume_run [(0, 2), (500, 1), (1000, 2)] (new_bucket 2 1 0)) \<le> 3"
proof -
  have "consume_run [(0, 2), (500, 1), (1000, 2)] (new_bucket 2 1 0) =
      (2, \<lparr>capacity = 2, refillRatePerSec = 1, tokens = 1, lastRefill = 1000\<rparr>)"
    by (simp add: consume_def refill_def new_bucket_def Let_def)
  from bucket_never_overgrants [OF _ _ _ _ this] this show ?thesis by simp
qed

text \<open>
  The wait for a token ends. A poll loop that polls at least every 100 ms on a bucket with a
  positive rate and a capacity of at least one gets its token after at most 10 / rate + 1 polls.
\<close>
lemma waitForToken_returns:
  assumes "bucket_ok b" "1 \<le> capacity b" "0 < refillRatePerSec b"
    and "\<And>j. clock j + 100 \<le> clock (Suc j)" "lastRefill b + 100 \<le> clock 0"
    and "10 \<le> rat_of_nat (Suc n) * refillRatePerSec b"
  shows "\<exists>polls b'. waitForToken (Suc n) clock 0 1 b = Some (polls, b') \<and> polls \<le> n"
proof -
  have "1 \<le> tokens b + of_nat (Suc n) * (refillRatePerSec b / 10)"
    using assms(1,6) unfolding bucket_ok_def by linarith
  then show ?thesis
    using waitForToken_progress [where i = 0 and clock = clock and k = 1 and n = n] assms by auto
qed

theorem waitForToken_returns_witness:
  "\<exists>polls b'. waitForToken (Suc 1) (\<lambda>j. 100 * int j + 100) 0 1
     \<lparr>capacity = 1, refillRatePerSec = 5, tokens = 0, lastRefill = 0\<rparr> = Some (polls, b') \<and> polls \<le> 1"
  by (rule waitForToken_returns) (simp_all add: bucket_ok_def)

text \<open>
  Inbound rate limit. Of the requests one client sends within any span of 60 seconds, at most
  \<open>limit\<close> pass when the client has no window yet, and never more than twice the limit (a span can
  touch two fixed windows).
\<close>
lemma limiter_bounds_a_minute:
  assumes "0 < limit" "limiter_ok limit b" "times_from t ts" "\<forall>x\<in>set ts. x < t + WINDOW_MS"
  shows "fst (limiter_run limit ip ts b) \<le> (if map_of b ip = None then limit else 2 * limit)"
  using limiter_run_window [OF assms(1,3,4), of ip b] by (auto split: option.splits)

theorem limiter_bounds_a_minute_witness:
  "fst (limiter_run 2 ''a'' [0, 1, 2, 59999] []) \<le> 2"
  using limiter_bounds_a_minute [of 2 "[]" 0 "[0, 1, 2, 59999]" "''a''"]
  by (simp add: limiter_ok_def WINDOW_MS_def)

text \<open>
  A rejected request is told to retry in 1 to 60 seconds, by then its window has elapsed, and a
  request of another client is decided as if it had not happened.
\<close>
lemma limiter_retry_after:
  assumes "limiter limit ip now b = (TooMany s, b')" "\<And>w. map_of b ip = Some w \<Longrightarrow> windowStartedAt w \<le> now"
    and "0 < limit"
  shows "1 \<le> s \<and> s \<le> 60 \<and> fst (limiter limit ip (now + s * 1000) b') = Next \<and>
    (\<forall>jp t. limiter limit jp t b' = limiter limit jp t b)"
proof -
  obtain w where w: "map_of b ip = Some w" "now - windowStartedAt w < WINDOW_MS" "b' = b"
      "s = ceil_seconds (windowStartedAt w + WINDOW_MS - now)"
    using assms(1) by (auto simp: limiter_def split: option.splits if_splits)
  have "0 < windowStartedAt w + WINDOW_MS - now" "windowStartedAt w + WINDOW_MS - now \<le> 60000"
    using w assms(2) [OF w(1)] by (auto simp: WINDOW_MS_def)
  note bounds = ceil_seconds_bounds [OF this]
  have "windowStartedAt w + WINDOW_MS - now \<le> s * 1000"
    using w(4) ceil_seconds_covers by simp
  then have "fst (limiter limit ip (now + s * 1000) b) = Next"
    using w(1) by (simp add: limiter_def)
  then show ?thesis using bounds w by simp
qed

theorem limiter_retry_after_witness:
  "limiter 1 ''a'' 500 [(''a'', \<lparr>count = 1, windowStartedAt = 0\<rparr>)] =
     (TooMany 60, [(''a'', \<lparr>count = 1, windowStartedAt = 0\<rparr>)]) \<and>
   fst (limiter 1 ''a'' 60500 [(''a'', \<lparr>count = 1, windowStartedAt = 0\<rparr>)]) = Next"
proof -
  have step: "limiter 1 ''a'' 500 [(''a'', \<lparr>count = 1, windowStartedAt = 0\<rparr>)] =
     (TooMany 60, [(''a'', \<lparr>count = 1, windowStartedAt = 0\<rparr>)])"
    by (simp add: limiter_def WINDOW_MS_def ceil_seconds_def)
  show ?thesis using limiter_retry_after [OF step] step by simp
qed

text \<open>
  The live cache. After any series of stores, a lookup within the lifetime of the last store under
  its key returns exactly that data, one past it returns nothing, and invalidating a workspace
  forgets that workspace's entries and no other workspace's.
\<close>
lemma liveCache_last_store:
  fixes ws ws' src :: string and data :: 'a and secs t now :: int
  assumes "cacheKey ws src \<notin> fst ` set later" "CHR '':'' \<notin> set ws" "CHR '':'' \<notin> set ws'"
    and "c = live.puts secs (earlier @ (cacheKey ws src, data, t) # later) c0"
  shows "(now < t + secs * 1000 \<longrightarrow> liveCacheGet ws src now c = Some data) \<and>
    (t + secs * 1000 < now \<longrightarrow> liveCacheGet ws src now c = None) \<and>
    liveCacheGet ws src now (liveCacheInvalidateWorkspace ws' c) =
      (if ws' = ws then None else liveCacheGet ws src now c)"
  using live.last_put_wins [OF assms(1)] live.stale_put_forgotten [OF assms(1)]
    prefix_colon [OF assms(3,2), of src]
  by (auto simp: assms(4) liveCacheGet_def cache_lookup_invalidated startsWith_def cacheKey_def)

theorem liveCache_last_store_witness:
  "liveCacheGet ''acme'' ''devices'' 5
     (live.puts 300 ([] @ (cacheKey ''acme'' ''devices'', 7::nat, 0) # []) []) = Some 7"
  using liveCache_last_store [of "''acme''" "''devices''" "[]" "''beta''" _ 300 "[]" "7::nat" 0 "[]" 5] by simp

text \<open>
  Background jobs never overlap with themselves: in every reachable state of the job runner at most
  one instance of a job is in flight, exactly while its key is in the guard set, and a tick of a
  running job changes nothing.
\<close>
lemma jobs_exclusive:
  assumes "runner_reachable r"
  shows "inFlight r k \<le> 1 \<and> (inFlight r k = 1 \<longleftrightarrow> k \<in> set (runningJobKeys r)) \<and>
    (0 < inFlight r k \<longrightarrow> runJobOnce_begin k r = r) \<and>
    inFlight (runJobOnce_begin k r) k = 1 \<and>
    (0 < inFlight r k \<longrightarrow> inFlight (runJobOnce_begin k (runJobOnce_end k e r)) k = 1)"
  using runner_inv_reachable [OF assms] unfolding runner_inv_def
  by (auto simp: runJobOnce_begin_def runJobOnce_end_def tryAcquireJobSlot_def releaseJobSlot_def)

theorem jobs_exclusive_witness:
  "inFlight (runJobOnce_begin ''cves'' runner_init) ''cves'' = 1"
proof -
  have "runner_reachable (runJobOnce_begin ''cves'' runner_init)"
    by (rule runner_reachable.step [OF runner_reachable.init runner_step.tick])
  from jobs_exclusive [OF this, of "''cves''"] show ?thesis
    by (simp add: runJobOnce_begin_def tryAcquireJobSlot_def runner_init_def)
qed

end
