(* ===== verification/AppliveryApi.thy ===== *)
theory AppliveryApi
  imports Templates RateControl
begin

text \<open>
  The single path to the Applivery API: \<open>services/appliveryClient.ts\<close> (token bucket, then the call,
  then bounded retries on 429), \<open>utils/extractItems.ts\<close> (the list inside an answer) and
  \<open>services/appliveryPaginate.ts\<close> (the page walk). The remote API is a parameter: \<open>send n\<close> is the
  answer to the n-th attempt of a request, \<open>api page\<close> the answer for a page, \<open>None\<close> a network failure.
\<close>

record api_response =
  status :: nat
  body :: jsval
  retryAfter :: "string option"

section \<open>One request\<close>

definition retry_delay_ms :: "api_response \<Rightarrow> int option" where
  "retry_delay_ms r =
     map_option (\<lambda>s. s * 1000) (parseInt10 (case retryAfter r of Some h \<Rightarrow> h | None \<Rightarrow> ''2''))"

text \<open>
  \<open>request\<close>: \<open>clock n\<close> is the clock of the n-th attempt's token wait and \<open>fuel\<close> bounds its polls. The
  result holds the answer, the number of calls sent, the pauses before the retries and the bucket.
\<close>

fun request :: "nat \<Rightarrow> (nat \<Rightarrow> nat \<Rightarrow> int) \<Rightarrow> (nat \<Rightarrow> api_response) \<Rightarrow> nat \<Rightarrow> nat \<Rightarrow> token_bucket \<Rightarrow>
    (api_response \<times> nat \<times> int option list \<times> token_bucket) option" where
  "request fuel clock send n retries b =
     (case waitForToken fuel (clock n) 0 1 b of
        None \<Rightarrow> None
      | Some (_, b') \<Rightarrow>
          (let response = send n
           in if status response = 429 \<and> 0 < retries then
                (case request fuel clock send (Suc n) (retries - 1) b' of
                   None \<Rightarrow> None
                 | Some (r, sent, pauses, b'') \<Rightarrow> Some (r, Suc sent, retry_delay_ms response # pauses, b''))
              else Some (response, 1, [], b')))"

declare request.simps [simp del]

lemma request_final:
  assumes "waitForToken fuel (clock n) 0 1 b = Some (i, b1)" "\<not> (status (send n) = 429 \<and> 0 < retries)"
  shows "request fuel clock send n retries b = Some (send n, 1, [], b1)"
  using assms(2) unfolding request.simps [of fuel clock send n retries b] assms(1)
  by (simp only: option.case prod.case Let_def if_False)

lemma request_retry:
  assumes "waitForToken fuel (clock n) 0 1 b = Some (i, b1)" "status (send n) = 429" "0 < retries"
  shows "request fuel clock send n retries b =
    map_option (\<lambda>(r, sent, pauses, b''). (r, Suc sent, retry_delay_ms (send n) # pauses, b''))
      (request fuel clock send (Suc n) (retries - 1) b1)"
  using assms(2,3) unfolding request.simps [of fuel clock send n retries b] assms(1)
  by (simp add: Let_def split: option.splits)

lemma request_attempts:
  assumes "request fuel clock send n retries b = Some (r, sent, pauses, b')"
  shows "0 < sent \<and> sent \<le> Suc retries \<and> length pauses = sent - 1 \<and> r = send (n + sent - 1) \<and>
    (\<forall>i<sent - 1. status (send (n + i)) = 429) \<and> (status r = 429 \<longrightarrow> sent = Suc retries)"
  using assms
proof (induction fuel clock send n retries b arbitrary: r sent pauses b' rule: request.induct)
  case (1 fuel clock send n retries b)
  obtain i b1 where tok: "waitForToken fuel (clock n) 0 1 b = Some (i, b1)"
    using "1.prems" by (subst (asm) request.simps) (auto split: option.splits)
  show ?case
  proof (cases "status (send n) = 429 \<and> 0 < retries")
    case False
    then show ?thesis using "1.prems" request_final [where clock = clock and n = n and send = send, OF tok False] by auto
  next
    case True
    then obtain sent1 pauses1
      where rec: "request fuel clock send (Suc n) (retries - 1) b1 = Some (r, sent1, pauses1, b')"
        and s: "sent = Suc sent1" "pauses = retry_delay_ms (send n) # pauses1"
      using "1.prems" request_retry [where clock = clock and n = n, OF tok, of send retries] by auto
    have IH: "0 < sent1 \<and> sent1 \<le> Suc (retries - 1) \<and> length pauses1 = sent1 - 1 \<and>
        r = send (Suc n + sent1 - 1) \<and> (\<forall>i<sent1 - 1. status (send (Suc n + i)) = 429) \<and>
        (status r = 429 \<longrightarrow> sent1 = Suc (retries - 1))"
      using "1.IH" [OF tok] True rec by blast
    have sends: "status (send (n + i)) = 429" if "i < sent1" for i
    proof (cases i)
      case 0
      then show ?thesis using True by simp
    next
      case (Suc j)
      then have "j < sent1 - 1" using that by simp
      then have "status (send (Suc n + j)) = 429" using IH by blast
      then show ?thesis using Suc by simp
    qed
    have "r = send (n + sent - 1)" "length pauses = sent - 1" "sent \<le> Suc retries"
      using IH True s by auto
    moreover have "status r = 429 \<longrightarrow> sent = Suc retries" using IH True s by auto
    ultimately show ?thesis using sends s by simp
  qed
qed

section \<open>The list inside an answer\<close>

definition extractItems :: "jsval \<Rightarrow> jsval list" where
  "extractItems data =
     (case data of
        JObj fs \<Rightarrow>
          (case own_prop data ''items'' of
             JArr xs \<Rightarrow> xs
           | _ \<Rightarrow>
               if has_prop data ''data'' then
                 (case own_prop data ''data'' of
                    JObj gs \<Rightarrow> (case own_prop (JObj gs) ''items'' of JArr ys \<Rightarrow> ys | _ \<Rightarrow> [])
                  | JArr ys \<Rightarrow> ys
                  | _ \<Rightarrow> [])
               else [])
      | JArr xs \<Rightarrow> xs
      | _ \<Rightarrow> [])"

section \<open>The page walk\<close>

datatype fetch_error = FetchHttp http_error | FetchNetwork

datatype page_log = PageFailed nat nat | CeilingHit nat

definition page_hasNext :: "jsval \<Rightarrow> bool" where
  "page_hasNext data =
     (let d = (case data of JObj _ \<Rightarrow> coalesce (own_prop data ''data'') data | _ \<Rightarrow> data)
      in case d of JObj _ \<Rightarrow> truthy (own_prop d ''hasNextPage'') | _ \<Rightarrow> False)"

text \<open>
  \<open>fetchAllPages\<close> from \<open>page\<close> on, with the items and the error log collected so far. The loop ends
  because the page number grows towards \<open>maxPages\<close>.
\<close>

function fetch_pages :: "(nat \<Rightarrow> api_response option) \<Rightarrow> nat \<Rightarrow> nat \<Rightarrow> jsval list \<Rightarrow> page_log list \<Rightarrow>
    fetch_error + (jsval list \<times> page_log list)" where
  "fetch_pages api maxPages page allItems logs =
     (if maxPages < page then Inr (allItems, logs)
      else case api page of
        None \<Rightarrow> Inl FetchNetwork
      | Some res \<Rightarrow>
          if status res \<noteq> 200 then
            (if page = 1
             then Inl (FetchHttp (HttpError 502 (''Applivery API returned '' @ show_nat (status res) @ '': '' @
                    take 300 (stringified (body res)))))
             else Inr (allItems, logs @ [PageFailed page (status res)]))
          else
            (let items = extractItems (body res)
             in if items = [] then Inr (allItems, logs)
                else if \<not> page_hasNext (body res) then Inr (allItems @ items, logs)
                else fetch_pages api maxPages (Suc page) (allItems @ items)
                       (if page = maxPages then logs @ [CeilingHit maxPages] else logs)))"
  by pat_completeness auto
termination
  by (relation "measure (\<lambda>(api, maxPages, page, acc, logs). Suc maxPages - page)") auto

declare fetch_pages.simps [simp del]

definition fetchAllPages :: "(nat \<Rightarrow> api_response option) \<Rightarrow> nat \<Rightarrow>
    fetch_error + (jsval list \<times> page_log list)" where
  "fetchAllPages api maxPages = fetch_pages api maxPages 1 [] []"

section \<open>How a page walk ends\<close>

text \<open>The pages as the remote side answers them, apart from what the walk does with them.\<close>

definition page_of :: "(nat \<Rightarrow> api_response option) \<Rightarrow> nat \<Rightarrow> jsval list" where
  "page_of api p = (case api p of Some res \<Rightarrow> extractItems (body res) | None \<Rightarrow> [])"

definition page_status :: "(nat \<Rightarrow> api_response option) \<Rightarrow> nat \<Rightarrow> nat option" where
  "page_status api p = map_option status (api p)"

definition announces_next :: "(nat \<Rightarrow> api_response option) \<Rightarrow> nat \<Rightarrow> bool" where
  "announces_next api p = (case api p of Some res \<Rightarrow> page_hasNext (body res) | None \<Rightarrow> False)"

text \<open>A page after which the walk has to go on: items, and a next page announced.\<close>

definition full_page :: "(nat \<Rightarrow> api_response option) \<Rightarrow> nat \<Rightarrow> bool" where
  "full_page api p \<longleftrightarrow> page_status api p = Some 200 \<and> page_of api p \<noteq> [] \<and> announces_next api p"

definition items_upto :: "(nat \<Rightarrow> api_response option) \<Rightarrow> nat \<Rightarrow> jsval list" where
  "items_upto api n = concat (map (page_of api) [1..<Suc n])"

text \<open>
  The endings of a walk at page \<open>n\<close>, all pages before it being full: the last page; an empty page (the end of the list,
  or a truncation nobody is told of when that page announces a next one); a later page refused; the ceiling; and the
  two errors, page 1 refused and no answer at all.
\<close>

inductive walk_ends :: "(nat \<Rightarrow> api_response option) \<Rightarrow> nat \<Rightarrow> nat \<Rightarrow> fetch_error + (jsval list \<times> page_log list) \<Rightarrow> bool"
  for api :: "nat \<Rightarrow> api_response option" and maxPages :: nat where
  last_page: "page_status api n = Some 200 \<Longrightarrow> \<not> announces_next api n \<Longrightarrow> walk_ends api maxPages n (Inr (items_upto api n, []))"
| empty_page: "page_status api n = Some 200 \<Longrightarrow> page_of api n = [] \<Longrightarrow> walk_ends api maxPages n (Inr (items_upto api n, []))"
| refused: "page_status api n = Some code \<Longrightarrow> code \<noteq> 200 \<Longrightarrow> 1 < n \<Longrightarrow>
    walk_ends api maxPages n (Inr (items_upto api (n - 1), [PageFailed n code]))"
| ceiling: "n = maxPages \<Longrightarrow> full_page api n \<Longrightarrow> walk_ends api maxPages n (Inr (items_upto api n, [CeilingHit maxPages]))"
| first_refused: "api n = Some res \<Longrightarrow> status res \<noteq> 200 \<Longrightarrow> n = 1 \<Longrightarrow>
    walk_ends api maxPages n (Inl (FetchHttp (HttpError 502 (''Applivery API returned '' @ show_nat (status res) @ '': '' @
      take 300 (stringified (body res))))))"
| no_answer: "api n = None \<Longrightarrow> walk_ends api maxPages n (Inl FetchNetwork)"

lemma items_upto_Suc: "0 < n \<Longrightarrow> items_upto api n = items_upto api (n - 1) @ page_of api n"
  by (cases n) (simp_all add: items_upto_def)

lemma fetch_pages_past: "maxPages < page \<Longrightarrow> fetch_pages api maxPages page acc logs = Inr (acc, logs)"
  by (simp add: fetch_pages.simps [of api maxPages page])

lemma fetch_pages_ends:
  assumes "0 < page" "page \<le> maxPages" "\<forall>p\<in>{1..<page}. full_page api p"
  shows "\<exists>n\<in>{page..maxPages}. (\<forall>p\<in>{1..<n}. full_page api p) \<and>
    walk_ends api maxPages n (fetch_pages api maxPages page (items_upto api (page - 1)) [])"
  using assms
proof (induction "maxPages - page" arbitrary: page rule: less_induct)
  case less
  note unfold = fetch_pages.simps [of api maxPages page]
  have here: "\<exists>n\<in>{page..maxPages}. (\<forall>p\<in>{1..<n}. full_page api p) \<and> walk_ends api maxPages n r"
    if "walk_ends api maxPages page r" for r using that less.prems by auto
  show ?case
  proof (cases "api page")
    case None
    then have "fetch_pages api maxPages page (items_upto api (page - 1)) [] = Inl FetchNetwork"
      using less.prems(2) by (simp add: unfold)
    then show ?thesis using here [OF walk_ends.no_answer [where api = api and n = page, OF None]] by simp
  next
    case (Some res)
    have status: "page_status api page = Some (status res)" and items: "page_of api page = extractItems (body res)"
      and next_page: "announces_next api page = page_hasNext (body res)"
      using Some by (simp_all add: page_status_def page_of_def announces_next_def)
    have upto: "items_upto api page = items_upto api (page - 1) @ extractItems (body res)"
      using items_upto_Suc [OF less.prems(1), of api] items by simp
    have full: "full_page api page \<longleftrightarrow> status res = 200 \<and> extractItems (body res) \<noteq> [] \<and> page_hasNext (body res)"
      using status items next_page by (simp add: full_page_def)
    consider "status res \<noteq> 200" "page = 1" | "status res \<noteq> 200" "1 < page" | "status res = 200" "extractItems (body res) = []"
      | "status res = 200" "extractItems (body res) \<noteq> []" "\<not> page_hasNext (body res)"
      | "full_page api page" "page = maxPages" | "full_page api page" "page < maxPages"
      using less.prems(1,2) full by (cases "page = 1"; cases "page = maxPages") fastforce+
    then show ?thesis
    proof cases
      case 1
      then show ?thesis unfolding unfold using here [OF walk_ends.first_refused [where api = api and n = page, OF Some]] less.prems(2) Some by simp
    next
      case 2
      then show ?thesis unfolding unfold using here [OF walk_ends.refused [where api = api and n = page, OF status]] less.prems(2) Some by simp
    next
      case 3
      then show ?thesis unfolding unfold using here [OF walk_ends.empty_page] status items less.prems(2) Some upto by simp
    next
      case 4
      then show ?thesis unfolding unfold using here [OF walk_ends.last_page] status next_page less.prems(2) Some upto by simp
    next
      case 5
      then show ?thesis unfolding unfold using here [OF walk_ends.ceiling] full Some upto by (simp add: fetch_pages_past)
    next
      case 6
      have "fetch_pages api maxPages page (items_upto api (page - 1)) [] = fetch_pages api maxPages (Suc page) (items_upto api page) []"
        unfolding unfold using 6 full Some upto by simp
      moreover have "\<forall>p\<in>{1..<Suc page}. full_page api p" using less.prems(3) 6(1) by (auto simp: less_Suc_eq)
      ultimately show ?thesis using less.hyps [of "Suc page"] 6(2) less.prems(1) by fastforce
    qed
  qed
qed

section \<open>Properties\<close>

text \<open>
  One call to the Applivery API sends at most four requests: it retries on 429 only, waits once per
  retry, returns the answer of its last attempt, and returns a 429 only after all four attempts
  were answered 429.
\<close>
lemma request_bounded:
  assumes "request fuel clock send 0 3 b = Some (r, sent, pauses, b')"
  shows "1 \<le> sent \<and> sent \<le> 4 \<and> length pauses = sent - 1 \<and> r = send (sent - 1) \<and>
    (\<forall>i<sent - 1. status (send i) = 429) \<and>
    (status r = 429 \<longrightarrow> sent = 4 \<and> (\<forall>i<4. status (send i) = 429))"
proof -
  have four: "Suc 3 = 4" by simp
  have a: "0 < sent" "sent \<le> 4" "length pauses = sent - 1" "r = send (sent - 1)"
      "\<forall>i<sent - 1. status (send i) = 429" "status r = 429 \<Longrightarrow> sent = 4"
    using request_attempts [OF assms] four unfolding add_0 by metis+
  have "status (send i) = 429" if "status r = 429" "i < 4" for i
  proof (cases "i < sent - 1")
    case False
    then have "i = sent - 1" using a(6) [OF that(1)] that(2) by linarith
    then show ?thesis using a(4) that(1) by (simp only:)
  qed (use a(5) in blast)
  moreover have "1 \<le> sent" using a(1) by linarith
  ultimately show ?thesis using a by blast
qed

theorem request_bounded_witness:
  "\<exists>r pauses b'. request 1 (\<lambda>_ _. 0) (\<lambda>n. \<lparr>status = if n = 0 then 429 else 200, body = JNull, retryAfter = Some ''7''\<rparr>)
     0 3 (new_bucket 5 1 0) = Some (r, 2, pauses, b') \<and> length pauses = 1 \<and> status r = 200 \<and> (2::nat) \<le> 4"
proof -
  let ?send = "\<lambda>n::nat. \<lparr>status = if n = 0 then 429 else 200, body = JNull, retryAfter = Some ''7''\<rparr>"
  let ?b = "\<lambda>k. \<lparr>capacity = 5, refillRatePerSec = 1, tokens = k, lastRefill = 0\<rparr>"
  have tok: "waitForToken 1 (\<lambda>_. 0) 0 1 (new_bucket 5 1 0) = Some (0, ?b 4)"
      "waitForToken 1 (\<lambda>_. 0) 0 1 (?b 4) = Some (0, ?b 3)"
    by (simp_all add: consume_def refill_def new_bucket_def)
  have run: "request 1 (\<lambda>_ _. 0) ?send 0 3 (new_bucket 5 1 0) =
      Some (?send 1, 2, [retry_delay_ms (?send 0)], ?b 3)"
    using request_retry [where clock = "\<lambda>_ _. 0" and n = 0 and send = ?send, OF tok(1)]
      request_final [where clock = "\<lambda>_ _. 0" and n = 1 and send = ?send and retries = 2, OF tok(2)]
    by (simp add: numeral_2_eq_2)
  from request_bounded [OF run] run show ?thesis by auto
qed

text \<open>
  C32: A page walk ends within its ceiling in one of six ways. It stops at the first page \<open>n\<close> that is not full: at a last page it returns the items of pages 1 to \<open>n\<close> and logs nothing;
  at a refused page after the first, or at the ceiling, it returns the items so far and logs exactly that; page 1
  refused is the error 502, and a page with no answer an error at any position. An empty page ends the walk with
  the items so far and no log, also when it announces a next page.
\<close>
theorem fetchAllPages_endings:
  assumes "0 < maxPages"
  shows "\<exists>n\<in>{1..maxPages}. (\<forall>p\<in>{1..<n}. full_page api p) \<and> walk_ends api maxPages n (fetchAllPages api maxPages)"
  using fetch_pages_ends [of 1 maxPages api] assms by (simp add: fetchAllPages_def items_upto_def)

theorem fetchAllPages_endings_witness:
  "\<exists>n\<in>{1..5}. walk_ends (\<lambda>p. Some \<lparr>status = if p = 3 then 500 else 200,
      body = JObj [(''items'', JArr [jint (int p)]), (''hasNextPage'', JBool True)], retryAfter = None\<rparr>) 5 n
     (Inr ([jint 1, jint 2], [PageFailed 3 500]))"
proof -
  let ?api = "\<lambda>p::nat. Some \<lparr>status = if p = 3 then 500 else 200,
      body = JObj [(''items'', JArr [jint (int p)]), (''hasNextPage'', JBool True)], retryAfter = None\<rparr>"
  have "fetchAllPages ?api 5 = Inr ([jint 1, jint 2], [PageFailed 3 500])" by code_simp
  then show ?thesis using fetchAllPages_endings [of 5 ?api] by auto
qed

text \<open>
  The walk cut short in silence: page 2 is empty and announces a third page, and the caller gets the items of page 1
  with no error and no log.
\<close>

lemma empty_page_truncates:
  "fetchAllPages (\<lambda>p. Some \<lparr>status = 200, body = JObj [(''items'', JArr (if p = 2 then [] else [jint (int p)])),
      (''hasNextPage'', JBool True)], retryAfter = None\<rparr>) 100 = Inr ([jint 1], [])"
  by code_simp

end
