(* ===== verification/AuditLog.thy ===== *)
theory AuditLog
  imports Prelude
begin

text \<open>
  The audit log (\<open>services/auditLog.ts\<close>): every handler that changes a workspace appends an event here.
  The fan-out to log export destinations after the write is I/O whose failures the source swallows; it
  is not modelled.
\<close>

record audit_event =
  au_workspace :: string
  au_category :: string
  au_action :: string
  au_actor :: string
  au_targetType :: "string option"
  au_targetId :: "string option"
  au_targetName :: "string option"
  au_message :: string
  au_severity :: string

record audit_input =
  in_category :: string
  in_action :: string
  in_actor :: "string option"
  in_targetType :: "string option"
  in_targetId :: "string option"
  in_targetName :: "string option"
  in_message :: string
  in_severity :: "string option"

definition recordAuditEvent :: "string \<Rightarrow> audit_input \<Rightarrow> audit_event list \<Rightarrow> audit_event list" where
  "recordAuditEvent workspaceSlug event entries =
     entries @
       [\<lparr>au_workspace = workspaceSlug, au_category = in_category event, au_action = in_action event,
         au_actor = (case in_actor event of Some a \<Rightarrow> a | None \<Rightarrow> ''unknown''),
         au_targetType = in_targetType event, au_targetId = in_targetId event,
         au_targetName = in_targetName event, au_message = in_message event,
         au_severity = (case in_severity event of Some s \<Rightarrow> s | None \<Rightarrow> ''info'')\<rparr>]"

text \<open>An event about one target; the severity is given where the handler gives one.\<close>

definition audit_about :: "string \<Rightarrow> string \<Rightarrow> string \<Rightarrow> string \<Rightarrow> string \<Rightarrow> string \<Rightarrow> string \<Rightarrow> string option \<Rightarrow> audit_input" where
  "audit_about category action actor targetType targetId targetName message severity =
     \<lparr>in_category = category, in_action = action, in_actor = Some actor, in_targetType = Some targetType,
      in_targetId = Some targetId, in_targetName = Some targetName, in_message = message,
      in_severity = severity\<rparr>"

definition quoted :: "string \<Rightarrow> string" where
  "quoted s = CHR 0x22 # s @ [CHR 0x22]"

lemma recordAuditEvent_grows: "prefix entries (recordAuditEvent ws ev entries)"
  by (simp add: recordAuditEvent_def)

lemma recordAuditEvent_filter:
  "filter P (recordAuditEvent ws ev entries) = filter P entries @ filter P (recordAuditEvent ws ev [])"
  by (simp add: recordAuditEvent_def)

end
