(* ===== verification/Rbac.thy ===== *)
theory Rbac
  imports AppliveryApi AuditLog
begin

text \<open>
  Access control: the decision for a signed-in collaborator (\<open>modules/auth/rbac.service.ts\<close>), its
  in-memory cache and the per-endpoint permission check (\<open>middleware/rbac.middleware.ts\<close>), and the
  role table with the access probe (\<open>modules/roles/roles.service.ts\<close>). The Applivery collaborator
  endpoints are parameters. Feature levels and risky actions keep the JSON shape of the role row: any
  string can be stored as a level, as the role payload schema allows.
\<close>

section \<open>Roles, options and decisions\<close>

record soar_role =
  role_id :: string
  role_workspace :: string
  role_name :: string
  role_description :: string
  featureAccess :: "(string \<times> string) list"
  riskyActions :: "(string \<times> bool) list"
  appliveryTagValues :: "string list"
  role_segmentIds :: "string list"

definition SOAR_FEATURE_AREAS :: "string list" where
  "SOAR_FEATURE_AREAS =
     [''devices'', ''compliance'', ''workflows'', ''cases'', ''integrations'', ''reporting'',
      ''settings'', ''auditLog'']"

definition SOAR_RISKY_ACTIONS :: "string list" where
  "SOAR_RISKY_ACTIONS =
     [''canDeletePolicyOrWorkflow'', ''canRunDestructiveWorkflow'', ''canEditIntegrationSecrets'',
      ''canExportOrImportConfig'', ''canBulkTriage'', ''canManageMtlsCA'']"

definition FEATURE_ACCESS_LEVELS :: "(string \<times> nat) list" where
  "FEATURE_ACCESS_LEVELS = [(''none'', 0), (''read'', 1), (''manage'', 2)]"

record resolved_access =
  allowed :: bool
  isSuperAdmin :: bool
  access_role :: "soar_role option"
  collaboratorRole :: "string option"
  matchedTagValue :: "string option"
  deniedReason :: "string option"

section \<open>The access cache\<close>

type_synonym access_cache = "(string \<times> (int \<times> resolved_access)) list"

definition ACCESS_CACHE_TTL_MS :: int where
  "ACCESS_CACHE_TTL_MS = 12 * 60 * 60 * 1000"

definition accessKey :: "string \<Rightarrow> string \<Rightarrow> string" where
  "accessKey workspaceSlug email = workspaceSlug @ '':'' @ toLowerCase email"

definition access_lookup :: "string \<Rightarrow> int \<Rightarrow> access_cache \<Rightarrow> resolved_access option" where
  "access_lookup key now c =
     (case map_of c key of
        None \<Rightarrow> None
      | Some (resolvedAtMs, access) \<Rightarrow>
          if ACCESS_CACHE_TTL_MS < now - resolvedAtMs then None else Some access)"

definition access_store :: "string \<Rightarrow> resolved_access \<Rightarrow> int \<Rightarrow> access_cache \<Rightarrow> access_cache" where
  "access_store key access now c = map_set key (now, access) c"

definition getCachedAccess :: "string \<Rightarrow> string \<Rightarrow> int \<Rightarrow> access_cache \<Rightarrow> resolved_access option" where
  "getCachedAccess workspaceSlug email now c = access_lookup (accessKey workspaceSlug email) now c"

definition setCachedAccess :: "string \<Rightarrow> string \<Rightarrow> resolved_access \<Rightarrow> int \<Rightarrow> access_cache \<Rightarrow> access_cache" where
  "setCachedAccess workspaceSlug email access now c =
     access_store (accessKey workspaceSlug email) access now c"

interpretation access: ttl_store access_store access_lookup ACCESS_CACHE_TTL_MS
  by unfold_locales (auto simp: access_store_def access_lookup_def split: if_splits)

section \<open>The permission check of an endpoint\<close>

record permission_options =
  opt_area :: "string option"
  opt_level :: "string option"
  opt_action :: "string option"
  superAdminOnly :: bool

datatype permission = Permitted | Denied nat string

definition roleFeatureLevel :: "soar_role option \<Rightarrow> string \<Rightarrow> string" where
  "roleFeatureLevel role area =
     (case role of
        None \<Rightarrow> ''none''
      | Some r \<Rightarrow> (case map_of (featureAccess r) area of Some l \<Rightarrow> l | None \<Rightarrow> ''none''))"

text \<open>\<open>have < need\<close> on table lookups: a missing entry is \<open>undefined\<close>, and comparing it is false.\<close>

definition level_below :: "string \<Rightarrow> string \<Rightarrow> bool" where
  "level_below have_level need_level =
     (case (map_of FEATURE_ACCESS_LEVELS have_level, map_of FEATURE_ACCESS_LEVELS need_level) of
        (Some h, Some n) \<Rightarrow> h < n
      | _ \<Rightarrow> False)"

definition required_level :: "permission_options \<Rightarrow> string" where
  "required_level opts = (case opt_level opts of Some l \<Rightarrow> l | None \<Rightarrow> ''read'')"

abbreviation the_text :: "string option \<Rightarrow> string" where
  "the_text t \<equiv> (case t of Some s \<Rightarrow> s | None \<Rightarrow> ''undefined'')"

definition area_denied :: "permission_options \<Rightarrow> soar_role option \<Rightarrow> bool" where
  "area_denied opts role =
     (case opt_area opts of
        None \<Rightarrow> False
      | Some area \<Rightarrow>
          level_below (roleFeatureLevel role area) (required_level opts))"

definition action_denied :: "permission_options \<Rightarrow> soar_role option \<Rightarrow> bool" where
  "action_denied opts role =
     (case opt_action opts of
        None \<Rightarrow> False
      | Some action \<Rightarrow>
          (case role of
             None \<Rightarrow> True
           | Some r \<Rightarrow> map_of (riskyActions r) action \<noteq> Some True))"

definition requirePermission :: "permission_options \<Rightarrow> string option \<Rightarrow> string \<Rightarrow> int \<Rightarrow> access_cache \<Rightarrow> permission" where
  "requirePermission opts slugHeader email now c =
     (let workspaceSlug = (case slugHeader of Some s \<Rightarrow> if s = [] then ''global'' else s | None \<Rightarrow> ''global'')
      in case getCachedAccess workspaceSlug email now c of
           None \<Rightarrow> Denied 403 (''Access not resolved for this workspace yet '' @ em_dash @
                         '' switch workspace or sign in again to refresh permissions.'')
         | Some cached_access \<Rightarrow>
             if \<not> allowed cached_access then
               Denied 403 (case deniedReason cached_access of Some r \<Rightarrow> r
                           | None \<Rightarrow> ''No SOAR role assigned for this workspace.'')
             else if isSuperAdmin cached_access then Permitted
             else if superAdminOnly opts then 
               Denied 403 ''This action is restricted to the workspace Super Admin (the Applivery workspace Owner).''
             else if area_denied opts (access_role cached_access) then 
               Denied 403 (''Your role doesn't have '' @ required_level opts @ '' access to '' @ the_text (opt_area opts) @ ''.'')
             else if action_denied opts (access_role cached_access) then 
               Denied 403 (''Your role isn't permitted to perform this action ('' @ the_text (opt_action opts) @ '').'')
             else Permitted)"

section \<open>Tags and rank of a collaborator\<close>

definition COLLABORATOR_TAG_FIELD_CANDIDATES :: "string list" where
  "COLLABORATOR_TAG_FIELD_CANDIDATES =
     [''tags'', ''tag'', ''label'', ''labels'', ''group'', ''groups'', ''roleTag'', ''customTag'', ''segmentRole'']"

fun add_candidates :: "jsval list \<Rightarrow> string list \<Rightarrow> string list" where
  "add_candidates [] out = out"
| "add_candidates (c # cs) out =
     (let s = js_trim (to_string c)
      in add_candidates cs (if s \<noteq> [] \<and> s \<notin> set out then out @ [s] else out))"

fun tag_fields :: "jsval \<Rightarrow> string list \<Rightarrow> string list \<Rightarrow> string list" where
  "tag_fields raw [] out = out"
| "tag_fields raw (f # fs) out =
     (let v = own_prop raw f
      in tag_fields raw fs
           (if nullish v then out
            else add_candidates (case v of JArr xs \<Rightarrow> xs | _ \<Rightarrow> [v]) out))"

definition extractCollaboratorTagCandidates :: "jsval \<Rightarrow> string list" where
  "extractCollaboratorTagCandidates raw = tag_fields raw COLLABORATOR_TAG_FIELD_CANDIDATES []"

definition ROLE_PRIVILEGE_ORDER :: "string list" where
  "ROLE_PRIVILEGE_ORDER = [''owner'', ''admin'', ''editor'', ''viewer'', ''unassigned'']"

definition role_lower :: "jsval \<Rightarrow> string" where
  "role_lower role = toLowerCase (to_string (coalesce role (JStr [])))"

definition rolePrivilegeRank :: "jsval \<Rightarrow> nat" where
  "rolePrivilegeRank role =
     (case indexOf ROLE_PRIVILEGE_ORDER (role_lower role) of
        None \<Rightarrow> length ROLE_PRIVILEGE_ORDER | Some i \<Rightarrow> i)"

abbreviation rank_of :: "jsval \<Rightarrow> nat" where
  "rank_of c \<equiv> rolePrivilegeRank (own_prop c ''role'')"

definition better_collaborator :: "jsval \<Rightarrow> jsval \<Rightarrow> jsval" where
  "better_collaborator best cur = (if rank_of cur < rank_of best then cur else best)"

definition pickBestCollaborator :: "jsval list \<Rightarrow> jsval option" where
  "pickBestCollaborator candidates =
     (case candidates of [] \<Rightarrow> None | c # cs \<Rightarrow> Some (foldl better_collaborator c cs))"

section \<open>Finding the signed-in collaborator\<close>

text \<open>\<open>(i.email ?? i.user?.email ?? "").toLowerCase()\<close>; anything but a string there throws.\<close>

definition candidate_email :: "jsval \<Rightarrow> string result" where
  "candidate_email i =
     (if nullish i then throw 500 ''TypeError''
      else case coalesce (own_prop i ''email'') (coalesce (own_prop (own_prop i ''user'') ''email'') (JStr [])) of
             JStr s \<Rightarrow> Inr (toLowerCase s)
           | _ \<Rightarrow> throw 500 ''TypeError'')"

fun matching_collaborators :: "string \<Rightarrow> jsval list \<Rightarrow> jsval list result" where
  "matching_collaborators emailLower [] = Inr []"
| "matching_collaborators emailLower (i # is) =
     andThen (candidate_email i) (\<lambda>e.
       andThen (matching_collaborators emailLower is) (\<lambda>ms.
         Inr (if e = emailLower then i # ms else ms)))"

definition session_expired_error :: "'a result" where
  "session_expired_error = throw 401 (''Applivery session expired '' @ em_dash @ '' please sign in again.'')"

definition session_expired :: "api_response \<Rightarrow> bool" where
  "session_expired res = (status res = 401 \<or> status res = 403)"

definition container_hasNextPage :: "jsval \<Rightarrow> bool" where
  "container_hasNextPage data = truthy (own_prop (coalesce (own_prop data ''data'') data) ''hasNextPage'')"

text \<open>The unfiltered scan has no page ceiling: it runs while the API announces a next page. \<open>None\<close>
  is out of fuel.\<close>

fun scan_collaborators :: "nat \<Rightarrow> (nat \<Rightarrow> api_response) \<Rightarrow> string \<Rightarrow> nat \<Rightarrow> jsval list \<Rightarrow> jsval list result option" where
  "scan_collaborators 0 api emailLower page matches = None"
| "scan_collaborators (Suc fuel) api emailLower page matches =
     (let res = api page
      in if session_expired res then Some (session_expired_error)
         else if status res \<noteq> 200 then Some (Inr matches)
         else (case matching_collaborators emailLower (extractItems (body res)) of
                 Inl e \<Rightarrow> Some (Inl e)
               | Inr ms \<Rightarrow>
                   if container_hasNextPage (body res)
                   then scan_collaborators fuel api emailLower (Suc page) (matches @ ms)
                   else Some (Inr (matches @ ms))))"

definition findSelfCollaborator :: "nat \<Rightarrow> api_response \<Rightarrow> (nat \<Rightarrow> api_response) \<Rightarrow> string \<Rightarrow>
    jsval option result option" where
  "findSelfCollaborator fuel filtered api email =
     (let emailLower = toLowerCase email;
          scan = map_option (\<lambda>r. andThen r (\<lambda>ms. Inr (pickBestCollaborator ms)))
                   (scan_collaborators fuel api emailLower 1 [])
      in if emailLower = [] then Some (Inr None)
         else if session_expired filtered then Some (session_expired_error)
         else if status filtered = 200 then
           (case matching_collaborators emailLower (extractItems (body filtered)) of
              Inl e \<Rightarrow> Some (Inl e)
            | Inr ms \<Rightarrow> if ms \<noteq> [] then Some (Inr (pickBestCollaborator ms)) else scan)
         else scan)"

section \<open>The access decision\<close>

definition denied_access :: "string option \<Rightarrow> string \<Rightarrow> resolved_access" where
  "denied_access crole reason =
     \<lparr>allowed = False, isSuperAdmin = False, access_role = None, collaboratorRole = crole,
      matchedTagValue = None, deniedReason = Some reason\<rparr>"

definition role_tag_match :: "string list \<Rightarrow> soar_role \<Rightarrow> string option" where
  "role_tag_match tagCandidates role =
     List.find (\<lambda>tagValue. toLowerCase (js_trim tagValue) \<in> set tagCandidates) (appliveryTagValues role)"

fun match_roles :: "string list \<Rightarrow> soar_role list \<Rightarrow> (soar_role \<times> string) option" where
  "match_roles tagCandidates [] = None"
| "match_roles tagCandidates (r # rs) =
     (case role_tag_match tagCandidates r of
        Some t \<Rightarrow> Some (r, t)
      | None \<Rightarrow> match_roles tagCandidates rs)"

definition NO_ROLE_MAPPED :: string where
  "NO_ROLE_MAPPED =
     ''No SOAR Role is mapped to this collaborator's tag yet. Ask a Super Admin (the Applivery workspace Owner) to configure one under Settings > Roles.''"

definition decide_access :: "jsval option \<Rightarrow> soar_role list \<Rightarrow> resolved_access" where
  "decide_access collaborator roles =
     (case collaborator of
        None \<Rightarrow> denied_access None ''No Applivery Collaborator record found for this account in this workspace.''
      | Some c \<Rightarrow>
          (let crole = role_lower (own_prop c ''role'')
           in if crole = ''owner'' then
                \<lparr>allowed = True, isSuperAdmin = True, access_role = None, collaboratorRole = Some crole,
                 matchedTagValue = None, deniedReason = None\<rparr>
              else
                (case match_roles (map toLowerCase (extractCollaboratorTagCandidates c)) roles of
                   Some (role, tagValue) \<Rightarrow>
                     \<lparr>allowed = True, isSuperAdmin = False, access_role = Some role,
                      collaboratorRole = Some crole, matchedTagValue = Some tagValue, deniedReason = None\<rparr>
                 | None \<Rightarrow> denied_access (Some crole) NO_ROLE_MAPPED)))"

definition resolveSoarAccess :: "nat \<Rightarrow> api_response \<Rightarrow> (nat \<Rightarrow> api_response) \<Rightarrow> string \<Rightarrow> soar_role list \<Rightarrow>
    resolved_access result option" where
  "resolveSoarAccess fuel filtered api email roles =
     map_option (\<lambda>r. andThen r (\<lambda>c. Inr (decide_access c roles)))
       (findSelfCollaborator fuel filtered api email)"

text \<open>\<open>POST /api/auth/resolve-access\<close>: resolve, cache, return.\<close>

definition resolve_access_endpoint :: "nat \<Rightarrow> api_response \<Rightarrow> (nat \<Rightarrow> api_response) \<Rightarrow> string \<Rightarrow> string \<Rightarrow>
    soar_role list \<Rightarrow> int \<Rightarrow> access_cache \<Rightarrow> (resolved_access \<times> access_cache) result option" where
  "resolve_access_endpoint fuel filtered api workspaceSlug email roleTable now c =
     (let roles = filter (\<lambda>r. role_workspace r = workspaceSlug) roleTable
      in map_option (\<lambda>r. andThen r (\<lambda>a. Inr (a, setCachedAccess workspaceSlug email a now c)))
           (resolveSoarAccess fuel filtered api email roles))"

section \<open>The role table\<close>

definition listRoles :: "string \<Rightarrow> soar_role list \<Rightarrow> soar_role list" where
  "listRoles workspaceSlug roleTable = filter (\<lambda>r. role_workspace r = workspaceSlug) roleTable"

text \<open>The role table with the audit log; the id of a new row comes from the database.\<close>

type_synonym role_db = "soar_role list \<times> audit_event list"

definition createRole :: "string \<Rightarrow> soar_role \<Rightarrow> string \<Rightarrow> string \<Rightarrow> role_db \<Rightarrow> soar_role \<times> role_db" where
  "createRole workspaceSlug payload actorEmail newId db =
     (let created = payload\<lparr>role_id := newId, role_workspace := workspaceSlug\<rparr>
      in (created, fst db @ [created],
          recordAuditEvent workspaceSlug
            (audit_about ''settings'' ''role_created'' actorEmail ''role'' newId (role_name created)
              (''SOAR Role '' @ quoted (role_name created) @ '' created'') None) (snd db)))"

definition updateRole :: "string \<Rightarrow> string \<Rightarrow> soar_role \<Rightarrow> string \<Rightarrow> role_db \<Rightarrow> role_db result" where
  "updateRole workspaceSlug roleId payload actorEmail db =
     (case List.find (\<lambda>r. role_id r = roleId \<and> role_workspace r = workspaceSlug) (fst db) of
        None \<Rightarrow> throw 404 ''Role not found''
      | Some _ \<Rightarrow>
          Inr (upd_where (\<lambda>r. role_id r = roleId)
                 (\<lambda>r. payload\<lparr>role_id := role_id r, role_workspace := role_workspace r\<rparr>) (fst db),
               recordAuditEvent workspaceSlug
                 (audit_about ''settings'' ''role_updated'' actorEmail ''role'' roleId (role_name payload)
                   (''SOAR Role '' @ quoted (role_name payload) @ '' updated'') None) (snd db)))"

definition deleteRole :: "string \<Rightarrow> string \<Rightarrow> string \<Rightarrow> role_db \<Rightarrow> role_db" where
  "deleteRole workspaceSlug roleId actorEmail db =
     (case List.find (\<lambda>r. role_id r = roleId \<and> role_workspace r = workspaceSlug) (fst db) of
        None \<Rightarrow> db
      | Some existing \<Rightarrow>
          (del_where (\<lambda>r. role_id r = roleId) (fst db),
           recordAuditEvent workspaceSlug
             (audit_about ''settings'' ''role_deleted'' actorEmail ''role'' roleId (role_name existing)
               (''SOAR Role '' @ quoted (role_name existing) @ '' deleted'') (Some ''warning'')) (snd db)))"

section \<open>Lemmas\<close>

lemma rank_owner: "rank_of c = 0 \<longleftrightarrow> role_lower (own_prop c ''role'') = ''owner''"
  by (auto simp: rolePrivilegeRank_def ROLE_PRIVILEGE_ORDER_def)

lemma better_collaborator_min:
  "rank_of (better_collaborator a b) \<le> rank_of a" "rank_of (better_collaborator a b) \<le> rank_of b"
  "better_collaborator a b = a \<or> better_collaborator a b = b"
  by (auto simp: better_collaborator_def)

lemma foldl_better:
  "foldl better_collaborator c cs \<in> set (c # cs) \<and>
   (\<forall>x\<in>set (c # cs). rank_of (foldl better_collaborator c cs) \<le> rank_of x)"
proof (induction cs arbitrary: c)
  case Nil
  then show ?case by simp
next
  case (Cons d cs)
  note IH = Cons [of "better_collaborator c d"]
  show ?case
    using IH better_collaborator_min [of c d] by (auto intro: order.trans)
qed

lemma pickBest_minimal:
  assumes "pickBestCollaborator cs = Some b"
  shows "b \<in> set cs \<and> (\<forall>x\<in>set cs. rank_of b \<le> rank_of x)"
  using assms foldl_better by (auto simp: pickBestCollaborator_def split: list.splits)

lemma pickBest_None [simp]: "pickBestCollaborator cs = None \<longleftrightarrow> cs = []"
  by (auto simp: pickBestCollaborator_def split: list.splits)

lemma matching_collaborators_set:
  "matching_collaborators e is = Inr ms \<Longrightarrow> set ms = {i \<in> set is. candidate_email i = Inr e}"
  by (induction "is" arbitrary: ms) (auto elim!: andThen_InrE split: if_splits)

lemma match_roles_Some:
  "match_roles tags rs = Some (r, t) \<Longrightarrow>
     r \<in> set rs \<and> t \<in> set (appliveryTagValues r) \<and> toLowerCase (js_trim t) \<in> set tags"
  by (induction rs) (auto simp: role_tag_match_def split: option.splits dest: find_Some_in)

lemma match_roles_None:
  "match_roles tags rs = None \<longleftrightarrow>
     (\<forall>r\<in>set rs. \<forall>t\<in>set (appliveryTagValues r). toLowerCase (js_trim t) \<notin> set tags)"
  by (induction rs) (auto simp: role_tag_match_def find_None_all split: option.splits dest: find_Some_in)

lemma scan_returns:
  assumes "status (api N) \<noteq> 200 \<or> \<not> container_hasNextPage (body (api N))" "page \<le> N" "N - page < fuel"
  shows "\<exists>r. scan_collaborators fuel api e page ms = Some r"
  using assms
proof (induction fuel arbitrary: page ms)
  case 0
  then show ?case by simp
next
  case (Suc fuel)
  show ?case
  proof (cases "page = N")
    case True
    then show ?thesis using Suc.prems(1) by (auto simp: Let_def split: sum.splits)
  next
    case False
    then have "\<exists>r. scan_collaborators fuel api e (Suc page) x = Some r" for x
      using Suc.prems by (intro Suc.IH) auto
    then show ?thesis by (auto simp: Let_def split: sum.splits)
  qed
qed

section \<open>Properties\<close>

text \<open>
  C15: The decision fails closed. Access is granted only to a collaborator record of the signed-in email
  whose Applivery role is owner, or one of whose tags is, up to case and blanks, a tag value of a
  role of this very workspace; the granted role is that role. Everything else is denied with a reason.
\<close>
theorem access_fails_closed:
  assumes "resolve_access_endpoint fuel filtered api ws email roleTable now c = Some (Inr (a, c'))"
  shows "if allowed a then
      \<exists>col. findSelfCollaborator fuel filtered api email = Some (Inr (Some col)) \<and>
        (if isSuperAdmin a then role_lower (own_prop col ''role'') = ''owner'' \<and> access_role a = None
         else \<exists>r t. access_role a = Some r \<and> r \<in> set roleTable \<and> role_workspace r = ws \<and>
           t \<in> set (appliveryTagValues r) \<and>
           toLowerCase (js_trim t) \<in> toLowerCase ` set (extractCollaboratorTagCandidates col))
    else \<not> isSuperAdmin a \<and> access_role a = None \<and> deniedReason a \<noteq> None"
proof -
  obtain col where col: "findSelfCollaborator fuel filtered api email = Some (Inr col)"
      "a = decide_access col (filter (\<lambda>r. role_workspace r = ws) roleTable)"
    using assms by (auto simp: resolve_access_endpoint_def resolveSoarAccess_def elim!: andThen_InrE)
  show ?thesis
    using col by (cases col)
      (auto simp: decide_access_def denied_access_def Let_def split: option.splits dest!: match_roles_Some)
qed

text \<open>
  The owner is never locked out by record order: whenever the scan of the collaborator list finds an
  owner record of the signed-in email, the decision is super admin, wherever the record stands and
  whatever other records share the email.
\<close>
lemma owner_always_admitted:
  assumes "status filtered = 200" "\<not> session_expired filtered" "toLowerCase email \<noteq> []"
    and "matching_collaborators (toLowerCase email) (extractItems (body filtered)) = Inr ms"
    and "col \<in> set (extractItems (body filtered))" "candidate_email col = Inr (toLowerCase email)"
    and "role_lower (own_prop col ''role'') = ''owner''"
  shows "\<exists>a c'. resolve_access_endpoint fuel filtered api ws email roleTable now c = Some (Inr (a, c')) \<and>
    isSuperAdmin a \<and> allowed a"
proof -
  have "col \<in> set ms" using matching_collaborators_set [OF assms(4)] assms(5,6) by auto
  then obtain b where b: "pickBestCollaborator ms = Some b" by (cases "pickBestCollaborator ms") auto
  have "rank_of b \<le> rank_of col" using pickBest_minimal [OF b] \<open>col \<in> set ms\<close> by blast
  then have "role_lower (own_prop b ''role'') = ''owner''" using assms(7) rank_owner by (metis le_zero_eq)
  moreover have "findSelfCollaborator fuel filtered api email = Some (Inr (Some b))"
    using assms(1-4) b \<open>col \<in> set ms\<close> by (auto simp: findSelfCollaborator_def Let_def)
  ultimately show ?thesis
    by (simp add: resolve_access_endpoint_def resolveSoarAccess_def decide_access_def Let_def)
qed

theorem owner_always_admitted_witness:
  "\<exists>a c'. resolve_access_endpoint 1
     \<lparr>status = 200, body = JObj [(''items'', JArr
        [JObj [(''email'', JStr ''Ann@x.io''), (''role'', JStr ''viewer'')],
         JObj [(''email'', JStr ''ann@x.io''), (''role'', JStr ''Owner'')]])], retryAfter = None\<rparr>
     (\<lambda>_. \<lparr>status = 500, body = JNull, retryAfter = None\<rparr>) ''ws'' ''ann@X.io'' [] 0 [] = Some (Inr (a, c')) \<and>
     isSuperAdmin a \<and> allowed a"
  by (rule owner_always_admitted [where col = "JObj [(''email'', JStr ''ann@x.io''), (''role'', JStr ''Owner'')]"
        and ms = "[JObj [(''email'', JStr ''Ann@x.io''), (''role'', JStr ''viewer'')],
                   JObj [(''email'', JStr ''ann@x.io''), (''role'', JStr ''Owner'')]]"])
    code_simp+

theorem access_fails_closed_witness:
  "\<exists>a c'. resolve_access_endpoint 1 \<lparr>status = 401, body = JNull, retryAfter = None\<rparr>
     (\<lambda>_. \<lparr>status = 500, body = JNull, retryAfter = None\<rparr>) ''ws'' [] [] 0 [] = Some (Inr (a, c')) \<and> \<not> allowed a"
proof -
  let ?a = "decide_access None []"
  have run: "resolve_access_endpoint 1 \<lparr>status = 401, body = JNull, retryAfter = None\<rparr>
     (\<lambda>_. \<lparr>status = 500, body = JNull, retryAfter = None\<rparr>) ''ws'' [] [] 0 [] =
     Some (Inr (?a, setCachedAccess ''ws'' [] ?a 0 []))"
    by (simp add: resolve_access_endpoint_def resolveSoarAccess_def findSelfCollaborator_def toLowerCase_def)
  have "\<not> allowed ?a" using access_fails_closed [OF run] by (auto simp: decide_access_def denied_access_def)
  then show ?thesis using run by blast
qed

text \<open>
  The permission check of an endpoint. A non-super-admin passes exactly when the workspace's decision
  was cached at most twelve hours ago and allows, the endpoint is not reserved to the super admin, the
  level of the role in the asked area is not below the asked one, and the asked risky action is
  switched on.
\<close>
lemma requirePermission_iff:
  assumes "a = getCachedAccess (case slugHeader of Some s \<Rightarrow> if s = [] then ''global'' else s | None \<Rightarrow> ''global'') email now c"
  shows "requirePermission opts slugHeader email now c = Permitted \<longleftrightarrow>
    (\<exists>x. a = Some x \<and> allowed x \<and>
      (isSuperAdmin x \<or>
        \<not> superAdminOnly opts \<and>
        (\<forall>area. opt_area opts = Some area \<longrightarrow>
           \<not> level_below (roleFeatureLevel (access_role x) area) (required_level opts)) \<and>
        (\<forall>action. opt_action opts = Some action \<longrightarrow>
           (\<exists>r. access_role x = Some r \<and> map_of (riskyActions r) action = Some True))))"
  unfolding assms
  by (auto simp: requirePermission_def area_denied_def action_denied_def Let_def split: option.splits)

theorem requirePermission_iff_witness:
  "requirePermission \<lparr>opt_area = Some ''cases'', opt_level = Some ''manage'', opt_action = None, superAdminOnly = False\<rparr>
     (Some ''ws'') ''ann'' 5
     (setCachedAccess ''ws'' ''ann'' \<lparr>allowed = True, isSuperAdmin = False, access_role = None, collaboratorRole = None,
        matchedTagValue = None, deniedReason = None\<rparr> 0 []) \<noteq> Permitted"
  by (subst requirePermission_iff [OF refl])
    (simp add: getCachedAccess_def setCachedAccess_def access_lookup_def access_store_def ACCESS_CACHE_TTL_MS_def
      level_below_def roleFeatureLevel_def required_level_def FEATURE_ACCESS_LEVELS_def)

end
