(* ===== verification/WorkflowEngine.thy ===== *)
theory WorkflowEngine
  imports JsValue
begin

text \<open>
  Walking one device through a workflow's step chain: the in-memory engine and the dry run of
  \<open>modules/workflows/workflows.service.ts\<close> and the durable engine of \<open>modules/workflows/durableEngine.ts\<close>.
  The engines are polymorphic in the world \<open>'w\<close> the steps act on; \<open>engine\<close> holds what a walk calls: the
  executor of a step, the script dispatch, the Recovery gate and the recovery steps. An executor that
  throws gives \<open>Inl\<close> with the message. The while loops count a guard up to 50; the models count the
  remaining rounds down.
\<close>

section \<open>Steps, logs and the next step\<close>

record wf_step =
  step_id :: string
  step_type :: string
  step_name :: string
  config :: jsval
  onSuccess :: "string option"
  onFailure :: "string option"

record step_log =
  log_stepId :: "string option"
  log_name :: string
  log_type :: string
  log_ok :: bool
  log_detail :: string
  log_recovery :: bool

type_synonym step_result = "bool \<times> string"

definition log_entry :: "wf_step \<Rightarrow> step_result \<Rightarrow> step_log" where
  "log_entry s r =
     \<lparr>log_stepId = Some (step_id s), log_name = step_name s, log_type = step_type s,
      log_ok = fst r, log_detail = snd r, log_recovery = False\<rparr>"

definition GUARD_LIMIT :: nat where
  "GUARD_LIMIT = 50"

text \<open>\<open>new Map(steps.map(s => [s.id, s]))\<close>: the last step with an id wins.\<close>

definition stepsById :: "wf_step list \<Rightarrow> string \<Rightarrow> wf_step option" where
  "stepsById steps = map_of (rev (map (\<lambda>s. (step_id s, s)) steps))"

definition stepOrder :: "wf_step list \<Rightarrow> string list" where
  "stepOrder steps = map step_id steps"

definition defaultNext :: "string list \<Rightarrow> string \<Rightarrow> string" where
  "defaultNext order cur =
     (let i = (case indexOf order cur of Some i \<Rightarrow> i + 1 | None \<Rightarrow> 0)
      in if i < length order then order ! i else ''end'')"

definition successTarget :: "string list \<Rightarrow> wf_step \<Rightarrow> string \<Rightarrow> string" where
  "successTarget order s cur = (case onSuccess s of Some t \<Rightarrow> t | None \<Rightarrow> defaultNext order cur)"

definition failureTarget :: "wf_step \<Rightarrow> string" where
  "failureTarget s = (case onFailure s of Some t \<Rightarrow> if t = [] then ''end'' else t | None \<Rightarrow> ''end'')"

definition nextTarget :: "string list \<Rightarrow> wf_step \<Rightarrow> string \<Rightarrow> bool \<Rightarrow> string" where
  "nextTarget order s cur ok = (if ok then successTarget order s cur else failureTarget s)"

text \<open>The loop condition \<open>currentId && currentId !== "end"\<close>.\<close>

definition running :: "string \<Rightarrow> bool" where
  "running cur \<longleftrightarrow> cur \<noteq> [] \<and> cur \<noteq> ''end''"

definition firstStep :: "wf_step list \<Rightarrow> string" where
  "firstStep steps = (case stepOrder steps of [] \<Rightarrow> ''end'' | i # _ \<Rightarrow> i)"

datatype final_status = Success | Partial | Failed

definition finalStatus :: "step_log list \<Rightarrow> final_status" where
  "finalStatus lg =
     (if lg = [] \<or> list_all log_ok lg then Success
      else if list_ex log_ok lg then Partial
      else Failed)"

section \<open>What a walk calls\<close>

datatype gate = GateContinue | GateRecovered

record 'w engine =
  do_step :: "wf_step \<Rightarrow> 'w \<Rightarrow> (string + step_result) \<times> 'w"
  do_script :: "string \<Rightarrow> string \<Rightarrow> 'w \<Rightarrow> (string + step_result) \<times> 'w"
  recovery_gate :: "'w \<Rightarrow> (string + gate) \<times> 'w"
  do_recovery :: "step_log list \<Rightarrow> 'w \<Rightarrow> (string + step_log list) \<times> 'w"

datatype loop_end = Done | Threw string

section \<open>The in-memory engine\<close>

fun mem_loop :: "'w engine \<Rightarrow> wf_step list \<Rightarrow> nat \<Rightarrow> string \<Rightarrow> step_log list \<Rightarrow> 'w \<Rightarrow>
    loop_end \<times> step_log list \<times> 'w" where
  "mem_loop e steps 0 cur lg w = (Done, lg, w)"
| "mem_loop e steps (Suc n) cur lg w =
     (if \<not> running cur then (Done, lg, w)
      else case stepsById steps cur of
        None \<Rightarrow> (Done, lg, w)
      | Some s \<Rightarrow>
          (case recovery_gate e w of
             (Inl msg, w1) \<Rightarrow> (Threw msg, lg, w1)
           | (Inr GateRecovered, w1) \<Rightarrow>
               (case do_recovery e lg w1 of
                  (Inl msg, w2) \<Rightarrow> (Threw msg, lg, w2)
                | (Inr recoveryLog, w2) \<Rightarrow> (Done, lg @ recoveryLog, w2))
           | (Inr GateContinue, w1) \<Rightarrow>
               (case (if step_type s = ''wait'' \<or> step_type s = ''run_script_wait''
                      then (Inr (False, ''Wait steps require the durable engine and cannot run here''), w1)
                      else do_step e s w1) of
                  (Inl msg, w2) \<Rightarrow> (Threw msg, lg, w2)
                | (Inr r, w2) \<Rightarrow>
                    mem_loop e steps n (nextTarget (stepOrder steps) s cur (fst r))
                      (lg @ [log_entry s r]) w2)))"

text \<open>\<open>runForDevice\<close>: the log and final status, or the exception that ends the whole run.\<close>

definition runForDevice :: "'w engine \<Rightarrow> wf_step list \<Rightarrow> 'w \<Rightarrow>
    (string + (step_log list \<times> final_status)) \<times> 'w" where
  "runForDevice e steps w =
     (if steps = [] then (Inr ([], Success), w)
      else case mem_loop e steps GUARD_LIMIT (firstStep steps) [] w of
        (Threw msg, _, w') \<Rightarrow> (Inl msg, w')
      | (Done, lg, w') \<Rightarrow> (Inr (lg, finalStatus lg), w'))"

section \<open>The durable engine\<close>

text \<open>A parked chain: where to go on, when at the latest, and how.\<close>

record parked =
  park_next :: string
  park_resumeAt :: int
  park_kind :: string
  park_onFailure :: "string option"
  park_token :: "string option"

datatype chain_end = ChainDone | ChainThrew string | ChainParked parked

text \<open>A \<open>Date\<close> beyond 8.64e15 ms is invalid; formatting or storing it throws.\<close>

definition MAX_DATE_MS :: int where
  "MAX_DATE_MS = 8640000000000000"

definition wait_amount :: "jsval \<Rightarrow> rat option" where
  "wait_amount cfg =
     (case to_number (own_prop cfg ''amount'') of
        Fin q \<Rightarrow> if 0 < q then Some q else None
      | _ \<Rightarrow> None)"

definition wait_unit :: "jsval \<Rightarrow> string" where
  "wait_unit cfg = to_string (js_or (own_prop cfg ''unit'') (JStr ''minutes''))"

definition wait_seconds :: "jsval \<Rightarrow> rat \<Rightarrow> rat" where
  "wait_seconds cfg amount =
     amount * (case map_of [(''minutes'', 60), (''hours'', 3600), (''days'', 86400)] (wait_unit cfg) of
                 Some s \<Rightarrow> s | None \<Rightarrow> 60)"

definition script_timeout_minutes :: "jsval \<Rightarrow> jsnum" where
  "script_timeout_minutes cfg =
     (let t = to_number (own_prop cfg ''timeoutMinutes'')
      in if t = NaN \<or> t = Fin 0 \<or> num_less t (Fin 0) then Fin 30 else t)"

definition date_after :: "int \<Rightarrow> rat \<Rightarrow> int option" where
  "date_after now seconds =
     (let t = now + \<lfloor>seconds * 1000\<rfloor> in if t \<le> MAX_DATE_MS then Some t else None)"

definition timeout_at :: "int \<Rightarrow> jsnum \<Rightarrow> int option" where
  "timeout_at now minutes = (case minutes of Fin m \<Rightarrow> date_after now (m * 60) | _ \<Rightarrow> None)"

definition wait_detail :: "jsval \<Rightarrow> rat \<Rightarrow> int \<Rightarrow> string" where
  "wait_detail cfg amount resumeAt =
     ''Waiting '' @ show_rat amount @ '' '' @ wait_unit cfg @ '' '' @ em_dash @ '' resumes at ''
     @ toISOString resumeAt"

definition dispatch_detail :: "jsnum \<Rightarrow> string" where
  "dispatch_detail minutes =
     ''Dispatched '' @ em_dash @ '' waiting up to '' @ show_num minutes
     @ '' min for the script's actual result before continuing''"

text \<open>The walk from \<open>cur\<close> with the log so far; \<open>n\<close> is 50 minus the guard, \<open>now\<close> the clock, \<open>token\<close> the
  fresh pending token of a dispatch at this log length.\<close>

fun durable_loop :: "'w engine \<Rightarrow> int \<Rightarrow> (nat \<Rightarrow> string) \<Rightarrow> wf_step list \<Rightarrow> nat \<Rightarrow> string \<Rightarrow> step_log list \<Rightarrow> 'w \<Rightarrow>
    chain_end \<times> step_log list \<times> 'w" where
  "durable_loop e now token steps 0 cur lg w = (ChainDone, lg, w)"
| "durable_loop e now token steps (Suc n) cur lg w =
     (if \<not> running cur then (ChainDone, lg, w)
      else case stepsById steps cur of
        None \<Rightarrow> (ChainDone, lg, w)
      | Some s \<Rightarrow>
          (case recovery_gate e w of
             (Inl msg, w1) \<Rightarrow> (ChainThrew msg, lg, w1)
           | (Inr GateRecovered, w1) \<Rightarrow>
               (case do_recovery e lg w1 of
                  (Inl msg, w2) \<Rightarrow> (ChainThrew msg, lg, w2)
                | (Inr recoveryLog, w2) \<Rightarrow> (ChainDone, lg @ recoveryLog, w2))
           | (Inr GateContinue, w1) \<Rightarrow>
               (if step_type s = ''wait'' then
                  (case wait_amount (config s) of
                     None \<Rightarrow>
                       durable_loop e now token steps n (failureTarget s)
                         (lg @ [log_entry s (False, ''Invalid wait duration'')]) w1
                   | Some amount \<Rightarrow>
                       (case date_after now (wait_seconds (config s) amount) of
                          None \<Rightarrow> (ChainThrew ''Invalid time value'', lg, w1)
                        | Some resumeAt \<Rightarrow>
                            (ChainParked \<lparr>park_next = successTarget (stepOrder steps) s cur,
                               park_resumeAt = resumeAt, park_kind = ''timer'',
                               park_onFailure = None, park_token = None\<rparr>,
                             lg @ [log_entry s (True, wait_detail (config s) amount resumeAt)], w1)))
                else if step_type s = ''run_script_wait'' then
                  (if \<not> truthy (own_prop (config s) ''libraryId'') then
                     durable_loop e now token steps n (failureTarget s)
                       (lg @ [log_entry s (False, ''No script selected from the Library'')]) w1
                   else case do_script e (to_string (own_prop (config s) ''libraryId'')) (token (length lg)) w1 of
                     (Inl msg, w2) \<Rightarrow> (ChainThrew msg, lg, w2)
                   | (Inr (False, detail), w2) \<Rightarrow>
                       durable_loop e now token steps n (failureTarget s)
                         (lg @ [log_entry s (False, detail)]) w2
                   | (Inr (True, detail), w2) \<Rightarrow>
                       (let lg' = lg @ [log_entry s (True, dispatch_detail (script_timeout_minutes (config s)))]
                        in case timeout_at now (script_timeout_minutes (config s)) of
                          None \<Rightarrow> (ChainThrew ''Invalid time value'', lg', w2)
                        | Some timeoutAt \<Rightarrow>
                            (ChainParked \<lparr>park_next = successTarget (stepOrder steps) s cur,
                               park_resumeAt = timeoutAt, park_kind = ''script'',
                               park_onFailure = Some (failureTarget s),
                               park_token = Some (token (length lg))\<rparr>,
                             lg', w2)))
                else
                  (case do_step e s w1 of
                     (Inl msg, w2) \<Rightarrow> (ChainThrew msg, lg, w2)
                   | (Inr r, w2) \<Rightarrow>
                       durable_loop e now token steps n (nextTarget (stepOrder steps) s cur (fst r))
                         (lg @ [log_entry s r]) w2))))"

text \<open>\<open>startStepId || stepOrder[0]\<close> and \<open>guard = lg.length\<close>.\<close>

definition durable_walk :: "'w engine \<Rightarrow> int \<Rightarrow> (nat \<Rightarrow> string) \<Rightarrow> wf_step list \<Rightarrow> string option \<Rightarrow>
    step_log list \<Rightarrow> 'w \<Rightarrow> chain_end \<times> step_log list \<times> 'w" where
  "durable_walk e now token steps startStepId lg w =
     durable_loop e now token steps (GUARD_LIMIT - length lg)
       (case startStepId of Some s \<Rightarrow> if s = [] then firstStep steps else s | None \<Rightarrow> firstStep steps) lg w"

section \<open>The dry run\<close>

record step_preview =
  pv_stepId :: string
  pv_type :: string
  pv_onSuccess :: string
  pv_onFailure :: string

fun dry_loop :: "wf_step list \<Rightarrow> nat \<Rightarrow> string \<Rightarrow> string list \<Rightarrow> step_preview list" where
  "dry_loop steps 0 cur visited = []"
| "dry_loop steps (Suc n) cur visited =
     (if \<not> running cur then []
      else case stepsById steps cur of
        None \<Rightarrow> []
      | Some s \<Rightarrow>
          if cur \<in> set visited then []
          else
            \<lparr>pv_stepId = step_id s, pv_type = step_type s,
             pv_onSuccess = successTarget (stepOrder steps) s cur, pv_onFailure = failureTarget s\<rparr>
            # dry_loop steps n (successTarget (stepOrder steps) s cur) (cur # visited))"

definition dryRunWorkflow :: "wf_step list \<Rightarrow> step_preview list" where
  "dryRunWorkflow steps = dry_loop steps GUARD_LIMIT (firstStep steps) []"

section \<open>Lemmas\<close>

lemma stepsById_Some: "stepsById steps i = Some s \<Longrightarrow> s \<in> set steps \<and> step_id s = i"
  unfolding stepsById_def by (drule map_of_SomeD) auto

lemma mem_loop_prefix:
  "mem_loop e steps n cur lg w = (r, lg', w') \<Longrightarrow> prefix lg lg'"
proof (induction n arbitrary: cur lg w)
  case 0
  then show ?case by simp
next
  case (Suc n)
  have step: "mem_loop e steps n c (lg @ [x]) v = (r, lg', w') \<Longrightarrow> prefix lg lg'" for c x v
    using Suc.IH [of c "lg @ [x]" v] by (metis append_prefixD)
  show ?case
    using Suc.prems unfolding mem_loop.simps(2) [of e steps n cur lg w]
    by (auto split: if_splits option.splits prod.splits sum.splits gate.splits dest: step)
qed

section \<open>What a walk is\<close>

text \<open>The step graph a workflow describes: \<open>walks steps cur xs c\<close> holds when the entries \<open>xs\<close> follow,
  from \<open>cur\<close>, the branch each result selects, and the walk stands at \<open>c\<close> after them.\<close>

inductive walks :: "wf_step list \<Rightarrow> string \<Rightarrow> step_log list \<Rightarrow> string \<Rightarrow> bool" for steps where
  walks_stop: "walks steps cur [] cur"
| walks_step: "running cur \<Longrightarrow> stepsById steps cur = Some s \<Longrightarrow>
    walks steps (nextTarget (stepOrder steps) s cur (fst r)) xs c \<Longrightarrow>
    walks steps cur (log_entry s r # xs) c"

inductive_cases walks_ConsE: "walks steps cur (x # xs) c"
inductive_simps walks_Nil_iff [simp]: "walks steps cur [] c"

text \<open>Nothing is left to do at \<open>c\<close>.\<close>

definition at_end :: "wf_step list \<Rightarrow> string \<Rightarrow> bool" where
  "at_end steps c \<longleftrightarrow> \<not> running c \<or> stepsById steps c = None"

definition is_wait :: "wf_step \<Rightarrow> bool" where
  "is_wait s \<longleftrightarrow> step_type s = ''wait'' \<or> step_type s = ''run_script_wait''"

lemma log_entry_sel [simp]:
  "log_ok (log_entry s r) = fst r" "log_detail (log_entry s r) = snd r"
  "log_stepId (log_entry s r) = Some (step_id s)" "log_type (log_entry s r) = step_type s"
  by (simp_all add: log_entry_def)

lemma walks_known_step:
  "walks steps cur xs c \<Longrightarrow> x \<in> set xs \<Longrightarrow>
   \<exists>s\<in>set steps. log_stepId x = Some (step_id s) \<and> log_type x = step_type s"
proof (induction rule: walks.induct)
  case (walks_step cur s r xs c)
  show ?case
  proof (cases "x = log_entry s r")
    case True
    then show ?thesis using walks_step stepsById_Some by fastforce
  next
    case False
    then show ?thesis using walks_step by auto
  qed
qed simp

lemma nextTarget_False: "nextTarget order s cur False = failureTarget s"
  and nextTarget_True: "nextTarget order s cur True = successTarget order s cur"
  by (simp_all add: nextTarget_def)

text \<open>What a loop from \<open>cur\<close> with \<open>n\<close> rounds left adds to the log.\<close>

definition loop_spec :: "'w engine \<Rightarrow> wf_step list \<Rightarrow> nat \<Rightarrow> string \<Rightarrow> step_log list \<Rightarrow> bool \<Rightarrow> step_log list \<Rightarrow> bool" where
  "loop_spec e steps n cur lg finished lg' \<longleftrightarrow>
     (\<exists>xs c rec. lg' = lg @ xs @ rec \<and> walks steps cur xs c \<and> length xs \<le> n \<and>
        (rec = [] \<or> (\<exists>w w'. do_recovery e (lg @ xs) w = (Inr rec, w'))) \<and>
        (finished \<longrightarrow> at_end steps c \<or> length xs = n \<or>
           (\<exists>w w'. do_recovery e (lg @ xs) w = (Inr rec, w'))))"

lemma loop_spec_stop: "at_end steps cur \<or> n = 0 \<or> \<not> finished \<Longrightarrow> loop_spec e steps n cur lg finished lg"
  unfolding loop_spec_def by (rule exI [of _ "[]"], rule exI [of _ cur], rule exI [of _ "[]"]) auto

lemma loop_spec_recovery:
  "do_recovery e lg w = (Inr rec, w') \<Longrightarrow> loop_spec e steps n cur lg finished (lg @ rec)"
  unfolding loop_spec_def by (rule exI [of _ "[]"], rule exI [of _ cur], rule exI [of _ rec]) auto

lemma loop_spec_step:
  assumes "running cur" "stepsById steps cur = Some s"
    and "loop_spec e steps n (nextTarget (stepOrder steps) s cur (fst r)) (lg @ [log_entry s r]) finished lg'"
  shows "loop_spec e steps (Suc n) cur lg finished lg'"
proof -
  obtain xs c rec where *: "lg' = (lg @ [log_entry s r]) @ xs @ rec"
      "walks steps (nextTarget (stepOrder steps) s cur (fst r)) xs c" "length xs \<le> n"
      "rec = [] \<or> (\<exists>w w'. do_recovery e ((lg @ [log_entry s r]) @ xs) w = (Inr rec, w'))"
      "finished \<longrightarrow> at_end steps c \<or> length xs = n \<or>
         (\<exists>w w'. do_recovery e ((lg @ [log_entry s r]) @ xs) w = (Inr rec, w'))"
    using assms(3) unfolding loop_spec_def by blast
  show ?thesis
    unfolding loop_spec_def
    by (rule exI [of _ "log_entry s r # xs"], rule exI [of _ c], rule exI [of _ rec])
      (use * walks_step [OF assms(1,2) *(2)] in auto)
qed

lemma mem_loop_spec:
  "mem_loop e steps n cur lg w = (r, lg', w') \<Longrightarrow> loop_spec e steps n cur lg (r = Done) lg'"
proof (induction n arbitrary: cur lg w)
  case 0
  then show ?case by (auto intro: loop_spec_stop)
next
  case (Suc n)
  show ?case
  proof (cases "running cur \<and> stepsById steps cur \<noteq> None")
    case False
    then have "r = Done \<and> lg' = lg" using Suc.prems by (auto split: option.splits)
    then show ?thesis using False by (auto intro!: loop_spec_stop simp: at_end_def)
  next
    case True
    then obtain s where run: "running cur" and s: "stepsById steps cur = Some s" by auto
    have step: "mem_loop e steps n (nextTarget (stepOrder steps) s cur a) (lg @ [log_entry s (a, b)]) v = (r, lg', w') \<Longrightarrow>
        loop_spec e steps (Suc n) cur lg (r = Done) lg'" for a b v
      using Suc.IH loop_spec_step [OF run s, of e n "(a, b)"] by simp
    show ?thesis
      using Suc.prems run s unfolding mem_loop.simps(2) [of e steps n cur lg w]
      by (auto split: if_splits prod.splits sum.splits gate.splits
          intro: loop_spec_stop loop_spec_recovery dest: step)
  qed
qed

text \<open>A parked walk has executed at least one step, in one unbroken run to the parked position.\<close>

definition park_spec :: "wf_step list \<Rightarrow> nat \<Rightarrow> string \<Rightarrow> step_log list \<Rightarrow> string \<Rightarrow> step_log list \<Rightarrow> bool" where
  "park_spec steps n cur lg nxt lg' \<longleftrightarrow>
     (\<exists>xs. lg' = lg @ xs \<and> xs \<noteq> [] \<and> length xs \<le> n \<and> walks steps cur xs nxt)"

lemma park_spec_now:
  "running cur \<Longrightarrow> stepsById steps cur = Some s \<Longrightarrow>
   park_spec steps (Suc n) cur lg (successTarget (stepOrder steps) s cur) (lg @ [log_entry s (True, d)])"
  unfolding park_spec_def
  by (rule exI [of _ "[log_entry s (True, d)]"]) (auto intro!: walks_step simp: nextTarget_def)

lemma park_spec_step:
  assumes "running cur" "stepsById steps cur = Some s"
    and "park_spec steps n (nextTarget (stepOrder steps) s cur (fst r)) (lg @ [log_entry s r]) nxt lg'"
  shows "park_spec steps (Suc n) cur lg nxt lg'"
proof -
  obtain xs where "lg' = (lg @ [log_entry s r]) @ xs" "length xs \<le> n"
      "walks steps (nextTarget (stepOrder steps) s cur (fst r)) xs nxt"
    using assms(3) unfolding park_spec_def by blast
  then show ?thesis
    unfolding park_spec_def
    by (intro exI [of _ "log_entry s r # xs"]) (use walks_step [OF assms(1,2)] in auto)
qed

definition durable_spec :: "'w engine \<Rightarrow> wf_step list \<Rightarrow> nat \<Rightarrow> string \<Rightarrow> step_log list \<Rightarrow> chain_end \<Rightarrow> step_log list \<Rightarrow> bool" where
  "durable_spec e steps n cur lg r lg' \<longleftrightarrow>
     loop_spec e steps n cur lg (r = ChainDone) lg' \<and>
     (\<forall>p. r = ChainParked p \<longrightarrow> park_spec steps n cur lg (park_next p) lg')"

lemma durable_spec_step:
  assumes "running cur" "stepsById steps cur = Some s"
    and "durable_spec e steps n (nextTarget (stepOrder steps) s cur (fst x)) (lg @ [log_entry s x]) r lg'"
  shows "durable_spec e steps (Suc n) cur lg r lg'"
  using assms loop_spec_step [OF assms(1,2)] park_spec_step [OF assms(1,2)]
  unfolding durable_spec_def by blast

lemma durable_spec_one:
  assumes "running cur" "stepsById steps cur = Some s" "r \<noteq> ChainDone"
    and "\<And>p. r = ChainParked p \<Longrightarrow> park_next p = successTarget (stepOrder steps) s cur"
  shows "durable_spec e steps (Suc n) cur lg r (lg @ [log_entry s (True, d)])"
proof -
  have "loop_spec e steps n (nextTarget (stepOrder steps) s cur True) (lg @ [log_entry s (True, d)])
      (r = ChainDone) (lg @ [log_entry s (True, d)])"
    using assms(3) by (intro loop_spec_stop) simp
  then show ?thesis
    using loop_spec_step [OF assms(1,2), of e n "(True, d)"] park_spec_now [OF assms(1,2)] assms(4)
    unfolding durable_spec_def by auto
qed

lemma durable_spec_nop: "r = ChainThrew m \<or> r = ChainDone \<and> (at_end steps cur \<or> n = 0) \<Longrightarrow>
    durable_spec e steps n cur lg r lg"
  unfolding durable_spec_def by (auto intro!: loop_spec_stop)

lemma durable_spec_recovery:
  "do_recovery e lg w = (Inr rec, w') \<Longrightarrow> durable_spec e steps n cur lg ChainDone (lg @ rec)"
  unfolding durable_spec_def by (auto intro: loop_spec_recovery)

lemma durable_loop_spec:
  "durable_loop e now token steps n cur lg w = (r, lg', w') \<Longrightarrow> durable_spec e steps n cur lg r lg'"
proof (induction n arbitrary: cur lg w)
  case 0
  then show ?case by (auto intro: durable_spec_nop)
next
  case (Suc n)
  show ?case
  proof (cases "running cur \<and> stepsById steps cur \<noteq> None")
    case False
    then have "r = ChainDone \<and> lg' = lg" using Suc.prems by (auto split: option.splits)
    then show ?thesis using False by (auto intro!: durable_spec_nop simp: at_end_def)
  next
    case True
    then obtain s where run: "running cur" and s: "stepsById steps cur = Some s" by auto
    have step: "durable_loop e now token steps n (nextTarget (stepOrder steps) s cur a) (lg @ [log_entry s (a, b)]) v = (r, lg', w') \<Longrightarrow>
        durable_spec e steps (Suc n) cur lg r lg'" for a b v
      using Suc.IH durable_spec_step [OF run s, of e n "(a, b)"] by simp
    have fail: "durable_loop e now token steps n (failureTarget s) (lg @ [log_entry s (False, b)]) v = (r, lg', w') \<Longrightarrow>
        durable_spec e steps (Suc n) cur lg r lg'" for b v
      using step [of False] by (simp add: nextTarget_False)
    show ?thesis
      using Suc.prems run s unfolding durable_loop.simps(2) [of e now token steps n cur lg w]
      by (auto simp: Let_def split: if_splits prod.splits sum.splits gate.splits option.splits bool.splits
          intro: durable_spec_nop durable_spec_recovery intro!: durable_spec_one [OF run s] dest: step fail)
  qed
qed

lemma durable_park_token:
  "durable_loop e now token steps n cur lg w = (ChainParked p, lg', w') \<Longrightarrow>
   park_token p = None \<or> (\<exists>k. park_token p = Some (token k))"
proof (induction n arbitrary: cur lg w)
  case (Suc n)
  show ?case
  proof (cases "running cur \<and> stepsById steps cur \<noteq> None")
    case False
    then show ?thesis using Suc.prems by (auto split: option.splits)
  next
    case True
    then obtain s where run: "running cur" and s: "stepsById steps cur = Some s" by auto
    show ?thesis
      using Suc.prems run s unfolding durable_loop.simps(2) [of e now token steps n cur lg w]
      by (auto simp: Let_def split: if_splits prod.splits sum.splits gate.splits option.splits bool.splits
          dest: Suc.IH)
  qed
qed simp

text \<open>The history of one durable chain: walks that park, each resumed on some step with some notes added to
  the log, by engines of \<open>es\<close>. \<open>parks es steps k lg\<close>: the chain has parked \<open>k\<close> times, the last time with log \<open>lg\<close>.\<close>

inductive parks :: "'w engine set \<Rightarrow> wf_step list \<Rightarrow> nat \<Rightarrow> step_log list \<Rightarrow> bool" for es steps where
  parks_fresh: "parks es steps 0 []"
| parks_again: "parks es steps k lg \<Longrightarrow> e \<in> es \<Longrightarrow>
    durable_walk e now token steps start (lg @ extra) w = (ChainParked p, lg', w') \<Longrightarrow>
    parks es steps (Suc k) lg'"

lemma durable_walk_parked:
  assumes "durable_walk e now token steps start lg w = (ChainParked p, lg', w')"
  shows "length lg < length lg' \<and> length lg' \<le> GUARD_LIMIT \<and> prefix lg lg' \<and>
    (park_token p = None \<or> (\<exists>k. park_token p = Some (token k)))"
proof -
  obtain cur where walk: "durable_loop e now token steps (GUARD_LIMIT - length lg) cur lg w = (ChainParked p, lg', w')"
    using assms unfolding durable_walk_def by blast
  from durable_loop_spec [OF walk] have "park_spec steps (GUARD_LIMIT - length lg) cur lg (park_next p) lg'"
    by (simp add: durable_spec_def)
  then obtain xs where "lg' = lg @ xs" "xs \<noteq> []" "length xs \<le> GUARD_LIMIT - length lg"
    unfolding park_spec_def by blast
  then show ?thesis using durable_park_token [OF walk] by (cases xs) auto
qed

lemma parks_length: "parks es steps k lg \<Longrightarrow> k \<le> length lg \<and> length lg \<le> GUARD_LIMIT"
proof (induction rule: parks.induct)
  case (parks_again k lg e now token start extra w p lg' w')
  then show ?case using durable_walk_parked [OF parks_again.hyps(3)] by simp
qed simp

section \<open>The engines agree where no step waits\<close>

definition chain_end_of :: "loop_end \<Rightarrow> chain_end" where
  "chain_end_of r = (case r of Done \<Rightarrow> ChainDone | Threw m \<Rightarrow> ChainThrew m)"

lemma chain_end_of_simps [simp]:
  "chain_end_of Done = ChainDone" "chain_end_of (Threw m) = ChainThrew m"
  by (simp_all add: chain_end_of_def)

lemma loops_agree:
  assumes "\<forall>s\<in>set steps. \<not> is_wait s"
  shows "durable_loop e now token steps n cur lg w =
     (case mem_loop e steps n cur lg w of (r, lg', w') \<Rightarrow> (chain_end_of r, lg', w'))"
proof (induction n arbitrary: cur lg w)
  case 0
  show ?case by simp
next
  case (Suc n)
  show ?case
  proof (cases "running cur \<and> stepsById steps cur \<noteq> None")
    case False
    then show ?thesis by (cases "running cur") simp_all
  next
    case True
    then obtain s where run: "running cur" and s: "stepsById steps cur = Some s" by auto
    have nowait: "step_type s \<noteq> ''wait''" "step_type s \<noteq> ''run_script_wait''"
      using assms stepsById_Some [OF s] by (auto simp: is_wait_def)
    show ?thesis
      using run s nowait Suc.IH by (simp split: prod.split sum.split gate.split)
  qed
qed

lemma mem_loop_stop: "\<not> running cur \<Longrightarrow> mem_loop e steps n cur lg w = (Done, lg, w)"
  by (cases n) simp_all

lemma mem_loop_next:
  assumes "running cur" "stepsById steps cur = Some s" "recovery_gate e w = (Inr GateContinue, w1)"
    and "\<not> is_wait s" "do_step e s w1 = (Inr r, w2)"
  shows "mem_loop e steps (Suc n) cur lg w =
    mem_loop e steps n (nextTarget (stepOrder steps) s cur (fst r)) (lg @ [log_entry s r]) w2"
  using assms by (simp add: is_wait_def)

section \<open>The dry run is the walk in which every step succeeds\<close>

definition all_succeed :: "'w engine \<Rightarrow> bool" where
  "all_succeed e \<longleftrightarrow> (\<forall>s w. \<exists>d w'. do_step e s w = (Inr (True, d), w')) \<and>
     (\<forall>w. \<exists>w'. recovery_gate e w = (Inr GateContinue, w'))"

lemma dry_loop_prefix:
  assumes "all_succeed e" "\<forall>s\<in>set steps. \<not> is_wait s"
    and "mem_loop e steps n cur lg w = (r, lg', w')"
  shows "\<exists>xs. lg' = lg @ xs \<and>
     prefix (map (Some \<circ> pv_stepId) (dry_loop steps n cur visited)) (map log_stepId xs)"
  using assms(3)
proof (induction n arbitrary: cur lg w visited)
  case 0
  then show ?case by simp
next
  case (Suc n)
  show ?case
  proof (cases "running cur \<and> stepsById steps cur \<noteq> None")
    case False
    then have "lg' = lg" using Suc.prems by (auto split: option.splits)
    then show ?thesis using False by (auto split: option.splits)
  next
    case True
    then obtain s where run: "running cur" and s: "stepsById steps cur = Some s" by auto
    have nowait: "step_type s \<noteq> ''wait'' \<and> step_type s \<noteq> ''run_script_wait''"
      using assms(2) stepsById_Some [OF s] by (auto simp: is_wait_def)
    obtain w1 where w1: "recovery_gate e w = (Inr GateContinue, w1)"
      using assms(1) unfolding all_succeed_def by blast
    obtain d w2 where w2: "do_step e s w1 = (Inr (True, d), w2)"
      using assms(1) unfolding all_succeed_def by blast
    have "mem_loop e steps n (successTarget (stepOrder steps) s cur) (lg @ [log_entry s (True, d)]) w2 = (r, lg', w')"
      using Suc.prems run s nowait w1 w2 by (simp add: nextTarget_True)
    from Suc.IH [OF this, of "cur # visited"] show ?thesis
      using run s by auto
  qed
qed

lemma finalStatus_iff:
  "finalStatus lg = Success \<longleftrightarrow> (\<forall>x\<in>set lg. log_ok x)"
  "finalStatus lg = Failed \<longleftrightarrow> lg \<noteq> [] \<and> (\<forall>x\<in>set lg. \<not> log_ok x)"
  by (cases lg; auto simp: finalStatus_def list_all_iff list_ex_iff)+

lemma dry_loop_distinct: "distinct (map pv_stepId (dry_loop steps n cur visited)) \<and>
    set (map pv_stepId (dry_loop steps n cur visited)) \<inter> set visited = {}"
proof (induction n arbitrary: cur visited)
  case (Suc n)
  show ?case
  proof (cases "stepsById steps cur")
    case (Some s)
    then show ?thesis
      using Suc.IH [of "successTarget (stepOrder steps) s cur" "cur # visited"] stepsById_Some [OF Some] by auto
  qed simp
qed simp

section \<open>Properties\<close>

text \<open>A small workflow for the concrete instances: notify, on failure jump to the last step.\<close>

definition sample_steps :: "wf_step list" where
  "sample_steps =
     [\<lparr>step_id = ''a'', step_type = ''notification'', step_name = ''Tell'', config = JObj [],
       onSuccess = None, onFailure = Some ''c''\<rparr>,
      \<lparr>step_id = ''b'', step_type = ''http_request'', step_name = ''Call'', config = JObj [],
       onSuccess = Some ''end'', onFailure = None\<rparr>,
      \<lparr>step_id = ''c'', step_type = ''policy_restore'', step_name = ''Undo'', config = JObj [],
       onSuccess = None, onFailure = None\<rparr>]"

definition sample_engine :: "bool \<Rightarrow> unit engine" where
  "sample_engine ok =
     \<lparr>do_step = (\<lambda>s w. (Inr (ok \<or> step_type s = ''policy_restore'', step_name s), w)),
      do_script = (\<lambda>l t w. (Inr (ok, ''''), w)), recovery_gate = (\<lambda>w. (Inr GateContinue, w)),
      do_recovery = (\<lambda>lg w. (Inr [], w))\<rparr>"

text \<open>
  C23: A device run executes a path of the workflow's step graph: its log is the entries of at most 50
  steps, starting at the first one, each the step its predecessor's result selects, followed by the
  entries of the Recovery pass when the Recovery gate stopped it; without Recovery it ends where no
  step is left or after 50 steps. Its status is success exactly when every entry succeeded and
  failed exactly when there are entries and none did.
\<close>
theorem runForDevice_walks:
  assumes "runForDevice e steps w = (Inr (lg, st), w')"
  shows "(\<exists>xs c rec. lg = xs @ rec \<and> walks steps (firstStep steps) xs c \<and> length xs \<le> 50 \<and>
      ((\<exists>v v'. do_recovery e xs v = (Inr rec, v')) \<or> rec = [] \<and> (at_end steps c \<or> length xs = 50))) \<and>
    (st = Success \<longleftrightarrow> (\<forall>x\<in>set lg. log_ok x)) \<and>
    (st = Failed \<longleftrightarrow> lg \<noteq> [] \<and> (\<forall>x\<in>set lg. \<not> log_ok x))"
proof (cases "steps = []")
  case True
  then have "lg = []" "st = Success" using assms by (auto simp: runForDevice_def)
  moreover have "at_end steps (firstStep steps)"
    using True by (simp add: at_end_def firstStep_def stepOrder_def running_def)
  ultimately show ?thesis by auto
next
  case False
  then obtain "mem_loop e steps GUARD_LIMIT (firstStep steps) [] w = (Done, lg, w')" and st: "st = finalStatus lg"
    using assms by (auto simp: runForDevice_def split: prod.splits loop_end.splits)
  from mem_loop_spec [OF this(1)] obtain xs c rec
    where "lg = xs @ rec" "walks steps (firstStep steps) xs c" "length xs \<le> GUARD_LIMIT"
      "rec = [] \<or> (\<exists>v v'. do_recovery e xs v = (Inr rec, v'))"
      "at_end steps c \<or> length xs = GUARD_LIMIT \<or> (\<exists>v v'. do_recovery e xs v = (Inr rec, v'))"
    unfolding loop_spec_def append_Nil by blast
  then have "\<exists>xs c rec. lg = xs @ rec \<and> walks steps (firstStep steps) xs c \<and> length xs \<le> 50 \<and>
      ((\<exists>v v'. do_recovery e xs v = (Inr rec, v')) \<or> rec = [] \<and> (at_end steps c \<or> length xs = 50))"
    unfolding GUARD_LIMIT_def by blast
  then show ?thesis using finalStatus_iff [of lg] st by simp
qed

lemma sample_lookup:
  "stepsById sample_steps ''a'' = Some (sample_steps ! 0)" "stepsById sample_steps ''b'' = Some (sample_steps ! 1)"
  "stepsById sample_steps ''c'' = Some (sample_steps ! 2)"
  by (simp_all add: stepsById_def sample_steps_def)

lemma sample_next:
  "nextTarget (stepOrder sample_steps) (sample_steps ! 0) ''a'' ok = (if ok then ''b'' else ''c'')"
  "nextTarget (stepOrder sample_steps) (sample_steps ! 1) ''b'' ok = ''end''"
  "nextTarget (stepOrder sample_steps) (sample_steps ! 2) ''c'' ok = ''end''"
  by (simp_all add: sample_steps_def nextTarget_def successTarget_def failureTarget_def defaultNext_def stepOrder_def)

lemma sample_first: "firstStep sample_steps = ''a''"
  by (simp add: firstStep_def stepOrder_def sample_steps_def)

lemma sample_running: "running ''a''" "running ''b''" "running ''c''" "\<not> running ''end''"
  by (simp_all add: running_def)

lemma sample_calls:
  "\<not> is_wait (sample_steps ! 0)" "\<not> is_wait (sample_steps ! 1)" "\<not> is_wait (sample_steps ! 2)"
  "recovery_gate (sample_engine ok) w = (Inr GateContinue, w)"
  "do_step (sample_engine ok) (sample_steps ! 0) w = (Inr (ok, ''Tell''), w)"
  "do_step (sample_engine ok) (sample_steps ! 1) w = (Inr (ok, ''Call''), w)"
  "do_step (sample_engine ok) (sample_steps ! 2) w = (Inr (True, ''Undo''), w)"
  by (simp_all add: sample_engine_def sample_steps_def is_wait_def)

lemma sample_run:
  "runForDevice (sample_engine False) sample_steps () =
     (Inr ([log_entry (sample_steps ! 0) (False, ''Tell''), log_entry (sample_steps ! 2) (True, ''Undo'')], Partial), ())"
  "runForDevice (sample_engine True) sample_steps () =
     (Inr ([log_entry (sample_steps ! 0) (True, ''Tell''), log_entry (sample_steps ! 1) (True, ''Call'')], Success), ())"
proof -
  have limit: "GUARD_LIMIT = Suc (Suc 48)" by (simp add: GUARD_LIMIT_def)
  have ne: "sample_steps \<noteq> []" by (simp add: sample_steps_def)
  note walk = mem_loop_next [OF _ sample_lookup(1)] mem_loop_next [OF _ sample_lookup(2)]
    mem_loop_next [OF _ sample_lookup(3)]
  show "runForDevice (sample_engine False) sample_steps () =
     (Inr ([log_entry (sample_steps ! 0) (False, ''Tell''), log_entry (sample_steps ! 2) (True, ''Undo'')], Partial), ())"
    and "runForDevice (sample_engine True) sample_steps () =
     (Inr ([log_entry (sample_steps ! 0) (True, ''Tell''), log_entry (sample_steps ! 1) (True, ''Call'')], Success), ())"
    unfolding runForDevice_def limit sample_first
    using ne by (simp_all only: walk [OF _ sample_calls(4)] sample_running sample_calls sample_next if_True if_False
        mem_loop_stop fst_conv simp_thms)
      (simp_all add: finalStatus_def)
qed

theorem runForDevice_walks_witness:
  "\<exists>lg. runForDevice (sample_engine False) sample_steps () = (Inr (lg, Partial), ()) \<and>
     map log_stepId lg = [Some ''a'', Some ''c''] \<and> \<not> (\<forall>x\<in>set lg. log_ok x)"
proof -
  define lg where "lg = [log_entry (sample_steps ! 0) (False, ''Tell''), log_entry (sample_steps ! 2) (True, ''Undo'')]"
  have run: "runForDevice (sample_engine False) sample_steps () = (Inr (lg, Partial), ())"
    unfolding lg_def by (simp add: sample_run)
  have "\<not> (\<forall>x\<in>set lg. log_ok x)"
    using runForDevice_walks [OF run, THEN conjunct2, THEN conjunct1] by simp
  moreover have "map log_stepId lg = [Some ''a'', Some ''c'']"
    by (simp add: lg_def sample_steps_def)
  ultimately show ?thesis using run by (intro exI [of _ lg]) simp
qed

text \<open>
  C27: The two engines agree where no step waits: a fresh durable walk of a wait-free workflow makes the
  same calls in the same world, writes the same log and ends, or throws, as the in-memory engine.
\<close>
theorem engines_agree:
  assumes "steps \<noteq> []" "\<forall>s\<in>set steps. \<not> is_wait s"
  shows "runForDevice e steps w =
    (case durable_walk e now token steps None [] w of
       (ChainDone, lg, w') \<Rightarrow> (Inr (lg, finalStatus lg), w')
     | (ChainThrew m, lg, w') \<Rightarrow> (Inl m, w')
     | (ChainParked p, lg, w') \<Rightarrow> (Inl ''parked'', w'))"
proof -
  obtain r lg w' where run: "mem_loop e steps GUARD_LIMIT (firstStep steps) [] w = (r, lg, w')"
    by (rule prod_cases3)
  show ?thesis
    unfolding durable_walk_def runForDevice_def
    using loops_agree [OF assms(2), of e now token GUARD_LIMIT "firstStep steps" "[]" w] run assms(1)
    by (cases r) simp_all
qed

theorem engines_agree_witness:
  "(case durable_walk (sample_engine True) 0 (\<lambda>_. []) sample_steps None [] () of
       (ChainDone, lg, w') \<Rightarrow> (Inr (lg, finalStatus lg), w')
     | (ChainThrew m, lg, w') \<Rightarrow> (Inl m, w')
     | (ChainParked p, lg, w') \<Rightarrow> (Inl ''parked'', w')) =
   (Inr ([log_entry (sample_steps ! 0) (True, ''Tell''), log_entry (sample_steps ! 1) (True, ''Call'')], Success), ())"
proof -
  have "sample_steps \<noteq> []" "\<forall>s\<in>set sample_steps. \<not> is_wait s"
    by (simp_all add: sample_steps_def is_wait_def)
  from engines_agree [OF this, of "sample_engine True" "()" 0 "\<lambda>_. []"] show ?thesis
    by (simp only: sample_run)
qed

text \<open>
  The dry run previews the run in which every step succeeds: when no step waits and all steps
  succeed, the previewed step ids are, in order, the first entries of the real run's log; the
  preview never lists a step twice.
\<close>
lemma dry_run_previews_success:
  assumes "all_succeed e" "\<forall>s\<in>set steps. \<not> is_wait s" "runForDevice e steps w = (Inr (lg, st), w')"
  shows "prefix (map (Some \<circ> pv_stepId) (dryRunWorkflow steps)) (map log_stepId lg) \<and>
    distinct (map pv_stepId (dryRunWorkflow steps))"
proof (cases "steps = []")
  case True
  then show ?thesis
    by (simp add: dryRunWorkflow_def firstStep_def stepOrder_def running_def GUARD_LIMIT_def numeral_eq_Suc)
next
  case False
  then have "mem_loop e steps GUARD_LIMIT (firstStep steps) [] w = (Done, lg, w')"
    using assms(3) by (auto simp: runForDevice_def split: prod.splits loop_end.splits)
  from dry_loop_prefix [OF assms(1,2) this, of "[]"] show ?thesis
    unfolding dryRunWorkflow_def using dry_loop_distinct [of steps GUARD_LIMIT "firstStep steps" "[]"] by simp
qed

theorem dry_run_previews_success_witness:
  "prefix (map (Some \<circ> pv_stepId) (dryRunWorkflow sample_steps)) [Some ''a'', Some ''b'']"
proof -
  define lg where "lg = [log_entry (sample_steps ! 0) (True, ''Tell''), log_entry (sample_steps ! 1) (True, ''Call'')]"
  have run: "runForDevice (sample_engine True) sample_steps () = (Inr (lg, Success), ())"
    unfolding lg_def by (simp add: sample_run)
  have "prefix (map (Some \<circ> pv_stepId) (dryRunWorkflow sample_steps)) (map log_stepId lg) \<and>
      distinct (map pv_stepId (dryRunWorkflow sample_steps))"
    by (rule dry_run_previews_success [OF _ _ run])
      (simp_all add: all_succeed_def sample_engine_def sample_steps_def is_wait_def)
  moreover have "map log_stepId lg = [Some ''a'', Some ''b'']"
    by (simp add: lg_def sample_steps_def)
  ultimately show ?thesis by simp
qed

text \<open>
  C30: A durable chain ends. However its engines, clock and script results turn out, one device's chain
  parks at most 50 times, because every walk that parks has logged at least one more step and a
  walk that starts with 50 log entries executes nothing.
\<close>
theorem chain_parks_bounded:
  assumes "parks es steps k lg"
  shows "k \<le> 50 \<and> k \<le> length lg \<and>
    (k = 50 \<longrightarrow> (\<forall>e now token start extra w p lg' w'.
       durable_walk e now token steps start (lg @ extra) w \<noteq> (ChainParked p, lg', w')))"
  using parks_length [OF assms] unfolding GUARD_LIMIT_def
  by (auto dest!: durable_walk_parked simp: GUARD_LIMIT_def)

theorem chain_parks_bounded_witness:
  "\<exists>lg. parks (UNIV :: unit engine set) [\<lparr>step_id = ''p'', step_type = ''wait'', step_name = ''Pause'',
       config = JObj [(''amount'', jint 5)], onSuccess = None, onFailure = None\<rparr>] 1 lg \<and> (1::nat) \<le> 50"
proof -
  let ?s = "\<lparr>step_id = ''p'', step_type = ''wait'', step_name = ''Pause'',
       config = JObj [(''amount'', jint 5)], onSuccess = None, onFailure = None\<rparr>"
  have "durable_loop (sample_engine True) 0 (\<lambda>_. []) [?s] (Suc 49) ''p'' [] () =
      (ChainParked \<lparr>park_next = ''end'', park_resumeAt = 300000, park_kind = ''timer'',
         park_onFailure = None, park_token = None\<rparr>,
       [log_entry ?s (True, wait_detail (config ?s) 5 300000)], ())"
    by (subst durable_loop.simps(2), simp add: running_def stepsById_def sample_engine_def wait_amount_def own_prop_def date_after_def
        wait_seconds_def wait_unit_def js_or_def MAX_DATE_MS_def successTarget_def defaultNext_def stepOrder_def)
  then have walk: "durable_walk (sample_engine True) 0 (\<lambda>_. []) [?s] None ([] @ []) () =
      (ChainParked \<lparr>park_next = ''end'', park_resumeAt = 300000, park_kind = ''timer'',
         park_onFailure = None, park_token = None\<rparr>,
       [log_entry ?s (True, wait_detail (config ?s) 5 300000)], ())"
    by (simp add: durable_walk_def GUARD_LIMIT_def firstStep_def stepOrder_def)
  have "parks (UNIV :: unit engine set) [?s] (Suc 0) [log_entry ?s (True, wait_detail (config ?s) 5 300000)]"
    by (rule parks.parks_again [OF parks.parks_fresh UNIV_I walk])
  from this chain_parks_bounded [OF this] show ?thesis by auto
qed

end
