(* ===== verification/MdmActions.thy ===== *)
theory MdmActions
  imports Templates AppliveryApi WorkflowEngine
begin

text \<open>
  MDM commands: the action registry (\<open>modules/devices/mdmActions.ts\<close>) and the dispatch of one action to
  one device (\<open>modules/workflows/mdmActionExecutor.ts\<close>) - its gates, the request each action becomes on
  each platform, the direct script run and the firewall rule sets that delegate to it. The state holds
  the calls sent so far; \<open>remote\<close> answers a call from that history (\<open>Inl\<close> the message of the exception).
\<close>

section \<open>The action registry\<close>

record mdm_field =
  fld_key :: string
  fld_label :: string
  fld_type :: string
  fld_required :: bool
  fld_placeholder :: "string option"
  fld_options :: "string list option"

record mdm_action =
  act_label :: string
  act_destructive :: bool
  act_platforms :: "string list"
  act_deploymentModels :: "(string \<times> string list) list"
  act_fields :: "mdm_field list option"

definition mdm_actions_1 :: "(string \<times> mdm_action) list" where
  "mdm_actions_1 = [
    (''syncDevice'',
     \<lparr>act_label = ''Sync device'', act_destructive = False,
      act_platforms = [''apple'', ''macos'', ''android'', ''windows'', ''aosp''],
      act_deploymentModels = [],
      act_fields = None\<rparr>),
    (''lockDevice'',
     \<lparr>act_label = ''Remote lock'', act_destructive = False,
      act_platforms = [''apple'', ''macos'', ''android'', ''windows'', ''aosp''],
      act_deploymentModels = [(''android'', [''device_owner''])],
      act_fields = None\<rparr>),
    (''clearPasscode'',
     \<lparr>act_label = ''Reset password'', act_destructive = True,
      act_platforms = [''apple'', ''macos'', ''android'', ''aosp''],
      act_deploymentModels = [(''android'', [''device_owner''])],
      act_fields = Some [\<lparr>fld_key = ''newPassword'', fld_label = ''New password (Android/AOSP only '' @ em_dash @ '' leave blank to just clear it)'', fld_type = ''password'', fld_required = False,
         fld_placeholder = None, fld_options = None\<rparr>]\<rparr>),
    (''rebootDevice'',
     \<lparr>act_label = ''Restart device'', act_destructive = False,
      act_platforms = [''apple'', ''macos'', ''android'', ''windows'', ''aosp''],
      act_deploymentModels = [(''apple'', [''supervised'']), (''macos'', [''supervised'']), (''android'', [''device_owner''])],
      act_fields = None\<rparr>),
    (''clearAppData'',
     \<lparr>act_label = ''Clear app data'', act_destructive = True,
      act_platforms = [''android'', ''aosp''],
      act_deploymentModels = [],
      act_fields = Some [\<lparr>fld_key = ''packageNames'', fld_label = ''Package names to clear (comma-separated)'', fld_type = ''text'', fld_required = True,
         fld_placeholder = Some (''com.example.app, com.example.other''), fld_options = None\<rparr>]\<rparr>),
    (''shutdownDevice'',
     \<lparr>act_label = ''Shut down device'', act_destructive = False,
      act_platforms = [''apple'', ''macos''],
      act_deploymentModels = [(''apple'', [''supervised'']), (''macos'', [''supervised''])],
      act_fields = None\<rparr>),
    (''wipeDevice'',
     \<lparr>act_label = ''Erase device'', act_destructive = True,
      act_platforms = [''apple'', ''macos'', ''windows''],
      act_deploymentModels = [(''macos'', [''supervised''])],
      act_fields = Some [\<lparr>fld_key = ''wipeType'', fld_label = ''Wipe type (Windows only)'', fld_type = ''select'', fld_required = False,
         fld_placeholder = None, fld_options = Some [''default'', ''protected'']\<rparr>]\<rparr>),
    (''disableDevice'',
     \<lparr>act_label = ''Disable device'', act_destructive = True,
      act_platforms = [''android''],
      act_deploymentModels = [],
      act_fields = None\<rparr>),
    (''enableDevice'',
     \<lparr>act_label = ''Re-enable device'', act_destructive = False,
      act_platforms = [''android''],
      act_deploymentModels = [],
      act_fields = None\<rparr>)]"

definition mdm_actions_2 :: "(string \<times> mdm_action) list" where
  "mdm_actions_2 = [
    (''enableLostMode'',
     \<lparr>act_label = ''Enable Lost Mode'', act_destructive = True,
      act_platforms = [''apple'', ''android''],
      act_deploymentModels = [(''apple'', [''supervised'']), (''android'', [''cope'', ''device_owner''])],
      act_fields = Some [\<lparr>fld_key = ''message'', fld_label = ''Message shown on the lock screen'', fld_type = ''text'', fld_required = True,
         fld_placeholder = Some (''This device is lost. Please contact IT.''), fld_options = None\<rparr>,
       \<lparr>fld_key = ''phoneNumber'', fld_label = ''Contact phone number (optional)'', fld_type = ''text'', fld_required = False,
         fld_placeholder = None, fld_options = None\<rparr>,
       \<lparr>fld_key = ''footnote'', fld_label = ''Organization name / footnote (optional, Apple only)'', fld_type = ''text'', fld_required = False,
         fld_placeholder = None, fld_options = None\<rparr>]\<rparr>),
    (''disableLostMode'',
     \<lparr>act_label = ''Disable Lost Mode'', act_destructive = False,
      act_platforms = [''apple'', ''android''],
      act_deploymentModels = [(''apple'', [''supervised'']), (''android'', [''cope'', ''device_owner''])],
      act_fields = None\<rparr>),
    (''playLostModeSound'',
     \<lparr>act_label = ''Play sound (Lost Mode)'', act_destructive = False,
      act_platforms = [''apple''],
      act_deploymentModels = [(''apple'', [''supervised''])],
      act_fields = None\<rparr>),
    (''setTimeZone'',
     \<lparr>act_label = ''Set Time Zone'', act_destructive = False,
      act_platforms = [''apple''],
      act_deploymentModels = [(''apple'', [''supervised''])],
      act_fields = Some [\<lparr>fld_key = ''timeZone'', fld_label = ''IANA time zone name'', fld_type = ''text'', fld_required = True,
         fld_placeholder = Some (''America/New_York''), fld_options = None\<rparr>]\<rparr>),
    (''setBluetooth'',
     \<lparr>act_label = ''Set Bluetooth (allow/prevent)'', act_destructive = False,
      act_platforms = [''apple'', ''macos''],
      act_deploymentModels = [(''apple'', [''supervised'']), (''macos'', [''supervised''])],
      act_fields = Some [\<lparr>fld_key = ''enabled'', fld_label = ''Bluetooth'', fld_type = ''select'', fld_required = True,
         fld_placeholder = None, fld_options = Some [''Enabled'', ''Disabled'']\<rparr>]\<rparr>),
    (''setDataRoaming'',
     \<lparr>act_label = ''Set Data Roaming (allow/prevent)'', act_destructive = False,
      act_platforms = [''apple''],
      act_deploymentModels = [],
      act_fields = Some [\<lparr>fld_key = ''enabled'', fld_label = ''Data roaming'', fld_type = ''select'', fld_required = True,
         fld_placeholder = None, fld_options = Some [''Enabled'', ''Disabled'']\<rparr>]\<rparr>)]"

definition mdm_actions_3 :: "(string \<times> mdm_action) list" where
  "mdm_actions_3 = [
    (''setVoiceRoaming'',
     \<lparr>act_label = ''Set Voice Roaming (allow/prevent, deprecated iOS 16+)'', act_destructive = False,
      act_platforms = [''apple''],
      act_deploymentModels = [],
      act_fields = Some [\<lparr>fld_key = ''enabled'', fld_label = ''Voice roaming'', fld_type = ''select'', fld_required = True,
         fld_placeholder = None, fld_options = Some [''Enabled'', ''Disabled'']\<rparr>]\<rparr>),
    (''setPersonalHotspot'',
     \<lparr>act_label = ''Set Personal Hotspot (allow/prevent)'', act_destructive = False,
      act_platforms = [''apple''],
      act_deploymentModels = [],
      act_fields = Some [\<lparr>fld_key = ''enabled'', fld_label = ''Personal Hotspot'', fld_type = ''select'', fld_required = True,
         fld_placeholder = None, fld_options = Some [''Enabled'', ''Disabled'']\<rparr>]\<rparr>),
    (''setSoftwareUpdateCadence'',
     \<lparr>act_label = ''Set Software Update recommendation'', act_destructive = False,
      act_platforms = [''apple''],
      act_deploymentModels = [(''apple'', [''supervised''])],
      act_fields = Some [\<lparr>fld_key = ''cadence'', fld_label = ''Which update(s) to recommend'', fld_type = ''select'', fld_required = True,
         fld_placeholder = None, fld_options = Some [''Show all available'', ''Prefer oldest available'', ''Prefer latest available'']\<rparr>]\<rparr>),
    (''recoveryLock'',
     \<lparr>act_label = ''Set Recovery Lock (Apple Silicon Mac only)'', act_destructive = False,
      act_platforms = [''macos''],
      act_deploymentModels = [],
      act_fields = Some [\<lparr>fld_key = ''newPassword'', fld_label = ''New Recovery Lock password (leave blank to clear it)'', fld_type = ''password'', fld_required = False,
         fld_placeholder = None, fld_options = None\<rparr>,
       \<lparr>fld_key = ''currentPassword'', fld_label = ''Current Recovery Lock password (only if one is already set)'', fld_type = ''password'', fld_required = False,
         fld_placeholder = None, fld_options = None\<rparr>]\<rparr>),
    (''unlockUserAccount'',
     \<lparr>act_label = ''Unlock User Account'', act_destructive = False,
      act_platforms = [''macos''],
      act_deploymentModels = [],
      act_fields = Some [\<lparr>fld_key = ''userName'', fld_label = ''Local macOS account username'', fld_type = ''text'', fld_required = True,
         fld_placeholder = None, fld_options = None\<rparr>]\<rparr>),
    (''clearRestrictionsPassword'',
     \<lparr>act_label = ''Clear Restrictions Password'', act_destructive = False,
      act_platforms = [''apple''],
      act_deploymentModels = [(''apple'', [''supervised''])],
      act_fields = None\<rparr>),
    (''deviceLocation'',
     \<lparr>act_label = ''Request Device Location'', act_destructive = False,
      act_platforms = [''apple''],
      act_deploymentModels = [(''apple'', [''supervised''])],
      act_fields = None\<rparr>)]"

definition mdm_actions_4 :: "(string \<times> mdm_action) list" where
  "mdm_actions_4 = [
    (''scheduleOsUpdate'',
     \<lparr>act_label = ''Schedule OS update'', act_destructive = True,
      act_platforms = [''apple'', ''macos''],
      act_deploymentModels = [(''apple'', [''supervised'']), (''macos'', [''supervised''])],
      act_fields = Some [\<lparr>fld_key = ''productVersion'', fld_label = ''Target OS version'', fld_type = ''text'', fld_required = True,
         fld_placeholder = Some (''e.g. 17.5.1, or {{ device.osLifecycleStatus.latestKnownVersion }} to auto-resolve per device''), fld_options = None\<rparr>,
       \<lparr>fld_key = ''installAction'', fld_label = ''Install action'', fld_type = ''select'', fld_required = True,
         fld_placeholder = None, fld_options = Some [''Default'', ''DownloadOnly'', ''InstallASAP'', ''NotifyOnly'', ''InstallLater'', ''InstallForceRestart'']\<rparr>]\<rparr>),
    (''setRemoteDesktop'',
     \<lparr>act_label = ''Set Remote Desktop (Apple Remote Desktop / ARD)'', act_destructive = False,
      act_platforms = [''macos''],
      act_deploymentModels = [(''macos'', [''supervised''])],
      act_fields = Some [\<lparr>fld_key = ''enabled'', fld_label = ''Remote Desktop'', fld_type = ''select'', fld_required = True,
         fld_placeholder = None, fld_options = Some [''Enabled'', ''Disabled'']\<rparr>]\<rparr>),
    (''removeProfile'',
     \<lparr>act_label = ''Remove Configuration Profile (e.g. disconnect a Wi-Fi network)'', act_destructive = True,
      act_platforms = [''apple'', ''macos''],
      act_deploymentModels = [],
      act_fields = Some [\<lparr>fld_key = ''identifier'', fld_label = ''Profile identifier (PayloadIdentifier) to remove'', fld_type = ''text'', fld_required = True,
         fld_placeholder = Some (''com.yourorg.wifi.corp''), fld_options = None\<rparr>]\<rparr>),
    (''getActivationLockBypassCode'',
     \<lparr>act_label = ''Get Activation Lock bypass code'', act_destructive = False,
      act_platforms = [''apple'', ''macos''],
      act_deploymentModels = [(''apple'', [''supervised'']), (''macos'', [''supervised''])],
      act_fields = None\<rparr>),
    (''rotateFileVaultKey'',
     \<lparr>act_label = ''Rotate FileVault recovery key (invalidates old key; new key isn'' @ [CHR 0x27] @ ''t retrievable)'', act_destructive = True,
      act_platforms = [''macos''],
      act_deploymentModels = [],
      act_fields = Some [\<lparr>fld_key = ''currentPassword'', fld_label = ''Current FileVault password (if one is required to authorize)'', fld_type = ''password'', fld_required = False,
         fld_placeholder = None, fld_options = None\<rparr>]\<rparr>),
    (''setBluetoothWindows'',
     \<lparr>act_label = ''Bluetooth '' @ em_dash @ '' allow/block'', act_destructive = False,
      act_platforms = [''windows''],
      act_deploymentModels = [],
      act_fields = Some [\<lparr>fld_key = ''enabled'', fld_label = ''Bluetooth'', fld_type = ''select'', fld_required = True,
         fld_placeholder = None, fld_options = Some [''Allow'', ''Block'']\<rparr>]\<rparr>)]"

definition mdm_actions_5 :: "(string \<times> mdm_action) list" where
  "mdm_actions_5 = [
    (''setWifiWindows'',
     \<lparr>act_label = ''Wi-Fi '' @ em_dash @ '' allow/block'', act_destructive = True,
      act_platforms = [''windows''],
      act_deploymentModels = [],
      act_fields = Some [\<lparr>fld_key = ''enabled'', fld_label = ''Wi-Fi'', fld_type = ''select'', fld_required = True,
         fld_placeholder = None, fld_options = Some [''Allow'', ''Block'']\<rparr>]\<rparr>),
    (''setCameraWindows'',
     \<lparr>act_label = ''Camera '' @ em_dash @ '' allow/block'', act_destructive = False,
      act_platforms = [''windows''],
      act_deploymentModels = [],
      act_fields = Some [\<lparr>fld_key = ''enabled'', fld_label = ''Camera'', fld_type = ''select'', fld_required = True,
         fld_placeholder = None, fld_options = Some [''Allow'', ''Block'']\<rparr>]\<rparr>),
    (''setRemovableStorageWindows'',
     \<lparr>act_label = ''External storage (USB / DVD / portable devices) '' @ em_dash @ '' block all / allow'', act_destructive = True,
      act_platforms = [''windows''],
      act_deploymentModels = [],
      act_fields = Some [\<lparr>fld_key = ''enabled'', fld_label = ''External storage'', fld_type = ''select'', fld_required = True,
         fld_placeholder = None, fld_options = Some [''Allow'', ''Block all'']\<rparr>]\<rparr>),
    (''customOmaUri'',
     \<lparr>act_label = ''Custom OMA-URI command'', act_destructive = False,
      act_platforms = [''windows''],
      act_deploymentModels = [],
      act_fields = Some [\<lparr>fld_key = ''path'', fld_label = ''OMA-URI / CSP path'', fld_type = ''text'', fld_required = True,
         fld_placeholder = Some (''./Vendor/MSFT/Policy/Config/...''), fld_options = None\<rparr>,
       \<lparr>fld_key = ''action'', fld_label = ''Action'', fld_type = ''select'', fld_required = True,
         fld_placeholder = None, fld_options = Some [''Add'', ''Replace'', ''Delete'', ''Exec'', ''Get'', ''Copy'']\<rparr>,
       \<lparr>fld_key = ''value'', fld_label = ''Value (optional)'', fld_type = ''text'', fld_required = False,
         fld_placeholder = None, fld_options = None\<rparr>,
       \<lparr>fld_key = ''format'', fld_label = ''Format'', fld_type = ''select'', fld_required = True,
         fld_placeholder = None, fld_options = Some [''chr'', ''int'', ''bool'', ''xml'', ''b64'', ''bin'', ''node'', ''null'', ''date'', ''time'', ''float'']\<rparr>]\<rparr>),
    (''enableVbsWindows'',
     \<lparr>act_label = ''Virtualization-Based Security (VBS) '' @ em_dash @ '' enable/disable'', act_destructive = False,
      act_platforms = [''windows''],
      act_deploymentModels = [],
      act_fields = Some [\<lparr>fld_key = ''enabled'', fld_label = ''VBS'', fld_type = ''select'', fld_required = True,
         fld_placeholder = None, fld_options = Some [''Enable'', ''Disable'']\<rparr>]\<rparr>)]"

definition mdm_actions_6 :: "(string \<times> mdm_action) list" where
  "mdm_actions_6 = [
    (''setCredentialGuardWindows'',
     \<lparr>act_label = ''Credential Guard (LSA protection)'', act_destructive = True,
      act_platforms = [''windows''],
      act_deploymentModels = [],
      act_fields = Some [\<lparr>fld_key = ''mode'', fld_label = ''Mode'', fld_type = ''select'', fld_required = True,
         fld_placeholder = None, fld_options = Some [''Disabled'', ''Enabled without lock (recommended for UEM)'', ''Enabled with UEFI lock'']\<rparr>]\<rparr>),
    (''mdmUnenrollWindows'',
     \<lparr>act_label = ''MDM Unenroll (remove management, keep user data)'', act_destructive = True,
      act_platforms = [''windows''],
      act_deploymentModels = [],
      act_fields = Some [\<lparr>fld_key = ''providerId'', fld_label = ''MDM Provider ID'', fld_type = ''text'', fld_required = True,
         fld_placeholder = Some (''Your UEM'' @ [CHR 0x27] @ ''s enrollment ProviderID''), fld_options = None\<rparr>]\<rparr>),
    (''autopilotResetWindows'',
     \<lparr>act_label = ''Autopilot Reset (wipe data, keep enrollment)'', act_destructive = True,
      act_platforms = [''windows''],
      act_deploymentModels = [],
      act_fields = Some []\<rparr>),
    (''runScript'',
     \<lparr>act_label = ''Run script (direct, on-device execution)'', act_destructive = True,
      act_platforms = [''windows'', ''macos''],
      act_deploymentModels = [],
      act_fields = Some [\<lparr>fld_key = ''libraryId'', fld_label = ''Script (from Script & OMA-URI Library)'', fld_type = ''script_library_select'', fld_required = True,
         fld_placeholder = None, fld_options = None\<rparr>,
       \<lparr>fld_key = ''restoreLibraryId'', fld_label = ''Restore/rollback script '' @ em_dash @ '' run automatically when compliance recovers (optional)'', fld_type = ''script_library_select'', fld_required = False,
         fld_placeholder = None, fld_options = None\<rparr>]\<rparr>),
    (''applyFirewallRuleSet'',
     \<lparr>act_label = ''Apply Firewall Rule Set (Windows)'', act_destructive = True,
      act_platforms = [''windows''],
      act_deploymentModels = [],
      act_fields = Some [\<lparr>fld_key = ''ruleSetId'', fld_label = ''Firewall Rule Set (from Firewall Policy Library)'', fld_type = ''firewall_ruleset_select'', fld_required = True,
         fld_placeholder = None, fld_options = None\<rparr>]\<rparr>),
    (''restoreFirewallRuleSet'',
     \<lparr>act_label = ''Restore Firewall (remove rule set, Windows)'', act_destructive = False,
      act_platforms = [''windows''],
      act_deploymentModels = [],
      act_fields = Some [\<lparr>fld_key = ''ruleSetId'', fld_label = ''Firewall Rule Set to remove'', fld_type = ''firewall_ruleset_select'', fld_required = True,
         fld_placeholder = None, fld_options = None\<rparr>]\<rparr>),
    (''deleteDevice'',
     \<lparr>act_label = ''Remove from MDM (unenroll / disenroll)'', act_destructive = True,
      act_platforms = [''apple'', ''macos'', ''android'', ''windows'', ''aosp''],
      act_deploymentModels = [],
      act_fields = None\<rparr>),
    (''installApp'',
     \<lparr>act_label = ''Install app'', act_destructive = False,
      act_platforms = [''apple'', ''macos'', ''android'', ''windows''],
      act_deploymentModels = [],
      act_fields = Some [\<lparr>fld_key = ''appId'', fld_label = ''Application'', fld_type = ''app_select'', fld_required = True,
         fld_placeholder = None, fld_options = None\<rparr>]\<rparr>)]"

definition mdm_actions_7 :: "(string \<times> mdm_action) list" where
  "mdm_actions_7 = [
    (''uninstallApp'',
     \<lparr>act_label = ''Uninstall / remove app'', act_destructive = True,
      act_platforms = [''apple'', ''macos'', ''android'', ''windows''],
      act_deploymentModels = [],
      act_fields = Some [\<lparr>fld_key = ''appId'', fld_label = ''Application'', fld_type = ''app_select'', fld_required = True,
         fld_placeholder = None, fld_options = None\<rparr>]\<rparr>)]"

definition MDM_ACTIONS :: "(string \<times> mdm_action) list" where
  "MDM_ACTIONS =
     mdm_actions_1 @ mdm_actions_2 @ mdm_actions_3 @ mdm_actions_4 @ mdm_actions_5 @ mdm_actions_6 @ mdm_actions_7"

text \<open>
  The lookup in the registry. In JavaScript the names every object inherits are found as well and pass the gates below
  as an action without fields and platforms; the model looks at the registry's own keys.
\<close>

definition find_action :: "string \<Rightarrow> mdm_action option" where
  "find_action key = map_of MDM_ACTIONS key"

section \<open>Platforms and requests\<close>

definition platformPathSegment :: "string \<Rightarrow> string option" where
  "platformPathSegment platform =
     (if platform = ''apple'' \<or> platform = ''macos'' then Some ''apple''
      else if platform = ''android'' then Some ''android''
      else if platform = ''windows'' then Some ''windows''
      else if platform = ''aosp'' then Some ''aosp''
      else None)"

datatype api_call =
    ApiGet string
  | ApiPost string jsval
  | ApiPut string jsval
  | ApiDelete string

fun call_url :: "api_call \<Rightarrow> string" where
  "call_url (ApiGet u) = u"
| "call_url (ApiPost u _) = u"
| "call_url (ApiPut u _) = u"
| "call_url (ApiDelete u) = u"

definition device_url :: "string \<Rightarrow> string \<Rightarrow> string \<Rightarrow> string" where
  "device_url orgBase path deviceId = orgBase @ ''/mdm/'' @ path @ ''/enterprise/devices/'' @ deviceId"

definition apple_command_url :: "string \<Rightarrow> string \<Rightarrow> string" where
  "apple_command_url orgBase deviceId = orgBase @ ''/mdm/apple/enterprise/commands/device/'' @ deviceId"

definition UNCONFIRMED_API_ACTIONS :: "string list" where
  "UNCONFIRMED_API_ACTIONS = [''deviceLocation'']"

section \<open>Gates\<close>

definition sq :: "string \<Rightarrow> string" where
  "sq s = [CHR 0x27] @ s @ [CHR 0x27]"

definition missing_field :: "jsval \<Rightarrow> mdm_action \<Rightarrow> mdm_field option" where
  "missing_field p act =
     List.find (\<lambda>f. fld_required f \<and> js_trim (to_string (coalesce (own_prop p (fld_key f)) (JStr []))) = [])
       (case act_fields act of Some fs \<Rightarrow> fs | None \<Rightarrow> [])"

definition mdm_gate :: "string \<Rightarrow> string \<Rightarrow> string \<Rightarrow> string option \<Rightarrow> jsval \<Rightarrow> string + (mdm_action \<times> string)" where
  "mdm_gate platform platformDeviceId actionKey deploymentModel p =
     (case find_action actionKey of
        None \<Rightarrow> Inl (''Unknown MDM action '' @ sq actionKey)
      | Some act \<Rightarrow>
          if platformDeviceId = [] then Inl ''Device is missing a platform device ID''
          else case platformPathSegment platform of
            None \<Rightarrow> Inl (''Unsupported platform '' @ sq platform)
          | Some path \<Rightarrow>
              (let allowed = (case map_of (act_deploymentModels act) platform of Some ms \<Rightarrow> ms | None \<Rightarrow> []);
                   model = (case deploymentModel of Some m \<Rightarrow> m | None \<Rightarrow> [])
               in if platform \<notin> set (act_platforms act) then
                    Inl (sq (act_label act) @ '' is not supported on '' @ platform)
                  else if allowed \<noteq> [] \<and> model \<noteq> [] \<and> model \<notin> set allowed then
                    Inl (sq (act_label act) @ '' requires '' @ joinWith ''/'' allowed @
                      '' deployment mode (workflow targets '' @ model @ '')'')
                  else if actionKey \<in> set UNCONFIRMED_API_ACTIONS then
                    Inl (sq (act_label act) @ '' is not yet wired to a verified Applivery API call '' @ em_dash @
                      '' run it from the Applivery Dashboard directly for now.'')
                  else case missing_field p act of
                    Some f \<Rightarrow> Inl (sq (act_label act) @ '' requires a value for '' @ sq (fld_label f))
                  | None \<Rightarrow> Inr (act, path)))"

section \<open>The request of an action\<close>

definition mapped :: "(string \<times> 'a) list \<Rightarrow> string \<Rightarrow> 'a \<Rightarrow> 'a" where
  "mapped table key other = (case map_of table key of Some v \<Rightarrow> v | None \<Rightarrow> other)"

abbreviation pstr :: "jsval \<Rightarrow> string \<Rightarrow> jsval" where
  "pstr p k \<equiv> js_or (own_prop p k) (JStr [])"

definition is_enabled :: "jsval \<Rightarrow> string \<Rightarrow> bool" where
  "is_enabled p s = strict_eq (own_prop p ''enabled'') (JStr s)"

definition apple_settings :: "string list" where
  "apple_settings = [''setBluetooth'', ''setDataRoaming'', ''setVoiceRoaming'', ''setPersonalHotspot'',
     ''setTimeZone'', ''setSoftwareUpdateCadence'']"

definition settings_item :: "string \<Rightarrow> jsval \<Rightarrow> jsval" where
  "settings_item actionKey p =
     (let toggle = (\<lambda>item. JObj [(''Item'', JStr item), (''Enabled'', JBool (is_enabled p ''Enabled''))])
      in if actionKey = ''setBluetooth'' then toggle ''Bluetooth''
         else if actionKey = ''setDataRoaming'' then toggle ''DataRoaming''
         else if actionKey = ''setVoiceRoaming'' then toggle ''VoiceRoaming''
         else if actionKey = ''setPersonalHotspot'' then toggle ''PersonalHotspot''
         else if actionKey = ''setTimeZone'' then JObj [(''Item'', JStr ''TimeZone''), (''TimeZone'', pstr p ''timeZone'')]
         else JObj [(''Item'', JStr ''SoftwareUpdateSettings''),
                (''RecommendationCadence'',
                 jint (mapped [(''Show all available'', 0), (''Prefer oldest available'', 1),
                               (''Prefer latest available'', 2)] (to_string (own_prop p ''cadence'')) 0))])"

definition APPLE_REQUEST_TYPES :: "(string \<times> string) list" where
  "APPLE_REQUEST_TYPES =
     [(''wipeDevice'', ''EraseDevice''), (''lockDevice'', ''DeviceLock''), (''clearPasscode'', ''ClearPasscode''),
      (''rebootDevice'', ''RestartDevice''), (''shutdownDevice'', ''ShutDownDevice''),
      (''enableLostMode'', ''EnableLostMode''), (''disableLostMode'', ''DisableLostMode''),
      (''playLostModeSound'', ''PlayLostModeSound''), (''syncDevice'', ''DeviceInformation''),
      (''scheduleOsUpdate'', ''ScheduleOSUpdate''), (''removeProfile'', ''RemoveProfile''),
      (''getActivationLockBypassCode'', ''ActivationLockBypassCode''), (''rotateFileVaultKey'', ''RotateFileVaultKey''),
      (''recoveryLock'', ''SetRecoveryLock''), (''unlockUserAccount'', ''UnlockUserAccount''),
      (''clearRestrictionsPassword'', ''ClearRestrictionsPassword'')]"

text \<open>\<open>try { v = renderTemplate(v, ctx) } catch {}\<close> on a truthy value, when there is a context.\<close>

definition rendered :: "jsval option \<Rightarrow> jsval \<Rightarrow> jsval" where
  "rendered ctx v =
     (if truthy v then
        (case ctx of None \<Rightarrow> v | Some c \<Rightarrow> (case renderValue c v of Some v' \<Rightarrow> v' | None \<Rightarrow> v))
      else v)"

definition opt_prop :: "jsval \<Rightarrow> string \<Rightarrow> string \<Rightarrow> (string \<times> jsval) list" where
  "opt_prop p key name = (if truthy (own_prop p key) then [(name, own_prop p key)] else [])"

definition EMPTY_OS_VERSION :: string where
  "EMPTY_OS_VERSION = sq ''Schedule OS update'' @ '' resolved to an empty target version '' @ em_dash @
     '' the OS Lifecycle catalog has no confirmed latest version for this device yet, or this workflow wasn'' @
     [CHR 0x27] @ ''t triggered with that data available.''"

definition apple_body :: "string \<Rightarrow> string \<Rightarrow> jsval \<Rightarrow> jsval option \<Rightarrow> string + jsval" where
  "apple_body platform actionKey p ctx =
     (let base = [(''RequestType'', JStr (mapped APPLE_REQUEST_TYPES actionKey actionKey))];
          target = rendered ctx (JStr (to_string (pstr p ''productVersion'')))
      in if actionKey = ''scheduleOsUpdate'' \<and> js_trim (to_string target) = [] then Inl EMPTY_OS_VERSION
         else Inr (JObj (base
           @ (if actionKey = ''wipeDevice'' \<and> platform = ''macos'' then [(''PIN'', JStr ''123456'')] else [])
           @ (if actionKey = ''enableLostMode''
              then opt_prop p ''message'' ''Message'' @ opt_prop p ''phoneNumber'' ''PhoneNumber''
                @ opt_prop p ''footnote'' ''Footnote'' else [])
           @ (if actionKey = ''scheduleOsUpdate''
              then [(''Updates'', JArr [JObj [(''ProductVersion'', target),
                       (''InstallAction'', js_or (own_prop p ''installAction'') (JStr ''Default''))]])] else [])
           @ (if actionKey = ''removeProfile'' then [(''Identifier'', pstr p ''identifier'')] else [])
           @ (if actionKey = ''rotateFileVaultKey''
              then [(''KeyType'', JStr ''personal''),
                    (''FileVaultUnlock'', JObj (opt_prop p ''currentPassword'' ''Password''))] else [])
           @ (if actionKey = ''recoveryLock''
              then (''NewPassword'', pstr p ''newPassword'') # opt_prop p ''currentPassword'' ''CurrentPassword'' else [])
           @ (if actionKey = ''unlockUserAccount'' then [(''UserName'', pstr p ''userName'')] else []))))"

definition package_names :: "jsval \<Rightarrow> jsval" where
  "package_names p =
     JArr (map JStr (filter (\<lambda>s. s \<noteq> [])
       (map js_trim (split_on (\<lambda>c. c = CHR '','') (to_string (own_prop p ''packageNames''))))))"

definition lost_mode_params :: "jsval \<Rightarrow> (string \<times> jsval) list" where
  "lost_mode_params p =
     map (\<lambda>(name, v). (name, JObj [(''defaultMessage'', v)]))
       (opt_prop p ''message'' ''lostMessage'' @ opt_prop p ''phoneNumber'' ''lostPhoneNumber'')"

definition android_body :: "string \<Rightarrow> jsval \<Rightarrow> jsval" where
  "android_body actionKey p =
     JObj ([(''type'', JStr (mapped [(''lockDevice'', ''LOCK''), (''clearPasscode'', ''RESET_PASSWORD''),
               (''rebootDevice'', ''REBOOT''), (''enableLostMode'', ''START_LOST_MODE''),
               (''disableLostMode'', ''STOP_LOST_MODE''), (''clearAppData'', ''CLEAR_APP_DATA'')]
               actionKey (toUpperCase actionKey)))]
       @ (if actionKey = ''clearPasscode'' then opt_prop p ''newPassword'' ''newPassword'' else [])
       @ (if actionKey = ''enableLostMode'' \<and> lost_mode_params p \<noteq> []
          then [(''startLostModeParams'', JObj (lost_mode_params p))] else [])
       @ (if actionKey = ''clearAppData'' \<and> truthy (own_prop p ''packageNames'')
          then [(''clearAppsDataParams'', JObj [(''packageNames'', package_names p)])] else []))"

definition aosp_body :: "string \<Rightarrow> jsval \<Rightarrow> jsval" where
  "aosp_body actionKey p =
     JObj ([(''command'', JStr (mapped [(''lockDevice'', ''LOCK''), (''clearPasscode'', ''RESET_PASSWORD''),
               (''rebootDevice'', ''REBOOT''), (''clearAppData'', ''CLEAR_APP_DATA'')]
               actionKey (toUpperCase actionKey)))]
       @ (if actionKey = ''clearPasscode'' \<and> truthy (own_prop p ''newPassword'')
          then [(''params'', JObj [(''newPassword'', own_prop p ''newPassword'')])] else [])
       @ (if actionKey = ''clearAppData'' \<and> truthy (own_prop p ''packageNames'')
          then [(''params'', JObj [(''packageNames'', package_names p)])] else []))"

definition removable_storage_config :: "bool \<Rightarrow> jsval" where
  "removable_storage_config blocked =
     (let item = (\<lambda>path format value. JObj [(''config'', JObj [(''path'', JStr path), (''action'', JStr ''Replace''),
                    (''format'', JStr format), (''value'', JStr value)])]);
          flag = (if blocked then ''<enabled/>'' else ''<disabled/>'')
      in JObj [(''commands'', JArr
           [item ''./Device/Vendor/MSFT/Policy/Config/Storage/RemovableDiskDenyWriteAccess'' ''int'' (if blocked then ''1'' else ''0''),
            item ''./Device/Vendor/MSFT/Policy/Config/Storage/WPDDevicesDenyWriteAccessPerDevice'' ''chr'' flag,
            item ''./Device/Vendor/MSFT/Policy/Config/Storage/WPDDevicesDenyReadAccessPerDevice'' ''chr'' flag,
            item ''./Device/Vendor/MSFT/Policy/Config/ADMX_RemovableStorage/CDandDVD_DenyWrite_Access_2'' ''chr'' flag])])"

text \<open>The SyncML configuration of a Windows action: path, action, format, value.\<close>

definition oma_config :: "string \<Rightarrow> jsval \<Rightarrow> jsval option \<Rightarrow> jsval \<times> jsval \<times> jsval \<times> jsval" where
  "oma_config actionKey p ctx =
     (let const = (\<lambda>path act fmt value. (JStr path, JStr act, JStr fmt, JStr value));
          policy = (\<lambda>name. ''./Device/Vendor/MSFT/Policy/Config/'' @ name);
          toggle = (\<lambda>name allow block. const (policy name) ''Replace'' ''int''
                      (if is_enabled p ''Allow'' then allow else block))
      in if actionKey = ''customOmaUri'' then
           (pstr p ''path'', js_or (own_prop p ''action'') (JStr ''Replace''),
            js_or (own_prop p ''format'') (JStr ''chr''), rendered ctx (pstr p ''value''))
         else if actionKey = ''setBluetoothWindows'' then toggle ''Connectivity/AllowBluetooth'' ''2'' ''0''
         else if actionKey = ''setWifiWindows'' then toggle ''Wifi/AllowWiFi'' ''1'' ''0''
         else if actionKey = ''setCameraWindows'' then toggle ''Camera/AllowCamera'' ''1'' ''0''
         else if actionKey = ''enableVbsWindows'' then
           const (policy ''DeviceGuard/EnableVirtualizationBasedSecurity'') ''Replace'' ''int''
             (if is_enabled p ''Enable'' then ''1'' else ''0'')
         else if actionKey = ''setCredentialGuardWindows'' then
           const (policy ''DeviceGuard/LsaCfgFlags'') ''Replace'' ''int''
             (mapped [(''Disabled'', ''0''), (''Enabled without lock (recommended for UEM)'', ''2''),
                      (''Enabled with UEFI lock'', ''1'')] (to_string (own_prop p ''mode'')) ''2'')
         else if actionKey = ''mdmUnenrollWindows'' then
           (JStr ''./Vendor/MSFT/DMClient/Unenroll'', JStr ''Exec'', JStr ''chr'', pstr p ''providerId'')
         else if actionKey = ''autopilotResetWindows'' then
           const ''./Vendor/MSFT/RemoteWipe/AutomaticRedeployment/doAutomaticRedeployment'' ''Exec'' ''chr'' []
         else if actionKey = ''lockDevice'' then const ''./Vendor/MSFT/RemoteLock/DeviceLock'' ''Exec'' ''chr'' []
         else if actionKey = ''syncDevice'' then const ''./DevInfo/DevId'' ''Get'' ''chr'' []
         else const actionKey ''Exec'' ''chr'' [])"

definition oma_body :: "jsval \<times> jsval \<times> jsval \<times> jsval \<Rightarrow> jsval" where
  "oma_body c =
     (case c of (path, act, fmt, value) \<Rightarrow>
        JObj [(''commands'', JArr [JObj [(''config'',
          JObj [(''path'', path), (''action'', act), (''format'', fmt), (''value'', value)])]])])"

definition command_request :: "string \<Rightarrow> string \<Rightarrow> string \<Rightarrow> string \<Rightarrow> string \<Rightarrow> string option \<Rightarrow> jsval \<Rightarrow> jsval option \<Rightarrow>
    string + api_call" where
  "command_request orgBase platform path deviceId actionKey deploymentModel p ctx =
     (let dev = device_url orgBase path deviceId; apple = apple_command_url orgBase deviceId
      in if actionKey = ''deleteDevice'' \<and> path = ''android'' \<and> deploymentModel = Some ''cope'' then
           Inr (ApiPost (dev @ ''/commands'') (JObj [(''type'', JStr ''RELINQUISH_OWNERSHIP'')]))
         else if actionKey = ''deleteDevice'' then Inr (ApiDelete dev)
         else if actionKey = ''installApp'' \<or> actionKey = ''uninstallApp'' then
           Inr (ApiPost (dev @ ''/action'')
             (JObj [(''entity'', JStr ''application''),
                    (''action'', JStr (if actionKey = ''installApp'' then ''install'' else ''uninstall'')),
                    (''id'', pstr p ''appId'')]))
         else if path = ''apple'' \<and> actionKey \<in> set apple_settings then
           Inr (ApiPost apple (JObj [(''RequestType'', JStr ''Settings''), (''Settings'', JArr [settings_item actionKey p])]))
         else if path = ''apple'' \<and> actionKey = ''setRemoteDesktop'' then
           Inr (ApiPost apple (JObj [(''RequestType'',
             JStr (if is_enabled p ''Enabled'' then ''EnableRemoteDesktop'' else ''DisableRemoteDesktop''))]))
         else if path = ''apple'' then
           (case apple_body platform actionKey p ctx of Inl d \<Rightarrow> Inl d | Inr b \<Rightarrow> Inr (ApiPost apple b))
         else if path = ''android'' \<and> (actionKey = ''disableDevice'' \<or> actionKey = ''enableDevice'') then
           Inr (ApiPut dev (JObj [(''state'', JStr (if actionKey = ''disableDevice'' then ''DISABLED'' else ''ACTIVE''))]))
         else if path = ''android'' then Inr (ApiPost (dev @ ''/commands'') (android_body actionKey p))
         else if path = ''aosp'' then Inr (ApiPost (dev @ ''/commands'') (aosp_body actionKey p))
         else if actionKey = ''wipeDevice'' then
           Inr (ApiPost (device_url orgBase ''windows'' deviceId @ ''/action'')
             (JObj [(''entity'', JStr ''command''), (''action'', JStr ''wipe''),
                    (''type'', js_or (own_prop p ''wipeType'') (JStr ''default''))]))
         else if actionKey = ''rebootDevice'' then
           Inr (ApiPost (device_url orgBase ''windows'' deviceId @ ''/action'')
             (JObj [(''entity'', JStr ''command''), (''action'', JStr ''reboot'')]))
         else if actionKey = ''setRemovableStorageWindows'' then
           Inr (ApiPost (device_url orgBase ''windows'' deviceId @ ''/commands'')
             (removable_storage_config (is_enabled p ''Block all'')))
         else
           Inr (ApiPost (device_url orgBase ''windows'' deviceId @ ''/commands'')
             (oma_body (oma_config actionKey p ctx))))"

section \<open>Sending\<close>

record script_entry =
  se_id :: string
  se_workspace :: string
  se_type :: string
  se_name :: string
  se_platform :: string
  se_assetId :: "string option"
  se_arguments :: "string option"
  se_scope :: "string option"

record firewall_set =
  fs_id :: string
  fs_workspace :: string
  fs_name :: string
  fs_applyLibraryId :: "string option"
  fs_restoreLibraryId :: "string option"

record remediation_row =
  rm_workspace :: string
  rm_deviceId :: string
  rm_rulesetId :: string
  rm_ruleSetName :: string
  rm_groupTag :: string
  rm_appliedAt :: string

record tracking_row =
  tk_workspace :: string
  tk_deviceId :: string
  tk_deviceName :: "string option"
  tk_platformPath :: string
  tk_platformDeviceId :: string
  tk_assetId :: string
  tk_scriptName :: string
  tk_baselineSuccess :: int
  tk_baselineError :: int
  tk_attempts :: nat
  tk_resumeToken :: "string option"

record mdm_state =
  sent :: "api_call list"
  remediations :: "remediation_row list"
  tracking :: "tracking_row list"

text \<open>\<open>badQuery v\<close> is the message of the exception a database read with the non-string id \<open>v\<close> throws.\<close>

record mdm_env =
  remote :: "api_call list \<Rightarrow> string + api_response"
  orgBaseUrl :: string
  nowIso :: string
  badQuery :: "jsval \<Rightarrow> string"
  scriptLibrary :: "script_entry list"
  ruleSets :: "firewall_set list"

definition send_call :: "mdm_env \<Rightarrow> api_call \<Rightarrow> mdm_state \<Rightarrow> (string + api_response) \<times> mdm_state" where
  "send_call env c st = (let st' = st\<lparr>sent := sent st @ [c]\<rparr> in (remote env (sent st'), st'))"

definition api_rejection :: "api_response \<Rightarrow> string" where
  "api_rejection res =
     ''API returned '' @ show_nat (status res) @ '': '' @ take 200 (json_text (coalesce (body res) (JStr [])))"

section \<open>Running a script\<close>

definition scripts_url :: "mdm_env \<Rightarrow> string \<Rightarrow> string \<Rightarrow> string" where
  "scripts_url env path deviceId = device_url (orgBaseUrl env) path deviceId @ ''/script-logs/summary''"

text \<open>\<open>fetchScriptLogSummaryEntry\<close>: the row of the asset, or nothing on any failure.\<close>

fun is_entry_of :: "string \<Rightarrow> jsval \<Rightarrow> bool" where
  "is_entry_of assetId item = strict_eq (own_prop (own_prop item ''mdmAsset'') ''id'') (JStr assetId)"

definition fetchScriptLogSummaryEntry :: "mdm_env \<Rightarrow> string \<Rightarrow> string \<Rightarrow> string \<Rightarrow> mdm_state \<Rightarrow>
    jsval option \<times> mdm_state" where
  "fetchScriptLogSummaryEntry env path deviceId assetId st =
     (case send_call env (ApiGet (scripts_url env path deviceId)) st of
        (Inl _, st') \<Rightarrow> (None, st')
      | (Inr res, st') \<Rightarrow>
          ((if 300 \<le> status res then None
            else case own_prop (body res) ''data'' of
                JArr items \<Rightarrow> List.find (is_entry_of assetId) items
              | _ \<Rightarrow> None), st'))"

definition sanitize_script :: "jsval \<Rightarrow> jsval option" where
  "sanitize_script s =
     (if \<not> truthy (own_prop s ''id'') then None
      else Some (JObj ([(''id'', own_prop s ''id''), (''type'', js_or (own_prop s ''type'') (JStr ''once'')),
             (''resetDate'', own_prop s ''resetDate''), (''arguments'', pstr s ''arguments''),
             (''scope'', js_or (own_prop s ''scope'') (JStr ''machine''))]
           @ (if strict_eq (own_prop s ''type'') (JStr ''loop'') \<and> \<not> nullish (own_prop s ''loopTime'')
              then [(''loopTime'', own_prop s ''loopTime'')] else []))))"

definition current_scripts :: "api_response \<Rightarrow> jsval list" where
  "current_scripts res =
     (if 300 \<le> status res then []
      else case own_prop (own_prop (body res) ''data'') ''scripts'' of
          JArr xs \<Rightarrow> List.map_filter sanitize_script xs
        | _ \<Rightarrow> [])"

definition merged_scripts :: "jsval list \<Rightarrow> string \<Rightarrow> jsval \<Rightarrow> jsval list" where
  "merged_scripts current assetId entry =
     filter (\<lambda>s. \<not> strict_eq (own_prop s ''id'') (JStr assetId)) current @ [entry]"

definition baseline_count :: "jsval option \<Rightarrow> string \<Rightarrow> jsval" where
  "baseline_count entry key =
     (case entry of None \<Rightarrow> jint 0 | Some e \<Rightarrow> coalesce (own_prop (own_prop e ''status'') key) (jint 0))"

text \<open>What the tracking row's columns accept: a 32-bit integer, a nullable string.\<close>

definition int_column :: "jsval \<Rightarrow> int option" where
  "int_column v =
     (case v of JNum (Fin q) \<Rightarrow>
        (if q = of_int \<lfloor>q\<rfloor> \<and> - (2 ^ 31) \<le> \<lfloor>q\<rfloor> \<and> \<lfloor>q\<rfloor> < 2 ^ 31 then Some \<lfloor>q\<rfloor> else None)
      | _ \<Rightarrow> None)"

definition text_column :: "jsval \<Rightarrow> string option option" where
  "text_column v = (case v of JStr s \<Rightarrow> Some (Some s) | _ \<Rightarrow> if nullish v then Some None else None)"

text \<open>A device as the executor gets it: Applivery's internal id, the platform and the platform's own id.\<close>

record mdm_target =
  tg_platform :: string
  tg_platformDeviceId :: string
  tg_deviceId :: "string option"
  tg_context :: "jsval option"

definition track_dispatch :: "string \<Rightarrow> string \<Rightarrow> mdm_target \<Rightarrow> string \<Rightarrow> string \<Rightarrow> jsval option \<Rightarrow> string option \<Rightarrow>
    mdm_state \<Rightarrow> mdm_state" where
  "track_dispatch workspaceSlug path tg assetId scriptName baseline resume st =
     (let dev = (case tg_context tg of Some c \<Rightarrow> own_prop c ''device'' | None \<Rightarrow> JUndef)
      in case (int_column (baseline_count baseline ''success''), int_column (baseline_count baseline ''error''),
               text_column (own_prop dev ''displayName'')) of
           (Some s, Some e, Some name) \<Rightarrow>
             st\<lparr>tracking := tracking st @
                  [\<lparr>tk_workspace = workspaceSlug, tk_deviceId = (case tg_deviceId tg of Some d \<Rightarrow> d | None \<Rightarrow> []),
                    tk_deviceName = name, tk_platformPath = path, tk_platformDeviceId = tg_platformDeviceId tg,
                    tk_assetId = assetId, tk_scriptName = scriptName, tk_baselineSuccess = s, tk_baselineError = e,
                    tk_attempts = 0, tk_resumeToken = resume\<rparr>]\<rparr>
         | _ \<Rightarrow> st)"

definition find_script :: "mdm_env \<Rightarrow> string \<Rightarrow> string \<Rightarrow> script_entry option" where
  "find_script env workspaceSlug libraryId =
     List.find (\<lambda>e. se_workspace e = workspaceSlug \<and> se_id e = libraryId \<and> se_type e = ''script'') (scriptLibrary env)"

definition filled :: "string option \<Rightarrow> string \<Rightarrow> string" where
  "filled v other = (case v of Some s \<Rightarrow> if s = [] then other else s | None \<Rightarrow> other)"

text \<open>The read, the baseline, the write and its tracking, once the entry is known.\<close>

definition push_script :: "mdm_env \<Rightarrow> string \<Rightarrow> string \<Rightarrow> mdm_target \<Rightarrow> script_entry \<Rightarrow> string \<Rightarrow> string option \<Rightarrow>
    mdm_state \<Rightarrow> (string + step_result) \<times> mdm_state" where
  "push_script env workspaceSlug path tg entry assetId resume st =
     (let url = device_url (orgBaseUrl env) path (tg_platformDeviceId tg);
          scope = filled (se_scope entry) ''machine'';
          newEntry = JObj [(''id'', JStr assetId), (''type'', JStr ''once''), (''resetDate'', JStr (nowIso env)),
                           (''arguments'', JStr (filled (se_arguments entry) [])), (''scope'', JStr scope)];
          shown = (if se_name entry = [] then assetId else se_name entry)
      in case send_call env (ApiGet url) st of
           (Inl msg, st1) \<Rightarrow> (Inl msg, st1)
         | (Inr getRes, st1) \<Rightarrow>
             (case fetchScriptLogSummaryEntry env path (tg_platformDeviceId tg) assetId st1 of
                (baseline, st2) \<Rightarrow>
                  (case send_call env (ApiPut url (JObj [(''scripts'',
                          JArr (merged_scripts (current_scripts getRes) assetId newEntry))])) st2 of
                     (Inl msg, st3) \<Rightarrow> (Inl msg, st3)
                   | (Inr res, st3) \<Rightarrow>
                       if 300 \<le> status res then (Inr (False, api_rejection res), st3)
                       else (Inr (True, ''Ran script '' @ sq shown @ '' directly on device (scope='' @ scope @ '')''),
                             track_dispatch workspaceSlug path tg assetId shown baseline resume st3))))"

definition executeRunScript :: "mdm_env \<Rightarrow> string \<Rightarrow> string \<Rightarrow> mdm_target \<Rightarrow> jsval \<Rightarrow> string option \<Rightarrow> mdm_state \<Rightarrow>
    (string + step_result) \<times> mdm_state" where
  "executeRunScript env workspaceSlug path tg p resume st =
     (let libraryId = own_prop p ''libraryId''
      in if \<not> truthy libraryId then (Inr (False, ''No script selected from the Library''), st)
         else case libraryId of
           JStr lib \<Rightarrow>
             (case find_script env workspaceSlug lib of
                None \<Rightarrow> (Inr (False, ''Script library entry not found '' @ em_dash @ '' it may have been deleted''), st)
              | Some entry \<Rightarrow>
                  if platformPathSegment (se_platform entry) \<noteq> Some path then
                    (Inr (False, sq (se_name entry) @ '' is a '' @ se_platform entry @ '' script '' @ em_dash @
                       '' this device is '' @ tg_platform tg), st)
                  else (case se_assetId entry of
                      None \<Rightarrow> (Inr (False, ''Script library entry is missing its Applivery script Asset ID''), st)
                    | Some assetId \<Rightarrow>
                        if assetId = [] then (Inr (False, ''Script library entry is missing its Applivery script Asset ID''), st)
                        else push_script env workspaceSlug path tg entry assetId resume st))
         | _ \<Rightarrow> (Inl (badQuery env libraryId), st))"

section \<open>Executing an action\<close>

text \<open>The outer \<open>try\<close>: an exception becomes a failed result with its message.\<close>

definition caught :: "(string + step_result) \<times> mdm_state \<Rightarrow> step_result \<times> mdm_state" where
  "caught r = (case r of (Inl msg, st) \<Rightarrow> ((False, msg), st) | (Inr x, st) \<Rightarrow> (x, st))"

definition run_script_action :: "mdm_env \<Rightarrow> string \<Rightarrow> mdm_target \<Rightarrow> string option \<Rightarrow> jsval \<Rightarrow> string option \<Rightarrow>
    mdm_state \<Rightarrow> step_result \<times> mdm_state" where
  "run_script_action env workspaceSlug tg deploymentModel p resume st =
     (case mdm_gate (tg_platform tg) (tg_platformDeviceId tg) ''runScript'' deploymentModel p of
        Inl d \<Rightarrow> ((False, d), st)
      | Inr (_, path) \<Rightarrow> caught (executeRunScript env workspaceSlug path tg p resume st))"

definition firewallGroupTag :: "string \<Rightarrow> string" where
  "firewallGroupTag ruleSetId = ''BPSOAR-FW-'' @ ruleSetId"

definition recordFirewallRemediationDispatch :: "string \<Rightarrow> string \<Rightarrow> string option \<Rightarrow> firewall_set \<Rightarrow> bool \<Rightarrow>
    mdm_state \<Rightarrow> mdm_state" where
  "recordFirewallRemediationDispatch workspaceSlug appliedAt deviceId rs applying st =
     (case deviceId of
        None \<Rightarrow> st
      | Some d \<Rightarrow>
          if d = [] then st
          else
            let same = (\<lambda>r. rm_workspace r = workspaceSlug \<and> rm_deviceId r = d \<and> rm_rulesetId r = fs_id rs);
                row = \<lparr>rm_workspace = workspaceSlug, rm_deviceId = d, rm_rulesetId = fs_id rs,
                       rm_ruleSetName = fs_name rs, rm_groupTag = firewallGroupTag (fs_id rs), rm_appliedAt = appliedAt\<rparr>
            in if \<not> applying then st\<lparr>remediations := del_where same (remediations st)\<rparr>
               else if list_ex same (remediations st)
                 then st\<lparr>remediations := upd_where same (\<lambda>_. row) (remediations st)\<rparr>
                 else st\<lparr>remediations := remediations st @ [row]\<rparr>)"

definition firewall_action :: "mdm_env \<Rightarrow> string \<Rightarrow> mdm_target \<Rightarrow> bool \<Rightarrow> string option \<Rightarrow> jsval \<Rightarrow> mdm_state \<Rightarrow>
    (string + step_result) \<times> mdm_state" where
  "firewall_action env workspaceSlug tg applying deploymentModel p st =
     (let ruleSetId = own_prop p ''ruleSetId''
      in if \<not> truthy ruleSetId then (Inr (False, ''No Firewall Rule Set selected''), st)
         else case ruleSetId of
           JStr rid \<Rightarrow>
             (case List.find (\<lambda>r. fs_workspace r = workspaceSlug \<and> fs_id r = rid) (ruleSets env) of
                None \<Rightarrow> (Inr (False, ''Firewall Rule Set not found '' @ em_dash @ '' it may have been deleted''), st)
              | Some rs \<Rightarrow>
                  (let lib = filled (if applying then fs_applyLibraryId rs else fs_restoreLibraryId rs) []
                   in if lib = [] then
                        (Inr (False, sq (fs_name rs) @ '' hasn'' @ [CHR 0x27] @
                           ''t finished provisioning its on-device script '' @ em_dash @
                           '' try saving it again in the Firewall Policy Library.''), st)
                      else (case run_script_action env workspaceSlug tg deploymentModel
                                   (JObj [(''libraryId'', JStr lib)]) None st of
                          ((False, d), st') \<Rightarrow> (Inr (False, d), st')
                        | ((True, _), st') \<Rightarrow>
                            (Inr (True, (if applying then ''Applied'' else ''Restored device from'') @
                                '' firewall rule set '' @ sq (fs_name rs)),
                             recordFirewallRemediationDispatch workspaceSlug (nowIso env) (tg_deviceId tg) rs applying st'))))
         | _ \<Rightarrow> (Inl (badQuery env ruleSetId), st))"

definition send_command :: "mdm_env \<Rightarrow> mdm_action \<Rightarrow> api_call \<Rightarrow> mdm_state \<Rightarrow> (string + step_result) \<times> mdm_state" where
  "send_command env act c st =
     (case send_call env c st of
        (Inl msg, st') \<Rightarrow> (Inl msg, st')
      | (Inr res, st') \<Rightarrow>
          (Inr (if status res < 300 then (True, act_label act @ '' accepted ('' @ show_nat (status res) @ '')'')
                else (False, api_rejection res)), st'))"

definition executeMdmAction :: "mdm_env \<Rightarrow> string \<Rightarrow> mdm_target \<Rightarrow> string \<Rightarrow> string option \<Rightarrow> jsval \<Rightarrow> string option \<Rightarrow>
    mdm_state \<Rightarrow> step_result \<times> mdm_state" where
  "executeMdmAction env workspaceSlug tg actionKey deploymentModel params resume st =
     (let p = coalesce params (JObj [])
      in case mdm_gate (tg_platform tg) (tg_platformDeviceId tg) actionKey deploymentModel p of
           Inl d \<Rightarrow> ((False, d), st)
         | Inr (act, path) \<Rightarrow>
             caught
               (if actionKey = ''runScript'' then executeRunScript env workspaceSlug path tg p resume st
                else if actionKey = ''applyFirewallRuleSet'' \<or> actionKey = ''restoreFirewallRuleSet'' then
                  firewall_action env workspaceSlug tg (actionKey = ''applyFirewallRuleSet'') deploymentModel p st
                else (case command_request (orgBaseUrl env) (tg_platform tg) path (tg_platformDeviceId tg) actionKey
                             deploymentModel p (tg_context tg) of
                        Inl d \<Rightarrow> (Inr (False, d), st)
                      | Inr c \<Rightarrow> send_command env act c st)))"

section \<open>Lemmas\<close>

lemma own_prop_absent: "k \<notin> fst ` set fs \<Longrightarrow> own_prop (JObj fs) k = JUndef"
  by (simp add: own_prop_def map_of_eq_None_iff [symmetric])

lemma own_prop_Cons [simp]: "own_prop (JObj ((j, v) # fs)) k = (if j = k then v else own_prop (JObj fs) k)"
  by (simp add: own_prop_def)

lemma own_prop_Nil [simp]: "own_prop (JObj []) k = JUndef"
  by (simp add: own_prop_def)

text \<open>The keys of the actions that are not flagged destructive.\<close>

definition plain_keys :: "string list" where
  "plain_keys = map fst (filter (\<lambda>p. \<not> act_destructive (snd p)) MDM_ACTIONS)"

lemma find_action_plain: "find_action k = Some act \<Longrightarrow> \<not> act_destructive act \<Longrightarrow> k \<in> set plain_keys"
  unfolding find_action_def plain_keys_def by (force dest: map_of_SomeD)

lemma gate_passed:
  assumes "mdm_gate platform deviceId key model p = Inr (act, path)"
  shows "find_action key = Some act \<and> deviceId \<noteq> [] \<and> platformPathSegment platform = Some path \<and>
    platform \<in> set (act_platforms act) \<and> missing_field p act = None \<and> key \<noteq> ''deviceLocation'' \<and>
    (\<forall>ms m. map_of (act_deploymentModels act) platform = Some ms \<and> model = Some m \<longrightarrow> ms = [] \<or> m = [] \<or> m \<in> set ms)"
  using assms unfolding mdm_gate_def by (auto simp: Let_def UNCONFIRMED_API_ACTIONS_def split: option.splits if_splits)

definition wipe_path :: "jsval \<Rightarrow> bool" where
  "wipe_path v = (case v of JStr s \<Rightarrow> str_includes s ''RemoteWipe'' \<or> str_includes s ''Unenroll'' | _ \<Rightarrow> False)"

text \<open>A call that erases a device or its applications or ends its management.\<close>

fun erases :: "api_call \<Rightarrow> bool" where
  "erases (ApiDelete _) = True"
| "erases (ApiPost _ b) =
     (own_prop b ''RequestType'' = JStr ''EraseDevice'' \<or>
      own_prop b ''type'' \<in> {JStr ''RELINQUISH_OWNERSHIP'', JStr ''CLEAR_APP_DATA''} \<or>
      own_prop b ''command'' = JStr ''CLEAR_APP_DATA'' \<or>
      own_prop b ''action'' \<in> {JStr ''wipe'', JStr ''uninstall''} \<or>
      (case own_prop b ''commands'' of
         JArr xs \<Rightarrow> list_ex (\<lambda>x. wipe_path (own_prop (own_prop x ''config'') ''path'')) xs
       | _ \<Rightarrow> False))"
| "erases _ = False"

lemma apple_body_keys:
  assumes "apple_body platform key p ctx = Inr b"
  shows "own_prop b ''RequestType'' = JStr (mapped APPLE_REQUEST_TYPES key key) \<and>
    (\<forall>k\<in>{''type'', ''command'', ''action'', ''commands''}. own_prop b k = JUndef)"
  using assms
  by (auto simp: apple_body_def Let_def opt_prop_def split: if_splits)

lemma android_body_keys:
  "own_prop (android_body key p) k =
     (if k = ''type'' then JStr (mapped [(''lockDevice'', ''LOCK''), (''clearPasscode'', ''RESET_PASSWORD''),
               (''rebootDevice'', ''REBOOT''), (''enableLostMode'', ''START_LOST_MODE''),
               (''disableLostMode'', ''STOP_LOST_MODE''), (''clearAppData'', ''CLEAR_APP_DATA'')] key (toUpperCase key))
      else if k \<in> {''RequestType'', ''command'', ''action'', ''commands''} then JUndef
      else own_prop (android_body key p) k)"
  by (auto simp: android_body_def opt_prop_def)

lemma aosp_body_keys:
  "own_prop (aosp_body key p) k =
     (if k = ''command'' then JStr (mapped [(''lockDevice'', ''LOCK''), (''clearPasscode'', ''RESET_PASSWORD''),
               (''rebootDevice'', ''REBOOT''), (''clearAppData'', ''CLEAR_APP_DATA'')] key (toUpperCase key))
      else if k \<in> {''RequestType'', ''type'', ''action'', ''commands''} then JUndef
      else own_prop (aosp_body key p) k)"
  by (auto simp: aosp_body_def opt_prop_def)

lemma plain_requests:
  "list_all (\<lambda>k. k \<noteq> ''deleteDevice'' \<and> k \<noteq> ''uninstallApp'' \<and> k \<noteq> ''wipeDevice'' \<and>
     mapped APPLE_REQUEST_TYPES k k \<noteq> ''EraseDevice'' \<and>
     mapped [(''lockDevice'', ''LOCK''), (''clearPasscode'', ''RESET_PASSWORD''),
       (''rebootDevice'', ''REBOOT''), (''enableLostMode'', ''START_LOST_MODE''),
       (''disableLostMode'', ''STOP_LOST_MODE''), (''clearAppData'', ''CLEAR_APP_DATA'')] k (toUpperCase k)
       \<notin> {''RELINQUISH_OWNERSHIP'', ''CLEAR_APP_DATA''} \<and>
     mapped [(''lockDevice'', ''LOCK''), (''clearPasscode'', ''RESET_PASSWORD''),
       (''rebootDevice'', ''REBOOT''), (''clearAppData'', ''CLEAR_APP_DATA'')] k (toUpperCase k) \<noteq> ''CLEAR_APP_DATA'')
     plain_keys"
  by code_simp

definition plain_oma :: "jsval \<Rightarrow> jsval option \<Rightarrow> string \<Rightarrow> bool" where
  "plain_oma p ctx k \<longleftrightarrow> k = ''customOmaUri'' \<or> \<not> wipe_path (fst (oma_config k p ctx))"

lemma plain_oma_paths: "k \<in> set plain_keys \<Longrightarrow> plain_oma p ctx k"
proof -
  have keys: "plain_keys = [''syncDevice'', ''lockDevice'', ''rebootDevice'', ''shutdownDevice'', ''enableDevice'',
    ''disableLostMode'', ''playLostModeSound'', ''setTimeZone'', ''setBluetooth'', ''setDataRoaming'', ''setVoiceRoaming'',
    ''setPersonalHotspot'', ''setSoftwareUpdateCadence'', ''recoveryLock'', ''unlockUserAccount'',
    ''clearRestrictionsPassword'', ''deviceLocation'', ''setRemoteDesktop'', ''getActivationLockBypassCode'',
    ''setBluetoothWindows'', ''setCameraWindows'', ''customOmaUri'', ''enableVbsWindows'', ''restoreFirewallRuleSet'',
    ''installApp'']"
    by code_simp
  have harmless: "\<not> wipe_path (JStr s)" if "\<not> str_includes s ''RemoteWipe''" "\<not> str_includes s ''Unenroll''" for s
    using that by (simp add: wipe_path_def)
  assume "k \<in> set plain_keys"
  then show ?thesis
    unfolding keys plain_oma_def
    by (simp only: list.set insert_iff empty_iff simp_thms)
      (elim disjE; simp add: oma_config_def Let_def wipe_path_def)
qed

lemma plain_request_harmless:
  assumes "k \<in> set plain_keys" "k \<noteq> ''customOmaUri''"
    and "command_request orgBase platform path deviceId k model p ctx = Inr c"
  shows "\<not> erases c"
proof -
  note facts = plain_requests [unfolded list_all_iff, rule_format, OF assms(1)]
  have oma: "\<not> wipe_path (fst (oma_config k p ctx))"
    using plain_oma_paths [OF assms(1), of p ctx] assms(2) by (simp add: plain_oma_def)
  have oma_body: "\<not> erases (ApiPost u (oma_body (oma_config k p ctx)))" for u
    using oma by (auto simp: oma_body_def split: prod.splits)
  have storage: "\<not> erases (ApiPost u (removable_storage_config b))" for u b
    by (simp add: removable_storage_config_def Let_def wipe_path_def)
  have apple: "\<not> erases (ApiPost u b)" if "apple_body platform k p ctx = Inr b" for u b
    using apple_body_keys [OF that] facts by simp
  have android: "\<not> erases (ApiPost u (android_body k p))" for u
    using facts android_body_keys [of k p "''type''"] android_body_keys [of k p "''RequestType''"]
      android_body_keys [of k p "''command''"] android_body_keys [of k p "''action''"] android_body_keys [of k p "''commands''"]
    by simp
  have aosp: "\<not> erases (ApiPost u (aosp_body k p))" for u
    using facts aosp_body_keys [of k p "''type''"] aosp_body_keys [of k p "''RequestType''"]
      aosp_body_keys [of k p "''command''"] aosp_body_keys [of k p "''action''"] aosp_body_keys [of k p "''commands''"]
    by simp
  show ?thesis
    using assms(3) facts oma_body storage apple android aosp
    by (auto simp: command_request_def Let_def simp del: erases.simps split: if_splits sum.splits)
      (simp_all add: own_prop_def)
qed

text \<open>What an execution sends.\<close>

definition device_urls :: "string \<Rightarrow> string \<Rightarrow> string \<Rightarrow> string set" where
  "device_urls orgBase path deviceId =
     {device_url orgBase path deviceId, device_url orgBase path deviceId @ ''/commands'',
      device_url orgBase path deviceId @ ''/action'', device_url orgBase path deviceId @ ''/script-logs/summary''} \<union>
     (if path = ''apple'' then {apple_command_url orgBase deviceId} else {})"

lemma command_request_url:
  assumes "command_request orgBase platform path deviceId key model p ctx = Inr c"
    and "path \<in> {''apple'', ''android'', ''windows'', ''aosp''}"
  shows "call_url c \<in> device_urls orgBase path deviceId"
  using assms by (auto simp: command_request_def Let_def device_urls_def split: if_splits sum.splits)

lemma platform_paths: "platformPathSegment platform = Some path \<Longrightarrow> path \<in> {''apple'', ''android'', ''windows'', ''aosp''}"
  by (auto simp: platformPathSegment_def split: if_splits)

definition sends :: "mdm_state \<Rightarrow> mdm_state \<Rightarrow> (api_call \<Rightarrow> bool) \<Rightarrow> nat \<Rightarrow> bool" where
  "sends st st' P n \<longleftrightarrow> (\<exists>cs. sent st' = sent st @ cs \<and> length cs \<le> n \<and> (\<forall>c\<in>set cs. P c))"

lemma sends_none [simp]: "sends st st P n"
  by (simp add: sends_def)

lemma sends_trans: "sends st st1 P m \<Longrightarrow> sends st1 st2 P n \<Longrightarrow> sends st st2 P (m + n)"
  unfolding sends_def by (elim exE conjE, rename_tac cs ds, rule_tac x = "cs @ ds" in exI) auto

lemma sends_mono: "sends st st' P m \<Longrightarrow> m \<le> n \<Longrightarrow> (\<And>c. P c \<Longrightarrow> Q c) \<Longrightarrow> sends st st' Q n"
  unfolding sends_def by (meson le_trans)

lemma sends_same: "sent st' = sent st \<Longrightarrow> sends st st' P n"
  by (simp add: sends_def)

lemma send_call_sends: "send_call env c st = (r, st') \<Longrightarrow> P c \<Longrightarrow> sends st st' P 1"
  by (auto simp: send_call_def sends_def Let_def)

lemma track_dispatch_sent [simp]: "sent (track_dispatch ws path tg a n b r st) = sent st"
  by (auto simp: track_dispatch_def Let_def split: option.splits)

lemma remediation_sent [simp]: "sent (recordFirewallRemediationDispatch ws i d rs a st) = sent st"
  by (auto simp: recordFirewallRemediationDispatch_def Let_def split: option.splits)

lemma summary_sends:
  assumes "fetchScriptLogSummaryEntry env path deviceId assetId st = (r, st')" "P (ApiGet (scripts_url env path deviceId))"
  shows "sends st st' P 1"
  using assms send_call_sends [where P = P]
  by (auto simp: fetchScriptLogSummaryEntry_def split: prod.splits sum.splits)

definition script_call :: "mdm_env \<Rightarrow> string \<Rightarrow> string \<Rightarrow> api_call \<Rightarrow> bool" where
  "script_call env path deviceId c \<longleftrightarrow>
     c = ApiGet (device_url (orgBaseUrl env) path deviceId) \<or> c = ApiGet (scripts_url env path deviceId) \<or>
     (\<exists>b. c = ApiPut (device_url (orgBaseUrl env) path deviceId) b)"

lemma push_script_sends:
  assumes "push_script env ws path tg entry assetId resume st = (r, st')"
  shows "sends st st' (script_call env path (tg_platformDeviceId tg)) 3"
proof -
  let ?P = "script_call env path (tg_platformDeviceId tg)"
  let ?url = "device_url (orgBaseUrl env) path (tg_platformDeviceId tg)"
  have P: "?P (ApiGet ?url)" "?P (ApiGet (scripts_url env path (tg_platformDeviceId tg)))" "\<And>b. ?P (ApiPut ?url b)"
    by (auto simp: script_call_def)
  obtain g st1 where get: "send_call env (ApiGet ?url) st = (g, st1)" by fastforce
  have s1: "sends st st1 ?P 1" using send_call_sends [OF get, of ?P] P by simp
  obtain b st2 where base: "fetchScriptLogSummaryEntry env path (tg_platformDeviceId tg) assetId st1 = (b, st2)" by fastforce
  have s2: "sends st st2 ?P 2" using sends_trans [OF s1 summary_sends [where P = ?P, OF base P(2)]] by (simp only: one_add_one)
  have s3: "sends st st3 ?P 3" if "send_call env (ApiPut ?url body) st2 = (x, st3)" for body x st3
    using sends_trans [OF s2 send_call_sends [OF that, of ?P]] P by simp
  have s13: "sends st st1 ?P 3" using s1 by (rule sends_mono) simp_all
  have same: "sends st (track_dispatch ws' path' tg' a' n' b' r' st3) ?P 3"
    if "send_call env (ApiPut ?url body) st2 = (x, st3)" for body x st3 ws' path' tg' a' n' b' r'
    using s3 [OF that] by (simp add: sends_def)
  show ?thesis
    using assms get base s13 s3 same
    by (auto simp: push_script_def Let_def split: sum.splits prod.splits if_splits)
qed

lemma executeRunScript_sends:
  "executeRunScript env ws path tg p resume st = (r, st') \<Longrightarrow> sends st st' (script_call env path (tg_platformDeviceId tg)) 3"
  by (auto simp: executeRunScript_def Let_def split: if_splits jsval.splits option.splits intro: push_script_sends)

lemma caught_state: "caught x = (r, st') \<Longrightarrow> \<exists>y. x = (y, st')"
  by (cases x) (auto simp: caught_def split: sum.splits)

lemma run_script_action_sends:
  assumes "run_script_action env ws tg model p resume st = (r, st')" "platformPathSegment (tg_platform tg) = Some path"
  shows "sends st st' (script_call env path (tg_platformDeviceId tg)) 3"
  using assms gate_passed [of "tg_platform tg" "tg_platformDeviceId tg" "''runScript''" model p]
  by (auto simp: run_script_action_def split: sum.splits prod.splits dest!: caught_state intro: executeRunScript_sends)

lemma firewall_action_sends:
  assumes "firewall_action env ws tg applying model p st = (r, st')" "platformPathSegment (tg_platform tg) = Some path"
  shows "sends st st' (script_call env path (tg_platformDeviceId tg)) 3"
proof -
  have rem: "sends st (recordFirewallRemediationDispatch w i d rs a st1) (script_call env path (tg_platformDeviceId tg)) 3"
    if "run_script_action env ws tg model q None st = (x, st1)" for q x st1 w i d rs a
    using run_script_action_sends [OF that assms(2)] by (simp add: sends_def)
  show ?thesis
    using assms(1) rem run_script_action_sends [OF _ assms(2)]
    by (auto simp: firewall_action_def Let_def split: if_splits jsval.splits option.splits prod.splits bool.splits)
qed

lemma send_command_sends: "send_command env act c st = (r, st') \<Longrightarrow> sends st st' (\<lambda>x. x = c) 1"
  using send_call_sends [of env c st _ st' "\<lambda>x. x = c"]
  by (auto simp: send_command_def simp del: One_nat_def split: prod.splits sum.splits)

text \<open>The calls of one execution: nothing past a gate that refuses, one command, or those of a script run.\<close>

lemma executeMdmAction_sends:
  assumes "executeMdmAction env ws tg key model params resume st = (r, st')"
  obtains d where "mdm_gate (tg_platform tg) (tg_platformDeviceId tg) key model (coalesce params (JObj [])) = Inl d"
      "st' = st" "r = (False, d)"
  | act path c where "mdm_gate (tg_platform tg) (tg_platformDeviceId tg) key model (coalesce params (JObj [])) = Inr (act, path)"
      "command_request (orgBaseUrl env) (tg_platform tg) path (tg_platformDeviceId tg) key model (coalesce params (JObj [])) (tg_context tg) = Inr c"
      "sends st st' (\<lambda>x. x = c) 1"
  | act path where "mdm_gate (tg_platform tg) (tg_platformDeviceId tg) key model (coalesce params (JObj [])) = Inr (act, path)"
      "sends st st' (script_call env path (tg_platformDeviceId tg)) 3"
proof (cases "mdm_gate (tg_platform tg) (tg_platformDeviceId tg) key model (coalesce params (JObj []))")
  case (Inl d)
  then show ?thesis using assms that(1) by (simp add: executeMdmAction_def)
next
  case (Inr ap)
  obtain act path where ap: "ap = (act, path)" by fastforce
  let ?p = "coalesce params (JObj [])"
  note gate = Inr [unfolded ap]
  have path: "platformPathSegment (tg_platform tg) = Some path" using gate_passed [OF gate] by blast
  consider (script) "key = ''runScript''"
    | (firewall) "key \<noteq> ''runScript''" "key = ''applyFirewallRuleSet'' \<or> key = ''restoreFirewallRuleSet''"
    | (command) "key \<noteq> ''runScript''" "\<not> (key = ''applyFirewallRuleSet'' \<or> key = ''restoreFirewallRuleSet'')" by blast
  then show ?thesis
  proof cases
    case script
    then obtain y where "executeRunScript env ws path tg ?p resume st = (y, st')"
      using assms gate by (auto simp: executeMdmAction_def dest!: caught_state)
    then show ?thesis using that(3) [OF gate] executeRunScript_sends by blast
  next
    case firewall
    then obtain y where "firewall_action env ws tg (key = ''applyFirewallRuleSet'') model ?p st = (y, st')"
      using assms gate caught_state
      by (simp only: executeMdmAction_def Let_def sum.case prod.case if_False if_True) blast
    then show ?thesis using that(3) [OF gate] firewall_action_sends path by blast
  next
    case command
    show ?thesis
    proof (cases "command_request (orgBaseUrl env) (tg_platform tg) path (tg_platformDeviceId tg) key model ?p (tg_context tg)")
      case (Inl d)
      then have "st' = st" using assms gate command by (simp add: executeMdmAction_def caught_def)
      then show ?thesis using that(3) [OF gate] by simp
    next
      case (Inr c)
      then obtain y where "send_command env act c st = (y, st')"
        using assms gate command caught_state
        by (simp only: executeMdmAction_def Let_def sum.case prod.case if_False if_True) blast
      then show ?thesis using that(2) [OF gate Inr] send_command_sends by blast
    qed
  qed
qed

section \<open>Properties\<close>

text \<open>The names every JavaScript object inherits.\<close>

definition inherited_names :: "string list" where
  "inherited_names = [''constructor'', ''toString'', ''toLocaleString'', ''valueOf'', ''hasOwnProperty'', ''isPrototypeOf'',
     ''propertyIsEnumerable'', ''__proto__'', ''__defineGetter__'', ''__defineSetter__'', ''__lookupGetter__'', ''__lookupSetter__'']"

definition required_filled :: "mdm_action \<Rightarrow> jsval \<Rightarrow> bool" where
  "required_filled act p \<longleftrightarrow>
     (\<forall>fs f. act_fields act = Some fs \<longrightarrow> f \<in> set fs \<longrightarrow> fld_required f \<longrightarrow>
        js_trim (to_string (coalesce (own_prop p (fld_key f)) (JStr []))) \<noteq> [])"

lemma missing_none: "missing_field p act = None \<Longrightarrow> required_filled act p"
  by (auto simp: missing_field_def required_filled_def find_None_iff)

text \<open>
  C14: An MDM action touches one device, and nothing at all unless every gate passes. Whatever the parameters and
  answers, an execution either sends at most three calls, all to the addresses of the target device, and then the
  action is in the registry and one of those wired to the API (not \<open>deviceLocation\<close>), the platform is one of its
  platforms, the deployment model is allowed there, the device id is present and every required field is filled in;
  or it reports a failure, sends nothing and leaves all state alone. The keys every JavaScript object inherits are
  left out, since the lookup of the source finds them.
\<close>
theorem mdm_action_stays_on_device:
  assumes "executeMdmAction env ws tg key model params resume st = (r, st')" and "key \<notin> set inherited_names"
  shows "(\<exists>cs act path. sent st' = sent st @ cs \<and> length cs \<le> 3 \<and>
      (\<forall>c\<in>set cs. call_url c \<in> device_urls (orgBaseUrl env) path (tg_platformDeviceId tg)) \<and>
      find_action key = Some act \<and> key \<noteq> ''deviceLocation'' \<and> platformPathSegment (tg_platform tg) = Some path \<and>
      tg_platform tg \<in> set (act_platforms act) \<and> tg_platformDeviceId tg \<noteq> [] \<and>
      required_filled act (coalesce params (JObj [])) \<and>
      (\<forall>ms m. map_of (act_deploymentModels act) (tg_platform tg) = Some ms \<and> model = Some m \<longrightarrow> ms = [] \<or> m = [] \<or> m \<in> set ms)) \<or>
    \<not> fst r \<and> st' = st"
  using assms(1)
proof (cases rule: executeMdmAction_sends)
  case 1
  then show ?thesis by simp
next
  case (2 act path c)
  note g = gate_passed [OF 2(1)]
  have "call_url c \<in> device_urls (orgBaseUrl env) path (tg_platformDeviceId tg)"
    using command_request_url [OF 2(2)] platform_paths g by blast
  then show ?thesis using 2(3) g missing_none unfolding sends_def by fastforce
next
  case (3 act path)
  note g = gate_passed [OF 3(1)]
  have "call_url c \<in> device_urls (orgBaseUrl env) path (tg_platformDeviceId tg)"
    if "script_call env path (tg_platformDeviceId tg) c" for c
    using that by (auto simp: script_call_def device_urls_def scripts_url_def)
  then show ?thesis using 3(2) g missing_none unfolding sends_def by blast
qed

definition sample_mdm :: mdm_env where
  "sample_mdm = \<lparr>remote = (\<lambda>_. Inr \<lparr>status = 200, body = JNull, retryAfter = None\<rparr>), orgBaseUrl = ''base'',
     nowIso = ''now'', badQuery = (\<lambda>_. []), scriptLibrary = [], ruleSets = []\<rparr>"

definition windows_pc :: mdm_target where
  "windows_pc = \<lparr>tg_platform = ''windows'', tg_platformDeviceId = ''d1'', tg_deviceId = None, tg_context = None\<rparr>"

definition no_calls :: mdm_state where
  "no_calls = \<lparr>sent = [], remediations = [], tracking = []\<rparr>"

theorem mdm_action_stays_on_device_witness:
  "length (sent (snd (executeMdmAction sample_mdm ''ws'' windows_pc ''rebootDevice'' None JUndef None no_calls))) \<le> 3 \<and>
   snd (executeMdmAction sample_mdm ''ws'' windows_pc ''deviceLocation'' None JUndef None no_calls) = no_calls"
proof
  obtain r st' where run: "executeMdmAction sample_mdm ''ws'' windows_pc ''rebootDevice'' None JUndef None no_calls = (r, st')"
    by fastforce
  from mdm_action_stays_on_device [OF run] run
  show "length (sent (snd (executeMdmAction sample_mdm ''ws'' windows_pc ''rebootDevice'' None JUndef None no_calls))) \<le> 3"
    by (auto simp: no_calls_def inherited_names_def)
  obtain r2 st2 where run2: "executeMdmAction sample_mdm ''ws'' windows_pc ''deviceLocation'' None JUndef None no_calls = (r2, st2)"
    by fastforce
  from mdm_action_stays_on_device [OF run2]
  have "st2 = no_calls" by (simp add: inherited_names_def)
  then show "snd (executeMdmAction sample_mdm ''ws'' windows_pc ''deviceLocation'' None JUndef None no_calls) = no_calls"
    by (simp add: run2)
qed

text \<open>
  C20: Erasing calls need a destructive action. An execution that deletes the device, wipes or unenrolls
  it, or clears or removes an application was started under an action the registry flags destructive,
  or under the free-form \<open>customOmaUri\<close>.
\<close>
theorem erasing_needs_destructive_flag:
  assumes "executeMdmAction env ws tg key model params resume st = (r, st')"
    and "sent st' = sent st @ cs" "c \<in> set cs" "erases c" "key \<noteq> ''customOmaUri''"
  shows "\<exists>act. find_action key = Some act \<and> act_destructive act"
  using assms(1)
proof (cases rule: executeMdmAction_sends)
  case 1
  then show ?thesis using assms(2,3) by simp
next
  case (2 act path d)
  then have "c = d" using assms(2,3) by (auto simp: sends_def)
  then have "act_destructive act"
    using plain_request_harmless [OF find_action_plain assms(5) 2(2)] gate_passed [OF 2(1)] assms(4) by blast
  then show ?thesis using gate_passed [OF 2(1)] by blast
next
  case (3 act path)
  then have "script_call env path (tg_platformDeviceId tg) c" using assms(2,3) by (auto simp: sends_def)
  then show ?thesis using assms(4) by (auto simp: script_call_def)
qed

theorem erasing_needs_destructive_flag_witness:
  "\<exists>act. find_action ''wipeDevice'' = Some act \<and> act_destructive act"
proof -
  obtain r st' where run: "executeMdmAction sample_mdm ''ws'' windows_pc ''wipeDevice'' None JUndef None no_calls = (r, st')"
    by fastforce
  have sent: "sent (snd (executeMdmAction sample_mdm ''ws'' windows_pc ''wipeDevice'' None JUndef None no_calls)) =
      [ApiPost (device_url ''base'' ''windows'' ''d1'' @ ''/action'') (JObj [(''entity'', JStr ''command''),
        (''action'', JStr ''wipe''), (''type'', JStr ''default'')])]"
    by code_simp
  show ?thesis
    by (rule erasing_needs_destructive_flag [OF run, of "sent st'" "hd (sent st')"])
      (use sent run in \<open>simp_all add: no_calls_def\<close>)
qed

end
