(* ===== verification/DeviceStack.thy ===== *)
theory DeviceStack
  imports MdmActions
begin

text \<open>
  A device's policy stack: reading it off the raw device (\<open>extractActivePolicies\<close>,
  \<open>modules/devices/deviceNormalize.ts\<close>) and writing it back (\<open>applyDevicePolicies\<close> and the endpoints around it,
  \<open>modules/devices/devices.service.ts\<close>); and the fields of a normalized device the engines read. The calls go
  to the Applivery API through \<open>send_call\<close>; resolving the organisation's base URL is part of the environment.
\<close>

section \<open>The active policies of a device\<close>

record active_policy =
  ap_id :: "string option"
  ap_policyName :: string
  ap_platform :: string
  ap_priority :: "rat option"
  ap_isPrimary :: bool

definition SINGLE_POLICY_KEYS :: "(string \<times> string) list" where
  "SINGLE_POLICY_KEYS =
     [(''appliedEmmPolicy'', ''android''), (''deviceEmmPolicy'', ''android''), (''emmPolicy'', ''android''),
      (''appliedAdmPolicy'', ''apple''), (''deviceAdmPolicy'', ''apple''), (''admPolicy'', ''apple''),
      (''appliedWinPolicy'', ''windows''), (''deviceWinPolicy'', ''windows''), (''winPolicy'', ''windows'')]"

definition ARRAY_POLICY_KEYS :: "(string \<times> string) list" where
  "ARRAY_POLICY_KEYS =
     [(''emmPolicyAssignments'', ''android''), (''emmPolicyAssignmentsEnforced'', ''android''),
      (''admPolicyAssignments'', ''apple''), (''admPolicyAssignmentsEnforced'', ''apple''),
      (''winPolicyAssignments'', ''windows''), (''winPolicyAssignmentsEnforced'', ''windows'')]"

text \<open>\<open>p.a ?? p.b ?? ... ?? null\<close>.\<close>

fun first_prop :: "jsval \<Rightarrow> string list \<Rightarrow> jsval" where
  "first_prop p [] = JNull"
| "first_prop p (k # ks) = (if nullish (own_prop p k) then first_prop p ks else own_prop p k)"

definition policy_identity :: "jsval \<Rightarrow> jsval \<times> jsval" where
  "policy_identity p =
     (case p of
        JObj _ \<Rightarrow> (first_prop p [''id'', ''_id'', ''policyId'', ''emmPolicyId'', ''admPolicyId'', ''winPolicyId''],
                   first_prop p [''name'', ''policyName'', ''emmPolicyName'', ''admPolicyName'', ''winPolicyName''])
      | JStr s \<Rightarrow> if js_trim s = [] then (JNull, JNull) else (JStr (js_trim s), JStr (js_trim s))
      | _ \<Rightarrow> (JNull, JNull))"

text \<open>The accumulator: the entries found and the keys seen.\<close>

definition add_policy :: "jsval \<Rightarrow> string \<Rightarrow> rat option \<Rightarrow> bool \<Rightarrow> active_policy list \<times> string list \<Rightarrow>
    active_policy list \<times> string list" where
  "add_policy p platform prio primary acc =
     (if \<not> truthy p then acc
      else
        (let (pid, name) = policy_identity p;
             pid_text = (if nullish pid then None else Some (to_string pid))
         in if \<not> truthy name \<or> js_trim (to_string name) = [] then acc
            else
              (let key = platform @ '':'' @ (case pid_text of Some i \<Rightarrow> i | None \<Rightarrow> to_string name)
               in if key \<in> set (snd acc) then acc
                  else (fst acc @ [\<lparr>ap_id = pid_text, ap_policyName = js_trim (to_string name), ap_platform = platform,
                          ap_priority = prio, ap_isPrimary = primary\<rparr>], snd acc @ [key]))))"

definition finite_number :: "jsval \<Rightarrow> rat option" where
  "finite_number v = (case v of JNum (Fin q) \<Rightarrow> Some q | _ \<Rightarrow> None)"

definition add_assignment :: "string \<Rightarrow> jsval \<Rightarrow> active_policy list \<times> string list \<Rightarrow> active_policy list \<times> string list" where
  "add_assignment platform entry acc =
     (case entry of
        JObj _ \<Rightarrow> add_policy (js_or (js_or (js_or (own_prop entry ''admPolicy'') (own_prop entry ''emmPolicy''))
                   (own_prop entry ''winPolicy'')) entry) platform (finite_number (own_prop entry ''priority'')) False acc
      | _ \<Rightarrow> add_policy entry platform None False acc)"

definition extractActivePolicies :: "jsval \<Rightarrow> active_policy list" where
  "extractActivePolicies raw =
     (let singles = fold (\<lambda>(key, platform). add_policy (own_prop raw key) platform None True) SINGLE_POLICY_KEYS ([], [])
      in fst (fold (\<lambda>(key, platform). case own_prop raw key of
                  JArr items \<Rightarrow> fold (add_assignment platform) items
                | _ \<Rightarrow> id) ARRAY_POLICY_KEYS singles))"

section \<open>Normalized devices\<close>

text \<open>\<open>fd_json\<close> is the device as the compliance conditions read it.\<close>

record fleet_device =
  fd_id :: string
  fd_displayName :: string
  fd_platform :: string
  fd_platformDeviceId :: string
  fd_serialNumber :: string
  fd_tags :: "string list"
  fd_smartAttributeAssignmentIds :: "string list"
  fd_deviceAudiences :: "string list"
  fd_riskTier :: "string option"
  fd_segmentId :: "string option"
  fd_activePolicies :: "active_policy list"
  fd_json :: jsval

section \<open>Writing the stack\<close>

record stack_entry =
  st_id :: jsval
  st_priority :: "rat option"
  st_primary :: bool

definition stack_keys :: "string \<Rightarrow> string \<times> string \<times> string" where
  "stack_keys path =
     (if path = ''apple'' then (''policyId'', ''admPolicyAssignments'', ''admPolicyId'')
      else if path = ''android'' then (''policyId'', ''emmPolicyAssignments'', ''emmPolicyId'')
      else (''winPolicyId'', ''winPolicyAssignments'', ''winPolicyId''))"

definition primary_index :: "stack_entry list \<Rightarrow> nat option" where
  "primary_index ps = map_option fst (List.find (\<lambda>x. st_primary (snd x)) (List.enumerate 0 ps))"

definition remove_at :: "nat \<Rightarrow> 'a list \<Rightarrow> 'a list" where
  "remove_at i xs = take i xs @ drop (Suc i) xs"

definition primary_and_rest :: "stack_entry list \<Rightarrow> jsval \<times> stack_entry list" where
  "primary_and_rest ps =
     (case primary_index ps of
        Some i \<Rightarrow> (st_id (ps ! i), remove_at i ps)
      | None \<Rightarrow> (case ps of [] \<Rightarrow> (JNull, []) | p # rest \<Rightarrow> (st_id p, rest)))"

definition assignment_json :: "string \<Rightarrow> nat \<Rightarrow> stack_entry \<Rightarrow> jsval" where
  "assignment_json idKey i p =
     JObj [(idKey, st_id p),
           (''priority'', JNum (Fin (case st_priority p of Some q \<Rightarrow> q | None \<Rightarrow> of_nat i + 1)))]"

definition stack_body :: "string \<Rightarrow> stack_entry list \<Rightarrow> jsval" where
  "stack_body path ps =
     (let (primaryKey, assignKey, idKey) = stack_keys path; (primaryId, rest) = primary_and_rest ps
      in JObj [(primaryKey, primaryId),
               (assignKey, JArr (map (\<lambda>(i, p). assignment_json idKey i p) (List.enumerate 0 rest)))])"

definition applyDevicePolicies :: "mdm_env \<Rightarrow> string \<Rightarrow> string \<Rightarrow> stack_entry list \<Rightarrow> mdm_state \<Rightarrow>
    (string + step_result) \<times> mdm_state" where
  "applyDevicePolicies env platform deviceId policies st =
     (case platformPathSegment platform of
        None \<Rightarrow> (Inr (False, ''Policy stack management isn'' @ [CHR 0x27] @ ''t wired up for '' @ sq platform @ '' yet''), st)
      | Some path \<Rightarrow>
          if path \<notin> {''apple'', ''android'', ''windows''} then
            (Inr (False, ''Policy stack management isn'' @ [CHR 0x27] @ ''t wired up for '' @ sq platform @ '' yet''), st)
          else (case send_call env (ApiPut (device_url (orgBaseUrl env) path deviceId) (stack_body path policies)) st of
              (Inl msg, st1) \<Rightarrow> (Inl msg, st1)
            | (Inr res, st1) \<Rightarrow>
                (Inr (if 300 \<le> status res then (False, ''API returned '' @ show_nat (status res) @ '': '' @
                        take 200 (stringified (body res)))
                      else (True, ''ok'')), st1)))"

section \<open>The device endpoints\<close>

definition put_device :: "mdm_env \<Rightarrow> string \<Rightarrow> jsval \<Rightarrow> mdm_state \<Rightarrow> (string + unit result) \<times> mdm_state" where
  "put_device env url payload st =
     (case send_call env (ApiPut url payload) st of
        (Inl msg, st1) \<Rightarrow> (Inl msg, st1)
      | (Inr res, st1) \<Rightarrow>
          (Inr (if 300 \<le> status res then throw 502 (''Applivery API returned '' @ show_nat (status res) @ '': '' @
                  take 300 (stringified (body res)))
                else Inr ()), st1))"

definition updateDeviceSegment :: "mdm_env \<Rightarrow> string \<Rightarrow> string \<Rightarrow> jsval \<Rightarrow> mdm_state \<Rightarrow> (string + unit result) \<times> mdm_state" where
  "updateDeviceSegment env deviceId platform segmentId st =
     (case platformPathSegment platform of
        None \<Rightarrow> (Inr (throw 400 (''Unsupported platform '' @ sq platform @ '' for segment move'')), st)
      | Some path \<Rightarrow> put_device env (device_url (orgBaseUrl env) path deviceId @ ''/move'')
            (JObj [(''segmentId'', segmentId)]) st)"

definition updateDeviceTags :: "mdm_env \<Rightarrow> string \<Rightarrow> string \<Rightarrow> string list \<Rightarrow> mdm_state \<Rightarrow> (string + unit result) \<times> mdm_state" where
  "updateDeviceTags env deviceId platform tags st =
     (case platformPathSegment platform of
        None \<Rightarrow> (Inr (throw 400 (''Unsupported platform '' @ sq platform @ '' for tag update'')), st)
      | Some path \<Rightarrow> put_device env (device_url (orgBaseUrl env) path deviceId)
            (JObj [(''tags'', JArr (map JStr tags))]) st)"

definition updateDevicePolicies :: "mdm_env \<Rightarrow> string \<Rightarrow> string \<Rightarrow> stack_entry list \<Rightarrow> mdm_state \<Rightarrow>
    (string + unit result) \<times> mdm_state" where
  "updateDevicePolicies env deviceId platform policies st =
     (case applyDevicePolicies env platform deviceId policies st of
        (Inl msg, st1) \<Rightarrow> (Inl msg, st1)
      | (Inr (ok, detail), st1) \<Rightarrow> (Inr (if ok then Inr () else throw 502 (''Applivery API error: '' @ detail)), st1))"

end
