(* ===== verification/DurableRuns.thy ===== *)
theory DurableRuns
  imports WorkflowEngine
begin

text \<open>
  Workflow runs: the durable run tables and the chains on them (\<open>modules/workflows/durableEngine.ts\<close>),
  the in-memory runs and the launch dispatcher (\<open>modules/workflows/workflows.service.ts\<close>). The tables
  are lists of rows; \<open>'w\<close> is the world the steps act on. Devices of a run and due rows, which the
  source handles with several workers, are handled one after the other. \<open>now\<close> is the clock, new row ids
  come from the database; database failures are not modelled.
\<close>

section \<open>Rows\<close>

record recovery_cfg =
  rec_enabled :: bool
  rec_policyId :: "string option"
  rec_steps :: "wf_step list"

record workflow_row =
  wf_id :: string
  wf_workspace :: string
  wf_name :: string
  wf_description :: string
  wf_steps :: "wf_step list"
  wf_targetPlatform :: "string option"
  wf_targetDeploymentModel :: "string option"
  wf_recovery :: recovery_cfg
  wf_allowUnattendedDestructive :: bool

record device_ref =
  ref_id :: string
  ref_displayName :: "string option"
  ref_platform :: string
  ref_platformDeviceId :: string
  ref_fields :: jsval

record result_row =
  res_runId :: string
  res_deviceId :: string
  res_deviceName :: "string option"
  res_steps :: "step_log list"
  res_status :: string
  res_finalStatus :: "final_status option"

record device_result =
  dr_deviceId :: string
  dr_deviceName :: "string option"
  dr_steps :: "step_log list"
  dr_finalStatus :: "final_status option"

record run_log =
  rl_workflowName :: "string option"
  rl_total :: nat
  rl_completed :: nat
  rl_results :: "device_result list"

record run_row =
  run_id :: string
  run_workspace :: string
  run_workflowId :: string
  run_workflowName :: "string option"
  run_targetDescription :: "string option"
  run_status :: string
  run_total :: "nat option"
  run_startedAt :: int
  run_completedAt :: "int option"
  run_log_blob :: "run_log option"

record pending_row =
  pend_id :: string
  pend_runId :: string
  pend_device :: device_ref
  pend_workflowId :: string
  pend_slugKey :: string
  pend_nextStepId :: string
  pend_log :: "step_log list"
  pend_resumeAt :: int
  pend_stepKind :: string
  pend_onFailureStepId :: "string option"
  pend_token :: "string option"
  pend_claimedAt :: "int option"

record run_db =
  runs :: "run_row list"
  results :: "result_row list"
  pendings :: "pending_row list"

section \<open>Results and completion\<close>

definition is_result :: "string \<Rightarrow> string \<Rightarrow> result_row \<Rightarrow> bool" where
  "is_result runId deviceId r \<longleftrightarrow> res_runId r = runId \<and> res_deviceId r = deviceId"

definition upsertRunResult :: "string \<Rightarrow> string \<Rightarrow> string option \<Rightarrow> step_log list \<Rightarrow> string \<Rightarrow>
    final_status option \<Rightarrow> run_db \<Rightarrow> run_db" where
  "upsertRunResult runId deviceId deviceName stepsLog status final db =
     (if list_ex (is_result runId deviceId) (results db)
      then db\<lparr>results := upd_where (is_result runId deviceId)
               (\<lambda>r. r\<lparr>res_deviceName := deviceName, res_steps := stepsLog, res_status := status,
                      res_finalStatus := final\<rparr>) (results db)\<rparr>
      else db\<lparr>results := results db @
               [\<lparr>res_runId = runId, res_deviceId = deviceId, res_deviceName = deviceName,
                 res_steps = stepsLog, res_status = status, res_finalStatus = final\<rparr>]\<rparr>)"

definition results_of :: "string \<Rightarrow> run_db \<Rightarrow> result_row list" where
  "results_of runId db = filter (\<lambda>r. res_runId r = runId) (results db)"

definition done_count :: "string \<Rightarrow> run_db \<Rightarrow> nat" where
  "done_count runId db = length (filter (\<lambda>r. res_status r = ''done'') (results_of runId db))"

definition find_run :: "string \<Rightarrow> run_db \<Rightarrow> run_row option" where
  "find_run runId db = List.find (\<lambda>r. run_id r = runId) (runs db)"

definition device_result_of :: "result_row \<Rightarrow> device_result" where
  "device_result_of r =
     \<lparr>dr_deviceId = res_deviceId r, dr_deviceName = res_deviceName r, dr_steps = res_steps r,
      dr_finalStatus = res_finalStatus r\<rparr>"

definition finalizeRunIfDone :: "string \<Rightarrow> int \<Rightarrow> run_db \<Rightarrow> run_db" where
  "finalizeRunIfDone runId now db =
     (case find_run runId db of
        None \<Rightarrow> db
      | Some run \<Rightarrow>
          if run_status run = ''completed'' then db
          else (case run_total run of
             None \<Rightarrow> db
           | Some tot \<Rightarrow>
               if tot \<le> done_count runId db then
                 db\<lparr>runs := upd_where (\<lambda>r. run_id r = runId)
                      (\<lambda>r. r\<lparr>run_status := ''completed'', run_completedAt := Some now,
                             run_log_blob := Some \<lparr>rl_workflowName = run_workflowName run, rl_total = tot,
                               rl_completed = done_count runId db,
                               rl_results = map device_result_of (results_of runId db)\<rparr>\<rparr>) (runs db)\<rparr>
               else db))"

definition persistPendingStep :: "string \<Rightarrow> string \<Rightarrow> device_ref \<Rightarrow> string \<Rightarrow> string \<Rightarrow> parked \<Rightarrow> step_log list \<Rightarrow>
    run_db \<Rightarrow> run_db" where
  "persistPendingStep newId runId device workflowId slugKey p lg db =
     db\<lparr>pendings := pendings db @
        [\<lparr>pend_id = newId, pend_runId = runId, pend_device = device, pend_workflowId = workflowId,
          pend_slugKey = slugKey, pend_nextStepId = park_next p, pend_log = lg,
          pend_resumeAt = park_resumeAt p, pend_stepKind = park_kind p,
          pend_onFailureStepId = park_onFailure p, pend_token = park_token p, pend_claimedAt = None\<rparr>]\<rparr>"

section \<open>Views of a run\<close>

record run_view =
  vw_id :: string
  vw_workflowId :: string
  vw_workflowName :: "string option"
  vw_targetDescription :: "string option"
  vw_startedAt :: int
  vw_finishedAt :: "int option"
  vw_status :: string
  vw_total :: nat
  vw_completed :: nat
  vw_results :: "device_result list"

definition runView :: "string \<Rightarrow> run_db \<Rightarrow> run_view option" where
  "runView runId db =
     (case find_run runId db of
        None \<Rightarrow> None
      | Some run \<Rightarrow>
          (let rows = results_of runId db;
               completed = done_count runId db;
               anyWaiting = list_ex (\<lambda>r. res_status r \<noteq> ''done'' \<and> res_status r = ''waiting'') rows;
               tot = (case run_total run of Some t \<Rightarrow> t | None \<Rightarrow> 0);
               status = (if run_status run = ''completed'' then ''completed''
                         else if anyWaiting then ''waiting''
                         else if tot \<noteq> 0 \<and> tot \<le> completed then ''completed''
                         else ''running'')
           in Some \<lparr>vw_id = run_id run, vw_workflowId = run_workflowId run,
                    vw_workflowName = run_workflowName run, vw_targetDescription = run_targetDescription run,
                    vw_startedAt = run_startedAt run, vw_finishedAt = run_completedAt run,
                    vw_status = status, vw_total = tot, vw_completed = completed,
                    vw_results = map device_result_of rows\<rparr>))"

definition listOpenRuns :: "string \<Rightarrow> run_db \<Rightarrow> run_view list" where
  "listOpenRuns workspaceSlug db =
     List.map_filter (\<lambda>r. runView (run_id r) db)
       (sort_key (\<lambda>r. - run_startedAt r)
         (filter (\<lambda>r. run_workspace r = workspaceSlug \<and> run_status r \<noteq> ''completed'') (runs db)))"

section \<open>One device's chain\<close>

text \<open>
  What a chain runs with: \<open>prepare workflow slugKey device resumed w\<close> is the preamble of the \<open>try\<close> block (settings, recovery
  policy, credentials - those of the automation for a resumed chain -, org base): the engine or the
  exception it throws. \<open>newToken\<close> and \<open>newId\<close> give fresh ids.
\<close>

record 'w chain_env =
  prepare :: "workflow_row \<Rightarrow> string \<Rightarrow> device_ref \<Rightarrow> bool \<Rightarrow> 'w \<Rightarrow> (string + 'w engine) \<times> 'w"
  newToken :: "nat \<Rightarrow> string"
  newPendingId :: "run_db \<Rightarrow> string"

record chain_result =
  cr_deviceId :: string
  cr_deviceName :: "string option"
  cr_steps :: "step_log list"
  cr_finalStatus :: "final_status option"
  cr_status :: string

definition engine_error_entry :: "string \<Rightarrow> step_log" where
  "engine_error_entry message =
     \<lparr>log_stepId = None, log_name = ''Workflow engine error'', log_type = ''error'', log_ok = False,
      log_detail = take 500 (''Unexpected error '' @ em_dash @
        '' this device's chain was stopped and marked failed: '' @ message),
      log_recovery = False\<rparr>"

definition chain_done :: "string \<Rightarrow> device_ref \<Rightarrow> int \<Rightarrow> step_log list \<Rightarrow> final_status \<Rightarrow> run_db \<Rightarrow>
    chain_result \<times> run_db" where
  "chain_done runId device now lg final db =
     (\<lparr>cr_deviceId = ref_id device, cr_deviceName = ref_displayName device, cr_steps = lg,
       cr_finalStatus = Some final, cr_status = ''done''\<rparr>,
      finalizeRunIfDone runId now
        (upsertRunResult runId (ref_id device) (ref_displayName device) lg ''done'' (Some final) db))"

definition chain_parked :: "'w chain_env \<Rightarrow> string \<Rightarrow> workflow_row \<Rightarrow> device_ref \<Rightarrow> string \<Rightarrow> parked \<Rightarrow> step_log list \<Rightarrow>
    run_db \<Rightarrow> chain_result \<times> run_db" where
  "chain_parked env runId workflow device slugKey p lg db =
     (\<lparr>cr_deviceId = ref_id device, cr_deviceName = ref_displayName device, cr_steps = lg,
       cr_finalStatus = None, cr_status = ''waiting''\<rparr>,
      upsertRunResult runId (ref_id device) (ref_displayName device) lg ''waiting'' None
        (persistPendingStep (newPendingId env db) runId device (wf_id workflow) slugKey p lg db))"

definition resumed_chain :: "string option \<Rightarrow> bool" where
  "resumed_chain startStepId = (case startStepId of Some s \<Rightarrow> s \<noteq> [] | None \<Rightarrow> False)"

definition slug_key :: "string \<Rightarrow> string" where
  "slug_key workspaceSlug = (if workspaceSlug = [] then ''global'' else workspaceSlug)"

definition runDeviceStepChain :: "'w chain_env \<Rightarrow> int \<Rightarrow> string \<Rightarrow> workflow_row \<Rightarrow> device_ref \<Rightarrow> string \<Rightarrow>
    string option \<Rightarrow> step_log list \<Rightarrow> run_db \<Rightarrow> 'w \<Rightarrow> chain_result \<times> run_db \<times> 'w" where
  "runDeviceStepChain env now runId workflow device workspaceSlug startStepId existingLog db w =
     (let slugKey = slug_key workspaceSlug;
          crash = (\<lambda>msg lg w'. case chain_done runId device now (lg @ [engine_error_entry msg]) Failed db of
                     (r, db') \<Rightarrow> (r, db', w'))
      in if wf_steps workflow = [] then
           (case chain_done runId device now [] Success db of (r, db') \<Rightarrow> (r, db', w))
         else
           (case prepare env workflow slugKey device (resumed_chain startStepId) w of
              (Inl msg, w1) \<Rightarrow> crash msg existingLog w1
            | (Inr e, w1) \<Rightarrow>
                (case durable_walk e now (newToken env) (wf_steps workflow) startStepId existingLog w1 of
                   (ChainThrew msg, lg, w2) \<Rightarrow> crash msg lg w2
                 | (ChainDone, lg, w2) \<Rightarrow>
                     (case chain_done runId device now lg (finalStatus lg) db of (r, db') \<Rightarrow> (r, db', w2))
                 | (ChainParked p, lg, w2) \<Rightarrow>
                     (case chain_parked env runId workflow device slugKey p lg db of (r, db') \<Rightarrow> (r, db', w2)))))"

fun run_devices :: "'w chain_env \<Rightarrow> int \<Rightarrow> string \<Rightarrow> workflow_row \<Rightarrow> string \<Rightarrow> device_ref list \<Rightarrow> run_db \<Rightarrow> 'w \<Rightarrow>
    run_db \<times> 'w" where
  "run_devices env now runId workflow slugKey [] db w = (db, w)"
| "run_devices env now runId workflow slugKey (d # ds) db w =
     (case runDeviceStepChain env now runId workflow d slugKey None [] db w of
        (_, db', w') \<Rightarrow> run_devices env now runId workflow slugKey ds db' w')"

definition executeWorkflowRunDurable :: "'w chain_env \<Rightarrow> int \<Rightarrow> string \<Rightarrow> workflow_row \<Rightarrow> device_ref list \<Rightarrow> string \<Rightarrow>
    run_db \<Rightarrow> 'w \<Rightarrow> run_db \<times> 'w" where
  "executeWorkflowRunDurable env now runId workflow devices workspaceSlug db w =
     (case run_devices env now runId workflow (slug_key workspaceSlug) devices db w of
        (db', w') \<Rightarrow> (finalizeRunIfDone runId now db', w'))"

section \<open>Resuming parked chains\<close>

text \<open>What a resume reads: the workflow table and the automation credential of a workspace.\<close>

record resume_env =
  wfTable :: "workflow_row list"
  automationBearer :: "string \<Rightarrow> string option"

definition find_workflow :: "resume_env \<Rightarrow> string \<Rightarrow> string \<Rightarrow> workflow_row option" where
  "find_workflow renv slugKey workflowId =
     List.find (\<lambda>wf. wf_workspace wf = slugKey \<and> wf_id wf = workflowId) (wfTable renv)"

definition has_automation :: "resume_env \<Rightarrow> string \<Rightarrow> bool" where
  "has_automation renv slugKey = (case automationBearer renv slugKey of Some b \<Rightarrow> b \<noteq> [] | None \<Rightarrow> False)"

definition note_entry :: "string \<Rightarrow> string \<Rightarrow> bool \<Rightarrow> string \<Rightarrow> step_log" where
  "note_entry entryName entryType ok detail =
     \<lparr>log_stepId = None, log_name = entryName, log_type = entryType, log_ok = ok, log_detail = detail,
      log_recovery = False\<rparr>"

definition NO_WORKFLOW :: string where
  "NO_WORKFLOW = ''Linked workflow no longer exists''"

definition NO_CREDENTIAL :: string where
  "NO_CREDENTIAL = ''No automation credential is configured for this workspace '' @ em_dash @
     '' cannot resume without one. Configure one from Settings.''"

definition resume_failed :: "pending_row \<Rightarrow> int \<Rightarrow> step_log list \<Rightarrow> run_db \<Rightarrow> run_db" where
  "resume_failed row now lg db =
     finalizeRunIfDone (pend_runId row) now
       (upsertRunResult (pend_runId row) (ref_id (pend_device row)) (ref_displayName (pend_device row)) lg
          ''done'' (Some Failed) db)"

definition delete_pending :: "string \<Rightarrow> run_db \<Rightarrow> run_db" where
  "delete_pending pid db = db\<lparr>pendings := del_where (\<lambda>p. pend_id p = pid) (pendings db)\<rparr>"

definition failure_or_end :: "pending_row \<Rightarrow> string" where
  "failure_or_end row =
     (case pend_onFailureStepId row of Some s \<Rightarrow> if s = [] then ''end'' else s | None \<Rightarrow> ''end'')"

definition is_due :: "int \<Rightarrow> pending_row \<Rightarrow> bool" where
  "is_due now p \<longleftrightarrow> pend_resumeAt p \<le> now \<and> pend_claimedAt p = None"

definition due_rows :: "nat \<Rightarrow> int \<Rightarrow> run_db \<Rightarrow> pending_row list" where
  "due_rows limit now db = take limit (sort_key pend_resumeAt (filter (is_due now) (pendings db)))"

definition claim_rows :: "pending_row list \<Rightarrow> int \<Rightarrow> run_db \<Rightarrow> run_db" where
  "claim_rows rows now db =
     db\<lparr>pendings := upd_where (\<lambda>p. pend_id p \<in> pend_id ` set rows)
          (\<lambda>p. p\<lparr>pend_claimedAt := Some now\<rparr>) (pendings db)\<rparr>"

text \<open>\<open>resumeOne\<close>: a claimed row is resumed on its target step, recorded as failed, or blocked; the row is
  deleted in every case.\<close>

definition resumeOne :: "'w chain_env \<Rightarrow> resume_env \<Rightarrow> int \<Rightarrow> pending_row \<Rightarrow> run_db \<Rightarrow> 'w \<Rightarrow> string list \<Rightarrow>
    run_db \<times> 'w \<times> string list" where
  "resumeOne env renv now row db w blocked =
     (let isScriptKind = (pend_stepKind row = ''script'');
          targetStepId = (if isScriptKind then failure_or_end row else pend_nextStepId row);
          stepLabel = (if isScriptKind then ''run_script_wait'' else ''wait'');
          lg = pend_log row
      in case find_workflow renv (pend_slugKey row) (pend_workflowId row) of
           None \<Rightarrow>
             (delete_pending (pend_id row)
                (resume_failed row now (lg @ [note_entry ''Resume'' stepLabel False NO_WORKFLOW]) db), w, blocked)
         | Some workflow \<Rightarrow>
             if \<not> has_automation renv (pend_slugKey row) then
               (delete_pending (pend_id row)
                  (resume_failed row now (lg @ [note_entry ''Resume'' stepLabel False NO_CREDENTIAL]) db), w,
                blocked @ [pend_slugKey row @ '' (run '' @ pend_runId row @ '': no Automation Credential configured)''])
             else
               (let lg' = (if isScriptKind
                           then lg @ [note_entry ''Script result'' stepLabel False
                                  (''No script result received before the timeout '' @ em_dash @
                                   '' following the failure branch'')]
                           else lg)
                in case runDeviceStepChain env now (pend_runId row) workflow (pend_device row) (pend_slugKey row)
                          (Some targetStepId) lg' db w of
                     (_, db', w') \<Rightarrow> (delete_pending (pend_id row) db', w', blocked)))"

fun resume_rows :: "'w chain_env \<Rightarrow> resume_env \<Rightarrow> int \<Rightarrow> pending_row list \<Rightarrow> run_db \<Rightarrow> 'w \<Rightarrow> string list \<Rightarrow>
    run_db \<times> 'w \<times> string list" where
  "resume_rows env renv now [] db w blocked = (db, w, blocked)"
| "resume_rows env renv now (r # rs) db w blocked =
     (case resumeOne env renv now r db w blocked of
        (db', w', blocked') \<Rightarrow> resume_rows env renv now rs db' w' blocked')"

definition resumeDueWorkflowSteps :: "'w chain_env \<Rightarrow> resume_env \<Rightarrow> nat \<Rightarrow> int \<Rightarrow> run_db \<Rightarrow> 'w \<Rightarrow>
    nat result \<times> run_db \<times> 'w" where
  "resumeDueWorkflowSteps env renv limit now db w =
     (let rows = due_rows limit now db
      in if rows = [] then (Inr 0, db, w)
         else case resume_rows env renv now rows (claim_rows rows now db) w [] of
           (db', w', blocked) \<Rightarrow>
             (if blocked \<noteq> [] then
                throw 502 (take 500 (show_nat (length blocked) @
                  '' pending workflow step(s) could not resume this tick: '' @ joinWith ''; '' blocked))
              else Inr (length rows), db', w'))"

text \<open>\<open>DELETE ... WHERE "pendingToken" = token RETURNING\<close>: the rows go away, the first one is resumed.\<close>

definition take_by_token :: "string \<Rightarrow> run_db \<Rightarrow> pending_row option \<times> run_db" where
  "take_by_token token db =
     (List.find (\<lambda>p. pend_token p = Some token) (pendings db),
      db\<lparr>pendings := del_where (\<lambda>p. pend_token p = Some token) (pendings db)\<rparr>)"

definition resumeWorkflowPendingStepByToken :: "'w chain_env \<Rightarrow> resume_env \<Rightarrow> int \<Rightarrow> string option \<Rightarrow> bool \<Rightarrow> string \<Rightarrow>
    run_db \<Rightarrow> 'w \<Rightarrow> run_db \<times> 'w" where
  "resumeWorkflowPendingStepByToken env renv now pendingToken outcomeOk extraDetail db w =
     (case pendingToken of
        None \<Rightarrow> (db, w)
      | Some token \<Rightarrow>
          if token = [] then (db, w)
          else case take_by_token token db of
            (None, _) \<Rightarrow> (db, w)
          | (Some row, db1) \<Rightarrow>
              (let targetStepId = (if outcomeOk then pend_nextStepId row else failure_or_end row);
                   detail = (if extraDetail \<noteq> [] then extraDetail
                             else if outcomeOk then ''Script completed successfully '' @ em_dash @ '' resuming''
                             else ''Script failed '' @ em_dash @ '' following the failure branch'');
                   lg = pend_log row @ [note_entry ''Script result'' ''run_script_wait'' outcomeOk detail]
               in case find_workflow renv (pend_slugKey row) (pend_workflowId row) of
                    None \<Rightarrow>
                      (resume_failed row now (lg @ [note_entry ''Resume'' ''run_script_wait'' False NO_WORKFLOW]) db1, w)
                  | Some workflow \<Rightarrow>
                      if \<not> has_automation renv (pend_slugKey row) then
                        (resume_failed row now (lg @ [note_entry ''Resume'' ''run_script_wait'' False NO_CREDENTIAL]) db1, w)
                      else (case runDeviceStepChain env now (pend_runId row) workflow (pend_device row)
                                   (pend_slugKey row) (Some targetStepId) lg db1 w of
                              (_, db', w') \<Rightarrow> (db', w'))))"

section \<open>In-memory runs and the launch\<close>

record active_run =
  ar_id :: string
  ar_workspace :: string
  ar_workflowId :: string
  ar_workflowName :: string
  ar_startedAt :: int
  ar_finishedAt :: "int option"
  ar_status :: string
  ar_total :: nat
  ar_completed :: nat
  ar_results :: "device_result list"
  ar_targetDescription :: "string option"

record run_system =
  run_tables :: run_db
  activeRuns :: "(string \<times> active_run) list"

datatype run_job =
    DurableJob string workflow_row "device_ref list" string
  | MemoryJob string workflow_row "device_ref list" string

definition publicRunView :: "active_run \<Rightarrow> run_view" where
  "publicRunView r =
     \<lparr>vw_id = ar_id r, vw_workflowId = ar_workflowId r, vw_workflowName = Some (ar_workflowName r),
      vw_targetDescription = ar_targetDescription r, vw_startedAt = ar_startedAt r,
      vw_finishedAt = ar_finishedAt r, vw_status = ar_status r, vw_total = ar_total r,
      vw_completed = ar_completed r, vw_results = ar_results r\<rparr>"

definition durableViewToPublicRun :: "run_view \<Rightarrow> run_view" where
  "durableViewToPublicRun v =
     v\<lparr>vw_workflowName := Some (case vw_workflowName v of Some n \<Rightarrow> n | None \<Rightarrow> [])\<rparr>"

definition rowToPublicRun :: "run_row \<Rightarrow> run_view" where
  "rowToPublicRun row =
     (let lg = (case run_log_blob row of Some l \<Rightarrow> l
                | None \<Rightarrow> \<lparr>rl_workflowName = None, rl_total = 0, rl_completed = 0, rl_results = []\<rparr>)
      in \<lparr>vw_id = run_id row, vw_workflowId = run_workflowId row,
          vw_workflowName = Some (case rl_workflowName lg of Some n \<Rightarrow> n | None \<Rightarrow> []),
          vw_targetDescription = run_targetDescription row, vw_startedAt = run_startedAt row,
          vw_finishedAt = run_completedAt row, vw_status = run_status row, vw_total = rl_total lg,
          vw_completed = rl_completed lg, vw_results = rl_results lg\<rparr>)"

definition has_wait :: "workflow_row \<Rightarrow> bool" where
  "has_wait workflow = list_ex is_wait (wf_steps workflow)"

text \<open>The launch returns the view and the job it schedules in the background.\<close>

definition launchWorkflowRun :: "int \<Rightarrow> string \<Rightarrow> workflow_row \<Rightarrow> device_ref list \<Rightarrow> string \<Rightarrow> string option \<Rightarrow>
    run_system \<Rightarrow> run_view option \<times> run_job \<times> run_system" where
  "launchWorkflowRun now runId workflow devices workspaceSlug targetDescription sys =
     (if has_wait workflow then
        (let db = run_tables sys;
             db' = db\<lparr>runs := runs db @
                [\<lparr>run_id = runId, run_workspace = workspaceSlug, run_workflowId = wf_id workflow,
                  run_workflowName = Some (wf_name workflow), run_targetDescription = targetDescription,
                  run_status = ''running'', run_total = Some (length devices), run_startedAt = now,
                  run_completedAt = None, run_log_blob = None\<rparr>]\<rparr>
         in (map_option durableViewToPublicRun (runView runId db'),
             DurableJob runId workflow devices workspaceSlug, sys\<lparr>run_tables := db'\<rparr>))
      else
        (let run = \<lparr>ar_id = runId, ar_workspace = workspaceSlug, ar_workflowId = wf_id workflow,
                ar_workflowName = wf_name workflow, ar_startedAt = now, ar_finishedAt = None,
                ar_status = ''running'', ar_total = length devices, ar_completed = 0, ar_results = [],
                ar_targetDescription = targetDescription\<rparr>
         in (Some (publicRunView run), MemoryJob runId workflow devices workspaceSlug,
             sys\<lparr>activeRuns := map_set runId run (activeRuns sys)\<rparr>)))"

fun run_memory_devices :: "(device_ref \<Rightarrow> 'w engine) \<Rightarrow> wf_step list \<Rightarrow> device_ref list \<Rightarrow> active_run \<Rightarrow> 'w \<Rightarrow>
    (string + unit) \<times> active_run \<times> 'w" where
  "run_memory_devices e steps [] run w = (Inr (), run, w)"
| "run_memory_devices e steps (d # ds) run w =
     (case runForDevice (e d) steps w of
        (Inl msg, w') \<Rightarrow> (Inl msg, run, w')
      | (Inr (lg, final), w') \<Rightarrow>
          run_memory_devices e steps ds
            (run\<lparr>ar_results := ar_results run @
                   [\<lparr>dr_deviceId = ref_id d, dr_deviceName = ref_displayName d, dr_steps = lg,
                     dr_finalStatus = Some final\<rparr>],
                 ar_completed := ar_completed run + 1\<rparr>) w')"

text \<open>\<open>executeWorkflowRun\<close> with the \<open>catch\<close> of its caller: a crash closes the run in memory only. \<open>eng\<close>
  is what the preamble of the run gives: the engine of each device, or the exception it throws.\<close>

definition executeWorkflowRun :: "(string + (device_ref \<Rightarrow> 'w engine)) \<Rightarrow> int \<Rightarrow> string \<Rightarrow> workflow_row \<Rightarrow>
    device_ref list \<Rightarrow> run_system \<Rightarrow> 'w \<Rightarrow> run_system \<times> 'w" where
  "executeWorkflowRun eng now runId workflow devices sys w =
     (case map_of (activeRuns sys) runId of
        None \<Rightarrow> (sys, w)
      | Some run \<Rightarrow>
          (case (case eng of Inl msg \<Rightarrow> (Inl msg, run, w)
                 | Inr e \<Rightarrow> run_memory_devices e (wf_steps workflow) devices run w) of
             (Inl _, run', w') \<Rightarrow>
               (sys\<lparr>activeRuns := map_set runId (run'\<lparr>ar_status := ''completed'', ar_finishedAt := Some now\<rparr>)
                      (activeRuns sys)\<rparr>, w')
           | (Inr _, run', w') \<Rightarrow>
               (let db = run_tables sys
                in (sys\<lparr>run_tables := db\<lparr>runs := runs db @
                       [\<lparr>run_id = ar_id run', run_workspace = ar_workspace run',
                         run_workflowId = ar_workflowId run', run_workflowName = None,
                         run_targetDescription = ar_targetDescription run', run_status = ''completed'',
                         run_total = None, run_startedAt = ar_startedAt run', run_completedAt = Some now,
                         run_log_blob = Some \<lparr>rl_workflowName = Some (ar_workflowName run'),
                            rl_total = ar_total run', rl_completed = ar_completed run',
                            rl_results = ar_results run'\<rparr>\<rparr>]\<rparr>,
                     activeRuns := map_del runId (activeRuns sys)\<rparr>, w'))))"

section \<open>Run history\<close>

definition gatherWorkflowRuns :: "string \<Rightarrow> run_system \<Rightarrow> run_view list" where
  "gatherWorkflowRuns workspaceSlug sys =
     (let inProgress = map (publicRunView \<circ> snd)
            (filter (\<lambda>p. ar_workspace (snd p) = workspaceSlug \<and> ar_status (snd p) = ''running'') (activeRuns sys));
          durableOpen = map durableViewToPublicRun (listOpenRuns workspaceSlug (run_tables sys));
          open_runs = sort_key (\<lambda>v. - vw_startedAt v) (inProgress @ durableOpen);
          rows = sort_key (\<lambda>r. - run_startedAt r)
            (filter (\<lambda>r. run_workspace r = workspaceSlug \<and> run_log_blob r \<noteq> None) (runs (run_tables sys)))
      in open_runs @ map rowToPublicRun (filter (\<lambda>r. run_id r \<notin> vw_id ` set open_runs) rows))"

definition getWorkflowRun :: "string \<Rightarrow> string \<Rightarrow> run_system \<Rightarrow> run_view result" where
  "getWorkflowRun workspaceSlug runId sys =
     (case map_of (activeRuns sys) runId of
        Some active \<Rightarrow> Inr (publicRunView active)
      | None \<Rightarrow>
          (case List.find (\<lambda>r. run_workspace r = workspaceSlug \<and> run_id r = runId) (runs (run_tables sys)) of
             None \<Rightarrow> throw 404 ''Run not found''
           | Some row \<Rightarrow>
               if run_log_blob row \<noteq> None then Inr (rowToPublicRun row)
               else (case runView runId (run_tables sys) of
                       Some v \<Rightarrow> Inr (durableViewToPublicRun v)
                     | None \<Rightarrow> throw 404 ''Run not found'')))"

section \<open>Lemmas on the tables\<close>

lemma upsert_frame [simp]:
  "pendings (upsertRunResult runId d n lg st fin db) = pendings db"
  "runs (upsertRunResult runId d n lg st fin db) = runs db"
  by (simp_all add: upsertRunResult_def)

lemma finalize_frame [simp]:
  "pendings (finalizeRunIfDone runId now db) = pendings db"
  "results (finalizeRunIfDone runId now db) = results db"
  by (auto simp: finalizeRunIfDone_def split: option.splits)

lemma persist_frame [simp]:
  "results (persistPendingStep i runId d wfid slug p lg db) = results db"
  "runs (persistPendingStep i runId d wfid slug p lg db) = runs db"
  by (simp_all add: persistPendingStep_def)

lemma results_cong: "results db = results db' \<Longrightarrow> results_of runId db = results_of runId db' \<and> done_count runId db = done_count runId db'"
  by (simp add: results_of_def done_count_def)

lemma upsert_new_result:
  assumes "d \<notin> res_deviceId ` set (results_of runId db)"
  shows "results_of runId (upsertRunResult runId d n lg st fin db) = results_of runId db @
    [\<lparr>res_runId = runId, res_deviceId = d, res_deviceName = n, res_steps = lg, res_status = st, res_finalStatus = fin\<rparr>]"
proof -
  have "\<not> list_ex (is_result runId d) (results db)"
    using assms by (force simp: list_ex_iff is_result_def results_of_def)
  then show ?thesis by (simp add: upsertRunResult_def results_of_def)
qed

text \<open>What an upsert leaves of the other rows, and the status it gives.\<close>

lemma upsert_members:
  "r \<in> set (results (upsertRunResult runId d n lg st fin db)) \<Longrightarrow>
     r \<in> set (results db) \<and> \<not> is_result runId d r \<or> is_result runId d r \<and> res_status r = st \<and> res_steps r = lg \<and> res_finalStatus r = fin"
  by (auto simp: upsertRunResult_def is_result_def list_ex_iff set_upd_where split: if_splits)

lemma upsert_exists: "\<exists>r\<in>set (results (upsertRunResult runId d n lg st fin db)). is_result runId d r"
proof (cases "list_ex (is_result runId d) (results db)")
  case True
  then obtain r where "r \<in> set (results db)" "is_result runId d r" by (auto simp: list_ex_iff)
  then show ?thesis using True
    by (intro bexI [of _ "r\<lparr>res_deviceName := n, res_steps := lg, res_status := st, res_finalStatus := fin\<rparr>"])
      (auto simp: upsertRunResult_def is_result_def set_upd_where)
qed (simp add: upsertRunResult_def is_result_def)

text \<open>The ways a chain ends.\<close>

datatype chain_outcome = OutDone "step_log list" final_status | OutParked parked "step_log list"

definition chain_db :: "'w chain_env \<Rightarrow> int \<Rightarrow> string \<Rightarrow> workflow_row \<Rightarrow> device_ref \<Rightarrow> string \<Rightarrow> chain_outcome \<Rightarrow>
    run_db \<Rightarrow> chain_result \<times> run_db" where
  "chain_db env now runId workflow device workspaceSlug out db =
     (case out of
        OutDone lg fin \<Rightarrow> chain_done runId device now lg fin db
      | OutParked p lg \<Rightarrow> chain_parked env runId workflow device (slug_key workspaceSlug) p lg db)"

lemma chain_outcomes:
  assumes "runDeviceStepChain env now runId workflow device workspaceSlug start lg0 db w = (r, db', w')"
  obtains (out) out where "chain_db env now runId workflow device workspaceSlug out db = (r, db')"
    "\<And>p lg. out = OutParked p lg \<Longrightarrow> length lg0 < length lg \<and> length lg \<le> GUARD_LIMIT \<and>
       (park_token p = None \<or> (\<exists>k. park_token p = Some (newToken env k)))"
proof -
  have "\<exists>out. chain_db env now runId workflow device workspaceSlug out db = (r, db') \<and>
      (\<forall>p lg. out = OutParked p lg \<longrightarrow> length lg0 < length lg \<and> length lg \<le> GUARD_LIMIT \<and>
         (park_token p = None \<or> (\<exists>k. park_token p = Some (newToken env k))))"
  proof (cases "wf_steps workflow = []")
    case True
    then show ?thesis
      using assms by (intro exI [of _ "OutDone [] Success"]) (auto simp: runDeviceStepChain_def chain_db_def split: prod.splits)
  next
    case False
    obtain pr w1 where prep: "prepare env workflow (slug_key workspaceSlug) device (resumed_chain start) w = (pr, w1)" by fastforce
    show ?thesis
    proof (cases pr)
      case (Inl msg)
      then show ?thesis
        using assms False prep
        by (intro exI [of _ "OutDone (lg0 @ [engine_error_entry msg]) Failed"])
          (auto simp: runDeviceStepChain_def chain_db_def split: prod.splits)
    next
      case (Inr e)
      obtain en lg w2 where walk: "durable_walk e now (newToken env) (wf_steps workflow) start lg0 w1 = (en, lg, w2)"
        by (rule prod_cases3)
      show ?thesis
      proof (cases en)
        case ChainDone
        then show ?thesis
          using assms False prep Inr walk
          by (intro exI [of _ "OutDone lg (finalStatus lg)"])
            (auto simp: runDeviceStepChain_def chain_db_def split: prod.splits)
      next
        case (ChainThrew msg)
        then show ?thesis
          using assms False prep Inr walk
          by (intro exI [of _ "OutDone (lg @ [engine_error_entry msg]) Failed"])
            (auto simp: runDeviceStepChain_def chain_db_def split: prod.splits)
      next
        case (ChainParked p)
        then show ?thesis
          using assms False prep Inr walk durable_walk_parked [of e now "newToken env" "wf_steps workflow" start lg0 w1 p lg w2]
          by (intro exI [of _ "OutParked p lg"])
            (auto simp: runDeviceStepChain_def chain_db_def split: prod.splits)
      qed
    qed
  qed
  then show thesis using out by blast
qed

section \<open>A run completes when its devices are done\<close>

definition completed_row :: "int \<Rightarrow> nat \<Rightarrow> run_db \<Rightarrow> run_row \<Rightarrow> run_row" where
  "completed_row now tot db run =
     run\<lparr>run_status := ''completed'', run_completedAt := Some now,
         run_log_blob := Some \<lparr>rl_workflowName = run_workflowName run, rl_total = tot,
           rl_completed = done_count (run_id run) db,
           rl_results = map device_result_of (results_of (run_id run) db)\<rparr>\<rparr>"

lemma find_run_id: "find_run runId db = Some run \<Longrightarrow> run_id run = runId"
  unfolding find_run_def by (drule find_Some_in) simp

lemma finalize_find:
  assumes "find_run runId db = Some run" "run_total run = Some n"
  shows "find_run runId (finalizeRunIfDone runId now db) =
    Some (if run_status run \<noteq> ''completed'' \<and> n \<le> done_count runId db then completed_row now n db run else run)"
proof (cases "run_status run \<noteq> ''completed'' \<and> n \<le> done_count runId db")
  case True
  then show ?thesis
    using assms find_run_id [OF assms(1)]
    by (simp add: finalizeRunIfDone_def find_run_def find_upd_where completed_row_def)
next
  case False
  then show ?thesis using assms by (auto simp: finalizeRunIfDone_def)
qed

definition run_inv :: "string \<Rightarrow> nat \<Rightarrow> string list \<Rightarrow> run_db \<Rightarrow> bool" where
  "run_inv runId n handled db \<longleftrightarrow>
     (\<exists>run. find_run runId db = Some run \<and> run_total run = Some n \<and>
        map res_deviceId (results_of runId db) = handled \<and>
        (\<forall>r\<in>set (results_of runId db). res_status r = ''done'' \<or> res_status r = ''waiting'') \<and>
        (run_status run = ''completed'' \<longrightarrow> n \<le> done_count runId db \<and>
           map_option rl_results (run_log_blob run) = Some (map device_result_of (results_of runId db))) \<and>
        (handled \<noteq> [] \<and> n \<le> done_count runId db \<longrightarrow> run_status run = ''completed''))"

lemma run_inv_step:
  assumes inv: "run_inv runId n handled db" and new: "ref_id d \<notin> set handled" "length handled < n"
    and chain: "chain_db env now runId wfr d slug out db = (r, db')"
  shows "run_inv runId n (handled @ [ref_id d]) db'"
proof -
  obtain run where run: "find_run runId db = Some run" "run_total run = Some n"
      and res: "map res_deviceId (results_of runId db) = handled"
        "\<forall>r\<in>set (results_of runId db). res_status r = ''done'' \<or> res_status r = ''waiting''"
      and comp: "run_status run = ''completed'' \<longrightarrow> n \<le> done_count runId db"
    using inv unfolding run_inv_def by blast
  have below: "done_count runId db < n"
    unfolding done_count_def using res(1) new(2) length_filter_le [of _ "results_of runId db"]
    by (metis le_less_trans length_map)
  then have open_run: "run_status run \<noteq> ''completed''" using comp by auto
  have fresh: "ref_id d \<notin> res_deviceId ` set (results_of runId db)"
    using new(1) res(1) by (metis image_set)
  note new_row = upsert_new_result [OF fresh]
  show ?thesis
  proof (cases out)
    case (OutDone lg fin)
    let ?db = "upsertRunResult runId (ref_id d) (ref_displayName d) lg ''done'' (Some fin) db"
    have "find_run runId ?db = Some run" using run(1) by (simp add: find_run_def)
    note find' = finalize_find [OF this run(2)]
    have db': "db' = finalizeRunIfDone runId now ?db"
      using chain OutDone by (simp add: chain_db_def chain_done_def)
    have same: "results_of runId db' = results_of runId ?db" "done_count runId db' = done_count runId ?db"
      using results_cong [of db' ?db runId] db' by simp_all
    show ?thesis
      unfolding run_inv_def same unfolding db' find' new_row
      using open_run res run(2) new_row find_run_id [OF run(1)]
      by (auto simp: completed_row_def)
  next
    case (OutParked p lg)
    let ?db = "persistPendingStep (newPendingId env db) runId d (wf_id wfr) (slug_key slug) p lg db"
    have db': "db' = upsertRunResult runId (ref_id d) (ref_displayName d) lg ''waiting'' None ?db"
      using chain OutParked by (simp add: chain_db_def chain_parked_def)
    have "results_of runId ?db = results_of runId db" by (simp add: results_of_def)
    then have rows: "results_of runId db' = results_of runId db @
        [\<lparr>res_runId = runId, res_deviceId = ref_id d, res_deviceName = ref_displayName d,
          res_steps = lg, res_status = ''waiting'', res_finalStatus = None\<rparr>]"
      unfolding db' using upsert_new_result [of "ref_id d" runId ?db] fresh by simp
    have count: "done_count runId db' = done_count runId db"
      unfolding done_count_def rows by simp
    have "find_run runId db' = Some run" using run(1) by (simp add: db' find_run_def)
    then show ?thesis
      unfolding run_inv_def count rows using below open_run run(2) res by auto
  qed
qed

lemma run_devices_inv:
  assumes "run_inv runId n handled db" "distinct (handled @ map ref_id ds)" "length handled + length ds \<le> n"
    and "run_devices env now runId wfr slug ds db w = (db', w')"
  shows "run_inv runId n (handled @ map ref_id ds) db'"
  using assms
proof (induction ds arbitrary: handled db w)
  case (Cons d ds)
  obtain r db1 w1 where chain: "runDeviceStepChain env now runId wfr d slug None [] db w = (r, db1, w1)"
    by (rule prod_cases3)
  obtain out where "chain_db env now runId wfr d slug out db = (r, db1)"
    by (rule chain_outcomes [OF chain])
  from run_inv_step [OF Cons.prems(1) _ _ this] have "run_inv runId n (handled @ [ref_id d]) db1"
    using Cons.prems(2,3) by simp
  from Cons.IH [OF this] show ?case
    using Cons.prems(2-4) chain by simp
qed simp

section \<open>No device is left waiting for nothing\<close>

definition fresh_ids :: "'w chain_env \<Rightarrow> bool" where
  "fresh_ids env \<longleftrightarrow> (\<forall>db. newPendingId env db \<notin> pend_id ` set (pendings db))"

definition parked_for :: "string \<Rightarrow> string \<Rightarrow> pending_row \<Rightarrow> bool" where
  "parked_for runId deviceId p \<longleftrightarrow> pend_runId p = runId \<and> ref_id (pend_device p) = deviceId"

definition wait_inv :: "run_db \<Rightarrow> bool" where
  "wait_inv db \<longleftrightarrow> distinct (map pend_id (pendings db)) \<and>
     (\<forall>r\<in>set (results db). res_status r = ''waiting'' \<longrightarrow>
        (\<exists>p\<in>set (pendings db). parked_for (res_runId r) (res_deviceId r) p))"

text \<open>What the handling of one device of a run does to the tables: its result is done, or waiting with a new
  pending row; other results stay.\<close>

definition settles :: "string \<Rightarrow> string \<Rightarrow> run_db \<Rightarrow> run_db \<Rightarrow> bool" where
  "settles runId deviceId db db' \<longleftrightarrow>
     (\<forall>r\<in>set (results db'). \<not> is_result runId deviceId r \<longrightarrow> r \<in> set (results db)) \<and>
     (\<exists>r\<in>set (results db'). is_result runId deviceId r) \<and>
     ((pendings db' = pendings db \<and> (\<forall>r\<in>set (results db'). is_result runId deviceId r \<longrightarrow> res_status r = ''done'')) \<or>
      (\<exists>p. pendings db' = pendings db @ [p] \<and> pend_id p \<notin> pend_id ` set (pendings db) \<and>
         parked_for runId deviceId p \<and> pend_claimedAt p = None \<and>
         (\<forall>r\<in>set (results db'). is_result runId deviceId r \<longrightarrow> res_status r = ''waiting'' \<and> res_steps r = pend_log p)))"

lemma settles_done:
  "settles runId d db (finalizeRunIfDone runId now (upsertRunResult runId d n lg ''done'' fin db))"
  unfolding settles_def using upsert_members [of _ runId d n lg "''done''" fin db]
    upsert_exists [of runId d n lg "''done''" fin db] by auto

lemma chain_settles:
  assumes "fresh_ids env" "chain_db env now runId wfr d slug out db = (r, db')"
  shows "settles runId (ref_id d) db db'"
proof (cases out)
  case (OutDone lg fin)
  then show ?thesis using assms(2) settles_done by (auto simp: chain_db_def chain_done_def)
next
  case (OutParked p lg)
  let ?db = "persistPendingStep (newPendingId env db) runId d (wf_id wfr) (slug_key slug) p lg db"
  have db': "db' = upsertRunResult runId (ref_id d) (ref_displayName d) lg ''waiting'' None ?db"
    using assms(2) OutParked by (simp add: chain_db_def chain_parked_def)
  have "newPendingId env db \<notin> pend_id ` set (pendings db)" using assms(1) by (simp add: fresh_ids_def)
  moreover have "pendings db' = pendings db @
      [\<lparr>pend_id = newPendingId env db, pend_runId = runId, pend_device = d, pend_workflowId = wf_id wfr,
        pend_slugKey = slug_key slug, pend_nextStepId = park_next p, pend_log = lg,
        pend_resumeAt = park_resumeAt p, pend_stepKind = park_kind p,
        pend_onFailureStepId = park_onFailure p, pend_token = park_token p, pend_claimedAt = None\<rparr>]"
    unfolding db' by (simp add: persistPendingStep_def)
  moreover note upsert_members [of _ runId "ref_id d" "ref_displayName d" lg "''waiting''" None ?db]
    upsert_exists [of runId "ref_id d" "ref_displayName d" lg "''waiting''" None ?db]
  ultimately show ?thesis
    unfolding settles_def db' persist_frame by (intro conjI disjI2) (auto simp: parked_for_def)
qed

lemma chain_run_settles:
  assumes "fresh_ids env" "runDeviceStepChain env now runId wfr d slug start lg db w = (r, db', w')"
  shows "settles runId (ref_id d) db db'"
  using chain_outcomes [OF assms(2)] chain_settles [OF assms(1)] by metis

lemma settles_wait_inv:
  assumes "wait_inv db" "settles runId d db db'"
  shows "wait_inv db'"
proof -
  have sub: "set (pendings db) \<subseteq> set (pendings db')" and dist: "distinct (map pend_id (pendings db'))"
    using assms unfolding wait_inv_def settles_def by auto
  have "\<exists>p\<in>set (pendings db'). parked_for (res_runId r) (res_deviceId r) p"
    if "r \<in> set (results db')" "res_status r = ''waiting''" for r
  proof (cases "is_result runId d r")
    case True
    then have "res_runId r = runId" "res_deviceId r = d" by (simp_all add: is_result_def)
    then show ?thesis using assms(2) that True unfolding settles_def by auto
  next
    case False
    then have "r \<in> set (results db)" using assms(2) that(1) unfolding settles_def by blast
    then show ?thesis using assms(1) that(2) sub unfolding wait_inv_def by blast
  qed
  then show ?thesis using dist unfolding wait_inv_def by blast
qed

text \<open>Deleting the pending row of the device just handled keeps the invariant.\<close>

lemma settles_delete_wait_inv:
  assumes "wait_inv db" "settles runId d db db'" "q \<in> set (pendings db)" "parked_for runId d q"
  shows "wait_inv (delete_pending (pend_id q) db')"
proof -
  note inv' = settles_wait_inv [OF assms(1,2)]
  have dist: "distinct (map pend_id (pendings db'))" using inv' by (simp add: wait_inv_def)
  have "\<exists>p\<in>set (pendings db'). pend_id p \<noteq> pend_id q \<and> parked_for (res_runId r) (res_deviceId r) p"
    if r: "r \<in> set (results db')" "res_status r = ''waiting''" for r
  proof (cases "is_result runId d r")
    case True
    then have "res_runId r = runId" "res_deviceId r = d" by (simp_all add: is_result_def)
    then show ?thesis using assms(2,3) r True unfolding settles_def by force
  next
    case False
    obtain p where p: "p \<in> set (pendings db')" "parked_for (res_runId r) (res_deviceId r) p"
      using inv' r unfolding wait_inv_def by blast
    have "q \<in> set (pendings db')" using assms(2,3) unfolding settles_def by auto
    have "p \<noteq> q" using p(2) assms(4) False by (auto simp: parked_for_def is_result_def)
    then have "pend_id p \<noteq> pend_id q"
      using dist p(1) \<open>q \<in> set (pendings db')\<close> by (metis distinct_map inj_onD)
    then show ?thesis using p by blast
  qed
  then show ?thesis
    using dist unfolding wait_inv_def delete_pending_def
    by (auto simp: del_where_def distinct_map_filter)
qed

lemma resumeOne_settles:
  assumes "fresh_ids env" "resumeOne env renv now row db w blocked = (db', w', blocked')"
  obtains (db1) db1 where "settles (pend_runId row) (ref_id (pend_device row)) db db1"
    "db' = delete_pending (pend_id row) db1"
proof -
  have "\<exists>db1. settles (pend_runId row) (ref_id (pend_device row)) db db1 \<and> db' = delete_pending (pend_id row) db1"
  proof (cases "\<exists>lg. db' = delete_pending (pend_id row) (resume_failed row now lg db)")
    case True
    then show ?thesis using settles_done unfolding resume_failed_def by blast
  next
    case failed: False
    then obtain wfr where wfr: "find_workflow renv (pend_slugKey row) (pend_workflowId row) = Some wfr"
        "has_automation renv (pend_slugKey row)"
      using assms(2) unfolding resumeOne_def Let_def by (auto split: option.splits if_splits)
    then obtain start lg where "resumeOne env renv now row db w blocked =
        (case runDeviceStepChain env now (pend_runId row) wfr (pend_device row) (pend_slugKey row) start lg db w of
           (_, db', w') \<Rightarrow> (delete_pending (pend_id row) db', w', blocked))"
      unfolding resumeOne_def Let_def by auto
    then obtain r db1 where "runDeviceStepChain env now (pend_runId row) wfr (pend_device row) (pend_slugKey row) start lg db w = (r, db1, w')"
        "db' = delete_pending (pend_id row) db1"
      using assms(2) by (auto split: prod.splits)
    then show ?thesis using chain_run_settles [OF assms(1)] by blast
  qed
  then show thesis using db1 by blast
qed

definition rows_known :: "pending_row list \<Rightarrow> run_db \<Rightarrow> bool" where
  "rows_known rows db \<longleftrightarrow> distinct (map pend_id rows) \<and>
     (\<forall>row\<in>set rows. \<exists>q\<in>set (pendings db). pend_id q = pend_id row \<and>
        parked_for (pend_runId row) (ref_id (pend_device row)) q)"

lemma resume_rows_wait_inv:
  assumes "fresh_ids env" "wait_inv db" "rows_known rows db"
    and "resume_rows env renv now rows db w blocked = (db', w', blocked')"
  shows "wait_inv db'"
  using assms(2-4)
proof (induction rows arbitrary: db w blocked)
  case (Cons row rows)
  obtain db1 w1 b1 where one: "resumeOne env renv now row db w blocked = (db1, w1, b1)" by (rule prod_cases3)
  obtain db0 where db0: "settles (pend_runId row) (ref_id (pend_device row)) db db0"
      "db1 = delete_pending (pend_id row) db0"
    by (rule resumeOne_settles [OF assms(1) one])
  obtain q where q: "q \<in> set (pendings db)" "pend_id q = pend_id row"
      "parked_for (pend_runId row) (ref_id (pend_device row)) q"
    using Cons.prems(2) by (auto simp: rows_known_def)
  have inv: "wait_inv db1"
    using settles_delete_wait_inv [OF Cons.prems(1) db0(1) q(1,3)] db0(2) q(2) by simp
  have "rows_known rows db1"
    unfolding rows_known_def
  proof (intro conjI ballI)
    show "distinct (map pend_id rows)" using Cons.prems(2) by (simp add: rows_known_def)
    fix row' assume row': "row' \<in> set rows"
    then obtain q' where q': "q' \<in> set (pendings db)" "pend_id q' = pend_id row'"
        "parked_for (pend_runId row') (ref_id (pend_device row')) q'"
      using Cons.prems(2) by (auto simp: rows_known_def)
    have "pend_id row' \<noteq> pend_id row"
      using Cons.prems(2) row' unfolding rows_known_def by (metis distinct.simps(2) image_eqI image_set list.simps(9))
    then have "q' \<in> set (pendings db1)"
      using q' db0 unfolding settles_def delete_pending_def del_where_def by auto
    then show "\<exists>q\<in>set (pendings db1). pend_id q = pend_id row' \<and>
        parked_for (pend_runId row') (ref_id (pend_device row')) q"
      using q' by blast
  qed
  from Cons.IH [OF inv this] show ?case using Cons.prems(3) one by simp
qed simp

lemma claim_has:
  assumes "p \<in> set (pendings db)"
  shows "\<exists>q\<in>set (pendings (claim_rows rows now db)). pend_id q = pend_id p \<and> (\<forall>r d. parked_for r d q = parked_for r d p)"
  using assms unfolding claim_rows_def
  by (intro bexI [of _ "if pend_id p \<in> pend_id ` set rows then p\<lparr>pend_claimedAt := Some now\<rparr> else p"])
    (auto simp: parked_for_def set_upd_where)

lemma claim_frame: "map pend_id (pendings (claim_rows rows now db)) = map pend_id (pendings db)"
    "results (claim_rows rows now db) = results db"
  by (simp_all add: claim_rows_def map_upd_where)

lemma claim_rows_keeps: "wait_inv db \<Longrightarrow> wait_inv (claim_rows rows now db)"
  unfolding wait_inv_def claim_frame using claim_has by metis

lemma due_rows_known:
  assumes "wait_inv db"
  shows "rows_known (due_rows limit now db) (claim_rows rows now db)"
proof -
  have sub: "set (due_rows limit now db) \<subseteq> set (pendings db)"
    unfolding due_rows_def by (auto dest: in_set_takeD)
  have "distinct (map pend_id (sort_key pend_resumeAt (filter (is_due now) (pendings db))))"
    using assms unfolding wait_inv_def distinct_map by (simp add: inj_on_def)
  then have "distinct (map pend_id (due_rows limit now db))"
    unfolding due_rows_def take_map [symmetric] by (rule distinct_take)
  moreover have "\<exists>q\<in>set (pendings (claim_rows rows now db)). pend_id q = pend_id row \<and>
      parked_for (pend_runId row) (ref_id (pend_device row)) q" if "row \<in> set (pendings db)" for row
  proof -
    have "parked_for (pend_runId row) (ref_id (pend_device row)) row" by (simp add: parked_for_def)
    then show ?thesis using claim_has [OF that] by metis
  qed
  ultimately show ?thesis using sub unfolding rows_known_def by blast
qed

lemma resumeDue_wait_inv:
  assumes "fresh_ids env" "wait_inv db" "resumeDueWorkflowSteps env renv limit now db w = (r, db', w')"
  shows "wait_inv db'"
proof (cases "due_rows limit now db = []")
  case True
  then show ?thesis using assms(2,3) by (simp add: resumeDueWorkflowSteps_def)
next
  case False
  then obtain b where "resume_rows env renv now (due_rows limit now db)
      (claim_rows (due_rows limit now db) now db) w [] = (db', w', b)"
    using assms(3) by (auto simp: resumeDueWorkflowSteps_def Let_def split: prod.splits)
  from resume_rows_wait_inv [OF assms(1) claim_rows_keeps [OF assms(2)] due_rows_known [OF assms(2)] this]
  show ?thesis .
qed

lemma run_devices_wait_inv:
  assumes "fresh_ids env" "wait_inv db" "run_devices env now runId wfr slug ds db w = (db', w')"
  shows "wait_inv db'"
  using assms(2,3)
proof (induction ds arbitrary: db w)
  case (Cons d ds)
  obtain r db1 w1 where chain: "runDeviceStepChain env now runId wfr d slug None [] db w = (r, db1, w1)"
    by (rule prod_cases3)
  from settles_wait_inv [OF Cons.prems(1) chain_run_settles [OF assms(1) chain]] show ?case
    using Cons.IH Cons.prems(2) chain by simp
qed simp

definition no_token :: "string \<Rightarrow> run_db \<Rightarrow> bool" where
  "no_token token db \<longleftrightarrow> (\<forall>p\<in>set (pendings db). pend_token p \<noteq> Some token)"

lemma take_by_token_none: "no_token token db \<Longrightarrow> fst (take_by_token token db) = None"
  by (simp add: take_by_token_def no_token_def find_None_all)

lemma take_by_token_gone: "take_by_token token db = (r, db') \<Longrightarrow> no_token token db'"
  by (auto simp: take_by_token_def no_token_def del_where_def)

lemma chain_no_token:
  assumes "\<forall>n. newToken env n \<noteq> token" "no_token token db"
    and "runDeviceStepChain env now runId wfr d slug start lg db w = (r, db', w')"
  shows "no_token token db'"
proof -
  obtain out where out: "chain_db env now runId wfr d slug out db = (r, db')"
      "\<And>p lg. out = OutParked p lg \<Longrightarrow> park_token p = None \<or> (\<exists>k. park_token p = Some (newToken env k))"
    using chain_outcomes [OF assms(3)] by metis
  show ?thesis
  proof (cases out)
    case (OutDone lg fin)
    then show ?thesis using out(1) assms(2) by (auto simp: chain_db_def chain_done_def no_token_def)
  next
    case (OutParked p lg)
    then have "park_token p \<noteq> Some token" using out(2) assms(1) by fastforce
    then show ?thesis
      using OutParked out(1) assms(2)
      by (auto simp: chain_db_def chain_parked_def persistPendingStep_def no_token_def)
  qed
qed

lemma token_resume_gone:
  assumes "\<forall>n. newToken env n \<noteq> token" "token \<noteq> []"
    and "resumeWorkflowPendingStepByToken env renv now (Some token) ok detail db w = (db', w')"
  shows "no_token token db'"
proof -
  obtain found db1 where taken: "take_by_token token db = (found, db1)" by fastforce
  note gone = take_by_token_gone [OF taken]
  show ?thesis
  proof (cases found)
    case None
    then have "db' = db" "List.find (\<lambda>p. pend_token p = Some token) (pendings db) = None"
      using assms(2,3) taken by (simp_all add: resumeWorkflowPendingStepByToken_def take_by_token_def)
    then show ?thesis by (simp add: no_token_def find_None_all)
  next
    case (Some row)
    show ?thesis
    proof (cases "\<exists>lg. db' = resume_failed row now lg db1")
      case True
      then show ?thesis using gone by (auto simp: resume_failed_def no_token_def)
    next
      case failed: False
      then obtain wfr where wfr: "find_workflow renv (pend_slugKey row) (pend_workflowId row) = Some wfr"
          "has_automation renv (pend_slugKey row)"
        using assms(2,3) taken Some unfolding resumeWorkflowPendingStepByToken_def Let_def
        by (auto split: option.splits if_splits)
      then obtain start lg r where "runDeviceStepChain env now (pend_runId row) wfr (pend_device row) (pend_slugKey row)
          start lg db1 w = (r, db', w')"
        using assms(2,3) taken Some unfolding resumeWorkflowPendingStepByToken_def Let_def
        by (auto split: prod.splits)
      from chain_no_token [OF assms(1) gone this] show ?thesis .
    qed
  qed
qed

section \<open>Properties\<close>

text \<open>A one-step wait workflow and an environment for the concrete instances.\<close>

definition wait_flow :: workflow_row where
  "wait_flow =
     \<lparr>wf_id = ''wf'', wf_workspace = ''ws'', wf_name = ''Pause'', wf_description = [],
      wf_steps = [\<lparr>step_id = ''p'', step_type = ''wait'', step_name = ''Pause'',
         config = JObj [(''amount'', jint 5)], onSuccess = None, onFailure = None\<rparr>],
      wf_targetPlatform = None, wf_targetDeploymentModel = None,
      wf_recovery = \<lparr>rec_enabled = False, rec_policyId = None, rec_steps = []\<rparr>,
      wf_allowUnattendedDestructive = False\<rparr>"

definition sample_device :: device_ref where
  "sample_device = \<lparr>ref_id = ''d1'', ref_displayName = None, ref_platform = ''apple'',
     ref_platformDeviceId = ''p1'', ref_fields = JObj []\<rparr>"

definition broken_env :: "unit chain_env" where
  "broken_env = \<lparr>prepare = (\<lambda>wfl k d b w. (Inl ''no network'', w)), newToken = (\<lambda>n. ''t''),
     newPendingId = (\<lambda>db. replicate (Suc (sum_list (map (length \<circ> pend_id) (pendings db)))) (CHR ''x''))\<rparr>"

lemma broken_env_fresh: "fresh_ids broken_env"
proof -
  have "length (pend_id p) < Suc (sum_list (map (length \<circ> pend_id) ps))" if "p \<in> set ps" for p ps
    using that by (induction ps) auto
  then show ?thesis unfolding fresh_ids_def broken_env_def by (fastforce dest: arg_cong [of _ _ length])
qed

definition one_run :: "run_db" where
  "one_run = \<lparr>runs = [\<lparr>run_id = ''r'', run_workspace = ''ws'', run_workflowId = ''wf'', run_workflowName = None,
      run_targetDescription = None, run_status = ''running'', run_total = Some 1, run_startedAt = 0,
      run_completedAt = None, run_log_blob = None\<rparr>], results = [], pendings = []\<rparr>"

text \<open>
  C11: A durable run completes exactly when no device waits. After the devices of a fresh run (with
  distinct ids) have been walked, whatever their steps did or threw, each has exactly one result, done
  or waiting, in the run's order; the run is completed if and only if none waits, and then its stored
  log holds exactly those results.
\<close>
theorem durable_run_completes:
  assumes "find_run runId db = Some run" "run_status run \<noteq> ''completed''" "run_total run = Some (length devices)"
    and "results_of runId db = []" "distinct (map ref_id devices)"
    and "executeWorkflowRunDurable env now runId wfr devices ws db w = (db', w')"
  shows "map res_deviceId (results_of runId db') = map ref_id devices \<and>
    (\<forall>r\<in>set (results_of runId db'). res_status r = ''done'' \<or> res_status r = ''waiting'') \<and>
    (\<exists>run'. find_run runId db' = Some run' \<and>
      (run_status run' = ''completed'' \<longleftrightarrow> (\<forall>r\<in>set (results_of runId db'). res_status r \<noteq> ''waiting'')) \<and>
      (run_status run' = ''completed'' \<longrightarrow>
        map_option rl_results (run_log_blob run') = Some (map device_result_of (results_of runId db'))))"
proof -
  obtain db1 where db1: "run_devices env now runId wfr (slug_key ws) devices db w = (db1, w')"
      "db' = finalizeRunIfDone runId now db1"
    using assms(6) by (auto simp: executeWorkflowRunDurable_def split: prod.splits)
  have "run_inv runId (length devices) [] db"
    using assms(1-4) by (auto simp: run_inv_def)
  from run_devices_inv [OF this _ _ db1(1)] assms(5)
  have "run_inv runId (length devices) (map ref_id devices) db1" by simp
  then obtain run1 where run1: "find_run runId db1 = Some run1" "run_total run1 = Some (length devices)"
      "map res_deviceId (results_of runId db1) = map ref_id devices"
      "\<forall>r\<in>set (results_of runId db1). res_status r = ''done'' \<or> res_status r = ''waiting''"
      "run_status run1 = ''completed'' \<longrightarrow> length devices \<le> done_count runId db1 \<and>
         map_option rl_results (run_log_blob run1) = Some (map device_result_of (results_of runId db1))"
    unfolding run_inv_def by blast
  have len: "length (results_of runId db1) = length devices" using run1(3) map_eq_imp_length_eq by blast
  have all_done: "length devices \<le> done_count runId db1 \<longleftrightarrow> (\<forall>r\<in>set (results_of runId db1). res_status r \<noteq> ''waiting'')"
  proof -
    have "length devices \<le> done_count runId db1 \<longleftrightarrow> (\<forall>r\<in>set (results_of runId db1). res_status r = ''done'')"
      unfolding done_count_def len [symmetric] by (rule filter_full)
    moreover have "res_status r = ''done'' \<longleftrightarrow> res_status r \<noteq> ''waiting''" if "r \<in> set (results_of runId db1)" for r
      using bspec [OF run1(4) that] by force
    ultimately show ?thesis by (simp cong: ball_cong)
  qed
  have same: "results_of runId db' = results_of runId db1" using results_cong [of db' db1 runId] db1(2) by simp
  note fin = finalize_find [OF run1(1,2), of now]
  define run' where "run' = (if run_status run1 \<noteq> ''completed'' \<and> length devices \<le> done_count runId db1
      then completed_row now (length devices) db1 run1 else run1)"
  have "find_run runId db' = Some run'" using fin db1(2) by (simp add: run'_def)
  moreover have "run_status run' = ''completed'' \<longleftrightarrow> (\<forall>r\<in>set (results_of runId db1). res_status r \<noteq> ''waiting'')"
    unfolding all_done [symmetric] using run1(5) by (auto simp: run'_def completed_row_def)
  moreover have "run_status run' = ''completed'' \<longrightarrow>
      map_option rl_results (run_log_blob run') = Some (map device_result_of (results_of runId db1))"
    using run1(5) find_run_id [OF run1(1)] by (simp add: run'_def completed_row_def)
  ultimately show ?thesis unfolding same using run1(3,4) by blast
qed

theorem durable_run_completes_witness:
  "\<exists>db' run'. executeWorkflowRunDurable broken_env 9 ''r'' wait_flow [sample_device] ''ws'' one_run () = (db', ()) \<and>
     find_run ''r'' db' = Some run' \<and>
     (run_status run' = ''completed'' \<longleftrightarrow> (\<forall>r\<in>set (results_of ''r'' db'). res_status r \<noteq> ''waiting''))"
proof -
  obtain db' where run: "executeWorkflowRunDurable broken_env 9 ''r'' wait_flow [sample_device] ''ws'' one_run () = (db', ())"
    by (cases "executeWorkflowRunDurable broken_env 9 ''r'' wait_flow [sample_device] ''ws'' one_run ()") simp
  have "find_run ''r'' one_run = Some (runs one_run ! 0)" "run_status (runs one_run ! 0) \<noteq> ''completed''"
      "run_total (runs one_run ! 0) = Some (length [sample_device])" "results_of ''r'' one_run = []"
      "distinct (map ref_id [sample_device])"
    by (simp_all add: find_run_def one_run_def results_of_def)
  from durable_run_completes [OF this run] run show ?thesis by blast
qed

text \<open>
  C25: No device is left waiting for nothing. With fresh pending ids, running the devices of a run and
  resuming the due rows keep the invariant that every result that waits has a pending row of its run
  and device, and pending ids stay distinct - whether a resumed chain ends, parks again, throws, or is
  refused for a deleted workflow or a missing credential.
\<close>
theorem no_orphaned_waits:
  assumes "fresh_ids env" "wait_inv db"
  shows "(\<forall>devices. wait_inv (fst (executeWorkflowRunDurable env now runId wfr devices ws db w))) \<and>
    (\<forall>r db' w'. resumeDueWorkflowSteps env renv limit now db w = (r, db', w') \<longrightarrow> wait_inv db')"
proof (intro conjI allI impI)
  fix devices
  obtain db1 w1 where run: "run_devices env now runId wfr (slug_key ws) devices db w = (db1, w1)"
    by (cases "run_devices env now runId wfr (slug_key ws) devices db w")
  have "wait_inv (finalizeRunIfDone runId now db1)"
    using run_devices_wait_inv [OF assms run] by (simp add: wait_inv_def)
  then show "wait_inv (fst (executeWorkflowRunDurable env now runId wfr devices ws db w))"
    using run by (simp add: executeWorkflowRunDurable_def)
qed (rule resumeDue_wait_inv [OF assms])

theorem no_orphaned_waits_witness:
  "wait_inv (fst (executeWorkflowRunDurable broken_env 9 ''r'' wait_flow [sample_device] ''ws'' one_run ()))"
proof -
  have "wait_inv one_run" by (simp add: wait_inv_def one_run_def)
  from no_orphaned_waits [OF broken_env_fresh this] show ?thesis by blast
qed

text \<open>Which step a script result selects, the log the chain continues with, and the tables without the rows
  of a token.\<close>

definition script_branch :: "bool \<Rightarrow> pending_row \<Rightarrow> string" where
  "script_branch ok row =
     (if ok then pend_nextStepId row
      else case pend_onFailureStepId row of None \<Rightarrow> ''end'' | Some s \<Rightarrow> if s = [] then ''end'' else s)"

definition script_note :: "bool \<Rightarrow> string \<Rightarrow> step_log" where
  "script_note ok detail = \<lparr>log_stepId = None, log_name = ''Script result'', log_type = ''run_script_wait'', log_ok = ok,
     log_detail = (if detail \<noteq> [] then detail
      else if ok then ''Script completed successfully '' @ em_dash @ '' resuming''
      else ''Script failed '' @ em_dash @ '' following the failure branch''), log_recovery = False\<rparr>"

lemma script_spec:
  "(if ok then pend_nextStepId row else failure_or_end row) = script_branch ok row"
  "note_entry ''Script result'' ''run_script_wait'' ok
     (if detail \<noteq> [] then detail
      else if ok then ''Script completed successfully '' @ em_dash @ '' resuming''
      else ''Script failed '' @ em_dash @ '' following the failure branch'') = script_note ok detail"
  by (auto simp: script_branch_def script_note_def failure_or_end_def note_entry_def split: option.split)

definition without_token :: "string \<Rightarrow> run_db \<Rightarrow> run_db" where
  "without_token token db = db\<lparr>pendings := filter (\<lambda>p. pend_token p \<noteq> Some token) (pendings db)\<rparr>"

definition resumable :: "resume_env \<Rightarrow> pending_row \<Rightarrow> bool" where
  "resumable renv row \<longleftrightarrow> find_workflow renv (pend_slugKey row) (pend_workflowId row) \<noteq> None \<and>
     has_automation renv (pend_slugKey row)"

lemma take_by_token_pair:
  "take_by_token token db = (List.find (\<lambda>p. pend_token p = Some token) (pendings db), without_token token db)"
  by (simp add: take_by_token_def without_token_def del_where_def)

lemma token_resume_cases:
  assumes "token \<noteq> []" "List.find (\<lambda>p. pend_token p = Some token) (pendings db) = Some row"
    and "resumeWorkflowPendingStepByToken env renv now (Some token) ok detail db w = (db', w')"
  obtains (gone) why where "\<not> resumable renv row" "w' = w"
      "db' = resume_failed row now (pend_log row @ [script_note ok detail, note_entry ''Resume'' ''run_script_wait'' False why])
         (without_token token db)"
  | (resumed) wfr r where "resumable renv row"
      "find_workflow renv (pend_slugKey row) (pend_workflowId row) = Some wfr"
      "runDeviceStepChain env now (pend_runId row) wfr (pend_device row) (pend_slugKey row)
         (Some (script_branch ok row)) (pend_log row @ [script_note ok detail]) (without_token token db) w = (r, db', w')"
proof (cases "resumable renv row")
  case True
  then obtain wfr where "find_workflow renv (pend_slugKey row) (pend_workflowId row) = Some wfr"
      "has_automation renv (pend_slugKey row)"
    by (auto simp: resumable_def)
  then show thesis
    using assms True resumed unfolding resumeWorkflowPendingStepByToken_def Let_def take_by_token_pair script_spec
    by (auto split: prod.splits)
next
  case False
  then show thesis
    using assms gone unfolding resumeWorkflowPendingStepByToken_def Let_def take_by_token_pair script_spec
    by (fastforce simp: resumable_def split: option.splits)
qed

lemma chain_db_result:
  assumes "chain_db env now runId wfr d slug out db = (r, db')" "x \<in> set (results db')" "is_result runId (ref_id d) x"
  shows "res_steps x = (case out of OutDone lg fin \<Rightarrow> lg | OutParked p lg \<Rightarrow> lg)"
  using assms upsert_members [of x runId "ref_id d" "ref_displayName d"]
  by (fastforce simp: chain_db_def chain_done_def chain_parked_def split: chain_outcome.splits)

text \<open>A chain continues its log along the step graph, from the step it starts at.\<close>

lemma chain_continues:
  assumes "runDeviceStepChain env now runId wfr d slug (Some start) lg db w = (r, db', w')"
    and "wf_steps wfr \<noteq> []" "start \<noteq> []"
  shows "\<exists>xs c rest. walks (wf_steps wfr) start xs c \<and> length lg + length xs \<le> max (length lg) GUARD_LIMIT \<and>
    (\<forall>x\<in>set (results db'). is_result runId (ref_id d) x \<longrightarrow> res_steps x = lg @ xs @ rest)"
proof -
  obtain pr w1 where prep: "prepare env wfr (slug_key slug) d (resumed_chain (Some start)) w = (pr, w1)" by fastforce
  show ?thesis
  proof (cases pr)
    case (Inl msg)
    then have "chain_db env now runId wfr d slug (OutDone (lg @ [engine_error_entry msg]) Failed) db = (r, db')"
      using assms(1,2) prep by (auto simp: runDeviceStepChain_def chain_db_def split: prod.splits)
    note chain_db_result [OF this]
    then show ?thesis
      by (intro exI [of _ "[]"] exI [of _ start] exI [of _ "[engine_error_entry msg]"]) (auto intro: walks_stop)
  next
    case (Inr e)
    obtain en lg' w2 where walk: "durable_walk e now (newToken env) (wf_steps wfr) (Some start) lg w1 = (en, lg', w2)"
      by (rule prod_cases3)
    then have loop: "durable_loop e now (newToken env) (wf_steps wfr) (GUARD_LIMIT - length lg) start lg w1 = (en, lg', w2)"
      using assms(3) by (simp add: durable_walk_def)
    obtain xs c rec where path: "lg' = lg @ xs @ rec" "walks (wf_steps wfr) start xs c" "length xs \<le> GUARD_LIMIT - length lg"
      using durable_loop_spec [OF loop] unfolding durable_spec_def loop_spec_def by blast
    have "\<exists>extra out. chain_db env now runId wfr d slug out db = (r, db') \<and>
        (case out of OutDone l fin \<Rightarrow> l | OutParked p l \<Rightarrow> l) = lg' @ extra"
    proof (cases en)
      case ChainDone
      then show ?thesis using assms(1,2) prep Inr walk
        by (intro exI [of _ "[]"] exI [of _ "OutDone lg' (finalStatus lg')"])
          (auto simp: runDeviceStepChain_def chain_db_def split: prod.splits)
    next
      case (ChainThrew msg)
      then show ?thesis using assms(1,2) prep Inr walk
        by (intro exI [of _ "[engine_error_entry msg]"] exI [of _ "OutDone (lg' @ [engine_error_entry msg]) Failed"])
          (auto simp: runDeviceStepChain_def chain_db_def split: prod.splits)
    next
      case (ChainParked p)
      then show ?thesis using assms(1,2) prep Inr walk
        by (intro exI [of _ "[]"] exI [of _ "OutParked p lg'"])
          (auto simp: runDeviceStepChain_def chain_db_def split: prod.splits)
    qed
    then obtain extra out where "chain_db env now runId wfr d slug out db = (r, db')"
        "(case out of OutDone l fin \<Rightarrow> l | OutParked p l \<Rightarrow> l) = lg' @ extra" by blast
    then show ?thesis
      using path chain_db_result by (intro exI [of _ xs] exI [of _ c] exI [of _ "rec @ extra"]) fastforce
  qed
qed

text \<open>
  C31: A script result resumes its parked chain, once. When a row is parked on the token, the call takes
  every row of that token away, and handles the row's device: if the workflow is gone or the workspace has no
  automation credential, the device's result is done and failed; otherwise the device's chain runs (it is done,
  or waits again with a new row), from the success step when the script succeeded and from the failure step
  (the end when there is none) when it failed, and its log is the parked log, the script's result, and a path of
  the step graph from that step. Results of other devices stay. When the tokens of new dispatches are
  fresh, a second call with the token, whatever it reports, changes nothing.
\<close>
theorem token_resumes_once:
  assumes "\<forall>n. newToken env n \<noteq> token" "fresh_ids env" "token \<noteq> []"
    and "List.find (\<lambda>p. pend_token p = Some token) (pendings db) = Some row"
    and "resumeWorkflowPendingStepByToken env renv now (Some token) ok detail db w = (db', w')"
  shows "settles (pend_runId row) (ref_id (pend_device row)) (without_token token db) db' \<and>
    (\<forall>p\<in>set (pendings db'). pend_token p \<noteq> Some token) \<and>
    (\<not> resumable renv row \<longrightarrow> w' = w \<and>
       (\<forall>x\<in>set (results db'). is_result (pend_runId row) (ref_id (pend_device row)) x \<longrightarrow>
          res_status x = ''done'' \<and> res_finalStatus x = Some Failed)) \<and>
    (\<forall>wfr. resumable renv row \<and> find_workflow renv (pend_slugKey row) (pend_workflowId row) = Some wfr \<longrightarrow>
       (\<exists>r. runDeviceStepChain env now (pend_runId row) wfr (pend_device row) (pend_slugKey row)
          (Some (script_branch ok row)) (pend_log row @ [script_note ok detail]) (without_token token db) w = (r, db', w')) \<and>
       (wf_steps wfr \<noteq> [] \<and> script_branch ok row \<noteq> [] \<longrightarrow>
          (\<exists>xs c rest. walks (wf_steps wfr) (script_branch ok row) xs c \<and>
             (\<forall>x\<in>set (results db'). is_result (pend_runId row) (ref_id (pend_device row)) x \<longrightarrow>
                res_steps x = pend_log row @ script_note ok detail # xs @ rest)))) \<and>
    resumeWorkflowPendingStepByToken env renv' now' (Some token) ok' detail' db' w' = (db', w')"
proof -
  have gone: "no_token token db'" using token_resume_gone [OF assms(1,3,5)] .
  then have again: "resumeWorkflowPendingStepByToken env renv' now' (Some token) ok' detail' db' w' = (db', w')"
    using assms(3) take_by_token_none [OF gone] by (simp add: resumeWorkflowPendingStepByToken_def take_by_token_pair)
  have none: "\<forall>p\<in>set (pendings db'). pend_token p \<noteq> Some token" using gone by (simp add: no_token_def)
  show ?thesis
    using assms(3-5)
  proof (cases rule: token_resume_cases)
    case (gone why)
    have "res_status x = ''done'' \<and> res_finalStatus x = Some Failed"
      if "x \<in> set (results db')" "is_result (pend_runId row) (ref_id (pend_device row)) x" for x
      using that upsert_members [of x "pend_runId row" "ref_id (pend_device row)"] unfolding gone(3) resume_failed_def by fastforce
    then show ?thesis
      using gone again none settles_done unfolding gone(3) resume_failed_def by blast
  next
    case (resumed wfr r)
    have path: "\<exists>xs c rest. walks (wf_steps wfr) (script_branch ok row) xs c \<and>
        (\<forall>x\<in>set (results db'). is_result (pend_runId row) (ref_id (pend_device row)) x \<longrightarrow>
           res_steps x = pend_log row @ script_note ok detail # xs @ rest)"
      if "wf_steps wfr \<noteq> []" "script_branch ok row \<noteq> []"
      using chain_continues [OF resumed(3) that] by fastforce
    show ?thesis
      using resumed path again none chain_run_settles [OF assms(2) resumed(3)] by auto
  qed
qed

definition parked_row :: pending_row where
  "parked_row = \<lparr>pend_id = ''n'', pend_runId = ''r'', pend_device = sample_device, pend_workflowId = ''wf'',
     pend_slugKey = ''ws'', pend_nextStepId = ''b'', pend_log = [], pend_resumeAt = 9, pend_stepKind = ''script'',
     pend_onFailureStepId = None, pend_token = Some ''k'', pend_claimedAt = None\<rparr>"

definition working_env :: "unit chain_env" where
  "working_env = broken_env\<lparr>prepare := (\<lambda>wfl k d b w. (Inr (sample_engine True), w))\<rparr>"

lemma sample_nonempty: "sample_steps \<noteq> []" and sample_call_name: "log_name (log_entry (sample_steps ! Suc 0) r) = ''Call''"
  by (simp_all add: sample_steps_def log_entry_def)

lemma sample_resume_walk:
  "durable_walk (sample_engine True) now tok sample_steps (Some ''b'') [x] w =
     (ChainDone, [x, log_entry (sample_steps ! 1) (True, ''Call'')], w)"
proof -
  have stop: "durable_loop (sample_engine True) now tok sample_steps (Suc n) ''end'' lg w = (ChainDone, lg, w)" for n lg
    by (subst durable_loop.simps(2)) (simp only: sample_running simp_thms if_True)
  have kind: "step_type (sample_steps ! 1) = ''http_request''" by (simp add: sample_steps_def)
  have loop: "durable_loop (sample_engine True) now tok sample_steps (Suc (Suc n)) ''b'' [x] w =
      (ChainDone, [x, log_entry (sample_steps ! 1) (True, ''Call'')], w)" for n
    by (subst durable_loop.simps(2))
      (simp only: sample_running sample_lookup sample_calls kind sample_next stop simp_thms if_True if_False option.case
        prod.case sum.case gate.case fst_conv append.simps list.inject char.inject; simp)
  show ?thesis using loop [of 47] by (simp add: durable_walk_def GUARD_LIMIT_def eval_nat_numeral)
qed

theorem token_resumes_once_witness:
  "\<exists>db'. resumeWorkflowPendingStepByToken working_env \<lparr>wfTable = [wait_flow\<lparr>wf_steps := sample_steps\<rparr>], automationBearer = (\<lambda>_. Some ''b'')\<rparr> 1
        (Some ''k'') True [] (one_run\<lparr>pendings := [parked_row]\<rparr>) () = (db', ()) \<and>
     pendings db' = [] \<and> map res_status (results db') = [''done''] \<and> map res_finalStatus (results db') = [Some Success] \<and>
     map run_status (runs db') = [''completed''] \<and> map (map log_name \<circ> res_steps) (results db') = [[''Script result'', ''Call'']] \<and>
     resumeWorkflowPendingStepByToken working_env \<lparr>wfTable = [], automationBearer = (\<lambda>_. None)\<rparr> 5 (Some ''k'') False [] db' () = (db', ())"
proof -
  let ?renv = "\<lparr>wfTable = [wait_flow\<lparr>wf_steps := sample_steps\<rparr>], automationBearer = (\<lambda>_. Some ''b'')\<rparr>"
  let ?db = "one_run\<lparr>pendings := [parked_row]\<rparr>"
  define lg where "lg = [script_note True [], log_entry (sample_steps ! 1) (True, ''Call'')]"
  define db' where "db' = finalizeRunIfDone ''r'' 1 (upsertRunResult ''r'' ''d1'' None lg ''done'' (Some Success) one_run)"
  have status: "finalStatus lg = Success" by (simp add: lg_def finalStatus_def script_note_def)
  have chain: "runDeviceStepChain working_env 1 ''r'' (wait_flow\<lparr>wf_steps := sample_steps\<rparr>) sample_device ''ws'' (Some ''b'')
      [script_note True []] one_run () = (\<lparr>cr_deviceId = ''d1'', cr_deviceName = None, cr_steps = lg,
        cr_finalStatus = Some Success, cr_status = ''done''\<rparr>, db', ())"
    by (simp add: runDeviceStepChain_def working_env_def sample_resume_walk sample_nonempty chain_done_def db'_def)
      (use status in \<open>simp add: sample_device_def lg_def\<close>)
  have first: "resumeWorkflowPendingStepByToken working_env ?renv 1 (Some ''k'') True [] ?db () = (db', ())"
    using chain
    by (simp add: resumeWorkflowPendingStepByToken_def take_by_token_def del_where_def parked_row_def find_workflow_def
        wait_flow_def has_automation_def script_note_def note_entry_def Let_def one_run_def)
  have result: "results db' = [\<lparr>res_runId = ''r'', res_deviceId = ''d1'', res_deviceName = None, res_steps = lg,
      res_status = ''done'', res_finalStatus = Some Success\<rparr>]"
    by (simp add: db'_def upsertRunResult_def one_run_def)
  have names: "map log_name lg = [''Script result'', ''Call'']"
    by (simp add: lg_def script_note_def sample_call_name)
  have shape: "pendings db' = []" "map res_status (results db') = [''done'']" "map res_finalStatus (results db') = [Some Success]"
      "map (map log_name \<circ> res_steps) (results db') = [[''Script result'', ''Call'']]"
    by (simp_all add: result names) (simp add: db'_def one_run_def)
  have completed: "map run_status (runs db') = [''completed'']"
    by (simp add: db'_def upsertRunResult_def one_run_def finalizeRunIfDone_def find_run_def done_count_def results_of_def
        upd_where_def)
  have fresh: "\<forall>n. newToken working_env n \<noteq> ''k''" "fresh_ids working_env"
    using broken_env_fresh by (simp_all add: working_env_def broken_env_def fresh_ids_def)
  have row: "List.find (\<lambda>p. pend_token p = Some ''k'') (pendings ?db) = Some parked_row" by (simp add: parked_row_def)
  have k: "''k'' \<noteq> []" by simp
  note again = token_resumes_once [OF fresh k row first, THEN conjunct2, THEN conjunct2, THEN conjunct2, THEN conjunct2]
  show ?thesis
    by (rule exI [of _ db'], intro conjI) (rule first shape completed again)+
qed

text \<open>What an in-memory run has written when it ends: the results of the first devices, each from the run of that
  device; it ends before the last device only when the run of the next one throws.\<close>

definition device_outcome :: "(device_ref \<Rightarrow> 'w engine) \<Rightarrow> wf_step list \<Rightarrow> device_ref \<Rightarrow> device_result \<Rightarrow> bool" where
  "device_outcome e steps d r \<longleftrightarrow>
     (\<exists>u u' lg fin. runForDevice (e d) steps u = (Inr (lg, fin), u') \<and>
        r = \<lparr>dr_deviceId = ref_id d, dr_deviceName = ref_displayName d, dr_steps = lg, dr_finalStatus = Some fin\<rparr>)"

lemma run_memory_devices_results:
  "run_memory_devices e steps ds run w = (r, run', w') \<Longrightarrow>
     \<exists>new. list_all2 (device_outcome e steps) (take (length new) ds) new \<and> length new \<le> length ds \<and>
       ar_results run' = ar_results run @ new \<and> ar_completed run' = ar_completed run + length new \<and>
       (r = Inr () \<longrightarrow> length new = length ds) \<and>
       (\<forall>msg. r = Inl msg \<longrightarrow> length new < length ds \<and> (\<exists>u u'. runForDevice (e (ds ! length new)) steps u = (Inl msg, u'))) \<and>
       ar_id run' = ar_id run \<and> ar_workspace run' = ar_workspace run \<and> ar_total run' = ar_total run"
proof (induction ds arbitrary: run w)
  case (Cons d ds)
  obtain x w1 where one: "runForDevice (e d) steps w = (x, w1)" by fastforce
  show ?case
  proof (cases x)
    case (Inl msg)
    then show ?thesis using Cons.prems one by (intro exI [of _ "[]"]) auto
  next
    case (Inr y)
    obtain lg fin where y: "y = (lg, fin)" by (cases y)
    let ?res = "\<lparr>dr_deviceId = ref_id d, dr_deviceName = ref_displayName d, dr_steps = lg, dr_finalStatus = Some fin\<rparr>"
    let ?run = "run\<lparr>ar_results := ar_results run @ [?res], ar_completed := ar_completed run + 1\<rparr>"
    have outcome: "device_outcome e steps d ?res" using one Inr y by (auto simp: device_outcome_def)
    have "run_memory_devices e steps ds ?run w1 = (r, run', w')"
      using Cons.prems one Inr y by simp
    from Cons.IH [OF this] obtain new where new: "list_all2 (device_outcome e steps) (take (length new) ds) new"
        "length new \<le> length ds" "ar_results run' = ar_results ?run @ new" "ar_completed run' = ar_completed ?run + length new"
        "r = Inr () \<longrightarrow> length new = length ds"
        "\<forall>msg. r = Inl msg \<longrightarrow> length new < length ds \<and> (\<exists>u u'. runForDevice (e (ds ! length new)) steps u = (Inl msg, u'))"
        "ar_id run' = ar_id ?run" "ar_workspace run' = ar_workspace ?run" "ar_total run' = ar_total ?run"
      by blast
    then show ?thesis using outcome by (intro exI [of _ "?res # new"]) simp
  qed
qed auto



end
