(* ===== verification/WorkflowTable.thy ===== *)
theory WorkflowTable
  imports MdmActions DurableRuns Rbac
begin

text \<open>
  The workflow table (\<open>modules/workflows/workflows.service.ts\<close>): the destructive-step test, create, update,
  delete, the capped version history and its restore, the texts of the dry run, and the manual run endpoint
  (\<open>workflows.controller.ts\<close>). Rows keep their insertion order; \<open>newId\<close> is the id the database gives a
  new row and \<open>now\<close> its creation time.
\<close>

section \<open>Destructive steps\<close>

definition destructive_step :: "wf_step \<Rightarrow> bool" where
  "destructive_step s \<longleftrightarrow>
     step_type s = ''mdm_action'' \<and> truthy (own_prop (config s) ''action'') \<and>
     (case find_action (to_string (own_prop (config s) ''action'')) of Some act \<Rightarrow> act_destructive act | None \<Rightarrow> False)"

definition workflowHasDestructiveStep :: "workflow_row option \<Rightarrow> bool" where
  "workflowHasDestructiveStep w = (case w of None \<Rightarrow> False | Some r \<Rightarrow> list_ex destructive_step (wf_steps r))"

section \<open>Tables and payload\<close>

record workflow_payload =
  pl_name :: string
  pl_description :: "string option"
  pl_steps :: "wf_step list"
  pl_targetPlatform :: "string option"
  pl_targetDeploymentModel :: "string option"
  pl_recovery :: recovery_cfg
  pl_allowUnattendedDestructive :: bool

record wf_snapshot =
  sn_name :: string
  sn_description :: string
  sn_steps :: "wf_step list"
  sn_targetPlatform :: "string option"
  sn_targetDeploymentModel :: "string option"
  sn_recovery :: recovery_cfg

record wf_version =
  ver_id :: string
  ver_workflowId :: string
  ver_reason :: string
  ver_createdBy :: string
  ver_createdAt :: int
  ver_snapshot :: wf_snapshot

record wf_db =
  workflows :: "workflow_row list"
  versions :: "wf_version list"
  wf_audit :: "audit_event list"

definition find_wf :: "string \<Rightarrow> string \<Rightarrow> wf_db \<Rightarrow> workflow_row option" where
  "find_wf workspaceSlug workflowId db =
     List.find (\<lambda>w. wf_workspace w = workspaceSlug \<and> wf_id w = workflowId) (workflows db)"

definition listWorkflows :: "string \<Rightarrow> wf_db \<Rightarrow> workflow_row list" where
  "listWorkflows workspaceSlug db = filter (\<lambda>w. wf_workspace w = workspaceSlug) (workflows db)"

section \<open>Create, update, delete\<close>

definition workflow_of_payload :: "string \<Rightarrow> string \<Rightarrow> workflow_payload \<Rightarrow> workflow_row" where
  "workflow_of_payload workspaceSlug newId payload =
     \<lparr>wf_id = newId, wf_workspace = workspaceSlug, wf_name = pl_name payload,
      wf_description = (case pl_description payload of Some d \<Rightarrow> d | None \<Rightarrow> []),
      wf_steps = pl_steps payload, wf_targetPlatform = pl_targetPlatform payload,
      wf_targetDeploymentModel = pl_targetDeploymentModel payload, wf_recovery = pl_recovery payload,
      wf_allowUnattendedDestructive = pl_allowUnattendedDestructive payload\<rparr>"

definition wf_event :: "string \<Rightarrow> string \<Rightarrow> string \<Rightarrow> string \<Rightarrow> string \<Rightarrow> string \<Rightarrow> string option \<Rightarrow> wf_db \<Rightarrow> wf_db" where
  "wf_event workspaceSlug action actor targetId targetName what severity db =
     db\<lparr>wf_audit := recordAuditEvent workspaceSlug
         (audit_about ''workflow'' action actor ''workflow'' targetId targetName
            (''Workflow '' @ quoted targetName @ '' '' @ what) severity) (wf_audit db)\<rparr>"

definition createWorkflow :: "string \<Rightarrow> string \<Rightarrow> workflow_payload \<Rightarrow> string \<Rightarrow> wf_db \<Rightarrow> workflow_row \<times> wf_db" where
  "createWorkflow newId workspaceSlug payload actorEmail db =
     (let created = workflow_of_payload workspaceSlug newId payload
      in (created, wf_event workspaceSlug ''workflow_created'' actorEmail newId (wf_name created) ''created'' None
            (db\<lparr>workflows := workflows db @ [created]\<rparr>)))"

definition WORKFLOW_VERSION_CAP :: nat where
  "WORKFLOW_VERSION_CAP = 50"

definition snapshot_of :: "workflow_row \<Rightarrow> wf_snapshot" where
  "snapshot_of w =
     \<lparr>sn_name = wf_name w, sn_description = wf_description w, sn_steps = wf_steps w,
      sn_targetPlatform = wf_targetPlatform w, sn_targetDeploymentModel = wf_targetDeploymentModel w,
      sn_recovery = wf_recovery w\<rparr>"

definition listWorkflowVersions :: "string \<Rightarrow> wf_db \<Rightarrow> wf_version list" where
  "listWorkflowVersions workflowId db =
     sort_key (\<lambda>v. - ver_createdAt v) (filter (\<lambda>v. ver_workflowId v = workflowId) (versions db))"

definition snapshotWorkflowVersion :: "string \<Rightarrow> int \<Rightarrow> workflow_row \<Rightarrow> string \<Rightarrow> string \<Rightarrow> wf_db \<Rightarrow> wf_db" where
  "snapshotWorkflowVersion newId now w reason actor db =
     (let db1 = db\<lparr>versions := versions db @
              [\<lparr>ver_id = newId, ver_workflowId = wf_id w, ver_reason = reason, ver_createdBy = actor,
                ver_createdAt = now, ver_snapshot = snapshot_of w\<rparr>]\<rparr>;
          existing = listWorkflowVersions (wf_id w) db1;
          dropIds = map ver_id (drop WORKFLOW_VERSION_CAP existing)
      in if WORKFLOW_VERSION_CAP < length existing
         then db1\<lparr>versions := del_where (\<lambda>v. ver_id v \<in> set dropIds) (versions db1)\<rparr>
         else db1)"

definition update_row :: "string \<Rightarrow> (workflow_row \<Rightarrow> workflow_row) \<Rightarrow> wf_db \<Rightarrow> wf_db" where
  "update_row workflowId f db = db\<lparr>workflows := upd_where (\<lambda>w. wf_id w = workflowId) f (workflows db)\<rparr>"

definition payload_update :: "workflow_payload \<Rightarrow> workflow_row \<Rightarrow> workflow_row" where
  "payload_update payload w =
     w\<lparr>wf_name := pl_name payload,
       wf_description := (case pl_description payload of Some d \<Rightarrow> d | None \<Rightarrow> []),
       wf_steps := pl_steps payload, wf_targetPlatform := pl_targetPlatform payload,
       wf_targetDeploymentModel := pl_targetDeploymentModel payload, wf_recovery := pl_recovery payload,
       wf_allowUnattendedDestructive := pl_allowUnattendedDestructive payload\<rparr>"

definition updateWorkflow :: "string \<Rightarrow> int \<Rightarrow> string \<Rightarrow> string \<Rightarrow> workflow_payload \<Rightarrow> string \<Rightarrow> wf_db \<Rightarrow>
    workflow_row result \<times> wf_db" where
  "updateWorkflow newId now workspaceSlug workflowId payload actorEmail db =
     (case find_wf workspaceSlug workflowId db of
        None \<Rightarrow> (throw 404 ''Workflow not found'', db)
      | Some existing \<Rightarrow>
          (let db1 = snapshotWorkflowVersion newId now existing ''update'' actorEmail db;
               updated = payload_update payload existing
           in (Inr updated, wf_event workspaceSlug ''workflow_updated'' actorEmail workflowId (wf_name updated) ''updated'' None
                 (update_row workflowId (payload_update payload) db1))))"

definition deleteWorkflow :: "string \<Rightarrow> string \<Rightarrow> string \<Rightarrow> wf_db \<Rightarrow> wf_db" where
  "deleteWorkflow workspaceSlug workflowId actorEmail db =
     (case find_wf workspaceSlug workflowId db of
        None \<Rightarrow> db
      | Some deleted \<Rightarrow>
          wf_event workspaceSlug ''workflow_deleted'' actorEmail workflowId (wf_name deleted) ''deleted'' (Some ''warning'')
            (db\<lparr>workflows := del_where (\<lambda>w. wf_id w = workflowId) (workflows db),
                versions := del_where (\<lambda>v. ver_workflowId v = workflowId) (versions db)\<rparr>))"

section \<open>Versions\<close>

definition find_version :: "string \<Rightarrow> string \<Rightarrow> wf_db \<Rightarrow> wf_version option" where
  "find_version workflowId versionId db =
     List.find (\<lambda>v. ver_id v = versionId \<and> ver_workflowId v = workflowId) (versions db)"

definition getWorkflowVersion :: "string \<Rightarrow> string \<Rightarrow> wf_db \<Rightarrow> wf_version result" where
  "getWorkflowVersion workflowId versionId db =
     (case find_version workflowId versionId db of None \<Rightarrow> throw 404 ''Version not found'' | Some v \<Rightarrow> Inr v)"

definition snapshot_update :: "wf_snapshot \<Rightarrow> workflow_row \<Rightarrow> workflow_row" where
  "snapshot_update s w =
     w\<lparr>wf_name := sn_name s, wf_description := sn_description s, wf_steps := sn_steps s,
       wf_targetPlatform := sn_targetPlatform s, wf_targetDeploymentModel := sn_targetDeploymentModel s,
       wf_recovery := sn_recovery s\<rparr>"

definition restoreWorkflowVersion :: "string \<Rightarrow> int \<Rightarrow> string \<Rightarrow> string \<Rightarrow> string \<Rightarrow> string \<Rightarrow> wf_db \<Rightarrow>
    workflow_row result \<times> wf_db" where
  "restoreWorkflowVersion newId now workspaceSlug workflowId versionId actorEmail db =
     (case find_wf workspaceSlug workflowId db of
        None \<Rightarrow> (throw 404 ''Workflow not found'', db)
      | Some workflow \<Rightarrow>
          (case find_version workflowId versionId db of
             None \<Rightarrow> (throw 404 ''Version not found'', db)
           | Some v \<Rightarrow>
               (let db1 = snapshotWorkflowVersion newId now workflow ''restore'' actorEmail db;
                    restored = snapshot_update (ver_snapshot v) workflow
                in (Inr restored,
                    wf_event workspaceSlug ''workflow_version_restored'' actorEmail workflowId (wf_name restored)
                      ''restored to a previous version'' None
                      (update_row workflowId (snapshot_update (ver_snapshot v)) db1)))))"

section \<open>The texts of the dry run\<close>

definition dots :: string where
  "dots = [char_of (226 :: nat), char_of (128 :: nat), char_of (166 :: nat)]"

definition describe_value :: "jsval \<Rightarrow> jsval \<Rightarrow> string" where
  "describe_value ctx v = (if truthy v then renderTemplate ctx (to_string v) else to_string v)"

text \<open>\<open>names.join(", ")\<close> prints an absent name as nothing; \<open>policyNames\<close>, when given, is a list.\<close>

definition name_text :: "jsval \<Rightarrow> string" where
  "name_text v = (if nullish v then [] else to_string v)"

definition policy_names :: "jsval \<Rightarrow> string list" where
  "policy_names cfg =
     (case own_prop cfg ''policyNames'' of
        JArr xs \<Rightarrow> map name_text xs
      | _ \<Rightarrow> (case own_prop cfg ''policies'' of
               JArr ps \<Rightarrow> map (\<lambda>p. name_text (own_prop p ''name''))
                            (filter (\<lambda>p. case p of JObj _ \<Rightarrow> True | JArr _ \<Rightarrow> True | _ \<Rightarrow> False) ps)
             | _ \<Rightarrow> []))"

definition describe_mdm :: "jsval \<Rightarrow> jsval \<Rightarrow> string" where
  "describe_mdm ctx cfg =
     (let key = own_prop cfg ''action'';
          known = (case find_action (to_string key) of Some act \<Rightarrow> act_label act | None \<Rightarrow> []);
          summary = (if known \<noteq> [] then known else if truthy key then to_string key else ''Unknown action'');
          entries = (case own_prop cfg ''params'' of
                       JObj fs \<Rightarrow> filter (\<lambda>(k, v). \<not> nullish v \<and> v \<noteq> JStr []) fs
                     | _ \<Rightarrow> [])
      in summary @ (if entries = [] then [] else '' '' @ em_dash @ '' '' @
           joinWith '', '' (map (\<lambda>(k, v). k @ '': '' @ describe_value ctx v) entries)))"

definition describe_notification :: "jsval \<Rightarrow> jsval \<Rightarrow> string" where
  "describe_notification ctx cfg =
     (let message = describe_value ctx (js_or (own_prop cfg ''message'') (JStr []));
          shown = (if length message \<le> 120 then message else take 120 message @ dots)
      in ''Send '' @ to_string (js_or (own_prop cfg ''channel'') (JStr ''webhook'')) @ '' notification'' @
         (if truthy (own_prop cfg ''target'') then '' to '' @ to_string (own_prop cfg ''target'') else []) @
         (if message = [] then [] else '': '' @ quoted shown))"

definition describeStep :: "jsval \<Rightarrow> wf_step \<Rightarrow> string" where
  "describeStep ctx s =
     (let cfg = config s; ty = step_type s; names = policy_names cfg in
      if ty = ''mdm_action'' then describe_mdm ctx cfg
      else if ty = ''http_request'' then
        toUpperCase (to_string (js_or (own_prop cfg ''method'') (JStr ''POST''))) @ '' '' @
        describe_value ctx (js_or (own_prop cfg ''url'') (JStr []))
      else if ty = ''notification'' then describe_notification ctx cfg
      else if ty = ''policy_replace'' then
        (if names = [] then ''Replace active policies'' else ''Replace active policies with: '' @ joinWith '', '' names)
      else if ty = ''policy_add'' then
        (if names = [] then ''Add a policy''
         else ''Add polic'' @ (if length names = 1 then ''y'' else ''ies'') @ '': '' @ joinWith '', '' names)
      else if ty = ''policy_restore'' then
        ''Restore this device'' @ [CHR 0x27] @ ''s previously-quarantined policies''
      else if ty = ''monitor'' then
        (let attr = js_or (own_prop cfg ''attribute'') (js_or (own_prop cfg ''smartAttributeName'') (own_prop cfg ''name''))
         in if truthy attr then ''Monitor for: '' @ to_string attr else ''Monitor device state'')
      else if ty = ''wait'' then
        ''Wait '' @ to_string (own_prop cfg ''amount'') @ '' '' @
        to_string (js_or (own_prop cfg ''unit'') (JStr ''minutes''))
      else if ty = ''run_script_wait'' then
        (let script = js_or (own_prop cfg ''scriptName'') (own_prop cfg ''assetName'')
         in ''Run script'' @ (if truthy script then '': '' @ to_string script else []) @ '' and wait for its result'')
      else ''Unrecognized step type '' @ sq ty)"

definition targetLabel :: "wf_step list \<Rightarrow> string \<Rightarrow> string" where
  "targetLabel steps stepId =
     (if stepId = [] \<or> stepId = ''end'' then ''End''
      else case stepsById steps stepId of
          Some s \<Rightarrow> if step_name s = [] then stepId else step_name s
        | None \<Rightarrow> stepId)"

text \<open>The lines of the preview: per step id, type, name, summary and the labels of its two targets.\<close>

definition preview_line :: "jsval \<Rightarrow> wf_step list \<Rightarrow> step_preview \<Rightarrow> string list" where
  "preview_line ctx steps pv =
     (case stepsById steps (pv_stepId pv) of
        None \<Rightarrow> []
      | Some s \<Rightarrow> [step_id s, step_name s, step_type s, describeStep ctx s, targetLabel steps (pv_onSuccess pv),
                 targetLabel steps (pv_onFailure pv)])"

definition SAMPLE_DRY_RUN_DEVICE :: jsval where
  "SAMPLE_DRY_RUN_DEVICE =
     JObj [(''id'', JStr ''sample-device''), (''displayName'', JStr ''Sample Device''), (''platform'', JStr ''apple''),
       (''platformDeviceId'', JStr ''sample-platform-id''), (''serialNumber'', JStr ''SAMPLESERIAL01''),
       (''osVersion'', JStr ''18.0''), (''manufacturer'', JStr ''Apple''), (''model'', JStr ''iPhone 15''),
       (''udid'', JStr ''SAMPLE-UDID-0000''),
       (''mdmUser'', JObj [(''email'', JStr ''jane.doe@example.com''), (''firstName'', JStr ''Jane''), (''lastName'', JStr ''Doe'')])]"

definition dry_run_preview :: "workflow_row \<Rightarrow> jsval option \<Rightarrow> string list list \<times> string list list option" where
  "dry_run_preview w device =
     (let ctx = JObj [(''device'', case device of Some d \<Rightarrow> d | None \<Rightarrow> SAMPLE_DRY_RUN_DEVICE)]
      in (map (preview_line ctx (wf_steps w)) (dryRunWorkflow (wf_steps w)),
          if rec_enabled (wf_recovery w)
          then Some (map (\<lambda>s. [step_id s, step_name s, step_type s, describeStep ctx s]) (rec_steps (wf_recovery w)))
          else None))"

section \<open>The manual run\<close>

definition NO_DESTRUCTIVE_RUN :: string where
  "NO_DESTRUCTIVE_RUN = ''This workflow contains a destructive MDM action (wipe/unenroll/etc.) '' @ em_dash @
     '' your role isn'' @ [CHR 0x27] @ ''t permitted to run destructive workflows.''"

definition NO_DURABLE_STORAGE :: string where
  "NO_DURABLE_STORAGE = ''This workflow includes a '' @ sq ''wait'' @ '' or '' @ sq ''run script and wait for result'' @
     '' step, which requires durable storage (DATABASE_URL) not configured on this server.''"

definition may_run_destructive :: "resolved_access option \<Rightarrow> bool" where
  "may_run_destructive acc =
     (case acc of None \<Rightarrow> False
      | Some a \<Rightarrow> isSuperAdmin a \<or>
          (case access_role a of None \<Rightarrow> False
           | Some r \<Rightarrow> map_of (riskyActions r) ''canRunDestructiveWorkflow'' = Some True))"

definition run_started_event :: "string \<Rightarrow> workflow_row \<Rightarrow> device_ref list \<Rightarrow> string option \<Rightarrow> audit_input" where
  "run_started_event actor w devices targetDescription =
     audit_about ''workflow'' ''workflow_run_started'' actor ''workflow'' (wf_id w) (wf_name w)
       (''Workflow '' @ quoted (wf_name w) @ '' run manually on '' @ show_nat (length devices) @ '' device'' @
        (if length devices \<noteq> 1 then ''s'' else []) @
        (case targetDescription of None \<Rightarrow> [] | Some t \<Rightarrow> if t = [] then [] else '' ('' @ t @ '')'')) None"

text \<open>\<open>credentials\<close> are the Authorization and workspace headers; the answer carries the job the launch schedules.\<close>

definition run_workflow_endpoint :: "int \<Rightarrow> string \<Rightarrow> (string \<times> string) option \<Rightarrow> string \<Rightarrow> resolved_access option \<Rightarrow>
    string \<Rightarrow> device_ref list \<Rightarrow> string option \<Rightarrow> wf_db \<Rightarrow> run_system \<Rightarrow> (run_view \<times> run_job) result \<times> wf_db \<times> run_system" where
  "run_workflow_endpoint now runId credentials actor access workflowId devices targetDescription db sys =
     (case credentials of
        None \<Rightarrow> (throw 401 ''Missing credentials'', db, sys)
      | Some (authorization, workspaceSlug) \<Rightarrow>
          (case find_wf workspaceSlug workflowId db of
             None \<Rightarrow> (throw 404 ''Workflow not found'', db, sys)
           | Some w \<Rightarrow>
               if devices = [] then (throw 400 ''No target devices provided'', db, sys)
               else if workflowHasDestructiveStep (Some w) \<and> \<not> may_run_destructive access then
                 (throw 403 NO_DESTRUCTIVE_RUN, db, sys)
               else (case launchWorkflowRun now runId w devices workspaceSlug targetDescription sys of
                   (None, _, sys') \<Rightarrow> (throw 400 NO_DURABLE_STORAGE, db, sys')
                 | (Some v, job, sys') \<Rightarrow>
                     (Inr (v, job),
                      db\<lparr>wf_audit := recordAuditEvent workspaceSlug (run_started_event actor w devices targetDescription)
                           (wf_audit db)\<rparr>, sys'))))"

section \<open>Lemmas\<close>

lemma wf_event_frame [simp]:
  "workflows (wf_event ws a ac ti tn wh sev db) = workflows db"
  "versions (wf_event ws a ac ti tn wh sev db) = versions db"
  by (simp_all add: wf_event_def)

lemma update_row_frame [simp]:
  "versions (update_row i f db) = versions db"
  "workflows (update_row i f db) = upd_where (\<lambda>w. wf_id w = i) f (workflows db)"
  by (simp_all add: update_row_def)

lemma snapshot_frame [simp]: "workflows (snapshotWorkflowVersion newId now w reason actor db) = workflows db"
  by (simp add: snapshotWorkflowVersion_def Let_def)

lemma listWorkflowVersions_set: "set (listWorkflowVersions i db) = {v \<in> set (versions db). ver_workflowId v = i}"
  by (simp add: listWorkflowVersions_def)

text \<open>The newest version comes first: a key below all others sorts to the front.\<close>

lemma foldr_insort_least:
  "(\<And>y. y \<in> set ys \<Longrightarrow> f x < (f y :: int)) \<Longrightarrow> foldr (insort_key f) ys (x # zs) = x # foldr (insort_key f) ys zs"
  by (induction ys) (auto simp: not_le [symmetric])

lemma sort_key_snoc_least:
  "(\<And>y. y \<in> set ys \<Longrightarrow> f x < (f y :: int)) \<Longrightarrow> sort_key f (ys @ [x]) = x # sort_key f ys"
  using foldr_insort_least [of ys f x "[]"] by (simp add: sort_key_def)

lemma snapshot_cap:
  "length (listWorkflowVersions (wf_id w) (snapshotWorkflowVersion newId now w reason actor db)) \<le> WORKFLOW_VERSION_CAP"
proof -
  define db1 where "db1 = db\<lparr>versions := versions db @
      [\<lparr>ver_id = newId, ver_workflowId = wf_id w, ver_reason = reason, ver_createdBy = actor,
        ver_createdAt = now, ver_snapshot = snapshot_of w\<rparr>]\<rparr>"
  define existing where "existing = listWorkflowVersions (wf_id w) db1"
  define ids where "ids = set (map ver_id (drop WORKFLOW_VERSION_CAP existing))"
  have snap: "snapshotWorkflowVersion newId now w reason actor db =
      (if WORKFLOW_VERSION_CAP < length existing
       then db1\<lparr>versions := del_where (\<lambda>v. ver_id v \<in> ids) (versions db1)\<rparr> else db1)"
    by (simp add: snapshotWorkflowVersion_def db1_def existing_def ids_def Let_def)
  show ?thesis
  proof (cases "WORKFLOW_VERSION_CAP < length existing")
    case False
    then show ?thesis using snap by (simp add: existing_def)
  next
    case True
    have "listWorkflowVersions (wf_id w) (db1\<lparr>versions := del_where (\<lambda>v. ver_id v \<in> ids) (versions db1)\<rparr>) =
        filter (\<lambda>v. ver_id v \<notin> ids) existing"
      by (simp add: listWorkflowVersions_def existing_def del_where_def filter_sort conj_commute)
    also have "\<dots> = filter (\<lambda>v. ver_id v \<notin> ids) (take WORKFLOW_VERSION_CAP existing) @
        filter (\<lambda>v. ver_id v \<notin> ids) (drop WORKFLOW_VERSION_CAP existing)"
      by (simp only: filter_append [symmetric] append_take_drop_id)
    also have "filter (\<lambda>v. ver_id v \<notin> ids) (drop WORKFLOW_VERSION_CAP existing) = []"
      by (simp add: filter_empty_conv ids_def)
    finally show ?thesis
      using snap True length_filter_le [of _ "take WORKFLOW_VERSION_CAP existing"] by (simp add: le_trans)
  qed
qed

lemma find_append_new: "List.find p xs = None \<Longrightarrow> p x \<Longrightarrow> List.find p (xs @ [x]) = Some x"
  by (simp add: find_append)

lemma snapshot_newest:
  assumes "newId \<notin> ver_id ` set (versions db)"
    and "\<And>v. v \<in> set (versions db) \<Longrightarrow> ver_workflowId v = wf_id w \<Longrightarrow> ver_createdAt v < now"
  shows "find_version (wf_id w) newId (snapshotWorkflowVersion newId now w reason actor db) =
    Some \<lparr>ver_id = newId, ver_workflowId = wf_id w, ver_reason = reason, ver_createdBy = actor,
          ver_createdAt = now, ver_snapshot = snapshot_of w\<rparr>"
proof -
  define new where "new = \<lparr>ver_id = newId, ver_workflowId = wf_id w, ver_reason = reason, ver_createdBy = actor,
      ver_createdAt = now, ver_snapshot = snapshot_of w\<rparr>"
  define olds where "olds = filter (\<lambda>v. ver_workflowId v = wf_id w) (versions db)"
  define existing where "existing = new # sort_key (\<lambda>v. - ver_createdAt v) olds"
  have ex: "listWorkflowVersions (wf_id w) (db\<lparr>versions := versions db @ [new]\<rparr>) = existing"
    using sort_key_snoc_least [of olds "\<lambda>v. - ver_createdAt v" new] assms(2)
    by (auto simp: listWorkflowVersions_def existing_def olds_def new_def)
  have fresh: "v \<in> set (versions db) \<Longrightarrow> ver_id v \<noteq> newId" for v using assms(1) by auto
  have ids: "newId \<notin> ver_id ` set (drop WORKFLOW_VERSION_CAP existing)"
    using assms(1) by (auto simp: existing_def olds_def WORKFLOW_VERSION_CAP_def dest!: in_set_dropD)
  have none: "List.find (\<lambda>v. ver_id v = newId \<and> ver_workflowId v = wf_id w) (filter P (versions db)) = None" for P
    using fresh by (auto simp: find_None_all)
  have none': "List.find (\<lambda>v. ver_id v = newId \<and> ver_workflowId v = wf_id w) (versions db) = None"
    using none [of "\<lambda>_. True"] by simp
  show ?thesis
    unfolding snapshotWorkflowVersion_def Let_def new_def [symmetric]
    using ex ids none none'
    by (auto simp: find_version_def del_where_def find_append new_def image_iff)
qed

lemma find_upd_stable:
  "(\<And>x. q x \<Longrightarrow> p (f x) = p x) \<Longrightarrow> (\<And>x. p x \<Longrightarrow> q x) \<Longrightarrow> List.find p (upd_where q f xs) = map_option f (List.find p xs)"
  by (induction xs) auto

lemma find_wf_update_row:
  assumes "\<And>w. wf_workspace (f w) = wf_workspace w \<and> wf_id (f w) = wf_id w"
  shows "List.find (\<lambda>w. wf_workspace w = ws \<and> wf_id w = i) (upd_where (\<lambda>w. wf_id w = i) f xs) =
    map_option f (List.find (\<lambda>w. wf_workspace w = ws \<and> wf_id w = i) xs)"
  by (rule find_upd_stable) (auto simp: assms)

lemma other_rows_upd: "(\<And>w. wf_id (f w) = wf_id w) \<Longrightarrow>
    filter (\<lambda>w. wf_id w \<noteq> i) (upd_where (\<lambda>w. wf_id w = i) f xs) = filter (\<lambda>w. wf_id w \<noteq> i) xs"
  by (induction xs) auto

lemma row_updates [simp]:
  "wf_id (payload_update p w) = wf_id w" "wf_workspace (payload_update p w) = wf_workspace w"
  "wf_id (snapshot_update s w) = wf_id w" "wf_workspace (snapshot_update s w) = wf_workspace w"
  by (simp_all add: payload_update_def snapshot_update_def)

lemma snapshot_update_of: "wf_id w' = wf_id w \<Longrightarrow> wf_workspace w' = wf_workspace w \<Longrightarrow>
    snapshot_update (snapshot_of w) w' = w\<lparr>wf_allowUnattendedDestructive := wf_allowUnattendedDestructive w'\<rparr>"
  by (simp add: snapshot_update_def snapshot_of_def)

lemma find_wf_Some: "find_wf ws i db = Some w \<Longrightarrow> wf_id w = i \<and> wf_workspace w = ws"
  unfolding find_wf_def by (drule find_Some_in) simp

section \<open>Properties\<close>

text \<open>
  C26: Version round trip. Restoring the version an update saved brings back the workflow as it was,
  except that the unattended-destructive flag stays as the update set it, and leaves every other
  workflow alone; the update's own result is what the restore saved in turn, so the restore can be
  undone the same way.
\<close>
theorem update_restore_roundtrip:
  assumes "find_wf ws i db = Some w" "v1 \<notin> ver_id ` set (versions db)"
    and "\<And>v. v \<in> set (versions db) \<Longrightarrow> ver_workflowId v = i \<Longrightarrow> ver_createdAt v < t1"
    and "updateWorkflow v1 t1 ws i payload actor db = (Inr w1, db1)"
    and "restoreWorkflowVersion v2 t2 ws i v1 actor' db1 = (r, db2)"
  shows "r = Inr (w\<lparr>wf_allowUnattendedDestructive := pl_allowUnattendedDestructive payload\<rparr>) \<and>
    find_wf ws i db2 = Some (w\<lparr>wf_allowUnattendedDestructive := pl_allowUnattendedDestructive payload\<rparr>) \<and>
    filter (\<lambda>x. wf_id x \<noteq> i) (workflows db2) = filter (\<lambda>x. wf_id x \<noteq> i) (workflows db) \<and>
    (v2 \<notin> ver_id ` set (versions db1) \<and> (\<forall>v\<in>set (versions db1). ver_workflowId v = i \<longrightarrow> ver_createdAt v < t2) \<longrightarrow>
       fst (restoreWorkflowVersion v3 t3 ws i v2 actor'' db2) = Inr w1)"
proof -
  note w = find_wf_Some [OF assms(1)]
  let ?new = "\<lparr>ver_id = v1, ver_workflowId = i, ver_reason = ''update'', ver_createdBy = actor,
      ver_createdAt = t1, ver_snapshot = snapshot_of w\<rparr>"
  have w1: "w1 = payload_update payload w"
    and db1: "find_wf ws i db1 = Some w1" "versions db1 = versions (snapshotWorkflowVersion v1 t1 w ''update'' actor db)"
      "workflows db1 = upd_where (\<lambda>x. wf_id x = i) (payload_update payload) (workflows db)"
    using assms(1,4) find_wf_update_row [of "payload_update payload" ws i "workflows db"]
    by (auto simp: updateWorkflow_def Let_def find_wf_def)
  have ver: "find_version i v1 db1 = Some ?new"
    using snapshot_newest [of v1 db w t1 "''update''" actor] assms(2,3) w db1(2) by (simp add: find_version_def)
  let ?w2 = "snapshot_update (snapshot_of w) w1"
  have w2: "?w2 = w\<lparr>wf_allowUnattendedDestructive := pl_allowUnattendedDestructive payload\<rparr>"
    using snapshot_update_of [of w1 w] w1 by (simp add: payload_update_def)
  have db2: "r = Inr ?w2" "find_wf ws i db2 = Some ?w2"
      "workflows db2 = upd_where (\<lambda>x. wf_id x = i) (snapshot_update (snapshot_of w)) (workflows db1)"
      "versions db2 = versions (snapshotWorkflowVersion v2 t2 w1 ''restore'' actor' db1)"
    using assms(5) db1(1) ver find_wf_update_row [of "snapshot_update (snapshot_of w)" ws i "workflows db1"]
    by (auto simp: restoreWorkflowVersion_def Let_def find_wf_def)
  have others: "filter (\<lambda>x. wf_id x \<noteq> i) (workflows db2) = filter (\<lambda>x. wf_id x \<noteq> i) (workflows db)"
    using db2(3) db1(3) by (simp add: other_rows_upd)
  have undo: "fst (restoreWorkflowVersion v3 t3 ws i v2 actor'' db2) = Inr w1"
    if "v2 \<notin> ver_id ` set (versions db1)" "\<forall>v\<in>set (versions db1). ver_workflowId v = i \<longrightarrow> ver_createdAt v < t2"
  proof -
    have "find_version i v2 db2 = Some \<lparr>ver_id = v2, ver_workflowId = i, ver_reason = ''restore'',
        ver_createdBy = actor', ver_createdAt = t2, ver_snapshot = snapshot_of w1\<rparr>"
      using snapshot_newest [of v2 db1 w1 t2 "''restore''" actor'] that db2(4) w w1 by (simp add: find_version_def)
    moreover have "snapshot_update (snapshot_of w1) ?w2 = w1"
      using snapshot_update_of [of ?w2 w1] w1 w2 by (simp add: payload_update_def)
    ultimately show ?thesis using db2(2) by (simp add: restoreWorkflowVersion_def Let_def)
  qed
  show ?thesis using db2(1,2) w2 others undo by simp
qed

definition sample_wf :: "wf_step list \<Rightarrow> workflow_row" where
  "sample_wf steps = \<lparr>wf_id = ''w'', wf_workspace = ''ws'', wf_name = ''n'', wf_description = [], wf_steps = steps,
     wf_targetPlatform = None, wf_targetDeploymentModel = None,
     wf_recovery = \<lparr>rec_enabled = False, rec_policyId = None, rec_steps = []\<rparr>, wf_allowUnattendedDestructive = False\<rparr>"

definition sample_payload :: workflow_payload where
  "sample_payload = \<lparr>pl_name = ''m'', pl_description = None, pl_steps = [], pl_targetPlatform = None,
     pl_targetDeploymentModel = None, pl_recovery = \<lparr>rec_enabled = False, rec_policyId = None, rec_steps = []\<rparr>,
     pl_allowUnattendedDestructive = True\<rparr>"

theorem update_restore_roundtrip_witness:
  "fst (restoreWorkflowVersion ''v2'' 2 ''ws'' ''w'' ''v1'' ''a''
      (snd (updateWorkflow ''v1'' 1 ''ws'' ''w'' sample_payload ''a''
         \<lparr>workflows = [sample_wf []], versions = [], wf_audit = []\<rparr>))) =
    Inr ((sample_wf [])\<lparr>wf_allowUnattendedDestructive := True\<rparr>)"
proof -
  let ?db = "\<lparr>workflows = [sample_wf []], versions = [], wf_audit = []\<rparr>"
  have find: "find_wf ''ws'' ''w'' ?db = Some (sample_wf [])" by (simp add: find_wf_def sample_wf_def)
  obtain w1 db1 where upd: "updateWorkflow ''v1'' 1 ''ws'' ''w'' sample_payload ''a'' ?db = (Inr w1, db1)"
    using find by (simp add: updateWorkflow_def Let_def)
  obtain r db2 where res: "restoreWorkflowVersion ''v2'' 2 ''ws'' ''w'' ''v1'' ''a'' db1 = (r, db2)" by fastforce
  from update_restore_roundtrip [OF find _ _ upd res] upd res show ?thesis by (simp add: sample_payload_def)
qed

text \<open>
  The version history is bounded. After every update and every restore of a workflow its history
  holds at most 50 versions, and a failed call (unknown workflow or version) changes nothing.
\<close>
lemma version_history_bounded:
  "(case updateWorkflow newId now ws i payload actor db of
      (Inr _, db') \<Rightarrow> length (listWorkflowVersions i db') \<le> WORKFLOW_VERSION_CAP
    | (Inl e, db') \<Rightarrow> statusCode e = 404 \<and> db' = db) \<and>
   (case restoreWorkflowVersion newId now ws i versionId actor db of
      (Inr _, db') \<Rightarrow> length (listWorkflowVersions i db') \<le> WORKFLOW_VERSION_CAP
    | (Inl e, db') \<Rightarrow> statusCode e = 404 \<and> db' = db)"
proof -
  have same: "length (listWorkflowVersions i db') \<le> WORKFLOW_VERSION_CAP"
    if "find_wf ws i db = Some w" "versions db' = versions (snapshotWorkflowVersion newId now w reason actor db)" for w reason db'
    using snapshot_cap [of w newId now reason actor db] that find_wf_Some [OF that(1)]
    by (simp add: listWorkflowVersions_def)
  show ?thesis
    using same by (auto simp: updateWorkflow_def restoreWorkflowVersion_def throw_def Let_def split: option.splits)
qed

text \<open>
  The manual run is gated. A run starts only with credentials, for an existing workflow of the
  workspace and at least one device; a workflow with a destructive step moreover needs a super admin
  or a role with the destructive permission. A refused run leaves the tables and the runs unchanged,
  with the status of the first check that fails, and an accepted run is launched and audited.
\<close>
lemma manual_run_gated:
  "run_workflow_endpoint now runId credentials actor access i devices target db sys =
     (case credentials of
        None \<Rightarrow> (throw 401 ''Missing credentials'', db, sys)
      | Some (a, ws) \<Rightarrow>
          (case find_wf ws i db of
             None \<Rightarrow> (throw 404 ''Workflow not found'', db, sys)
           | Some w \<Rightarrow>
               if devices = [] then (throw 400 ''No target devices provided'', db, sys)
               else if (\<exists>s\<in>set (wf_steps w). destructive_step s) \<and> \<not> may_run_destructive access
               then (throw 403 NO_DESTRUCTIVE_RUN, db, sys)
               else (case launchWorkflowRun now runId w devices ws target sys of
                   (v, job, sys') \<Rightarrow>
                     (Inr (the v, job),
                      db\<lparr>wf_audit := recordAuditEvent ws (run_started_event actor w devices target) (wf_audit db)\<rparr>, sys'))))"
proof -
  have "launchWorkflowRun now runId w devices ws target sys \<noteq> (None, job, sys')" for w ws job sys'
    by (auto simp: launchWorkflowRun_def Let_def runView_def find_run_def find_append split: option.splits)
  then show ?thesis
    by (auto simp: run_workflow_endpoint_def workflowHasDestructiveStep_def list_ex_iff split: option.splits prod.splits)
qed

text \<open>
  What the destructive test does not see. A one-step workflow whose \<open>customOmaUri\<close> step executes the
  remote-wipe node is not reported destructive, and executing that step on a Windows device sends a
  call that erases it.
\<close>
lemma customOmaUri_wipe_not_flagged:
  "let p = JObj [(''path'', JStr ''./Vendor/MSFT/RemoteWipe/doWipe''), (''action'', JStr ''Exec''),
             (''value'', JStr ''1''), (''format'', JStr ''chr'')];
       s = \<lparr>step_id = ''a'', step_type = ''mdm_action'', step_name = ''a'',
             config = JObj [(''action'', JStr ''customOmaUri''), (''params'', p)], onSuccess = None, onFailure = None\<rparr>
   in \<not> workflowHasDestructiveStep (Some (sample_wf [s])) \<and>
      list_ex erases (sent (snd (executeMdmAction sample_mdm ''ws'' windows_pc ''customOmaUri'' None p None no_calls)))"
  by code_simp

end
