(* ===== verification/Geofence.thy ===== *)
theory Geofence
  imports Prelude Complex_Main
begin

text \<open>
  Geofence zones (\<open>modules/geofencing/geofence.service.ts\<close>): the haversine distance, the ray-casting
  point-in-polygon loop, the zone test, and the zone table. Coordinates are reals. The polygon loop is modelled for
  any rounding \<open>rnd\<close> of the result of an operation: with rounding to the nearest double it is the program's own
  arithmetic on finite values, with \<open>id\<close> the exact one, which the zone test of the conditions uses.
\<close>

record point =
  lat :: real
  lng :: real

record geometry =
  center :: "point option"
  radiusMeters :: "real option"
  points :: "point list option"

record zone =
  zone_id :: string
  zone_workspace :: string
  zone_name :: string
  zone_description :: "string option"
  shape :: string
  zone_geometry :: geometry
  zone_color :: "string option"
  zone_createdBy :: string

definition EARTH_RADIUS_METERS :: real where
  "EARTH_RADIUS_METERS = 6371000"

definition toRad :: "real \<Rightarrow> real" where
  "toRad deg = deg * pi / 180"

definition haversine_h :: "point \<Rightarrow> point \<Rightarrow> real" where
  "haversine_h a b =
     (let dLat = toRad (lat b - lat a);
          dLng = toRad (lng b - lng a);
          lat1 = toRad (lat a);
          lat2 = toRad (lat b)
      in sin (dLat / 2) ^ 2 + cos lat1 * cos lat2 * sin (dLng / 2) ^ 2)"

definition haversineDistanceMeters :: "point \<Rightarrow> point \<Rightarrow> real" where
  "haversineDistanceMeters a b = 2 * EARTH_RADIUS_METERS * arcsin (min 1 (sqrt (haversine_h a b)))"

definition intersects :: "(real \<Rightarrow> real) \<Rightarrow> point \<Rightarrow> point \<Rightarrow> point \<Rightarrow> bool" where
  "intersects rnd p ri rj =
     (let xi = lng ri; yi = lat ri; xj = lng rj; yj = lat rj
      in ((lat p < yi) \<noteq> (lat p < yj)) \<and>
         lng p < rnd (rnd (rnd (rnd (xj - xi) * rnd (lat p - yi)) / rnd (yj - yi)) + xi))"

text \<open>The loop over the ring; the second argument is the vertex at index \<open>j\<close>, the one before \<open>i\<close>.\<close>

fun ray_cast :: "(real \<Rightarrow> real) \<Rightarrow> point \<Rightarrow> point \<Rightarrow> point list \<Rightarrow> bool \<Rightarrow> bool" where
  "ray_cast rnd p rj [] inside = inside"
| "ray_cast rnd p rj (ri # rs) inside =
     ray_cast rnd p ri rs (if intersects rnd p ri rj then \<not> inside else inside)"

definition pointInPolygon :: "(real \<Rightarrow> real) \<Rightarrow> point \<Rightarrow> point list \<Rightarrow> bool" where
  "pointInPolygon rnd p ring = (if ring = [] then False else ray_cast rnd p (last ring) ring False)"

definition isPointInZone :: "point \<Rightarrow> zone \<Rightarrow> bool" where
  "isPointInZone p z =
     (if shape z = ''circle'' then
        (case (center (zone_geometry z), radiusMeters (zone_geometry z)) of
           (Some c, Some r) \<Rightarrow> haversineDistanceMeters p c \<le> r
         | _ \<Rightarrow> False)
      else if shape z = ''polygon'' then
        (case points (zone_geometry z) of
           Some ring \<Rightarrow> if length ring < 3 then False else pointInPolygon id p ring
         | None \<Rightarrow> False)
      else False)"

section \<open>The zone table\<close>

definition listGeofenceZones :: "string \<Rightarrow> zone list \<Rightarrow> zone list" where
  "listGeofenceZones workspaceSlug zs = filter (\<lambda>z. zone_workspace z = workspaceSlug) zs"

definition loadGeofenceZonesById :: "string \<Rightarrow> zone list \<Rightarrow> (string \<times> zone) list" where
  "loadGeofenceZonesById workspaceSlug zs =
     map (\<lambda>z. (zone_id z, z)) (listGeofenceZones workspaceSlug zs)"

definition createGeofenceZone :: "string \<Rightarrow> zone \<Rightarrow> string \<Rightarrow> string \<Rightarrow> zone list \<Rightarrow> zone list" where
  "createGeofenceZone workspaceSlug payload createdBy newId zs =
     zs @ [payload\<lparr>zone_id := newId, zone_workspace := workspaceSlug, zone_createdBy := createdBy\<rparr>]"

definition updateGeofenceZone :: "string \<Rightarrow> string \<Rightarrow> zone \<Rightarrow> zone list \<Rightarrow> zone list result" where
  "updateGeofenceZone workspaceSlug zoneId payload zs =
     (case List.find (\<lambda>z. zone_id z = zoneId \<and> zone_workspace z = workspaceSlug) zs of
        None \<Rightarrow> throw 404 ''Geofence zone not found''
      | Some _ \<Rightarrow> Inr (upd_where (\<lambda>z. zone_id z = zoneId)
           (\<lambda>z. z\<lparr>zone_name := zone_name payload, zone_description := zone_description payload,
                  shape := shape payload, zone_geometry := zone_geometry payload,
                  zone_color := zone_color payload\<rparr>) zs))"

definition deleteGeofenceZone :: "string \<Rightarrow> string \<Rightarrow> zone list \<Rightarrow> zone list result" where
  "deleteGeofenceZone workspaceSlug zoneId zs =
     (case List.find (\<lambda>z. zone_id z = zoneId \<and> zone_workspace z = workspaceSlug) zs of
        None \<Rightarrow> throw 404 ''Geofence zone not found''
      | Some _ \<Rightarrow> Inr (del_where (\<lambda>z. zone_id z = zoneId) zs))"

section \<open>Lemmas\<close>

lemma haversine_h_sym: "haversine_h a b = haversine_h b a"
proof -
  have "toRad (lat a - lat b) / 2 = - (toRad (lat b - lat a) / 2)"
    and "toRad (lng a - lng b) / 2 = - (toRad (lng b - lng a) / 2)"
    by (simp_all add: toRad_def field_simps)
  then have "sin (toRad (lat a - lat b) / 2) ^ 2 = sin (toRad (lat b - lat a) / 2) ^ 2"
    and "sin (toRad (lng a - lng b) / 2) ^ 2 = sin (toRad (lng b - lng a) / 2) ^ 2"
    by (simp_all only: sin_minus power2_minus)
  then show ?thesis by (simp add: haversine_h_def Let_def mult.commute)
qed

lemma cos_lat_nonneg: "\<bar>l\<bar> \<le> 90 \<Longrightarrow> 0 \<le> cos (toRad l)"
proof -
  assume l: "\<bar>l\<bar> \<le> 90"
  have "l * pi \<le> 90 * pi"
    using l by (intro mult_right_mono) auto
  moreover have "- 90 * pi \<le> l * pi"
    using l pi_ge_zero by (intro mult_right_mono) linarith+
  ultimately have "l * pi \<le> 90 * pi" "- 90 * pi \<le> l * pi" by blast+
  then have "- (pi / 2) \<le> toRad l" "toRad l \<le> pi / 2"
    by (simp_all add: toRad_def)
  then show ?thesis by (rule cos_ge_zero)
qed

lemma haversine_h_nonneg:
  assumes "\<bar>lat a\<bar> \<le> 90" "\<bar>lat b\<bar> \<le> 90"
  shows "0 \<le> haversine_h a b"
  using cos_lat_nonneg [OF assms(1)] cos_lat_nonneg [OF assms(2)]
  by (simp add: haversine_h_def Let_def)

lemma haversine_arg_bounds:
  assumes "0 \<le> haversine_h a b"
  shows "0 \<le> arcsin (min 1 (sqrt (haversine_h a b)))" "arcsin (min 1 (sqrt (haversine_h a b))) \<le> pi / 2"
proof -
  let ?x = "min 1 (sqrt (haversine_h a b))"
  have x: "0 \<le> ?x" "?x \<le> 1" using assms by auto
  have "- 1 \<le> ?x" using x(1) by linarith
  from arcsin_bounded [OF this x(2)] show "arcsin ?x \<le> pi / 2" by blast
  have "arcsin 0 \<le> arcsin ?x" using x by (intro arcsin_le_arcsin) auto
  then show "0 \<le> arcsin ?x" by simp
qed

text \<open>
  The even-odd rule, without the loop: an edge spans the point when its ends lie on different sides of the point's
  latitude, and \<open>crossing\<close> is the longitude at which it meets that latitude.
\<close>

definition prev_vertex :: "point list \<Rightarrow> nat \<Rightarrow> point" where
  "prev_vertex ring i = ring ! ((i + length ring - 1) mod length ring)"

definition spans :: "point \<Rightarrow> point list \<Rightarrow> nat \<Rightarrow> bool" where
  "spans p ring i \<longleftrightarrow> (lat p < lat (ring ! i)) \<noteq> (lat p < lat (prev_vertex ring i))"

definition crossing :: "(real \<Rightarrow> real) \<Rightarrow> point \<Rightarrow> point list \<Rightarrow> nat \<Rightarrow> real" where
  "crossing rnd p ring i =
     (let v = ring ! i; u = prev_vertex ring i
      in rnd (rnd (rnd (rnd (lng u - lng v) * rnd (lat p - lat v)) / rnd (lat u - lat v)) + lng v))"

definition crossed_edges :: "(real \<Rightarrow> real) \<Rightarrow> point \<Rightarrow> point list \<Rightarrow> nat set" where
  "crossed_edges rnd p ring = {i. i < length ring \<and> spans p ring i \<and> lng p < crossing rnd p ring i}"

text \<open>The edges as the loop meets them: each vertex with the one before it.\<close>

definition ring_edges :: "point list \<Rightarrow> (point \<times> point) list" where
  "ring_edges ring = zip ring (last ring # butlast ring)"

definition hits :: "(point \<times> point \<Rightarrow> bool) \<Rightarrow> (point \<times> point) list \<Rightarrow> nat" where
  "hits q es = length (filter q es)"

lemma hits_simps [simp]:
  "hits q [] = 0" "hits q (e # es) = (if q e then 1 else 0) + hits q es" "hits q (xs @ ys) = hits q xs + hits q ys"
  by (simp_all add: hits_def)

lemma ray_cast_parity:
  "ray_cast rnd p rj rs b \<longleftrightarrow> (b \<noteq> odd (hits (\<lambda>(ri, rj). intersects rnd p ri rj) (zip rs (rj # butlast rs))))"
proof (induction rs arbitrary: rj b)
  case (Cons r rs)
  have "zip (r # rs) (rj # butlast (r # rs)) = (r, rj) # zip rs (r # butlast rs)"
    by (cases rs) auto
  then show ?case using Cons by auto
qed simp

lemma pointInPolygon_parity:
  "pointInPolygon rnd p ring \<longleftrightarrow> odd (hits (\<lambda>(ri, rj). intersects rnd p ri rj) (ring_edges ring))"
  by (auto simp: pointInPolygon_def ray_cast_parity ring_edges_def)

lemma ring_edges_nth:
  assumes "i < length ring"
  shows "ring_edges ring ! i = (ring ! i, prev_vertex ring i)"
proof (cases i)
  case 0
  then show ?thesis using assms by (simp add: ring_edges_def prev_vertex_def last_conv_nth hd_conv_nth)
next
  case (Suc k)
  then have "(i + length ring - 1) mod length ring = k" using assms by simp
  then show ?thesis using assms Suc by (simp add: ring_edges_def prev_vertex_def nth_butlast)
qed

lemma ring_edges_length [simp]: "length (ring_edges ring) = length ring"
  by (cases ring) (simp_all add: ring_edges_def)

lemma hits_card: "hits q (ring_edges ring) = card {i. i < length ring \<and> q (ring ! i, prev_vertex ring i)}"
proof -
  have "hits q (ring_edges ring) = card {i. i < length ring \<and> q (ring_edges ring ! i)}"
    by (simp add: hits_def length_filter_conv_card)
  also have "{i. i < length ring \<and> q (ring_edges ring ! i)} = {i. i < length ring \<and> q (ring ! i, prev_vertex ring i)}"
    by (auto simp: ring_edges_nth)
  finally show ?thesis .
qed

lemma pointInPolygon_crossed: "pointInPolygon rnd p ring \<longleftrightarrow> odd (card (crossed_edges rnd p ring))"
  by (simp add: pointInPolygon_parity hits_card crossed_edges_def intersects_def spans_def crossing_def Let_def)

text \<open>The open chain of a list of vertices; the ring is the chain closed by its last edge.\<close>

definition chain_edges :: "point list \<Rightarrow> (point \<times> point) list" where
  "chain_edges vs = zip (tl vs) vs"

lemma zip_butlast_Cons: "zip rs (butlast (r # rs)) = zip rs (r # rs)"
  by (induction rs arbitrary: r) auto

lemma ring_edges_chain: "ring \<noteq> [] \<Longrightarrow> ring_edges ring = (hd ring, last ring) # chain_edges ring"
proof (cases ring)
  case (Cons r rs)
  then show ?thesis by (simp add: ring_edges_def chain_edges_def zip_butlast_Cons del: butlast.simps)
qed simp

lemma chain_edges_snoc: "xs \<noteq> [] \<Longrightarrow> chain_edges (xs @ [y]) = chain_edges xs @ [(y, last xs)]"
proof (induction xs)
  case (Cons x xs)
  then show ?case by (cases xs) (auto simp: chain_edges_def)
qed simp

lemma hits_rotate1: "hits q (ring_edges (rotate1 ring)) = hits q (ring_edges ring)"
proof (cases ring)
  case (Cons r rs)
  show ?thesis
  proof (cases "rs = []")
    case True
    then show ?thesis using Cons by simp
  next
    case False
    then have "chain_edges (r # rs) = (hd rs, r) # chain_edges rs"
      by (cases rs) (simp_all add: chain_edges_def)
    then show ?thesis
      using Cons False by (simp add: ring_edges_chain chain_edges_snoc)
  qed
qed (simp add: ring_edges_def)

text \<open>Around a ring a side changes an even number of times.\<close>

lemma chain_changes: "vs \<noteq> [] \<Longrightarrow> odd (hits (\<lambda>(v, u). f v \<noteq> f u) (chain_edges vs)) \<longleftrightarrow> (f (hd vs) \<noteq> (f (last vs) :: bool))"
proof (induction vs)
  case (Cons v vs)
  show ?case
  proof (cases vs)
    case Nil
    then show ?thesis by (simp add: chain_edges_def)
  next
    case (Cons u us)
    then have "chain_edges (v # vs) = (u, v) # chain_edges vs" by (simp add: chain_edges_def)
    then show ?thesis using Cons.IH Cons by auto
  qed
qed simp

lemma ring_changes_even: "even (hits (\<lambda>(v, u). f v \<noteq> (f u :: bool)) (ring_edges ring))"
proof (cases "ring = []")
  case False
  then show ?thesis using chain_changes [OF False, of f] by (auto simp: ring_edges_chain)
qed (simp add: ring_edges_def)

lemma spans_even: "even (card {i. i < length ring \<and> spans p ring i})"
  using ring_changes_even [of "\<lambda>v. lat p < lat v" ring] by (simp add: hits_card spans_def)

lemma rotate1_inside: "pointInPolygon rnd p (rotate1 ring) = pointInPolygon rnd p ring"
  by (simp add: pointInPolygon_parity hits_rotate1)

lemma prev_vertex_in: "i < length ring \<Longrightarrow> prev_vertex ring i \<in> set ring"
  unfolding prev_vertex_def by (intro nth_mem) (auto intro: mod_less_divisor)

section \<open>Properties\<close>

text \<open>
  C33: The polygon test is the even-odd rule, however the arithmetic rounds: a point is inside exactly when an odd
  number of edges - each vertex with the one before it, the first with the last - span its latitude and meet it east
  of the point. So the vertex the ring starts at does not matter, and a point is outside when it is beyond the ring's
  range of latitudes, or west of every place where the ring meets its latitude, or not west of any.
\<close>
theorem polygon_even_odd:
  "(pointInPolygon rnd p ring \<longleftrightarrow> odd (card (crossed_edges rnd p ring))) \<and>
   pointInPolygon rnd p (rotate1 ring) = pointInPolygon rnd p ring \<and>
   ((\<forall>v\<in>set ring. lat p < lat v) \<or> (\<forall>v\<in>set ring. lat v \<le> lat p) \<longrightarrow> \<not> pointInPolygon rnd p ring) \<and>
   ((\<forall>i<length ring. spans p ring i \<longrightarrow> lng p < crossing rnd p ring i) \<or>
    (\<forall>i<length ring. spans p ring i \<longrightarrow> crossing rnd p ring i \<le> lng p) \<longrightarrow> \<not> pointInPolygon rnd p ring)"
proof -
  have "crossed_edges rnd p ring = {}" if "(\<forall>v\<in>set ring. lat p < lat v) \<or> (\<forall>v\<in>set ring. lat v \<le> lat p)"
    using that by (fastforce simp: crossed_edges_def spans_def dest: prev_vertex_in nth_mem)
  moreover have "crossed_edges rnd p ring = {i. i < length ring \<and> spans p ring i}"
    if "\<forall>i<length ring. spans p ring i \<longrightarrow> lng p < crossing rnd p ring i"
    using that by (auto simp: crossed_edges_def)
  moreover have "crossed_edges rnd p ring = {}" if "\<forall>i<length ring. spans p ring i \<longrightarrow> crossing rnd p ring i \<le> lng p"
    using that by (auto simp: crossed_edges_def)
  ultimately show ?thesis
    using spans_even [of ring p] rotate1_inside [of rnd p ring] unfolding pointInPolygon_crossed by auto
qed

theorem polygon_even_odd_witness:
  "\<not> pointInPolygon id \<lparr>lat = 9, lng = 1\<rparr> [\<lparr>lat = 0, lng = 0\<rparr>, \<lparr>lat = 0, lng = 4\<rparr>, \<lparr>lat = 4, lng = 0\<rparr>] \<and>
   pointInPolygon id \<lparr>lat = 1, lng = 1\<rparr> [\<lparr>lat = 0, lng = 0\<rparr>, \<lparr>lat = 0, lng = 4\<rparr>, \<lparr>lat = 4, lng = 0\<rparr>]"
proof
  show "\<not> pointInPolygon id \<lparr>lat = 9, lng = 1\<rparr> [\<lparr>lat = 0, lng = 0\<rparr>, \<lparr>lat = 0, lng = 4\<rparr>, \<lparr>lat = 4, lng = 0\<rparr>]"
    by (rule polygon_even_odd [THEN conjunct2, THEN conjunct2, THEN conjunct1, THEN mp]) simp
  show "pointInPolygon id \<lparr>lat = 1, lng = 1\<rparr> [\<lparr>lat = 0, lng = 0\<rparr>, \<lparr>lat = 0, lng = 4\<rparr>, \<lparr>lat = 4, lng = 0\<rparr>]"
    by (simp add: pointInPolygon_def intersects_def)
qed

text \<open>
  The distance is symmetric, zero at the point itself, and for valid latitudes never negative nor more
  than half the circumference of the Earth; so a circle zone holds its centre whenever its radius is
  not negative.
\<close>
lemma haversine_metric:
  "haversineDistanceMeters a b = haversineDistanceMeters b a \<and> haversineDistanceMeters a a = 0 \<and>
   (\<bar>lat a\<bar> \<le> 90 \<and> \<bar>lat b\<bar> \<le> 90 \<longrightarrow>
      0 \<le> haversineDistanceMeters a b \<and> haversineDistanceMeters a b \<le> pi * EARTH_RADIUS_METERS) \<and>
   (0 \<le> r \<longrightarrow> isPointInZone a
      \<lparr>zone_id = i, zone_workspace = ws, zone_name = n, zone_description = None, shape = ''circle'',
       zone_geometry = \<lparr>center = Some a, radiusMeters = Some r, points = None\<rparr>,
       zone_color = None, zone_createdBy = u\<rparr>)"
proof -
  have sym: "haversineDistanceMeters a b = haversineDistanceMeters b a"
    by (simp add: haversineDistanceMeters_def haversine_h_sym [of a])
  have zero: "haversineDistanceMeters a a = 0"
    by (simp add: haversineDistanceMeters_def haversine_h_def toRad_def)
  have "0 \<le> haversineDistanceMeters a b \<and> haversineDistanceMeters a b \<le> pi * EARTH_RADIUS_METERS"
    if "\<bar>lat a\<bar> \<le> 90" "\<bar>lat b\<bar> \<le> 90"
    using haversine_arg_bounds [OF haversine_h_nonneg [OF that]]
    unfolding haversineDistanceMeters_def EARTH_RADIUS_METERS_def by simp
  then show ?thesis
    using zero sym by (simp add: isPointInZone_def)
qed

theorem haversine_metric_witness:
  "isPointInZone \<lparr>lat = 40, lng = 3\<rparr>
     \<lparr>zone_id = ''z'', zone_workspace = ''w'', zone_name = [], zone_description = None, shape = ''circle'',
      zone_geometry = \<lparr>center = Some \<lparr>lat = 40, lng = 3\<rparr>, radiusMeters = Some 10, points = None\<rparr>,
      zone_color = None, zone_createdBy = []\<rparr>"
  using haversine_metric [of "\<lparr>lat = 40, lng = 3\<rparr>" "\<lparr>lat = 0, lng = 0\<rparr>" 10 "''z''" "''w''" "[]" "[]"] by simp

end
