(* ===== verification/ComplianceEval.thy ===== *)
theory ComplianceEval
  imports JsValue Geofence
begin

text \<open>
  The condition engine of Compliance Policies (\<open>modules/compliance/complianceEvaluate.ts\<close>). A device is
  the JSON object the code receives, so every \<open>?.\<close>, \<open>??\<close> and coercion of the source acts on it as in
  the source; \<open>None\<close> is an exception inside the \<open>try\<close>, which \<open>evaluateCondition\<close> turns into false.
  One definition per group of fields, in the code's order; \<open>evaluate_raw\<close> is the dispatch.
\<close>

record eval_condition =
  field :: string
  operator :: string
  cond_value :: jsval

record catalog_entry =
  app_identifier :: string
  entry_name :: "string option"

record app_lists_context =
  catalogById :: "(string \<times> catalog_entry) list"
  listById :: "(string \<times> string list) list"

record device_location =
  loc_point :: point
  fetchedAt :: int

record geo_context =
  zonesById :: "(string \<times> zone) list"
  locationsByDeviceId :: "(string \<times> device_location) list"

text \<open>What a pass pre-loads: the clock, the App Lists and the geofencing context.\<close>

record eval_env =
  env_now :: int
  appLists :: "app_lists_context option"
  geo :: "geo_context option"

section \<open>Versions\<close>

definition version_sep :: "char \<Rightarrow> bool" where
  "version_sep c = (c = CHR ''.'' \<or> c = CHR ''-'' \<or> c = CHR ''_'')"

definition versionTuple :: "jsval \<Rightarrow> int list" where
  "versionTuple v =
     map (\<lambda>p. case parseInt10 p of Some n \<Rightarrow> n | None \<Rightarrow> 0)
       (split_on version_sep (to_string (coalesce v (JStr ''0''))))"

fun compareVersionTuples :: "int list \<Rightarrow> int list \<Rightarrow> int" where
  "compareVersionTuples [] [] = 0"
| "compareVersionTuples (a # as) [] =
     (if a \<noteq> 0 then (if a < 0 then - 1 else 1) else compareVersionTuples as [])"
| "compareVersionTuples [] (b # bs) =
     (if 0 \<noteq> b then (if 0 < b then - 1 else 1) else compareVersionTuples [] bs)"
| "compareVersionTuples (a # as) (b # bs) =
     (if a \<noteq> b then (if a < b then - 1 else 1) else compareVersionTuples as bs)"

text \<open>The match of \<open>/^([\d]+(?:\.[\d]+)*)/\<close>.\<close>

fun dotted_groups :: "nat \<Rightarrow> string \<Rightarrow> string" where
  "dotted_groups 0 s = []"
| "dotted_groups (Suc n) s =
     (case s of
        CHR ''.'' # cs \<Rightarrow>
          (let ds = takeWhile is_digit cs
           in if ds = [] then [] else ''.'' @ ds @ dotted_groups n (dropWhile is_digit cs))
      | _ \<Rightarrow> [])"

definition dotted_prefix :: "string \<Rightarrow> string option" where
  "dotted_prefix s =
     (let ds = takeWhile is_digit s
      in if ds = [] then None else Some (ds @ dotted_groups (length s) (dropWhile is_digit s)))"

definition patchLevelTuple :: "jsval \<Rightarrow> jsval \<Rightarrow> int list" where
  "patchLevelTuple platform raw =
     (let s = js_trim (to_string (coalesce raw (JStr [])))
      in if platform = JStr ''apple'' \<or> platform = JStr ''macos''
         then versionTuple (JStr (case dotted_prefix s of Some m \<Rightarrow> m | None \<Rightarrow> s))
         else versionTuple (JStr s))"

section \<open>Paths, scalars, dates\<close>

fun walk_path :: "jsval \<Rightarrow> string list \<Rightarrow> jsval" where
  "walk_path cur [] = coalesce cur JNull"
| "walk_path cur (p # ps) =
     (case cur of JObj _ \<Rightarrow> walk_path (own_prop cur p) ps | _ \<Rightarrow> JNull)"

definition getByPath :: "jsval \<Rightarrow> jsval \<Rightarrow> jsval option" where
  "getByPath obj path =
     (case coalesce path (JStr []) of
        JStr s \<Rightarrow> Some (walk_path obj (split_on (\<lambda>c. c = CHR ''.'') s))
      | _ \<Rightarrow> None)"

definition text_of :: "jsval \<Rightarrow> string" where
  "text_of v = to_string (coalesce v (JStr []))"

definition compareScalar :: "jsval \<Rightarrow> string \<Rightarrow> jsval \<Rightarrow> bool" where
  "compareScalar actual op target =
     (if op = ''exists'' then \<not> nullish actual \<and> actual \<noteq> JStr []
      else if op = ''missing'' then nullish actual \<or> actual = JStr []
      else if op = ''contains'' then str_includes (toLowerCase (text_of target)) (toLowerCase (text_of actual))
      else if op = ''greaterThan'' \<or> op = ''lessThan'' then
        (let actualNum = to_number actual; targetNum = to_number target
         in if actualNum = NaN \<or> targetNum = NaN then False
            else if op = ''greaterThan'' then num_less targetNum actualNum else num_less actualNum targetNum)
      else if op = ''notEquals'' then text_of actual \<noteq> text_of target
      else text_of actual = text_of target)"

definition daysSince :: "int \<Rightarrow> jsval \<Rightarrow> rat option" where
  "daysSince now stamp =
     (if \<not> truthy stamp then None
      else map_option (\<lambda>t. rat_of_int (now - t) / 86400000) (date_parse (replace_Z (to_string stamp))))"

definition number_target :: "jsval \<Rightarrow> jsnum" where
  "number_target v = to_number (coalesce v (jint 0))"

text \<open>\<open>operator === "greaterThan" ? x > t : x < t\<close> and \<open>operator === "lessThan" ? x < t : x > t\<close>.\<close>

definition greater_or_less :: "string \<Rightarrow> jsnum \<Rightarrow> jsnum \<Rightarrow> bool" where
  "greater_or_less op x t = (if op = ''greaterThan'' then num_less t x else num_less x t)"

definition less_or_greater :: "string \<Rightarrow> jsnum \<Rightarrow> jsnum \<Rightarrow> bool" where
  "less_or_greater op x t = (if op = ''lessThan'' then num_less x t else num_less t x)"

definition count_check :: "string \<Rightarrow> jsval \<Rightarrow> jsval \<Rightarrow> bool" where
  "count_check op actual v =
     (if nullish actual then False else less_or_greater op (to_number actual) (number_target v))"

text \<open>\<open>(xs ?? []).some(x => x.p)\<close>: throws when \<open>xs\<close> is no array or an element before the hit is null.\<close>

fun js_some_prop :: "string \<Rightarrow> jsval list \<Rightarrow> bool option" where
  "js_some_prop p [] = Some False"
| "js_some_prop p (x # xs) =
     do { v \<leftarrow> jget x p; (if truthy v then Some True else js_some_prop p xs) }"

definition array_of :: "jsval \<Rightarrow> jsval list option" where
  "array_of v = (case coalesce v (JArr []) of JArr xs \<Rightarrow> Some xs | _ \<Rightarrow> None)"

definition some_prop :: "jsval \<Rightarrow> string \<Rightarrow> bool option" where
  "some_prop v p = do { xs \<leftarrow> array_of v; js_some_prop p xs }"

section \<open>Location conditions\<close>

definition device_location_of :: "eval_env \<Rightarrow> jsval \<Rightarrow> device_location option" where
  "device_location_of env device =
     (case (geo env, own_prop device ''id'') of
        (Some g, JStr did) \<Rightarrow> map_of (locationsByDeviceId g) did
      | _ \<Rightarrow> None)"

definition ev_geofenceZoneId :: "eval_env \<Rightarrow> jsval \<Rightarrow> string \<Rightarrow> jsval \<Rightarrow> bool" where
  "ev_geofenceZoneId env device op v =
     (case (Option.bind (geo env) (\<lambda>g. map_of (zonesById g) (text_of v)), device_location_of env device) of
        (Some z, Some loc) \<Rightarrow>
          (let inside = isPointInZone (loc_point loc) z
           in if op = ''inside'' then inside else \<not> inside)
      | _ \<Rightarrow> False)"

definition ev_hasLocationData :: "eval_env \<Rightarrow> jsval \<Rightarrow> jsval \<Rightarrow> bool" where
  "ev_hasLocationData env device v = ((device_location_of env device \<noteq> None) = truthy v)"

definition ev_locationAgeMinutes :: "eval_env \<Rightarrow> jsval \<Rightarrow> string \<Rightarrow> jsval \<Rightarrow> bool" where
  "ev_locationAgeMinutes env device op v =
     (case device_location_of env device of
        None \<Rightarrow> False
      | Some loc \<Rightarrow>
          greater_or_less op (Fin (rat_of_int (env_now env - fetchedAt loc) / 60000)) (number_target v))"

section \<open>Update and vulnerability conditions\<close>

text \<open>\<open>status ? status.pendingCount : null\<close>.\<close>

definition pending_count :: "jsval \<Rightarrow> jsval" where
  "pending_count status = (if truthy status then own_prop status ''pendingCount'' else JNull)"

definition ev_vulnPendingCveCount :: "jsval \<Rightarrow> string \<Rightarrow> jsval \<Rightarrow> bool" where
  "ev_vulnPendingCveCount status op v =
     count_check op
       (if truthy status \<and> own_prop status ''confidence'' \<noteq> JStr ''unknown''
        then own_prop status ''pendingCount'' else JNull) v"

definition ev_exploited :: "jsval \<Rightarrow> string \<Rightarrow> jsval \<Rightarrow> bool option" where
  "ev_exploited status list_key v =
     do {
       b \<leftarrow> some_prop (own_prop status list_key) ''exploited'';
       Some (b = truthy v)
     }"

definition ev_vulnServiceCriticalHighCount :: "jsval \<Rightarrow> string \<Rightarrow> jsval \<Rightarrow> bool" where
  "ev_vulnServiceCriticalHighCount status op v =
     (if \<not> truthy status \<or> \<not> truthy (own_prop status ''checked'') then False
      else
        (let counts = coalesce (own_prop status ''counts'') (JObj []);
             actual = js_add (coalesce (own_prop counts ''CRITICAL'') (jint 0))
                             (coalesce (own_prop counts ''HIGH'') (jint 0))
         in less_or_greater op (to_number actual) (number_target v)))"

definition ev_status_flag :: "jsval \<Rightarrow> string \<Rightarrow> jsval \<Rightarrow> bool" where
  "ev_status_flag status flag v =
     ((if truthy status then truthy (own_prop status flag) else False) = truthy v)"

definition ev_vulnServiceHasKev :: "jsval \<Rightarrow> jsval \<Rightarrow> bool" where
  "ev_vulnServiceHasKev status v =
     ((if truthy status \<and> truthy (own_prop status ''checked'')
       then truthy (own_prop status ''hasKev'') else False) = truthy v)"

section \<open>Attribute conditions\<close>

text \<open>\<open>exists\<close> and \<open>missing\<close> ask whether the attribute is there; anything else compares its value.\<close>

definition attribute_check :: "jsval option \<Rightarrow> string \<Rightarrow> jsval \<Rightarrow> bool" where
  "attribute_check attr op compareValue =
     (if op = ''exists'' then attr \<noteq> None
      else if op = ''missing'' then attr = None
      else (case attr of None \<Rightarrow> False | Some x \<Rightarrow> compareScalar x op compareValue))"

definition target_of :: "jsval \<Rightarrow> jsval" where
  "target_of v = coalesce v (JObj [])"

fun smart_attrs :: "jsval list \<Rightarrow> (string \<times> jsval) list \<Rightarrow> (string \<times> jsval) list option" where
  "smart_attrs [] attrs = Some attrs"
| "smart_attrs (a # as) attrs =
     do {
       n \<leftarrow> jget a ''name'';
       smart_attrs as (map_set (to_string n) (own_prop a ''value'') attrs)
     }"

definition ev_smartAttribute :: "jsval \<Rightarrow> string \<Rightarrow> jsval \<Rightarrow> bool option" where
  "ev_smartAttribute device op v =
     do {
       as \<leftarrow> array_of (own_prop device ''smartAttributes'');
       attrs \<leftarrow> smart_attrs as [];
       Some (attribute_check (map_of attrs (to_string (own_prop (target_of v) ''name''))) op
               (own_prop (target_of v) ''compareValue''))
     }"

definition ev_customField :: "jsval \<Rightarrow> string \<Rightarrow> jsval \<Rightarrow> bool option" where
  "ev_customField device op v =
     do {
       actual \<leftarrow> getByPath device (coalesce (own_prop (target_of v) ''path'') (JStr []));
       Some (compareScalar actual op (own_prop (target_of v) ''compareValue''))
     }"

definition ev_selfReportedAttribute :: "jsval \<Rightarrow> string \<Rightarrow> jsval \<Rightarrow> bool option" where
  "ev_selfReportedAttribute device op v =
     (let attrs = coalesce (own_prop (own_prop device ''selfReported'') ''attributes'') (JObj []);
          name = to_string (own_prop (target_of v) ''name'')
      in case attrs of
           JObj fs \<Rightarrow> Some (attribute_check (map_of fs name) op (own_prop (target_of v) ''compareValue''))
         | JArr _ \<Rightarrow> Some (attribute_check None op (own_prop (target_of v) ''compareValue''))
         | _ \<Rightarrow> None)"

definition ev_customCheckResult :: "jsval \<Rightarrow> string \<Rightarrow> jsval \<Rightarrow> bool" where
  "ev_customCheckResult device op v =
     (let results = coalesce (own_prop (own_prop device ''selfReported'') ''customCheckResults'') (JObj []);
          entry = own_prop results (to_string (own_prop (target_of v) ''key''));
          present = truthy entry \<and> \<not> truthy (own_prop entry ''error'')
      in attribute_check (if present then Some (own_prop entry ''value'') else None) op
           (own_prop (target_of v) ''compareValue''))"

definition num_le :: "jsnum \<Rightarrow> jsnum \<Rightarrow> bool" where
  "num_le a b = (num_less a b \<or> (a = b \<and> a \<noteq> NaN))"

definition trigger_present :: "int \<Rightarrow> jsval \<Rightarrow> jsval \<Rightarrow> bool" where
  "trigger_present now entry withinMinutes =
     (let present = truthy entry \<and> own_prop entry ''status'' = JStr ''active''
      in if present \<and> truthy withinMinutes then
           (case date_parse (to_string (own_prop entry ''lastFiredAt'')) of
              None \<Rightarrow> False
            | Some t \<Rightarrow>
                (let ageMinutes = rat_of_int (now - t) / 60000
                 in 0 \<le> ageMinutes \<and> num_le (Fin ageMinutes) (to_number withinMinutes)))
         else present)"

definition ev_triggerFired :: "eval_env \<Rightarrow> jsval \<Rightarrow> string \<Rightarrow> jsval \<Rightarrow> bool" where
  "ev_triggerFired env device op v =
     (let fires = coalesce (own_prop device ''triggerFires'') (JObj []);
          entry = own_prop fires (to_string (own_prop (target_of v) ''triggerId''));
          present = trigger_present (env_now env) entry (own_prop (target_of v) ''withinMinutes'')
      in if op = ''exists'' then present
         else if op = ''missing'' then \<not> present
         else False)"

definition ev_selfReportDaysAgo :: "eval_env \<Rightarrow> jsval \<Rightarrow> string \<Rightarrow> jsval \<Rightarrow> bool" where
  "ev_selfReportDaysAgo env device op v =
     (let lastReported = own_prop (own_prop device ''selfReported'') ''lastReportedAt''
      in if \<not> truthy lastReported then op = ''greaterThan''
         else (case daysSince (env_now env) lastReported of
                 None \<Rightarrow> op = ''greaterThan''
               | Some days \<Rightarrow> greater_or_less op (Fin days) (number_target v)))"

section \<open>App list conditions\<close>

definition is_alnum :: "char \<Rightarrow> bool" where
  "is_alnum c = (is_digit c \<or> is_letter c)"

text \<open>\<open>id.replace(/_[a-z0-9]{13}$/i, "")\<close>.\<close>

definition stripPackageFamilySuffix :: "string \<Rightarrow> string" where
  "stripPackageFamilySuffix s =
     (let n = length s; suffix_part = drop (n - 14) s
      in if 14 \<le> n \<and> hd suffix_part = CHR ''_'' \<and> list_all is_alnum (tl suffix_part)
         then take (n - 14) s else s)"

definition app_present :: "jsval list \<Rightarrow> catalog_entry \<Rightarrow> bool" where
  "app_present installed e =
     (let idLower = toLowerCase (app_identifier e)
      in JStr idLower \<in> set installed \<or>
         JStr (stripPackageFamilySuffix idLower) \<in> set installed \<or>
         (case entry_name e of
            Some n \<Rightarrow> n \<noteq> [] \<and> JStr (toLowerCase n) \<in> set installed
          | None \<Rightarrow> False))"

definition list_entries :: "app_lists_context \<Rightarrow> string list \<Rightarrow> catalog_entry list" where
  "list_entries al appIds =
     filter (\<lambda>e. app_identifier e \<noteq> []) (List.map_filter (\<lambda>aid. map_of (catalogById al) aid) appIds)"

definition ev_appList :: "eval_env \<Rightarrow> jsval \<Rightarrow> string \<Rightarrow> jsval \<Rightarrow> bool option" where
  "ev_appList env device fld v =
     (case appLists env of
        None \<Rightarrow> Some False
      | Some al \<Rightarrow>
          if \<not> truthy v then Some False
          else (case map_of (listById al) (to_string v) of
             None \<Rightarrow> Some False
           | Some appIds \<Rightarrow>
               (let entries = list_entries al appIds
                in if entries = [] then Some False
                   else (case coalesce (own_prop device ''installedApps'') JNull of
                      JNull \<Rightarrow> Some False
                    | JArr installed \<Rightarrow>
                        Some (if fld = ''requiredAppList''
                              then \<not> list_all (app_present installed) entries
                              else list_ex (app_present installed) entries)
                    | _ \<Rightarrow> None))))"

section \<open>Device conditions\<close>

definition version_check :: "string \<Rightarrow> int list \<Rightarrow> int list \<Rightarrow> bool" where
  "version_check op actual target =
     (let cmp = compareVersionTuples actual target
      in if op = ''lessThan'' then cmp < 0 else if op = ''greaterThan'' then 0 < cmp else cmp = 0)"

definition ev_lastSeenDaysAgo :: "eval_env \<Rightarrow> jsval \<Rightarrow> string \<Rightarrow> jsval \<Rightarrow> bool" where
  "ev_lastSeenDaysAgo env device op v =
     (case daysSince (env_now env) (own_prop device ''lastSeen'') of
        None \<Rightarrow> False
      | Some days \<Rightarrow> greater_or_less op (Fin days) (number_target v))"

definition seconds_per_unit :: "jsval \<Rightarrow> rat" where
  "seconds_per_unit u =
     (case map_of [(''minutes'', 60), (''hours'', 3600), (''days'', 86400)]
             (to_string (coalesce u (JStr ''days''))) of
        Some s \<Rightarrow> s | None \<Rightarrow> 86400)"

definition ev_daysSinceEnrollment :: "eval_env \<Rightarrow> jsval \<Rightarrow> string \<Rightarrow> jsval \<Rightarrow> bool" where
  "ev_daysSinceEnrollment env device op v =
     (let enrolledAt = own_prop device ''enrolledAt''
      in if \<not> truthy enrolledAt then False
         else (case date_parse (replace_Z (to_string enrolledAt)) of
            None \<Rightarrow> False
          | Some t \<Rightarrow>
              (let elapsedSeconds = Fin (rat_of_int (env_now env - t) / 1000);
                   targetSeconds = num_scale (number_target (own_prop (target_of v) ''amount''))
                                     (seconds_per_unit (own_prop (target_of v) ''unit''))
               in if targetSeconds = NaN then False
                  else greater_or_less op elapsedSeconds targetSeconds)))"

definition ev_tags :: "jsval \<Rightarrow> string \<Rightarrow> jsval \<Rightarrow> bool option" where
  "ev_tags device op v =
     do {
       tags \<leftarrow> array_of (own_prop device ''tags'');
       Some (let present = list_ex (\<lambda>t. same_value_zero t v) tags
             in if op = ''includes'' then present else \<not> present)
     }"

fun prop_strings :: "string \<Rightarrow> jsval list \<Rightarrow> string list option" where
  "prop_strings p [] = Some []"
| "prop_strings p (x # xs) =
     do { v \<leftarrow> jget x p; vs \<leftarrow> prop_strings p xs; Some (to_string v # vs) }"

definition audience_ids :: "jsval \<Rightarrow> string list option" where
  "audience_ids device = do { as \<leftarrow> array_of (own_prop device ''deviceAudiences''); prop_strings ''id'' as }"

definition ev_deviceAudienceId :: "jsval \<Rightarrow> string \<Rightarrow> jsval \<Rightarrow> bool option" where
  "ev_deviceAudienceId device op v =
     do {
       ids \<leftarrow> audience_ids device;
       Some (let isMember = text_of v \<in> set ids in if op = ''includes'' then isMember else \<not> isMember)
     }"

fun prop_values :: "string \<Rightarrow> jsval list \<Rightarrow> jsval list option" where
  "prop_values p [] = Some []"
| "prop_values p (x # xs) = do { v \<leftarrow> jget x p; vs \<leftarrow> prop_values p xs; Some (v # vs) }"

definition ev_missingPolicyId :: "jsval \<Rightarrow> jsval \<Rightarrow> bool option" where
  "ev_missingPolicyId device v =
     (let target = target_of v
      in if truthy (own_prop target ''platform'') \<and>
            \<not> strict_eq (own_prop device ''platform'') (own_prop target ''platform'')
         then Some False
         else do {
           ps \<leftarrow> array_of (own_prop device ''activePolicies'');
           ids \<leftarrow> prop_values ''id'' ps;
           Some (\<not> list_ex (\<lambda>i. same_value_zero i (own_prop target ''policyId'')) ids)
         })"

section \<open>Dispatch\<close>

definition equals_check :: "jsval \<Rightarrow> string \<Rightarrow> jsval \<Rightarrow> bool" where
  "equals_check actual op v = (if op = ''equals'' then strict_eq actual v else \<not> strict_eq actual v)"

definition evaluate_raw :: "eval_env \<Rightarrow> jsval \<Rightarrow> eval_condition \<Rightarrow> bool option" where
  "evaluate_raw env device c =
     (let f = field c; op = operator c; v = cond_value c; get = own_prop device
      in if f = ''geofenceZoneId'' then Some (ev_geofenceZoneId env device op v)
      else if f = ''hasLocationData'' then Some (ev_hasLocationData env device v)
      else if f = ''locationAgeMinutes'' then Some (ev_locationAgeMinutes env device op v)
      else if f \<in> set [''manufacturer'', ''model'', ''serialNumber'', ''imei''] then
        Some (compareScalar (get f) op v)
      else if f = ''mdmUserEmail'' then Some (compareScalar (own_prop (get ''mdmUser'') ''email'') op v)
      else if f = ''totalStorageGb'' \<or> f = ''ramGb'' then Some (compareScalar (get f) op v)
      else if f = ''riskScore'' \<or> f = ''riskTier'' then Some (compareScalar (get f) op v)
      else if f = ''osUpdatePendingCount'' then Some (count_check op (pending_count (get ''osUpdateStatus'')) v)
      else if f = ''osUpdateExploitedPending'' then ev_exploited (get ''osUpdateStatus'') ''pendingKbs'' v
      else if f = ''vulnPendingCveCount'' then Some (ev_vulnPendingCveCount (get ''vulnStatus'') op v)
      else if f = ''vulnExploitedPending'' then ev_exploited (get ''vulnStatus'') ''pendingCves'' v
      else if f = ''vulnServiceCriticalHighCount'' then
        Some (ev_vulnServiceCriticalHighCount (get ''vulnServiceStatus'') op v)
      else if f = ''vulnServiceHasKev'' then Some (ev_vulnServiceHasKev (get ''vulnServiceStatus'') v)
      else if f = ''vulnServiceChecked'' then Some (ev_status_flag (get ''vulnServiceStatus'') ''checked'' v)
      else if f = ''osEol'' then Some (ev_status_flag (get ''osLifecycleStatus'') ''isEol'' v)
      else if f = ''appleAppUpdatesPending'' then
        Some (count_check op (pending_count (get ''appleAppUpdateStatus'')) v)
      else if f = ''smartAttribute'' then ev_smartAttribute device op v
      else if f = ''customField'' then ev_customField device op v
      else if f = ''selfReportedAttribute'' then ev_selfReportedAttribute device op v
      else if f = ''customCheckResult'' then Some (ev_customCheckResult device op v)
      else if f = ''triggerFired'' then Some (ev_triggerFired env device op v)
      else if f = ''hasSelfReported'' then Some (truthy (get ''selfReported'') = truthy v)
      else if f = ''selfReportDaysAgo'' then Some (ev_selfReportDaysAgo env device op v)
      else if f = ''requiredAppList'' \<or> f = ''disallowedAppList'' then ev_appList env device f v
      else if f = ''isCompliant'' then Some (truthy (get ''isCompliant'') = truthy v)
      else if f = ''platform'' then Some (equals_check (get ''platform'') op v)
      else if f = ''osVersion'' then
        Some (version_check op (versionTuple (get ''osVersion'')) (versionTuple v))
      else if f = ''osPatchLevel'' then
        Some (version_check op (patchLevelTuple (get ''platform'') (get ''osPatchLevel''))
               (patchLevelTuple (get ''platform'') v))
      else if f = ''lastSeenDaysAgo'' then Some (ev_lastSeenDaysAgo env device op v)
      else if f = ''daysSinceEnrollment'' then Some (ev_daysSinceEnrollment env device op v)
      else if f = ''battery'' \<or> f = ''availableStorageGb'' then Some (count_check op (get f) v)
      else if f = ''segmentId'' then
        Some (if op = ''equals'' then text_of (get ''segmentId'') = text_of v
              else text_of (get ''segmentId'') \<noteq> text_of v)
      else if f = ''tags'' then ev_tags device op v
      else if f = ''state'' then Some (equals_check (get ''state'') op v)
      else if f = ''deviceAudienceId'' then ev_deviceAudienceId device op v
      else if f = ''missingPolicyId'' then ev_missingPolicyId device v
      else Some False)"

definition evaluateCondition :: "eval_env \<Rightarrow> jsval \<Rightarrow> eval_condition \<Rightarrow> bool" where
  "evaluateCondition env device c = (case evaluate_raw env device c of Some b \<Rightarrow> b | None \<Rightarrow> False)"

definition policyViolated :: "eval_env \<Rightarrow> jsval \<Rightarrow> eval_condition list \<Rightarrow> string option \<Rightarrow> eval_condition list" where
  "policyViolated env device conditions conditionLogic =
     (if conditions = [] then []
      else
        (let matched = filter (evaluateCondition env device) conditions;
             logic = (case conditionLogic of Some l \<Rightarrow> l | None \<Rightarrow> ''any'')
         in if logic = ''all'' then (if length matched = length conditions then matched else [])
            else matched))"

section \<open>Lemmas\<close>

text \<open>The version order: the sign of the first segment that differs, a missing segment being 0.\<close>

definition seg :: "int list \<Rightarrow> nat \<Rightarrow> int" where
  "seg xs i = (if i < length xs then xs ! i else 0)"

lemma seg_Cons: "seg (x # xs) 0 = x" "seg (x # xs) (Suc i) = seg xs i" "seg [] i = 0"
  by (simp_all add: seg_def)

definition version_less :: "int list \<Rightarrow> int list \<Rightarrow> bool" where
  "version_less a b \<longleftrightarrow> (\<exists>i. seg a i < seg b i \<and> (\<forall>j<i. seg a j = seg b j))"

lemma ex_nat_split: "(\<exists>i::nat. P i) \<longleftrightarrow> P 0 \<or> (\<exists>i. P (Suc i))"
  by (metis old.nat.exhaust)

lemma all_nat_split: "(\<forall>i::nat. P i) \<longleftrightarrow> P 0 \<and> (\<forall>i. P (Suc i))"
  by (metis old.nat.exhaust)

lemma all_less_Suc_split: "(\<forall>j<Suc i. P j) \<longleftrightarrow> P 0 \<and> (\<forall>j<i. P (Suc j))"
  by (metis less_Suc_eq_0_disj)

lemma version_less_Cons:
  "version_less (a # as) (b # bs) \<longleftrightarrow> a < b \<or> a = b \<and> version_less as bs"
  "version_less (a # as) [] \<longleftrightarrow> a < 0 \<or> a = 0 \<and> version_less as []"
  "version_less [] (b # bs) \<longleftrightarrow> 0 < b \<or> 0 = b \<and> version_less [] bs"
  "\<not> version_less [] []"
  unfolding version_less_def
  by (subst ex_nat_split; auto simp: seg_Cons all_less_Suc_split)+

lemma compare_less: "compareVersionTuples a b < 0 \<longleftrightarrow> version_less a b"
  by (induction a b rule: compareVersionTuples.induct) (auto simp: version_less_Cons)

lemma compare_swap: "compareVersionTuples b a = - compareVersionTuples a b"
  by (induction a b rule: compareVersionTuples.induct) auto

lemma compare_greater: "0 < compareVersionTuples a b \<longleftrightarrow> version_less b a"
  using compare_less [of b a] compare_swap [of b a] by simp

lemma seg_eq_Cons:
  "(\<forall>i. seg (a # as) i = seg (b # bs) i) \<longleftrightarrow> a = b \<and> (\<forall>i. seg as i = seg bs i)"
  "(\<forall>i. seg (a # as) i = seg [] i) \<longleftrightarrow> a = 0 \<and> (\<forall>i. seg as i = seg [] i)"
  "(\<forall>i. seg [] i = seg (b # bs) i) \<longleftrightarrow> 0 = b \<and> (\<forall>i. seg [] i = seg bs i)"
  by (subst all_nat_split; simp add: seg_Cons)+

lemma compare_zero: "compareVersionTuples a b = 0 \<longleftrightarrow> (\<forall>i. seg a i = seg b i)"
  by (induction a b rule: compareVersionTuples.induct) (simp_all add: seg_eq_Cons)

lemma raw_scalar:
  "f = ''manufacturer'' \<or> f = ''model'' \<or> f = ''serialNumber'' \<or> f = ''imei'' \<or> f = ''totalStorageGb'' \<or>
   f = ''ramGb'' \<or> f = ''riskScore'' \<or> f = ''riskTier'' \<Longrightarrow>
   evaluate_raw env d \<lparr>field = f, operator = op, cond_value = v\<rparr> = Some (compareScalar (own_prop d f) op v)"
  unfolding evaluate_raw_def Let_def eval_condition.simps by (elim disjE; simp)

lemma raw_osVersion:
  "evaluate_raw env d \<lparr>field = ''osVersion'', operator = op, cond_value = v\<rparr> =
     Some (version_check op (versionTuple (own_prop d ''osVersion'')) (versionTuple v))"
  unfolding evaluate_raw_def Let_def eval_condition.simps by simp

lemma raw_smartAttribute:
  "evaluate_raw env d \<lparr>field = ''smartAttribute'', operator = op, cond_value = v\<rparr> = ev_smartAttribute d op v"
  unfolding evaluate_raw_def Let_def eval_condition.simps by simp

lemma raw_selfReportedAttribute:
  "evaluate_raw env d \<lparr>field = ''selfReportedAttribute'', operator = op, cond_value = v\<rparr> =
     ev_selfReportedAttribute d op v"
  unfolding evaluate_raw_def Let_def eval_condition.simps by simp

lemma raw_customCheckResult:
  "evaluate_raw env d \<lparr>field = ''customCheckResult'', operator = op, cond_value = v\<rparr> =
     Some (ev_customCheckResult d op v)"
  unfolding evaluate_raw_def Let_def eval_condition.simps by simp

lemma raw_triggerFired:
  "evaluate_raw env d \<lparr>field = ''triggerFired'', operator = op, cond_value = v\<rparr> = Some (ev_triggerFired env d op v)"
  unfolding evaluate_raw_def Let_def eval_condition.simps by simp

lemma raw_customField:
  "evaluate_raw env d \<lparr>field = ''customField'', operator = op, cond_value = v\<rparr> = ev_customField d op v"
  unfolding evaluate_raw_def Let_def eval_condition.simps by simp

lemma raw_appList:
  "f = ''requiredAppList'' \<or> f = ''disallowedAppList'' \<Longrightarrow>
   evaluate_raw env d \<lparr>field = f, operator = op, cond_value = v\<rparr> = ev_appList env d f v"
  unfolding evaluate_raw_def Let_def eval_condition.simps by (elim disjE; simp)

lemma evaluate_of_raw: "evaluateCondition env d c \<longleftrightarrow> evaluate_raw env d c = Some True"
  by (simp add: evaluateCondition_def split: option.splits)

lemmas raw_fields = raw_scalar raw_osVersion raw_smartAttribute raw_selfReportedAttribute
  raw_customCheckResult raw_triggerFired raw_customField raw_appList

section \<open>Properties\<close>

text \<open>
  What a policy violation is: with logic \<open>all\<close> a device violates a policy exactly when it has
  conditions and every one matches; with any other logic when some condition matches. The matched
  conditions are reported in the policy's order, each of them a condition that really matches.
\<close>
lemma policyViolated_iff:
  "(policyViolated env d cs logic \<noteq> [] \<longleftrightarrow>
     (if logic = Some ''all'' then cs \<noteq> [] \<and> (\<forall>c\<in>set cs. evaluateCondition env d c)
      else (\<exists>c\<in>set cs. evaluateCondition env d c))) \<and>
   (policyViolated env d cs logic \<noteq> [] \<longrightarrow>
     policyViolated env d cs logic = filter (evaluateCondition env d) cs)"
proof -
  have all_hits: "length (filter P xs) = length xs \<longleftrightarrow> (\<forall>x\<in>set xs. P x)" for P and xs :: "eval_condition list"
    using length_filter_less [of _ xs P] by (metis filter_True less_irrefl)
  show ?thesis
    by (cases logic) (auto simp: policyViolated_def Let_def all_hits filter_empty_conv)
qed

theorem policyViolated_iff_witness:
  "policyViolated \<lparr>env_now = 0, appLists = None, geo = None\<rparr> (JObj [(''model'', JStr ''A1'')])
     [\<lparr>field = ''model'', operator = ''equals'', cond_value = JStr ''A1''\<rparr>] (Some ''all'') =
     [\<lparr>field = ''model'', operator = ''equals'', cond_value = JStr ''A1''\<rparr>]"
proof -
  let ?c = "\<lparr>field = ''model'', operator = ''equals'', cond_value = JStr ''A1''\<rparr>"
  let ?env = "\<lparr>env_now = 0, appLists = None, geo = None\<rparr>"
  have hit: "evaluateCondition ?env (JObj [(''model'', JStr ''A1'')]) ?c"
    by (simp add: evaluate_of_raw raw_scalar compareScalar_def own_prop_def text_of_def coalesce_def)
  show ?thesis using policyViolated_iff [of ?env "JObj [(''model'', JStr ''A1'')]" "[?c]" "Some ''all''"] hit by simp
qed

text \<open>
  \<open>exists\<close> and \<open>missing\<close> are complementary: for every device and value, of the two conditions on a
  scalar field, a custom check result or a trigger exactly one matches; of those on a smart or
  self-reported attribute exactly one whenever reading the device's attributes does not throw.
\<close>
lemma exists_missing_complementary:
  assumes "matches = (\<lambda>f op. evaluateCondition env d \<lparr>field = f, operator = op, cond_value = v\<rparr>)"
  shows "(\<forall>f\<in>set [''manufacturer'', ''model'', ''serialNumber'', ''imei'', ''totalStorageGb'', ''ramGb'', ''riskScore'',
        ''riskTier'', ''customCheckResult'', ''triggerFired'']. matches f ''exists'' \<longleftrightarrow> \<not> matches f ''missing'') \<and>
    (ev_smartAttribute d ''exists'' v \<noteq> None \<longrightarrow>
       (matches ''smartAttribute'' ''exists'' \<longleftrightarrow> \<not> matches ''smartAttribute'' ''missing'')) \<and>
    (ev_selfReportedAttribute d ''exists'' v \<noteq> None \<longrightarrow>
       (matches ''selfReportedAttribute'' ''exists'' \<longleftrightarrow> \<not> matches ''selfReportedAttribute'' ''missing''))"
proof -
  have smart: "ev_smartAttribute d ''exists'' v = map_option Not (ev_smartAttribute d ''missing'' v)"
    by (simp add: ev_smartAttribute_def attribute_check_def split: Option.bind_splits)
  have self: "ev_selfReportedAttribute d ''exists'' v = map_option Not (ev_selfReportedAttribute d ''missing'' v)"
    by (simp add: ev_selfReportedAttribute_def attribute_check_def Let_def split: jsval.splits)
  have scalar: "compareScalar x ''exists'' v \<longleftrightarrow> \<not> compareScalar x ''missing'' v" for x
    by (simp add: compareScalar_def)
  have check: "ev_customCheckResult d ''exists'' v \<longleftrightarrow> \<not> ev_customCheckResult d ''missing'' v"
    by (simp add: ev_customCheckResult_def attribute_check_def Let_def)
  have trigger: "ev_triggerFired env d ''exists'' v \<longleftrightarrow> \<not> ev_triggerFired env d ''missing'' v"
    by (simp add: ev_triggerFired_def Let_def)
  show ?thesis
    unfolding assms evaluate_of_raw raw_smartAttribute raw_selfReportedAttribute smart self
    by (simp add: raw_scalar raw_customCheckResult raw_triggerFired scalar check trigger) (auto split: option.splits)
qed

theorem exists_missing_complementary_witness:
  "evaluateCondition \<lparr>env_now = 0, appLists = None, geo = None\<rparr> (JObj [])
     \<lparr>field = ''imei'', operator = ''missing'', cond_value = JNull\<rparr>"
proof -
  let ?env = "\<lparr>env_now = 0, appLists = None, geo = None\<rparr>"
  have "\<not> evaluateCondition ?env (JObj []) \<lparr>field = ''imei'', operator = ''exists'', cond_value = JNull\<rparr>"
    by (simp add: evaluate_of_raw raw_scalar compareScalar_def own_prop_def)
  then show ?thesis using exists_missing_complementary [OF refl, of ?env "JObj []" JNull] by simp
qed

text \<open>
  Versions compare by their first differing segment. \<open>osVersion lessThan v\<close> matches exactly when the
  device's version is below \<open>v\<close> at the first segment where the two differ (missing segments being
  0), \<open>greaterThan\<close> when above, \<open>equals\<close> when all segments agree, and always exactly one of the three.
\<close>
lemma osVersion_order:
  "(evaluateCondition env d \<lparr>field = ''osVersion'', operator = ''lessThan'', cond_value = v\<rparr> \<longleftrightarrow>
      version_less (versionTuple (own_prop d ''osVersion'')) (versionTuple v)) \<and>
   (evaluateCondition env d \<lparr>field = ''osVersion'', operator = ''greaterThan'', cond_value = v\<rparr> \<longleftrightarrow>
      version_less (versionTuple v) (versionTuple (own_prop d ''osVersion''))) \<and>
   (evaluateCondition env d \<lparr>field = ''osVersion'', operator = ''equals'', cond_value = v\<rparr> \<longleftrightarrow>
      (\<forall>i. seg (versionTuple (own_prop d ''osVersion'')) i = seg (versionTuple v) i)) \<and>
   card {op \<in> {''lessThan'', ''greaterThan'', ''equals''}.
     evaluateCondition env d \<lparr>field = ''osVersion'', operator = op, cond_value = v\<rparr>} = 1"
proof -
  let ?c = "compareVersionTuples (versionTuple (own_prop d ''osVersion'')) (versionTuple v)"
  have ev: "evaluateCondition env d \<lparr>field = ''osVersion'', operator = op, cond_value = v\<rparr> \<longleftrightarrow>
      version_check op (versionTuple (own_prop d ''osVersion'')) (versionTuple v)" for op
    by (simp add: evaluate_of_raw raw_osVersion)
  have sign: "?c < 0 \<or> 0 < ?c \<or> ?c = 0" by linarith
  have one: "{op \<in> {''lessThan'', ''greaterThan'', ''equals''}.
      version_check op (versionTuple (own_prop d ''osVersion'')) (versionTuple v)} =
      {if ?c < 0 then ''lessThan'' else if 0 < ?c then ''greaterThan'' else ''equals''}"
    using sign by (auto simp: version_check_def Let_def)
  show ?thesis
    unfolding ev one
    by (simp add: version_check_def Let_def compare_less compare_greater compare_zero)
qed

text \<open>
  App List conditions. With the list, its catalog entries and the device's installed apps known, a
  required list is violated exactly when some listed app is absent, a disallowed one exactly when some
  listed app is present; without the list, a non-empty list or the installed apps neither matches.
\<close>
lemma app_list_conditions:
  assumes "appLists env = Some al" "map_of (listById al) lid = Some appIds" "lid \<noteq> []"
    and "matches = (\<lambda>f. evaluateCondition env d \<lparr>field = f, operator = op, cond_value = JStr lid\<rparr>)"
  shows "(own_prop d ''installedApps'' = JArr apps \<longrightarrow>
      (matches ''requiredAppList'' \<longleftrightarrow> (\<exists>e\<in>set (list_entries al appIds). \<not> app_present apps e)) \<and>
      (matches ''disallowedAppList'' \<longleftrightarrow> (\<exists>e\<in>set (list_entries al appIds). app_present apps e))) \<and>
    (nullish (own_prop d ''installedApps'') \<longrightarrow> \<not> matches ''requiredAppList'' \<and> \<not> matches ''disallowedAppList'')"
proof -
  have null: "nullish x \<longleftrightarrow> x = JUndef \<or> x = JNull" for x by (cases x) simp_all
  show ?thesis
    unfolding assms(4) evaluate_of_raw using assms(1-3)
    by (auto simp: raw_appList ev_appList_def Let_def null coalesce_def list_all_iff list_ex_iff)
qed

theorem app_list_conditions_witness:
  "evaluateCondition
     \<lparr>env_now = 0, appLists = Some \<lparr>catalogById = [(''a'', \<lparr>app_identifier = ''X'', entry_name = None\<rparr>)],
        listById = [(''l'', [''a''])]\<rparr>, geo = None\<rparr>
     (JObj [(''installedApps'', JArr [])])
     \<lparr>field = ''requiredAppList'', operator = [], cond_value = JStr ''l''\<rparr>"
proof -
  let ?al = "\<lparr>catalogById = [(''a'', \<lparr>app_identifier = ''X'', entry_name = None\<rparr>)], listById = [(''l'', [''a''])]\<rparr>"
  have "app_identifier e = ''X'' \<Longrightarrow> entry_name e = None \<Longrightarrow> \<not> app_present [] e" for e
    by (simp add: app_present_def)
  moreover have "list_entries ?al [''a''] = [\<lparr>app_identifier = ''X'', entry_name = None\<rparr>]"
    by (simp add: list_entries_def List.map_filter_def)
  ultimately show ?thesis
    using app_list_conditions [OF _ _ _ refl, of "\<lparr>env_now = 0, appLists = Some ?al, geo = None\<rparr>" ?al "''l''"
        "[''a'']" "JObj [(''installedApps'', JArr [])]" "[]" "[]"]
    by (simp add: own_prop_def)
qed

text \<open>
  The scalar operator \<open>contains\<close> asks, up to case, whether the compare value contains the attribute,
  not the reverse; so it matches every device that lacks the attribute.
\<close>
lemma contains_is_reversed:
  "(compareScalar (JStr a) ''contains'' (JStr t) \<longleftrightarrow> sublist (toLowerCase a) (toLowerCase t)) \<and>
   compareScalar JUndef ''contains'' x \<and> compareScalar JNull ''contains'' x"
  by (simp add: compareScalar_def text_of_def coalesce_def includes_iff_sublist toLowerCase_def)

end
