(* ===== verification/ComplianceCatalog.thy ===== *)
theory ComplianceCatalog
  imports ComplianceEval "HOL-Library.List_Lexorder" "HOL-Library.Char_ord"
begin

text \<open>
  The registries behind the Policy Builder (\<open>modules/compliance/complianceFields.ts\<close>): the condition fields
  with their operators and platforms, the MITRE ATT&CK catalog and its per-field hints, the policy templates
  of the three frameworks with the functions that build their conditions, and the self-reported attributes.
\<close>

section \<open>Fields and techniques\<close>

record compliance_field =
  fd_key :: string
  fd_label :: string
  fd_type :: string
  fd_operators :: "string list"
  fd_options :: "string list option"
  fd_platforms :: "string list option"

record mitre_technique =
  mt_id :: string
  mt_name :: string
  mt_tactic :: string

definition COMPLIANCE_FIELDS :: "compliance_field list" where
  "COMPLIANCE_FIELDS = [
    \<lparr>fd_key = ''isCompliant'', fd_label = ''Applivery compliance flag'', fd_type = ''boolean'',
      fd_operators = [''equals''], fd_options = None, fd_platforms = None\<rparr>,
    \<lparr>fd_key = ''platform'', fd_label = ''Platform'', fd_type = ''select'',
      fd_operators = [''equals'', ''notEquals''], fd_options = Some [''apple'', ''macos'', ''android'', ''windows''], fd_platforms = None\<rparr>,
    \<lparr>fd_key = ''osVersion'', fd_label = ''OS version'', fd_type = ''string'',
      fd_operators = [''lessThan'', ''greaterThan'', ''equals''], fd_options = None, fd_platforms = None\<rparr>,
    \<lparr>fd_key = ''osPatchLevel'', fd_label = ''OS Patch Level'', fd_type = ''string'',
      fd_operators = [''lessThan'', ''greaterThan'', ''equals''], fd_options = None, fd_platforms = None\<rparr>,
    \<lparr>fd_key = ''lastSeenDaysAgo'', fd_label = ''Days since last check-in'', fd_type = ''number'',
      fd_operators = [''greaterThan'', ''lessThan''], fd_options = None, fd_platforms = None\<rparr>,
    \<lparr>fd_key = ''daysSinceEnrollment'', fd_label = ''Time since enrollment'', fd_type = ''duration'',
      fd_operators = [''greaterThan'', ''lessThan''], fd_options = None, fd_platforms = None\<rparr>,
    \<lparr>fd_key = ''battery'', fd_label = ''Battery %'', fd_type = ''number'',
      fd_operators = [''lessThan'', ''greaterThan''], fd_options = None, fd_platforms = None\<rparr>,
    \<lparr>fd_key = ''availableStorageGb'', fd_label = ''Available storage (GB)'', fd_type = ''number'',
      fd_operators = [''lessThan'', ''greaterThan''], fd_options = None, fd_platforms = None\<rparr>,
    \<lparr>fd_key = ''totalStorageGb'', fd_label = ''Total storage (GB)'', fd_type = ''number'',
      fd_operators = [''lessThan'', ''greaterThan''], fd_options = None, fd_platforms = None\<rparr>,
    \<lparr>fd_key = ''ramGb'', fd_label = ''RAM (GB)'', fd_type = ''number'',
      fd_operators = [''lessThan'', ''greaterThan''], fd_options = None, fd_platforms = None\<rparr>,
    \<lparr>fd_key = ''manufacturer'', fd_label = ''Manufacturer'', fd_type = ''string'',
      fd_operators = [''equals'', ''notEquals'', ''contains''], fd_options = None, fd_platforms = None\<rparr>,
    \<lparr>fd_key = ''model'', fd_label = ''Model'', fd_type = ''string'',
      fd_operators = [''equals'', ''notEquals'', ''contains''], fd_options = None, fd_platforms = None\<rparr>,
    \<lparr>fd_key = ''serialNumber'', fd_label = ''Serial number'', fd_type = ''string'',
      fd_operators = [''equals'', ''contains''], fd_options = None, fd_platforms = None\<rparr>,
    \<lparr>fd_key = ''imei'', fd_label = ''IMEI'', fd_type = ''string'',
      fd_operators = [''equals'', ''contains''], fd_options = None, fd_platforms = Some [''apple'', ''android'']\<rparr>,
    \<lparr>fd_key = ''mdmUserEmail'', fd_label = ''MDM user email'', fd_type = ''string'',
      fd_operators = [''equals'', ''contains''], fd_options = None, fd_platforms = None\<rparr>,
    \<lparr>fd_key = ''segmentId'', fd_label = ''Segment ID'', fd_type = ''string'',
      fd_operators = [''equals'', ''notEquals''], fd_options = None, fd_platforms = None\<rparr>,
    \<lparr>fd_key = ''tags'', fd_label = ''Tag'', fd_type = ''string'',
      fd_operators = [''includes'', ''excludes''], fd_options = None, fd_platforms = None\<rparr>,
    \<lparr>fd_key = ''state'', fd_label = ''Device state'', fd_type = ''string'',
      fd_operators = [''equals'', ''notEquals''], fd_options = None, fd_platforms = None\<rparr>,
    \<lparr>fd_key = ''missingPolicyId'', fd_label = ''Missing a required MDM policy'', fd_type = ''policy'',
      fd_operators = [''missing''], fd_options = None, fd_platforms = None\<rparr>,
    \<lparr>fd_key = ''deviceAudienceId'', fd_label = ''Device Audience membership'', fd_type = ''device_audience'',
      fd_operators = [''includes'', ''excludes''], fd_options = None, fd_platforms = None\<rparr>,
    \<lparr>fd_key = ''smartAttribute'', fd_label = ''Smart Attribute'', fd_type = ''smart_attribute'',
      fd_operators = [''equals'', ''notEquals'', ''contains'', ''greaterThan'', ''lessThan'', ''exists'', ''missing''], fd_options = None, fd_platforms = None\<rparr>,
    \<lparr>fd_key = ''customField'', fd_label = ''Custom device field (advanced)'', fd_type = ''custom_field'',
      fd_operators = [''equals'', ''notEquals'', ''contains'', ''greaterThan'', ''lessThan'', ''exists'', ''missing''], fd_options = None, fd_platforms = None\<rparr>,
    \<lparr>fd_key = ''selfReportedAttribute'', fd_label = ''Self-Reported Attribute (agent)'', fd_type = ''self_reported_attribute'',
      fd_operators = [''equals'', ''notEquals'', ''contains'', ''greaterThan'', ''lessThan'', ''exists'', ''missing''], fd_options = None, fd_platforms = None\<rparr>,
    \<lparr>fd_key = ''customCheckResult'', fd_label = ''Custom Check Result (agent)'', fd_type = ''custom_check_result'',
      fd_operators = [''equals'', ''notEquals'', ''contains'', ''greaterThan'', ''lessThan'', ''exists'', ''missing''], fd_options = None, fd_platforms = Some [''windows'', ''macos'']\<rparr>,
    \<lparr>fd_key = ''triggerFired'', fd_label = ''Inbound Webhook Fired'', fd_type = ''trigger_fired'',
      fd_operators = [''exists'', ''missing''], fd_options = None, fd_platforms = None\<rparr>,
    \<lparr>fd_key = ''selfReportDaysAgo'', fd_label = ''Days since last self-report'', fd_type = ''number'',
      fd_operators = [''greaterThan'', ''lessThan''], fd_options = None, fd_platforms = None\<rparr>,
    \<lparr>fd_key = ''hasSelfReported'', fd_label = ''Has ever self-reported (agent installed)'', fd_type = ''boolean'',
      fd_operators = [''equals''], fd_options = None, fd_platforms = None\<rparr>,
    \<lparr>fd_key = ''requiredAppList'', fd_label = ''Missing a required app (from an App List)'', fd_type = ''app_list'',
      fd_operators = [''equals''], fd_options = None, fd_platforms = None\<rparr>,
    \<lparr>fd_key = ''disallowedAppList'', fd_label = ''Has a disallowed app (from an App List)'', fd_type = ''app_list'',
      fd_operators = [''equals''], fd_options = None, fd_platforms = None\<rparr>,
    \<lparr>fd_key = ''riskScore'', fd_label = ''Device Risk Score (0-100)'', fd_type = ''number'',
      fd_operators = [''greaterThan'', ''lessThan''], fd_options = None, fd_platforms = None\<rparr>,
    \<lparr>fd_key = ''riskTier'', fd_label = ''Device Risk Tier'', fd_type = ''select'',
      fd_operators = [''equals'', ''notEquals''], fd_options = Some [''low'', ''medium'', ''high'', ''critical''], fd_platforms = None\<rparr>,
    \<lparr>fd_key = ''osUpdatePendingCount'', fd_label = ''Pending Windows security updates'', fd_type = ''number'',
      fd_operators = [''greaterThan'', ''lessThan''], fd_options = None, fd_platforms = Some [''windows'']\<rparr>,
    \<lparr>fd_key = ''osUpdateExploitedPending'', fd_label = ''Pending Windows update fixes an exploited CVE'', fd_type = ''boolean'',
      fd_operators = [''equals''], fd_options = None, fd_platforms = Some [''windows'']\<rparr>,
    \<lparr>fd_key = ''vulnPendingCveCount'', fd_label = ''Pending known CVEs (Apple/Android)'', fd_type = ''number'',
      fd_operators = [''greaterThan'', ''lessThan''], fd_options = None, fd_platforms = Some [''apple'', ''macos'', ''android'']\<rparr>,
    \<lparr>fd_key = ''vulnExploitedPending'', fd_label = ''Pending CVE is exploited in the wild (Apple/Android)'', fd_type = ''boolean'',
      fd_operators = [''equals''], fd_options = None, fd_platforms = Some [''apple'', ''macos'', ''android'']\<rparr>,
    \<lparr>fd_key = ''osEol'', fd_label = ''OS version is end of life'', fd_type = ''boolean'',
      fd_operators = [''equals''], fd_options = None, fd_platforms = None\<rparr>,
    \<lparr>fd_key = ''appleAppUpdatesPending'', fd_label = ''Pending Apple app updates'', fd_type = ''number'',
      fd_operators = [''greaterThan'', ''lessThan''], fd_options = None, fd_platforms = Some [''apple'', ''macos'']\<rparr>,
    \<lparr>fd_key = ''vulnServiceCriticalHighCount'', fd_label = ''Critical/high CVEs (Vulnerability Service)'', fd_type = ''number'',
      fd_operators = [''greaterThan'', ''lessThan''], fd_options = None, fd_platforms = None\<rparr>,
    \<lparr>fd_key = ''vulnServiceHasKev'', fd_label = ''Known-exploited CVE present '' @ em_dash @ '' CISA KEV (Vulnerability Service)'', fd_type = ''boolean'',
      fd_operators = [''equals''], fd_options = None, fd_platforms = None\<rparr>,
    \<lparr>fd_key = ''vulnServiceChecked'', fd_label = ''Checked against Vulnerability Service'', fd_type = ''boolean'',
      fd_operators = [''equals''], fd_options = None, fd_platforms = None\<rparr>,
    \<lparr>fd_key = ''geofenceZoneId'', fd_label = ''Geofence zone'', fd_type = ''geofence_zone'',
      fd_operators = [''inside'', ''outside''], fd_options = None, fd_platforms = None\<rparr>,
    \<lparr>fd_key = ''hasLocationData'', fd_label = ''Has a known location on record'', fd_type = ''boolean'',
      fd_operators = [''equals''], fd_options = None, fd_platforms = None\<rparr>,
    \<lparr>fd_key = ''locationAgeMinutes'', fd_label = ''Minutes since location last confirmed'', fd_type = ''number'',
      fd_operators = [''greaterThan'', ''lessThan''], fd_options = None, fd_platforms = None\<rparr>]"

definition COMPLIANCE_FIELD_MITRE_HINTS :: "(string \<times> string list) list" where
  "COMPLIANCE_FIELD_MITRE_HINTS = [
    (''osVersion'', [''T1203'']),
    (''osEol'', [''T1203'']),
    (''osUpdatePendingCount'', [''T1203'']),
    (''osUpdateExploitedPending'', [''T1203'']),
    (''vulnPendingCveCount'', [''T1203'']),
    (''vulnExploitedPending'', [''T1203'']),
    (''vulnServiceCriticalHighCount'', [''T1203'']),
    (''vulnServiceHasKev'', [''T1203'']),
    (''appleAppUpdatesPending'', [''T1203'']),
    (''lastSeenDaysAgo'', [''T1562'', ''T1070'']),
    (''selfReportDaysAgo'', [''T1562'', ''T1070'']),
    (''hasSelfReported'', [''T1562'']),
    (''missingPolicyId'', [''T1562'']),
    (''requiredAppList'', [''T1562'']),
    (''disallowedAppList'', [''T1204'', ''T1105''])]"

definition MITRE_TACTICS :: "(string \<times> string \<times> nat) list" where
  "MITRE_TACTICS = [
    (''initial-access'', ''Initial Access'', 1),
    (''execution'', ''Execution'', 2),
    (''persistence'', ''Persistence'', 3),
    (''privilege-escalation'', ''Privilege Escalation'', 4),
    (''defense-evasion'', ''Defense Evasion'', 5),
    (''credential-access'', ''Credential Access'', 6),
    (''discovery'', ''Discovery'', 7),
    (''lateral-movement'', ''Lateral Movement'', 8),
    (''collection'', ''Collection'', 9),
    (''command-and-control'', ''Command and Control'', 10),
    (''exfiltration'', ''Exfiltration'', 11),
    (''impact'', ''Impact'', 12)]"

definition MITRE_TECHNIQUES :: "mitre_technique list" where
  "MITRE_TECHNIQUES = [
    \<lparr>mt_id = ''T1078'', mt_name = ''Valid Accounts'', mt_tactic = ''initial-access''\<rparr>,
    \<lparr>mt_id = ''T1566'', mt_name = ''Phishing'', mt_tactic = ''initial-access''\<rparr>,
    \<lparr>mt_id = ''T1195'', mt_name = ''Supply Chain Compromise'', mt_tactic = ''initial-access''\<rparr>,
    \<lparr>mt_id = ''T1204'', mt_name = ''User Execution'', mt_tactic = ''execution''\<rparr>,
    \<lparr>mt_id = ''T1059'', mt_name = ''Command and Scripting Interpreter'', mt_tactic = ''execution''\<rparr>,
    \<lparr>mt_id = ''T1203'', mt_name = ''Exploitation for Client Execution'', mt_tactic = ''execution''\<rparr>,
    \<lparr>mt_id = ''T1053'', mt_name = ''Scheduled Task/Job'', mt_tactic = ''persistence''\<rparr>,
    \<lparr>mt_id = ''T1547'', mt_name = ''Boot or Logon Autostart Execution'', mt_tactic = ''persistence''\<rparr>,
    \<lparr>mt_id = ''T1136'', mt_name = ''Create Account'', mt_tactic = ''persistence''\<rparr>,
    \<lparr>mt_id = ''T1098'', mt_name = ''Account Manipulation'', mt_tactic = ''persistence''\<rparr>,
    \<lparr>mt_id = ''T1556'', mt_name = ''Modify Authentication Process'', mt_tactic = ''credential-access''\<rparr>,
    \<lparr>mt_id = ''T1548'', mt_name = ''Abuse Elevation Control Mechanism'', mt_tactic = ''privilege-escalation''\<rparr>,
    \<lparr>mt_id = ''T1055'', mt_name = ''Process Injection'', mt_tactic = ''privilege-escalation''\<rparr>,
    \<lparr>mt_id = ''T1562'', mt_name = ''Impair Defenses'', mt_tactic = ''defense-evasion''\<rparr>,
    \<lparr>mt_id = ''T1070'', mt_name = ''Indicator Removal'', mt_tactic = ''defense-evasion''\<rparr>,
    \<lparr>mt_id = ''T1112'', mt_name = ''Modify Registry'', mt_tactic = ''defense-evasion''\<rparr>,
    \<lparr>mt_id = ''T1027'', mt_name = ''Obfuscated Files or Information'', mt_tactic = ''defense-evasion''\<rparr>,
    \<lparr>mt_id = ''T1553'', mt_name = ''Subvert Trust Controls'', mt_tactic = ''defense-evasion''\<rparr>,
    \<lparr>mt_id = ''T1497'', mt_name = ''Virtualization/Sandbox Evasion'', mt_tactic = ''defense-evasion''\<rparr>,
    \<lparr>mt_id = ''T1110'', mt_name = ''Brute Force'', mt_tactic = ''credential-access''\<rparr>,
    \<lparr>mt_id = ''T1003'', mt_name = ''OS Credential Dumping'', mt_tactic = ''credential-access''\<rparr>,
    \<lparr>mt_id = ''T1621'', mt_name = ''Multi-Factor Authentication Request Generation'', mt_tactic = ''credential-access''\<rparr>,
    \<lparr>mt_id = ''T1111'', mt_name = ''Multi-Factor Authentication Interception'', mt_tactic = ''credential-access''\<rparr>,
    \<lparr>mt_id = ''T1552'', mt_name = ''Unsecured Credentials'', mt_tactic = ''credential-access''\<rparr>,
    \<lparr>mt_id = ''T1082'', mt_name = ''System Information Discovery'', mt_tactic = ''discovery''\<rparr>,
    \<lparr>mt_id = ''T1518'', mt_name = ''Software Discovery'', mt_tactic = ''discovery''\<rparr>,
    \<lparr>mt_id = ''T1087'', mt_name = ''Account Discovery'', mt_tactic = ''discovery''\<rparr>,
    \<lparr>mt_id = ''T1069'', mt_name = ''Permission Groups Discovery'', mt_tactic = ''discovery''\<rparr>,
    \<lparr>mt_id = ''T1021'', mt_name = ''Remote Services'', mt_tactic = ''lateral-movement''\<rparr>,
    \<lparr>mt_id = ''T1560'', mt_name = ''Archive Collected Data'', mt_tactic = ''collection''\<rparr>,
    \<lparr>mt_id = ''T1119'', mt_name = ''Automated Collection'', mt_tactic = ''collection''\<rparr>,
    \<lparr>mt_id = ''T1005'', mt_name = ''Data from Local System'', mt_tactic = ''collection''\<rparr>,
    \<lparr>mt_id = ''T1071'', mt_name = ''Application Layer Protocol'', mt_tactic = ''command-and-control''\<rparr>,
    \<lparr>mt_id = ''T1105'', mt_name = ''Ingress Tool Transfer'', mt_tactic = ''command-and-control''\<rparr>,
    \<lparr>mt_id = ''T1219'', mt_name = ''Remote Access Software'', mt_tactic = ''command-and-control''\<rparr>,
    \<lparr>mt_id = ''T1090'', mt_name = ''Proxy'', mt_tactic = ''command-and-control''\<rparr>,
    \<lparr>mt_id = ''T1041'', mt_name = ''Exfiltration Over C2 Channel'', mt_tactic = ''exfiltration''\<rparr>,
    \<lparr>mt_id = ''T1567'', mt_name = ''Exfiltration Over Web Service'', mt_tactic = ''exfiltration''\<rparr>,
    \<lparr>mt_id = ''T1486'', mt_name = ''Data Encrypted for Impact'', mt_tactic = ''impact''\<rparr>,
    \<lparr>mt_id = ''T1490'', mt_name = ''Inhibit System Recovery'', mt_tactic = ''impact''\<rparr>,
    \<lparr>mt_id = ''T1531'', mt_name = ''Account Access Removal'', mt_tactic = ''impact''\<rparr>,
    \<lparr>mt_id = ''T1561'', mt_name = ''Disk Wipe'', mt_tactic = ''impact''\<rparr>,
    \<lparr>mt_id = ''T1496'', mt_name = ''Resource Hijacking'', mt_tactic = ''impact''\<rparr>]"

definition technique_by_id :: "string \<Rightarrow> mitre_technique option" where
  "technique_by_id i = map_of (map (\<lambda>t. (mt_id t, t)) (rev MITRE_TECHNIQUES)) i"

definition isKnownMitreTechnique :: "string \<Rightarrow> bool" where
  "isKnownMitreTechnique i = (technique_by_id i \<noteq> None)"

record mitre_suggestion =
  sg_technique :: mitre_technique
  sg_fields :: "string list"

definition suggest_one :: "string \<Rightarrow> string \<Rightarrow> (string \<times> mitre_suggestion) list \<Rightarrow> (string \<times> mitre_suggestion) list" where
  "suggest_one fieldKey techniqueId acc =
     (case technique_by_id techniqueId of
        None \<Rightarrow> acc
      | Some t \<Rightarrow>
          (let entry = (case map_of acc techniqueId of
                          Some e \<Rightarrow> e | None \<Rightarrow> \<lparr>sg_technique = t, sg_fields = []\<rparr>)
           in map_set techniqueId
                (if fieldKey \<in> set (sg_fields entry) then entry
                 else entry\<lparr>sg_fields := sg_fields entry @ [fieldKey]\<rparr>) acc))"

definition hints_of :: "string \<Rightarrow> string list" where
  "hints_of fieldKey = (case map_of COMPLIANCE_FIELD_MITRE_HINTS fieldKey of Some ts \<Rightarrow> ts | None \<Rightarrow> [])"

definition suggestMitreTechniquesForConditions :: "eval_condition list \<Rightarrow> mitre_suggestion list" where
  "suggestMitreTechniquesForConditions conditions =
     map snd (fold (\<lambda>c acc. if field c = [] then acc else fold (suggest_one (field c)) (hints_of (field c)) acc)
       conditions [])"

section \<open>Templates\<close>

record compliance_framework =
  fw_key :: string
  fw_label :: string
  fw_shortLabel :: string
  fw_description :: string
  fw_caveats :: string

record policy_template =
  tp_id :: string
  tp_framework :: string
  tp_controlRef :: string
  tp_targetPlatform :: "string option"
  tp_title :: string
  tp_severity :: string
  tp_conditionLogic :: string
  tp_description :: string
  tp_conditions :: "eval_condition list"

definition self_reported_is :: "string \<Rightarrow> string \<Rightarrow> eval_condition" where
  "self_reported_is name v =
     \<lparr>field = ''selfReportedAttribute'', operator = ''equals'',
      cond_value = JObj [(''name'', JStr name), (''compareValue'', JStr v)]\<rparr>"

definition custom_field_is :: "string \<Rightarrow> string \<Rightarrow> eval_condition" where
  "custom_field_is path v =
     \<lparr>field = ''customField'', operator = ''equals'',
      cond_value = JObj [(''path'', JStr path), (''compareValue'', JStr v)]\<rparr>"

definition plain_cond :: "string \<Rightarrow> string \<Rightarrow> jsval \<Rightarrow> eval_condition" where
  "plain_cond f op v = \<lparr>field = f, operator = op, cond_value = v\<rparr>"

definition encryptionCondition :: "string \<Rightarrow> eval_condition list" where
  "encryptionCondition platform =
     (if platform = ''android'' then [custom_field_is ''nativeSecurity.isEncrypted'' ''false'']
      else if platform = ''apple'' then [self_reported_is ''devicePasscodeSet'' ''false'']
      else [self_reported_is ''diskEncryptionEnabled'' ''false''])"

definition screenLockCondition :: "string \<Rightarrow> eval_condition list" where
  "screenLockCondition platform =
     (if platform = ''android'' then [custom_field_is ''nativeSecurity.isDeviceSecure'' ''false'']
      else if platform = ''apple'' then [self_reported_is ''devicePasscodeSet'' ''false'']
      else [self_reported_is ''screenLockEnabled'' ''false''])"

definition malwareProtectionCondition :: "string \<Rightarrow> eval_condition list" where
  "malwareProtectionCondition platform =
     (if platform = ''android'' then [custom_field_is ''nativeSecurity.verifyAppsEnabled'' ''false'']
      else if platform = ''windows'' then
        [self_reported_is ''antivirusEnabled'' ''false'', self_reported_is ''antivirusUpToDate'' ''false'']
      else [self_reported_is ''antivirusEnabled'' ''false''])"

definition firewallCondition :: "eval_condition list" where
  "firewallCondition = [self_reported_is ''firewallEnabled'' ''false'']"

definition windowsHardwareRootOfTrustCondition :: "eval_condition list" where
  "windowsHardwareRootOfTrustCondition =
     [self_reported_is ''tpmEnabled'' ''false'', self_reported_is ''secureBootEnabled'' ''false'']"

definition patchVulnCondition :: "string \<Rightarrow> eval_condition list" where
  "patchVulnCondition platform =
     (if platform = ''windows'' then
        [plain_cond ''osUpdateExploitedPending'' ''equals'' (JBool True),
         plain_cond ''osUpdatePendingCount'' ''greaterThan'' (jint 0),
         plain_cond ''osEol'' ''equals'' (JBool True)]
      else
        [plain_cond ''vulnExploitedPending'' ''equals'' (JBool True),
         plain_cond ''vulnPendingCveCount'' ''greaterThan'' (jint 0),
         plain_cond ''osEol'' ''equals'' (JBool True)])"

definition appleAppUpdatesCondition :: "eval_condition list" where
  "appleAppUpdatesCondition = [plain_cond ''appleAppUpdatesPending'' ''greaterThan'' (jint 0)]"

definition androidSecurityProviderCondition :: "eval_condition list" where
  "androidSecurityProviderCondition = [self_reported_is ''securityProviderUpToDate'' ''false'']"

definition androidKeystoreAttestationCondition :: "eval_condition list" where
  "androidKeystoreAttestationCondition =
     [self_reported_is ''keystoreAttestationSecurityLevel'' ''Software'',
      self_reported_is ''keystoreAttestationSecurityLevel'' ''Unavailable'']"

definition androidPlayIntegrityAppCondition :: "eval_condition list" where
  "androidPlayIntegrityAppCondition = [self_reported_is ''playIntegrityAppRecognized'' ''false'']"

definition androidPlayIntegrityDeviceCondition :: "eval_condition list" where
  "androidPlayIntegrityDeviceCondition =
     [self_reported_is ''playIntegrityVerdict'' ''NONE'', self_reported_is ''playIntegrityVerdict'' ''UNKNOWN'']"

definition deviceRootedOrJailbrokenCondition :: "eval_condition list" where
  "deviceRootedOrJailbrokenCondition = [self_reported_is ''deviceRootedOrJailbroken'' ''true'']"

definition deviceDebuggerAttachedCondition :: "eval_condition list" where
  "deviceDebuggerAttachedCondition = [self_reported_is ''deviceDebuggerAttached'' ''true'']"

definition deviceHookingFrameworkDetectedCondition :: "eval_condition list" where
  "deviceHookingFrameworkDetectedCondition = [self_reported_is ''deviceHookingFrameworkDetected'' ''true'']"

definition androidConfigPostureCondition :: "eval_condition list" where
  "androidConfigPostureCondition =
     [custom_field_is ''nativeSecurity.devicePosture'' ''AT_RISK'',
      custom_field_is ''nativeSecurity.devicePosture'' ''POTENTIALLY_COMPROMISED'',
      custom_field_is ''nativeSecurity.policyCompliant'' ''false'',
      custom_field_is ''nativeSecurity.adbEnabled'' ''true'',
      custom_field_is ''nativeSecurity.unknownSourcesEnabled'' ''true'']"

definition staleCheckinCondition :: "int \<Rightarrow> eval_condition list" where
  "staleCheckinCondition days = [plain_cond ''lastSeenDaysAgo'' ''greaterThan'' (jint days)]"

definition highRiskTierCondition :: "eval_condition list" where
  "highRiskTierCondition =
     [plain_cond ''riskTier'' ''equals'' (JStr ''high''), plain_cond ''riskTier'' ''equals'' (JStr ''critical'')]"

definition COMPLIANCE_FRAMEWORKS :: "compliance_framework list" where
  "COMPLIANCE_FRAMEWORKS = [
    \<lparr>fw_key = ''iso27001'', fw_label = ''ISO/IEC 27001:2022'', fw_shortLabel = ''ISO 27001'',
      fw_description = ''Annex A.8.1 (User Endpoint Devices) and related technical controls (A.8.7 malware protection, A.8.24 cryptography).'',
      fw_caveats = ''Covers the device-configuration controls only. ISO 27001 certification also requires an ISMS (risk assessment, statement of applicability, management review, internal audit) that has no device-policy equivalent.''\<rparr>,
    \<lparr>fw_key = ''ens'', fw_label = ''Esquema Nacional de Seguridad (ENS, RD 311/2022)'', fw_shortLabel = ''ENS'',
      fw_description = ''mp.eq (protecci'' @ [CHR 0xC3, CHR 0xB3] @ ''n de equipos) '' @ em_dash @ '' measures for portable/mobile equipment: encryption, screen lock, inventory, incident-reporting timeliness.'',
      fw_caveats = ''ENS conformity assessment covers all 8 measure families across the org'' @ [CHR 0x27] @ ''s declared security category (b'' @ [CHR 0xC3, CHR 0xA1] @ ''sica/media/alta); mp.eq is only one family. Category-dependent mandatory controls (e.g. encryption is only mandatory at categor'' @ [CHR 0xC3, CHR 0xAD] @ ''a alta) should be confirmed against your declared category before enabling autoRun.''\<rparr>,
    \<lparr>fw_key = ''nis2'', fw_label = ''NIS2 Directive (EU 2022/2555)'', fw_shortLabel = ''NIS2'',
      fw_description = ''Article 21(2) cybersecurity risk-management measures '' @ em_dash @ '' cyber hygiene subset: device configuration, vulnerability handling, cryptography/encryption, asset visibility.'',
      fw_caveats = ''Article 21 covers ten measure areas; several (supply-chain security, incident-handling procedures, business continuity, governance/training) are organizational, not device-level. Applies to entities in scope as '' @ [CHR 0x27] @ ''essential'' @ [CHR 0x27] @ '' or '' @ [CHR 0x27] @ ''important'' @ [CHR 0x27] @ '' under NIS2'' @ [CHR 0x27] @ ''s sector annexes.''\<rparr>]"

definition policy_templates_1 :: "policy_template list" where
  "policy_templates_1 = [
    \<lparr>tp_id = ''iso27001-encryption-windows'', tp_framework = ''iso27001'', tp_controlRef = ''Annex A.8.24'', tp_targetPlatform = Some ''windows'',
      tp_title = ''Disk encryption (BitLocker) not enabled'', tp_severity = ''high'', tp_conditionLogic = ''any'',
      tp_description = ''Flags Windows devices self-reporting BitLocker disk encryption as disabled.'',
      tp_conditions = encryptionCondition ''windows''\<rparr>,
    \<lparr>tp_id = ''iso27001-encryption-macos'', tp_framework = ''iso27001'', tp_controlRef = ''Annex A.8.24'', tp_targetPlatform = Some ''macos'',
      tp_title = ''Disk encryption (FileVault) not enabled'', tp_severity = ''high'', tp_conditionLogic = ''any'',
      tp_description = ''Flags macOS devices self-reporting FileVault disk encryption as disabled.'',
      tp_conditions = encryptionCondition ''macos''\<rparr>,
    \<lparr>tp_id = ''iso27001-encryption-android'', tp_framework = ''iso27001'', tp_controlRef = ''Annex A.8.24'', tp_targetPlatform = Some ''android'',
      tp_title = ''Device encryption not confirmed'', tp_severity = ''high'', tp_conditionLogic = ''any'',
      tp_description = ''Flags Android devices whose Android Management API security state confirms they'' @ [CHR 0x27] @ ''re unencrypted.'',
      tp_conditions = encryptionCondition ''android''\<rparr>,
    \<lparr>tp_id = ''iso27001-encryption-apple'', tp_framework = ''iso27001'', tp_controlRef = ''Annex A.8.24'', tp_targetPlatform = Some ''apple'',
      tp_title = ''Device passcode not set (no Data Protection encryption)'', tp_severity = ''high'', tp_conditionLogic = ''any'',
      tp_description = ''iOS has no standalone encryption toggle -- Data Protection full-disk encryption is only active once a device passcode is set. Flags iOS/iPadOS devices self-reporting no passcode configured, via the SOAR Mobile Agent'' @ [CHR 0x27] @ ''s Keychain-accessibility probe.'',
      tp_conditions = encryptionCondition ''apple''\<rparr>,
    \<lparr>tp_id = ''iso27001-crypto-hardware-windows'', tp_framework = ''iso27001'', tp_controlRef = ''Annex A.8.24'', tp_targetPlatform = Some ''windows'',
      tp_title = ''TPM / Secure Boot not enabled'', tp_severity = ''high'', tp_conditionLogic = ''any'',
      tp_description = ''Supplements BitLocker: TPM anchors the encryption key in hardware and Secure Boot blocks unsigned boot-chain tampering. Either disabled weakens the cryptographic root of trust '' @ em_dash @ '' a Windows-specific control with no macOS/Android/iOS equivalent.'',
      tp_conditions = windowsHardwareRootOfTrustCondition\<rparr>,
    \<lparr>tp_id = ''iso27001-screen-lock-windows'', tp_framework = ''iso27001'', tp_controlRef = ''Annex A.8.5'', tp_targetPlatform = Some ''windows'',
      tp_title = ''Screen lock not enforced'', tp_severity = ''medium'', tp_conditionLogic = ''any'',
      tp_description = ''Flags Windows devices self-reporting screen lock disabled.'',
      tp_conditions = screenLockCondition ''windows''\<rparr>,
    \<lparr>tp_id = ''iso27001-screen-lock-macos'', tp_framework = ''iso27001'', tp_controlRef = ''Annex A.8.5'', tp_targetPlatform = Some ''macos'',
      tp_title = ''Screen lock not enforced'', tp_severity = ''medium'', tp_conditionLogic = ''any'',
      tp_description = ''Flags macOS devices self-reporting screen lock disabled.'',
      tp_conditions = screenLockCondition ''macos''\<rparr>,
    \<lparr>tp_id = ''iso27001-screen-lock-android'', tp_framework = ''iso27001'', tp_controlRef = ''Annex A.8.5'', tp_targetPlatform = Some ''android'',
      tp_title = ''Screen lock not enforced'', tp_severity = ''medium'', tp_conditionLogic = ''any'',
      tp_description = ''Flags Android devices the Android Management API reports as not secured with a lock screen.'',
      tp_conditions = screenLockCondition ''android''\<rparr>,
    \<lparr>tp_id = ''iso27001-screen-lock-apple'', tp_framework = ''iso27001'', tp_controlRef = ''Annex A.8.5'', tp_targetPlatform = Some ''apple'',
      tp_title = ''Device passcode / screen lock not set'', tp_severity = ''medium'', tp_conditionLogic = ''any'',
      tp_description = ''Flags iOS/iPadOS devices self-reporting no passcode configured -- on iOS this is the screen lock, self-reported by the SOAR Mobile Agent.'',
      tp_conditions = screenLockCondition ''apple''\<rparr>,
    \<lparr>tp_id = ''iso27001-malware-windows'', tp_framework = ''iso27001'', tp_controlRef = ''Annex A.8.7'', tp_targetPlatform = Some ''windows'',
      tp_title = ''Anti-malware protection inactive'', tp_severity = ''high'', tp_conditionLogic = ''any'',
      tp_description = ''Flags Windows devices self-reporting Defender disabled or its definitions out of date.'',
      tp_conditions = malwareProtectionCondition ''windows''\<rparr>,
    \<lparr>tp_id = ''iso27001-malware-macos'', tp_framework = ''iso27001'', tp_controlRef = ''Annex A.8.7'', tp_targetPlatform = Some ''macos'',
      tp_title = ''Anti-malware protection inactive'', tp_severity = ''high'', tp_conditionLogic = ''any'',
      tp_description = ''Flags macOS devices self-reporting XProtect (or an equivalent deployed agent) disabled.'',
      tp_conditions = malwareProtectionCondition ''macos''\<rparr>,
    \<lparr>tp_id = ''iso27001-malware-android'', tp_framework = ''iso27001'', tp_controlRef = ''Annex A.8.7'', tp_targetPlatform = Some ''android'',
      tp_title = ''Play Protect app verification disabled'', tp_severity = ''high'', tp_conditionLogic = ''any'',
      tp_description = ''Android has no 3rd-party AV agent path here '' @ em_dash @ '' Play Protect'' @ [CHR 0x27] @ ''s app-verification toggle is the realistic mobile equivalent of anti-malware scanning.'',
      tp_conditions = malwareProtectionCondition ''android''\<rparr>,
    \<lparr>tp_id = ''iso27001-root-jailbreak-android'', tp_framework = ''iso27001'', tp_controlRef = ''Annex A.8.7'', tp_targetPlatform = Some ''android'',
      tp_title = ''Device rooted or otherwise compromised'', tp_severity = ''critical'', tp_conditionLogic = ''any'',
      tp_description = ''Flags Android devices where the SOAR Mobile Agent'' @ [CHR 0x27] @ ''s root-detection foundation (su binaries, root-management apps, debugger/timing/Frida/Xposed indicators, a writable /system partition, or an emulator fingerprint) found any sign of compromise.'',
      tp_conditions = deviceRootedOrJailbrokenCondition\<rparr>,
    \<lparr>tp_id = ''iso27001-jailbreak-apple'', tp_framework = ''iso27001'', tp_controlRef = ''Annex A.8.7'', tp_targetPlatform = Some ''apple'',
      tp_title = ''Device jailbroken'', tp_severity = ''critical'', tp_conditionLogic = ''any'',
      tp_description = ''Flags iOS/iPadOS devices where the SOAR Mobile Agent'' @ [CHR 0x27] @ ''s jailbreak-detection foundation (suspicious app/system paths, a sandbox-escape write, an openable jailbreak-tool URL scheme, or an injected substrate dylib) found any sign of compromise.'',
      tp_conditions = deviceRootedOrJailbrokenCondition\<rparr>,
    \<lparr>tp_id = ''iso27001-debugger-attached-android'', tp_framework = ''iso27001'', tp_controlRef = ''Annex A.8.7'', tp_targetPlatform = Some ''android'',
      tp_title = ''Debugger attached to the app process'', tp_severity = ''critical'', tp_conditionLogic = ''any'',
      tp_description = ''Phase 5 in-house RASP: flags Android devices where the SOAR Mobile Agent detects a live debugger/tracer attached to its own process (TracerPid or Debug.isDebuggerConnected()) '' @ em_dash @ '' a strong reverse-engineering/tampering-in-progress signal, distinct from root status.'',
      tp_conditions = deviceDebuggerAttachedCondition\<rparr>,
    \<lparr>tp_id = ''iso27001-debugger-attached-apple'', tp_framework = ''iso27001'', tp_controlRef = ''Annex A.8.7'', tp_targetPlatform = Some ''apple'',
      tp_title = ''Debugger attached to the app process'', tp_severity = ''critical'', tp_conditionLogic = ''any'',
      tp_description = ''Phase 5 in-house RASP: flags iOS/iPadOS devices where the SOAR Mobile Agent detects a debugger attached via Apple'' @ [CHR 0x27] @ ''s documented sysctl P_TRACED technique '' @ em_dash @ '' distinct from jailbreak status.'',
      tp_conditions = deviceDebuggerAttachedCondition\<rparr>,
    \<lparr>tp_id = ''iso27001-hooking-framework-android'', tp_framework = ''iso27001'', tp_controlRef = ''Annex A.8.7'', tp_targetPlatform = Some ''android'',
      tp_title = ''Hooking/instrumentation framework detected'', tp_severity = ''critical'', tp_conditionLogic = ''any'',
      tp_description = ''Phase 5 in-house RASP: flags Android devices where Frida, Xposed/LSPosed, or another hooking framework was detected (server file/port, or a marker found in /proc/self/maps) '' @ em_dash @ '' indicates active runtime tampering/instrumentation.'',
      tp_conditions = deviceHookingFrameworkDetectedCondition\<rparr>,
    \<lparr>tp_id = ''iso27001-hooking-framework-apple'', tp_framework = ''iso27001'', tp_controlRef = ''Annex A.8.7'', tp_targetPlatform = Some ''apple'',
      tp_title = ''Hooking/instrumentation framework detected'', tp_severity = ''critical'', tp_conditionLogic = ''any'',
      tp_description = ''Phase 5 in-house RASP: flags iOS/iPadOS devices where a substrate/Frida/Cycript-style hooking library was found loaded (dlopen probe or a dyld loaded-image scan) '' @ em_dash @ '' indicates active runtime tampering/instrumentation.'',
      tp_conditions = deviceHookingFrameworkDetectedCondition\<rparr>,
    \<lparr>tp_id = ''iso27001-firewall-windows'', tp_framework = ''iso27001'', tp_controlRef = ''Annex A.8.20'', tp_targetPlatform = Some ''windows'',
      tp_title = ''Host firewall disabled'', tp_severity = ''medium'', tp_conditionLogic = ''any'',
      tp_description = ''Flags Windows devices self-reporting their local firewall disabled.'',
      tp_conditions = firewallCondition\<rparr>,
    \<lparr>tp_id = ''iso27001-firewall-macos'', tp_framework = ''iso27001'', tp_controlRef = ''Annex A.8.20'', tp_targetPlatform = Some ''macos'',
      tp_title = ''Host firewall disabled'', tp_severity = ''medium'', tp_conditionLogic = ''any'',
      tp_description = ''Flags macOS devices self-reporting their local firewall disabled.'',
      tp_conditions = firewallCondition\<rparr>,
    \<lparr>tp_id = ''iso27001-vuln-windows'', tp_framework = ''iso27001'', tp_controlRef = ''Annex A.8.8'', tp_targetPlatform = Some ''windows'',
      tp_title = ''Unpatched or end-of-life Windows'', tp_severity = ''high'', tp_conditionLogic = ''any'',
      tp_description = ''Flags Windows devices with a pending fix for an exploited CVE, any pending security update, or an end-of-life OS build (MSRC-backed).'',
      tp_conditions = patchVulnCondition ''windows''\<rparr>,
    \<lparr>tp_id = ''iso27001-vuln-macos'', tp_framework = ''iso27001'', tp_controlRef = ''Annex A.8.8'', tp_targetPlatform = Some ''macos'',
      tp_title = ''Unpatched or end-of-life macOS'', tp_severity = ''high'', tp_conditionLogic = ''any'',
      tp_description = ''Flags macOS devices with a pending exploited CVE, any pending known CVE, or an end-of-life OS build.'',
      tp_conditions = patchVulnCondition ''macos''\<rparr>,
    \<lparr>tp_id = ''iso27001-vuln-android'', tp_framework = ''iso27001'', tp_controlRef = ''Annex A.8.8'', tp_targetPlatform = Some ''android'',
      tp_title = ''Unpatched or end-of-life Android'', tp_severity = ''high'', tp_conditionLogic = ''any'',
      tp_description = ''Flags Android devices with a pending exploited CVE, any pending known CVE, or an end-of-life OS build.'',
      tp_conditions = patchVulnCondition ''android''\<rparr>,
    \<lparr>tp_id = ''iso27001-vuln-apple'', tp_framework = ''iso27001'', tp_controlRef = ''Annex A.8.8'', tp_targetPlatform = Some ''apple'',
      tp_title = ''Unpatched or end-of-life iOS/iPadOS'', tp_severity = ''high'', tp_conditionLogic = ''any'',
      tp_description = ''Flags iOS/iPadOS devices with a pending exploited CVE, any pending known CVE, or an end-of-life OS build '' @ em_dash @ '' the only patch-currency signal this app has for iOS, which exposes no local security-posture telemetry at all.'',
      tp_conditions = patchVulnCondition ''apple''\<rparr>,
    \<lparr>tp_id = ''iso27001-android-config-posture'', tp_framework = ''iso27001'', tp_controlRef = ''Annex A.8.9'', tp_targetPlatform = Some ''android'',
      tp_title = ''Insecure Android configuration or device posture'', tp_severity = ''high'', tp_conditionLogic = ''any'',
      tp_description = ''Flags Android devices flagged AT_RISK/POTENTIALLY_COMPROMISED by Android Enterprise'' @ [CHR 0x27] @ ''s own device-posture signal, not policy-compliant, with USB debugging on, or with sideloading from unknown sources allowed.'',
      tp_conditions = androidConfigPostureCondition\<rparr>]"

definition policy_templates_2 :: "policy_template list" where
  "policy_templates_2 = [
    \<lparr>tp_id = ''iso27001-security-provider-android'', tp_framework = ''iso27001'', tp_controlRef = ''Annex A.8.24'', tp_targetPlatform = Some ''android'',
      tp_title = ''SSL/TLS security provider not up to date'', tp_severity = ''medium'', tp_conditionLogic = ''any'',
      tp_description = ''Flags Android devices the SOAR Mobile Agent reports as failing ProviderInstaller.installIfNeeded() -- the device'' @ [CHR 0x27] @ ''s SSL/TLS implementation may be vulnerable to known exploits until Google Play services patches it.'',
      tp_conditions = androidSecurityProviderCondition\<rparr>,
    \<lparr>tp_id = ''iso27001-keystore-attestation-android'', tp_framework = ''iso27001'', tp_controlRef = ''Annex A.8.24'', tp_targetPlatform = Some ''android'',
      tp_title = ''No hardware-backed key storage confirmed'', tp_severity = ''medium'', tp_conditionLogic = ''any'',
      tp_description = ''Flags Android devices where the SOAR Mobile Agent'' @ [CHR 0x27] @ ''s KeyStore attestation probe found no StrongBox/TEE-backed key protection (or couldn'' @ [CHR 0x27] @ ''t determine one) -- the Android analogue of ISO27001'' @ [CHR 0x27] @ ''s Windows TPM/Secure Boot check above.'',
      tp_conditions = androidKeystoreAttestationCondition\<rparr>,
    \<lparr>tp_id = ''iso27001-play-integrity-app-android'', tp_framework = ''iso27001'', tp_controlRef = ''Annex A.8.24'', tp_targetPlatform = Some ''android'',
      tp_title = ''App integrity not confirmed by Google Play Integrity'', tp_severity = ''high'', tp_conditionLogic = ''any'',
      tp_description = ''Flags Android devices where a verified Play Integrity Classic API token reports the running app isn'' @ [CHR 0x27] @ ''t the genuine, Play-distributed, unmodified APK -- possible tampering or a repackaged/sideloaded build.'',
      tp_conditions = androidPlayIntegrityAppCondition\<rparr>,
    \<lparr>tp_id = ''iso27001-play-integrity-device-android'', tp_framework = ''iso27001'', tp_controlRef = ''Annex A.8.24'', tp_targetPlatform = Some ''android'',
      tp_title = ''Device integrity not confirmed by Google Play Integrity'', tp_severity = ''high'', tp_conditionLogic = ''any'',
      tp_description = ''Flags Android devices where a verified Play Integrity Classic API token reports no recognized device-integrity tier -- Google'' @ [CHR 0x27] @ ''s own high-probability signal for a rooted, Magisk/KernelSU-modified, Xposed-hooked, or property-spoofing device.'',
      tp_conditions = androidPlayIntegrityDeviceCondition\<rparr>,
    \<lparr>tp_id = ''iso27001-stale-inventory'', tp_framework = ''iso27001'', tp_controlRef = ''Annex A.5.9'', tp_targetPlatform = None,
      tp_title = ''Device hasn'' @ [CHR 0x27] @ ''t checked in recently'', tp_severity = ''low'', tp_conditionLogic = ''any'',
      tp_description = ''Flags devices that haven'' @ [CHR 0x27] @ ''t checked in for over 30 days '' @ em_dash @ '' a stale inventory undermines every other endpoint control, regardless of platform.'',
      tp_conditions = staleCheckinCondition 30\<rparr>,
    \<lparr>tp_id = ''iso27001-app-updates-apple'', tp_framework = ''iso27001'', tp_controlRef = ''Annex A.8.1'', tp_targetPlatform = Some ''apple'',
      tp_title = ''Pending App Store app updates'', tp_severity = ''medium'', tp_conditionLogic = ''any'',
      tp_description = ''Flags iOS/iPadOS devices with pending App Store app updates '' @ em_dash @ '' outdated apps are a common vector once the OS itself is current.'',
      tp_conditions = appleAppUpdatesCondition\<rparr>,
    \<lparr>tp_id = ''iso27001-app-updates-macos'', tp_framework = ''iso27001'', tp_controlRef = ''Annex A.8.1'', tp_targetPlatform = Some ''macos'',
      tp_title = ''Pending App Store app updates'', tp_severity = ''medium'', tp_conditionLogic = ''any'',
      tp_description = ''Flags macOS devices with pending App Store app updates.'',
      tp_conditions = appleAppUpdatesCondition\<rparr>,
    \<lparr>tp_id = ''ens-encryption-windows'', tp_framework = ''ens'', tp_controlRef = ''mp.eq.3'', tp_targetPlatform = Some ''windows'',
      tp_title = ''Cifrado no aplicado en equipo Windows / Windows device encryption not enforced'', tp_severity = ''high'', tp_conditionLogic = ''any'',
      tp_description = ''mp.eq.3 (protecci'' @ [CHR 0xC3, CHR 0xB3] @ ''n de dispositivos port'' @ [CHR 0xC3, CHR 0xA1] @ ''tiles): flags Windows devices self-reporting BitLocker disabled. Mandatory at categor'' @ [CHR 0xC3, CHR 0xAD] @ ''a alta for equipment that leaves controlled premises.'',
      tp_conditions = encryptionCondition ''windows''\<rparr>,
    \<lparr>tp_id = ''ens-encryption-macos'', tp_framework = ''ens'', tp_controlRef = ''mp.eq.3'', tp_targetPlatform = Some ''macos'',
      tp_title = ''Cifrado no aplicado en equipo macOS / macOS device encryption not enforced'', tp_severity = ''high'', tp_conditionLogic = ''any'',
      tp_description = ''mp.eq.3: flags macOS devices self-reporting FileVault disabled.'',
      tp_conditions = encryptionCondition ''macos''\<rparr>,
    \<lparr>tp_id = ''ens-encryption-android'', tp_framework = ''ens'', tp_controlRef = ''mp.eq.3'', tp_targetPlatform = Some ''android'',
      tp_title = ''Cifrado no confirmado en dispositivo Android / Android device encryption not confirmed'', tp_severity = ''high'', tp_conditionLogic = ''any'',
      tp_description = ''mp.eq.3: flags Android devices the Android Management API confirms are unencrypted.'',
      tp_conditions = encryptionCondition ''android''\<rparr>,
    \<lparr>tp_id = ''ens-encryption-apple'', tp_framework = ''ens'', tp_controlRef = ''mp.eq.3'', tp_targetPlatform = Some ''apple'',
      tp_title = ''Cifrado no confirmado en dispositivo iOS / iOS device encryption not confirmed'', tp_severity = ''high'', tp_conditionLogic = ''any'',
      tp_description = ''mp.eq.3: iOS ties Data Protection encryption to the device passcode -- flags iOS/iPadOS devices the SOAR Mobile Agent reports as having no passcode set. Mandatory at categor'' @ [CHR 0xC3, CHR 0xAD] @ ''a alta for equipment that leaves controlled premises.'',
      tp_conditions = encryptionCondition ''apple''\<rparr>,
    \<lparr>tp_id = ''ens-checkin-windows'', tp_framework = ''ens'', tp_controlRef = ''mp.eq.3'', tp_targetPlatform = Some ''windows'',
      tp_title = ''Equipo sin contacto reciente / Device unreachable beyond reporting window'', tp_severity = ''medium'', tp_conditionLogic = ''any'',
      tp_description = ''mp.eq.3 (riesgo de p'' @ [CHR 0xC3, CHR 0xA9] @ ''rdida/robo): flags Windows laptops offline for over 14 days.'',
      tp_conditions = staleCheckinCondition 14\<rparr>,
    \<lparr>tp_id = ''ens-checkin-macos'', tp_framework = ''ens'', tp_controlRef = ''mp.eq.3'', tp_targetPlatform = Some ''macos'',
      tp_title = ''Equipo sin contacto reciente / Device unreachable beyond reporting window'', tp_severity = ''medium'', tp_conditionLogic = ''any'',
      tp_description = ''mp.eq.3: flags macOS laptops offline for over 14 days.'',
      tp_conditions = staleCheckinCondition 14\<rparr>,
    \<lparr>tp_id = ''ens-checkin-android'', tp_framework = ''ens'', tp_controlRef = ''mp.eq.3'', tp_targetPlatform = Some ''android'',
      tp_title = ''Dispositivo m'' @ [CHR 0xC3, CHR 0xB3] @ ''vil sin contacto reciente / Mobile device unreachable beyond reporting window'', tp_severity = ''high'', tp_conditionLogic = ''any'',
      tp_description = ''mp.eq.3: a tighter 3-day window for Android '' @ em_dash @ '' phones/tablets carry a materially higher loss/theft exposure than desks-bound laptops, so ENS expects faster identification.'',
      tp_conditions = staleCheckinCondition 3\<rparr>,
    \<lparr>tp_id = ''ens-checkin-apple'', tp_framework = ''ens'', tp_controlRef = ''mp.eq.3'', tp_targetPlatform = Some ''apple'',
      tp_title = ''Dispositivo m'' @ [CHR 0xC3, CHR 0xB3] @ ''vil sin contacto reciente / Mobile device unreachable beyond reporting window'', tp_severity = ''high'', tp_conditionLogic = ''any'',
      tp_description = ''mp.eq.3: same tightened 3-day window for iOS/iPadOS as Android '' @ em_dash @ '' this is also the only loss/theft-relevant signal this app has for iOS, since it has no local security telemetry.'',
      tp_conditions = staleCheckinCondition 3\<rparr>,
    \<lparr>tp_id = ''ens-screen-lock-windows'', tp_framework = ''ens'', tp_controlRef = ''mp.eq.2'', tp_targetPlatform = Some ''windows'',
      tp_title = ''Bloqueo de puesto de trabajo no activo / Workstation lock not active'', tp_severity = ''medium'', tp_conditionLogic = ''any'',
      tp_description = ''mp.eq.2 (bloqueo de puesto de trabajo): flags Windows devices self-reporting screen lock disabled.'',
      tp_conditions = screenLockCondition ''windows''\<rparr>,
    \<lparr>tp_id = ''ens-screen-lock-macos'', tp_framework = ''ens'', tp_controlRef = ''mp.eq.2'', tp_targetPlatform = Some ''macos'',
      tp_title = ''Bloqueo de puesto de trabajo no activo / Workstation lock not active'', tp_severity = ''medium'', tp_conditionLogic = ''any'',
      tp_description = ''mp.eq.2: flags macOS devices self-reporting screen lock disabled.'',
      tp_conditions = screenLockCondition ''macos''\<rparr>,
    \<lparr>tp_id = ''ens-screen-lock-android'', tp_framework = ''ens'', tp_controlRef = ''mp.eq.2'', tp_targetPlatform = Some ''android'',
      tp_title = ''Bloqueo de pantalla no activo / Screen lock not active'', tp_severity = ''medium'', tp_conditionLogic = ''any'',
      tp_description = ''mp.eq.2: flags Android devices without a configured lock screen.'',
      tp_conditions = screenLockCondition ''android''\<rparr>,
    \<lparr>tp_id = ''ens-screen-lock-apple'', tp_framework = ''ens'', tp_controlRef = ''mp.eq.2'', tp_targetPlatform = Some ''apple'',
      tp_title = ''Bloqueo de pantalla no activo / Screen lock not active'', tp_severity = ''medium'', tp_conditionLogic = ''any'',
      tp_description = ''mp.eq.2: flags iOS/iPadOS devices the SOAR Mobile Agent reports as having no passcode (screen lock) set.'',
      tp_conditions = screenLockCondition ''apple''\<rparr>,
    \<lparr>tp_id = ''ens-malware-windows'', tp_framework = ''ens'', tp_controlRef = ''op.exp.6'', tp_targetPlatform = Some ''windows'',
      tp_title = ''Protecci'' @ [CHR 0xC3, CHR 0xB3] @ ''n frente a c'' @ [CHR 0xC3, CHR 0xB3] @ ''digo da'' @ [CHR 0xC3, CHR 0xB1] @ ''ino inactiva / Malware protection inactive'', tp_severity = ''high'', tp_conditionLogic = ''any'',
      tp_description = ''op.exp.6 (protecci'' @ [CHR 0xC3, CHR 0xB3] @ ''n frente a c'' @ [CHR 0xC3, CHR 0xB3] @ ''digo da'' @ [CHR 0xC3, CHR 0xB1] @ ''ino): flags Windows devices with Defender disabled or its definitions stale.'',
      tp_conditions = malwareProtectionCondition ''windows''\<rparr>,
    \<lparr>tp_id = ''ens-malware-macos'', tp_framework = ''ens'', tp_controlRef = ''op.exp.6'', tp_targetPlatform = Some ''macos'',
      tp_title = ''Protecci'' @ [CHR 0xC3, CHR 0xB3] @ ''n frente a c'' @ [CHR 0xC3, CHR 0xB3] @ ''digo da'' @ [CHR 0xC3, CHR 0xB1] @ ''ino inactiva / Malware protection inactive'', tp_severity = ''high'', tp_conditionLogic = ''any'',
      tp_description = ''op.exp.6: flags macOS devices with anti-malware protection disabled.'',
      tp_conditions = malwareProtectionCondition ''macos''\<rparr>,
    \<lparr>tp_id = ''ens-malware-android'', tp_framework = ''ens'', tp_controlRef = ''op.exp.6'', tp_targetPlatform = Some ''android'',
      tp_title = ''Play Protect desactivado / Play Protect disabled'', tp_severity = ''high'', tp_conditionLogic = ''any'',
      tp_description = ''op.exp.6: Android'' @ [CHR 0x27] @ ''s realistic equivalent is Play Protect'' @ [CHR 0x27] @ ''s app-verification toggle, not a 3rd-party agent.'',
      tp_conditions = malwareProtectionCondition ''android''\<rparr>,
    \<lparr>tp_id = ''ens-root-jailbreak-android'', tp_framework = ''ens'', tp_controlRef = ''op.exp.6'', tp_targetPlatform = Some ''android'',
      tp_title = ''Dispositivo rooteado o comprometido / Device rooted or otherwise compromised'', tp_severity = ''critical'', tp_conditionLogic = ''any'',
      tp_description = ''op.exp.6: flags Android devices where the SOAR Mobile Agent'' @ [CHR 0x27] @ ''s root-detection foundation found any sign of compromise.'',
      tp_conditions = deviceRootedOrJailbrokenCondition\<rparr>,
    \<lparr>tp_id = ''ens-jailbreak-apple'', tp_framework = ''ens'', tp_controlRef = ''op.exp.6'', tp_targetPlatform = Some ''apple'',
      tp_title = ''Dispositivo con jailbreak / Device jailbroken'', tp_severity = ''critical'', tp_conditionLogic = ''any'',
      tp_description = ''op.exp.6: flags iOS/iPadOS devices where the SOAR Mobile Agent'' @ [CHR 0x27] @ ''s jailbreak-detection foundation found any sign of compromise.'',
      tp_conditions = deviceRootedOrJailbrokenCondition\<rparr>]"

definition policy_templates_3 :: "policy_template list" where
  "policy_templates_3 = [
    \<lparr>tp_id = ''ens-debugger-attached-android'', tp_framework = ''ens'', tp_controlRef = ''op.exp.6'', tp_targetPlatform = Some ''android'',
      tp_title = ''Depurador conectado al proceso / Debugger attached to app process'', tp_severity = ''critical'', tp_conditionLogic = ''any'',
      tp_description = ''op.exp.6 (Phase 5 in-house RASP): flags Android devices with a live debugger/tracer attached to the SOAR Mobile Agent'' @ [CHR 0x27] @ ''s own process.'',
      tp_conditions = deviceDebuggerAttachedCondition\<rparr>,
    \<lparr>tp_id = ''ens-debugger-attached-apple'', tp_framework = ''ens'', tp_controlRef = ''op.exp.6'', tp_targetPlatform = Some ''apple'',
      tp_title = ''Depurador conectado al proceso / Debugger attached to app process'', tp_severity = ''critical'', tp_conditionLogic = ''any'',
      tp_description = ''op.exp.6 (Phase 5 in-house RASP): flags iOS/iPadOS devices with a debugger attached via Apple'' @ [CHR 0x27] @ ''s documented sysctl P_TRACED technique.'',
      tp_conditions = deviceDebuggerAttachedCondition\<rparr>,
    \<lparr>tp_id = ''ens-hooking-framework-android'', tp_framework = ''ens'', tp_controlRef = ''op.exp.6'', tp_targetPlatform = Some ''android'',
      tp_title = ''Framework de instrumentaci'' @ [CHR 0xC3, CHR 0xB3] @ ''n detectado / Hooking framework detected'', tp_severity = ''critical'', tp_conditionLogic = ''any'',
      tp_description = ''op.exp.6 (Phase 5 in-house RASP): flags Android devices where Frida, Xposed/LSPosed, or another hooking framework was detected.'',
      tp_conditions = deviceHookingFrameworkDetectedCondition\<rparr>,
    \<lparr>tp_id = ''ens-hooking-framework-apple'', tp_framework = ''ens'', tp_controlRef = ''op.exp.6'', tp_targetPlatform = Some ''apple'',
      tp_title = ''Framework de instrumentaci'' @ [CHR 0xC3, CHR 0xB3] @ ''n detectado / Hooking framework detected'', tp_severity = ''critical'', tp_conditionLogic = ''any'',
      tp_description = ''op.exp.6 (Phase 5 in-house RASP): flags iOS/iPadOS devices where a substrate/Frida/Cycript-style hooking library was found loaded.'',
      tp_conditions = deviceHookingFrameworkDetectedCondition\<rparr>,
    \<lparr>tp_id = ''ens-maintenance-vuln-windows'', tp_framework = ''ens'', tp_controlRef = ''op.exp.4'', tp_targetPlatform = Some ''windows'',
      tp_title = ''Mantenimiento pendiente / Pending maintenance (unpatched or EOL)'', tp_severity = ''high'', tp_conditionLogic = ''any'',
      tp_description = ''op.exp.4 (mantenimiento): flags Windows devices with an exploited-CVE fix pending, any pending security update, or an end-of-life OS build.'',
      tp_conditions = patchVulnCondition ''windows''\<rparr>,
    \<lparr>tp_id = ''ens-maintenance-vuln-macos'', tp_framework = ''ens'', tp_controlRef = ''op.exp.4'', tp_targetPlatform = Some ''macos'',
      tp_title = ''Mantenimiento pendiente / Pending maintenance (unpatched or EOL)'', tp_severity = ''high'', tp_conditionLogic = ''any'',
      tp_description = ''op.exp.4: flags macOS devices with a pending exploited CVE, any pending known CVE, or an end-of-life OS build.'',
      tp_conditions = patchVulnCondition ''macos''\<rparr>,
    \<lparr>tp_id = ''ens-maintenance-vuln-android'', tp_framework = ''ens'', tp_controlRef = ''op.exp.4'', tp_targetPlatform = Some ''android'',
      tp_title = ''Mantenimiento pendiente / Pending maintenance (unpatched or EOL)'', tp_severity = ''high'', tp_conditionLogic = ''any'',
      tp_description = ''op.exp.4: flags Android devices with a pending exploited CVE, any pending known CVE, or an end-of-life OS build.'',
      tp_conditions = patchVulnCondition ''android''\<rparr>,
    \<lparr>tp_id = ''ens-maintenance-vuln-apple'', tp_framework = ''ens'', tp_controlRef = ''op.exp.4'', tp_targetPlatform = Some ''apple'',
      tp_title = ''Mantenimiento pendiente / Pending maintenance (unpatched or EOL)'', tp_severity = ''high'', tp_conditionLogic = ''any'',
      tp_description = ''op.exp.4: flags iOS/iPadOS devices with a pending exploited CVE, any pending known CVE, or an end-of-life OS build.'',
      tp_conditions = patchVulnCondition ''apple''\<rparr>,
    \<lparr>tp_id = ''ens-firewall-windows'', tp_framework = ''ens'', tp_controlRef = ''mp.com.1'', tp_targetPlatform = Some ''windows'',
      tp_title = ''Per'' @ [CHR 0xC3, CHR 0xAD] @ ''metro no protegido / Host firewall disabled'', tp_severity = ''medium'', tp_conditionLogic = ''any'',
      tp_description = ''mp.com.1 (per'' @ [CHR 0xC3, CHR 0xAD] @ ''metro seguro): flags Windows devices self-reporting their local firewall disabled.'',
      tp_conditions = firewallCondition\<rparr>,
    \<lparr>tp_id = ''ens-firewall-macos'', tp_framework = ''ens'', tp_controlRef = ''mp.com.1'', tp_targetPlatform = Some ''macos'',
      tp_title = ''Per'' @ [CHR 0xC3, CHR 0xAD] @ ''metro no protegido / Host firewall disabled'', tp_severity = ''medium'', tp_conditionLogic = ''any'',
      tp_description = ''mp.com.1: flags macOS devices self-reporting their local firewall disabled.'',
      tp_conditions = firewallCondition\<rparr>,
    \<lparr>tp_id = ''ens-android-config'', tp_framework = ''ens'', tp_controlRef = ''mp.eq'', tp_targetPlatform = Some ''android'',
      tp_title = ''Configuraci'' @ [CHR 0xC3, CHR 0xB3] @ ''n de equipo insegura / Insecure device configuration'', tp_severity = ''high'', tp_conditionLogic = ''any'',
      tp_description = ''mp.eq (protecci'' @ [CHR 0xC3, CHR 0xB3] @ ''n de equipos, aplicada de forma gen'' @ [CHR 0xC3, CHR 0xA9] @ ''rica '' @ em_dash @ '' no hay un sub-c'' @ [CHR 0xC3, CHR 0xB3] @ ''digo ENS dedicado a la postura de dispositivos Android): flags devices AT_RISK/POTENTIALLY_COMPROMISED, not policy-compliant, with USB debugging on, or sideloading allowed.'',
      tp_conditions = androidConfigPostureCondition\<rparr>,
    \<lparr>tp_id = ''ens-security-provider-android'', tp_framework = ''ens'', tp_controlRef = ''op.exp.4'', tp_targetPlatform = Some ''android'',
      tp_title = ''Proveedor de seguridad SSL/TLS desactualizado / SSL/TLS security provider outdated'', tp_severity = ''medium'', tp_conditionLogic = ''any'',
      tp_description = ''op.exp.4 (mantenimiento): flags Android devices the SOAR Mobile Agent reports as failing the Google Play services security-provider update check.'',
      tp_conditions = androidSecurityProviderCondition\<rparr>,
    \<lparr>tp_id = ''ens-keystore-attestation-android'', tp_framework = ''ens'', tp_controlRef = ''mp.eq.3'', tp_targetPlatform = Some ''android'',
      tp_title = ''Almac'' @ [CHR 0xC3, CHR 0xA9] @ ''n de claves sin respaldo hardware / No hardware-backed key storage confirmed'', tp_severity = ''medium'', tp_conditionLogic = ''any'',
      tp_description = ''mp.eq.3: flags Android devices where the SOAR Mobile Agent found no StrongBox/TEE-backed AndroidKeyStore protection.'',
      tp_conditions = androidKeystoreAttestationCondition\<rparr>,
    \<lparr>tp_id = ''ens-play-integrity-app-android'', tp_framework = ''ens'', tp_controlRef = ''mp.eq.3'', tp_targetPlatform = Some ''android'',
      tp_title = ''Integridad de la app no confirmada / App integrity not confirmed by Google Play Integrity'', tp_severity = ''high'', tp_conditionLogic = ''any'',
      tp_description = ''mp.eq.3: flags Android devices where a verified Play Integrity token reports the running app isn'' @ [CHR 0x27] @ ''t the genuine, Play-distributed, unmodified APK.'',
      tp_conditions = androidPlayIntegrityAppCondition\<rparr>,
    \<lparr>tp_id = ''ens-play-integrity-device-android'', tp_framework = ''ens'', tp_controlRef = ''mp.eq.3'', tp_targetPlatform = Some ''android'',
      tp_title = ''Integridad del dispositivo no confirmada / Device integrity not confirmed by Google Play Integrity'', tp_severity = ''high'', tp_conditionLogic = ''any'',
      tp_description = ''mp.eq.3: flags Android devices where a verified Play Integrity token reports no recognized device-integrity tier -- Google'' @ [CHR 0x27] @ ''s own signal for a likely rooted or tampered device.'',
      tp_conditions = androidPlayIntegrityDeviceCondition\<rparr>,
    \<lparr>tp_id = ''nis2-crypto-windows'', tp_framework = ''nis2'', tp_controlRef = ''Article 21(2)(h)'', tp_targetPlatform = Some ''windows'',
      tp_title = ''Cryptography: disk encryption not confirmed'', tp_severity = ''high'', tp_conditionLogic = ''any'',
      tp_description = ''Flags Windows devices self-reporting BitLocker disabled '' @ em_dash @ '' NIS2'' @ [CHR 0x27] @ ''s cryptography/encryption measure.'',
      tp_conditions = encryptionCondition ''windows''\<rparr>,
    \<lparr>tp_id = ''nis2-crypto-macos'', tp_framework = ''nis2'', tp_controlRef = ''Article 21(2)(h)'', tp_targetPlatform = Some ''macos'',
      tp_title = ''Cryptography: disk encryption not confirmed'', tp_severity = ''high'', tp_conditionLogic = ''any'',
      tp_description = ''Flags macOS devices self-reporting FileVault disabled.'',
      tp_conditions = encryptionCondition ''macos''\<rparr>,
    \<lparr>tp_id = ''nis2-crypto-android'', tp_framework = ''nis2'', tp_controlRef = ''Article 21(2)(h)'', tp_targetPlatform = Some ''android'',
      tp_title = ''Cryptography: disk encryption not confirmed'', tp_severity = ''high'', tp_conditionLogic = ''any'',
      tp_description = ''Flags Android devices the Android Management API confirms are unencrypted.'',
      tp_conditions = encryptionCondition ''android''\<rparr>,
    \<lparr>tp_id = ''nis2-crypto-apple'', tp_framework = ''nis2'', tp_controlRef = ''Article 21(2)(h)'', tp_targetPlatform = Some ''apple'',
      tp_title = ''Cryptography: device passcode not set (no Data Protection encryption)'', tp_severity = ''high'', tp_conditionLogic = ''any'',
      tp_description = ''Flags iOS/iPadOS devices the SOAR Mobile Agent reports as having no passcode configured -- NIS2'' @ [CHR 0x27] @ ''s cryptography/encryption measure, iOS-realistic form (no standalone encryption toggle exists to query).'',
      tp_conditions = encryptionCondition ''apple''\<rparr>,
    \<lparr>tp_id = ''nis2-crypto-hardware-windows'', tp_framework = ''nis2'', tp_controlRef = ''Article 21(2)(h)'', tp_targetPlatform = Some ''windows'',
      tp_title = ''Cryptography: TPM / Secure Boot not enabled'', tp_severity = ''high'', tp_conditionLogic = ''any'',
      tp_description = ''Windows-specific hardware root of trust backing full-disk encryption '' @ em_dash @ '' no macOS/Android/iOS equivalent exists in this app.'',
      tp_conditions = windowsHardwareRootOfTrustCondition\<rparr>,
    \<lparr>tp_id = ''nis2-security-provider-android'', tp_framework = ''nis2'', tp_controlRef = ''Article 21(2)(h)'', tp_targetPlatform = Some ''android'',
      tp_title = ''Cryptography: SSL/TLS security provider outdated'', tp_severity = ''medium'', tp_conditionLogic = ''any'',
      tp_description = ''Flags Android devices the SOAR Mobile Agent reports as failing the Google Play services SSL/TLS security-provider update check.'',
      tp_conditions = androidSecurityProviderCondition\<rparr>,
    \<lparr>tp_id = ''nis2-keystore-attestation-android'', tp_framework = ''nis2'', tp_controlRef = ''Article 21(2)(h)'', tp_targetPlatform = Some ''android'',
      tp_title = ''Cryptography: no hardware-backed key storage confirmed'', tp_severity = ''medium'', tp_conditionLogic = ''any'',
      tp_description = ''Android'' @ [CHR 0x27] @ ''s hardware root-of-trust analogue to the Windows TPM/Secure Boot check above '' @ em_dash @ '' flags devices with no confirmed StrongBox/TEE-backed AndroidKeyStore protection.'',
      tp_conditions = androidKeystoreAttestationCondition\<rparr>,
    \<lparr>tp_id = ''nis2-play-integrity-app-android'', tp_framework = ''nis2'', tp_controlRef = ''Article 21(2)(h)'', tp_targetPlatform = Some ''android'',
      tp_title = ''Cryptography/integrity: app integrity not confirmed by Google Play Integrity'', tp_severity = ''high'', tp_conditionLogic = ''any'',
      tp_description = ''Flags Android devices where a verified Play Integrity Classic API token reports the running app isn'' @ [CHR 0x27] @ ''t the genuine, Play-distributed, unmodified APK.'',
      tp_conditions = androidPlayIntegrityAppCondition\<rparr>,
    \<lparr>tp_id = ''nis2-play-integrity-device-android'', tp_framework = ''nis2'', tp_controlRef = ''Article 21(2)(h)'', tp_targetPlatform = Some ''android'',
      tp_title = ''Cryptography/integrity: device integrity not confirmed by Google Play Integrity'', tp_severity = ''high'', tp_conditionLogic = ''any'',
      tp_description = ''Flags Android devices where a verified Play Integrity Classic API token reports no recognized device-integrity tier -- Google'' @ [CHR 0x27] @ ''s own high-probability signal for a rooted or tampered device.'',
      tp_conditions = androidPlayIntegrityDeviceCondition\<rparr>]"

definition policy_templates_4 :: "policy_template list" where
  "policy_templates_4 = [
    \<lparr>tp_id = ''nis2-hygiene-screenlock-windows'', tp_framework = ''nis2'', tp_controlRef = ''Article 21(2)(g)'', tp_targetPlatform = Some ''windows'',
      tp_title = ''Basic cyber hygiene: screen lock not enforced'', tp_severity = ''medium'', tp_conditionLogic = ''any'',
      tp_description = ''Flags Windows devices without an active screen lock.'',
      tp_conditions = screenLockCondition ''windows''\<rparr>,
    \<lparr>tp_id = ''nis2-hygiene-screenlock-macos'', tp_framework = ''nis2'', tp_controlRef = ''Article 21(2)(g)'', tp_targetPlatform = Some ''macos'',
      tp_title = ''Basic cyber hygiene: screen lock not enforced'', tp_severity = ''medium'', tp_conditionLogic = ''any'',
      tp_description = ''Flags macOS devices without an active screen lock.'',
      tp_conditions = screenLockCondition ''macos''\<rparr>,
    \<lparr>tp_id = ''nis2-hygiene-screenlock-android'', tp_framework = ''nis2'', tp_controlRef = ''Article 21(2)(g)'', tp_targetPlatform = Some ''android'',
      tp_title = ''Basic cyber hygiene: screen lock not enforced'', tp_severity = ''medium'', tp_conditionLogic = ''any'',
      tp_description = ''Flags Android devices without a configured lock screen.'',
      tp_conditions = screenLockCondition ''android''\<rparr>,
    \<lparr>tp_id = ''nis2-hygiene-screenlock-apple'', tp_framework = ''nis2'', tp_controlRef = ''Article 21(2)(g)'', tp_targetPlatform = Some ''apple'',
      tp_title = ''Basic cyber hygiene: device passcode / screen lock not set'', tp_severity = ''medium'', tp_conditionLogic = ''any'',
      tp_description = ''Flags iOS/iPadOS devices the SOAR Mobile Agent reports as having no passcode set.'',
      tp_conditions = screenLockCondition ''apple''\<rparr>,
    \<lparr>tp_id = ''nis2-hygiene-malware-windows'', tp_framework = ''nis2'', tp_controlRef = ''Article 21(2)(g)'', tp_targetPlatform = Some ''windows'',
      tp_title = ''Basic cyber hygiene: malware protection inactive'', tp_severity = ''high'', tp_conditionLogic = ''any'',
      tp_description = ''Flags Windows devices with Defender disabled or its definitions stale.'',
      tp_conditions = malwareProtectionCondition ''windows''\<rparr>,
    \<lparr>tp_id = ''nis2-hygiene-malware-macos'', tp_framework = ''nis2'', tp_controlRef = ''Article 21(2)(g)'', tp_targetPlatform = Some ''macos'',
      tp_title = ''Basic cyber hygiene: malware protection inactive'', tp_severity = ''high'', tp_conditionLogic = ''any'',
      tp_description = ''Flags macOS devices with anti-malware protection disabled.'',
      tp_conditions = malwareProtectionCondition ''macos''\<rparr>,
    \<lparr>tp_id = ''nis2-hygiene-malware-android'', tp_framework = ''nis2'', tp_controlRef = ''Article 21(2)(g)'', tp_targetPlatform = Some ''android'',
      tp_title = ''Basic cyber hygiene: Play Protect disabled'', tp_severity = ''high'', tp_conditionLogic = ''any'',
      tp_description = ''Android'' @ [CHR 0x27] @ ''s realistic malware-hygiene equivalent is Play Protect'' @ [CHR 0x27] @ ''s app-verification toggle.'',
      tp_conditions = malwareProtectionCondition ''android''\<rparr>,
    \<lparr>tp_id = ''nis2-hygiene-root-jailbreak-android'', tp_framework = ''nis2'', tp_controlRef = ''Article 21(2)(g)'', tp_targetPlatform = Some ''android'',
      tp_title = ''Basic cyber hygiene: device rooted or otherwise compromised'', tp_severity = ''critical'', tp_conditionLogic = ''any'',
      tp_description = ''Flags Android devices where the SOAR Mobile Agent'' @ [CHR 0x27] @ ''s root-detection foundation found any sign of compromise.'',
      tp_conditions = deviceRootedOrJailbrokenCondition\<rparr>,
    \<lparr>tp_id = ''nis2-hygiene-jailbreak-apple'', tp_framework = ''nis2'', tp_controlRef = ''Article 21(2)(g)'', tp_targetPlatform = Some ''apple'',
      tp_title = ''Basic cyber hygiene: device jailbroken'', tp_severity = ''critical'', tp_conditionLogic = ''any'',
      tp_description = ''Flags iOS/iPadOS devices where the SOAR Mobile Agent'' @ [CHR 0x27] @ ''s jailbreak-detection foundation found any sign of compromise.'',
      tp_conditions = deviceRootedOrJailbrokenCondition\<rparr>,
    \<lparr>tp_id = ''nis2-hygiene-debugger-attached-android'', tp_framework = ''nis2'', tp_controlRef = ''Article 21(2)(g)'', tp_targetPlatform = Some ''android'',
      tp_title = ''Basic cyber hygiene: debugger attached to app process'', tp_severity = ''critical'', tp_conditionLogic = ''any'',
      tp_description = ''Phase 5 in-house RASP: flags Android devices with a live debugger/tracer attached to the SOAR Mobile Agent'' @ [CHR 0x27] @ ''s own process.'',
      tp_conditions = deviceDebuggerAttachedCondition\<rparr>,
    \<lparr>tp_id = ''nis2-hygiene-debugger-attached-apple'', tp_framework = ''nis2'', tp_controlRef = ''Article 21(2)(g)'', tp_targetPlatform = Some ''apple'',
      tp_title = ''Basic cyber hygiene: debugger attached to app process'', tp_severity = ''critical'', tp_conditionLogic = ''any'',
      tp_description = ''Phase 5 in-house RASP: flags iOS/iPadOS devices with a debugger attached via Apple'' @ [CHR 0x27] @ ''s documented sysctl P_TRACED technique.'',
      tp_conditions = deviceDebuggerAttachedCondition\<rparr>,
    \<lparr>tp_id = ''nis2-hygiene-hooking-framework-android'', tp_framework = ''nis2'', tp_controlRef = ''Article 21(2)(g)'', tp_targetPlatform = Some ''android'',
      tp_title = ''Basic cyber hygiene: hooking framework detected'', tp_severity = ''critical'', tp_conditionLogic = ''any'',
      tp_description = ''Phase 5 in-house RASP: flags Android devices where Frida, Xposed/LSPosed, or another hooking framework was detected.'',
      tp_conditions = deviceHookingFrameworkDetectedCondition\<rparr>,
    \<lparr>tp_id = ''nis2-hygiene-hooking-framework-apple'', tp_framework = ''nis2'', tp_controlRef = ''Article 21(2)(g)'', tp_targetPlatform = Some ''apple'',
      tp_title = ''Basic cyber hygiene: hooking framework detected'', tp_severity = ''critical'', tp_conditionLogic = ''any'',
      tp_description = ''Phase 5 in-house RASP: flags iOS/iPadOS devices where a substrate/Frida/Cycript-style hooking library was found loaded.'',
      tp_conditions = deviceHookingFrameworkDetectedCondition\<rparr>,
    \<lparr>tp_id = ''nis2-hygiene-firewall-windows'', tp_framework = ''nis2'', tp_controlRef = ''Article 21(2)(g)'', tp_targetPlatform = Some ''windows'',
      tp_title = ''Basic cyber hygiene: host firewall disabled'', tp_severity = ''medium'', tp_conditionLogic = ''any'',
      tp_description = ''Flags Windows devices self-reporting their local firewall disabled.'',
      tp_conditions = firewallCondition\<rparr>,
    \<lparr>tp_id = ''nis2-hygiene-firewall-macos'', tp_framework = ''nis2'', tp_controlRef = ''Article 21(2)(g)'', tp_targetPlatform = Some ''macos'',
      tp_title = ''Basic cyber hygiene: host firewall disabled'', tp_severity = ''medium'', tp_conditionLogic = ''any'',
      tp_description = ''Flags macOS devices self-reporting their local firewall disabled.'',
      tp_conditions = firewallCondition\<rparr>,
    \<lparr>tp_id = ''nis2-vuln-windows'', tp_framework = ''nis2'', tp_controlRef = ''Article 21(2)(e)'', tp_targetPlatform = Some ''windows'',
      tp_title = ''Vulnerability handling: unpatched or EOL Windows'', tp_severity = ''high'', tp_conditionLogic = ''any'',
      tp_description = ''Flags Windows devices with an exploited-CVE fix pending, any pending security update, or an end-of-life OS build.'',
      tp_conditions = patchVulnCondition ''windows''\<rparr>,
    \<lparr>tp_id = ''nis2-vuln-macos'', tp_framework = ''nis2'', tp_controlRef = ''Article 21(2)(e)'', tp_targetPlatform = Some ''macos'',
      tp_title = ''Vulnerability handling: unpatched or EOL macOS'', tp_severity = ''high'', tp_conditionLogic = ''any'',
      tp_description = ''Flags macOS devices with a pending exploited CVE, any pending known CVE, or an end-of-life OS build.'',
      tp_conditions = patchVulnCondition ''macos''\<rparr>,
    \<lparr>tp_id = ''nis2-vuln-android'', tp_framework = ''nis2'', tp_controlRef = ''Article 21(2)(e)'', tp_targetPlatform = Some ''android'',
      tp_title = ''Vulnerability handling: unpatched or EOL Android'', tp_severity = ''high'', tp_conditionLogic = ''any'',
      tp_description = ''Flags Android devices with a pending exploited CVE, any pending known CVE, or an end-of-life OS build.'',
      tp_conditions = patchVulnCondition ''android''\<rparr>,
    \<lparr>tp_id = ''nis2-vuln-apple'', tp_framework = ''nis2'', tp_controlRef = ''Article 21(2)(e)'', tp_targetPlatform = Some ''apple'',
      tp_title = ''Vulnerability handling: unpatched or EOL iOS/iPadOS'', tp_severity = ''high'', tp_conditionLogic = ''any'',
      tp_description = ''Flags iOS/iPadOS devices with a pending exploited CVE, any pending known CVE, or an end-of-life OS build.'',
      tp_conditions = patchVulnCondition ''apple''\<rparr>,
    \<lparr>tp_id = ''nis2-app-updates-apple'', tp_framework = ''nis2'', tp_controlRef = ''Article 21(2)(e)'', tp_targetPlatform = Some ''apple'',
      tp_title = ''Vulnerability handling: pending App Store app updates'', tp_severity = ''medium'', tp_conditionLogic = ''any'',
      tp_description = ''Flags iOS/iPadOS devices with pending App Store app updates '' @ em_dash @ '' application-layer vulnerability handling, distinct from OS patching.'',
      tp_conditions = appleAppUpdatesCondition\<rparr>,
    \<lparr>tp_id = ''nis2-app-updates-macos'', tp_framework = ''nis2'', tp_controlRef = ''Article 21(2)(e)'', tp_targetPlatform = Some ''macos'',
      tp_title = ''Vulnerability handling: pending App Store app updates'', tp_severity = ''medium'', tp_conditionLogic = ''any'',
      tp_description = ''Flags macOS devices with pending App Store app updates.'',
      tp_conditions = appleAppUpdatesCondition\<rparr>,
    \<lparr>tp_id = ''nis2-asset-android-posture'', tp_framework = ''nis2'', tp_controlRef = ''Article 21(2)(i)'', tp_targetPlatform = Some ''android'',
      tp_title = ''Asset management: insecure Android configuration'', tp_severity = ''high'', tp_conditionLogic = ''any'',
      tp_description = ''Flags Android devices AT_RISK/POTENTIALLY_COMPROMISED, not policy-compliant, with USB debugging on, or sideloading allowed '' @ em_dash @ '' asset-management visibility into managed-device configuration drift.'',
      tp_conditions = androidConfigPostureCondition\<rparr>,
    \<lparr>tp_id = ''nis2-asset-visibility'', tp_framework = ''nis2'', tp_controlRef = ''Article 21(2)(i)'', tp_targetPlatform = None,
      tp_title = ''Asset management: device hasn'' @ [CHR 0x27] @ ''t checked in'', tp_severity = ''low'', tp_conditionLogic = ''any'',
      tp_description = ''Flags devices unseen for over 30 days, any platform '' @ em_dash @ '' asset visibility is the foundation every other NIS2 measure depends on.'',
      tp_conditions = staleCheckinCondition 30\<rparr>,
    \<lparr>tp_id = ''nis2-risk-tier'', tp_framework = ''nis2'', tp_controlRef = ''Article 21(2)(a)'', tp_targetPlatform = None,
      tp_title = ''Risk analysis: device Risk Tier elevated'', tp_severity = ''medium'', tp_conditionLogic = ''any'',
      tp_description = ''Flags any device (regardless of platform) whose composite Device Risk Score has reached High or Critical '' @ em_dash @ '' a holistic, risk-based check that complements the single-signal templates above, matching NIS2'' @ [CHR 0x27] @ ''s own risk-based-governance framing.'',
      tp_conditions = highRiskTierCondition\<rparr>]"

definition COMPLIANCE_POLICY_TEMPLATES :: "policy_template list" where
  "COMPLIANCE_POLICY_TEMPLATES =
     policy_templates_1 @ policy_templates_2 @ policy_templates_3 @ policy_templates_4"

definition getComplianceTemplates :: "string option \<Rightarrow> (compliance_framework list \<times> policy_template list) option" where
  "getComplianceTemplates framework =
     (case framework of
        None \<Rightarrow> Some (COMPLIANCE_FRAMEWORKS, COMPLIANCE_POLICY_TEMPLATES)
      | Some f \<Rightarrow>
          if f = [] then Some (COMPLIANCE_FRAMEWORKS, COMPLIANCE_POLICY_TEMPLATES)
          else if f \<notin> fw_key ` set COMPLIANCE_FRAMEWORKS then None
          else Some (COMPLIANCE_FRAMEWORKS, filter (\<lambda>t. tp_framework t = f) COMPLIANCE_POLICY_TEMPLATES))"

section \<open>Self-reported attributes\<close>

record attribute_entry =
  ca_name :: string
  ca_label :: string
  ca_valueType :: string
  ca_options :: "string list option"
  ca_platforms :: "string list option"
  ca_description :: "string option"

definition SELF_REPORTED_ATTRIBUTE_CATALOG :: "attribute_entry list" where
  "SELF_REPORTED_ATTRIBUTE_CATALOG = [
    \<lparr>ca_name = ''devicePasscodeSet'', ca_label = ''Device passcode set'', ca_valueType = ''boolean'',
      ca_options = None, ca_platforms = Some [''apple''],
      ca_description = Some (''iOS Keychain-accessibility probe (Phase 1) -- also gates Data Protection full-disk encryption, since iOS has no standalone encryption toggle.'')\<rparr>,
    \<lparr>ca_name = ''securityProviderUpToDate'', ca_label = ''Android security provider up to date'', ca_valueType = ''boolean'',
      ca_options = None, ca_platforms = Some [''android''],
      ca_description = Some (''ProviderInstaller.installIfNeeded() (Phase 2) -- Android'' @ [CHR 0x27] @ ''s SSL/TLS implementation currency, Google Play services-patched.'')\<rparr>,
    \<lparr>ca_name = ''keystoreAttestationSecurityLevel'', ca_label = ''Android KeyStore attestation level'', ca_valueType = ''enum'',
      ca_options = Some [''TrustedEnvironment'', ''StrongBox'', ''Software'', ''Unavailable''], ca_platforms = Some [''android''],
      ca_description = Some (''KeyInfo.getSecurityLevel() on a freshly-generated AndroidKeyStore key (Phase 2) -- '' @ [CHR 0x22] @ ''Software'' @ [CHR 0x22] @ ''/'' @ [CHR 0x22] @ ''Unavailable'' @ [CHR 0x22] @ '' mean no hardware-backed (TEE/StrongBox) key protection confirmed.'')\<rparr>,
    \<lparr>ca_name = ''playIntegrityVerdict'', ca_label = ''Play Integrity device verdict'', ca_valueType = ''enum'',
      ca_options = Some [''MEETS_STRONG_INTEGRITY'', ''MEETS_DEVICE_INTEGRITY'', ''MEETS_BASIC_INTEGRITY'', ''UNKNOWN'', ''NONE''], ca_platforms = Some [''android''],
      ca_description = Some (''Best (highest) deviceRecognitionVerdict tier from a verified Play Integrity Classic API token (Phase 3) -- '' @ [CHR 0x22] @ ''NONE'' @ [CHR 0x22] @ ''/'' @ [CHR 0x22] @ ''UNKNOWN'' @ [CHR 0x22] @ '' are Google'' @ [CHR 0x27] @ ''s own high-probability rooted/tampered signal.'')\<rparr>,
    \<lparr>ca_name = ''playIntegrityAppRecognized'', ca_label = ''Play Integrity app recognized'', ca_valueType = ''boolean'',
      ca_options = None, ca_platforms = Some [''android''],
      ca_description = Some (''appIntegrity.appRecognitionVerdict === '' @ [CHR 0x22] @ ''PLAY_RECOGNIZED'' @ [CHR 0x22] @ '' from a verified Play Integrity token (Phase 3) -- confirms the exact, unmodified, Play-signed APK.'')\<rparr>,
    \<lparr>ca_name = ''deviceRootedOrJailbroken'', ca_label = ''Device rooted or jailbroken'', ca_valueType = ''boolean'',
      ca_options = None, ca_platforms = Some [''android'', ''apple''],
      ca_description = Some (''RootDetectorPlugin.kt / JailbreakDetector.swift'' @ [CHR 0x27] @ ''s rooted/jailbroken signal bucket (Phase 4, restructured Phase 5) -- su binaries, root-management apps, a writable /system, suspicious jailbreak app/system paths, a sandbox-escape write, or an openable jailbreak URL scheme.'')\<rparr>,
    \<lparr>ca_name = ''deviceDebuggerAttached'', ca_label = ''Debugger attached (RASP)'', ca_valueType = ''boolean'',
      ca_options = None, ca_platforms = Some [''android'', ''apple''],
      ca_description = Some (''Phase 5 in-house RASP -- a live debugger/tracer attached to the agent'' @ [CHR 0x27] @ ''s own process right now: Android'' @ [CHR 0x27] @ ''s TracerPid (/proc/self/status) or Debug.isDebuggerConnected(); iOS'' @ [CHR 0x27] @ ''s sysctl P_TRACED flag (Apple QA1361).'')\<rparr>,
    \<lparr>ca_name = ''deviceHookingFrameworkDetected'', ca_label = ''Hooking framework detected (RASP)'', ca_valueType = ''boolean'',
      ca_options = None, ca_platforms = Some [''android'', ''apple''],
      ca_description = Some (''Phase 5 in-house RASP -- Frida/Xposed/Substrate/Cycript-style runtime instrumentation: Android'' @ [CHR 0x27] @ ''s Frida server file/port, Xposed class resolution, or a /proc/self/maps marker; iOS'' @ [CHR 0x27] @ ''s suspicious dylib dlopen probe or a dyld loaded-image scan.'')\<rparr>,
    \<lparr>ca_name = ''androidPlatformFamily'', ca_label = ''Android platform family'', ca_valueType = ''enum'',
      ca_options = Some [''GMS'', ''AOSP''], ca_platforms = Some [''android''],
      ca_description = Some (''Whether the device has Google Mobile Services or is AOSP-only (Phase 4) -- an AOSP device can never report Play Integrity signals, so root-detection is its only compromise signal.'')\<rparr>]"

definition on_platform :: "string option \<Rightarrow> attribute_entry \<Rightarrow> bool" where
  "on_platform platform e =
     (case (ca_platforms e, platform) of
        (Some ps, Some p) \<Rightarrow> ps = [] \<or> p = [] \<or> p \<in> set ps
      | _ \<Rightarrow> True)"

definition getSelfReportedAttributeCatalog :: "string list \<Rightarrow> string option \<Rightarrow> attribute_entry list" where
  "getSelfReportedAttributeCatalog observedNames platform =
     (let entries = filter (on_platform platform) SELF_REPORTED_ATTRIBUTE_CATALOG;
          extra = sort (filter (\<lambda>n. n \<notin> ca_name ` set entries) observedNames)
      in entries @ map (\<lambda>n. \<lparr>ca_name = n, ca_label = n, ca_valueType = ''string'', ca_options = None,
                              ca_platforms = None, ca_description = None\<rparr>) extra)"

definition getSelfReportedAttributeCatalogEntry :: "string \<Rightarrow> attribute_entry option" where
  "getSelfReportedAttributeCatalogEntry name =
     map_of (map (\<lambda>e. (ca_name e, e)) (rev SELF_REPORTED_ATTRIBUTE_CATALOG)) name"

section \<open>Lemmas\<close>

text \<open>A condition the builder may show: a catalog field, one of its operators, usable on the policy's platform.\<close>

definition condition_ok :: "string option \<Rightarrow> eval_condition \<Rightarrow> bool" where
  "condition_ok platform c \<longleftrightarrow>
     list_ex (\<lambda>fd. fd_key fd = field c \<and> operator c \<in> set (fd_operators fd) \<and>
        (case (fd_platforms fd, platform) of (Some ps, Some p) \<Rightarrow> p \<in> set ps | (Some _, None) \<Rightarrow> False | _ \<Rightarrow> True))
       COMPLIANCE_FIELDS"

definition template_ok :: "policy_template \<Rightarrow> bool" where
  "template_ok t \<longleftrightarrow>
     tp_framework t \<in> fw_key ` set COMPLIANCE_FRAMEWORKS \<and>
     tp_severity t \<in> {''low'', ''medium'', ''high'', ''critical''} \<and>
     tp_conditionLogic t \<in> {''any'', ''all''} \<and>
     tp_conditions t \<noteq> [] \<and> list_all (condition_ok (tp_targetPlatform t)) (tp_conditions t)"

lemma condition_ok_builders:
  "condition_ok p (self_reported_is n v)" "condition_ok p (custom_field_is n v)"
  by (simp_all add: condition_ok_def self_reported_is_def custom_field_is_def COMPLIANCE_FIELDS_def)

text \<open>A device for which nothing has been reported or looked up yet.\<close>

definition silent_device :: "jsval \<Rightarrow> bool" where
  "silent_device d \<longleftrightarrow>
     (\<forall>k\<in>set [''selfReported'', ''nativeSecurity'', ''osUpdateStatus'', ''vulnStatus'', ''osLifecycleStatus'',
        ''appleAppUpdateStatus'', ''riskTier'']. own_prop d k = JNull)"

definition quiet :: "eval_condition list \<Rightarrow> bool" where
  "quiet cs \<longleftrightarrow> (\<forall>env d. silent_device d \<longrightarrow> filter (evaluateCondition env d) cs = [])"

lemma quietI: "(\<And>env d c. c \<in> set cs \<Longrightarrow> silent_device d \<Longrightarrow> \<not> evaluateCondition env d c) \<Longrightarrow> quiet cs"
  by (simp add: quiet_def filter_empty_conv)

lemma own_prop_JNull [simp]: "own_prop JNull k = JUndef"
  by (simp add: own_prop_def)

lemma silent_self_reported: "silent_device d \<Longrightarrow> \<not> evaluateCondition env d (self_reported_is n v)"
  by (simp add: silent_device_def evaluateCondition_def evaluate_raw_def self_reported_is_def
      ev_selfReportedAttribute_def attribute_check_def Let_def coalesce_def)

lemma silent_walk:
  assumes "own_prop d k = JNull" "ps \<noteq> []"
  shows "walk_path d (k # ps) = JNull"
proof -
  obtain q qs where "ps = q # qs" using assms(2) by (cases ps) auto
  then show ?thesis using assms(1) by (cases d) simp_all
qed

lemma silent_custom_field:
  assumes "silent_device d" "split_on (\<lambda>c. c = CHR ''.'') path = ''nativeSecurity'' # ps" "ps \<noteq> []" "v \<noteq> []"
  shows "\<not> evaluateCondition env d (custom_field_is path v)"
proof -
  have "own_prop d ''nativeSecurity'' = JNull" using assms(1) by (simp add: silent_device_def)
  then have "walk_path d (''nativeSecurity'' # ps) = JNull" using assms(3) by (rule silent_walk)
  then show ?thesis
    using assms(2,4)
    by (simp add: evaluateCondition_def evaluate_raw_def custom_field_is_def ev_customField_def getByPath_def
        target_of_def own_prop_def coalesce_def compareScalar_def text_of_def Let_def)
qed

lemmas silent_paths =
  silent_custom_field [of _ "''nativeSecurity.isEncrypted''"] silent_custom_field [of _ "''nativeSecurity.isDeviceSecure''"]
  silent_custom_field [of _ "''nativeSecurity.verifyAppsEnabled''"] silent_custom_field [of _ "''nativeSecurity.devicePosture''"]
  silent_custom_field [of _ "''nativeSecurity.policyCompliant''"] silent_custom_field [of _ "''nativeSecurity.adbEnabled''"]
  silent_custom_field [of _ "''nativeSecurity.unknownSourcesEnabled''"]

lemma silent_plain:
  assumes "silent_device d"
  shows "\<not> evaluateCondition env d (plain_cond ''osUpdateExploitedPending'' ''equals'' (JBool True))"
    "\<not> evaluateCondition env d (plain_cond ''osUpdatePendingCount'' ''greaterThan'' (JNum (Fin 0)))"
    "\<not> evaluateCondition env d (plain_cond ''osEol'' ''equals'' (JBool True))"
    "\<not> evaluateCondition env d (plain_cond ''vulnExploitedPending'' ''equals'' (JBool True))"
    "\<not> evaluateCondition env d (plain_cond ''vulnPendingCveCount'' ''greaterThan'' (JNum (Fin 0)))"
    "\<not> evaluateCondition env d (plain_cond ''appleAppUpdatesPending'' ''greaterThan'' (JNum (Fin 0)))"
    "v \<noteq> [] \<Longrightarrow> \<not> evaluateCondition env d (plain_cond ''riskTier'' ''equals'' (JStr v))"
  using assms
  by (simp_all add: silent_device_def evaluateCondition_def evaluate_raw_def plain_cond_def Let_def coalesce_def
      ev_exploited_def some_prop_def array_of_def count_check_def pending_count_def ev_vulnPendingCveCount_def
      ev_status_flag_def compareScalar_def text_of_def)

lemmas template_lists = policy_templates_1_def policy_templates_2_def policy_templates_3_def policy_templates_4_def

lemmas condition_builders = encryptionCondition_def screenLockCondition_def malwareProtectionCondition_def
  firewallCondition_def windowsHardwareRootOfTrustCondition_def appleAppUpdatesCondition_def patchVulnCondition_def
  androidSecurityProviderCondition_def androidKeystoreAttestationCondition_def androidPlayIntegrityAppCondition_def
  androidPlayIntegrityDeviceCondition_def deviceRootedOrJailbrokenCondition_def deviceDebuggerAttachedCondition_def
  deviceHookingFrameworkDetectedCondition_def androidConfigPostureCondition_def highRiskTierCondition_def

text \<open>What a template asks: only that a device checked in recently, or evidence a silent device lacks.\<close>

definition evidence_only :: "eval_condition list \<Rightarrow> bool" where
  "evidence_only cs \<longleftrightarrow> (\<exists>days. cs = staleCheckinCondition days) \<or> quiet cs"

lemma quiet_simps:
  "quiet []"
  "quiet (self_reported_is n v # cs) = quiet cs"
  "split_on (\<lambda>c. c = CHR ''.'') path = ''nativeSecurity'' # ps \<Longrightarrow> ps \<noteq> [] \<Longrightarrow> v \<noteq> [] \<Longrightarrow>
     quiet (custom_field_is path v # cs) = quiet cs"
  "quiet (plain_cond ''osUpdateExploitedPending'' ''equals'' (JBool True) # cs) = quiet cs"
  "quiet (plain_cond ''osUpdatePendingCount'' ''greaterThan'' (JNum (Fin 0)) # cs) = quiet cs"
  "quiet (plain_cond ''osEol'' ''equals'' (JBool True) # cs) = quiet cs"
  "quiet (plain_cond ''vulnExploitedPending'' ''equals'' (JBool True) # cs) = quiet cs"
  "quiet (plain_cond ''vulnPendingCveCount'' ''greaterThan'' (JNum (Fin 0)) # cs) = quiet cs"
  "quiet (plain_cond ''appleAppUpdatesPending'' ''greaterThan'' (JNum (Fin 0)) # cs) = quiet cs"
  "v \<noteq> [] \<Longrightarrow> quiet (plain_cond ''riskTier'' ''equals'' (JStr v) # cs) = quiet cs"
  by (auto simp: quiet_def silent_self_reported silent_custom_field silent_plain simp del: One_nat_def)

lemma quiet_builders:
  "quiet (encryptionCondition p)" "quiet (screenLockCondition p)" "quiet (malwareProtectionCondition p)"
  "quiet firewallCondition" "quiet windowsHardwareRootOfTrustCondition" "quiet (patchVulnCondition p)"
  "quiet appleAppUpdatesCondition" "quiet androidSecurityProviderCondition" "quiet androidKeystoreAttestationCondition"
  "quiet androidPlayIntegrityAppCondition" "quiet androidPlayIntegrityDeviceCondition"
  "quiet deviceRootedOrJailbrokenCondition" "quiet deviceDebuggerAttachedCondition"
  "quiet deviceHookingFrameworkDetectedCondition" "quiet androidConfigPostureCondition" "quiet highRiskTierCondition"
  by (simp_all add: condition_builders quiet_simps)

lemma evidence_only_builders:
  "evidence_only (staleCheckinCondition days)" "quiet cs \<Longrightarrow> evidence_only cs"
  by (auto simp: evidence_only_def)

lemma templates_evidence_only: "list_all (\<lambda>t. evidence_only (tp_conditions t)) COMPLIANCE_POLICY_TEMPLATES"
  unfolding COMPLIANCE_POLICY_TEMPLATES_def list_all_append template_lists
  by (simp only: list.pred_inject policy_template.simps evidence_only_builders quiet_builders simp_thms)

definition conditions_ok :: "string option \<Rightarrow> eval_condition list \<Rightarrow> bool" where
  "conditions_ok p cs \<longleftrightarrow> cs \<noteq> [] \<and> list_all (condition_ok p) cs"

lemma condition_ok_plain:
  "condition_ok p (plain_cond ''osEol'' ''equals'' v)" "condition_ok p (plain_cond ''lastSeenDaysAgo'' ''greaterThan'' v)"
  "condition_ok p (plain_cond ''riskTier'' ''equals'' v)"
  "condition_ok (Some ''windows'') (plain_cond ''osUpdateExploitedPending'' ''equals'' v)"
  "condition_ok (Some ''windows'') (plain_cond ''osUpdatePendingCount'' ''greaterThan'' v)"
  "q \<in> set [''apple'', ''macos'', ''android''] \<Longrightarrow> condition_ok (Some q) (plain_cond ''vulnExploitedPending'' ''equals'' v)"
  "q \<in> set [''apple'', ''macos'', ''android''] \<Longrightarrow> condition_ok (Some q) (plain_cond ''vulnPendingCveCount'' ''greaterThan'' v)"
  "q \<in> set [''apple'', ''macos''] \<Longrightarrow> condition_ok (Some q) (plain_cond ''appleAppUpdatesPending'' ''greaterThan'' v)"
  by (auto simp: condition_ok_def plain_cond_def COMPLIANCE_FIELDS_def)

lemma conditions_ok_builders:
  "conditions_ok p (encryptionCondition x)" "conditions_ok p (screenLockCondition x)"
  "conditions_ok p (malwareProtectionCondition x)" "conditions_ok p firewallCondition"
  "conditions_ok p windowsHardwareRootOfTrustCondition" "conditions_ok p androidSecurityProviderCondition"
  "conditions_ok p androidKeystoreAttestationCondition" "conditions_ok p androidPlayIntegrityAppCondition"
  "conditions_ok p androidPlayIntegrityDeviceCondition" "conditions_ok p deviceRootedOrJailbrokenCondition"
  "conditions_ok p deviceDebuggerAttachedCondition" "conditions_ok p deviceHookingFrameworkDetectedCondition"
  "conditions_ok p androidConfigPostureCondition" "conditions_ok p highRiskTierCondition"
  "conditions_ok p (staleCheckinCondition days)"
  "conditions_ok (Some ''windows'') (patchVulnCondition ''windows'')" "conditions_ok (Some ''macos'') (patchVulnCondition ''macos'')"
  "conditions_ok (Some ''android'') (patchVulnCondition ''android'')" "conditions_ok (Some ''apple'') (patchVulnCondition ''apple'')"
  "conditions_ok (Some ''macos'') appleAppUpdatesCondition" "conditions_ok (Some ''apple'') appleAppUpdatesCondition"
  by (simp_all add: conditions_ok_def condition_builders staleCheckinCondition_def condition_ok_builders condition_ok_plain)

lemma framework_keys: "fw_key ` set COMPLIANCE_FRAMEWORKS = {''iso27001'', ''ens'', ''nis2''}"
  by (simp add: COMPLIANCE_FRAMEWORKS_def)

lemma template_ok_iff: "template_ok t \<longleftrightarrow>
    (tp_framework t = ''iso27001'' \<or> tp_framework t = ''ens'' \<or> tp_framework t = ''nis2'') \<and>
    (tp_severity t = ''low'' \<or> tp_severity t = ''medium'' \<or> tp_severity t = ''high'' \<or> tp_severity t = ''critical'') \<and>
    (tp_conditionLogic t = ''any'' \<or> tp_conditionLogic t = ''all'') \<and> conditions_ok (tp_targetPlatform t) (tp_conditions t)"
  by (auto simp: template_ok_def framework_keys conditions_ok_def)

lemma templates_conditions_ok: "list_all template_ok COMPLIANCE_POLICY_TEMPLATES"
  unfolding COMPLIANCE_POLICY_TEMPLATES_def list_all_append template_lists
  by (simp only: list.pred_inject template_ok_iff policy_template.simps conditions_ok_builders simp_thms)

lemma template_ids_distinct: "distinct (map tp_id COMPLIANCE_POLICY_TEMPLATES)"
  unfolding COMPLIANCE_POLICY_TEMPLATES_def map_append template_lists
  by (simp only: list.map policy_template.simps append.simps) code_simp

lemma technique_tactics: "distinct (map mt_id MITRE_TECHNIQUES) \<and>
    list_all (\<lambda>t. mt_tactic t \<in> set (map fst MITRE_TACTICS)) MITRE_TECHNIQUES"
  by code_simp

lemma hints_known:
   "list_all (\<lambda>h. list_all isKnownMitreTechnique (snd h)) COMPLIANCE_FIELD_MITRE_HINTS"
  by code_simp

section \<open>Properties\<close>

text \<open>
  The template catalog is consistent. Every policy template belongs to a known framework, has a
  severity and logic the engine knows and at least one condition; each condition is on a field of the
  Policy Builder, with an operator that field offers, usable on the template's platform; template and
  technique ids are unique, and every technique hinted for a field is in the MITRE catalog.
\<close>
lemma template_catalog_consistent:
  "list_all template_ok COMPLIANCE_POLICY_TEMPLATES \<and> distinct (map tp_id COMPLIANCE_POLICY_TEMPLATES) \<and>
   distinct (map mt_id MITRE_TECHNIQUES) \<and>
   list_all (\<lambda>h. list_all isKnownMitreTechnique (snd h)) COMPLIANCE_FIELD_MITRE_HINTS"
  using templates_conditions_ok template_ids_distinct technique_tactics hints_known by blast

text \<open>
  Absence of data is no violation. A device for which nothing was reported or looked up (no
  self-report, no native security block, no update, vulnerability or lifecycle status, no risk tier)
  violates no policy made from a template, unless the template asks how long ago the device checked in.
\<close>
lemma silent_device_unflagged:
  assumes "t \<in> set COMPLIANCE_POLICY_TEMPLATES" "silent_device d"
    and "list_all (\<lambda>c. field c \<noteq> ''lastSeenDaysAgo'') (tp_conditions t)"
  shows "policyViolated env d (tp_conditions t) (Some (tp_conditionLogic t)) = []"
proof -
  have "tp_conditions t \<noteq> staleCheckinCondition days" for days
    using assms(3) by (auto simp: staleCheckinCondition_def plain_cond_def)
  moreover have "evidence_only (tp_conditions t)"
    using templates_evidence_only assms(1) by (simp add: list_all_iff)
  ultimately have "filter (evaluateCondition env d) (tp_conditions t) = []"
    using assms(2) unfolding evidence_only_def quiet_def by blast
  then show ?thesis by (simp add: policyViolated_def Let_def)
qed

theorem silent_device_unflagged_witness:
  "\<forall>env. policyViolated env (JObj (map (\<lambda>k. (k, JNull)) [''selfReported'', ''nativeSecurity'', ''osUpdateStatus'', ''vulnStatus'',
       ''osLifecycleStatus'', ''appleAppUpdateStatus'', ''riskTier'']))
     (tp_conditions (hd policy_templates_1)) (Some (tp_conditionLogic (hd policy_templates_1))) = []"
proof (intro allI, rule silent_device_unflagged)
  show "hd policy_templates_1 \<in> set COMPLIANCE_POLICY_TEMPLATES"
    by (simp add: COMPLIANCE_POLICY_TEMPLATES_def policy_templates_1_def)
  show "silent_device (JObj (map (\<lambda>k. (k, JNull)) [''selfReported'', ''nativeSecurity'', ''osUpdateStatus'', ''vulnStatus'',
       ''osLifecycleStatus'', ''appleAppUpdateStatus'', ''riskTier'']))"
    by (simp add: silent_device_def own_prop_def)
  show "list_all (\<lambda>c. field c \<noteq> ''lastSeenDaysAgo'') (tp_conditions (hd policy_templates_1))"
    by (simp add: policy_templates_1_def encryptionCondition_def self_reported_is_def)
qed

end
