(* ===== verification/Cases.thy ===== *)
theory Cases
  imports WorkflowTable ComplianceCatalog
begin

text \<open>
  The incident layer (\<open>modules/cases/cases.service.ts\<close>): cases with their timeline and notes, their SLA
  clocks, and their links to compliance violations, workflow runs and external tickets. Dispatching to
  integrations, threat-intelligence lookups and the fleet are parameters (\<open>case_env\<close>) that answer from
  the current state; what a handler asks of the rest of the system without an answer is kept in
  \<open>case_effects\<close>. \<open>now\<close> is the clock of one call; new row ids are arguments.
\<close>

section \<open>Statuses and severities\<close>

definition CASE_STATUSES :: "string list" where
  "CASE_STATUSES = [''open'', ''investigating'', ''resolved'', ''closed'', ''false_positive'']"

definition CASE_OPEN_STATUSES :: "string list" where
  "CASE_OPEN_STATUSES = [''open'', ''investigating'']"

definition CASE_SEVERITIES :: "string list" where
  "CASE_SEVERITIES = [''low'', ''medium'', ''high'', ''critical'']"

definition CASE_SEVERITY_RANK :: "(string \<times> nat) list" where
  "CASE_SEVERITY_RANK = [(''low'', 0), (''medium'', 1), (''high'', 2), (''critical'', 3)]"

definition isOpenCaseStatus :: "string \<Rightarrow> bool" where
  "isOpenCaseStatus s \<longleftrightarrow> s \<in> set CASE_OPEN_STATUSES"

section \<open>Rows\<close>

record ext_ref =
  er_type :: string
  er_id :: string
  er_sysId :: "string option"
  er_remoteResolved :: bool
  er_remoteStatus :: "string option"
  er_remoteStatusCheckedAt :: "int option"
  er_remoteStatusError :: "string option"

record intel =
  in_ioc :: "string option"
  in_provider :: "string option"
  in_verdict :: string
  in_checkedAt :: "string option"

record case_row =
  cs_id :: string
  cs_workspace :: string
  cs_title :: string
  cs_status :: string
  cs_severity :: string
  cs_source :: string
  cs_deviceId :: "string option"
  cs_deviceName :: "string option"
  cs_segmentId :: "string option"
  cs_policyId :: "string option"
  cs_policyName :: "string option"
  cs_violationIds :: "string list"
  cs_workflowRunIds :: "string list"
  cs_assignee :: "string option"
  cs_createdBy :: "string option"
  cs_closedAt :: "int option"
  cs_acknowledgedAt :: "int option"
  cs_slaClockStartedAt :: int
  cs_slaAckBreachNotifiedAt :: "int option"
  cs_slaResolveBreachNotifiedAt :: "int option"
  cs_mitreTechniques :: "string list"
  cs_threatIntel :: "intel list"
  cs_externalRefs :: "ext_ref list"
  cs_createdAt :: int
  cs_updatedAt :: int

record timeline_row =
  tl_caseId :: string
  tl_type :: string
  tl_message :: string
  tl_actor :: string

record note_row =
  nt_caseId :: string
  nt_author :: string
  nt_text :: string

record sla_threshold =
  acknowledgeMinutes :: int
  resolveMinutes :: int

record sla_settings =
  sla_enabled :: bool
  sla_notifyOnBreach :: bool
  sla_thresholds :: "(string \<times> sla_threshold) list"

record autorun_rule =
  ar_rule_id :: string
  ar_rule_workspace :: string
  ar_rule_name :: string
  ar_enabled :: bool
  ar_minSeverity :: string
  ar_mitreTechniques :: "string list"
  ar_workflowRef :: string
  ar_destructiveAck :: bool
  ar_maxFiresPerHour :: int
  ar_recentFires :: "int list"

datatype case_effect =
    DevicesCacheInvalidated string
  | MarkersRemoved string string
  | SlaBreachSent string string

record case_db =
  case_rows :: "case_row list"
  timeline :: "timeline_row list"
  case_notes :: "note_row list"
  slaTable :: "(string \<times> sla_settings) list"
  autoRules :: "autorun_rule list"
  case_audit :: "audit_event list"
  case_effects :: "case_effect list"
  case_runs :: run_system
  case_jobs :: "run_job list"

record integration =
  ig_workspace :: string
  ig_type :: string
  ig_enabled :: bool
  ig_autoClose :: bool

text \<open>
  \<open>ce_dispatch db id event\<close>: the ticket refs created for the event; \<open>ce_lookup\<close>: the verdicts on an
  indicator, or its failure; \<open>ce_fleet\<close>: the devices of a workspace, or the error of the fetch;
  \<open>ce_ticketStatus\<close>: what the tracker answers about a ticket, its status name and whether it is resolved.
\<close>

record case_env =
  ce_dispatch :: "case_db \<Rightarrow> string \<Rightarrow> string \<Rightarrow> ext_ref list"
  ce_lookup :: "case_db \<Rightarrow> string \<Rightarrow> http_error + intel list"
  ce_iocs :: "string \<Rightarrow> string list"
  ce_providers :: "string \<Rightarrow> nat"
  ce_fleet :: "string \<Rightarrow> http_error + device_ref list"
  ce_integrations :: "integration list"
  ce_ticketStatus :: "integration \<Rightarrow> string \<Rightarrow> string + (string \<times> bool) option"
  ce_workflows :: "workflow_row list"

section \<open>Timeline, rows, SLA\<close>

definition addCaseTimelineEntry :: "string \<Rightarrow> string \<Rightarrow> string \<Rightarrow> string option \<Rightarrow> case_db \<Rightarrow> case_db" where
  "addCaseTimelineEntry caseId ty message actor db =
     db\<lparr>timeline := timeline db @ [\<lparr>tl_caseId = caseId, tl_type = ty, tl_message = message,
         tl_actor = (case actor of Some a \<Rightarrow> a | None \<Rightarrow> ''system'')\<rparr>]\<rparr>"

definition find_case :: "string \<Rightarrow> string \<Rightarrow> case_db \<Rightarrow> case_row option" where
  "find_case workspaceSlug caseId db =
     List.find (\<lambda>k. cs_workspace k = workspaceSlug \<and> cs_id k = caseId) (case_rows db)"

definition case_by_id :: "string \<Rightarrow> case_db \<Rightarrow> case_row option" where
  "case_by_id caseId db = List.find (\<lambda>k. cs_id k = caseId) (case_rows db)"

definition update_case :: "string \<Rightarrow> (case_row \<Rightarrow> case_row) \<Rightarrow> case_db \<Rightarrow> case_db" where
  "update_case caseId f db = db\<lparr>case_rows := upd_where (\<lambda>k. cs_id k = caseId) f (case_rows db)\<rparr>"

definition case_event :: "string \<Rightarrow> string \<Rightarrow> string \<Rightarrow> case_row \<Rightarrow> string \<Rightarrow> string option \<Rightarrow> case_db \<Rightarrow> case_db" where
  "case_event workspaceSlug action actor k message severity db =
     db\<lparr>case_audit := recordAuditEvent workspaceSlug
         (audit_about ''case'' action actor ''case'' (cs_id k) (cs_title k) message severity) (case_audit db)\<rparr>"

definition DEFAULT_CASE_SLA_THRESHOLDS :: "(string \<times> sla_threshold) list" where
  "DEFAULT_CASE_SLA_THRESHOLDS =
     [(''low'', \<lparr>acknowledgeMinutes = 480, resolveMinutes = 4320\<rparr>),
      (''medium'', \<lparr>acknowledgeMinutes = 240, resolveMinutes = 1440\<rparr>),
      (''high'', \<lparr>acknowledgeMinutes = 60, resolveMinutes = 480\<rparr>),
      (''critical'', \<lparr>acknowledgeMinutes = 15, resolveMinutes = 240\<rparr>)]"

record sla_status =
  ackDueAt :: "int option"
  ackBreached :: bool
  resolveDueAt :: "int option"
  resolveBreached :: bool

definition sla_of :: "(string \<times> sla_threshold) list \<Rightarrow> string \<Rightarrow> sla_threshold" where
  "sla_of thresholds severity =
     (case map_of thresholds severity of
        Some t \<Rightarrow> t
      | None \<Rightarrow> (case map_of DEFAULT_CASE_SLA_THRESHOLDS severity of
                   Some t \<Rightarrow> t
                 | None \<Rightarrow> \<lparr>acknowledgeMinutes = 240, resolveMinutes = 1440\<rparr>))"

definition caseSlaStatus :: "int \<Rightarrow> (string \<times> sla_threshold) list \<Rightarrow> case_row \<Rightarrow> sla_status" where
  "caseSlaStatus now thresholds k =
     (let anchor = cs_slaClockStartedAt k;
          sla = sla_of thresholds (cs_severity k);
          ackDue = anchor + acknowledgeMinutes sla * 60000;
          resolveDue = anchor + resolveMinutes sla * 60000;
          waiting = cs_acknowledgedAt k = None;
          is_open = isOpenCaseStatus (cs_status k)
      in \<lparr>ackDueAt = (if waiting then Some ackDue else None), ackBreached = (waiting \<and> ackDue < now),
          resolveDueAt = (if is_open then Some resolveDue else None), resolveBreached = (is_open \<and> resolveDue < now)\<rparr>)"

definition backfillThresholds :: "(string \<times> sla_threshold) list \<Rightarrow> (string \<times> sla_threshold) list" where
  "backfillThresholds thresholds =
     foldl (\<lambda>acc (sev, defaults). if map_of acc sev = None then acc @ [(sev, defaults)] else acc)
       thresholds DEFAULT_CASE_SLA_THRESHOLDS"

definition getCaseSlaSettings :: "string \<Rightarrow> case_db \<Rightarrow> sla_settings" where
  "getCaseSlaSettings workspaceSlug db =
     (case map_of (slaTable db) workspaceSlug of
        Some s \<Rightarrow> s\<lparr>sla_thresholds := backfillThresholds (sla_thresholds s)\<rparr>
      | None \<Rightarrow> \<lparr>sla_enabled = True, sla_notifyOnBreach = True, sla_thresholds = backfillThresholds []\<rparr>)"

definition clamp_threshold :: "(string \<times> sla_threshold) list \<Rightarrow> string \<Rightarrow> string \<times> sla_threshold" where
  "clamp_threshold given sev =
     (sev, case map_of given sev of
             Some t \<Rightarrow> \<lparr>acknowledgeMinutes = max 1 (acknowledgeMinutes t), resolveMinutes = max 1 (resolveMinutes t)\<rparr>
           | None \<Rightarrow> sla_of [] sev)"

definition updateCaseSlaSettings :: "string \<Rightarrow> sla_settings \<Rightarrow> string \<Rightarrow> case_db \<Rightarrow> sla_settings \<times> case_db" where
  "updateCaseSlaSettings workspaceSlug payload actorEmail db =
     (let settings = payload\<lparr>sla_thresholds := map (clamp_threshold (sla_thresholds payload)) CASE_SEVERITIES\<rparr>
      in (settings,
          db\<lparr>slaTable := map_set workspaceSlug settings (slaTable db),
             case_audit := recordAuditEvent workspaceSlug
               \<lparr>in_category = ''settings'', in_action = ''case_sla_updated'', in_actor = Some actorEmail,
                in_targetType = None, in_targetId = None, in_targetName = None,
                in_message = ''Case SLA settings updated by '' @ actorEmail @ '' '' @ em_dash @ '' '' @
                  (if sla_enabled payload then ''enabled'' else ''disabled''),
                in_severity = None\<rparr> (case_audit db)\<rparr>))"

section \<open>Tickets and threat intelligence\<close>

definition attachExternalRefs :: "int \<Rightarrow> string \<Rightarrow> ext_ref list \<Rightarrow> case_db \<Rightarrow> case_db" where
  "attachExternalRefs now caseId refs db =
     (case case_by_id caseId db of
        None \<Rightarrow> db
      | Some k \<Rightarrow>
          fold (\<lambda>ref. addCaseTimelineEntry caseId ''note_added''
                 (''Ticket created: '' @ er_type ref @ '' '' @ er_id ref) None) refs
            (update_case caseId (\<lambda>r. r\<lparr>cs_externalRefs := cs_externalRefs k @ refs, cs_updatedAt := now\<rparr>) db))"

definition dispatchAndAttachCaseEvent :: "case_env \<Rightarrow> int \<Rightarrow> string \<Rightarrow> string \<Rightarrow> case_db \<Rightarrow> case_db" where
  "dispatchAndAttachCaseEvent env now caseId eventType db =
     (case case_by_id caseId db of
        None \<Rightarrow> db
      | Some _ \<Rightarrow>
          (let refs = ce_dispatch env db caseId eventType
           in if refs = [] then db else attachExternalRefs now caseId refs db))"

definition verdict_summary :: "intel list \<Rightarrow> string" where
  "verdict_summary rs =
     (let verdicts = map in_verdict (filter (\<lambda>r. case in_provider r of Some p \<Rightarrow> p \<noteq> [] | None \<Rightarrow> False) rs)
      in if ''malicious'' \<in> set verdicts then ''malicious''
         else if ''suspicious'' \<in> set verdicts then ''suspicious''
         else if verdicts \<noteq> [] then ''clean'' else ''no result'')"

definition ioc_text :: "intel \<Rightarrow> string" where
  "ioc_text r = toLowerCase (case in_ioc r of Some i \<Rightarrow> i | None \<Rightarrow> [])"

text \<open>One candidate after the other: those already checked are skipped, a failing lookup too.\<close>

fun enrich_candidates :: "case_env \<Rightarrow> string \<Rightarrow> string list \<Rightarrow> string list \<Rightarrow> intel list \<Rightarrow> case_db \<Rightarrow> intel list \<times> case_db" where
  "enrich_candidates env caseId [] checked added db = (added, db)"
| "enrich_candidates env caseId (ioc # iocs) checked added db =
     (if toLowerCase ioc \<in> set checked then enrich_candidates env caseId iocs checked added db
      else case ce_lookup env db ioc of
          Inl _ \<Rightarrow> enrich_candidates env caseId iocs checked added db
        | Inr rs \<Rightarrow>
            if rs = [] then enrich_candidates env caseId iocs checked added db
            else enrich_candidates env caseId iocs (toLowerCase ioc # checked) (added @ rs)
                   (addCaseTimelineEntry caseId ''note_added''
                      (''Threat intel: auto-detected '' @ quoted ioc @ '' and enriched it '' @ em_dash @ '' '' @
                       verdict_summary rs) (Some ''system'') db))"

definition autoEnrichCaseFromText :: "case_env \<Rightarrow> int \<Rightarrow> string \<Rightarrow> string \<Rightarrow> string option \<Rightarrow> case_db \<Rightarrow> case_db" where
  "autoEnrichCaseFromText env now workspaceSlug caseId txt db =
     (let candidates = ce_iocs env (case txt of Some t \<Rightarrow> t | None \<Rightarrow> [])
      in if candidates = [] \<or> ce_providers env workspaceSlug = 0 then db
         else case case_by_id caseId db of
             None \<Rightarrow> db
           | Some k \<Rightarrow>
               (case enrich_candidates env caseId candidates (map ioc_text (cs_threatIntel k)) [] db of
                  (added, db') \<Rightarrow>
                    if added = [] then db'
                    else update_case caseId (\<lambda>r. r\<lparr>cs_threatIntel := cs_threatIntel k @ added, cs_updatedAt := now\<rparr>) db'))"

section \<open>Auto-run rules\<close>

definition severity_rank :: "string \<Rightarrow> nat \<Rightarrow> nat" where
  "severity_rank severity other = (case map_of CASE_SEVERITY_RANK severity of Some r \<Rightarrow> r | None \<Rightarrow> other)"

definition find_case_workflow :: "case_env \<Rightarrow> string \<Rightarrow> string \<Rightarrow> workflow_row option" where
  "find_case_workflow env workspaceSlug workflowId =
     List.find (\<lambda>w. wf_workspace w = workspaceSlug \<and> wf_id w = workflowId) (ce_workflows env)"

record autorun_payload =
  ap_name :: string
  ap_enabled :: bool
  ap_minSeverity :: string
  ap_mitreTechniques :: "string list"
  ap_workflowId :: string
  ap_destructiveAck :: bool
  ap_maxFiresPerHour :: int

definition one_of :: "string \<Rightarrow> string list \<Rightarrow> string" where
  "one_of what choices = what @ '' must be one of '' @ json_text (JArr (map JStr choices))"

definition name_or_undefined :: "workflow_row option \<Rightarrow> string" where
  "name_or_undefined w = (case w of Some r \<Rightarrow> wf_name r | None \<Rightarrow> ''undefined'')"

definition validate_rule :: "case_env \<Rightarrow> string \<Rightarrow> autorun_payload \<Rightarrow> unit result" where
  "validate_rule env workspaceSlug payload =
     (if ap_minSeverity payload \<notin> set CASE_SEVERITIES then throw 400 (one_of ''minSeverity'' CASE_SEVERITIES)
      else if \<not> ap_enabled payload then Inr ()
      else
        (let w = find_case_workflow env workspaceSlug (ap_workflowId payload)
         in if workflowHasDestructiveStep w \<and> \<not> ap_destructiveAck payload then
              throw 400 (''Workflow '' @ quoted (name_or_undefined w) @
                '' contains a destructive action (wipe, unenroll, disable, etc.) '' @ em_dash @
                '' enabling this rule requires explicit acknowledgment.'')
            else Inr ()))"

definition rule_event :: "string \<Rightarrow> string \<Rightarrow> string \<Rightarrow> string \<Rightarrow> string \<Rightarrow> string \<Rightarrow> string option \<Rightarrow> case_db \<Rightarrow> case_db" where
  "rule_event workspaceSlug action actor ruleId name verb severity db =
     db\<lparr>case_audit := recordAuditEvent workspaceSlug
         (audit_about ''case'' action actor ''case_autorun_rule'' ruleId name
            (''Case Auto-Run rule '' @ quoted name @ '' '' @ verb @ '' by '' @ actor) severity) (case_audit db)\<rparr>"

definition rule_of_payload :: "autorun_payload \<Rightarrow> autorun_rule \<Rightarrow> autorun_rule" where
  "rule_of_payload p r =
     r\<lparr>ar_rule_name := ap_name p, ar_enabled := ap_enabled p, ar_minSeverity := ap_minSeverity p,
       ar_mitreTechniques := ap_mitreTechniques p, ar_workflowRef := ap_workflowId p,
       ar_destructiveAck := ap_destructiveAck p, ar_maxFiresPerHour := ap_maxFiresPerHour p\<rparr>"

definition listCaseAutoRunRules :: "string \<Rightarrow> case_db \<Rightarrow> autorun_rule list" where
  "listCaseAutoRunRules workspaceSlug db = filter (\<lambda>r. ar_rule_workspace r = workspaceSlug) (autoRules db)"

definition createCaseAutoRunRule :: "case_env \<Rightarrow> string \<Rightarrow> string \<Rightarrow> autorun_payload \<Rightarrow> string \<Rightarrow> case_db \<Rightarrow>
    autorun_rule result \<times> case_db" where
  "createCaseAutoRunRule env newId workspaceSlug payload actorEmail db =
     (case validate_rule env workspaceSlug payload of
        Inl e \<Rightarrow> (Inl e, db)
      | Inr _ \<Rightarrow>
          (let created = rule_of_payload payload
                 \<lparr>ar_rule_id = newId, ar_rule_workspace = workspaceSlug, ar_rule_name = [], ar_enabled = False,
                  ar_minSeverity = [], ar_mitreTechniques = [], ar_workflowRef = [], ar_destructiveAck = False,
                  ar_maxFiresPerHour = 0, ar_recentFires = []\<rparr>
           in (Inr created, rule_event workspaceSlug ''case_autorun_rule_created'' actorEmail newId (ap_name payload)
                 ''created'' None (db\<lparr>autoRules := autoRules db @ [created]\<rparr>))))"

definition find_rule :: "string \<Rightarrow> string \<Rightarrow> case_db \<Rightarrow> autorun_rule option" where
  "find_rule workspaceSlug ruleId db =
     List.find (\<lambda>r. ar_rule_workspace r = workspaceSlug \<and> ar_rule_id r = ruleId) (autoRules db)"

definition updateCaseAutoRunRule :: "case_env \<Rightarrow> string \<Rightarrow> string \<Rightarrow> autorun_payload \<Rightarrow> string \<Rightarrow> case_db \<Rightarrow>
    autorun_rule result \<times> case_db" where
  "updateCaseAutoRunRule env workspaceSlug ruleId payload actorEmail db =
     (case validate_rule env workspaceSlug payload of
        Inl e \<Rightarrow> (Inl e, db)
      | Inr _ \<Rightarrow>
          (case find_rule workspaceSlug ruleId db of
             None \<Rightarrow> (throw 404 ''Case Auto-Run rule not found'', db)
           | Some existing \<Rightarrow>
               (Inr (rule_of_payload payload existing),
                rule_event workspaceSlug ''case_autorun_rule_updated'' actorEmail ruleId (ap_name payload) ''updated'' None
                  (db\<lparr>autoRules := upd_where (\<lambda>r. ar_rule_id r = ruleId) (rule_of_payload payload) (autoRules db)\<rparr>))))"

definition deleteCaseAutoRunRule :: "string \<Rightarrow> string \<Rightarrow> string \<Rightarrow> case_db \<Rightarrow> unit result \<times> case_db" where
  "deleteCaseAutoRunRule workspaceSlug ruleId actorEmail db =
     (case find_rule workspaceSlug ruleId db of
        None \<Rightarrow> (throw 404 ''Case Auto-Run rule not found'', db)
      | Some existing \<Rightarrow>
          (Inr (), rule_event workspaceSlug ''case_autorun_rule_deleted'' actorEmail ruleId (ar_rule_name existing)
             ''deleted'' (Some ''warning'') (db\<lparr>autoRules := del_where (\<lambda>r. ar_rule_id r = ruleId) (autoRules db)\<rparr>)))"

definition rule_matches :: "case_row \<Rightarrow> autorun_rule \<Rightarrow> bool" where
  "rule_matches k r \<longleftrightarrow>
     ar_enabled r \<and> \<not> severity_rank (cs_severity k) 1 < severity_rank (ar_minSeverity r) 2 \<and>
     (ar_mitreTechniques r = [] \<or> list_ex (\<lambda>t. t \<in> set (cs_mitreTechniques k)) (ar_mitreTechniques r))"

definition fires_since :: "int \<Rightarrow> autorun_rule \<Rightarrow> int list" where
  "fires_since cutoff r = filter (\<lambda>ts. cutoff \<le> ts) (ar_recentFires r)"

definition hourly_cap :: "autorun_rule \<Rightarrow> int" where
  "hourly_cap r = (if ar_maxFiresPerHour r = 0 then 10 else ar_maxFiresPerHour r)"

definition last_n :: "nat \<Rightarrow> 'a list \<Rightarrow> 'a list" where
  "last_n n xs = drop (length xs - n) xs"

definition shown_name :: "device_ref \<Rightarrow> string" where
  "shown_name d = (case ref_displayName d of Some n \<Rightarrow> n | None \<Rightarrow> ''null'')"

definition launch_for_case :: "int \<Rightarrow> string \<Rightarrow> workflow_row \<Rightarrow> device_ref \<Rightarrow> string \<Rightarrow> case_db \<Rightarrow> run_view option \<times> case_db" where
  "launch_for_case now runId w device workspaceSlug db =
     (case launchWorkflowRun now runId w [device] workspaceSlug None (case_runs db) of
        (v, job, sys) \<Rightarrow> (v, db\<lparr>case_runs := sys, case_jobs := case_jobs db @ [job]\<rparr>))"

text \<open>The rule that decides, once it matched: nothing, a rate-limit event, or a launch.\<close>

definition fire_rule :: "case_env \<Rightarrow> int \<Rightarrow> string \<Rightarrow> string \<Rightarrow> case_row \<Rightarrow> string \<Rightarrow> autorun_rule \<Rightarrow> case_db \<Rightarrow>
    (http_error + run_view option) \<times> case_db" where
  "fire_rule env now runId workspaceSlug k deviceId r db =
     (case find_case_workflow env workspaceSlug (ar_workflowRef r) of
        None \<Rightarrow> (Inr None, db)
      | Some w \<Rightarrow>
          if workflowHasDestructiveStep (Some w) \<and> \<not> ar_destructiveAck r then (Inr None, db)
          else
            (let recent = fires_since (now - 3600000) r
             in if hourly_cap r \<le> int (length recent) then
                  (Inr None, case_event workspaceSlug ''case_autorun_rate_limited'' ''system'' k
                     (''Case Auto-Run rule '' @ quoted (ar_rule_name r) @ '' matched case '' @ quoted (cs_title k) @
                      '' but hit its '' @ show_int (hourly_cap r) @ ''/hour rate cap '' @ em_dash @ '' not fired'')
                     (Some ''warning'') db)
                else (case ce_fleet env workspaceSlug of
                    Inl e \<Rightarrow> (Inl e, db)
                  | Inr devices \<Rightarrow>
                      (case List.find (\<lambda>d. ref_id d = deviceId) devices of
                         None \<Rightarrow> (Inr None, db)
                       | Some device \<Rightarrow>
                           (case launch_for_case now runId w device workspaceSlug db of
                              (None, db1) \<Rightarrow> (Inr None, db1)
                            | (Some v, db1) \<Rightarrow>
                                (Inr (Some v),
                                 case_event workspaceSlug ''case_autorun_fired'' ''system'' k
                                   (''Case Auto-Run rule '' @ quoted (ar_rule_name r) @ '' auto-ran '' @ quoted (wf_name w) @
                                    '' against '' @ shown_name device @ '' for case '' @ quoted (cs_title k)) None
                                   (db1\<lparr>autoRules := upd_where (\<lambda>x. ar_rule_id x = ar_rule_id r)
                                      (\<lambda>x. x\<lparr>ar_recentFires := last_n 200 (recent @ [now])\<rparr>) (autoRules db1)\<rparr>)))))))"

definition tryCaseAutorun :: "case_env \<Rightarrow> int \<Rightarrow> string \<Rightarrow> string \<Rightarrow> case_row \<Rightarrow> string option \<Rightarrow> case_db \<Rightarrow>
    (http_error + run_view option) \<times> case_db" where
  "tryCaseAutorun env now runId workspaceSlug k authorization db =
     (case (filled (cs_deviceId k) [], filled authorization []) of
        (deviceId, auth) \<Rightarrow>
          if deviceId = [] \<or> auth = [] then (Inr None, db)
          else case List.find (rule_matches k) (listCaseAutoRunRules workspaceSlug db) of
              None \<Rightarrow> (Inr None, db)
            | Some r \<Rightarrow> fire_rule env now runId workspaceSlug k deviceId r db)"

section \<open>Create and update\<close>

record case_create =
  cc_title :: string
  cc_severity :: string
  cc_deviceId :: "string option"
  cc_deviceName :: "string option"
  cc_notes :: "string option"
  cc_mitreTechniques :: "string list"

definition new_case :: "string \<Rightarrow> string \<Rightarrow> int \<Rightarrow> case_row" where
  "new_case newId workspaceSlug now =
     \<lparr>cs_id = newId, cs_workspace = workspaceSlug, cs_title = [], cs_status = ''open'', cs_severity = ''medium'',
      cs_source = [], cs_deviceId = None, cs_deviceName = None, cs_segmentId = None, cs_policyId = None,
      cs_policyName = None, cs_violationIds = [], cs_workflowRunIds = [], cs_assignee = None, cs_createdBy = None,
      cs_closedAt = None, cs_acknowledgedAt = None, cs_slaClockStartedAt = now, cs_slaAckBreachNotifiedAt = None,
      cs_slaResolveBreachNotifiedAt = None, cs_mitreTechniques = [], cs_threatIntel = [], cs_externalRefs = [],
      cs_createdAt = now, cs_updatedAt = now\<rparr>"

definition add_note :: "string \<Rightarrow> string \<Rightarrow> string \<Rightarrow> case_db \<Rightarrow> case_db" where
  "add_note caseId author txt db =
     db\<lparr>case_notes := case_notes db @ [\<lparr>nt_caseId = caseId, nt_author = author, nt_text = js_trim txt\<rparr>]\<rparr>"

definition insert_case :: "case_row \<Rightarrow> case_db \<Rightarrow> case_db" where
  "insert_case k db = db\<lparr>case_rows := case_rows db @ [k]\<rparr>"

definition link_run :: "int \<Rightarrow> string \<Rightarrow> string \<Rightarrow> case_db \<Rightarrow> case_db" where
  "link_run now caseId runId =
     update_case caseId (\<lambda>r. r\<lparr>cs_workflowRunIds := cs_workflowRunIds r @ [runId], cs_updatedAt := now\<rparr>)"

text \<open>The auto-run of a new case: an exception is logged only.\<close>

definition autorun_new_case :: "case_env \<Rightarrow> int \<Rightarrow> string \<Rightarrow> string \<Rightarrow> string \<Rightarrow> string option \<Rightarrow> case_db \<Rightarrow> case_db" where
  "autorun_new_case env now runId workspaceSlug caseId authorization db =
     (if filled authorization [] = [] then db
      else case case_by_id caseId db of
          None \<Rightarrow> db
        | Some k \<Rightarrow>
            (case tryCaseAutorun env now runId workspaceSlug k authorization db of
               (Inr (Some v), db1) \<Rightarrow>
                 addCaseTimelineEntry caseId ''workflow_run_linked''
                   (''Auto-ran a workflow via Case Auto-Run rule (run '' @ take 8 (vw_id v) @ '')'') None
                   (link_run now caseId (vw_id v) db1)
             | (_, db1) \<Rightarrow> db1))"

definition createCase :: "case_env \<Rightarrow> int \<Rightarrow> string \<Rightarrow> string \<Rightarrow> string \<Rightarrow> case_create \<Rightarrow> string \<Rightarrow> string option \<Rightarrow> case_db \<Rightarrow>
    string result \<times> case_db" where
  "createCase env now newId runId workspaceSlug payload actorEmail authorization db =
     (if cc_severity payload \<notin> set CASE_SEVERITIES then (throw 400 (one_of ''severity'' CASE_SEVERITIES), db)
      else
        (let k = (new_case newId workspaceSlug now)\<lparr>cs_title := cc_title payload, cs_severity := cc_severity payload,
                   cs_source := ''manual'', cs_deviceId := cc_deviceId payload, cs_deviceName := cc_deviceName payload,
                   cs_createdBy := Some actorEmail,
                   cs_mitreTechniques := filter isKnownMitreTechnique (cc_mitreTechniques payload)\<rparr>;
             note = (case cc_notes payload of Some n \<Rightarrow> n | None \<Rightarrow> []);
             db1 = addCaseTimelineEntry newId ''created'' (''Case opened manually by '' @ actorEmail) (Some actorEmail)
                     (insert_case k db);
             db2 = (if js_trim note \<noteq> [] then add_note newId actorEmail note db1 else db1);
             db3 = case_event workspaceSlug ''case_created'' actorEmail k
                     (''Case '' @ quoted (cs_title k) @ '' opened manually by '' @ actorEmail) None db2;
             db4 = autoEnrichCaseFromText env now workspaceSlug newId (cc_notes payload)
                     (dispatchAndAttachCaseEvent env now newId ''created'' db3)
         in (Inr newId, autorun_new_case env now runId workspaceSlug newId authorization db4)))"

record case_update =
  cu_title :: "string option"
  cu_status :: "string option"
  cu_severity :: "string option"
  cu_assignee :: "string option"
  cu_mitreTechniques :: "string list option"

text \<open>
  The fields an update sets (\<open>data\<close>), the timeline entries it writes on the way (also when a later check
  throws) and the event to dispatch. \<open>newAcknowledgedAt\<close> is undefined, null or a date.
\<close>

record update_plan =
  up_row :: "case_row \<Rightarrow> case_row"
  up_entries :: "(string \<times> string) list"
  up_ack :: "int option option"
  up_event :: "string option"

definition plan_title :: "case_update \<Rightarrow> case_row \<Rightarrow> case_row" where
  "plan_title payload r = (case cu_title payload of Some t \<Rightarrow> r\<lparr>cs_title := t\<rparr> | None \<Rightarrow> r)"

definition plan_severity :: "case_row \<Rightarrow> case_update \<Rightarrow> update_plan \<Rightarrow> update_plan" where
  "plan_severity k payload p =
     (case cu_severity payload of
        Some s \<Rightarrow>
          if s = cs_severity k then p
          else p\<lparr>up_row := (\<lambda>r. r\<lparr>cs_severity := s\<rparr>) \<circ> up_row p,
                 up_entries := up_entries p @ [(''severity_changed'',
                   ''Severity changed from '' @ cs_severity k @ '' to '' @ s)]\<rparr>
      | None \<Rightarrow> p)"

definition plan_assignee :: "int \<Rightarrow> case_row \<Rightarrow> case_update \<Rightarrow> update_plan \<Rightarrow> update_plan" where
  "plan_assignee now k payload p =
     (case cu_assignee payload of
        Some a \<Rightarrow>
          if Some a = cs_assignee k then p
          else p\<lparr>up_row := (\<lambda>r. r\<lparr>cs_assignee := (if a = [] then None else Some a)\<rparr>) \<circ> up_row p,
                 up_entries := up_entries p @ [(''assigned'', if a = [] then ''Unassigned'' else ''Assigned to '' @ a)],
                 up_ack := (if cs_acknowledgedAt k = None \<and> a \<noteq> [] then Some (Some now) else up_ack p)\<rparr>
      | None \<Rightarrow> p)"

definition plan_mitre :: "string \<Rightarrow> case_row \<Rightarrow> case_update \<Rightarrow> update_plan \<Rightarrow> update_plan" where
  "plan_mitre actorEmail k payload p =
     (case cu_mitreTechniques payload of
        Some ts \<Rightarrow>
          (let cleaned = filter isKnownMitreTechnique ts
           in if cleaned = cs_mitreTechniques k then p
              else p\<lparr>up_row := (\<lambda>r. r\<lparr>cs_mitreTechniques := cleaned\<rparr>) \<circ> up_row p,
                     up_entries := up_entries p @ [(''note_added'', ''MITRE ATT&CK tags updated by '' @ actorEmail)]\<rparr>)
      | None \<Rightarrow> p)"

definition plan_status :: "int \<Rightarrow> case_row \<Rightarrow> case_update \<Rightarrow> update_plan \<Rightarrow> update_plan" where
  "plan_status now k payload p =
     (case cu_status payload of
        Some s \<Rightarrow>
          if s = cs_status k then p
          else
            (let wasClosed = \<not> isOpenCaseStatus (cs_status k); nowClosed = \<not> isOpenCaseStatus s;
                 ack = (if cs_acknowledgedAt k = None \<and> up_ack p = None \<and> s = ''investigating'' then Some (Some now) else up_ack p);
                 p1 = p\<lparr>up_row := (\<lambda>r. r\<lparr>cs_status := s\<rparr>) \<circ> up_row p,
                        up_entries := up_entries p @ [(''status_changed'',
                          ''Status changed from '' @ cs_status k @ '' to '' @ s)],
                        up_ack := ack\<rparr>
             in if nowClosed \<and> \<not> wasClosed then
                  p1\<lparr>up_row := (\<lambda>r. r\<lparr>cs_closedAt := Some now\<rparr>) \<circ> up_row p1, up_event := Some ''closed''\<rparr>
                else if \<not> nowClosed \<and> wasClosed then
                  p1\<lparr>up_row := (\<lambda>r. r\<lparr>cs_closedAt := None, cs_slaClockStartedAt := now, cs_slaAckBreachNotifiedAt := None,
                                 cs_slaResolveBreachNotifiedAt := None\<rparr>) \<circ> up_row p1,
                     up_ack := Some None, up_event := Some ''reopened''\<rparr>
                else p1)
      | None \<Rightarrow> p)"

definition invalid_choice :: "string option \<Rightarrow> string \<Rightarrow> string list \<Rightarrow> bool" where
  "invalid_choice given current choices =
     (case given of Some s \<Rightarrow> s \<noteq> current \<and> s \<notin> set choices | None \<Rightarrow> False)"

definition write_entries :: "string \<Rightarrow> string \<Rightarrow> (string \<times> string) list \<Rightarrow> case_db \<Rightarrow> case_db" where
  "write_entries caseId actor es db = fold (\<lambda>(ty, m). addCaseTimelineEntry caseId ty m (Some actor)) es db"

definition apply_plan :: "int \<Rightarrow> update_plan \<Rightarrow> case_row \<Rightarrow> case_row" where
  "apply_plan now p r =
     (let r' = up_row p r
      in (case up_ack p of Some a \<Rightarrow> r'\<lparr>cs_acknowledgedAt := a\<rparr> | None \<Rightarrow> r')\<lparr>cs_updatedAt := now\<rparr>)"

definition case_plan :: "int \<Rightarrow> string \<Rightarrow> case_row \<Rightarrow> case_update \<Rightarrow> update_plan" where
  "case_plan now actorEmail k payload =
     plan_mitre actorEmail k payload (plan_assignee now k payload (plan_severity k payload
       \<lparr>up_row = plan_title payload, up_entries = [], up_ack = None, up_event = None\<rparr>))"

definition is_effective :: "string option \<Rightarrow> bool" where
  "is_effective s = (filled s [] \<noteq> [])"

definition notify_update :: "case_env \<Rightarrow> int \<Rightarrow> string \<Rightarrow> case_row \<Rightarrow> string option \<Rightarrow> string option \<Rightarrow> case_db \<Rightarrow> case_db" where
  "notify_update env now workspaceSlug k event authorization db =
     (case event of
        None \<Rightarrow> db
      | Some ev \<Rightarrow>
          (let db1 = dispatchAndAttachCaseEvent env now (cs_id k) ev db;
               markers = (if ev = ''closed'' \<and> is_effective (cs_policyId k) \<and> is_effective (cs_deviceId k) \<and>
                             is_effective authorization
                          then [MarkersRemoved (filled (cs_policyId k) []) (filled (cs_deviceId k) [])] else [])
           in db1\<lparr>case_effects := case_effects db1 @ [DevicesCacheInvalidated workspaceSlug] @ markers\<rparr>))"

definition updateCase :: "case_env \<Rightarrow> int \<Rightarrow> string \<Rightarrow> string \<Rightarrow> case_update \<Rightarrow> string \<Rightarrow> string option \<Rightarrow> case_db \<Rightarrow>
    string result \<times> case_db" where
  "updateCase env now workspaceSlug caseId payload actorEmail authorization db =
     (case find_case workspaceSlug caseId db of
        None \<Rightarrow> (throw 404 ''Case not found'', db)
      | Some k \<Rightarrow>
          if invalid_choice (cu_severity payload) (cs_severity k) CASE_SEVERITIES then
            (throw 400 (one_of ''severity'' CASE_SEVERITIES), db)
          else
            (let p = case_plan now actorEmail k payload
             in if invalid_choice (cu_status payload) (cs_status k) CASE_STATUSES then
                  (throw 400 (one_of ''status'' CASE_STATUSES), write_entries caseId actorEmail (up_entries p) db)
                else
                  (let q = plan_status now k payload p;
                       title = cs_title (apply_plan now q k);
                       db1 = update_case caseId (apply_plan now q) (write_entries caseId actorEmail (up_entries q) db);
                       db2 = case_event workspaceSlug ''case_updated'' actorEmail (k\<lparr>cs_title := title\<rparr>)
                               (''Case '' @ quoted title @ '' updated by '' @ actorEmail) None db1
                   in (Inr caseId, notify_update env now workspaceSlug k (up_event q) authorization db2))))"

fun bulk_update :: "case_env \<Rightarrow> int \<Rightarrow> string \<Rightarrow> string list \<Rightarrow> case_update \<Rightarrow> string \<Rightarrow> string option \<Rightarrow> case_db \<Rightarrow>
    string list \<times> (string \<times> string) list \<times> case_db" where
  "bulk_update env now workspaceSlug [] payload actorEmail authorization db = ([], [], db)"
| "bulk_update env now workspaceSlug (cid # cids) payload actorEmail authorization db =
     (case updateCase env now workspaceSlug cid payload actorEmail authorization db of
        (r, db1) \<Rightarrow>
          (case bulk_update env now workspaceSlug cids payload actorEmail authorization db1 of
             (done, failed, db2) \<Rightarrow>
               (case r of Inr _ \<Rightarrow> (cid # done, failed, db2)
                | Inl e \<Rightarrow> (done, (cid, error_detail e) # failed, db2))))"

definition bulkUpdateCases :: "case_env \<Rightarrow> int \<Rightarrow> string \<Rightarrow> string list \<Rightarrow> string option \<Rightarrow> string option \<Rightarrow> string \<Rightarrow>
    string option \<Rightarrow> case_db \<Rightarrow> (string list \<times> (string \<times> string) list) result \<times> case_db" where
  "bulkUpdateCases env now workspaceSlug caseIds newStatus assignee actorEmail authorization db =
     (if newStatus = None \<and> assignee = None then (throw 400 ''Provide at least one of status or assignee'', db)
      else case bulk_update env now workspaceSlug caseIds
               \<lparr>cu_title = None, cu_status = newStatus, cu_severity = None, cu_assignee = assignee, cu_mitreTechniques = None\<rparr>
               actorEmail authorization db of
             (done, failed, db') \<Rightarrow> (Inr (done, failed), db'))"

section \<open>Workflow runs, tickets, notes, enrichment\<close>

definition LINKED_GONE :: string where
  "LINKED_GONE = ''Linked device was not found in the current fleet (it may have been unenrolled)''"

definition runWorkflowFromCase :: "case_env \<Rightarrow> int \<Rightarrow> string \<Rightarrow> string \<Rightarrow> string \<Rightarrow> string \<Rightarrow> string \<Rightarrow> bool \<Rightarrow> bool \<Rightarrow> case_db \<Rightarrow>
    string result \<times> case_db" where
  "runWorkflowFromCase env now runId workspaceSlug caseId workflowId actorEmail superAdmin canRunDestructive db =
     (case find_case workspaceSlug caseId db of
        None \<Rightarrow> (throw 404 ''Case not found'', db)
      | Some k \<Rightarrow>
          if \<not> is_effective (cs_deviceId k) then (throw 400 ''This case has no linked device to target'', db)
          else (case find_case_workflow env workspaceSlug workflowId of
              None \<Rightarrow> (throw 404 ''Workflow not found'', db)
            | Some w \<Rightarrow>
                if workflowHasDestructiveStep (Some w) \<and> \<not> superAdmin \<and> \<not> canRunDestructive then
                  (throw 403 NO_DESTRUCTIVE_RUN, db)
                else (case ce_fleet env workspaceSlug of
                    Inl e \<Rightarrow> (Inl e, db)
                  | Inr devices \<Rightarrow>
                      (case List.find (\<lambda>d. Some (ref_id d) = cs_deviceId k) devices of
                         None \<Rightarrow> (throw 404 LINKED_GONE, db)
                       | Some device \<Rightarrow>
                           (case launch_for_case now runId w device workspaceSlug db of
                              (None, db1) \<Rightarrow> (throw 400 NO_DURABLE_STORAGE, db1)
                            | (Some v, db1) \<Rightarrow>
                                (Inr (vw_id v),
                                 case_event workspaceSlug ''case_workflow_run'' actorEmail k
                                   (''Workflow '' @ quoted (wf_name w) @ '' run against '' @ shown_name device @
                                    '' from case '' @ quoted (cs_title k)) None
                                   (addCaseTimelineEntry caseId ''workflow_run_linked''
                                      (actorEmail @ '' ran '' @ quoted (wf_name w) @ '' against '' @ shown_name device)
                                      (Some actorEmail) (link_run now caseId (vw_id v) db1))))))))"

definition touch :: "int \<Rightarrow> string \<Rightarrow> case_db \<Rightarrow> case_db" where
  "touch now caseId = update_case caseId (\<lambda>r. r\<lparr>cs_updatedAt := now\<rparr>)"

definition retryCaseIntegrations :: "case_env \<Rightarrow> int \<Rightarrow> string \<Rightarrow> string \<Rightarrow> string \<Rightarrow> case_db \<Rightarrow> string result \<times> case_db" where
  "retryCaseIntegrations env now workspaceSlug caseId actorEmail db =
     (case find_case workspaceSlug caseId db of
        None \<Rightarrow> (throw 404 ''Case not found'', db)
      | Some k \<Rightarrow>
          (Inr caseId,
           case_event workspaceSlug ''integration_retry'' actorEmail k
             (''Integration dispatch retried for case '' @ quoted (cs_title k) @ '' by '' @ actorEmail) None
             (touch now caseId
               (dispatchAndAttachCaseEvent env now caseId
                  (if isOpenCaseStatus (cs_status k) then ''created'' else ''closed'') db))))"

definition capitalize :: "string \<Rightarrow> string" where
  "capitalize s = (case s of [] \<Rightarrow> [] | c # cs \<Rightarrow> char_upper c # cs)"

definition is_ticketing :: "string \<Rightarrow> bool" where
  "is_ticketing ty \<longleftrightarrow> ty = ''jira'' \<or> ty = ''servicenow''"

definition ticketing_of :: "case_env \<Rightarrow> string \<Rightarrow> integration list" where
  "ticketing_of env workspaceSlug =
     filter (\<lambda>i. ig_workspace i = workspaceSlug \<and> is_ticketing (ig_type i)) (ce_integrations env)"

definition auto_closes :: "integration list \<Rightarrow> string \<Rightarrow> bool" where
  "auto_closes integrations ty =
     (case List.find (\<lambda>i. ig_type i = ty) integrations of Some i \<Rightarrow> ig_autoClose i | None \<Rightarrow> False)"

text \<open>\<open>integrationsByType\<close>: of two integrations of one type the later wins.\<close>

definition integration_of_type :: "integration list \<Rightarrow> string \<Rightarrow> integration option" where
  "integration_of_type integrations ty = List.find (\<lambda>i. ig_type i = ty) (rev integrations)"

definition ticket_key :: "ext_ref \<Rightarrow> string option" where
  "ticket_key ref =
     (if er_type ref = ''jira'' then Some (er_id ref)
      else if filled (er_sysId ref) [] = [] then None else er_sysId ref)"

definition sync_ref :: "case_env \<Rightarrow> int \<Rightarrow> integration list \<Rightarrow> ext_ref \<Rightarrow> ext_ref" where
  "sync_ref env now integrations ref =
     (if \<not> is_ticketing (er_type ref) then ref
      else case (integration_of_type integrations (er_type ref), ticket_key ref) of
          (Some i, Some key) \<Rightarrow>
            (case ce_ticketStatus env i key of
               Inl err \<Rightarrow> ref\<lparr>er_remoteStatusError := Some (take 300 err)\<rparr>
             | Inr None \<Rightarrow> ref
             | Inr (Some (name, resolved)) \<Rightarrow>
                 ref\<lparr>er_remoteStatus := Some name, er_remoteResolved := resolved,
                     er_remoteStatusCheckedAt := Some now, er_remoteStatusError := None\<rparr>)
        | _ \<Rightarrow> ref)"

definition syncCaseTicketRefs :: "case_env \<Rightarrow> int \<Rightarrow> integration list \<Rightarrow> ext_ref list \<Rightarrow> ext_ref list \<times> ext_ref list" where
  "syncCaseTicketRefs env now integrations refs =
     (map (sync_ref env now integrations) refs,
      [sync_ref env now integrations r. r \<leftarrow> refs,
         er_remoteResolved (sync_ref env now integrations r), \<not> er_remoteResolved r])"

definition ticket_text :: "ext_ref \<Rightarrow> string" where
  "ticket_text ref = ''inked '' @ capitalize (er_type ref) @ '' ticket '' @ er_id ref"

definition resolve_row :: "int \<Rightarrow> case_row \<Rightarrow> case_row" where
  "resolve_row now r = r\<lparr>cs_status := ''resolved'', cs_closedAt := Some now, cs_updatedAt := now\<rparr>"

definition syncCaseTicketStatus :: "case_env \<Rightarrow> int \<Rightarrow> string \<Rightarrow> string \<Rightarrow> string \<Rightarrow> case_db \<Rightarrow> bool result \<times> case_db" where
  "syncCaseTicketStatus env now workspaceSlug caseId actorEmail db =
     (case find_case workspaceSlug caseId db of
        None \<Rightarrow> (throw 404 ''Case not found'', db)
      | Some k \<Rightarrow>
          if \<not> list_ex (\<lambda>r. is_ticketing (er_type r)) (cs_externalRefs k) then
            (throw 400 ''This case has no linked Jira or ServiceNow ticket to sync'', db)
          else
            (let integrations = ticketing_of env workspaceSlug;
                 (updated, newlyResolved) = syncCaseTicketRefs env now integrations (cs_externalRefs k);
                 set_refs = update_case caseId (\<lambda>r. r\<lparr>cs_externalRefs := updated, cs_updatedAt := now\<rparr>);
                 finish = (\<lambda>auto db1. (Inr auto, case_event workspaceSlug ''case_ticket_synced'' actorEmail k
                    (''Ticket status synced for case '' @ quoted (cs_title k) @ '' by '' @ actorEmail @
                     (if auto then '' '' @ em_dash @ '' auto-resolved'' else [])) None db1))
             in case newlyResolved of
                  [] \<Rightarrow> finish False (set_refs db)
                | ref # _ \<Rightarrow>
                    if \<not> isOpenCaseStatus (cs_status k) then finish False (set_refs db)
                    else if auto_closes integrations (er_type ref) then
                      finish True (addCaseTimelineEntry caseId ''status_changed''
                        (''Auto-resolved '' @ em_dash @ '' l'' @ ticket_text ref @ '' was marked done externally'') None
                        (update_case caseId (\<lambda>r. resolve_row now (r\<lparr>cs_externalRefs := updated\<rparr>)) db))
                    else
                      finish False (addCaseTimelineEntry caseId ''note_added''
                        (''L'' @ ticket_text ref @ '' is now marked done externally (auto-close is off for this integration)'')
                        None (set_refs db))))"

definition addCaseNote :: "case_env \<Rightarrow> int \<Rightarrow> string \<Rightarrow> string \<Rightarrow> string \<Rightarrow> string \<Rightarrow> case_db \<Rightarrow> string result \<times> case_db" where
  "addCaseNote env now workspaceSlug caseId txt actorEmail db =
     (if js_trim txt = [] then (throw 400 ''Note text is required'', db)
      else case find_case workspaceSlug caseId db of
          None \<Rightarrow> (throw 404 ''Case not found'', db)
        | Some _ \<Rightarrow>
            (Inr caseId,
             autoEnrichCaseFromText env now workspaceSlug caseId (Some txt)
               (touch now caseId
                 (addCaseTimelineEntry caseId ''note_added'' (actorEmail @ '' added a note'') (Some actorEmail)
                   (add_note caseId actorEmail txt db)))))"

definition NO_PROVIDERS :: string where
  "NO_PROVIDERS = ''No threat intel providers configured yet '' @ em_dash @ '' add one under Settings > Threat Intel.''"

definition enrichCase :: "case_env \<Rightarrow> int \<Rightarrow> string \<Rightarrow> string \<Rightarrow> string \<Rightarrow> bool \<Rightarrow> string \<Rightarrow> case_db \<Rightarrow> string result \<times> case_db" where
  "enrichCase env now workspaceSlug caseId value forceRefresh actorEmail db =
     (let ioc = js_trim value
      in if ioc = [] then (throw 400 ''value is required'', db)
         else case find_case workspaceSlug caseId db of
             None \<Rightarrow> (throw 404 ''Case not found'', db)
           | Some k \<Rightarrow>
               if ce_providers env workspaceSlug = 0 then (throw 400 NO_PROVIDERS, db)
               else (case (if forceRefresh then None
                           else List.find (\<lambda>r. ioc_text r = toLowerCase ioc) (cs_threatIntel k)) of
                   Some r \<Rightarrow> (throw 409 (sq ioc @ '' was already checked on this case ('' @
                       (case in_checkedAt r of Some t \<Rightarrow> t | None \<Rightarrow> ''earlier'') @ '') '' @ em_dash @
                       '' use force refresh to re-check.''), db)
                 | None \<Rightarrow>
                     (case ce_lookup env db ioc of
                        Inl e \<Rightarrow> (Inl e, db)
                      | Inr rs \<Rightarrow>
                          (Inr caseId,
                           addCaseTimelineEntry caseId ''note_added''
                             (''Threat intel: '' @ ioc @ '' enriched by '' @ actorEmail @ '' '' @ em_dash @ '' '' @
                              verdict_summary rs @ '' ('' @ show_nat (length rs) @ '' provider result'' @
                              (if length rs \<noteq> 1 then ''s'' else []) @ '')'') (Some actorEmail)
                             (update_case caseId
                               (\<lambda>r. r\<lparr>cs_threatIntel := cs_threatIntel k @ rs, cs_updatedAt := now\<rparr>) db)))))"

section \<open>Compliance violations and triggers\<close>

record case_policy =
  cp_id :: string
  cp_name :: string
  cp_severity :: "string option"
  cp_mitreTechniques :: "string list"
  cp_caseAssignee :: "string option"

definition assignee_of :: "case_policy \<Rightarrow> string option" where
  "assignee_of p = (if filled (cp_caseAssignee p) [] = [] then None else cp_caseAssignee p)"

definition pair_case :: "string \<Rightarrow> string \<Rightarrow> string \<Rightarrow> case_row \<Rightarrow> bool" where
  "pair_case workspaceSlug policyId deviceId k \<longleftrightarrow>
     cs_workspace k = workspaceSlug \<and> cs_policyId k = Some policyId \<and> cs_deviceId k = Some deviceId"

text \<open>\<open>findFirst ... orderBy updatedAt desc\<close>.\<close>

definition latest :: "(case_row \<Rightarrow> bool) \<Rightarrow> case_db \<Rightarrow> case_row option" where
  "latest p db =
     (case sort_key (\<lambda>k. - cs_updatedAt k) (filter p (case_rows db)) of [] \<Rightarrow> None | k # _ \<Rightarrow> Some k)"

definition reopen_row :: "int \<Rightarrow> case_policy \<Rightarrow> string \<Rightarrow> case_row \<Rightarrow> case_row" where
  "reopen_row now policy violationId r =
     r\<lparr>cs_status := ''open'', cs_closedAt := None, cs_updatedAt := now,
       cs_violationIds := cs_violationIds r @ [violationId], cs_assignee := assignee_of policy,
       cs_acknowledgedAt := (if assignee_of policy = None then None else Some now), cs_slaClockStartedAt := now,
       cs_slaAckBreachNotifiedAt := None, cs_slaResolveBreachNotifiedAt := None,
       cs_mitreTechniques := cp_mitreTechniques policy\<rparr>"

definition violation_case :: "string \<Rightarrow> int \<Rightarrow> string \<Rightarrow> case_policy \<Rightarrow> device_ref \<Rightarrow> string option \<Rightarrow> string \<Rightarrow> case_row" where
  "violation_case newId now workspaceSlug policy device segmentId violationId =
     (new_case newId workspaceSlug now)\<lparr>
       cs_title := (case ref_displayName device of Some n \<Rightarrow> n | None \<Rightarrow> ref_id device) @ '' '' @ em_dash @ '' '' @ cp_name policy,
       cs_severity := (case cp_severity policy of Some s \<Rightarrow> s | None \<Rightarrow> ''medium''),
       cs_source := ''compliance_violation'', cs_deviceId := Some (ref_id device), cs_deviceName := ref_displayName device,
       cs_segmentId := segmentId, cs_policyId := Some (cp_id policy), cs_policyName := Some (cp_name policy),
       cs_violationIds := [violationId], cs_assignee := assignee_of policy, cs_createdBy := Some ''system'',
       cs_acknowledgedAt := (if assignee_of policy = None then None else Some now),
       cs_mitreTechniques := cp_mitreTechniques policy\<rparr>"

definition upsertCaseForViolation :: "string \<Rightarrow> int \<Rightarrow> string \<Rightarrow> case_policy \<Rightarrow> device_ref \<Rightarrow> string option \<Rightarrow> string \<Rightarrow> case_db \<Rightarrow>
    (string \<times> string option) \<times> case_db" where
  "upsertCaseForViolation newId now workspaceSlug policy device segmentId violationId db =
     (let pair = pair_case workspaceSlug (cp_id policy) (ref_id device)
      in case List.find (\<lambda>k. pair k \<and> isOpenCaseStatus (cs_status k)) (case_rows db) of
           Some k \<Rightarrow>
             ((cs_id k, None),
              addCaseTimelineEntry (cs_id k) ''violation_linked''
                (''New violation detected '' @ em_dash @ '' case re-triggered ('' @
                 show_nat (length (cs_violationIds k) + 1) @ '' total)'') None
                (update_case (cs_id k)
                   (\<lambda>r. r\<lparr>cs_violationIds := cs_violationIds r @ [violationId], cs_updatedAt := now\<rparr>) db))
         | None \<Rightarrow>
             (case latest (\<lambda>k. pair k \<and> \<not> isOpenCaseStatus (cs_status k)) db of
                Some k \<Rightarrow>
                  ((cs_id k, Some ''reopened''),
                   addCaseTimelineEntry (cs_id k) ''reopened''
                     (''Violation recurred '' @ em_dash @ '' case reopened'') None
                     (update_case (cs_id k) (reopen_row now policy violationId) db))
              | None \<Rightarrow>
                  ((newId, Some ''created''),
                   addCaseTimelineEntry newId ''created''
                     (''Case opened '' @ em_dash @ '' '' @ quoted (cp_name policy) @ '' violated by '' @
                      (case ref_displayName device of Some n \<Rightarrow> n | None \<Rightarrow> ref_id device) @
                      (case assignee_of policy of Some a \<Rightarrow> '' '' @ em_dash @ '' auto-assigned to '' @ a | None \<Rightarrow> [])) None
                     (insert_case (violation_case newId now workspaceSlug policy device segmentId violationId) db))))"

definition markCaseRecovered :: "int \<Rightarrow> string \<Rightarrow> string option \<Rightarrow> bool \<Rightarrow> case_db \<Rightarrow> (string \<times> string option) option \<times> case_db" where
  "markCaseRecovered now workspaceSlug violationId autoResolve db =
     (let vid = filled violationId []
      in if vid = [] then (None, db)
         else case List.find (\<lambda>k. cs_workspace k = workspaceSlug \<and> vid \<in> set (cs_violationIds k) \<and>
                      isOpenCaseStatus (cs_status k)) (case_rows db) of
             None \<Rightarrow> (None, db)
           | Some k \<Rightarrow>
               if autoResolve then
                 (Some (cs_id k, Some ''closed''),
                  addCaseTimelineEntry (cs_id k) ''status_changed''
                    (''Device no longer violates the linked policy '' @ em_dash @
                     '' case auto-resolved (policy has autoResolveCaseOnRecovery on)'') None
                    (update_case (cs_id k) (resolve_row now) db))
               else
                 (Some (cs_id k, None),
                  addCaseTimelineEntry (cs_id k) ''device_recovered''
                    (''Device no longer violates the linked policy '' @ em_dash @ '' case left open for confirmation'') None
                    (touch now (cs_id k) db)))"

definition openCaseForTrigger :: "case_env \<Rightarrow> int \<Rightarrow> string \<Rightarrow> string \<Rightarrow> string \<Rightarrow> string \<Rightarrow> string \<Rightarrow> string \<Rightarrow>
    (device_ref \<times> string option) option \<Rightarrow> case_db \<Rightarrow> string \<times> case_db" where
  "openCaseForTrigger env now newId workspaceSlug triggerName workflowName runId caseSeverity matched db =
     (let k = (new_case newId workspaceSlug now)\<lparr>
                cs_title := ''Trigger: '' @ triggerName @
                  (case matched of Some (d, _) \<Rightarrow> '' '' @ em_dash @ '' '' @ shown_name d | None \<Rightarrow> []),
                cs_severity := (if caseSeverity = [] then ''medium'' else caseSeverity), cs_source := ''workflow_trigger'',
                cs_deviceId := map_option (\<lambda>(d, _). ref_id d) matched,
                cs_deviceName := Option.bind matched (\<lambda>(d, _). ref_displayName d),
                cs_segmentId := Option.bind matched snd, cs_workflowRunIds := [runId], cs_createdBy := Some ''system''\<rparr>
      in (newId, dispatchAndAttachCaseEvent env now newId ''created''
           (addCaseTimelineEntry newId ''created''
              (''Case opened by inbound trigger '' @ quoted triggerName @ '' '' @ em_dash @ '' ran workflow '' @
               quoted workflowName) None (insert_case k db))))"

end
