(* ===== verification/CompliancePolicies.thy ===== *)
theory CompliancePolicies
  imports DeviceStack Cases
begin

text \<open>
  The table of compliance policies (\<open>modules/compliance/compliance.service.ts\<close>, CRUD part): the coercions of a
  saved payload, the acknowledgement of destructive workflows, the scope change of an update, the re-arming of
  the auto-run circuit breaker by a save, the suppression state per policy and device, and the violation rows.
  \<open>comp_db\<close> extends the incident tables (\<open>case_db\<close>, which also hold the audit log and the runs).
\<close>

section \<open>Payload and rows\<close>

record policy_payload =
  pp_name :: string
  pp_description :: "string option"
  pp_enabled :: bool
  pp_autoRun :: bool
  pp_severity :: string
  pp_conditionLogic :: string
  pp_conditions :: "eval_condition list"
  pp_targetPlatform :: "string option"
  pp_targetDeploymentModel :: "string option"
  pp_workflowId :: "string option"
  pp_nonComplianceTag :: "string option"
  pp_nonComplianceSmartAttributeId :: "string option"
  pp_openCaseOnViolation :: bool
  pp_autoResolveCaseOnRecovery :: bool
  pp_caseAssignee :: "string option"
  pp_mitreTechniques :: "string list"
  pp_framework :: "string option"
  pp_controlRef :: "string option"
  pp_targetDeviceAudienceId :: "string option"
  pp_segmentId :: "string option"
  pp_evaluationIntervalMinutes :: "int option"
  pp_autoRunBatchCap :: "int option option"
  pp_autoRunDestructiveAck :: bool
  pp_escalatedWorkflowId :: "string option"
  pp_escalatedWorkflowMinRiskTier :: string
  pp_alertOnViolation :: bool
  pp_alertViaWebhook :: bool
  pp_alertViaEmail :: bool
  pp_alertWebhookUrl :: "string option"
  pp_alertEmailRecipients :: "string option"
  pp_alertWebhookMaxPerDay :: "int option"
  pp_alertEmailMaxPerDay :: "int option"

text \<open>The columns a save writes, and those the engine manages.\<close>

record policy_cfg =
  pc_name :: string
  pc_description :: string
  pc_enabled :: bool
  pc_autoRun :: bool
  pc_severity :: string
  pc_conditionLogic :: string
  pc_conditions :: "eval_condition list"
  pc_targetPlatform :: "string option"
  pc_targetDeploymentModel :: "string option"
  pc_workflowId :: "string option"
  pc_nonComplianceTag :: "string option"
  pc_nonComplianceSmartAttributeId :: "string option"
  pc_openCaseOnViolation :: bool
  pc_autoResolveCaseOnRecovery :: bool
  pc_caseAssignee :: "string option"
  pc_mitreTechniques :: "string list"
  pc_framework :: "string option"
  pc_controlRef :: "string option"
  pc_targetDeviceAudienceId :: "string option"
  pc_segmentId :: "string option"
  pc_evaluationIntervalMinutes :: int
  pc_autoRunBatchCap :: "int option"
  pc_autoRunDestructiveAck :: bool
  pc_escalatedWorkflowId :: "string option"
  pc_escalatedWorkflowMinRiskTier :: string
  pc_alertOnViolation :: bool
  pc_alertViaWebhook :: bool
  pc_alertViaEmail :: bool
  pc_alertWebhookUrl :: "string option"
  pc_alertEmailRecipients :: "string option"
  pc_alertWebhookMaxPerDay :: "int option"
  pc_alertEmailMaxPerDay :: "int option"

record policy_row =
  pol_id :: string
  pol_workspace :: string
  pol_cfg :: policy_cfg
  pol_lastEvaluatedAt :: "int option"
  pol_autoRunTripped :: bool
  pol_autoRunTrippedAt :: "int option"
  pol_autoRunTrippedReason :: "string option"
  pol_lastAlertSentAt :: "int option"
  pol_lastAlertError :: "string option"
  pol_alertWebhookSentToday :: int
  pol_alertEmailSentToday :: int
  pol_alertCountersDate :: "string option"

record violation_row =
  vi_id :: string
  vi_workspace :: string
  vi_policyId :: string
  vi_policyName :: string
  vi_workflowId :: "string option"
  vi_workflowName :: "string option"
  vi_workflowRunId :: "string option"
  vi_escalated :: bool
  vi_deviceId :: string
  vi_deviceName :: string
  vi_platform :: string
  vi_platformDeviceId :: string
  vi_matched :: "eval_condition list"
  vi_detectedAt :: int
  vi_resolvedAt :: "int option"
  vi_status :: string
  vi_severity :: string
  vi_caseId :: "string option"

record suppression =
  su_violationId :: string
  su_status :: string
  su_lastDetectedAt :: int

type_synonym comp_state = "(string \<times> suppression) list"

datatype alert =
    ChatAlert string string
  | EmailAlert string string string string

record comp_db =
  cd_policies :: "policy_row list"
  cd_states :: "(string \<times> comp_state) list"
  cd_violations :: "violation_row list"
  cd_cases :: case_db
  cd_mdm :: mdm_state
  cd_alerts :: "alert list"
  cd_forced :: "(string \<times> int) list"
  cd_forcedDevice :: "(string \<times> int) list"

section \<open>Coercions\<close>

definition COMPLIANCE_MIN_EVAL_INTERVAL_MINUTES :: int where
  "COMPLIANCE_MIN_EVAL_INTERVAL_MINUTES = 5"

definition COMPLIANCE_MAX_EVAL_INTERVAL_MINUTES :: int where
  "COMPLIANCE_MAX_EVAL_INTERVAL_MINUTES = 1440"

definition clampEvalInterval :: "int option \<Rightarrow> int option" where
  "clampEvalInterval minutes =
     map_option (\<lambda>m. max COMPLIANCE_MIN_EVAL_INTERVAL_MINUTES (min COMPLIANCE_MAX_EVAL_INTERVAL_MINUTES m)) minutes"

definition resolveAutoRunBatchCap :: "policy_cfg \<Rightarrow> int option" where
  "resolveAutoRunBatchCap p = map_option (\<lambda>raw. if 0 < raw then raw else 15) (pc_autoRunBatchCap p)"

definition resolveAutoRunBatchCapOnSave :: "int option option \<Rightarrow> int option" where
  "resolveAutoRunBatchCapOnSave v = (case v of None \<Rightarrow> Some 15 | Some c \<Rightarrow> c)"

definition trimmed :: "string option \<Rightarrow> string option" where
  "trimmed s = (case s of None \<Rightarrow> None | Some t \<Rightarrow> if js_trim t = [] then None else Some (js_trim t))"

definition policy_data :: "policy_payload \<Rightarrow> policy_cfg" where
  "policy_data p =
     \<lparr>pc_name = pp_name p, pc_description = (case pp_description p of Some d \<Rightarrow> d | None \<Rightarrow> []),
      pc_enabled = pp_enabled p, pc_autoRun = pp_autoRun p, pc_severity = pp_severity p,
      pc_conditionLogic = pp_conditionLogic p, pc_conditions = pp_conditions p,
      pc_targetPlatform = pp_targetPlatform p, pc_targetDeploymentModel = pp_targetDeploymentModel p,
      pc_workflowId = pp_workflowId p, pc_nonComplianceTag = pp_nonComplianceTag p,
      pc_nonComplianceSmartAttributeId = pp_nonComplianceSmartAttributeId p,
      pc_openCaseOnViolation = pp_openCaseOnViolation p,
      pc_autoResolveCaseOnRecovery = pp_autoResolveCaseOnRecovery p, pc_caseAssignee = trimmed (pp_caseAssignee p),
      pc_mitreTechniques = pp_mitreTechniques p, pc_framework = pp_framework p, pc_controlRef = pp_controlRef p,
      pc_targetDeviceAudienceId = pp_targetDeviceAudienceId p, pc_segmentId = pp_segmentId p,
      pc_evaluationIntervalMinutes = (case clampEvalInterval (pp_evaluationIntervalMinutes p) of Some m \<Rightarrow> m | None \<Rightarrow> 60),
      pc_autoRunBatchCap = resolveAutoRunBatchCapOnSave (pp_autoRunBatchCap p),
      pc_autoRunDestructiveAck = pp_autoRunDestructiveAck p, pc_escalatedWorkflowId = pp_escalatedWorkflowId p,
      pc_escalatedWorkflowMinRiskTier = pp_escalatedWorkflowMinRiskTier p,
      pc_alertOnViolation = pp_alertOnViolation p, pc_alertViaWebhook = pp_alertViaWebhook p,
      pc_alertViaEmail = pp_alertViaEmail p, pc_alertWebhookUrl = trimmed (pp_alertWebhookUrl p),
      pc_alertEmailRecipients = trimmed (pp_alertEmailRecipients p),
      pc_alertWebhookMaxPerDay = pp_alertWebhookMaxPerDay p, pc_alertEmailMaxPerDay = pp_alertEmailMaxPerDay p\<rparr>"

section \<open>Policies\<close>

definition listCompliancePolicies :: "string \<Rightarrow> comp_db \<Rightarrow> policy_row list" where
  "listCompliancePolicies workspaceSlug db = filter (\<lambda>p. pol_workspace p = workspaceSlug) (cd_policies db)"

definition linked_ids :: "policy_payload \<Rightarrow> string list" where
  "linked_ids p = filter (\<lambda>i. i \<noteq> []) [filled (pp_workflowId p) [], filled (pp_escalatedWorkflowId p) []]"

definition assertDestructiveAckIfNeeded :: "case_env \<Rightarrow> string \<Rightarrow> policy_payload \<Rightarrow> unit result" where
  "assertDestructiveAckIfNeeded env workspaceSlug payload =
     (if \<not> pp_autoRun payload \<or> linked_ids payload = [] \<or> pp_autoRunDestructiveAck payload then Inr ()
      else case List.find (\<lambda>w. wf_workspace w = workspaceSlug \<and> wf_id w \<in> set (linked_ids payload) \<and>
               workflowHasDestructiveStep (Some w)) (ce_workflows env) of
          None \<Rightarrow> Inr ()
        | Some w \<Rightarrow> throw 400 (''Workflow '' @ quoted (wf_name w) @
            '' contains a destructive action (wipe, unenroll, disable, etc.) '' @ em_dash @
            '' enabling autoRun with it requires explicit acknowledgment.''))"

definition comp_audit :: "string \<Rightarrow> audit_input \<Rightarrow> comp_db \<Rightarrow> comp_db" where
  "comp_audit workspaceSlug ev db =
     db\<lparr>cd_cases := (cd_cases db)\<lparr>case_audit := recordAuditEvent workspaceSlug ev (case_audit (cd_cases db))\<rparr>\<rparr>"

definition policy_event :: "string \<Rightarrow> string \<Rightarrow> string \<Rightarrow> string \<Rightarrow> string \<Rightarrow> string \<Rightarrow> string option \<Rightarrow> comp_db \<Rightarrow> comp_db" where
  "policy_event workspaceSlug action actor policyId name what severity =
     comp_audit workspaceSlug (audit_about ''policy'' action actor ''policy'' policyId name
       (''Compliance policy '' @ quoted name @ '' '' @ what) severity)"

definition createCompliancePolicy :: "case_env \<Rightarrow> string \<Rightarrow> string \<Rightarrow> policy_payload \<Rightarrow> string \<Rightarrow> comp_db \<Rightarrow>
    policy_row result \<times> comp_db" where
  "createCompliancePolicy env newId workspaceSlug payload actorEmail db =
     (case assertDestructiveAckIfNeeded env workspaceSlug payload of
        Inl e \<Rightarrow> (Inl e, db)
      | Inr _ \<Rightarrow>
          (let created = \<lparr>pol_id = newId, pol_workspace = workspaceSlug, pol_cfg = policy_data payload,
                 pol_lastEvaluatedAt = None, pol_autoRunTripped = False, pol_autoRunTrippedAt = None,
                 pol_autoRunTrippedReason = None, pol_lastAlertSentAt = None, pol_lastAlertError = None,
                 pol_alertWebhookSentToday = 0, pol_alertEmailSentToday = 0, pol_alertCountersDate = None\<rparr>
           in (Inr created, policy_event workspaceSlug ''policy_created'' actorEmail newId (pp_name payload) ''created'' None
                 (db\<lparr>cd_policies := cd_policies db @ [created]\<rparr>))))"

definition find_policy :: "string \<Rightarrow> string \<Rightarrow> comp_db \<Rightarrow> policy_row option" where
  "find_policy workspaceSlug policyId db =
     List.find (\<lambda>p. pol_workspace p = workspaceSlug \<and> pol_id p = policyId) (cd_policies db)"

definition update_policy :: "string \<Rightarrow> (policy_row \<Rightarrow> policy_row) \<Rightarrow> comp_db \<Rightarrow> comp_db" where
  "update_policy policyId f db = db\<lparr>cd_policies := upd_where (\<lambda>p. pol_id p = policyId) f (cd_policies db)\<rparr>"

definition condition_json :: "eval_condition \<Rightarrow> jsval" where
  "condition_json c =
     JObj [(''field'', JStr (field c)), (''operator'', JStr (operator c)), (''value'', cond_value c)]"

definition conditions_text :: "eval_condition list \<Rightarrow> string" where
  "conditions_text cs = json_text (JArr (map condition_json cs))"

definition scope_changed :: "policy_cfg \<Rightarrow> policy_payload \<Rightarrow> bool" where
  "scope_changed existing payload \<longleftrightarrow>
     pc_targetDeviceAudienceId existing \<noteq> pp_targetDeviceAudienceId payload \<or>
     pc_targetPlatform existing \<noteq> pp_targetPlatform payload \<or>
     pc_targetDeploymentModel existing \<noteq> pp_targetDeploymentModel payload \<or>
     pc_segmentId existing \<noteq> pp_segmentId payload \<or> pc_conditionLogic existing \<noteq> pp_conditionLogic payload \<or>
     conditions_text (pc_conditions existing) \<noteq> conditions_text (pp_conditions payload)"

definition save_policy :: "policy_payload \<Rightarrow> policy_row \<Rightarrow> policy_row" where
  "save_policy payload p =
     p\<lparr>pol_cfg := policy_data payload, pol_autoRunTripped := False, pol_autoRunTrippedAt := None,
       pol_autoRunTrippedReason := None\<rparr>"

text \<open>The updated row, whether it was just enabled, and whether the scope of an enabled policy changed.\<close>

definition updateCompliancePolicy :: "case_env \<Rightarrow> string \<Rightarrow> string \<Rightarrow> policy_payload \<Rightarrow> string \<Rightarrow> comp_db \<Rightarrow>
    (policy_row \<times> bool \<times> bool) result \<times> comp_db" where
  "updateCompliancePolicy env workspaceSlug policyId payload actorEmail db =
     (case find_policy workspaceSlug policyId db of
        None \<Rightarrow> (throw 404 ''Compliance policy not found'', db)
      | Some existing \<Rightarrow>
          (case assertDestructiveAckIfNeeded env workspaceSlug payload of
             Inl e \<Rightarrow> (Inl e, db)
           | Inr _ \<Rightarrow>
               (Inr (save_policy payload existing, pp_enabled payload \<and> \<not> pc_enabled (pol_cfg existing),
                     pp_enabled payload \<and> scope_changed (pol_cfg existing) payload),
                policy_event workspaceSlug ''policy_updated'' actorEmail policyId (pp_name payload) ''updated'' None
                  (update_policy policyId (save_policy payload) db))))"

section \<open>Suppression state\<close>

definition suppression_key :: "string \<Rightarrow> string \<Rightarrow> string" where
  "suppression_key policyId deviceId = policyId @ '':'' @ deviceId"

definition loadComplianceState :: "string \<Rightarrow> comp_db \<Rightarrow> comp_state" where
  "loadComplianceState workspaceSlug db = (case map_of (cd_states db) workspaceSlug of Some s \<Rightarrow> s | None \<Rightarrow> [])"

definition saveComplianceState :: "string \<Rightarrow> comp_state \<Rightarrow> comp_db \<Rightarrow> comp_db" where
  "saveComplianceState workspaceSlug s db = db\<lparr>cd_states := map_set workspaceSlug s (cd_states db)\<rparr>"

definition getPolicyViolatingDeviceIds :: "string \<Rightarrow> string \<Rightarrow> comp_db \<Rightarrow> string list" where
  "getPolicyViolatingDeviceIds workspaceSlug policyId db =
     map (drop (length policyId + 1))
       (filter (\<lambda>k. startsWith k (policyId @ '':'')) (map fst (loadComplianceState workspaceSlug db)))"

definition deleteCompliancePolicy :: "string \<Rightarrow> string \<Rightarrow> string \<Rightarrow> comp_db \<Rightarrow> comp_db" where
  "deleteCompliancePolicy workspaceSlug policyId actorEmail db =
     (case find_policy workspaceSlug policyId db of
        None \<Rightarrow> db
      | Some deleted \<Rightarrow>
          (let db1 = db\<lparr>cd_violations :=
                 del_where (\<lambda>v. vi_workspace v = workspaceSlug \<and> vi_policyId v = policyId) (cd_violations db)\<rparr>;
               state = loadComplianceState workspaceSlug db1;
               kept = filter (\<lambda>(k, _). \<not> startsWith k (policyId @ '':'')) state;
               db2 = (if length kept \<noteq> length state then saveComplianceState workspaceSlug kept db1 else db1);
               db3 = db2\<lparr>cd_policies := del_where (\<lambda>p. pol_id p = policyId) (cd_policies db2),
                         cd_cases := (cd_cases db2)\<lparr>case_effects :=
                            case_effects (cd_cases db2) @ [DevicesCacheInvalidated workspaceSlug]\<rparr>\<rparr>
           in policy_event workspaceSlug ''policy_deleted'' actorEmail policyId (pc_name (pol_cfg deleted)) ''deleted''
                (Some ''warning'') db3))"

end
