(* ===== verification/DeviceStores.thy ===== *)
theory DeviceStores
  imports CompliancePolicies AppliveryApi "HOL-Library.List_Lexorder" "HOL-Library.Char_ord"
begin

text \<open>
  What SOAR stores about devices and the conditions read: the app catalog and App Lists
  (\<open>modules/appLists/appCatalog.service.ts\<close>), the two-slot installed-app inventory with its fetch from Applivery
  (\<open>modules/appLists/installedApps.service.ts\<close>), the agents' app reports with their buffer
  (\<open>modules/devices/deviceData.service.ts\<close>), the device locations
  (\<open>modules/geofencing/locationsRefresh.service.ts\<close>), and the two refreshers that keep inventory and locations up to
  date on a budget (\<open>installedAppsJobs.ts\<close>, \<open>locationJobs.ts\<close>). Dates in the JSON columns are the instants they denote.
\<close>

section \<open>App catalog and App Lists\<close>

record app_entry =
  ae_id :: string
  ae_workspace :: string
  ae_platform :: string
  ae_identifier :: string
  ae_name :: "string option"
  ae_iconUrl :: "string option"
  ae_source :: string

record app_list_row =
  al_id :: string
  al_workspace :: string
  al_name :: string
  al_description :: "string option"
  al_platform :: string
  al_appIds :: "string list"

record app_db =
  app_catalog :: "app_entry list"
  app_lists :: "app_list_row list"
  app_audit :: "audit_event list"

record app_list_payload =
  lp_name :: string
  lp_description :: "string option"
  lp_platform :: string
  lp_appIds :: "string list"

definition platform_wanted :: "string option \<Rightarrow> string \<Rightarrow> bool" where
  "platform_wanted platform p = (case platform of Some q \<Rightarrow> q = [] \<or> p = q | None \<Rightarrow> True)"

definition listAppCatalog :: "string \<Rightarrow> string option \<Rightarrow> app_db \<Rightarrow> app_entry list" where
  "listAppCatalog ws platform db =
     filter (\<lambda>e. ae_workspace e = ws \<and> platform_wanted platform (ae_platform e)) (app_catalog db)"

definition upsertAppCatalogEntry :: "string \<Rightarrow> string \<Rightarrow> string \<Rightarrow> string option \<Rightarrow> string option \<Rightarrow> string \<Rightarrow> string \<Rightarrow>
    app_db \<Rightarrow> app_entry \<times> app_db" where
  "upsertAppCatalogEntry ws platform ident name iconUrl source newId db =
     (let clean = js_trim ident
      in case List.find (\<lambda>e. ae_workspace e = ws \<and> ae_platform e = platform \<and>
                toLowerCase (ae_identifier e) = toLowerCase clean) (app_catalog db) of
           Some e \<Rightarrow> (e, db)
         | None \<Rightarrow>
             (let e = \<lparr>ae_id = newId, ae_workspace = ws, ae_platform = platform, ae_identifier = clean,
                       ae_name = Some (filled name clean), ae_iconUrl = iconUrl, ae_source = source\<rparr>
              in (e, db\<lparr>app_catalog := app_catalog db @ [e]\<rparr>)))"

definition addAppCatalogEntry :: "string \<Rightarrow> string \<Rightarrow> string \<Rightarrow> string option \<Rightarrow> string option \<Rightarrow> string \<Rightarrow> string \<Rightarrow>
    app_db \<Rightarrow> app_entry result \<times> app_db" where
  "addAppCatalogEntry ws platform ident name iconUrl source newId db =
     (if js_trim ident = [] then (throw 400 ''An app identifier (bundle ID / package name) is required'', db)
      else (case upsertAppCatalogEntry ws platform ident name iconUrl source newId db of (e, db') \<Rightarrow> (Inr e, db')))"

definition deleteAppCatalogEntry :: "string \<Rightarrow> string \<Rightarrow> app_db \<Rightarrow> unit result \<times> app_db" where
  "deleteAppCatalogEntry ws entryId db =
     (let referencing = filter (\<lambda>l. al_workspace l = ws \<and> entryId \<in> set (al_appIds l)) (app_lists db)
      in if referencing \<noteq> [] then
           (throw 409 (''Still referenced by list(s): '' @
              joinWith '', '' (map (\<lambda>l. filled (Some (al_name l)) (al_id l)) referencing) @ '' '' @ em_dash @
              '' remove it from those first''), db)
         else (Inr (), db\<lparr>app_catalog := del_where (\<lambda>e. ae_workspace e = ws \<and> ae_id e = entryId) (app_catalog db)\<rparr>))"

definition listAppLists :: "string \<Rightarrow> string option \<Rightarrow> app_db \<Rightarrow> app_list_row list" where
  "listAppLists ws platform db =
     filter (\<lambda>l. al_workspace l = ws \<and> platform_wanted platform (al_platform l)) (app_lists db)"

definition app_event :: "string \<Rightarrow> string \<Rightarrow> string \<Rightarrow> string \<Rightarrow> string \<Rightarrow> string \<Rightarrow> string option \<Rightarrow> app_db \<Rightarrow> app_db" where
  "app_event ws action actor lid name message severity db =
     db\<lparr>app_audit := recordAuditEvent ws (audit_about ''compliance'' action actor ''app_list'' lid name message severity)
         (app_audit db)\<rparr>"

definition count_apps :: "app_list_row \<Rightarrow> string" where
  "count_apps l = '' ('' @ show_nat (length (al_appIds l)) @ '' apps)''"

definition createAppList :: "string \<Rightarrow> app_list_payload \<Rightarrow> string \<Rightarrow> string \<Rightarrow> app_db \<Rightarrow> app_list_row \<times> app_db" where
  "createAppList ws p actor newId db =
     (let l = \<lparr>al_id = newId, al_workspace = ws, al_name = lp_name p, al_description = lp_description p,
               al_platform = lp_platform p, al_appIds = lp_appIds p\<rparr>
      in (l, app_event ws ''app_list_created'' actor newId (al_name l)
               (''App list '' @ quoted (al_name l) @ '' created'' @ count_apps l) None
               (db\<lparr>app_lists := app_lists db @ [l]\<rparr>)))"

definition find_app_list :: "string \<Rightarrow> string \<Rightarrow> app_db \<Rightarrow> app_list_row option" where
  "find_app_list ws lid db = List.find (\<lambda>l. al_id l = lid \<and> al_workspace l = ws) (app_lists db)"

definition updateAppList :: "string \<Rightarrow> string \<Rightarrow> app_list_payload \<Rightarrow> string \<Rightarrow> app_db \<Rightarrow> app_list_row result \<times> app_db" where
  "updateAppList ws lid p actor db =
     (case find_app_list ws lid db of
        None \<Rightarrow> (throw 404 ''App list not found'', db)
      | Some l \<Rightarrow>
          (let l' = l\<lparr>al_name := lp_name p, al_description := lp_description p, al_platform := lp_platform p,
                      al_appIds := lp_appIds p\<rparr>
           in (Inr l', app_event ws ''app_list_updated'' actor lid (al_name l')
                 (''App list '' @ quoted (al_name l') @ '' updated'' @ count_apps l') None
                 (db\<lparr>app_lists := upd_where (\<lambda>k. al_id k = lid) (\<lambda>_. l') (app_lists db)\<rparr>))))"

definition is_app_list_field :: "string \<Rightarrow> bool" where
  "is_app_list_field f \<longleftrightarrow> f \<in> {''requiredAppList'', ''disallowedAppList''}"

definition policiesReferencingAppList :: "string \<Rightarrow> string \<Rightarrow> comp_db \<Rightarrow> policy_row list" where
  "policiesReferencingAppList ws lid cdb =
     filter (\<lambda>p. pol_workspace p = ws \<and>
        list_ex (\<lambda>c. is_app_list_field (field c) \<and> to_string (cond_value c) = lid) (pc_conditions (pol_cfg p)))
       (cd_policies cdb)"

definition deleteAppList :: "string \<Rightarrow> string \<Rightarrow> string \<Rightarrow> comp_db \<Rightarrow> app_db \<Rightarrow> unit result \<times> app_db" where
  "deleteAppList ws lid actor cdb db =
     (let referencing = policiesReferencingAppList ws lid cdb
      in if referencing \<noteq> [] then
           (throw 409 (''Still referenced by Compliance Policy: '' @
              joinWith '', '' (map (\<lambda>p. filled (Some (pc_name (pol_cfg p))) (pol_id p)) referencing) @ '' '' @ em_dash @
              '' remove that condition first''), db)
         else
           (let db' = db\<lparr>app_lists := del_where (\<lambda>l. al_workspace l = ws \<and> al_id l = lid) (app_lists db)\<rparr>
            in (Inr (), case find_app_list ws lid db of
                  None \<Rightarrow> db'
                | Some l \<Rightarrow> app_event ws ''app_list_deleted'' actor lid (al_name l)
                    (''App list '' @ quoted (al_name l) @ '' deleted'') (Some ''warning'') db')))"

definition getAppListUsage :: "string \<Rightarrow> string \<Rightarrow> comp_db \<Rightarrow> (string \<times> string) list" where
  "getAppListUsage ws lid cdb = map (\<lambda>p. (pol_id p, pc_name (pol_cfg p))) (policiesReferencingAppList ws lid cdb)"

definition loadAppListsContext :: "string \<Rightarrow> app_db \<Rightarrow> app_lists_context" where
  "loadAppListsContext ws db =
     \<lparr>catalogById = map (\<lambda>e. (ae_id e, \<lparr>app_identifier = ae_identifier e, entry_name = ae_name e\<rparr>))
        (filter (\<lambda>e. ae_workspace e = ws) (app_catalog db)),
      listById = map (\<lambda>l. (al_id l, al_appIds l)) (filter (\<lambda>l. al_workspace l = ws) (app_lists db))\<rparr>"

section \<open>The installed-app inventory\<close>

record installed_entry =
  ie_identifiers :: "string list"
  ie_apps :: "jsval list"
  ie_platform :: string
  ie_fetchedAt :: "int option"
  ie_error :: "string option"
  ie_source :: string
  ie_appleAppUpdates :: "(nat \<times> nat \<times> jsval list) option"

text \<open>The JSON column: the two slots, a flat entry written before there were slots, or something else.\<close>

datatype inventory_json =
    TwoSlots "installed_entry option" "installed_entry option"
  | FlatEntry installed_entry
  | NoEntry

record installed_record =
  slot_selfReported :: "installed_entry option"
  slot_serverFetch :: "installed_entry option"

record inventory_row =
  inv_workspace :: string
  inv_deviceId :: string
  inv_apps :: inventory_json
  inv_reportedAt :: int

record pending_report =
  pr_workspace :: string
  pr_serial :: string
  pr_entry :: installed_entry

record location_row =
  lo_workspace :: string
  lo_deviceId :: string
  lo_lat :: rat
  lo_lng :: rat
  lo_source :: jsval
  lo_recordedAt :: "int option"
  lo_fetchedAt :: int
  lo_error :: "string option"

record device_db =
  dv_inventory :: "inventory_row list"
  dv_pending :: "pending_report list"
  dv_locations :: "location_row list"
  dv_appBudgets :: "(string \<times> int option) list"
  dv_locationBudgets :: "(string \<times> int option) list"
  dv_mdm :: mdm_state
  dv_audit :: "audit_event list"

fun toRecord :: "inventory_json \<Rightarrow> installed_record" where
  "toRecord (TwoSlots a b) = \<lparr>slot_selfReported = a, slot_serverFetch = b\<rparr>"
| "toRecord (FlatEntry e) =
     (if ie_source e = ''self_reported'' then \<lparr>slot_selfReported = Some e, slot_serverFetch = None\<rparr>
      else \<lparr>slot_selfReported = None, slot_serverFetch = Some e\<rparr>)"
| "toRecord NoEntry = \<lparr>slot_selfReported = None, slot_serverFetch = None\<rparr>"

definition installedAppsRecordEntries :: "installed_record \<Rightarrow> installed_entry list" where
  "installedAppsRecordEntries r =
     (case slot_selfReported r of Some e \<Rightarrow> [e] | None \<Rightarrow> []) @ (case slot_serverFetch r of Some e \<Rightarrow> [e] | None \<Rightarrow> [])"

datatype slot = SelfReported | ServerFetch

fun put_slot :: "slot \<Rightarrow> installed_entry \<Rightarrow> installed_record \<Rightarrow> installed_record" where
  "put_slot SelfReported e r = r\<lparr>slot_selfReported := Some e\<rparr>"
| "put_slot ServerFetch e r = r\<lparr>slot_serverFetch := Some e\<rparr>"

definition is_inventory :: "string \<Rightarrow> string \<Rightarrow> inventory_row \<Rightarrow> bool" where
  "is_inventory ws deviceId r \<longleftrightarrow> inv_workspace r = ws \<and> inv_deviceId r = deviceId"

definition find_inventory :: "string \<Rightarrow> string \<Rightarrow> device_db \<Rightarrow> inventory_row option" where
  "find_inventory ws deviceId db = List.find (is_inventory ws deviceId) (dv_inventory db)"

definition record_json :: "installed_record \<Rightarrow> inventory_json" where
  "record_json r = TwoSlots (slot_selfReported r) (slot_serverFetch r)"

definition upsertInstalledAppsSlot :: "string \<Rightarrow> string \<Rightarrow> slot \<Rightarrow> installed_entry \<Rightarrow> int \<Rightarrow> device_db \<Rightarrow> device_db" where
  "upsertInstalledAppsSlot ws deviceId sl e reportedAt db =
     (case find_inventory ws deviceId db of
        None \<Rightarrow>
          db\<lparr>dv_inventory := dv_inventory db @
               [\<lparr>inv_workspace = ws, inv_deviceId = deviceId, inv_apps = record_json (put_slot sl e (toRecord NoEntry)),
                 inv_reportedAt = reportedAt\<rparr>]\<rparr>
      | Some row \<Rightarrow>
          db\<lparr>dv_inventory := upd_where (is_inventory ws deviceId)
               (\<lambda>r. r\<lparr>inv_apps := record_json (put_slot sl e (toRecord (inv_apps row))), inv_reportedAt := reportedAt\<rparr>)
               (dv_inventory db)\<rparr>)"

text \<open>\<open>Array.from(new Set(xs))\<close>: the first occurrences, in order.\<close>

definition js_set :: "'a list \<Rightarrow> 'a list" where
  "js_set xs = rev (remdups (rev xs))"

lemma js_set_simps [simp]: "set (js_set xs) = set xs" "distinct (js_set xs)"
  by (simp_all add: js_set_def)

text \<open>The identifiers both slots know, or \<open>null\<close> for a device neither has seen.\<close>

definition readInstalledAppsFromStore :: "string \<Rightarrow> string \<Rightarrow> device_db \<Rightarrow> jsval" where
  "readInstalledAppsFromStore ws deviceId db =
     (case find_inventory ws deviceId db of
        None \<Rightarrow> JNull
      | Some row \<Rightarrow>
          (let entries = installedAppsRecordEntries (toRecord (inv_apps row))
           in if entries = [] then JNull
              else JArr (map JStr (js_set (concat (map ie_identifiers entries))))))"

definition stored_record :: "string \<Rightarrow> string \<Rightarrow> device_db \<Rightarrow> installed_record" where
  "stored_record ws deviceId db =
     (case find_inventory ws deviceId db of Some row \<Rightarrow> toRecord (inv_apps row) | None \<Rightarrow> toRecord NoEntry)"

definition scoped_by :: "(string \<Rightarrow> bool) \<Rightarrow> fleet_device list \<Rightarrow> policy_row list \<Rightarrow> string list" where
  "scoped_by wanted devices policies =
     js_set (concat (map (\<lambda>p.
        if \<not> pc_enabled (pol_cfg p) \<or> \<not> list_ex (\<lambda>c. wanted (field c)) (pc_conditions (pol_cfg p)) then []
        else if filled (pc_targetDeviceAudienceId (pol_cfg p)) [] \<noteq> [] then
          map fd_id (filter (\<lambda>d. filled (pc_targetDeviceAudienceId (pol_cfg p)) [] \<in> set (fd_deviceAudiences d)) devices)
        else map fd_id devices) policies))"

definition appListScopedDeviceIds :: "fleet_device list \<Rightarrow> policy_row list \<Rightarrow> string list" where
  "appListScopedDeviceIds devices policies = scoped_by is_app_list_field devices policies"

definition geofenceScopedDeviceIds :: "fleet_device list \<Rightarrow> policy_row list \<Rightarrow> string list" where
  "geofenceScopedDeviceIds devices policies = scoped_by (\<lambda>f. f = ''geofenceZoneId'') devices policies"

definition appleAppUpdateDeviceIds :: "fleet_device list \<Rightarrow> string list" where
  "appleAppUpdateDeviceIds devices =
     js_set (map fd_id (filter (\<lambda>d. platformPathSegment (fd_platform d) = Some ''apple'') devices))"

section \<open>Fetching an inventory\<close>

text \<open>\<open>rf_windows st\<close> is what \<open>fetchWindowsDeviceApps\<close> answers: MSI apps (name, version, product code, enforced by
  policy), Store apps (name, version) and the error; \<open>rf_localeLe\<close> the order of \<open>localeCompare\<close>; \<open>rf_fleet\<close> the devices
  of a workspace or the failure of the fetch; \<open>rf_automation\<close> the workspaces with a usable automation credential;
  \<open>rf_badDate\<close> the failure of the database on a coordinate or date it cannot store.\<close>

record refresh_env =
  rf_mdm :: mdm_env
  rf_windows :: "mdm_state \<Rightarrow> string \<Rightarrow> (string \<times> string \<times> string \<times> bool) list \<times> (string \<times> string) list \<times> string option"
  rf_localeLe :: "string \<Rightarrow> string \<Rightarrow> bool"
  rf_fleet :: "string \<Rightarrow> string + fleet_device list"
  rf_automation :: "string list"
  rf_badDate :: string
  rf_now :: int

record parsed_apps =
  pa_identifiers :: "string list"
  pa_apps :: "jsval list"
  pa_pending :: "jsval list"
  pa_total :: nat

fun locale_insert :: "(string \<Rightarrow> string \<Rightarrow> bool) \<Rightarrow> ('a \<Rightarrow> string) \<Rightarrow> 'a \<Rightarrow> 'a list \<Rightarrow> 'a list" where
  "locale_insert le f x [] = [x]"
| "locale_insert le f x (y # ys) = (if le (f x) (f y) then x # y # ys else y # locale_insert le f x ys)"

definition locale_sort :: "(string \<Rightarrow> string \<Rightarrow> bool) \<Rightarrow> ('a \<Rightarrow> string) \<Rightarrow> 'a list \<Rightarrow> 'a list" where
  "locale_sort le f xs = foldr (locale_insert le f) xs []"

definition text_prop :: "string \<Rightarrow> jsval \<Rightarrow> string" where
  "text_prop k v = to_string (coalesce (own_prop v k) (JStr []))"

definition windows_app :: "string \<Rightarrow> string \<Rightarrow> (string \<times> jsval) list \<Rightarrow> string \<Rightarrow> jsval" where
  "windows_app name version extra origin =
     JObj ([(''identifier'', JStr (toLowerCase name)), (''name'', JStr name), (''version'', JStr version)] @ extra @
       [(''origin'', JStr origin)])"

definition add_msi :: "string \<times> string \<times> string \<times> bool \<Rightarrow> parsed_apps \<Rightarrow> parsed_apps" where
  "add_msi = (\<lambda>(name, version, productCode, enforced) acc.
     acc\<lparr>pa_apps := pa_apps acc @ [windows_app name version
            [(''productCode'', JStr productCode), (''enforcedByPolicy'', JBool enforced)] ''msi''],
         pa_identifiers := pa_identifiers acc @ [toLowerCase name]\<rparr>)"

definition add_store :: "string \<times> string \<Rightarrow> parsed_apps \<Rightarrow> parsed_apps" where
  "add_store = (\<lambda>(name, version) acc.
     if toLowerCase name \<in> set (pa_identifiers acc) then acc
     else acc\<lparr>pa_apps := pa_apps acc @ [windows_app name version [] ''store''],
              pa_identifiers := pa_identifiers acc @ [toLowerCase name]\<rparr>)"

definition versioned_app :: "jsval \<Rightarrow> jsval \<Rightarrow> jsval \<Rightarrow> (string \<times> jsval) list \<Rightarrow> jsval list" where
  "versioned_app ident name version extra =
     (if truthy ident \<and> truthy version then
        [JObj ([(''identifier'', JStr (toLowerCase (to_string ident))), (''name'', name),
                (''version'', JStr (to_string version))] @ extra)]
      else [])"

definition add_ident :: "jsval \<Rightarrow> parsed_apps \<Rightarrow> parsed_apps" where
  "add_ident ident acc =
     (if truthy ident then acc\<lparr>pa_identifiers := pa_identifiers acc @ [toLowerCase (to_string ident)]\<rparr> else acc)"

definition add_apple_item :: "jsval \<Rightarrow> parsed_apps \<Rightarrow> parsed_apps" where
  "add_apple_item item acc =
     (let ident = coalesce (own_prop item ''Identifier'') (own_prop item ''identifier'');
          version = coalesce (own_prop item ''ShortVersion'') (own_prop item ''Version'');
          update = truthy (own_prop item ''HasUpdateAvailable'')
      in add_ident ident
           (acc\<lparr>pa_total := pa_total acc + 1,
                pa_pending := pa_pending acc @ (if update then
                  [JObj [(''identifier'', ident), (''name'', own_prop item ''Name''), (''installedVersion'', version),
                         (''build'', own_prop item ''Version''), (''isBetaApp'', JBool (truthy (own_prop item ''BetaApp'')))]]
                  else []),
                pa_apps := pa_apps acc @
                  versioned_app ident (own_prop item ''Name'') version [(''updateAvailable'', JBool update)]\<rparr>))"

definition add_android_item :: "jsval \<Rightarrow> parsed_apps \<Rightarrow> parsed_apps" where
  "add_android_item item acc =
     (let ident = own_prop item ''packageName''
      in add_ident ident
           (if strict_eq (own_prop item ''state'') (JStr ''REMOVED'') then acc
            else acc\<lparr>pa_apps := pa_apps acc @
                  versioned_app ident (own_prop item ''displayName'') (own_prop item ''versionName'') []\<rparr>))"

definition add_item :: "string \<Rightarrow> jsval \<Rightarrow> parsed_apps \<Rightarrow> parsed_apps" where
  "add_item path item acc =
     (case item of
        JObj _ \<Rightarrow> if path = ''apple'' then add_apple_item item acc else add_android_item item acc
      | JArr _ \<Rightarrow> if path = ''apple'' then add_apple_item item acc else add_android_item item acc
      | _ \<Rightarrow> acc)"

definition no_apps :: parsed_apps where
  "no_apps = \<lparr>pa_identifiers = [], pa_apps = [], pa_pending = [], pa_total = 0\<rparr>"

text \<open>What the fetch reads, its error, and the calls it made.\<close>

definition read_apps :: "refresh_env \<Rightarrow> string \<Rightarrow> string \<Rightarrow> mdm_state \<Rightarrow> (parsed_apps \<times> string option) \<times> mdm_state" where
  "read_apps env path deviceId st =
     (if path = ''windows'' then
        (case rf_windows env st deviceId of
           (msi, store_apps, err) \<Rightarrow> ((fold add_store store_apps (fold add_msi msi no_apps), err), st))
      else
        (case send_call (rf_mdm env) (ApiGet (device_url (orgBaseUrl (rf_mdm env)) path deviceId @ ''/applications'')) st of
           (Inl msg, st') \<Rightarrow> ((no_apps, Some (''AxiosError: '' @ msg)), st')
         | (Inr res, st') \<Rightarrow>
             ((if status res < 300 then (fold (add_item path) (extractItems (body res)) no_apps, None)
               else (no_apps, Some (''Applivery returned '' @ show_nat (status res)))), st')))"

text \<open>The new entry of the slot: the fetched data, or after an error the data and the date already there.\<close>

definition server_entry :: "refresh_env \<Rightarrow> fleet_device \<Rightarrow> string \<Rightarrow> parsed_apps \<Rightarrow> string option \<Rightarrow> installed_entry option \<Rightarrow>
    installed_entry" where
  "server_entry env d path parsed err existing =
     \<lparr>ie_identifiers = (if err = None then sort (js_set (pa_identifiers parsed))
                        else case existing of Some e \<Rightarrow> ie_identifiers e | None \<Rightarrow> []),
      ie_apps = (if err = None then locale_sort (rf_localeLe env) (text_prop ''identifier'') (pa_apps parsed)
                 else case existing of Some e \<Rightarrow> ie_apps e | None \<Rightarrow> []),
      ie_platform = fd_platform d,
      ie_fetchedAt = Some (if err = None then rf_now env
                           else case existing of
                               Some e \<Rightarrow> (case ie_fetchedAt e of Some t \<Rightarrow> t | None \<Rightarrow> rf_now env)
                             | None \<Rightarrow> rf_now env),
      ie_error = err, ie_source = ''server_fetch'',
      ie_appleAppUpdates =
        (if path = ''apple'' then
           (if err = None then Some (length (pa_pending parsed), pa_total parsed,
                 locale_sort (rf_localeLe env) (text_prop ''name'') (pa_pending parsed))
            else case existing of Some e \<Rightarrow> ie_appleAppUpdates e | None \<Rightarrow> None)
         else None)\<rparr>"

definition fetchAndStoreInstalledApps :: "refresh_env \<Rightarrow> string \<Rightarrow> fleet_device \<Rightarrow> device_db \<Rightarrow> device_db" where
  "fetchAndStoreInstalledApps env ws d db =
     (case platformPathSegment (fd_platform d) of
        None \<Rightarrow> db
      | Some path \<Rightarrow>
          if fd_id d = [] then db
          else (case read_apps env path (fd_id d) (dv_mdm db) of
              ((parsed, err), st') \<Rightarrow>
                upsertInstalledAppsSlot ws (fd_id d) ServerFetch
                  (server_entry env d path parsed err (slot_serverFetch (stored_record ws (fd_id d) db))) (rf_now env)
                  (db\<lparr>dv_mdm := st'\<rparr>)))"

text \<open>Workers share the list of ids; the ids are handled one after the other.\<close>

definition find_device :: "fleet_device list \<Rightarrow> string \<Rightarrow> fleet_device option" where
  "find_device devices did = List.find (\<lambda>d. fd_id d = did) (rev devices)"

definition refreshInstalledAppsBatch :: "refresh_env \<Rightarrow> string \<Rightarrow> string list \<Rightarrow> fleet_device list \<Rightarrow> device_db \<Rightarrow> device_db" where
  "refreshInstalledAppsBatch env ws targetIds devices db =
     fold (\<lambda>did acc. case find_device devices did of
         Some d \<Rightarrow> fetchAndStoreInstalledApps env ws d acc | None \<Rightarrow> acc) targetIds db"

section \<open>The agents' reports\<close>

record app_report =
  rp_platform :: string
  rp_serial :: string
  rp_apps :: "jsval list"

definition reported_app :: "jsval \<Rightarrow> jsval" where
  "reported_app a =
     JObj ([(''identifier'', JStr (toLowerCase (to_string (own_prop a ''identifier'')))),
            (''name'', coalesce (own_prop a ''name'') JNull),
            (''version'', JStr (to_string (own_prop a ''version'')))]
        @ (if truthy (own_prop a ''origin'') then [(''origin'', own_prop a ''origin'')] else [])
        @ (if truthy (own_prop a ''installLocation'') then [(''installLocation'', own_prop a ''installLocation'')] else [])
        @ (if truthy (own_prop a ''sha256'') then [(''sha256'', JStr (toLowerCase (to_string (own_prop a ''sha256''))))] else []))"

definition report_entry :: "refresh_env \<Rightarrow> app_report \<Rightarrow> installed_entry" where
  "report_entry env p =
     \<lparr>ie_identifiers = sort (js_set (map (\<lambda>a. toLowerCase (to_string (own_prop a ''identifier'')))
         (filter (\<lambda>a. truthy (own_prop a ''identifier'')) (rp_apps p)))),
      ie_apps = locale_sort (rf_localeLe env) (text_prop ''identifier'') (map reported_app
         (filter (\<lambda>a. truthy (own_prop a ''identifier'') \<and> truthy (own_prop a ''version'')) (rp_apps p))),
      ie_platform = rp_platform p, ie_fetchedAt = Some (rf_now env), ie_error = None,
      ie_source = ''self_reported'', ie_appleAppUpdates = None\<rparr>"

definition device_event :: "string \<Rightarrow> string \<Rightarrow> string \<Rightarrow> string \<Rightarrow> string \<Rightarrow> string \<Rightarrow> device_db \<Rightarrow> device_db" where
  "device_event ws action actor tid name message db =
     db\<lparr>dv_audit := recordAuditEvent ws (audit_about ''system'' action actor ''device'' tid name message None)
         (dv_audit db)\<rparr>"

definition is_pending :: "string \<Rightarrow> string \<Rightarrow> pending_report \<Rightarrow> bool" where
  "is_pending ws serial r \<longleftrightarrow> pr_workspace r = ws \<and> pr_serial r = serial"

definition buffer_report :: "string \<Rightarrow> string \<Rightarrow> installed_entry \<Rightarrow> device_db \<Rightarrow> device_db" where
  "buffer_report ws serial e db =
     db\<lparr>dv_pending :=
          (if list_ex (is_pending ws serial) (dv_pending db)
           then upd_where (is_pending ws serial) (\<lambda>r. r\<lparr>pr_entry := e\<rparr>) (dv_pending db)
           else dv_pending db @ [\<lparr>pr_workspace = ws, pr_serial = serial, pr_entry = e\<rparr>])\<rparr>"

text \<open>\<open>index\<close> is the cached map from serial numbers to the device's id and display name.\<close>

definition reportDeviceApps :: "refresh_env \<Rightarrow> (string \<times> string \<times> string option) list \<Rightarrow> string \<Rightarrow> app_report \<Rightarrow> device_db \<Rightarrow>
    (nat \<times> bool) result \<times> device_db" where
  "reportDeviceApps env index ws p db =
     (if js_trim (rp_serial p) = [] then (throw 400 ''serialNumber is required'', db)
      else
        (let e = report_entry env p;
             found = map_of index (rp_serial p);
             deviceId = (case found of Some (i, _) \<Rightarrow> i | None \<Rightarrow> []);
             name = (case found of Some (_, Some n) \<Rightarrow> filled (Some n) (rp_serial p) | _ \<Rightarrow> rp_serial p);
             matched = (deviceId \<noteq> []);
             stored = (if matched then
                  (let db1 = upsertInstalledAppsSlot ws deviceId SelfReported e (rf_now env) db
                   in db1\<lparr>dv_pending := del_where (is_pending ws (rp_serial p)) (dv_pending db1)\<rparr>)
                else buffer_report ws (rp_serial p) e db)
         in (Inr (length (ie_identifiers e), matched),
             device_event ws ''device_apps_received'' ''device'' (rp_serial p) name
               (''Received self-reported app inventory from '' @ quoted name @ '' ('' @ rp_platform p @ '') '' @ em_dash @ '' '' @
                show_nat (length (ie_identifiers e)) @ '' app(s)'' @
                (if matched then [] else '' (buffered '' @ em_dash @ '' device not yet matched to Applivery)'')) stored)))"

definition reconcile_row :: "refresh_env \<Rightarrow> string \<Rightarrow> fleet_device list \<Rightarrow> pending_report \<Rightarrow> nat \<times> device_db \<Rightarrow> nat \<times> device_db" where
  "reconcile_row env ws devices row acc =
     (case List.find (\<lambda>d. fd_serialNumber d \<noteq> [] \<and> fd_serialNumber d = pr_serial row) (rev devices) of
        None \<Rightarrow> acc
      | Some d \<Rightarrow>
          (let db1 = upsertInstalledAppsSlot ws (fd_id d) SelfReported (pr_entry row) (rf_now env) (snd acc)
           in (fst acc + 1, db1\<lparr>dv_pending := del_where (is_pending ws (pr_serial row)) (dv_pending db1)\<rparr>)))"

definition reconcilePendingAppReports :: "refresh_env \<Rightarrow> string \<Rightarrow> fleet_device list \<Rightarrow> device_db \<Rightarrow> nat \<times> device_db" where
  "reconcilePendingAppReports env ws devices db =
     (let (n, db1) = fold (reconcile_row env ws devices) (filter (\<lambda>r. pr_workspace r = ws) (dv_pending db)) (0, db)
      in (n, if n = 0 then db1
             else device_event ws ''device_apps_reconciled'' ''system'' ''bulk'' (show_nat n @ '' device(s)'')
               (''Reconciled '' @ show_nat n @ '' previously-buffered self-reported app inventory report(s) now that '' @
                ''the device(s) matched Applivery'' @ [CHR 0x27] @ ''s fleet.'') db1))"

section \<open>Device locations\<close>

definition locationsMdmType :: "string \<Rightarrow> string option" where
  "locationsMdmType platform =
     (if platform = ''apple'' \<or> platform = ''macos'' then Some ''admDevice''
      else if platform = ''android'' then Some ''emmDevice''
      else if platform = ''windows'' then Some ''winDevice''
      else None)"

definition is_location :: "string \<Rightarrow> string \<Rightarrow> location_row \<Rightarrow> bool" where
  "is_location ws deviceId r \<longleftrightarrow> lo_workspace r = ws \<and> lo_deviceId r = deviceId"

definition find_location :: "string \<Rightarrow> string \<Rightarrow> device_db \<Rightarrow> location_row option" where
  "find_location ws deviceId db = List.find (is_location ws deviceId) (dv_locations db)"

definition loadDeviceLocations :: "string \<Rightarrow> string list \<Rightarrow> device_db \<Rightarrow> (string \<times> device_location) list" where
  "loadDeviceLocations ws ids db =
     map (\<lambda>r. (lo_deviceId r, \<lparr>loc_point = \<lparr>lat = of_rat (lo_lat r), lng = of_rat (lo_lng r)\<rparr>, fetchedAt = lo_fetchedAt r\<rparr>))
       (filter (\<lambda>r. lo_workspace r = ws \<and> lo_deviceId r \<in> set ids \<and> lo_error r \<noteq> Some ''no_location_reported'')
          (dv_locations db))"

text \<open>\<open>new Date(v)\<close> on a value of the answer; None when it is not a valid date.\<close>

definition js_date :: "jsval \<Rightarrow> int option" where
  "js_date v = (case v of JStr s \<Rightarrow> date_parse s | JNum (Fin q) \<Rightarrow> Some \<lfloor>q\<rfloor> | _ \<Rightarrow> None)"

definition locations_url :: "refresh_env \<Rightarrow> string \<Rightarrow> string \<Rightarrow> int option \<Rightarrow> string" where
  "locations_url env mdmType deviceId since =
     orgBaseUrl (rf_mdm env) @ ''/mdm/locations/'' @ mdmType @ ''/'' @ deviceId @ ''?limit=1&sort=createdAt:desc'' @
     (case since of Some t \<Rightarrow> ''&dateIni='' @ toISOString t | None \<Rightarrow> [])"

text \<open>What the answer holds: a position with its source and date, nothing new, or a failure.\<close>

datatype location_answer =
    NewPosition rat rat jsval "int option"
  | NothingNew
  | LocationError string

definition read_position :: "refresh_env \<Rightarrow> jsval \<Rightarrow> location_answer" where
  "read_position env newest =
     (let la = own_prop newest ''latitude''; ln = own_prop newest ''longitude''
      in if nullish newest then LocationError (''TypeError: Cannot read properties of '' @ to_string newest @ '' (reading '' @ sq ''latitude'' @ '')'')
         else if nullish la \<or> nullish ln then NothingNew
         else
           (let raw = coalesce (own_prop newest ''date'') (coalesce (own_prop newest ''createdAt'') JNull)
            in case (to_number la, to_number ln) of
                 (Fin x, Fin y) \<Rightarrow>
                   if \<not> truthy raw then NewPosition x y (coalesce (own_prop newest ''origin'') JNull) None
                   else (case js_date raw of
                       Some t \<Rightarrow> NewPosition x y (coalesce (own_prop newest ''origin'') JNull) (Some t)
                     | None \<Rightarrow> LocationError (rf_badDate env))
               | _ \<Rightarrow> LocationError (rf_badDate env)))"

definition location_answer_of :: "refresh_env \<Rightarrow> string + api_response \<Rightarrow> location_answer" where
  "location_answer_of env r =
     (case r of
        Inl msg \<Rightarrow> LocationError (''AxiosError: '' @ msg)
      | Inr res \<Rightarrow>
          if status res < 300 then
            (case extractItems (body res) of [] \<Rightarrow> NothingNew | newest # _ \<Rightarrow> read_position env newest)
          else LocationError (''Applivery returned '' @ show_nat (status res)))"

definition touch_location :: "string \<Rightarrow> string \<Rightarrow> (location_row \<Rightarrow> location_row) \<Rightarrow> device_db \<Rightarrow> device_db" where
  "touch_location ws deviceId f db = db\<lparr>dv_locations := upd_where (is_location ws deviceId) f (dv_locations db)\<rparr>"

definition store_location :: "int \<Rightarrow> string \<Rightarrow> string \<Rightarrow> location_answer \<Rightarrow> device_db \<Rightarrow> device_db" where
  "store_location now ws deviceId answer db =
     (let known = (find_location ws deviceId db \<noteq> None);
          new_row = (\<lambda>x y src recAt err. db\<lparr>dv_locations := dv_locations db @
             [\<lparr>lo_workspace = ws, lo_deviceId = deviceId, lo_lat = x, lo_lng = y, lo_source = src, lo_recordedAt = recAt,
               lo_fetchedAt = now, lo_error = err\<rparr>]\<rparr>)
      in case answer of
           NewPosition x y src recAt \<Rightarrow>
             (if known then touch_location ws deviceId (\<lambda>r. r\<lparr>lo_lat := x, lo_lng := y, lo_source := src,
                  lo_recordedAt := recAt, lo_fetchedAt := now, lo_error := None\<rparr>) db
              else new_row x y src recAt None)
         | NothingNew \<Rightarrow>
             (if known then touch_location ws deviceId (\<lambda>r. r\<lparr>lo_fetchedAt := now, lo_error := None\<rparr>) db
              else new_row 0 0 JNull None (Some ''no_location_reported''))
         | LocationError msg \<Rightarrow>
             (if known then touch_location ws deviceId (\<lambda>r. r\<lparr>lo_fetchedAt := now, lo_error := Some msg\<rparr>) db
              else db))"

definition fetchAndStoreDeviceLocation :: "refresh_env \<Rightarrow> string \<Rightarrow> fleet_device \<Rightarrow> device_db \<Rightarrow> device_db" where
  "fetchAndStoreDeviceLocation env ws d db =
     (case locationsMdmType (fd_platform d) of
        None \<Rightarrow> db
      | Some mdmType \<Rightarrow>
          if fd_id d = [] then db
          else (case send_call (rf_mdm env) (ApiGet (locations_url env mdmType (fd_id d)
                  (case find_location ws (fd_id d) db of Some r \<Rightarrow> lo_recordedAt r | None \<Rightarrow> None))) (dv_mdm db) of
              (r, st') \<Rightarrow> store_location (rf_now env) ws (fd_id d) (location_answer_of env r) (db\<lparr>dv_mdm := st'\<rparr>)))"

definition refreshLocationsBatch :: "refresh_env \<Rightarrow> string \<Rightarrow> string list \<Rightarrow> fleet_device list \<Rightarrow> device_db \<Rightarrow> device_db" where
  "refreshLocationsBatch env ws targetIds devices db =
     fold (\<lambda>did acc. case find_device devices did of
         Some d \<Rightarrow> fetchAndStoreDeviceLocation env ws d acc | None \<Rightarrow> acc) targetIds db"

section \<open>The refreshers\<close>

definition clampBudget :: "int option \<Rightarrow> int" where
  "clampBudget v = (case v of None \<Rightarrow> 2000 | Some b \<Rightarrow> if b = 0 then 2000 else max 200 (min 4000 b))"

text \<open>\<open>Math.max(1, Math.round(budgetPerHour / 120))\<close>: a tick every 30 seconds.\<close>

definition perTickBudget :: "int \<Rightarrow> nat" where
  "perTickBudget budgetPerHour = nat (max 1 ((budgetPerHour + 60) div 120))"

definition js_round_tenths :: "rat \<Rightarrow> rat" where
  "js_round_tenths x = of_int \<lfloor>x * 10 + 1 / 2\<rfloor> / 10"

definition saved_budget :: "string \<Rightarrow> (string \<times> int option) list \<Rightarrow> int option" where
  "saved_budget ws budgets = (case map_of budgets ws of Some b \<Rightarrow> b | None \<Rightarrow> None)"

definition setInstalledAppsBudget :: "string \<Rightarrow> int \<Rightarrow> device_db \<Rightarrow> int \<times> device_db" where
  "setInstalledAppsBudget ws b db =
     (clampBudget (Some b), db\<lparr>dv_appBudgets := map_set ws (Some (clampBudget (Some b))) (dv_appBudgets db)\<rparr>)"

definition setLocationRefreshBudget :: "string \<Rightarrow> int \<Rightarrow> device_db \<Rightarrow> int \<times> device_db" where
  "setLocationRefreshBudget ws b db =
     (clampBudget (Some b), db\<lparr>dv_locationBudgets := map_set ws (Some (clampBudget (Some b))) (dv_locationBudgets db)\<rparr>)"

definition SELF_REPORT_FRESH_MINUTES :: int where
  "SELF_REPORT_FRESH_MINUTES = 150"

text \<open>The instant a device counts as last refreshed: 0 when it never was.\<close>

definition app_stamp :: "string \<Rightarrow> device_db \<Rightarrow> string \<Rightarrow> int" where
  "app_stamp ws db did =
     (case slot_serverFetch (stored_record ws did db) of
        Some e \<Rightarrow> (case ie_fetchedAt e of Some t \<Rightarrow> t | None \<Rightarrow> 0)
      | None \<Rightarrow> 0)"

definition location_stamp :: "string \<Rightarrow> device_db \<Rightarrow> string \<Rightarrow> int" where
  "location_stamp ws db did = (case find_location ws did db of Some r \<Rightarrow> lo_fetchedAt r | None \<Rightarrow> 0)"

definition needs_live_fetch :: "int \<Rightarrow> string \<Rightarrow> device_db \<Rightarrow> string \<Rightarrow> bool" where
  "needs_live_fetch now ws db did =
     (case slot_selfReported (stored_record ws did db) of
        None \<Rightarrow> True
      | Some e \<Rightarrow> (case ie_fetchedAt e of None \<Rightarrow> True | Some t \<Rightarrow> now - t > SELF_REPORT_FRESH_MINUTES * 60000))"

definition oldest_first :: "(string \<Rightarrow> int) \<Rightarrow> nat \<Rightarrow> string list \<Rightarrow> string list" where
  "oldest_first stamp n ids = take n (sort_key stamp ids)"

definition enabled_policies :: "string \<Rightarrow> comp_db \<Rightarrow> policy_row list" where
  "enabled_policies ws cdb = filter (\<lambda>p. pol_workspace p = ws \<and> pc_enabled (pol_cfg p)) (cd_policies cdb)"

definition workspacesWithEnabledPolicies :: "comp_db \<Rightarrow> string list" where
  "workspacesWithEnabledPolicies cdb = js_set (map pol_workspace (filter (\<lambda>p. pc_enabled (pol_cfg p)) (cd_policies cdb)))"

definition refresh_apps_of :: "refresh_env \<Rightarrow> comp_db \<Rightarrow> string \<Rightarrow> device_db \<Rightarrow> device_db" where
  "refresh_apps_of env cdb ws db =
     (if ws \<notin> set (rf_automation env) then db
      else case rf_fleet env ws of
        Inl _ \<Rightarrow> db
      | Inr devices \<Rightarrow>
          (let db1 = snd (reconcilePendingAppReports env ws devices db);
               candidates = filter (needs_live_fetch (rf_now env) ws db1)
                 (appListScopedDeviceIds devices (enabled_policies ws cdb));
               batch = oldest_first (app_stamp ws db1)
                 (perTickBudget (clampBudget (saved_budget ws (dv_appBudgets db1)))) candidates
           in refreshInstalledAppsBatch env ws batch devices db1))"

definition runInstalledAppsRefresherTick :: "refresh_env \<Rightarrow> comp_db \<Rightarrow> device_db \<Rightarrow> device_db" where
  "runInstalledAppsRefresherTick env cdb db = fold (refresh_apps_of env cdb) (workspacesWithEnabledPolicies cdb) db"

definition refresh_locations_of :: "refresh_env \<Rightarrow> comp_db \<Rightarrow> string \<Rightarrow> device_db \<Rightarrow> device_db" where
  "refresh_locations_of env cdb ws db =
     (if ws \<notin> set (rf_automation env) then db
      else case rf_fleet env ws of
        Inl _ \<Rightarrow> db
      | Inr devices \<Rightarrow>
          (let batch = oldest_first (location_stamp ws db)
                 (perTickBudget (clampBudget (saved_budget ws (dv_locationBudgets db))))
                 (geofenceScopedDeviceIds devices (enabled_policies ws cdb))
           in refreshLocationsBatch env ws batch devices db))"

definition runLocationRefresherTick :: "refresh_env \<Rightarrow> comp_db \<Rightarrow> device_db \<Rightarrow> device_db" where
  "runLocationRefresherTick env cdb db = fold (refresh_locations_of env cdb) (workspacesWithEnabledPolicies cdb) db"

section \<open>Refresh status\<close>

record refresh_status =
  rs_targetDeviceCount :: nat
  rs_syncedCount :: nat
  rs_neverSyncedCount :: nat
  rs_errorCount :: nat
  rs_selfReportedCount :: nat
  rs_oldestSyncAgeMinutes :: "rat option"
  rs_medianSyncAgeMinutes :: "rat option"
  rs_budget :: int
  rs_estimatedFullCycleHours :: rat

definition age_summary :: "rat list \<Rightarrow> rat option \<times> rat option" where
  "age_summary ages =
     (let s = sort ages
      in if s = [] then (None, None)
         else (Some (js_round_tenths (last s)), Some (js_round_tenths (s ! (length s div 2)))))"

definition cycle_hours :: "nat \<Rightarrow> int \<Rightarrow> rat" where
  "cycle_hours devices budget = (if devices = 0 then 0 else js_round_tenths (of_nat devices / of_int budget))"

definition getInstalledAppsStatus :: "int \<Rightarrow> string \<Rightarrow> fleet_device list \<Rightarrow> policy_row list \<Rightarrow> device_db \<Rightarrow> refresh_status" where
  "getInstalledAppsStatus now ws devices policies db =
     (let targetIds = appListScopedDeviceIds devices policies;
          rec_of = (\<lambda>did. stored_record ws did db);
          rep = (\<lambda>did. case slot_serverFetch (rec_of did) of Some e \<Rightarrow> Some e | None \<Rightarrow> slot_selfReported (rec_of did));
          synced = (\<lambda>did. case rep did of Some e \<Rightarrow> ie_fetchedAt e \<noteq> None | None \<Rightarrow> False);
          selfCount = length (filter (\<lambda>did. slot_selfReported (rec_of did) \<noteq> None) targetIds);
          ages = map (\<lambda>did. case rep did of
              Some e \<Rightarrow> (case ie_fetchedAt e of Some t \<Rightarrow> of_int (now - t) / 60000 | None \<Rightarrow> 0)
            | None \<Rightarrow> 0) (filter synced targetIds);
          budget = clampBudget (saved_budget ws (dv_appBudgets db))
      in \<lparr>rs_targetDeviceCount = length targetIds, rs_syncedCount = length ages,
          rs_neverSyncedCount = length (filter (\<lambda>did. \<not> synced did) targetIds),
          rs_errorCount = length (filter (\<lambda>did. synced did \<and>
             (case rep did of Some e \<Rightarrow> filled (ie_error e) [] \<noteq> [] | None \<Rightarrow> False)) targetIds),
          rs_selfReportedCount = selfCount,
          rs_oldestSyncAgeMinutes = fst (age_summary ages), rs_medianSyncAgeMinutes = snd (age_summary ages),
          rs_budget = budget, rs_estimatedFullCycleHours = cycle_hours (length targetIds - selfCount) budget\<rparr>)"

definition getLocationRefreshStatus :: "int \<Rightarrow> string \<Rightarrow> fleet_device list \<Rightarrow> policy_row list \<Rightarrow> device_db \<Rightarrow> refresh_status" where
  "getLocationRefreshStatus now ws devices policies db =
     (let targetIds = geofenceScopedDeviceIds devices policies;
          known = filter (\<lambda>did. find_location ws did db \<noteq> None) targetIds;
          ages = map (\<lambda>did. of_int (now - location_stamp ws db did) / 60000) known;
          budget = clampBudget (saved_budget ws (dv_locationBudgets db))
      in \<lparr>rs_targetDeviceCount = length targetIds, rs_syncedCount = length ages,
          rs_neverSyncedCount = length (filter (\<lambda>did. find_location ws did db = None) targetIds),
          rs_errorCount = length (filter (\<lambda>did. case find_location ws did db of
             Some r \<Rightarrow> filled (lo_error r) [] \<noteq> [] | None \<Rightarrow> False) targetIds),
          rs_selfReportedCount = 0,
          rs_oldestSyncAgeMinutes = fst (age_summary ages), rs_medianSyncAgeMinutes = snd (age_summary ages),
          rs_budget = budget, rs_estimatedFullCycleHours = cycle_hours (length targetIds) budget\<rparr>)"

section \<open>Lemmas\<close>

lemma record_json_roundtrip [simp]: "toRecord (record_json r) = r"
  by (simp add: record_json_def)

lemma stored_record_upsert:
  "stored_record ws did (upsertInstalledAppsSlot ws' did' sl e t db) =
     (if ws = ws' \<and> did = did' then put_slot sl e (stored_record ws did db) else stored_record ws did db)"
proof (cases "find_inventory ws' did' db")
  case None
  have new: "List.find (is_inventory ws did) (dv_inventory db @ [r]) =
      (case List.find (is_inventory ws did) (dv_inventory db) of None \<Rightarrow> if is_inventory ws did r then Some r else None | Some x \<Rightarrow> Some x)" for r
    by (simp add: find_append split: option.splits)
  show ?thesis
    using None by (auto simp: upsertInstalledAppsSlot_def stored_record_def find_inventory_def new is_inventory_def split: option.splits)
next
  case (Some row)
  have key: "is_inventory ws' did' (r\<lparr>inv_apps := a, inv_reportedAt := t\<rparr>) = is_inventory ws' did' r"
    "is_inventory ws did (r\<lparr>inv_apps := a, inv_reportedAt := t\<rparr>) = is_inventory ws did r" for r a
    by (simp_all add: is_inventory_def)
  let ?f = "\<lambda>r. r\<lparr>inv_apps := record_json (put_slot sl e (toRecord (inv_apps row))), inv_reportedAt := t\<rparr>"
  have "List.find (is_inventory ws did) (upd_where (is_inventory ws' did') ?f xs) =
      map_option (\<lambda>r. if is_inventory ws' did' r then ?f r else r) (List.find (is_inventory ws did) xs)" for xs
    by (induction xs) (auto simp: upd_where_def key)
  then show ?thesis
    using Some by (auto simp: upsertInstalledAppsSlot_def stored_record_def find_inventory_def is_inventory_def
        split: option.splits dest!: find_Some_in)
qed

lemma upsert_slot_frame [simp]:
  "dv_mdm (upsertInstalledAppsSlot ws did sl e t db) = dv_mdm db"
  "dv_locations (upsertInstalledAppsSlot ws did sl e t db) = dv_locations db"
  "dv_appBudgets (upsertInstalledAppsSlot ws did sl e t db) = dv_appBudgets db"
  by (simp_all add: upsertInstalledAppsSlot_def split: option.splits)

lemma stored_record_mdm [simp]: "stored_record ws did (db\<lparr>dv_mdm := st\<rparr>) = stored_record ws did db"
  by (simp add: stored_record_def find_inventory_def)

lemma read_of_record:
  "readInstalledAppsFromStore ws did db =
     (let entries = installedAppsRecordEntries (stored_record ws did db)
      in if entries = [] then JNull else JArr (map JStr (js_set (concat (map ie_identifiers entries)))))"
  by (simp add: readInstalledAppsFromStore_def stored_record_def installedAppsRecordEntries_def split: option.splits)

lemma find_deviceD: "find_device devices did = Some d \<Longrightarrow> d \<in> set devices \<and> fd_id d = did"
  unfolding find_device_def by (drule find_Some_in) simp

lemma fetchApps_record:
  "stored_record ws did (fetchAndStoreInstalledApps env ws d db) = stored_record ws did db \<or>
   (did = fd_id d \<and> (\<exists>path. platformPathSegment (fd_platform d) = Some path \<and> did \<noteq> [] \<and>
      stored_record ws did (fetchAndStoreInstalledApps env ws d db) = put_slot ServerFetch
        (server_entry env d path (fst (fst (read_apps env path did (dv_mdm db)))) (snd (fst (read_apps env path did (dv_mdm db))))
          (slot_serverFetch (stored_record ws did db))) (stored_record ws did db)))"
  by (auto simp: fetchAndStoreInstalledApps_def stored_record_upsert split: option.splits prod.splits)

lemma read_apps_calls: "length (sent (snd (read_apps env path did st))) \<le> length (sent st) + 1"
  by (auto simp: read_apps_def send_call_def Let_def split: prod.splits sum.splits)

lemma fetchApps_calls: "length (sent (dv_mdm (fetchAndStoreInstalledApps env ws d db))) \<le> length (sent (dv_mdm db)) + 1"
  using read_apps_calls [of env _ "fd_id d" "dv_mdm db"]
  by (auto simp: fetchAndStoreInstalledApps_def split: option.splits prod.splits) (metis snd_conv)

lemma find_location_touch:
  assumes "\<And>r. lo_workspace (f r) = lo_workspace r \<and> lo_deviceId (f r) = lo_deviceId r"
  shows "find_location ws did (touch_location ws' did' f db) =
     map_option (\<lambda>r. if ws = ws' \<and> did = did' then f r else r) (find_location ws did db)"
proof -
  have "List.find (is_location ws did) (upd_where (is_location ws' did') f xs) =
      map_option (\<lambda>r. if ws = ws' \<and> did = did' then f r else r) (List.find (is_location ws did) xs)" for xs
    using assms by (induction xs) (auto simp: upd_where_def is_location_def)
  then show ?thesis by (simp add: find_location_def touch_location_def)
qed

lemma store_location_find:
  "find_location ws did (store_location now ws' did' a db) =
     (if ws = ws' \<and> did = did' then
        (case (find_location ws did db, a) of
           (Some r, NewPosition x y src t) \<Rightarrow> Some (r\<lparr>lo_lat := x, lo_lng := y, lo_source := src, lo_recordedAt := t,
              lo_fetchedAt := now, lo_error := None\<rparr>)
         | (Some r, NothingNew) \<Rightarrow> Some (r\<lparr>lo_fetchedAt := now, lo_error := None\<rparr>)
         | (Some r, LocationError msg) \<Rightarrow> Some (r\<lparr>lo_fetchedAt := now, lo_error := Some msg\<rparr>)
         | (None, NewPosition x y src t) \<Rightarrow> Some \<lparr>lo_workspace = ws, lo_deviceId = did, lo_lat = x, lo_lng = y,
              lo_source = src, lo_recordedAt = t, lo_fetchedAt = now, lo_error = None\<rparr>
         | (None, NothingNew) \<Rightarrow> Some \<lparr>lo_workspace = ws, lo_deviceId = did, lo_lat = 0, lo_lng = 0,
              lo_source = JNull, lo_recordedAt = None, lo_fetchedAt = now, lo_error = Some ''no_location_reported''\<rparr>
         | (None, LocationError msg) \<Rightarrow> None)
      else find_location ws did db)"
proof (cases "find_location ws' did' db")
  case None
  then show ?thesis
    by (auto simp: store_location_def find_location_def is_location_def find_append split: location_answer.splits option.splits)
next
  case (Some r)
  then show ?thesis
    by (auto simp: store_location_def find_location_touch option.map_ident split: location_answer.splits option.splits)
qed

lemma oldest_first_order:
  assumes "x \<in> set (oldest_first f n ids)" "y \<in> set ids" "y \<notin> set (oldest_first f n ids)"
  shows "f x \<le> f y"
proof -
  have "sorted (map f (take n (sort_key f ids)) @ map f (drop n (sort_key f ids)))"
    by (simp only: map_append [symmetric] append_take_drop_id sorted_sort_key)
  moreover have "y \<in> set (drop n (sort_key f ids))"
    using assms(2,3) append_take_drop_id [of n "sort_key f ids"] unfolding oldest_first_def
    by (metis Un_iff set_append set_sort)
  ultimately show ?thesis using assms(1) unfolding sorted_append by (auto simp only: oldest_first_def set_map)
qed

lemma oldest_first_simps:
  "length (oldest_first f n ids) \<le> n" "set (oldest_first f n ids) \<subseteq> set ids"
  "distinct ids \<Longrightarrow> distinct (oldest_first f n ids)"
  unfolding oldest_first_def
  by (simp_all add: order_trans [OF set_take_subset] distinct_take)

lemma perTick_bounds:
  "2 \<le> perTickBudget (clampBudget v)" "perTickBudget (clampBudget v) \<le> 33"
  "120 * int (perTickBudget (clampBudget v)) \<le> clampBudget v + 60"
proof -
  have b: "200 \<le> clampBudget v" "clampBudget v \<le> 4000" by (auto simp: clampBudget_def split: option.splits)
  then have "2 \<le> (clampBudget v + 60) div 120" "(clampBudget v + 60) div 120 \<le> 33" by linarith+
  then show "2 \<le> perTickBudget (clampBudget v)" "perTickBudget (clampBudget v) \<le> 33"
    "120 * int (perTickBudget (clampBudget v)) \<le> clampBudget v + 60"
    unfolding perTickBudget_def by linarith+
qed

section \<open>Refreshing on a budget\<close>

text \<open>
  What the two refreshers share: fetching a device moves no stamp but its own, that one at most to the present, and
  costs at most one call.
\<close>

locale refresher =
  fixes fetch :: "string \<Rightarrow> 's \<Rightarrow> 's" and stamp :: "'s \<Rightarrow> string \<Rightarrow> int" and calls :: "'s \<Rightarrow> nat" and now :: int
  assumes fetch_other: "j \<noteq> i \<Longrightarrow> stamp (fetch i s) j = stamp s j"
    and fetch_self: "stamp (fetch i s) i = stamp s i \<or> stamp (fetch i s) i = now"
    and fetch_calls: "calls (fetch i s) \<le> calls s + 1"
begin

lemma batch_stamps: "stamp (fold fetch ids s) j = stamp s j \<or> j \<in> set ids \<and> stamp (fold fetch ids s) j = now"
proof (induction ids arbitrary: s)
  case (Cons i ids)
  have "stamp (fold fetch ids (fetch i s)) j = stamp (fetch i s) j \<or>
      j \<in> set ids \<and> stamp (fold fetch ids (fetch i s)) j = now" by (rule Cons)
  then show ?case using fetch_other [of j i s] fetch_self [of i s] by (cases "j = i") auto
qed simp

lemma batch_calls: "calls (fold fetch ids s) \<le> calls s + length ids"
proof (induction ids arbitrary: s)
  case (Cons i ids)
  show ?case using Cons [of "fetch i s"] fetch_calls [of i s] by simp
qed simp

lemma stuck_batch:
  assumes "\<And>i s. i \<in> set ids \<Longrightarrow> stamp s i = stamp s0 i \<Longrightarrow> stamp (fetch i s) i = stamp s i"
  shows "stamp (fold fetch ids s0) = stamp s0"
proof -
  have "stamp (fold fetch ids s) = stamp s0" if "stamp s = stamp s0" "set ids' \<subseteq> set ids" "ids = ids'" for s ids'
    using assms that
  proof (induction ids arbitrary: s ids')
    case (Cons i ids)
    have "stamp (fetch i s) = stamp s0"
    proof
      fix j
      show "stamp (fetch i s) j = stamp s0 j"
        using fetch_other [of j i s] Cons.prems(1) [of i s] Cons.prems(2) by (cases "j = i") auto
    qed
    then show ?case using Cons.IH [of "fetch i s" ids] Cons.prems(1) by simp
  qed simp
  then show ?thesis by simp
qed

end

definition fetch_apps_of :: "refresh_env \<Rightarrow> string \<Rightarrow> fleet_device list \<Rightarrow> string \<Rightarrow> device_db \<Rightarrow> device_db" where
  "fetch_apps_of env ws devices did acc =
     (case find_device devices did of Some d \<Rightarrow> fetchAndStoreInstalledApps env ws d acc | None \<Rightarrow> acc)"

definition fetch_location_of :: "refresh_env \<Rightarrow> string \<Rightarrow> fleet_device list \<Rightarrow> string \<Rightarrow> device_db \<Rightarrow> device_db" where
  "fetch_location_of env ws devices did acc =
     (case find_device devices did of Some d \<Rightarrow> fetchAndStoreDeviceLocation env ws d acc | None \<Rightarrow> acc)"

lemma batches_as_folds:
  "refreshInstalledAppsBatch env ws ids devices = fold (fetch_apps_of env ws devices) ids"
  "refreshLocationsBatch env ws ids devices = fold (fetch_location_of env ws devices) ids"
  by (auto simp: refreshInstalledAppsBatch_def refreshLocationsBatch_def fetch_apps_of_def [abs_def]
      fetch_location_of_def [abs_def] fun_eq_iff)

lemma server_entry_stamp:
  "ie_fetchedAt (server_entry env d path parsed err old) = Some (rf_now env) \<or>
   (\<exists>e t. old = Some e \<and> ie_fetchedAt e = Some t \<and> ie_fetchedAt (server_entry env d path parsed err old) = Some t)"
  by (auto simp: server_entry_def split: option.splits)

interpretation app_refresh: refresher "fetch_apps_of env ws devices" "app_stamp ws" "\<lambda>db. length (sent (dv_mdm db))" "rf_now env"
  for env ws devices
proof
  fix i j s
  show "app_stamp ws (fetch_apps_of env ws devices i s) j = app_stamp ws s j" if "j \<noteq> i"
  proof (cases "find_device devices i")
    case (Some d)
    then show ?thesis using fetchApps_record [of ws j env d s] that
      by (auto simp: fetch_apps_of_def app_stamp_def dest: find_deviceD)
  qed (simp add: fetch_apps_of_def)
  show "app_stamp ws (fetch_apps_of env ws devices i s) i = app_stamp ws s i \<or>
      app_stamp ws (fetch_apps_of env ws devices i s) i = rf_now env"
  proof (cases "find_device devices i")
    case (Some d)
    from fetchApps_record [of ws i env d s] show ?thesis
    proof
      assume "stored_record ws i (fetchAndStoreInstalledApps env ws d s) = stored_record ws i s"
      then show ?thesis using Some by (simp add: fetch_apps_of_def app_stamp_def)
    next
      assume "i = fd_id d \<and> (\<exists>path. platformPathSegment (fd_platform d) = Some path \<and> i \<noteq> [] \<and>
        stored_record ws i (fetchAndStoreInstalledApps env ws d s) = put_slot ServerFetch
          (server_entry env d path (fst (fst (read_apps env path i (dv_mdm s)))) (snd (fst (read_apps env path i (dv_mdm s))))
            (slot_serverFetch (stored_record ws i s))) (stored_record ws i s))"
      then obtain path parsed err where "slot_serverFetch (stored_record ws i (fetchAndStoreInstalledApps env ws d s)) =
          Some (server_entry env d path parsed err (slot_serverFetch (stored_record ws i s)))" by auto
      then show ?thesis using Some server_entry_stamp [of env d path parsed err "slot_serverFetch (stored_record ws i s)"]
        by (auto simp: fetch_apps_of_def app_stamp_def)
    qed
  qed (simp add: fetch_apps_of_def)
  show "length (sent (dv_mdm (fetch_apps_of env ws devices i s))) \<le> length (sent (dv_mdm s)) + 1"
    using fetchApps_calls by (auto simp: fetch_apps_of_def split: option.splits)
qed

lemma fetchLocation_find:
  "find_location ws did (fetchAndStoreDeviceLocation env ws d db) = find_location ws did db \<or>
   did = fd_id d \<and> (\<exists>a. find_location ws did (fetchAndStoreDeviceLocation env ws d db) =
      find_location ws did (store_location (rf_now env) ws did a db))"
proof -
  have same: "find_location ws j (store_location (rf_now env) ws i a (db\<lparr>dv_mdm := st\<rparr>)) =
      find_location ws j (store_location (rf_now env) ws i a db)" for i j a st
    unfolding store_location_find by (simp add: find_location_def)
  show ?thesis
  proof (cases "did = fd_id d")
    case True
    then show ?thesis by (auto simp: fetchAndStoreDeviceLocation_def same split: option.splits prod.splits)
  next
    case False
    then have "find_location ws did (store_location (rf_now env) ws (fd_id d) a db) = find_location ws did db" for a
      by (simp add: store_location_find)
    then show ?thesis by (auto simp: fetchAndStoreDeviceLocation_def same split: option.splits prod.splits)
  qed
qed

lemma store_location_mdm [simp]: "dv_mdm (store_location now ws did a db) = dv_mdm db"
  by (auto simp: store_location_def touch_location_def Let_def split: location_answer.splits)

interpretation location_refresh: refresher "fetch_location_of env ws devices" "location_stamp ws"
    "\<lambda>db. length (sent (dv_mdm db))" "rf_now env"
  for env ws devices
proof
  fix i j s
  show "location_stamp ws (fetch_location_of env ws devices i s) j = location_stamp ws s j" if "j \<noteq> i"
  proof (cases "find_device devices i")
    case (Some d)
    then show ?thesis using fetchLocation_find [of ws j env d s] that
      by (auto simp: fetch_location_of_def location_stamp_def dest: find_deviceD)
  qed (simp add: fetch_location_of_def)
  show "location_stamp ws (fetch_location_of env ws devices i s) i = location_stamp ws s i \<or>
      location_stamp ws (fetch_location_of env ws devices i s) i = rf_now env"
  proof (cases "find_device devices i")
    case (Some d)
    then show ?thesis using fetchLocation_find [of ws i env d s]
      by (auto simp: fetch_location_of_def location_stamp_def store_location_find split: option.splits location_answer.splits)
  qed (simp add: fetch_location_of_def)
  show "length (sent (dv_mdm (fetch_location_of env ws devices i s))) \<le> length (sent (dv_mdm s)) + 1"
    by (auto simp: fetch_location_of_def fetchAndStoreDeviceLocation_def send_call_def Let_def split: option.splits)
qed

section \<open>Properties\<close>

lemma enabled_scoped: "distinct (appListScopedDeviceIds devices policies)" "distinct (geofenceScopedDeviceIds devices policies)"
  by (simp_all add: appListScopedDeviceIds_def geofenceScopedDeviceIds_def scoped_by_def)

lemma reconcile_row_frame:
  "app_stamp ws' (snd (reconcile_row env ws devices row acc)) = app_stamp ws' (snd acc)"
  "dv_mdm (snd (reconcile_row env ws devices row acc)) = dv_mdm (snd acc)"
  "dv_appBudgets (snd (reconcile_row env ws devices row acc)) = dv_appBudgets (snd acc)"
proof -
  have del: "stored_record ws' did (db\<lparr>dv_pending := ps\<rparr>) = stored_record ws' did db" for did db ps
    by (simp add: stored_record_def find_inventory_def)
  show "app_stamp ws' (snd (reconcile_row env ws devices row acc)) = app_stamp ws' (snd acc)"
    by (auto simp: reconcile_row_def app_stamp_def fun_eq_iff Let_def del stored_record_upsert split: option.splits)
qed (auto simp: reconcile_row_def Let_def split: option.splits)

lemma reconcile_frame:
  "app_stamp ws' (snd (reconcilePendingAppReports env ws devices db)) = app_stamp ws' db"
  "dv_mdm (snd (reconcilePendingAppReports env ws devices db)) = dv_mdm db"
  "dv_appBudgets (snd (reconcilePendingAppReports env ws devices db)) = dv_appBudgets db"
proof -
  have fold: "app_stamp ws' (snd (fold (reconcile_row env ws devices) rows acc)) = app_stamp ws' (snd acc)"
    "dv_mdm (snd (fold (reconcile_row env ws devices) rows acc)) = dv_mdm (snd acc)"
    "dv_appBudgets (snd (fold (reconcile_row env ws devices) rows acc)) = dv_appBudgets (snd acc)" for rows acc
    by (induction rows arbitrary: acc) (simp_all add: reconcile_row_frame)
  have event: "app_stamp ws' (x\<lparr>dv_audit := l\<rparr>) = app_stamp ws' x" for x l
    by (simp add: app_stamp_def stored_record_def find_inventory_def fun_eq_iff)
  let ?acc = "fold (reconcile_row env ws devices) (filter (\<lambda>r. pr_workspace r = ws) (dv_pending db)) (0, db)"
  show "app_stamp ws' (snd (reconcilePendingAppReports env ws devices db)) = app_stamp ws' db"
    "dv_mdm (snd (reconcilePendingAppReports env ws devices db)) = dv_mdm db"
    "dv_appBudgets (snd (reconcilePendingAppReports env ws devices db)) = dv_appBudgets db"
    using fold [of "filter (\<lambda>r. pr_workspace r = ws) (dv_pending db)" "(0, db)"]
    by (auto simp: reconcilePendingAppReports_def event Let_def device_event_def split: prod.splits)
qed

text \<open>The devices a tick of the installed-apps refresher may fetch, on the tables after the reconciliation.\<close>

definition app_candidates :: "refresh_env \<Rightarrow> comp_db \<Rightarrow> string \<Rightarrow> fleet_device list \<Rightarrow> device_db \<Rightarrow> string list" where
  "app_candidates env cdb ws devices db =
     filter (needs_live_fetch (rf_now env) ws (snd (reconcilePendingAppReports env ws devices db)))
       (appListScopedDeviceIds devices (enabled_policies ws cdb))"

text \<open>
  The installed-apps refresher stays on its budget and takes the stalest devices. A tick of a workspace whose
  fleet could be listed refetches a batch of distinct candidates - devices in the scope of an enabled policy with an
  App List condition and without a fresh report of their own - of at most the per-tick budget, which is 2 to 33, none
  of them fetched later than a candidate left out; it makes at most one call per device of the batch, and the fetch
  date of a device either stays or, for a device of the batch, becomes the present.
\<close>
lemma app_refresher_on_budget:
  assumes "ws \<in> set (rf_automation env)" "rf_fleet env ws = Inr devices"
  shows "\<exists>batch. distinct batch \<and> set batch \<subseteq> set (app_candidates env cdb ws devices db) \<and>
    length batch \<le> perTickBudget (clampBudget (saved_budget ws (dv_appBudgets db))) \<and> length batch \<le> 33 \<and>
    (\<forall>x\<in>set batch. \<forall>y\<in>set (app_candidates env cdb ws devices db) - set batch. app_stamp ws db x \<le> app_stamp ws db y) \<and>
    length (sent (dv_mdm (refresh_apps_of env cdb ws db))) \<le> length (sent (dv_mdm db)) + length batch \<and>
    (\<forall>did. app_stamp ws (refresh_apps_of env cdb ws db) did = app_stamp ws db did \<or>
       did \<in> set batch \<and> app_stamp ws (refresh_apps_of env cdb ws db) did = rf_now env)"
proof -
  define db1 where "db1 = snd (reconcilePendingAppReports env ws devices db)"
  define n where "n = perTickBudget (clampBudget (saved_budget ws (dv_appBudgets db)))"
  define batch where "batch = oldest_first (app_stamp ws db) n (app_candidates env cdb ws devices db)"
  have run: "refresh_apps_of env cdb ws db = fold (fetch_apps_of env ws devices) batch db1"
    using assms by (simp add: refresh_apps_of_def Let_def batch_def n_def db1_def app_candidates_def reconcile_frame
        batches_as_folds [symmetric])
  have "distinct (app_candidates env cdb ws devices db)" by (simp add: app_candidates_def enabled_scoped)
  then have "distinct batch" "set batch \<subseteq> set (app_candidates env cdb ws devices db)" "length batch \<le> n"
    unfolding batch_def by (rule oldest_first_simps) (rule oldest_first_simps)+
  moreover have "n \<le> 33" unfolding n_def by (rule perTick_bounds)
  moreover have "\<forall>x\<in>set batch. \<forall>y\<in>set (app_candidates env cdb ws devices db) - set batch. app_stamp ws db x \<le> app_stamp ws db y"
    using oldest_first_order unfolding batch_def by blast
  moreover have "length (sent (dv_mdm (refresh_apps_of env cdb ws db))) \<le> length (sent (dv_mdm db)) + length batch"
    using app_refresh.batch_calls [of env ws devices batch db1] by (simp add: run db1_def reconcile_frame)
  moreover have "app_stamp ws (refresh_apps_of env cdb ws db) did = app_stamp ws db did \<or>
       did \<in> set batch \<and> app_stamp ws (refresh_apps_of env cdb ws db) did = rf_now env" for did
    using app_refresh.batch_stamps [of ws env devices batch db1 did] by (simp add: run db1_def reconcile_frame)
  ultimately show ?thesis unfolding n_def by (intro exI [of _ batch]) simp
qed

definition sample_refresh :: refresh_env where
  "sample_refresh = \<lparr>rf_mdm = sample_mdm, rf_windows = (\<lambda>_ _. ([], [], None)), rf_localeLe = (\<lambda>a b. a \<le> b),
     rf_fleet = (\<lambda>_. Inr []), rf_automation = [''acme''], rf_badDate = [], rf_now = 1000\<rparr>"

definition empty_devices :: device_db where
  "empty_devices = \<lparr>dv_inventory = [], dv_pending = [], dv_locations = [], dv_appBudgets = [], dv_locationBudgets = [],
     dv_mdm = no_calls, dv_audit = []\<rparr>"

theorem app_refresher_on_budget_witness:
  "\<forall>cdb. \<exists>batch. set batch \<subseteq> set (app_candidates sample_refresh cdb ''acme'' [] empty_devices) \<and> length batch \<le> 33"
  using app_refresher_on_budget [of "''acme''" sample_refresh "[]" _ empty_devices] by (simp add: sample_refresh_def) blast

lemma fetchApps_failed:
  assumes "platformPathSegment (fd_platform d) = Some path" "fd_id d \<noteq> []"
    and "read_apps env path (fd_id d) (dv_mdm db) = ((parsed, Some err), st)"
  shows "stored_record ws (fd_id d) (fetchAndStoreInstalledApps env ws d db) =
    put_slot ServerFetch (server_entry env d path parsed (Some err) (slot_serverFetch (stored_record ws (fd_id d) db)))
      (stored_record ws (fd_id d) db)"
  using assms by (simp add: fetchAndStoreInstalledApps_def stored_record_upsert)

text \<open>
  C34: A failed inventory fetch loses nothing and proves nothing fresh. When the device has an entry of an earlier
  fetch, a failing fetch leaves the identifiers the conditions read, the agent's slot and the stored apps as they
  were, records the error, and leaves the fetch date - and with it the device's place in the refresher's order -
  where it was.
\<close>
theorem failed_fetch_keeps_inventory:
  assumes "platformPathSegment (fd_platform d) = Some path" "fd_id d \<noteq> []"
    and "read_apps env path (fd_id d) (dv_mdm db) = ((parsed, Some err), st)"
    and "slot_serverFetch (stored_record ws (fd_id d) db) = Some e" "ie_fetchedAt e = Some t"
  shows "\<exists>e'. stored_record ws (fd_id d) (fetchAndStoreInstalledApps env ws d db) =
      put_slot ServerFetch e' (stored_record ws (fd_id d) db) \<and>
    ie_identifiers e' = ie_identifiers e \<and> ie_apps e' = ie_apps e \<and> ie_fetchedAt e' = Some t \<and> ie_error e' = Some err \<and>
    readInstalledAppsFromStore ws (fd_id d) (fetchAndStoreInstalledApps env ws d db) = readInstalledAppsFromStore ws (fd_id d) db \<and>
    app_stamp ws (fetchAndStoreInstalledApps env ws d db) (fd_id d) = app_stamp ws db (fd_id d)"
proof -
  define e' where "e' = server_entry env d path parsed (Some err) (Some e)"
  have fields: "ie_identifiers e' = ie_identifiers e" "ie_apps e' = ie_apps e" "ie_fetchedAt e' = Some t" "ie_error e' = Some err"
    using assms(5) by (simp_all add: e'_def server_entry_def)
  have "stored_record ws (fd_id d) (fetchAndStoreInstalledApps env ws d db) = put_slot ServerFetch e' (stored_record ws (fd_id d) db)"
    using fetchApps_failed [OF assms(1-3), of ws] assms(4) by (simp add: e'_def)
  with fields show ?thesis
    using assms(4,5)
    by (intro exI [of _ e']) (simp add: read_of_record installedAppsRecordEntries_def app_stamp_def split: option.splits)
qed

definition broken_mac :: fleet_device where
  "broken_mac = \<lparr>fd_id = ''d1'', fd_displayName = ''Mac'', fd_platform = ''apple'', fd_platformDeviceId = ''a1'',
     fd_serialNumber = ''S1'', fd_tags = [], fd_smartAttributeAssignmentIds = [], fd_deviceAudiences = [],
     fd_riskTier = None, fd_segmentId = None, fd_activePolicies = [], fd_json = JObj []\<rparr>"

definition old_entry :: installed_entry where
  "old_entry = \<lparr>ie_identifiers = [''com.a''], ie_apps = [], ie_platform = ''apple'', ie_fetchedAt = Some 7,
     ie_error = None, ie_source = ''server_fetch'', ie_appleAppUpdates = None\<rparr>"

definition stocked_devices :: device_db where
  "stocked_devices = empty_devices\<lparr>dv_inventory := [\<lparr>inv_workspace = ''acme'', inv_deviceId = ''d1'',
     inv_apps = TwoSlots None (Some old_entry), inv_reportedAt = 7\<rparr>]\<rparr>"

definition failing_refresh :: refresh_env where
  "failing_refresh = sample_refresh\<lparr>rf_mdm := sample_mdm\<lparr>remote := \<lambda>_. Inl ''down''\<rparr>\<rparr>"

lemma broken_mac_fetch:
  "platformPathSegment (fd_platform broken_mac) = Some ''apple''"
  "read_apps failing_refresh ''apple'' (fd_id broken_mac) st =
     ((no_apps, Some ''AxiosError: down''), st\<lparr>sent := sent st @ [ApiGet ''base/mdm/apple/enterprise/devices/d1/applications'']\<rparr>)"
  by (simp_all add: platformPathSegment_def broken_mac_def read_apps_def failing_refresh_def sample_refresh_def sample_mdm_def
      send_call_def Let_def device_url_def)

lemma stocked_record: "stored_record ''acme'' ''d1'' stocked_devices = \<lparr>slot_selfReported = None, slot_serverFetch = Some old_entry\<rparr>"
  by (simp add: stored_record_def find_inventory_def stocked_devices_def is_inventory_def)

theorem failed_fetch_keeps_inventory_witness:
  "app_stamp ''acme'' (fetchAndStoreInstalledApps failing_refresh ''acme'' broken_mac stocked_devices) ''d1'' = 7 \<and>
   readInstalledAppsFromStore ''acme'' ''d1'' (fetchAndStoreInstalledApps failing_refresh ''acme'' broken_mac stocked_devices) =
     JArr [JStr ''com.a'']"
proof -
  have "fd_id broken_mac = ''d1''" "ie_fetchedAt old_entry = Some 7" by (simp_all add: broken_mac_def old_entry_def)
  with failed_fetch_keeps_inventory [of broken_mac, OF broken_mac_fetch(1) _ broken_mac_fetch(2) [of "dv_mdm stocked_devices"],
      of "''acme''" old_entry 7]
  have "app_stamp ''acme'' (fetchAndStoreInstalledApps failing_refresh ''acme'' broken_mac stocked_devices) ''d1'' =
      app_stamp ''acme'' stocked_devices ''d1''"
    "readInstalledAppsFromStore ''acme'' ''d1'' (fetchAndStoreInstalledApps failing_refresh ''acme'' broken_mac stocked_devices) =
      readInstalledAppsFromStore ''acme'' ''d1'' stocked_devices"
    by (auto simp: stocked_record)
  then show ?thesis
    by (simp add: app_stamp_def read_of_record stocked_record installedAppsRecordEntries_def old_entry_def js_set_def)
qed

text \<open>A device whose very first fetch fails reads as one with no apps at all, and so as missing every required app.\<close>

lemma first_failed_fetch_reads_empty:
  assumes "platformPathSegment (fd_platform d) = Some path" "fd_id d \<noteq> []"
    and "read_apps env path (fd_id d) (dv_mdm db) = ((parsed, Some err), st)"
    and "stored_record ws (fd_id d) db = toRecord NoEntry"
  shows "readInstalledAppsFromStore ws (fd_id d) db = JNull"
    and "readInstalledAppsFromStore ws (fd_id d) (fetchAndStoreInstalledApps env ws d db) = JArr []"
  using fetchApps_failed [OF assms(1-3), of ws] assms(4)
  by (simp_all add: read_of_record installedAppsRecordEntries_def server_entry_def js_set_def)

text \<open>While every fetch of a batch fails, the order of the candidates, and so the next batch, stays the same.\<close>

lemma failing_batch_blocks_rotation:
  assumes "\<And>did db'. did \<in> set batch \<Longrightarrow> app_stamp ws db' did = app_stamp ws db did \<Longrightarrow>
      app_stamp ws (fetch_apps_of env ws devices did db') did = app_stamp ws db' did"
  shows "oldest_first (app_stamp ws (fold (fetch_apps_of env ws devices) batch db)) n ids = oldest_first (app_stamp ws db) n ids"
  using app_refresh.stuck_batch [of batch ws db env devices] assms by simp

text \<open>A device whose first location fetch fails gets no row, and so stays first in the order.\<close>

lemma first_failed_location_unranked:
  assumes "find_location ws did db = None"
  shows "location_stamp ws (store_location now ws did (LocationError msg) db) did = 0"
  using assms by (simp add: location_stamp_def store_location_find)

text \<open>A budget of 300 fetches an hour spends 360.\<close>

lemma budget_overspent: "120 * perTickBudget (clampBudget (Some 300)) = 360"
  by (simp add: perTickBudget_def clampBudget_def)

text \<open>An App List, or a catalog entry, that is still referenced cannot be deleted.\<close>

lemma referenced_list_kept:
  assumes "p \<in> set (policiesReferencingAppList ws lid cdb)"
  shows "snd (deleteAppList ws lid actor cdb db) = db"
  using assms by (auto simp: deleteAppList_def Let_def)

lemma referenced_entry_kept:
  assumes "l \<in> set (app_lists db)" "al_workspace l = ws" "entryId \<in> set (al_appIds l)"
  shows "snd (deleteAppCatalogEntry ws entryId db) = db"
  using assms by (auto simp: deleteAppCatalogEntry_def Let_def filter_empty_conv)

end
