(* ===== verification/StepExecutors.thy ===== *)
theory StepExecutors
  imports DeviceStores Templates
begin

text \<open>
  The step executors of a workflow (\<open>modules/workflows/workflowSteps.ts\<close>): HTTP requests, notifications, policy
  quarantine, restore and monitoring, the recovery pass, and the dispatch of a step by its type
  (\<open>workflows.service.ts\<close>, \<open>durableEngine.ts\<close>), which together make the \<open>engine\<close> the step-chain theories are
  parametric in. The world of a run holds the MDM calls, the saved policy stacks and the requests to other hosts;
  \<open>step_env\<close> holds what the steps read. \<open>JSON.parse\<close>, the hosts' answers and the mail server are parameters.
\<close>

section \<open>The world and the environment\<close>

record quarantine_row =
  qr_workspace :: string
  qr_deviceId :: string
  qr_platform :: string
  qr_policies :: "active_policy list"
  qr_workflowId :: "string option"

record smtp_config =
  sm_host :: string
  sm_port :: jsval
  sm_user :: "string option"
  sm_pass :: "string option"
  sm_from :: "string option"

datatype out_request =
    HttpRequest string string "(string \<times> string) list" jsval
  | WebhookPost jsval jsval
  | Mail smtp_config jsnum "string option" string jsval jsval

record step_world =
  sw_mdm :: mdm_state
  sw_quarantine :: "quarantine_row list"
  sw_out :: "out_request list"

record notification_settings =
  ns_webhookUrl :: jsval
  ns_smtp :: "smtp_config option"

text \<open>
  \<open>sv_http\<close> and \<open>sv_mail\<close>: the answer to the last request sent, or the message of the failure; \<open>sv_fleet\<close>: the
  normalized devices a refreshing read gives after the calls made so far; \<open>sv_json\<close>: \<open>JSON.parse\<close>; \<open>sv_devices\<close>,
  \<open>sv_apps\<close>, \<open>sv_zones\<close>, \<open>sv_policies\<close>: the tables read; \<open>sv_settings\<close>: the "global" workspace settings.
\<close>

record step_env =
  sv_mdm :: mdm_env
  sv_http :: "out_request list \<Rightarrow> string + api_response"
  sv_mail :: "out_request list \<Rightarrow> string + unit"
  sv_json :: "string \<Rightarrow> jsval option"
  sv_fleet :: "string \<Rightarrow> mdm_state \<Rightarrow> string + fleet_device list"
  sv_devices :: device_db
  sv_apps :: app_db
  sv_zones :: "zone list"
  sv_policies :: "policy_row list"
  sv_settings :: "notification_settings option"
  sv_now :: int

definition getFullDevice :: "step_env \<Rightarrow> string \<Rightarrow> string \<Rightarrow> step_world \<Rightarrow> fleet_device option" where
  "getFullDevice env ws deviceId w =
     (case sv_fleet env ws (sw_mdm w) of
        Inl _ \<Rightarrow> None
      | Inr ds \<Rightarrow> List.find (\<lambda>d. fd_id d = deviceId) ds)"

text \<open>The template context \<open>{ device }\<close>.\<close>

definition device_json :: "device_ref \<Rightarrow> jsval" where
  "device_json d =
     JObj ([(''id'', JStr (ref_id d)),
            (''displayName'', case ref_displayName d of Some n \<Rightarrow> JStr n | None \<Rightarrow> JNull),
            (''platform'', JStr (ref_platform d)), (''platformDeviceId'', JStr (ref_platformDeviceId d))]
        @ (case ref_fields d of JObj fs \<Rightarrow> fs | _ \<Rightarrow> []))"

definition device_context :: "device_ref \<Rightarrow> jsval" where
  "device_context d = JObj [(''device'', device_json d)]"

definition NOT_A_TEMPLATE :: string where
  "NOT_A_TEMPLATE = ''input.replace is not a function''"

text \<open>\<open>renderTemplate\<close> where the source passes an untyped value; it throws on a truthy value that is no string.\<close>

definition render :: "jsval \<Rightarrow> jsval \<Rightarrow> string + string" where
  "render ctx v = (case renderValue ctx v of
     None \<Rightarrow> Inl NOT_A_TEMPLATE | Some r \<Rightarrow> Inr (case r of JStr s \<Rightarrow> s | _ \<Rightarrow> to_string r))"

definition caught_step :: "(string + step_result) \<times> step_world \<Rightarrow> step_result \<times> step_world" where
  "caught_step r = (case r of (Inl msg, w) \<Rightarrow> ((False, msg), w) | (Inr x, w) \<Rightarrow> (x, w))"

definition bound :: "string + 'a \<Rightarrow> ('a \<Rightarrow> (string + step_result) \<times> step_world) \<Rightarrow> step_world \<Rightarrow>
    (string + step_result) \<times> step_world" where
  "bound r f w = (case r of Inl msg \<Rightarrow> (Inl msg, w) | Inr a \<Rightarrow> f a)"

section \<open>HTTP requests and notifications\<close>

definition entries_of :: "jsval \<Rightarrow> (string \<times> jsval) list" where
  "entries_of v =
     (case v of
        JObj fs \<Rightarrow> fs
      | JArr xs \<Rightarrow> map (\<lambda>(i, x). (show_nat i, x)) (List.enumerate 0 xs)
      | JStr s \<Rightarrow> map (\<lambda>(i, c). (show_nat i, JStr [c])) (List.enumerate 0 s)
      | _ \<Rightarrow> [])"

definition request_data :: "step_env \<Rightarrow> string \<Rightarrow> jsval" where
  "request_data env bodyStr =
     (if js_trim bodyStr = [] then JUndef
      else case sv_json env bodyStr of Some v \<Rightarrow> v | None \<Rightarrow> JStr bodyStr)"

definition send_out :: "out_request \<Rightarrow> step_world \<Rightarrow> step_world" where
  "send_out r w = w\<lparr>sw_out := sw_out w @ [r]\<rparr>"

definition http_step :: "step_env \<Rightarrow> jsval \<Rightarrow> jsval \<Rightarrow> step_world \<Rightarrow> (string + step_result) \<times> step_world" where
  "http_step env cfg ctx w =
     (let meth = toUpperCase (to_string (js_or (own_prop cfg ''method'') (JStr ''POST'')))
      in bound (render ctx (js_or (own_prop cfg ''url'') (JStr []))) (\<lambda>url.
           if url = [] then (Inr (False, ''Missing URL''), w)
           else
             (let reqHeaders = map (\<lambda>(k, v). (k, renderTemplate ctx (to_string v)))
                    (entries_of (js_or (own_prop cfg ''headers'') (JObj [])))
              in bound (render ctx (js_or (own_prop cfg ''body'') (JStr []))) (\<lambda>bodyStr.
                   (let w1 = send_out (HttpRequest meth url reqHeaders (request_data env bodyStr)) w
                    in (case sv_http env (sw_out w1) of
                          Inl msg \<Rightarrow> (Inl msg, w1)
                        | Inr res \<Rightarrow>
                            (Inr (if status res < 300 then (True, ''HTTP '' @ show_nat (status res))
                                  else (False, ''HTTP '' @ show_nat (status res) @ '': '' @
                                     take 200 (to_string (coalesce (body res) (JStr []))))), w1)))) w)) w)"

definition executeHttpStep :: "step_env \<Rightarrow> jsval \<Rightarrow> jsval \<Rightarrow> step_world \<Rightarrow> step_result \<times> step_world" where
  "executeHttpStep env cfg ctx w = caught_step (http_step env cfg ctx w)"

definition webhook_notification :: "step_env \<Rightarrow> jsval \<Rightarrow> string \<Rightarrow> step_world \<Rightarrow> (string + step_result) \<times> step_world" where
  "webhook_notification env cfg message w =
     (let url = js_or (own_prop cfg ''webhookUrl'') (case sv_settings env of Some s \<Rightarrow> ns_webhookUrl s | None \<Rightarrow> JUndef)
      in if \<not> truthy url then (Inr (False, ''No webhook URL configured''), w)
         else
           (let w1 = send_out (WebhookPost url (JObj [(''text'', JStr message)])) w
            in (case sv_http env (sw_out w1) of
                  Inl msg \<Rightarrow> (Inl msg, w1)
                | Inr res \<Rightarrow> (Inr (if status res < 300 then (True, ''Webhook sent'')
                               else (False, ''Webhook returned '' @ show_nat (status res))), w1))))"

definition mdm_user_email :: "jsval \<Rightarrow> jsval" where
  "mdm_user_email device =
     (case own_prop device ''mdmUser'' of JObj fs \<Rightarrow> own_prop (JObj fs) ''email'' | _ \<Rightarrow> JUndef)"

text \<open>The recipients, or the refusal when the step targets the user and the device has none.\<close>

definition mail_parts :: "jsval \<Rightarrow> jsval \<Rightarrow> string \<Rightarrow> jsval list option" where
  "mail_parts target email admins =
     (let is_target = (\<lambda>t. strict_eq target (JStr t));
          admin_part = (if (is_target ''admin'' \<or> is_target ''admin_and_user'') \<and> admins \<noteq> [] then [JStr admins] else [])
      in if is_target ''user'' \<or> is_target ''admin_and_user'' then
           (if truthy email then Some (admin_part @ [email])
            else if is_target ''user'' then None else Some admin_part)
         else Some admin_part)"

definition email_notification :: "step_env \<Rightarrow> jsval \<Rightarrow> jsval \<Rightarrow> jsval \<Rightarrow> string \<Rightarrow> step_world \<Rightarrow>
    (string + step_result) \<times> step_world" where
  "email_notification env cfg ctx device message w =
     bound (render ctx (js_or (own_prop cfg ''recipients'') (JStr []))) (\<lambda>admins.
       (case mail_parts (js_or (own_prop cfg ''target'') (JStr ''admin'')) (mdm_user_email device) admins of
          None \<Rightarrow> (Inr (False, ''Device has no assigned MDM user email''), w)
        | Some parts \<Rightarrow>
            (let recipients = joinWith '', '' (map to_string (filter truthy parts))
             in bound (render ctx (js_or (own_prop cfg ''subject'') (JStr ''Applivery SOAR notification''))) (\<lambda>subject.
                  (case sv_settings env of
                     None \<Rightarrow> (Inr (False, ''SMTP not configured or missing recipients''), w)
                   | Some s \<Rightarrow>
                       (case ns_smtp s of
                          None \<Rightarrow> (Inr (False, ''SMTP not configured or missing recipients''), w)
                        | Some sm \<Rightarrow>
                            if sm_host sm = [] \<or> recipients = [] then
                              (Inr (False, ''SMTP not configured or missing recipients''), w)
                            else
                              (let w1 = send_out (Mail sm (to_number (coalesce (sm_port sm) (jint 587)))
                                     (case sm_from sm of Some f \<Rightarrow> if f = [] then sm_user sm else Some f | None \<Rightarrow> sm_user sm)
                                     recipients (JStr subject) (JStr message)) w
                               in (case sv_mail env (sw_out w1) of
                                     Inl msg \<Rightarrow> (Inl msg, w1)
                                   | Inr _ \<Rightarrow> (Inr (True, ''Email sent to '' @ recipients), w1)))))) w))) w"

definition push_os :: "jsval \<Rightarrow> string" where
  "push_os device =
     (case map_of [(''apple'', ''ios''), (''macos'', ''macos''), (''android'', ''android''), (''windows'', ''windows'')]
             (to_string (own_prop device ''platform'')) of
        Some os \<Rightarrow> os
      | None \<Rightarrow> toLowerCase (to_string (js_or (own_prop device ''rawPlatform'') (JStr []))))"

definition push_notification :: "step_env \<Rightarrow> jsval \<Rightarrow> jsval \<Rightarrow> jsval \<Rightarrow> string \<Rightarrow> step_world \<Rightarrow>
    (string + step_result) \<times> step_world" where
  "push_notification env cfg ctx device message w =
     (let deviceId = own_prop device ''id''
      in if \<not> truthy deviceId then (Inr (False, ''Device is missing an Applivery device ID''), w)
         else bound (render ctx (js_or (own_prop cfg ''title'') (JStr ''Compliance notification''))) (\<lambda>title.
           bound (render ctx (js_or (own_prop cfg ''message'') (JStr message))) (\<lambda>bodyText.
             (case send_call (sv_mdm env) (ApiPost (orgBaseUrl (sv_mdm env) @ ''/mdm/push-notifications/send'')
                     (JObj [(''os'', JStr (push_os device)), (''identifier'', deviceId), (''app'', JStr ''mdmAgent''),
                            (''type'', JStr ''notification''),
                            (''notification'', JObj [(''title'', JStr title), (''body'', JStr bodyText), (''data'', JObj [])])]))
                   (sw_mdm w) of
                (Inl msg, st) \<Rightarrow> (Inl msg, w\<lparr>sw_mdm := st\<rparr>)
              | (Inr res, st) \<Rightarrow>
                  (let text = take 200 (json_text (coalesce (body res) (JStr [])))
                   in (Inr (if status res < 300 then (True, ''Push notification sent'')
                            else if str_includes text ''3001'' \<or> str_includes (toLowerCase text) ''fbtoken'' then
                              (False, ''Applivery Agent not installed/registered on this device'')
                            else (False, ''Push failed ('' @ show_nat (status res) @ ''): '' @ text)), w\<lparr>sw_mdm := st\<rparr>)))) w) w)"

definition notification_step :: "step_env \<Rightarrow> jsval \<Rightarrow> jsval \<Rightarrow> step_world \<Rightarrow> (string + step_result) \<times> step_world" where
  "notification_step env cfg ctx w =
     (let channel = js_or (own_prop cfg ''channel'') (JStr ''webhook'');
          device = coalesce (own_prop ctx ''device'') (JObj [])
      in bound (render ctx (js_or (own_prop cfg ''message'') (JStr []))) (\<lambda>message.
           if strict_eq channel (JStr ''webhook'') then webhook_notification env cfg message w
           else if strict_eq channel (JStr ''email'') then email_notification env cfg ctx device message w
           else if strict_eq channel (JStr ''applivery_push'') then push_notification env cfg ctx device message w
           else (Inr (False, ''Unknown notification channel '' @ sq (to_string channel)), w)) w)"

definition executeNotificationStep :: "step_env \<Rightarrow> jsval \<Rightarrow> jsval \<Rightarrow> step_world \<Rightarrow> step_result \<times> step_world" where
  "executeNotificationStep env cfg ctx w = caught_step (notification_step env cfg ctx w)"

section \<open>Policy quarantine\<close>

definition is_quarantine :: "string \<Rightarrow> string \<Rightarrow> quarantine_row \<Rightarrow> bool" where
  "is_quarantine ws deviceId q \<longleftrightarrow> qr_workspace q = ws \<and> qr_deviceId q = deviceId"

definition find_quarantine :: "string \<Rightarrow> string \<Rightarrow> step_world \<Rightarrow> quarantine_row option" where
  "find_quarantine ws deviceId w = List.find (is_quarantine ws deviceId) (sw_quarantine w)"

definition snapshotPoliciesIfNeeded :: "string \<Rightarrow> string \<Rightarrow> fleet_device \<Rightarrow> string option \<Rightarrow> step_world \<Rightarrow> step_world" where
  "snapshotPoliciesIfNeeded ws deviceId d workflowId w =
     (if find_quarantine ws deviceId w \<noteq> None then w
      else w\<lparr>sw_quarantine := sw_quarantine w @
             [\<lparr>qr_workspace = ws, qr_deviceId = deviceId, qr_platform = fd_platform d,
               qr_policies = fd_activePolicies d, qr_workflowId = workflowId\<rparr>]\<rparr>)"

definition delete_quarantine :: "string \<Rightarrow> string \<Rightarrow> step_world \<Rightarrow> step_world" where
  "delete_quarantine ws deviceId w = w\<lparr>sw_quarantine := del_where (is_quarantine ws deviceId) (sw_quarantine w)\<rparr>"

definition apply_stack :: "step_env \<Rightarrow> device_ref \<Rightarrow> stack_entry list \<Rightarrow> step_world \<Rightarrow> (string + step_result) \<times> step_world" where
  "apply_stack env d stack w =
     (case applyDevicePolicies (sv_mdm env) (ref_platform d) (ref_platformDeviceId d) stack (sw_mdm w) of
        (r, st) \<Rightarrow> (r, w\<lparr>sw_mdm := st\<rparr>))"

text \<open>What follows an accepted stack; a refused one ends the step.\<close>

definition when_applied :: "(string + step_result) \<times> step_world \<Rightarrow> (step_world \<Rightarrow> step_result \<times> step_world) \<Rightarrow>
    (string + step_result) \<times> step_world" where
  "when_applied r k =
     (case r of
        (Inl msg, w) \<Rightarrow> (Inl msg, w)
      | (Inr (ok, detail), w) \<Rightarrow>
          if ok then (case k w of (x, w') \<Rightarrow> (Inr x, w')) else (Inr (False, detail), w))"

definition policy_noun :: "nat \<Rightarrow> string" where
  "policy_noun n = (if n = 1 then ''policy'' else ''policies'')"

definition policy_label :: "jsval \<Rightarrow> string" where
  "policy_label cfg = to_string (js_or (own_prop cfg ''policyName'') (own_prop cfg ''policyId''))"

definition NO_STACK :: string where
  "NO_STACK = ''Could not read the device'' @ [CHR 0x27] @ ''s current policy stack''"

definition executePolicyReplaceStep :: "step_env \<Rightarrow> string \<Rightarrow> device_ref \<Rightarrow> jsval \<Rightarrow> string option \<Rightarrow> step_world \<Rightarrow>
    (string + step_result) \<times> step_world" where
  "executePolicyReplaceStep env ws d cfg workflowId w =
     (let policyId = own_prop cfg ''policyId''
      in if \<not> truthy policyId then (Inr (False, ''No replacement policy selected''), w)
         else (case getFullDevice env ws (ref_id d) w of
             None \<Rightarrow> (Inr (False, NO_STACK), w)
           | Some full \<Rightarrow>
               (let w1 = snapshotPoliciesIfNeeded ws (ref_id d) full workflowId w;
                    priorCount = length (fd_activePolicies full)
                in when_applied (apply_stack env d [\<lparr>st_id = policyId, st_priority = None, st_primary = False\<rparr>] w1)
                     (\<lambda>w2. ((True, ''Quarantined '' @ em_dash @ '' replaced '' @ show_nat priorCount @ '' '' @
                        policy_noun priorCount @ '' with '' @ sq (policy_label cfg)), w2)))))"

definition DEFAULT_PRIORITY_BASELINE :: rat where
  "DEFAULT_PRIORITY_BASELINE = 100"

definition PRIORITY_STEP :: rat where
  "PRIORITY_STEP = 10"

definition PRIORITY_MIN :: rat where
  "PRIORITY_MIN = 0"

definition PRIORITY_MAX :: rat where
  "PRIORITY_MAX = 10000"

definition stack_entry_of :: "active_policy \<Rightarrow> stack_entry" where
  "stack_entry_of p =
     \<lparr>st_id = (case ap_id p of Some i \<Rightarrow> JStr i | None \<Rightarrow> JNull), st_priority = ap_priority p, st_primary = ap_isPrimary p\<rparr>"

text \<open>\<open>.filter((p) => p.id)\<close>, as entries to write back.\<close>

definition current_stack :: "active_policy list \<Rightarrow> stack_entry list" where
  "current_stack ps = map stack_entry_of (filter (\<lambda>p. filled (ap_id p) [] \<noteq> []) ps)"

definition numbered_priorities :: "stack_entry list \<Rightarrow> rat list" where
  "numbered_priorities st = List.map_filter st_priority st"

definition new_priority :: "bool \<Rightarrow> rat list \<Rightarrow> rat" where
  "new_priority on_top numbered =
     (if on_top then
        max PRIORITY_MIN ((if numbered \<noteq> [] then Min (set numbered) else DEFAULT_PRIORITY_BASELINE) - PRIORITY_STEP)
      else
        min PRIORITY_MAX ((if numbered \<noteq> [] then Max (set numbered) else DEFAULT_PRIORITY_BASELINE) + PRIORITY_STEP))"

definition added_stack :: "jsval \<Rightarrow> active_policy list \<Rightarrow> stack_entry list" where
  "added_stack cfg ps =
     current_stack ps @
       [\<lparr>st_id = own_prop cfg ''policyId'',
         st_priority = Some (new_priority (strict_eq (js_or (own_prop cfg ''priority'') (JStr ''bottom'')) (JStr ''top''))
            (numbered_priorities (current_stack ps))),
         st_primary = False\<rparr>]"

definition executePolicyAddStep :: "step_env \<Rightarrow> string \<Rightarrow> device_ref \<Rightarrow> jsval \<Rightarrow> string option \<Rightarrow> step_world \<Rightarrow>
    (string + step_result) \<times> step_world" where
  "executePolicyAddStep env ws d cfg workflowId w =
     (if \<not> truthy (own_prop cfg ''policyId'') then (Inr (False, ''No policy selected''), w)
      else (case getFullDevice env ws (ref_id d) w of
          None \<Rightarrow> (Inr (False, NO_STACK), w)
        | Some full \<Rightarrow>
            (let w1 = snapshotPoliciesIfNeeded ws (ref_id d) full workflowId w;
                 on_top = strict_eq (js_or (own_prop cfg ''priority'') (JStr ''bottom'')) (JStr ''top'');
                 numbered = numbered_priorities (current_stack (fd_activePolicies full));
                 newStack = added_stack cfg (fd_activePolicies full)
             in when_applied (apply_stack env d newStack w1)
                  (\<lambda>w2. ((True, ''Added '' @ sq (policy_label cfg) @ '' at priority '' @ show_rat (new_priority on_top numbered) @
                     '' ('' @ (if on_top then ''outranks'' else ''yields to'') @ '' the '' @
                     (if numbered \<noteq> [] then ''existing'' else ''device'' @ [CHR 0x27] @ ''s'') @ '' policies, '' @
                     show_nat (length newStack) @ '' '' @ policy_noun (length newStack) @ '' total)''), w2)))))"

definition NO_SNAPSHOT :: string where
  "NO_SNAPSHOT = ''No saved policy snapshot for this device '' @ em_dash @ '' nothing to restore''"

definition executePolicyRestoreStep :: "step_env \<Rightarrow> string \<Rightarrow> device_ref \<Rightarrow> step_world \<Rightarrow> (string + step_result) \<times> step_world" where
  "executePolicyRestoreStep env ws d w =
     (case find_quarantine ws (ref_id d) w of
        None \<Rightarrow> (Inr (False, NO_SNAPSHOT), w)
      | Some snapshot \<Rightarrow>
          (let policies = current_stack (qr_policies snapshot)
           in when_applied (apply_stack env d policies w)
                (\<lambda>w1. ((True, ''Restored '' @ show_nat (length policies) @ '' previous '' @ policy_noun (length policies)),
                       delete_quarantine ws (ref_id d) w1))))"

section \<open>Monitoring\<close>

text \<open>What a policy's conditions see of one device: the store of installed apps only where a condition needs it,
  the geofencing data only where a condition names a zone.\<close>

definition with_installed_apps :: "step_env \<Rightarrow> string \<Rightarrow> eval_condition list \<Rightarrow> fleet_device \<Rightarrow> jsval" where
  "with_installed_apps env ws conditions full =
     (if list_ex (\<lambda>c. is_app_list_field (field c)) conditions
      then set_prop ''installedApps'' (readInstalledAppsFromStore ws (fd_id full) (sv_devices env)) (fd_json full)
      else fd_json full)"

definition condition_env :: "step_env \<Rightarrow> string \<Rightarrow> string list \<Rightarrow> eval_condition list \<Rightarrow> eval_env" where
  "condition_env env ws ids conditions =
     \<lparr>env_now = sv_now env, appLists = Some (loadAppListsContext ws (sv_apps env)),
      geo = (if list_ex (\<lambda>c. field c = ''geofenceZoneId'') conditions
             then Some \<lparr>zonesById = loadGeofenceZonesById ws (sv_zones env),
                        locationsByDeviceId = loadDeviceLocations ws ids (sv_devices env)\<rparr>
             else None)\<rparr>"

definition violates_now :: "step_env \<Rightarrow> string \<Rightarrow> string list \<Rightarrow> policy_cfg \<Rightarrow> fleet_device \<Rightarrow> eval_condition list" where
  "violates_now env ws ids cfg full =
     policyViolated (condition_env env ws ids (pc_conditions cfg)) (with_installed_apps env ws (pc_conditions cfg) full)
       (pc_conditions cfg) (Some (pc_conditionLogic cfg))"

definition find_step_policy :: "step_env \<Rightarrow> string \<Rightarrow> string \<Rightarrow> policy_row option" where
  "find_step_policy env ws pid = List.find (\<lambda>p. pol_workspace p = ws \<and> pol_id p = pid) (sv_policies env)"

text \<open>After the device is compliant: restore the saved stack where the step asks for it.\<close>

definition compliant_again :: "step_env \<Rightarrow> string \<Rightarrow> device_ref \<Rightarrow> jsval \<Rightarrow> step_world \<Rightarrow> (string + step_result) \<times> step_world" where
  "compliant_again env ws d cfg w =
     (if \<not> truthy (own_prop cfg ''restoreOnCompliant'') then (Inr (True, ''Compliant again''), w)
      else if find_quarantine ws (ref_id d) w = None then
        (Inr (True, ''Compliant again '' @ em_dash @ '' no quarantine snapshot to restore''), w)
      else (case executePolicyRestoreStep env ws d w of
          (Inl msg, w1) \<Rightarrow> (Inl msg, w1)
        | (Inr (ok, detail), w1) \<Rightarrow>
            (Inr (True, if ok then ''Compliant again '' @ em_dash @ '' '' @ detail
                        else ''Compliant again, but restore failed: '' @ detail), w1)))"

definition executeMonitorStep :: "step_env \<Rightarrow> string \<Rightarrow> device_ref \<Rightarrow> jsval \<Rightarrow> step_world \<Rightarrow> (string + step_result) \<times> step_world" where
  "executeMonitorStep env ws d cfg w =
     (let policyId = own_prop cfg ''compliancePolicyId''
      in if \<not> truthy policyId then (Inr (False, ''No compliance policy selected to monitor against''), w)
         else (case policyId of
           JStr pid \<Rightarrow>
             (case find_step_policy env ws pid of
                None \<Rightarrow> (Inr (False, ''Linked compliance policy no longer exists''), w)
              | Some policy \<Rightarrow>
                  (case getFullDevice env ws (ref_id d) w of
                     None \<Rightarrow> (Inr (False, ''Could not re-fetch device state to evaluate compliance''), w)
                   | Some full \<Rightarrow>
                       (let matched = violates_now env ws [ref_id d] (pol_cfg policy) full
                        in if matched \<noteq> [] then
                             (Inr (False, ''Still violating '' @ sq (filled (Some (pc_name (pol_cfg policy))) ''policy'') @ '' '' @
                                em_dash @ '' '' @ show_nat (length matched) @ '' condition(s) matched''), w)
                           else compliant_again env ws d cfg w)))
         | _ \<Rightarrow> (Inl (badQuery (sv_mdm env) policyId), w)))"

section \<open>MDM actions, recovery and the dispatch\<close>

definition target_of_ref :: "device_ref \<Rightarrow> mdm_target" where
  "target_of_ref d =
     \<lparr>tg_platform = ref_platform d, tg_platformDeviceId = ref_platformDeviceId d, tg_deviceId = Some (ref_id d),
      tg_context = Some (device_context d)\<rparr>"

definition mdm_step :: "step_env \<Rightarrow> string \<Rightarrow> workflow_row \<Rightarrow> device_ref \<Rightarrow> string \<Rightarrow> jsval \<Rightarrow> string option \<Rightarrow> step_world \<Rightarrow>
    step_result \<times> step_world" where
  "mdm_step env ws wfl d action params resume w =
     (case executeMdmAction (sv_mdm env) ws (target_of_ref d) action (wf_targetDeploymentModel wfl) params resume (sw_mdm w) of
        (r, st) \<Rightarrow> (r, w\<lparr>sw_mdm := st\<rparr>))"

definition returned :: "step_result \<times> step_world \<Rightarrow> (string + step_result) \<times> step_world" where
  "returned r = (case r of (x, w) \<Rightarrow> (Inr x, w))"

text \<open>The step types an escalation and a recovery share; \<open>other\<close> is what the rest do.\<close>

definition common_step :: "step_env \<Rightarrow> string \<Rightarrow> workflow_row \<Rightarrow> device_ref \<Rightarrow> wf_step \<Rightarrow>
    (string + step_result) \<times> step_world \<Rightarrow> step_world \<Rightarrow> (string + step_result) \<times> step_world" where
  "common_step env ws wfl d s other w =
     (let ty = step_type s; cfg = config s
      in if ty = ''mdm_action'' then
           returned (mdm_step env ws wfl d (to_string (own_prop cfg ''action'')) (own_prop cfg ''params'') None w)
         else if ty = ''http_request'' then returned (executeHttpStep env cfg (device_context d) w)
         else if ty = ''notification'' then returned (executeNotificationStep env cfg (device_context d) w)
         else if ty = ''policy_replace'' then executePolicyReplaceStep env ws d cfg (Some (wf_id wfl)) w
         else if ty = ''policy_add'' then executePolicyAddStep env ws d cfg (Some (wf_id wfl)) w
         else if ty = ''policy_restore'' then executePolicyRestoreStep env ws d w
         else other)"

definition escalation_step :: "step_env \<Rightarrow> string \<Rightarrow> workflow_row \<Rightarrow> device_ref \<Rightarrow> wf_step \<Rightarrow> step_world \<Rightarrow>
    (string + step_result) \<times> step_world" where
  "escalation_step env ws wfl d s w =
     common_step env ws wfl d s
       (if step_type s = ''monitor'' then executeMonitorStep env ws d (config s) w
        else (Inr (False, ''Unknown step type '' @ sq (step_type s)), w)) w"

definition recovery_step :: "step_env \<Rightarrow> string \<Rightarrow> workflow_row \<Rightarrow> device_ref \<Rightarrow> wf_step \<Rightarrow> step_world \<Rightarrow>
    (string + step_result) \<times> step_world" where
  "recovery_step env ws wfl d s w =
     common_step env ws wfl d s (Inr (False, ''Unsupported recovery step type '' @ sq (step_type s)), w) w"

definition restore_library :: "wf_step list \<Rightarrow> step_log \<Rightarrow> (wf_step \<times> jsval) option" where
  "restore_library steps e =
     (case log_stepId e of
        None \<Rightarrow> None
      | Some i \<Rightarrow>
          (case stepsById steps i of
             None \<Rightarrow> None
           | Some s \<Rightarrow>
               (let lib = own_prop (own_prop (config s) ''params'') ''restoreLibraryId''
                in if step_type s = ''mdm_action'' \<and> strict_eq (own_prop (config s) ''action'') (JStr ''runScript'') \<and> truthy lib
                   then Some (s, lib) else None)))"

definition recovery_entry :: "wf_step \<Rightarrow> string \<Rightarrow> string \<Rightarrow> step_result \<Rightarrow> step_log" where
  "recovery_entry s name ty r =
     \<lparr>log_stepId = Some (step_id s), log_name = name, log_type = ty, log_ok = fst r, log_detail = snd r, log_recovery = True\<rparr>"

fun reverse_scripts :: "step_env \<Rightarrow> string \<Rightarrow> workflow_row \<Rightarrow> device_ref \<Rightarrow> step_log list \<Rightarrow> step_world \<Rightarrow>
    step_log list \<times> step_world" where
  "reverse_scripts env ws wfl d [] w = ([], w)"
| "reverse_scripts env ws wfl d (e # rest) w =
     (case restore_library (wf_steps wfl) e of
        None \<Rightarrow> reverse_scripts env ws wfl d rest w
      | Some (s, lib) \<Rightarrow>
          (case mdm_step env ws wfl d ''runScript'' (JObj [(''libraryId'', lib)]) None w of
             (r, w1) \<Rightarrow>
               (case reverse_scripts env ws wfl d rest w1 of
                  (out, w2) \<Rightarrow>
                    (recovery_entry s (''Restore script for '' @ quoted (filled (Some (step_name s)) ''Run script''))
                       ''mdm_action'' r # out, w2))))"

fun run_recovery_list :: "step_env \<Rightarrow> string \<Rightarrow> workflow_row \<Rightarrow> device_ref \<Rightarrow> wf_step list \<Rightarrow> step_world \<Rightarrow>
    (string + step_log list) \<times> step_world" where
  "run_recovery_list env ws wfl d [] w = (Inr [], w)"
| "run_recovery_list env ws wfl d (s # rest) w =
     (case recovery_step env ws wfl d s w of
        (Inl msg, w1) \<Rightarrow> (Inl msg, w1)
      | (Inr r, w1) \<Rightarrow>
          (case run_recovery_list env ws wfl d rest w1 of
             (Inl msg, w2) \<Rightarrow> (Inl msg, w2)
           | (Inr out, w2) \<Rightarrow> (Inr (recovery_entry s (step_name s) (step_type s) r # out), w2)))"

definition runRecoverySteps :: "step_env \<Rightarrow> string \<Rightarrow> workflow_row \<Rightarrow> device_ref \<Rightarrow> step_log list \<Rightarrow> step_world \<Rightarrow>
    (string + step_log list) \<times> step_world" where
  "runRecoverySteps env ws wfl d executed w =
     (case reverse_scripts env ws wfl d executed w of
        (out1, w1) \<Rightarrow>
          (case run_recovery_list env ws wfl d (rec_steps (wf_recovery wfl)) w1 of
             (Inl msg, w2) \<Rightarrow> (Inl msg, w2)
           | (Inr out2, w2) \<Rightarrow> (Inr (out1 @ out2), w2)))"

definition recovery_policy :: "step_env \<Rightarrow> string \<Rightarrow> workflow_row \<Rightarrow> policy_row option" where
  "recovery_policy env ws wfl =
     (let r = wf_recovery wfl; pid = filled (rec_policyId r) []
      in if rec_enabled r \<and> pid \<noteq> [] then find_step_policy env ws pid else None)"

text \<open>The Recovery gate, on fresh device data; \<open>ids\<close> are the devices whose locations the run loaded.\<close>

definition gate_of :: "step_env \<Rightarrow> string \<Rightarrow> workflow_row \<Rightarrow> string list \<Rightarrow> device_ref \<Rightarrow> step_world \<Rightarrow> gate" where
  "gate_of env ws wfl ids d w =
     (case recovery_policy env ws wfl of
        None \<Rightarrow> GateContinue
      | Some p \<Rightarrow>
          (case getFullDevice env ws (ref_id d) w of
             None \<Rightarrow> GateContinue
           | Some full \<Rightarrow> if violates_now env ws ids (pol_cfg p) full = [] then GateRecovered else GateContinue))"

definition step_engine :: "step_env \<Rightarrow> string \<Rightarrow> workflow_row \<Rightarrow> string list \<Rightarrow> device_ref \<Rightarrow> step_world engine" where
  "step_engine env ws wfl ids d =
     \<lparr>do_step = escalation_step env ws wfl d,
      do_script = (\<lambda>lib token w. returned (mdm_step env ws wfl d ''runScript'' (JObj [(''libraryId'', JStr lib)]) (Some token) w)),
      recovery_gate = (\<lambda>w. (Inr (gate_of env ws wfl ids d w), w)),
      do_recovery = runRecoverySteps env ws wfl d\<rparr>"

text \<open>The durable engine's preamble: a resumed chain runs with the automation credential; resolving the
  organisation may fail.\<close>

definition step_chain_env :: "(bool \<Rightarrow> string + step_env) \<Rightarrow> (nat \<Rightarrow> string) \<Rightarrow> (run_db \<Rightarrow> string) \<Rightarrow> step_world chain_env" where
  "step_chain_env envs newTok newPending =
     \<lparr>prepare = (\<lambda>wfl slugKey d resumed w. case envs resumed of
          Inl msg \<Rightarrow> (Inl msg, w)
        | Inr env \<Rightarrow> (Inr (step_engine env slugKey wfl [ref_id d] d), w)),
      newToken = newTok, newPendingId = newPending\<rparr>"

section \<open>What every call of an engine keeps\<close>

text \<open>
  A relation between the world before and after that every call of an engine respects is respected by every walk of
  it: the in-memory loop, the durable loop and a device's whole run.
\<close>

locale engine_relation =
  fixes e :: "'w engine" and R :: "'w \<Rightarrow> 'w \<Rightarrow> bool"
  assumes R_refl: "R w w"
    and R_trans: "R u v \<Longrightarrow> R v w \<Longrightarrow> R u w"
    and R_step: "do_step e s w = (r, w') \<Longrightarrow> R w w'"
    and R_script: "do_script e lib token w = (r2, w') \<Longrightarrow> R w w'"
    and R_gate: "recovery_gate e w = (g, w') \<Longrightarrow> R w w'"
    and R_recovery: "do_recovery e lg w = (q, w') \<Longrightarrow> R w w'"
begin

lemma mem_loop_R: "mem_loop e steps n cur lg w = (r, lg', w') \<Longrightarrow> R w w'"
proof (induction n arbitrary: cur lg w)
  case 0
  then show ?case by (simp add: R_refl)
next
  case (Suc n)
  show ?case
  proof (cases "running cur \<and> stepsById steps cur \<noteq> None")
    case False
    then show ?thesis using Suc.prems R_refl by (auto split: option.splits)
  next
    case True
    then obtain s where run: "running cur" and s: "stepsById steps cur = Some s" by auto
    obtain g w1 where gate: "recovery_gate e w = (g, w1)" by fastforce
    have g1: "R w w1" using R_gate gate by blast
    have rec: "R w w2" if "do_recovery e l w1 = (q, w2)" for l q w2 using R_recovery [OF that] g1 R_trans by blast
    have stp: "R w w2" if "do_step e s w1 = (x, w2)" for x w2 using R_step [OF that] g1 R_trans by blast
    have IH1: "R w w'" if "mem_loop e steps n c l w1 = (r, lg', w')" for c l
      using g1 Suc.IH [OF that] R_trans by blast
    have IH2: "R w w'" if "do_step e s w1 = (x, w2)" "mem_loop e steps n c l w2 = (r, lg', w')" for x w2 c l
      using stp [OF that(1)] Suc.IH [OF that(2)] R_trans by blast
    show ?thesis
      using Suc.prems run s gate g1
      by (auto split: sum.splits gate.splits prod.splits if_splits dest: rec stp IH1 IH2)
  qed
qed

lemma runForDevice_R: "runForDevice e steps w = (r, w') \<Longrightarrow> R w w'"
  using mem_loop_R R_refl by (auto simp: runForDevice_def split: if_splits prod.splits loop_end.splits)

lemma durable_loop_R: "durable_loop e now tok steps n cur lg w = (r, lg', w') \<Longrightarrow> R w w'"
proof (induction n arbitrary: cur lg w)
  case 0
  then show ?case by (simp add: R_refl)
next
  case (Suc n)
  show ?case
  proof (cases "running cur \<and> stepsById steps cur \<noteq> None")
    case False
    then show ?thesis using Suc.prems R_refl by (auto split: option.splits)
  next
    case True
    then obtain s where run: "running cur" and s: "stepsById steps cur = Some s" by auto
    obtain g w1 where gate: "recovery_gate e w = (g, w1)" by fastforce
    have g1: "R w w1" using R_gate gate by blast
    have rec: "R w w2" if "do_recovery e l w1 = (q, w2)" for l q w2 using R_recovery [OF that] g1 R_trans by blast
    have stp: "R w w2" if "do_step e s w1 = (x, w2)" for x w2 using R_step [OF that] g1 R_trans by blast
    have scr: "R w w2" if "do_script e l t w1 = (x, w2)" for l t x w2 using R_script [OF that] g1 R_trans by blast
    have IH1: "R w w'" if "durable_loop e now tok steps n c l w1 = (r, lg', w')" for c l
      using g1 Suc.IH [OF that] R_trans by blast
    have IH2: "R w w'" if "do_step e s w1 = (x, w2)" "durable_loop e now tok steps n c l w2 = (r, lg', w')" for x w2 c l
      using stp [OF that(1)] Suc.IH [OF that(2)] R_trans by blast
    have IH3: "R w w'" if "do_script e k t w1 = (x, w2)" "durable_loop e now tok steps n c l w2 = (r, lg', w')" for x w2 c l k t
      using scr [OF that(1)] Suc.IH [OF that(2)] R_trans by blast
    show ?thesis
      using Suc.prems run s gate g1
      by (auto simp: Let_def split: sum.splits gate.splits prod.splits if_splits option.splits bool.splits
          dest: rec stp scr IH1 IH2 IH3)
  qed
qed

lemma durable_walk_R: "durable_walk e now tok steps start lg w = (r, lg', w') \<Longrightarrow> R w w'"
  unfolding durable_walk_def by (rule durable_loop_R)

end

section \<open>Calls of a run\<close>

definition push_url :: "mdm_env \<Rightarrow> string" where
  "push_url env = orgBaseUrl env @ ''/mdm/push-notifications/send''"

text \<open>A call addresses the device of the run by its URL, or is a push notification whose receiver is the device.\<close>

definition run_call :: "mdm_env \<Rightarrow> device_ref \<Rightarrow> api_call \<Rightarrow> bool" where
  "run_call env d c \<longleftrightarrow> (\<exists>b. c = ApiPost (push_url env) b \<and> own_prop b ''identifier'' = JStr (ref_id d)) \<or>
     (\<exists>path. platformPathSegment (ref_platform d) = Some path \<and> call_url c \<in> device_urls (orgBaseUrl env) path (ref_platformDeviceId d))"

definition calls_only :: "mdm_env \<Rightarrow> device_ref \<Rightarrow> step_world \<Rightarrow> step_world \<Rightarrow> bool" where
  "calls_only env d w w' \<longleftrightarrow> (\<exists>cs. sent (sw_mdm w') = sent (sw_mdm w) @ cs \<and> list_all (run_call env d) cs)"

lemma calls_only_refl [simp]: "calls_only env d w w"
  by (simp add: calls_only_def)

lemma calls_only_trans: "calls_only env d u v \<Longrightarrow> calls_only env d v w \<Longrightarrow> calls_only env d u w"
  unfolding calls_only_def by (elim exE conjE, rename_tac cs ds, rule_tac x = "cs @ ds" in exI) simp

lemma calls_only_same: "sw_mdm w' = sw_mdm w \<Longrightarrow> calls_only env d w w'"
  by (simp add: calls_only_def)

lemma calls_only_send:
  "send_call env c (sw_mdm w) = (r, st) \<Longrightarrow> run_call env d c \<Longrightarrow> calls_only env d w (w\<lparr>sw_mdm := st\<rparr>)"
  by (auto simp: calls_only_def send_call_def Let_def)

lemma caught_step_state: "caught_step x = (r, w') \<Longrightarrow> \<exists>y. x = (y, w')"
  by (cases x) (auto simp: caught_step_def split: sum.splits)

lemma bound_state: "bound r f w = (x, w') \<Longrightarrow> w' = w \<or> (\<exists>a. r = Inr a \<and> f a = (x, w'))"
  by (cases r) (auto simp: bound_def)

lemma send_out_mdm [simp]: "sw_mdm (send_out r w) = sw_mdm w" "sw_quarantine (send_out r w) = sw_quarantine w"
  by (simp_all add: send_out_def)

lemma http_step_frame: "http_step env cfg ctx w = (r, w') \<Longrightarrow> sw_mdm w' = sw_mdm w \<and> sw_quarantine w' = sw_quarantine w"
  by (auto simp: http_step_def Let_def dest!: bound_state split: if_splits sum.splits)

lemma executeHttpStep_frame:
  "executeHttpStep env cfg ctx w = (r, w') \<Longrightarrow> sw_mdm w' = sw_mdm w \<and> sw_quarantine w' = sw_quarantine w"
  unfolding executeHttpStep_def by (drule caught_step_state) (auto dest: http_step_frame)

lemma webhook_frame:
  "webhook_notification env cfg m w = (r, w') \<Longrightarrow> sw_mdm w' = sw_mdm w \<and> sw_quarantine w' = sw_quarantine w"
  by (auto simp: webhook_notification_def Let_def split: if_splits sum.splits)

lemma email_frame:
  "email_notification env cfg ctx dev m w = (r, w') \<Longrightarrow> sw_mdm w' = sw_mdm w \<and> sw_quarantine w' = sw_quarantine w"
  by (auto simp: email_notification_def Let_def dest!: bound_state split: if_splits sum.splits option.splits)

lemma push_frame:
  assumes "push_notification env cfg ctx dev m w = (r, w')" "own_prop dev ''id'' = JStr (ref_id d)"
  shows "calls_only (sv_mdm env) d w w' \<and> sw_quarantine w' = sw_quarantine w"
proof -
  have push: "run_call (sv_mdm env) d (ApiPost (orgBaseUrl (sv_mdm env) @ ''/mdm/push-notifications/send'')
      (JObj [(''os'', JStr (push_os dev)), (''identifier'', own_prop dev ''id''), (''app'', JStr ''mdmAgent''),
         (''type'', JStr ''notification''), (''notification'', n)]))" for n
    using assms(2) by (simp add: run_call_def push_url_def)
  show ?thesis
    using assms(1)
    by (auto simp: push_notification_def Let_def dest!: bound_state split: if_splits sum.splits prod.splits
        dest: calls_only_send [OF _ push])
qed

lemma context_device: "own_prop (coalesce (own_prop (device_context d) ''device'') (JObj [])) ''id'' = JStr (ref_id d)"
  by (simp add: device_context_def device_json_def coalesce_def)

lemma notification_step_frame:
  assumes "notification_step env cfg (device_context d) w = (r, w')"
  shows "calls_only (sv_mdm env) d w w' \<and> sw_quarantine w' = sw_quarantine w"
proof -
  have web: "calls_only (sv_mdm env) d w w' \<and> sw_quarantine w' = sw_quarantine w"
    if "webhook_notification env cfg m w = (r, w')" for m
    using webhook_frame [OF that] by (auto intro: calls_only_same)
  have mail: "calls_only (sv_mdm env) d w w' \<and> sw_quarantine w' = sw_quarantine w"
    if "email_notification env cfg ctx dev m w = (r, w')" for ctx dev m
    using email_frame [OF that] by (auto intro: calls_only_same)
  show ?thesis
    using assms unfolding notification_step_def Let_def
    by (drule_tac bound_state) (auto split: if_splits dest!: web mail push_frame [OF _ context_device])
qed

lemma notification_frame:
  "executeNotificationStep env cfg (device_context d) w = (r, w') \<Longrightarrow>
     calls_only (sv_mdm env) d w w' \<and> sw_quarantine w' = sw_quarantine w"
  unfolding executeNotificationStep_def by (drule caught_step_state) (blast dest: notification_step_frame)

lemma mdm_step_frame:
  assumes "mdm_step env ws wfl d act params resume w = (r, w')"
  shows "calls_only (sv_mdm env) d w w' \<and> sw_quarantine w' = sw_quarantine w"
proof -
  obtain st where ex: "executeMdmAction (sv_mdm env) ws (target_of_ref d) act (wf_targetDeploymentModel wfl) params resume (sw_mdm w) = (r, st)"
    and w': "w' = w\<lparr>sw_mdm := st\<rparr>" using assms by (auto simp: mdm_step_def split: prod.splits)
  from ex have "\<exists>cs. sent st = sent (sw_mdm w) @ cs \<and> list_all (run_call (sv_mdm env) d) cs"
  proof (cases rule: executeMdmAction_sends)
    case 1
    then show ?thesis by simp
  next
    case (2 ac path c)
    note g = gate_passed [OF 2(1)]
    have "call_url c \<in> device_urls (orgBaseUrl (sv_mdm env)) path (ref_platformDeviceId d)"
      using command_request_url [OF 2(2)] platform_paths g by (simp add: target_of_ref_def) blast
    then have "run_call (sv_mdm env) d c" using g by (auto simp: run_call_def target_of_ref_def)
    then show ?thesis using 2(3) unfolding sends_def by (auto simp: list_all_iff)
  next
    case (3 ac path)
    note g = gate_passed [OF 3(1)]
    have "run_call (sv_mdm env) d c" if "script_call (sv_mdm env) path (tg_platformDeviceId (target_of_ref d)) c" for c
      using that g by (auto simp: script_call_def device_urls_def scripts_url_def run_call_def target_of_ref_def)
    then show ?thesis using 3(2) unfolding sends_def by (auto simp: list_all_iff)
  qed
  then show ?thesis using w' by (simp add: calls_only_def)
qed

lemma applyDevicePolicies_sends:
  assumes "applyDevicePolicies env platform did stack st = (r, st')"
  shows "st' = st \<and> (\<exists>m. r = Inr (False, m)) \<or>
    (\<exists>path x. platformPathSegment platform = Some path \<and>
       send_call env (ApiPut (device_url (orgBaseUrl env) path did) (stack_body path stack)) st = (x, st') \<and>
       (\<forall>m. r = Inr (True, m) \<longrightarrow> (\<exists>res. x = Inr res \<and> status res < 300)))"
  using assms by (auto simp: applyDevicePolicies_def split: option.splits if_splits prod.splits sum.splits)

lemma apply_stack_frame:
  assumes "apply_stack env d stack w = (r, w')"
  shows "calls_only (sv_mdm env) d w w' \<and> sw_quarantine w' = sw_quarantine w"
proof -
  obtain st where ap: "applyDevicePolicies (sv_mdm env) (ref_platform d) (ref_platformDeviceId d) stack (sw_mdm w) = (r, st)"
    and w': "w' = w\<lparr>sw_mdm := st\<rparr>" using assms by (auto simp: apply_stack_def split: prod.splits)
  have "run_call (sv_mdm env) d (ApiPut (device_url (orgBaseUrl (sv_mdm env)) path (ref_platformDeviceId d)) b)"
    if "platformPathSegment (ref_platform d) = Some path" for path b
    using that by (auto simp: run_call_def device_urls_def)
  then show ?thesis
    using applyDevicePolicies_sends [OF ap] w' by (auto dest: calls_only_send)
qed

section \<open>Saved stacks\<close>

text \<open>Between two states a PUT was sent, and Applivery answered it with success.\<close>

definition accepted_put :: "mdm_env \<Rightarrow> string \<Rightarrow> jsval \<Rightarrow> mdm_state \<Rightarrow> mdm_state \<Rightarrow> bool" where
  "accepted_put env url payload st0 st \<longleftrightarrow>
     (\<exists>pre res. prefix (sent st0) pre \<and> prefix (pre @ [ApiPut url payload]) (sent st) \<and> remote env (pre @ [ApiPut url payload]) = Inr res \<and>
        status res < 300)"

text \<open>What writing a device's policies back means: the body has a primary policy - the first one marked
  primary or, when none is, the first one - and the list of the others in their order, each with its own priority, or
  its position when it has none. Policies without an id cannot be written; with none left the body clears
  the stack. The names are those of Applivery's three platforms.\<close>

definition body_fields :: "string \<Rightarrow> string \<times> string \<times> string" where
  "body_fields path =
     (if path = ''windows'' then (''winPolicyId'', ''winPolicyAssignments'', ''winPolicyId'')
      else if path = ''android'' then (''policyId'', ''emmPolicyAssignments'', ''emmPolicyId'')
      else if path = ''apple'' then (''policyId'', ''admPolicyAssignments'', ''admPolicyId'')
      else (''winPolicyId'', ''winPolicyAssignments'', ''winPolicyId''))"

definition written_entry :: "string \<Rightarrow> nat \<Rightarrow> active_policy \<Rightarrow> jsval \<Rightarrow> bool" where
  "written_entry idKey i p e \<longleftrightarrow>
     (\<exists>pid. ap_id p = Some pid \<and> own_prop e idKey = JStr pid) \<and>
     own_prop e ''priority'' = JNum (Fin (case ap_priority p of Some q \<Rightarrow> q | None \<Rightarrow> of_nat i + 1))"

definition written_stack :: "string \<Rightarrow> active_policy list \<Rightarrow> jsval \<Rightarrow> bool" where
  "written_stack path ps b \<longleftrightarrow>
     (case body_fields path of (primaryKey, listKey, idKey) \<Rightarrow>
        let kept = filter (\<lambda>p. ap_id p \<noteq> None \<and> ap_id p \<noteq> Some []) ps
        in if kept = [] then own_prop b primaryKey = JNull \<and> own_prop b listKey = JArr []
           else \<exists>before p after entries. kept = before @ p # after \<and>
             (ap_isPrimary p \<and> (\<forall>x\<in>set before. \<not> ap_isPrimary x) \<or> before = [] \<and> (\<forall>x\<in>set kept. \<not> ap_isPrimary x)) \<and>
             own_prop b primaryKey = JStr (the (ap_id p)) \<and> own_prop b listKey = JArr entries \<and>
             length entries = length (before @ after) \<and>
             (\<forall>i<length entries. written_entry idKey i ((before @ after) ! i) (entries ! i)))"

lemma body_fields_keys: "stack_keys path = body_fields path" "fst (body_fields path) \<noteq> fst (snd (body_fields path))"
    "fst (snd (body_fields path)) \<noteq> fst (body_fields path)" "snd (snd (body_fields path)) \<noteq> ''priority''"
  by (simp_all add: stack_keys_def body_fields_def)

lemma stack_body_fields:
  assumes "primary_and_rest ss = (v, rest)" "body_fields path = (primaryKey, listKey, idKey)"
  shows "own_prop (stack_body path ss) primaryKey = v"
    "own_prop (stack_body path ss) listKey = JArr (map (\<lambda>(i, p). assignment_json idKey i p) (List.enumerate 0 rest))"
  using assms body_fields_keys [of path] by (simp_all add: stack_body_def)

lemma primary_and_rest_first:
  assumes "st_primary p" "\<forall>x\<in>set before. \<not> st_primary x"
  shows "primary_and_rest (before @ p # after) = (st_id p, before @ after)"
proof -
  have "List.find (\<lambda>x. st_primary (snd x)) (List.enumerate 0 before) = None"
    using assms(2) by (auto simp: find_None_all in_set_enumerate_eq)
  then have "primary_index (before @ p # after) = Some (length before)"
    using assms(1) by (simp add: primary_index_def enumerate_append_eq find_append)
  then show ?thesis by (simp add: primary_and_rest_def remove_at_def)
qed

lemma primary_and_rest_none:
  assumes "\<forall>x\<in>set (p # rest). \<not> st_primary x"
  shows "primary_and_rest (p # rest) = (st_id p, rest)"
proof -
  have "List.find (\<lambda>x. st_primary (snd x)) (List.enumerate 0 (p # rest)) = None"
    using assms by (auto simp: find_None_all in_set_enumerate_eq nth_Cons' split: if_splits)
  then show ?thesis by (simp add: primary_and_rest_def primary_index_def)
qed

lemma kept_entries:
  assumes "ap_id x \<noteq> None \<and> ap_id x \<noteq> Some []"
  shows "st_id (stack_entry_of x) = JStr (the (ap_id x))" "st_primary (stack_entry_of x) = ap_isPrimary x"
  using assms by (auto simp: stack_entry_of_def)

lemma entry_written:
  assumes "\<forall>x\<in>set rest. ap_id x \<noteq> None" "idKey \<noteq> ''priority''" "i < length rest"
  shows "written_entry idKey i (rest ! i)
    (map (\<lambda>(i, p). assignment_json idKey i p) (List.enumerate 0 (map stack_entry_of rest)) ! i)"
  using assms by (auto simp: written_entry_def assignment_json_def nth_enumerate_eq stack_entry_of_def split: option.splits)

lemma stack_body_written: "written_stack path ps (stack_body path (current_stack ps))"
proof -
  define kept where "kept = filter (\<lambda>p. ap_id p \<noteq> None \<and> ap_id p \<noteq> Some []) ps"
  have stack: "current_stack ps = map stack_entry_of kept"
    unfolding current_stack_def kept_def filled_def
    by (intro arg_cong [of _ _ "map stack_entry_of"] filter_cong) (auto split: option.splits)
  have ids: "\<forall>x\<in>set kept. ap_id x \<noteq> None \<and> ap_id x \<noteq> Some []" by (auto simp: kept_def)
  obtain primaryKey listKey idKey where keys: "body_fields path = (primaryKey, listKey, idKey)" by (rule prod_cases3)
  have idKey: "idKey \<noteq> ''priority''" using body_fields_keys(4) [of path] keys by simp
  have split: "written_stack path ps (stack_body path (current_stack ps))"
    if "kept = before @ p # after"
      "ap_isPrimary p \<and> (\<forall>x\<in>set before. \<not> ap_isPrimary x) \<or> before = [] \<and> (\<forall>x\<in>set kept. \<not> ap_isPrimary x)"
    for before p after
  proof -
    have ids': "\<forall>x\<in>set (before @ p # after). ap_id x \<noteq> None \<and> ap_id x \<noteq> Some []" using ids that(1) by simp
    have "primary_and_rest (map stack_entry_of (before @ p # after)) = (st_id (stack_entry_of p), map stack_entry_of (before @ after))"
      using that(2)
    proof
      assume "ap_isPrimary p \<and> (\<forall>x\<in>set before. \<not> ap_isPrimary x)"
      then show ?thesis
        using primary_and_rest_first [of "stack_entry_of p" "map stack_entry_of before" "map stack_entry_of after"]
        by (simp add: stack_entry_of_def)
    next
      assume "before = [] \<and> (\<forall>x\<in>set kept. \<not> ap_isPrimary x)"
      then show ?thesis
        using primary_and_rest_none [of "stack_entry_of p" "map stack_entry_of after"] that(1) by (simp add: stack_entry_of_def)
    qed
    note body = stack_body_fields [OF this keys]
    define entries where "entries = map (\<lambda>(i, p). assignment_json idKey i p) (List.enumerate 0 (map stack_entry_of (before @ after)))"
    have fields: "own_prop (stack_body path (current_stack ps)) primaryKey = JStr (the (ap_id p))"
        "own_prop (stack_body path (current_stack ps)) listKey = JArr entries"
      using body kept_entries(1) ids' by (simp_all add: stack that(1) entries_def)
    have len: "length entries = length (before @ after)" by (simp add: entries_def)
    have each: "written_entry idKey i ((before @ after) ! i) (entries ! i)" if "i < length entries" for i
      unfolding entries_def by (rule entry_written) (use ids' idKey that len in auto)
    show ?thesis
      using that fields len each unfolding written_stack_def keys kept_def [symmetric] Let_def prod.case
      by (subst if_not_P) auto
  qed
  consider "kept = []" | (prim) "\<exists>x\<in>set kept. ap_isPrimary x" | p after where "kept = p # after" "\<forall>x\<in>set kept. \<not> ap_isPrimary x"
    by (cases kept) auto
  then show ?thesis
  proof cases
    case 1
    then have "primary_and_rest (current_stack ps) = (JNull, [])"
      by (simp add: stack primary_and_rest_def primary_index_def)
    from stack_body_fields [OF this keys] show ?thesis
      using 1 by (simp add: written_stack_def keys kept_def)
  next
    case prim
    then obtain before p after where "kept = before @ p # after" "ap_isPrimary p" "\<forall>x\<in>set before. \<not> ap_isPrimary x"
      using split_list_first_prop [OF prim] by blast
    then show ?thesis using split by blast
  next
    case (3 p after)
    then show ?thesis using split [of "[]" p after] by simp
  qed
qed

text \<open>The saved policies were written back to the device, and Applivery accepted the write.\<close>

definition restored_to :: "step_env \<Rightarrow> device_ref \<Rightarrow> quarantine_row \<Rightarrow> mdm_state \<Rightarrow> mdm_state \<Rightarrow> bool" where
  "restored_to env d q st0 st \<longleftrightarrow>
     (\<exists>path b. platformPathSegment (ref_platform d) = Some path \<and> written_stack path (qr_policies q) b \<and>
        accepted_put (sv_mdm env) (device_url (orgBaseUrl (sv_mdm env)) path (ref_platformDeviceId d)) b st0 st)"

definition unique_stacks :: "step_world \<Rightarrow> bool" where
  "unique_stacks w \<longleftrightarrow> distinct (map (\<lambda>q. (qr_workspace q, qr_deviceId q)) (sw_quarantine w))"

definition stacks_kept :: "step_env \<Rightarrow> string \<Rightarrow> device_ref \<Rightarrow> step_world \<Rightarrow> step_world \<Rightarrow> bool" where
  "stacks_kept env ws d w w' \<longleftrightarrow>
     prefix (sent (sw_mdm w)) (sent (sw_mdm w')) \<and>
     (unique_stacks w \<longrightarrow> unique_stacks w' \<and>
        (\<forall>q\<in>set (sw_quarantine w). q \<in> set (sw_quarantine w') \<or>
           is_quarantine ws (ref_id d) q \<and> restored_to env d q (sw_mdm w) (sw_mdm w')))"

lemma restored_later:
  "restored_to env d q st0 st \<Longrightarrow> prefix (sent st) (sent st') \<Longrightarrow> prefix (sent st1) (sent st0) \<Longrightarrow> restored_to env d q st1 st'"
  unfolding restored_to_def accepted_put_def by (meson prefix_order.trans)

lemma stacks_kept_refl [simp]: "stacks_kept env ws d w w"
  by (simp add: stacks_kept_def)

lemma stacks_kept_trans: "stacks_kept env ws d u v \<Longrightarrow> stacks_kept env ws d v w \<Longrightarrow> stacks_kept env ws d u w"
  unfolding stacks_kept_def
  using restored_later [of env d _ "sw_mdm u" "sw_mdm v" "sw_mdm w" "sw_mdm u"]
    restored_later [of env d _ "sw_mdm v" "sw_mdm w" "sw_mdm w" "sw_mdm u"]
  by (meson prefix_order.refl prefix_order.trans)

lemma stacks_kept_same:
  assumes "calls_only e d w w' \<and> sw_quarantine w' = sw_quarantine w"
  shows "stacks_kept env ws d' w w'"
  using assms by (auto simp: stacks_kept_def calls_only_def unique_stacks_def)

lemma snapshot_kept: "stacks_kept env ws d w (snapshotPoliciesIfNeeded ws' did full wid w)"
  by (auto simp: stacks_kept_def snapshotPoliciesIfNeeded_def unique_stacks_def find_quarantine_def find_None_all
      is_quarantine_def)

lemma snapshot_mdm [simp]: "sw_mdm (snapshotPoliciesIfNeeded ws did full wid w) = sw_mdm w"
  by (simp add: snapshotPoliciesIfNeeded_def)

lemma when_appliedE:
  assumes "when_applied r k = (x, w')"
  obtains y where "r = (y, w')" | w1 m z where "r = (Inr (True, m), w1)" "k w1 = (z, w')" "x = Inr z"
proof (cases "\<exists>m w1. r = (Inr (True, m), w1)")
  case True
  then obtain m w1 where r: "r = (Inr (True, m), w1)" by blast
  obtain z w2 where "k w1 = (z, w2)" by fastforce
  then show ?thesis using assms r that(2) by (simp add: when_applied_def)
next
  case False
  have "\<exists>y. r = (y, w')"
    using assms False by (cases r, rename_tac a b, case_tac a) (auto simp: when_applied_def split: if_splits)
  then show ?thesis using that(1) by blast
qed

text \<open>Writing a stack that has no table row of its own to clear.\<close>

lemma write_stack_frame:
  assumes "when_applied (apply_stack env d stack w) (\<lambda>w2. (z, w2)) = (x, w')"
  shows "calls_only (sv_mdm env) d w w' \<and> sw_quarantine w' = sw_quarantine w"
  using assms by (cases rule: when_appliedE) (auto dest: apply_stack_frame)

lemma replace_frame:
  assumes "executePolicyReplaceStep env ws d cfg wid w = (r, w')"
  shows "calls_only (sv_mdm env) d w w' \<and> stacks_kept env ws d w w'"
proof -
  have "calls_only (sv_mdm env) d w w' \<and> stacks_kept env ws d w w'"
    if "when_applied (apply_stack env d stack (snapshotPoliciesIfNeeded ws (ref_id d) full wid w)) (\<lambda>w2. (z, w2)) = (r, w')"
    for stack full z
    using write_stack_frame [OF that] stacks_kept_trans [OF snapshot_kept stacks_kept_same]
    by (auto simp: calls_only_def)
  then show ?thesis using assms by (auto simp: executePolicyReplaceStep_def Let_def split: if_splits option.splits)
qed

lemma add_frame:
  assumes "executePolicyAddStep env ws d cfg wid w = (r, w')"
  shows "calls_only (sv_mdm env) d w w' \<and> stacks_kept env ws d w w'"
proof -
  have "calls_only (sv_mdm env) d w w' \<and> stacks_kept env ws d w w'"
    if "when_applied (apply_stack env d stack (snapshotPoliciesIfNeeded ws (ref_id d) full wid w)) (\<lambda>w2. (z, w2)) = (r, w')"
    for stack full z
    using write_stack_frame [OF that] stacks_kept_trans [OF snapshot_kept stacks_kept_same]
    by (auto simp: calls_only_def)
  then show ?thesis using assms by (auto simp: executePolicyAddStep_def Let_def split: if_splits option.splits)
qed

lemma apply_stack_accepted:
  assumes "apply_stack env d stack w = (Inr (True, m), w1)"
  obtains path where "platformPathSegment (ref_platform d) = Some path"
    "sent (sw_mdm w1) = sent (sw_mdm w) @
       [ApiPut (device_url (orgBaseUrl (sv_mdm env)) path (ref_platformDeviceId d)) (stack_body path stack)]"
    "accepted_put (sv_mdm env) (device_url (orgBaseUrl (sv_mdm env)) path (ref_platformDeviceId d)) (stack_body path stack) (sw_mdm w) (sw_mdm w1)"
proof -
  obtain st where ap: "applyDevicePolicies (sv_mdm env) (ref_platform d) (ref_platformDeviceId d) stack (sw_mdm w) = (Inr (True, m), st)"
    and w1: "w1 = w\<lparr>sw_mdm := st\<rparr>" using assms by (auto simp: apply_stack_def split: prod.splits)
  obtain path res where p: "platformPathSegment (ref_platform d) = Some path"
    and c: "send_call (sv_mdm env) (ApiPut (device_url (orgBaseUrl (sv_mdm env)) path (ref_platformDeviceId d)) (stack_body path stack))
      (sw_mdm w) = (Inr res, st)" "status res < 300"
    using applyDevicePolicies_sends [OF ap] by auto
  then have "sent st = sent (sw_mdm w) @ [ApiPut (device_url (orgBaseUrl (sv_mdm env)) path (ref_platformDeviceId d)) (stack_body path stack)]"
    "remote (sv_mdm env) (sent st) = Inr res"
    by (auto simp: send_call_def Let_def)
  then show ?thesis using that [OF p] c(2) w1 unfolding accepted_put_def by auto
qed

lemma restore_frame:
  assumes "executePolicyRestoreStep env ws d w = (r, w')"
  shows "calls_only (sv_mdm env) d w w' \<and> stacks_kept env ws d w w'"
proof (cases "find_quarantine ws (ref_id d) w")
  case None
  then show ?thesis using assms by (simp add: executePolicyRestoreStep_def)
next
  case (Some q)
  let ?done = "\<lambda>w1. ((True, ''Restored '' @ show_nat (length (current_stack (qr_policies q))) @ '' previous '' @
      policy_noun (length (current_stack (qr_policies q)))), delete_quarantine ws (ref_id d) w1)"
  have "when_applied (apply_stack env d (current_stack (qr_policies q)) w) ?done = (r, w')"
    using assms Some by (simp add: executePolicyRestoreStep_def Let_def)
  then show ?thesis
  proof (cases rule: when_appliedE)
    case (1 y)
    then show ?thesis using apply_stack_frame stacks_kept_same by blast
  next
    case (2 w1 m z)
    obtain path where acc: "platformPathSegment (ref_platform d) = Some path"
      "accepted_put (sv_mdm env) (device_url (orgBaseUrl (sv_mdm env)) path (ref_platformDeviceId d))
         (stack_body path (current_stack (qr_policies q))) (sw_mdm w) (sw_mdm w1)"
      by (rule apply_stack_accepted [OF 2(1)])
    note fr = apply_stack_frame [OF 2(1)]
    have w': "w' = delete_quarantine ws (ref_id d) w1" using 2(2) by simp
    have q: "q \<in> set (sw_quarantine w)" "is_quarantine ws (ref_id d) q"
      using find_Some_in [OF Some [unfolded find_quarantine_def]] by simp_all
    have only: "x = q" if "unique_stacks w" "x \<in> set (sw_quarantine w)" "is_quarantine ws (ref_id d) x" for x
      using that q unfolding unique_stacks_def distinct_map inj_on_def is_quarantine_def by auto
    have uniq: "unique_stacks w'" if "unique_stacks w"
      using that fr unfolding w' unique_stacks_def delete_quarantine_def del_where_def
      by (simp add: distinct_map_filter)
    have "restored_to env d q (sw_mdm w) (sw_mdm w')" unfolding restored_to_def using acc stack_body_written by (auto simp: w' delete_quarantine_def)
    moreover have "x \<in> set (sw_quarantine w')" if "x \<in> set (sw_quarantine w)" "\<not> is_quarantine ws (ref_id d) x" for x
      using that fr by (simp add: w' delete_quarantine_def del_where_def)
    moreover have "calls_only (sv_mdm env) d w w'" using fr by (simp add: w' delete_quarantine_def calls_only_def)
    moreover have "prefix (sent (sw_mdm w)) (sent (sw_mdm w'))" using fr by (auto simp: w' delete_quarantine_def calls_only_def)
    ultimately show ?thesis using uniq only unfolding stacks_kept_def by blast
  qed
qed

text \<open>What both relations need of a call.\<close>

definition step_frame :: "step_env \<Rightarrow> string \<Rightarrow> device_ref \<Rightarrow> step_world \<Rightarrow> step_world \<Rightarrow> bool" where
  "step_frame env ws d w w' \<longleftrightarrow> calls_only (sv_mdm env) d w w' \<and> stacks_kept env ws d w w'"

lemma step_frame_refl [simp]: "step_frame env ws d w w"
  by (simp add: step_frame_def)

lemma step_frame_trans: "step_frame env ws d u v \<Longrightarrow> step_frame env ws d v w \<Longrightarrow> step_frame env ws d u w"
  unfolding step_frame_def by (blast intro: calls_only_trans stacks_kept_trans)

lemma step_frame_same:
  "calls_only (sv_mdm env) d w w' \<and> sw_quarantine w' = sw_quarantine w \<Longrightarrow> step_frame env ws d w w'"
  unfolding step_frame_def by (blast intro: stacks_kept_same)

lemma monitor_frame:
  assumes "executeMonitorStep env ws d cfg w = (r, w')"
  shows "step_frame env ws d w w'"
proof -
  have res: "step_frame env ws d w w'" if "executePolicyRestoreStep env ws d w = (x, w')" for x
    using restore_frame [OF that] by (simp add: step_frame_def)
  have "step_frame env ws d w w'" if "compliant_again env ws d cfg w = (r, w')"
    using that by (auto simp: compliant_again_def dest: res split: if_splits prod.splits sum.splits)
  then show ?thesis
    using assms by (auto simp: executeMonitorStep_def Let_def split: if_splits jsval.splits option.splits)
qed

lemma returnedE:
  assumes "returned x = (r, w')"
  obtains y where "x = (y, w')"
  using assms by (cases x) (simp add: returned_def)

lemma common_step_frame:
  assumes "common_step env ws wfl d s (x, v) w = (r, w')" "step_frame env ws d w v"
  shows "step_frame env ws d w w'"
proof -
  have mdm: "step_frame env ws d w w'" if "returned (mdm_step env ws wfl d a p t w) = (r, w')" for a p t
  proof -
    obtain y where "mdm_step env ws wfl d a p t w = (y, w')" using returnedE [OF \<open>returned _ = _\<close>] .
    then show ?thesis by (rule step_frame_same [OF mdm_step_frame])
  qed
  have http: "step_frame env ws d w w'" if "returned (executeHttpStep env cfg ctx w) = (r, w')" for cfg ctx
  proof -
    obtain y where "executeHttpStep env cfg ctx w = (y, w')" using returnedE [OF \<open>returned _ = _\<close>] .
    from executeHttpStep_frame [OF this] show ?thesis by (simp add: step_frame_same calls_only_same)
  qed
  have note_step: "step_frame env ws d w w'" if "returned (executeNotificationStep env cfg (device_context d) w) = (r, w')" for cfg
  proof -
    obtain y where "executeNotificationStep env cfg (device_context d) w = (y, w')" using returnedE [OF \<open>returned _ = _\<close>] .
    then show ?thesis by (rule step_frame_same [OF notification_frame])
  qed
  have rep: "step_frame env ws d w w'" if "executePolicyReplaceStep env ws d cfg wid w = (r, w')" for cfg wid
    using replace_frame [OF that] by (simp add: step_frame_def)
  have add: "step_frame env ws d w w'" if "executePolicyAddStep env ws d cfg wid w = (r, w')" for cfg wid
    using add_frame [OF that] by (simp add: step_frame_def)
  have res: "step_frame env ws d w w'" if "executePolicyRestoreStep env ws d w = (r, w')"
    using restore_frame [OF that] by (simp add: step_frame_def)
  show ?thesis
    using assms unfolding common_step_def Let_def
    by (auto split: if_splits dest: mdm http note_step rep add res)
qed

lemma escalation_frame:
  assumes "escalation_step env ws wfl d s w = (r, w')"
  shows "step_frame env ws d w w'"
proof -
  obtain x v where other: "(if step_type s = ''monitor'' then executeMonitorStep env ws d (config s) w
      else (Inr (False, ''Unknown step type '' @ sq (step_type s)), w)) = (x, v)" by fastforce
  have "step_frame env ws d w v"
    using other monitor_frame [of env ws d "config s" w x v] by (simp split: if_splits)
  then show ?thesis using assms unfolding escalation_step_def other by (rule common_step_frame [rotated])
qed

lemma recovery_step_frame: "recovery_step env ws wfl d s w = (r, w') \<Longrightarrow> step_frame env ws d w w'"
  unfolding recovery_step_def by (erule common_step_frame) simp

lemma mdm_frame: "mdm_step env ws wfl d act params resume w = (r, w') \<Longrightarrow> step_frame env ws d w w'"
  by (rule step_frame_same) (rule mdm_step_frame)

lemma reverse_scripts_frame: "reverse_scripts env ws wfl d es w = (r, w') \<Longrightarrow> step_frame env ws d w w'"
proof (induction es arbitrary: w r w')
  case (Cons e es)
  show ?case
  proof (cases "restore_library (wf_steps wfl) e")
    case None
    then show ?thesis using Cons by simp
  next
    case (Some sl)
    obtain s lib where sl: "sl = (s, lib)" by fastforce
    obtain x w1 where m: "mdm_step env ws wfl d ''runScript'' (JObj [(''libraryId'', lib)]) None w = (x, w1)" by fastforce
    obtain out w2 where rest: "reverse_scripts env ws wfl d es w1 = (out, w2)" by fastforce
    have "w' = w2" using Cons.prems Some sl m rest by simp
    then show ?thesis using step_frame_trans [OF mdm_frame [OF m] Cons.IH [OF rest]] by simp
  qed
qed simp

lemma recovery_list_frame: "run_recovery_list env ws wfl d ss w = (r, w') \<Longrightarrow> step_frame env ws d w w'"
proof (induction ss arbitrary: w r w')
  case (Cons s ss)
  obtain x w1 where m: "recovery_step env ws wfl d s w = (x, w1)" by fastforce
  note f1 = recovery_step_frame [OF m]
  show ?case
  proof (cases x)
    case (Inl msg)
    then show ?thesis using Cons.prems m f1 by simp
  next
    case (Inr y)
    obtain q w2 where rest: "run_recovery_list env ws wfl d ss w1 = (q, w2)" by fastforce
    have "w' = w2" using Cons.prems m Inr rest by (simp split: sum.splits)
    then show ?thesis using step_frame_trans [OF f1 Cons.IH [OF rest]] by simp
  qed
qed simp

lemma runRecoverySteps_frame:
  assumes "runRecoverySteps env ws wfl d lg w = (r, w')"
  shows "step_frame env ws d w w'"
proof -
  obtain o1 w1 where a: "reverse_scripts env ws wfl d lg w = (o1, w1)" by fastforce
  obtain o2 w2 where b: "run_recovery_list env ws wfl d (rec_steps (wf_recovery wfl)) w1 = (o2, w2)" by fastforce
  have "w' = w2" using assms a b by (simp add: runRecoverySteps_def split: sum.splits)
  then show ?thesis using step_frame_trans [OF reverse_scripts_frame [OF a] recovery_list_frame [OF b]] by simp
qed

interpretation steps: engine_relation "step_engine env ws wfl ids d" "step_frame env ws d" for env ws wfl ids d
proof
  fix u v w w' s r lib token r2 g lg q
  show "step_frame env ws d w w" by simp
  show "step_frame env ws d u v \<Longrightarrow> step_frame env ws d v w \<Longrightarrow> step_frame env ws d u w" by (rule step_frame_trans)
  show "do_step (step_engine env ws wfl ids d) s w = (r, w') \<Longrightarrow> step_frame env ws d w w'"
    by (simp add: step_engine_def escalation_frame)
  show "do_script (step_engine env ws wfl ids d) lib token w = (r2, w') \<Longrightarrow> step_frame env ws d w w'"
    by (auto simp: step_engine_def returned_def dest: mdm_frame split: prod.splits)
  show "recovery_gate (step_engine env ws wfl ids d) w = (g, w') \<Longrightarrow> step_frame env ws d w w'"
    by (simp add: step_engine_def)
  show "do_recovery (step_engine env ws wfl ids d) lg w = (q, w') \<Longrightarrow> step_frame env ws d w w'"
    by (simp add: step_engine_def runRecoverySteps_frame)
qed

lemma snapshot_new:
  "find_quarantine ws did w = None \<Longrightarrow>
   sw_quarantine (snapshotPoliciesIfNeeded ws did full wid w) = sw_quarantine w @
     [\<lparr>qr_workspace = ws, qr_deviceId = did, qr_platform = fd_platform full, qr_policies = fd_activePolicies full,
       qr_workflowId = wid\<rparr>]"
  by (simp add: snapshotPoliciesIfNeeded_def)

lemma replace_succeeds:
  assumes "executePolicyReplaceStep env ws d cfg wid w = (Inr (True, m), w1)" "getFullDevice env ws (ref_id d) w = Some full"
  obtains m' where "apply_stack env d [\<lparr>st_id = own_prop cfg ''policyId'', st_priority = None, st_primary = False\<rparr>]
      (snapshotPoliciesIfNeeded ws (ref_id d) full wid w) = (Inr (True, m'), w1)"
  using assms
  by (auto simp: executePolicyReplaceStep_def Let_def when_applied_def split: if_splits prod.splits sum.splits)

lemma restore_succeeds:
  assumes "executePolicyRestoreStep env ws d w = (Inr (True, m), w')" "find_quarantine ws (ref_id d) w = Some q"
  obtains m' w1 where "apply_stack env d (current_stack (qr_policies q)) w = (Inr (True, m'), w1)"
    "w' = delete_quarantine ws (ref_id d) w1"
  using assms
  by (auto simp: executePolicyRestoreStep_def Let_def when_applied_def split: if_splits prod.splits sum.splits)

lemma run_frame:
  assumes "runForDevice (step_engine env ws wfl ids d) steps w = (r, w') \<or>
      durable_walk (step_engine env ws wfl ids d) now tok steps start lg w = (out, lg', w')"
  shows "step_frame env ws d w w'"
  using assms
proof
  assume "runForDevice (step_engine env ws wfl ids d) steps w = (r, w')"
  then show ?thesis by (rule steps.runForDevice_R)
next
  assume "durable_walk (step_engine env ws wfl ids d) now tok steps start lg w = (out, lg', w')"
  then show ?thesis by (rule steps.durable_walk_R)
qed

section \<open>Properties\<close>

text \<open>
  C12: Quarantine is undone. When a device without a saved stack is quarantined and then restored, both steps
  succeeding, the first call makes the quarantine policy the only one of the device, and the second writes back the
  policies the device had at the quarantine, accepted by Applivery: every policy with an id in its order, the
  first one marked primary (the first of all, when none is) as the primary policy, the others with their own
  priorities, or their position where they had none. The table of saved stacks is what it was before.
\<close>
theorem quarantine_restore_roundtrip:
  assumes "find_quarantine ws (ref_id d) w = None" "getFullDevice env ws (ref_id d) w = Some full"
    and "executePolicyReplaceStep env ws d cfg wid w = (Inr (True, m1), w1)"
    and "executePolicyRestoreStep env ws d w1 = (Inr (True, m2), w2)"
  shows "\<exists>path primaryKey listKey idKey url isolate back. platformPathSegment (ref_platform d) = Some path \<and>
    body_fields path = (primaryKey, listKey, idKey) \<and>
    url = device_url (orgBaseUrl (sv_mdm env)) path (ref_platformDeviceId d) \<and>
    sent (sw_mdm w2) = sent (sw_mdm w) @ [ApiPut url isolate, ApiPut url back] \<and>
    own_prop isolate primaryKey = own_prop cfg ''policyId'' \<and> own_prop isolate listKey = JArr [] \<and>
    written_stack path (fd_activePolicies full) back \<and> accepted_put (sv_mdm env) url back (sw_mdm w1) (sw_mdm w2) \<and>
    sw_quarantine w2 = sw_quarantine w"
proof -
  let ?ws = "snapshotPoliciesIfNeeded ws (ref_id d) full wid w"
  obtain m' where ap: "apply_stack env d [\<lparr>st_id = own_prop cfg ''policyId'', st_priority = None, st_primary = False\<rparr>] ?ws
      = (Inr (True, m'), w1)" using replace_succeeds [OF assms(3,2)] .
  obtain p1 where p1: "platformPathSegment (ref_platform d) = Some p1"
    and s1: "sent (sw_mdm w1) = sent (sw_mdm w) @ [ApiPut (device_url (orgBaseUrl (sv_mdm env)) p1 (ref_platformDeviceId d))
      (stack_body p1 [\<lparr>st_id = own_prop cfg ''policyId'', st_priority = None, st_primary = False\<rparr>])]"
    using apply_stack_accepted [OF ap] by (metis snapshot_mdm)
  have q1: "sw_quarantine w1 = sw_quarantine w @ [\<lparr>qr_workspace = ws, qr_deviceId = ref_id d, qr_platform = fd_platform full,
      qr_policies = fd_activePolicies full, qr_workflowId = wid\<rparr>]"
    using apply_stack_frame [OF ap] snapshot_new [OF assms(1)] by simp
  have none: "\<forall>x\<in>set (sw_quarantine w). \<not> is_quarantine ws (ref_id d) x"
    using assms(1) by (simp add: find_quarantine_def find_None_all)
  then have "find_quarantine ws (ref_id d) w1 = Some \<lparr>qr_workspace = ws, qr_deviceId = ref_id d, qr_platform = fd_platform full,
      qr_policies = fd_activePolicies full, qr_workflowId = wid\<rparr>"
    using assms(1) by (simp add: find_quarantine_def q1 find_append is_quarantine_def)
  then obtain m'' w1' where ap2: "apply_stack env d (current_stack (fd_activePolicies full)) w1 = (Inr (True, m''), w1')"
    and w2: "w2 = delete_quarantine ws (ref_id d) w1'" using restore_succeeds [OF assms(4)] by (metis quarantine_row.select_convs(4))
  obtain path where p: "platformPathSegment (ref_platform d) = Some path"
    and s2: "sent (sw_mdm w1') = sent (sw_mdm w1) @ [ApiPut (device_url (orgBaseUrl (sv_mdm env)) path (ref_platformDeviceId d))
      (stack_body path (current_stack (fd_activePolicies full)))]"
    and acc: "accepted_put (sv_mdm env) (device_url (orgBaseUrl (sv_mdm env)) path (ref_platformDeviceId d))
      (stack_body path (current_stack (fd_activePolicies full))) (sw_mdm w1) (sw_mdm w1')"
    using apply_stack_accepted [OF ap2] by metis
  have "sw_quarantine w2 = sw_quarantine w"
    using apply_stack_frame [OF ap2] none by (simp add: w2 delete_quarantine_def q1 del_where_def is_quarantine_def filter_id_conv)
  moreover have "sent (sw_mdm w2) = sent (sw_mdm w1')" "accepted_put (sv_mdm env)
      (device_url (orgBaseUrl (sv_mdm env)) path (ref_platformDeviceId d))
      (stack_body path (current_stack (fd_activePolicies full))) (sw_mdm w1) (sw_mdm w2)"
    using acc by (simp_all add: w2 delete_quarantine_def)
  moreover obtain primaryKey listKey idKey where keys: "body_fields path = (primaryKey, listKey, idKey)" by (rule prod_cases3)
  have "primary_and_rest [\<lparr>st_id = own_prop cfg ''policyId'', st_priority = None, st_primary = False\<rparr>] = (own_prop cfg ''policyId'', [])"
    by (simp add: primary_and_rest_none)
  note isolate = stack_body_fields [OF this keys]
  ultimately show ?thesis
    using p p1 s1 s2 keys isolate stack_body_written [of path "fd_activePolicies full"]
    by (intro exI [of _ path] exI [of _ primaryKey] exI [of _ listKey] exI [of _ idKey] exI conjI) (assumption | simp)+
qed

text \<open>
  C9: A saved stack is never lost. Whatever the steps, the branches and the answers, a whole in-memory run or durable
  walk of a device leaves every saved stack in the table, except that of the device itself once Applivery has accepted,
  in this run, a write of that stack back to the device: the saved policies that have an id, in their order, the first
  one marked primary (the first of all, when none is) as the primary policy, the others with the priorities they had,
  or their position where they had none.
\<close>
theorem saved_stack_never_lost:
  assumes "unique_stacks w" "q \<in> set (sw_quarantine w)"
    and "runForDevice (step_engine env ws wfl ids d) (wf_steps wfl) w = (r, w') \<or>
      durable_walk (step_engine env ws wfl ids d) now tok (wf_steps wfl) start lg w = (out, lg', w')"
  shows "q \<in> set (sw_quarantine w') \<or> is_quarantine ws (ref_id d) q \<and> restored_to env d q (sw_mdm w) (sw_mdm w')"
proof -
  have "step_frame env ws d w w'" using assms(3) by (rule run_frame)
  then show ?thesis using assms(1,2) unfolding step_frame_def stacks_kept_def by blast
qed

text \<open>
  C13: A workflow run touches one device. Every call to Applivery that a whole in-memory run or durable walk makes -
  escalation, script dispatch and recovery - is addressed to the device of the run: its URL is one of the device's, or
  it is a push notification whose receiver is the device. (Reads of the fleet are not calls of the model.)
\<close>
theorem run_stays_on_device:
  assumes "runForDevice (step_engine env ws wfl ids d) (wf_steps wfl) w = (r, w') \<or>
      durable_walk (step_engine env ws wfl ids d) now tok (wf_steps wfl) start lg w = (out, lg', w')"
  shows "\<exists>cs. sent (sw_mdm w') = sent (sw_mdm w) @ cs \<and> list_all (run_call (sv_mdm env) d) cs"
proof -
  have "step_frame env ws d w w'" using assms by (rule run_frame)
  then show ?thesis unfolding step_frame_def calls_only_def by blast
qed

text \<open>
  The priority of an added policy. With numbered policies of priority 0 or more on the device, a policy added at
  "top" never yields to one of them, and strictly outranks them all exactly when none of them has priority 0; one
  added below them never outranks one of them while they are at most 10000, and is strictly below them all exactly
  when none has priority 10000.
\<close>
lemma added_policy_ranks:
  assumes "numbered \<noteq> []" "\<forall>p\<in>set numbered. 0 \<le> p \<and> p \<le> 10000"
  shows "(\<forall>p\<in>set numbered. new_priority True numbered \<le> p \<and> p \<le> new_priority False numbered) \<and>
    ((\<forall>p\<in>set numbered. new_priority True numbered < p) \<longleftrightarrow> 0 \<notin> set numbered) \<and>
    ((\<forall>p\<in>set numbered. p < new_priority False numbered) \<longleftrightarrow> 10000 \<notin> set numbered)"
proof -
  let ?l = "Min (set numbered)" and ?h = "Max (set numbered)"
  have l: "?l \<in> set numbered" "\<And>p. p \<in> set numbered \<Longrightarrow> ?l \<le> p"
    and h: "?h \<in> set numbered" "\<And>p. p \<in> set numbered \<Longrightarrow> p \<le> ?h" using assms(1) by simp_all
  have t: "new_priority True numbered = max 0 (?l - 10)" and b: "new_priority False numbered = min 10000 (?h + 10)"
    using assms(1) by (simp_all add: new_priority_def PRIORITY_MIN_def PRIORITY_MAX_def PRIORITY_STEP_def)
  have "new_priority True numbered \<le> p \<and> p \<le> new_priority False numbered" if "p \<in> set numbered" for p
  proof -
    have "?l - 10 \<le> p" "p \<le> ?h + 10" using l(2) [OF that] h(2) [OF that] by linarith+
    then show ?thesis using assms(2) that unfolding t b by simp
  qed
  moreover have "(\<forall>p\<in>set numbered. new_priority True numbered < p) \<longleftrightarrow> 0 \<notin> set numbered"
  proof
    assume "\<forall>p\<in>set numbered. new_priority True numbered < p"
    then show "0 \<notin> set numbered" by (auto simp: t)
  next
    assume "0 \<notin> set numbered"
    then have pos: "0 < p" if "p \<in> set numbered" for p using assms(2) that by (metis order_le_less)
    have "?l - 10 < p \<and> 0 < p" if "p \<in> set numbered" for p using l(2) [OF that] pos [OF that] by linarith
    then show "\<forall>p\<in>set numbered. new_priority True numbered < p" unfolding t by simp
  qed
  moreover have "(\<forall>p\<in>set numbered. p < new_priority False numbered) \<longleftrightarrow> 10000 \<notin> set numbered"
  proof
    assume "\<forall>p\<in>set numbered. p < new_priority False numbered"
    then show "10000 \<notin> set numbered" by (auto simp: b)
  next
    assume "10000 \<notin> set numbered"
    then have small: "p < 10000" if "p \<in> set numbered" for p using assms(2) that by (metis order_le_less)
    have "p < ?h + 10 \<and> p < 10000" if "p \<in> set numbered" for p using h(2) [OF that] small [OF that] by linarith
    then show "\<forall>p\<in>set numbered. p < new_priority False numbered" unfolding b by simp
  qed
  ultimately show ?thesis by blast
qed

theorem added_policy_ranks_witness:
  "new_priority True [5, 100] = 0 \<and> new_priority True [5, 100] < (5::rat) \<and> new_priority True [5, 100] < (100::rat)"
  using added_policy_ranks [of "[5, 100]"]
  by (simp add: new_priority_def PRIORITY_MIN_def PRIORITY_MAX_def PRIORITY_STEP_def)

text \<open>A stack with no primary policy is not restored: writing it makes its first entry the primary one and drops
  that entry's priority.\<close>

lemma restore_promotes_first:
  assumes "\<not> st_primary p" "list_all (\<lambda>x. \<not> st_primary x) rest"
  shows "stack_body path (p # rest) = stack_body path (p\<lparr>st_primary := True, st_priority := None\<rparr> # rest)"
proof -
  have none: "List.find (\<lambda>x. st_primary (snd x)) (List.enumerate n rest) = None" for n
    using assms(2) by (auto simp: find_None_all list_all_iff in_set_enumerate_eq)
  have "primary_index (p # rest) = None" "primary_index (p\<lparr>st_primary := True, st_priority := None\<rparr> # rest) = Some 0"
    using assms(1) none by (simp_all add: primary_index_def)
  then have "primary_and_rest (p # rest) = primary_and_rest (p\<lparr>st_primary := True, st_priority := None\<rparr> # rest)"
    by (simp add: primary_and_rest_def remove_at_def)
  then show ?thesis by (simp add: stack_body_def)
qed

section \<open>Witnesses\<close>

definition base_policy :: active_policy where
  "base_policy = \<lparr>ap_id = Some ''p1'', ap_policyName = ''Base'', ap_platform = ''apple'', ap_priority = None, ap_isPrimary = True\<rparr>"

definition vpn_policy :: active_policy where
  "vpn_policy = \<lparr>ap_id = Some ''p2'', ap_policyName = ''VPN'', ap_platform = ''apple'', ap_priority = Some 20, ap_isPrimary = False\<rparr>"

definition quarantined_mac :: fleet_device where
  "quarantined_mac = broken_mac\<lparr>fd_activePolicies := [vpn_policy, base_policy]\<rparr>"

definition sample_step_env :: step_env where
  "sample_step_env = \<lparr>sv_mdm = sample_mdm, sv_http = (\<lambda>_. Inl ''down''), sv_mail = (\<lambda>_. Inl ''down''), sv_json = (\<lambda>_. None),
     sv_fleet = (\<lambda>_ _. Inr [quarantined_mac]), sv_devices = empty_devices, sv_apps = \<lparr>app_catalog = [], app_lists = [], app_audit = []\<rparr>,
     sv_zones = [], sv_policies = [], sv_settings = None, sv_now = 0\<rparr>"

definition mac_ref :: device_ref where
  "mac_ref = \<lparr>ref_id = ''d1'', ref_displayName = Some ''Mac'', ref_platform = ''apple'', ref_platformDeviceId = ''a1'',
     ref_fields = JNull\<rparr>"

definition fresh_world :: step_world where
  "fresh_world = \<lparr>sw_mdm = no_calls, sw_quarantine = [], sw_out = []\<rparr>"

definition isolate_cfg :: jsval where
  "isolate_cfg = JObj [(''policyId'', JStr ''q1'')]"

definition quarantined_world :: step_world where
  "quarantined_world = snd (executePolicyReplaceStep sample_step_env ''acme'' mac_ref isolate_cfg None fresh_world)"

lemma sample_full:
  "getFullDevice sample_step_env ''acme'' ''d1'' w = Some quarantined_mac"
  "getFullDevice sample_step_env ''acme'' (ref_id mac_ref) w = Some quarantined_mac"
  by (simp_all add: getFullDevice_def sample_step_env_def mac_ref_def quarantined_mac_def broken_mac_def)

lemma sample_apply:
  "apply_stack sample_step_env mac_ref stack w =
     (Inr (True, ''ok''), w\<lparr>sw_mdm := (sw_mdm w)\<lparr>sent := sent (sw_mdm w) @
        [ApiPut (device_url ''base'' ''apple'' ''a1'') (stack_body ''apple'' stack)]\<rparr>\<rparr>)"
  by (simp add: apply_stack_def applyDevicePolicies_def sample_step_env_def sample_mdm_def mac_ref_def platformPathSegment_def
      send_call_def Let_def)

lemma sample_replace:
  "fst (executePolicyReplaceStep sample_step_env ''acme'' mac_ref isolate_cfg None fresh_world) =
     Inr (True, ''Quarantined '' @ em_dash @ '' replaced '' @ show_nat 2 @ '' policies with '' @ sq ''q1'')"
  "find_quarantine ''acme'' ''d1'' quarantined_world \<noteq> None"
proof -
  have cfg: "own_prop isolate_cfg ''policyId'' = JStr ''q1''" "policy_label isolate_cfg = ''q1''"
    by (simp_all add: isolate_cfg_def policy_label_def js_or_def)
  have policies: "fd_activePolicies quarantined_mac = [vpn_policy, base_policy]" by (simp add: quarantined_mac_def)
  have fresh: "sw_quarantine fresh_world = []" "ref_id mac_ref = ''d1''" by (simp_all add: fresh_world_def mac_ref_def)
  show "fst (executePolicyReplaceStep sample_step_env ''acme'' mac_ref isolate_cfg None fresh_world) =
     Inr (True, ''Quarantined '' @ em_dash @ '' replaced '' @ show_nat 2 @ '' policies with '' @ sq ''q1'')"
    "find_quarantine ''acme'' ''d1'' quarantined_world \<noteq> None"
    by (simp_all add: quarantined_world_def executePolicyReplaceStep_def sample_full cfg when_applied_def sample_apply
        policies policy_noun_def numeral_2_eq_2 snapshotPoliciesIfNeeded_def find_quarantine_def fresh is_quarantine_def)
qed

text \<open>The two policies written back: the primary one, and the other with its own priority.\<close>

lemma sample_written:
  assumes "written_stack ''apple'' [vpn_policy, base_policy] b"
  shows "own_prop b ''policyId'' = JStr ''p1'' \<and> (\<exists>e. own_prop b ''admPolicyAssignments'' = JArr [e] \<and>
    own_prop e ''admPolicyId'' = JStr ''p2'' \<and> own_prop e ''priority'' = JNum (Fin 20))"
proof -
  obtain before p after entries where w: "[vpn_policy, base_policy] = before @ p # after"
      "ap_isPrimary p \<and> (\<forall>x\<in>set before. \<not> ap_isPrimary x) \<or> before = [] \<and> (\<forall>x\<in>{vpn_policy, base_policy}. \<not> ap_isPrimary x)"
      "own_prop b ''policyId'' = JStr (the (ap_id p))" "own_prop b ''admPolicyAssignments'' = JArr entries"
      "length entries = length (before @ after)"
      "\<forall>i<length entries. written_entry ''admPolicyId'' i ((before @ after) ! i) (entries ! i)"
    using assms by (auto simp: written_stack_def body_fields_def vpn_policy_def base_policy_def)
  have prim: "\<not> ap_isPrimary vpn_policy" "ap_isPrimary base_policy" by (simp_all add: vpn_policy_def base_policy_def)
  have "before = [vpn_policy] \<and> p = base_policy \<and> after = []"
    using w(1,2) prim by (auto simp: Cons_eq_append_conv)
  moreover from this obtain e where "entries = [e]" using w(5) by (auto simp: length_Suc_conv)
  ultimately show ?thesis
    using w(3,4,6) by (auto simp: written_entry_def vpn_policy_def base_policy_def)
qed

theorem quarantine_restore_roundtrip_witness:
  "\<exists>isolate back e. sent (sw_mdm (snd (executePolicyRestoreStep sample_step_env ''acme'' mac_ref quarantined_world))) =
     [ApiPut (device_url ''base'' ''apple'' ''a1'') isolate, ApiPut (device_url ''base'' ''apple'' ''a1'') back] \<and>
     own_prop isolate ''policyId'' = JStr ''q1'' \<and> own_prop back ''policyId'' = JStr ''p1'' \<and>
     own_prop back ''admPolicyAssignments'' = JArr [e] \<and> own_prop e ''admPolicyId'' = JStr ''p2'' \<and>
     own_prop e ''priority'' = JNum (Fin 20)"
proof -
  obtain q where q: "find_quarantine ''acme'' (ref_id mac_ref) quarantined_world = Some q"
    using sample_replace(2) by (auto simp: mac_ref_def)
  have rep: "executePolicyReplaceStep sample_step_env ''acme'' mac_ref isolate_cfg None fresh_world =
      (Inr (True, ''Quarantined '' @ em_dash @ '' replaced '' @ show_nat 2 @ '' policies with '' @ sq ''q1''), quarantined_world)"
    using sample_replace(1) by (simp add: quarantined_world_def prod_eq_iff)
  obtain m w2 where res: "executePolicyRestoreStep sample_step_env ''acme'' mac_ref quarantined_world = (Inr (True, m), w2)"
    using q by (simp add: executePolicyRestoreStep_def Let_def when_applied_def sample_apply)
  have none: "find_quarantine ''acme'' (ref_id mac_ref) fresh_world = None" by (simp add: find_quarantine_def fresh_world_def)
  have policies: "fd_activePolicies quarantined_mac = [vpn_policy, base_policy]" by (simp add: quarantined_mac_def)
  have cfg: "own_prop isolate_cfg ''policyId'' = JStr ''q1''" by (simp add: isolate_cfg_def)
  have apple: "platformPathSegment (ref_platform mac_ref) = Some ''apple''"
      "device_url (orgBaseUrl (sv_mdm sample_step_env)) ''apple'' (ref_platformDeviceId mac_ref) = device_url ''base'' ''apple'' ''a1''"
      "sent (sw_mdm fresh_world) = []"
    by (simp_all add: mac_ref_def platformPathSegment_def sample_step_env_def sample_mdm_def fresh_world_def no_calls_def)
  obtain isolate restore where "sent (sw_mdm w2) =
      [ApiPut (device_url ''base'' ''apple'' ''a1'') isolate, ApiPut (device_url ''base'' ''apple'' ''a1'') restore]"
      "own_prop isolate ''policyId'' = JStr ''q1''" "written_stack ''apple'' [vpn_policy, base_policy] restore"
    using quarantine_restore_roundtrip [OF none sample_full(2) rep res] apple
    by (auto simp: policies cfg body_fields_def)
  then show ?thesis using sample_written [of restore] res by auto
qed

definition one_step_workflow :: workflow_row where
  "one_step_workflow = \<lparr>wf_id = ''w1'', wf_workspace = ''acme'', wf_name = ''Release'', wf_description = [],
     wf_steps = [\<lparr>step_id = ''s1'', step_type = ''policy_restore'', step_name = ''Restore'', config = JObj [],
        onSuccess = None, onFailure = None\<rparr>],
     wf_targetPlatform = None, wf_targetDeploymentModel = None,
     wf_recovery = \<lparr>rec_enabled = False, rec_policyId = None, rec_steps = []\<rparr>, wf_allowUnattendedDestructive = False\<rparr>"

definition saved_row :: quarantine_row where
  "saved_row = \<lparr>qr_workspace = ''acme'', qr_deviceId = ''d1'', qr_platform = ''apple'', qr_policies = [vpn_policy, base_policy],
     qr_workflowId = None\<rparr>"

definition saved_world :: step_world where
  "saved_world = fresh_world\<lparr>sw_quarantine := [saved_row]\<rparr>"

theorem saved_stack_never_lost_witness:
  "saved_row \<in> set (sw_quarantine (snd (runForDevice (step_engine sample_step_env ''acme'' one_step_workflow [''d1''] mac_ref)
      (wf_steps one_step_workflow) saved_world))) \<or>
   restored_to sample_step_env mac_ref saved_row (sw_mdm saved_world) (sw_mdm (snd (runForDevice
      (step_engine sample_step_env ''acme'' one_step_workflow [''d1''] mac_ref) (wf_steps one_step_workflow) saved_world)))"
  using saved_stack_never_lost [of saved_world saved_row sample_step_env "''acme''" one_step_workflow "[''d1'']" mac_ref
      "fst (runForDevice (step_engine sample_step_env ''acme'' one_step_workflow [''d1''] mac_ref) (wf_steps one_step_workflow) saved_world)"
      "snd (runForDevice (step_engine sample_step_env ''acme'' one_step_workflow [''d1''] mac_ref) (wf_steps one_step_workflow) saved_world)"]
  by (simp add: unique_stacks_def saved_world_def) blast

theorem run_stays_on_device_witness:
  "list_all (run_call sample_mdm mac_ref) (sent (sw_mdm (snd (runForDevice
      (step_engine sample_step_env ''acme'' one_step_workflow [''d1''] mac_ref) (wf_steps one_step_workflow) saved_world))))"
  using run_stays_on_device [of sample_step_env "''acme''" one_step_workflow "[''d1'']" mac_ref saved_world
      "fst (runForDevice (step_engine sample_step_env ''acme'' one_step_workflow [''d1''] mac_ref) (wf_steps one_step_workflow) saved_world)"
      "snd (runForDevice (step_engine sample_step_env ''acme'' one_step_workflow [''d1''] mac_ref) (wf_steps one_step_workflow) saved_world)"]
  by (auto simp: saved_world_def fresh_world_def no_calls_def) (simp add: sample_step_env_def)

end
