(* ===== verification/CaseLife.thy ===== *)
theory CaseLife
  imports Cases
begin

text \<open>
  The read side of the incident layer (the serialized case, the CSV export, the assignee roster), its two
  background jobs (\<open>modules/cases/caseJobs.ts\<close>: the SLA monitor and the ticket status sync), and the facts
  about cases as a whole: the invariant every handler and job keeps (\<open>case_reachable\<close>), the gate of the
  auto-run rules, the once-only SLA notices, and the CSV export read back by an RFC 4180 reader.
\<close>

section \<open>Reading cases\<close>

record case_view =
  cv_case :: case_row
  cv_notes :: "note_row list"
  cv_timeline :: "timeline_row list"
  cv_slaStatus :: "sla_status option"

definition serializeCase :: "int \<Rightarrow> case_row \<Rightarrow> (string \<times> sla_threshold) list option \<Rightarrow> case_db \<Rightarrow> case_view" where
  "serializeCase now k thresholds db =
     \<lparr>cv_case = k, cv_notes = filter (\<lambda>n. nt_caseId n = cs_id k) (case_notes db),
      cv_timeline = filter (\<lambda>t. tl_caseId t = cs_id k) (timeline db),
      cv_slaStatus = map_option (\<lambda>ths. caseSlaStatus now ths k) thresholds\<rparr>"

definition listCases :: "int \<Rightarrow> string \<Rightarrow> case_db \<Rightarrow> case_view list" where
  "listCases now workspaceSlug db =
     map (\<lambda>k. serializeCase now k (Some (sla_thresholds (getCaseSlaSettings workspaceSlug db))) db)
       (sort_key (\<lambda>k. - cs_createdAt k) (filter (\<lambda>k. cs_workspace k = workspaceSlug) (case_rows db)))"

definition getCase :: "int \<Rightarrow> string \<Rightarrow> string \<Rightarrow> case_db \<Rightarrow> case_view result" where
  "getCase now workspaceSlug caseId db =
     (case find_case workspaceSlug caseId db of
        None \<Rightarrow> throw 404 ''Case not found''
      | Some k \<Rightarrow> Inr (serializeCase now k (Some (sla_thresholds (getCaseSlaSettings workspaceSlug db))) db))"

definition CSV_HEADER :: "string list" where
  "CSV_HEADER = [''Created At'', ''Closed At'', ''Title'', ''Status'', ''Severity'', ''Source'', ''Device'',
     ''Assignee'', ''Policy'', ''Notes Count'']"

definition or_empty :: "string option \<Rightarrow> string" where
  "or_empty s = (case s of Some x \<Rightarrow> x | None \<Rightarrow> [])"

definition case_csv_row :: "case_db \<Rightarrow> case_row \<Rightarrow> string list" where
  "case_csv_row db c =
     [toISOString (cs_createdAt c), (case cs_closedAt c of Some t \<Rightarrow> toISOString t | None \<Rightarrow> []), cs_title c,
      cs_status c, cs_severity c, cs_source c, or_empty (cs_deviceName c), or_empty (cs_assignee c),
      or_empty (cs_policyName c), show_nat (length (filter (\<lambda>n. nt_caseId n = cs_id c) (case_notes db)))]"

definition case_csv_rows :: "string \<Rightarrow> case_db \<Rightarrow> string list list" where
  "case_csv_rows workspaceSlug db =
     CSV_HEADER # map (case_csv_row db)
       (sort_key cs_createdAt (filter (\<lambda>k. cs_workspace k = workspaceSlug) (case_rows db)))"

fun double_quotes :: "string \<Rightarrow> string" where
  "double_quotes [] = []"
| "double_quotes (c # cs) = (if c = CHR 0x22 then [c, c] else [c]) @ double_quotes cs"

definition csv_cell :: "string \<Rightarrow> string" where
  "csv_cell s = CHR 0x22 # double_quotes s @ [CHR 0x22]"

definition exportCasesCsv :: "string \<Rightarrow> case_db \<Rightarrow> string" where
  "exportCasesCsv workspaceSlug db =
     joinWith [CHR 0x0A] (map (\<lambda>r. joinWith '','' (map csv_cell r)) (case_csv_rows workspaceSlug db))"

text \<open>The roster of the last 500 audit entries: distinct actors, at most 20, newest first.\<close>

fun take_actors :: "string list \<Rightarrow> string list \<Rightarrow> string list" where
  "take_actors [] seen = seen"
| "take_actors (a # as) seen =
     (let seen' = (if a \<noteq> [] \<and> a \<noteq> ''system'' \<and> a \<notin> set seen then seen @ [a] else seen)
      in if 20 \<le> length seen' then seen' else take_actors as seen')"

definition caseAssigneeSuggestions :: "string \<Rightarrow> case_db \<Rightarrow> string list" where
  "caseAssigneeSuggestions workspaceSlug db =
     take_actors (map au_actor (take 500 (rev (filter (\<lambda>e. au_workspace e = workspaceSlug) (case_audit db))))) []"

section \<open>The SLA monitor\<close>

definition workspacesWithCases :: "case_db \<Rightarrow> string list" where
  "workspacesWithCases db = remdups (map cs_workspace (case_rows db))"

definition open_cases :: "string \<Rightarrow> case_db \<Rightarrow> case_row list" where
  "open_cases workspaceSlug db =
     filter (\<lambda>k. cs_workspace k = workspaceSlug \<and> isOpenCaseStatus (cs_status k)) (case_rows db)"

definition sla_notice :: "int \<Rightarrow> string \<Rightarrow> bool \<Rightarrow> string \<Rightarrow> string \<Rightarrow> string \<Rightarrow> (case_row \<Rightarrow> case_row) \<Rightarrow> case_row \<Rightarrow> case_db \<Rightarrow>
    case_db" where
  "sla_notice now workspaceSlug notify action kind entry stamp k db =
     (let db1 = case_event workspaceSlug action ''system'' k
                  (''Case '' @ quoted (cs_title k) @ '' ('' @ cs_severity k @ '') breached its '' @ kind @ '' SLA'')
                  (Some ''critical'')
                  (addCaseTimelineEntry (cs_id k) ''sla_breached'' entry None
                    (update_case (cs_id k) (\<lambda>r. (stamp r)\<lparr>cs_updatedAt := now\<rparr>) db))
      in db1\<lparr>case_effects := case_effects db1 @ (if notify then [SlaBreachSent (cs_id k) kind] else [])\<rparr>)"

definition sla_ack_check :: "int \<Rightarrow> string \<Rightarrow> sla_settings \<Rightarrow> case_row \<Rightarrow> case_db \<Rightarrow> case_db" where
  "sla_ack_check now workspaceSlug settings k db =
     (if ackBreached (caseSlaStatus now (sla_thresholds settings) k) \<and> cs_slaAckBreachNotifiedAt k = None then
        sla_notice now workspaceSlug (sla_notifyOnBreach settings) ''case_sla_ack_breached'' ''acknowledge''
          (''Acknowledge SLA breached '' @ em_dash @ '' no assignee or investigation started in time'')
          (\<lambda>r. r\<lparr>cs_slaAckBreachNotifiedAt := Some now\<rparr>) k db
      else db)"

definition sla_resolve_check :: "int \<Rightarrow> string \<Rightarrow> sla_settings \<Rightarrow> case_row \<Rightarrow> case_db \<Rightarrow> case_db" where
  "sla_resolve_check now workspaceSlug settings k db =
     (if resolveBreached (caseSlaStatus now (sla_thresholds settings) k) \<and> cs_slaResolveBreachNotifiedAt k = None then
        sla_notice now workspaceSlug (sla_notifyOnBreach settings) ''case_sla_resolve_breached'' ''resolve''
          (''Resolve SLA breached '' @ em_dash @ '' case still open past its due time'')
          (\<lambda>r. r\<lparr>cs_slaResolveBreachNotifiedAt := Some now\<rparr>) k db
      else db)"

definition sla_check :: "int \<Rightarrow> string \<Rightarrow> sla_settings \<Rightarrow> case_row \<Rightarrow> case_db \<Rightarrow> case_db" where
  "sla_check now workspaceSlug settings k db =
     sla_resolve_check now workspaceSlug settings k (sla_ack_check now workspaceSlug settings k db)"

definition sla_workspace :: "int \<Rightarrow> string \<Rightarrow> case_db \<Rightarrow> case_db" where
  "sla_workspace now workspaceSlug db =
     (let settings = getCaseSlaSettings workspaceSlug db
      in if sla_enabled settings then fold (sla_check now workspaceSlug settings) (open_cases workspaceSlug db) db else db)"

definition runCaseSlaMonitorTick :: "int \<Rightarrow> case_db \<Rightarrow> case_db" where
  "runCaseSlaMonitorTick now db = fold (sla_workspace now) (workspacesWithCases db) db"

section \<open>The ticket status sync\<close>

definition job_integrations :: "case_env \<Rightarrow> string \<Rightarrow> integration list" where
  "job_integrations env workspaceSlug = filter ig_enabled (ticketing_of env workspaceSlug)"

definition sync_case :: "case_env \<Rightarrow> int \<Rightarrow> string \<Rightarrow> integration list \<Rightarrow> case_row \<Rightarrow> case_db \<Rightarrow> case_db" where
  "sync_case env now workspaceSlug integrations k db =
     (if \<not> list_ex (\<lambda>r. integration_of_type integrations (er_type r) \<noteq> None) (cs_externalRefs k) then db
      else
        (let (updated, newlyResolved) = syncCaseTicketRefs env now integrations (cs_externalRefs k);
             db1 = update_case (cs_id k) (\<lambda>r. r\<lparr>cs_externalRefs := updated, cs_updatedAt := now\<rparr>) db
         in case newlyResolved of
              [] \<Rightarrow> db1
            | ref # _ \<Rightarrow>
                if auto_closes integrations (er_type ref) then
                  case_event workspaceSlug ''case_auto_resolved'' ''system'' k
                    (''Case '' @ quoted (cs_title k) @ '' auto-resolved '' @ em_dash @ '' l'' @ ticket_text ref @
                     '' was marked done externally'') None
                    (addCaseTimelineEntry (cs_id k) ''note_added''
                       (''Auto-resolved '' @ em_dash @ '' l'' @ ticket_text ref @ '' was marked done externally'') None
                       (update_case (cs_id k) (resolve_row now) db1))
                else addCaseTimelineEntry (cs_id k) ''note_added''
                       (''L'' @ ticket_text ref @ '' is now marked done externally'') None db1))"

definition sync_workspace :: "case_env \<Rightarrow> int \<Rightarrow> string \<Rightarrow> case_db \<Rightarrow> case_db" where
  "sync_workspace env now workspaceSlug db =
     (let integrations = job_integrations env workspaceSlug
      in if integrations = [] then db
         else fold (sync_case env now workspaceSlug integrations) (open_cases workspaceSlug db) db)"

definition runTicketStatusSyncTick :: "case_env \<Rightarrow> int \<Rightarrow> case_db \<Rightarrow> case_db" where
  "runTicketStatusSyncTick env now db =
     fold (sync_workspace env now) (remdups (map ig_workspace (ce_integrations env))) db"

section \<open>What every operation keeps of the cases\<close>

definition same_key :: "case_row \<Rightarrow> case_row \<Rightarrow> bool" where
  "same_key r r' \<longleftrightarrow> cs_id r' = cs_id r \<and> cs_workspace r' = cs_workspace r \<and> cs_policyId r' = cs_policyId r \<and>
     cs_deviceId r' = cs_deviceId r"

definition case_ok :: "case_row \<Rightarrow> bool" where
  "case_ok k \<longleftrightarrow> cs_status k \<in> set CASE_STATUSES \<and> (cs_closedAt k = None \<longleftrightarrow> isOpenCaseStatus (cs_status k))"

definition pair_of :: "case_row \<Rightarrow> string \<times> string option \<times> string option" where
  "pair_of k = (cs_workspace k, cs_policyId k, cs_deviceId k)"

definition policy_cases :: "case_row list \<Rightarrow> case_row list" where
  "policy_cases rs = filter (\<lambda>k. cs_policyId k \<noteq> None) rs"

definition case_inv :: "case_db \<Rightarrow> bool" where
  "case_inv db \<longleftrightarrow> list_all case_ok (case_rows db) \<and> distinct (map cs_id (case_rows db)) \<and>
     distinct (map pair_of (policy_cases (case_rows db)))"

named_theorems case_rows_of \<open>what a helper does to the rows of the case table\<close>

lemma rows_timeline [case_rows_of, simp]: "case_rows (addCaseTimelineEntry c ty m a db) = case_rows db"
  by (simp add: addCaseTimelineEntry_def)

lemma rows_event [case_rows_of, simp]: "case_rows (case_event ws ac a k m s db) = case_rows db"
  by (simp add: case_event_def)

lemma rows_rule_event [case_rows_of, simp]: "case_rows (rule_event ws ac a i n v s db) = case_rows db"
  by (simp add: rule_event_def)

lemma rows_entries [case_rows_of, simp]: "case_rows (write_entries c a es db) = case_rows db"
  unfolding write_entries_def by (induction es arbitrary: db) (auto split: prod.splits)

lemma rows_note [case_rows_of, simp]: "case_rows (add_note c a t db) = case_rows db"
  by (simp add: add_note_def)

lemma rows_update [case_rows_of, simp]:
  "case_rows (update_case c f db) = upd_where (\<lambda>k. cs_id k = c) f (case_rows db)"
  by (simp add: update_case_def)

lemma rows_insert [case_rows_of, simp]: "case_rows (insert_case k db) = case_rows db @ [k]"
  by (simp add: insert_case_def)

lemma case_inv_cong: "case_rows db' = case_rows db \<Longrightarrow> case_inv db \<Longrightarrow> case_inv db'"
  by (simp add: case_inv_def)

lemma policy_cases_upd:
  assumes "\<And>r. p r \<Longrightarrow> same_key r (f r)"
  shows "map pair_of (policy_cases (upd_where p f rs)) = map pair_of (policy_cases rs)"
  using assms by (induction rs) (auto simp: policy_cases_def pair_of_def same_key_def)

lemma upd_where_restrict:
  "(\<And>r. r \<in> set rs \<Longrightarrow> p r \<Longrightarrow> f r = g r) \<Longrightarrow> upd_where p f rs = upd_where p g rs"
  by (induction rs) auto

lemma case_inv_update:
  assumes "case_inv db" and "\<And>r. cs_id r = c \<Longrightarrow> same_key r (f r)"
    and "\<And>r. r \<in> set (case_rows db) \<Longrightarrow> cs_id r = c \<Longrightarrow> case_ok r \<Longrightarrow> case_ok (f r)"
  shows "case_inv (update_case c f db)"
proof -
  have ids: "map cs_id (upd_where (\<lambda>k. cs_id k = c) f (case_rows db)) = map cs_id (case_rows db)"
    using assms(2) by (intro map_upd_where) (auto simp: same_key_def)
  have "list_all case_ok (upd_where (\<lambda>k. cs_id k = c) f (case_rows db))"
    using assms(1,3) by (auto simp: case_inv_def list_all_iff set_upd_where)
  then show ?thesis
    using assms(1,2) by (simp add: case_inv_def ids policy_cases_upd)
qed

lemma case_inv_insert:
  assumes "case_inv db" "case_ok k" "cs_id k \<notin> cs_id ` set (case_rows db)"
    "cs_policyId k = None \<or> pair_of k \<notin> pair_of ` set (case_rows db)"
  shows "case_inv (insert_case k db)"
  using assms by (auto simp: case_inv_def policy_cases_def)

text \<open>The steps that leave the key, the status and the closing date of every row alone.\<close>

definition row_view :: "case_row \<Rightarrow> string \<times> (string \<times> string option \<times> string option) \<times> string \<times> int option" where
  "row_view k = (cs_id k, pair_of k, cs_status k, cs_closedAt k)"

definition mild_step :: "case_db \<Rightarrow> case_db \<Rightarrow> bool" where
  "mild_step db db' \<longleftrightarrow> map row_view (case_rows db') = map row_view (case_rows db)"

lemma case_inv_view:
  "case_inv db \<longleftrightarrow>
     (let vs = map row_view (case_rows db)
      in list_all (\<lambda>(_, _, st, cl). st \<in> set CASE_STATUSES \<and> (cl = None \<longleftrightarrow> isOpenCaseStatus st)) vs \<and>
         distinct (map fst vs) \<and> distinct (map (\<lambda>v. fst (snd v)) (filter (\<lambda>v. fst (snd (fst (snd v))) \<noteq> None) vs)))"
  by (simp add: case_inv_def case_ok_def [abs_def] row_view_def policy_cases_def pair_of_def [abs_def] list.pred_map
      filter_map o_def)

lemma case_inv_mild: "mild_step db db' \<Longrightarrow> case_inv db \<Longrightarrow> case_inv db'"
  by (simp add: case_inv_view mild_step_def)

lemma mild_step_refl [simp, intro]: "mild_step db db"
  by (simp add: mild_step_def)

lemma mild_step_trans [trans]: "mild_step a b \<Longrightarrow> mild_step b c \<Longrightarrow> mild_step a c"
  by (simp add: mild_step_def)

lemma mild_step_rows: "case_rows db' = case_rows db \<Longrightarrow> mild_step db db'"
  by (simp add: mild_step_def)

lemma mild_step_update: "(\<And>r. row_view (f r) = row_view r) \<Longrightarrow> mild_step db (update_case c f db)"
  by (simp add: mild_step_def map_upd_where)

lemma mild_step_of_rows: "mild_step db db1 \<Longrightarrow> case_rows db2 = case_rows db1 \<Longrightarrow> mild_step db db2"
  by (simp add: mild_step_def)

lemma rows_fold_entries [case_rows_of, simp]:
  "case_rows (fold (\<lambda>x. addCaseTimelineEntry c ty (m x) a) xs db) = case_rows db"
  by (induction xs arbitrary: db) auto

lemma mild_dispatch: "mild_step db (dispatchAndAttachCaseEvent env now c ev db)"
  unfolding dispatchAndAttachCaseEvent_def attachExternalRefs_def Let_def
  by (auto simp: mild_step_def row_view_def pair_of_def map_upd_where split: option.splits)

lemma rows_enrich: "enrich_candidates env c iocs checked added db = (a, db') \<Longrightarrow> case_rows db' = case_rows db"
  by (induction env c iocs checked added db rule: enrich_candidates.induct)
    (auto split: if_splits sum.splits)

lemma mild_enrich: "mild_step db (autoEnrichCaseFromText env now ws c txt db)"
  unfolding autoEnrichCaseFromText_def Let_def
  by (auto simp: mild_step_def row_view_def pair_of_def map_upd_where dest!: rows_enrich split: option.splits prod.splits)

lemma rows_launch: "launch_for_case now i w d ws db = (v, db') \<Longrightarrow> case_rows db' = case_rows db"
  by (auto simp: launch_for_case_def split: prod.splits)

lemma rows_fire: "case_rows (snd (fire_rule env now i ws k d r db)) = case_rows db"
  unfolding fire_rule_def Let_def
  by (auto dest!: rows_launch split: option.splits sum.splits prod.splits)

lemma rows_autorun: "case_rows (snd (tryCaseAutorun env now i ws k auth db)) = case_rows db"
  unfolding tryCaseAutorun_def by (auto simp: rows_fire split: option.splits)

lemma mild_link: "mild_step db (link_run now c i db)"
  unfolding link_run_def by (rule mild_step_update) (simp add: row_view_def pair_of_def)

lemma mild_autorun: "mild_step db (autorun_new_case env now i ws c auth db)"
proof (cases "case_by_id c db")
  case (Some k)
  obtain res db1 where attempt: "tryCaseAutorun env now i ws k auth db = (res, db1)"
    by (cases "tryCaseAutorun env now i ws k auth db")
  then have db1: "mild_step db db1"
    using rows_autorun [of env now i ws k auth db] by (simp add: mild_step_rows)
  have "mild_step db (addCaseTimelineEntry c t m a (link_run now c j db1))" for t m a j
    by (rule mild_step_of_rows [OF mild_step_trans [OF db1 mild_link]]) simp
  then show ?thesis
    using Some attempt db1 by (simp add: autorun_new_case_def split: sum.split option.split)
qed (simp add: autorun_new_case_def)

lemma case_inv_rows: "case_rows db' = case_rows db \<Longrightarrow> case_inv db \<Longrightarrow> case_inv db'"
  by (rule case_inv_mild [OF mild_step_rows])

lemma case_inv_simps [simp]:
  "case_inv (addCaseTimelineEntry c ty m a db) \<longleftrightarrow> case_inv db"
  "case_inv (case_event ws ac who k m s db) \<longleftrightarrow> case_inv db"
  "case_inv (rule_event ws ac who i n v s db) \<longleftrightarrow> case_inv db"
  "case_inv (add_note c who t db) \<longleftrightarrow> case_inv db"
  "case_inv (write_entries c who es db) \<longleftrightarrow> case_inv db"
  "case_inv (db\<lparr>case_effects := effs\<rparr>) \<longleftrightarrow> case_inv db"
  "case_inv (db\<lparr>autoRules := rs\<rparr>) \<longleftrightarrow> case_inv db"
  by (simp_all add: case_inv_def)

lemma find_case_SomeD:
  "find_case ws c db = Some k \<Longrightarrow> k \<in> set (case_rows db) \<and> cs_workspace k = ws \<and> cs_id k = c"
  unfolding find_case_def by (drule find_Some_in) simp

lemma case_unique: "case_inv db \<Longrightarrow> k \<in> set (case_rows db) \<Longrightarrow> r \<in> set (case_rows db) \<Longrightarrow> cs_id r = cs_id k \<Longrightarrow> r = k"
  by (auto simp: case_inv_def distinct_map dest: inj_onD)

definition fresh_case :: "string \<Rightarrow> case_db \<Rightarrow> bool" where
  "fresh_case c db \<longleftrightarrow> c \<notin> cs_id ` set (case_rows db)"

lemma new_case_ok: "case_ok (new_case c ws now)"
  by (simp add: case_ok_def new_case_def CASE_STATUSES_def isOpenCaseStatus_def CASE_OPEN_STATUSES_def)

lemma open_ok: "cs_status k = ''open'' \<Longrightarrow> cs_closedAt k = None \<Longrightarrow> case_ok k"
  by (simp add: case_ok_def CASE_STATUSES_def isOpenCaseStatus_def CASE_OPEN_STATUSES_def)

lemma resolved_ok: "case_ok (resolve_row now r)"
  by (simp add: resolve_row_def case_ok_def CASE_STATUSES_def isOpenCaseStatus_def CASE_OPEN_STATUSES_def)

lemma resolve_same_key: "same_key r (resolve_row now r)"
  by (simp add: resolve_row_def same_key_def)

lemma createCase_inv:
  assumes "case_inv db" "fresh_case newId db"
  shows "case_inv (snd (createCase env now newId i ws payload actor auth db))"
proof (cases "cc_severity payload \<in> set CASE_SEVERITIES")
  case True
  let ?k = "(new_case newId ws now)\<lparr>cs_title := cc_title payload, cs_severity := cc_severity payload,
      cs_source := ''manual'', cs_deviceId := cc_deviceId payload, cs_deviceName := cc_deviceName payload,
      cs_createdBy := Some actor, cs_mitreTechniques := filter isKnownMitreTechnique (cc_mitreTechniques payload)\<rparr>"
  have "case_inv (insert_case ?k db)"
    by (rule case_inv_insert) (use assms in \<open>simp_all add: open_ok new_case_def fresh_case_def\<close>)
  then show ?thesis
    using True unfolding createCase_def Let_def
    by (auto intro!: case_inv_mild [OF mild_autorun] case_inv_mild [OF mild_enrich] case_inv_mild [OF mild_dispatch]
        simp del: list.set)
qed (simp add: createCase_def assms)

text \<open>What the stages of an update do to the status, the closing date and the key of the row.\<close>

lemma plan_stages [simp]:
  "cs_status (up_row (plan_severity k payload p) r) = cs_status (up_row p r)"
  "cs_closedAt (up_row (plan_severity k payload p) r) = cs_closedAt (up_row p r)"
  "same_key r' (up_row (plan_severity k payload p) r) = same_key r' (up_row p r)"
  "cs_status (up_row (plan_assignee now k payload p) r) = cs_status (up_row p r)"
  "cs_closedAt (up_row (plan_assignee now k payload p) r) = cs_closedAt (up_row p r)"
  "same_key r' (up_row (plan_assignee now k payload p) r) = same_key r' (up_row p r)"
  "cs_status (up_row (plan_mitre actor k payload p) r) = cs_status (up_row p r)"
  "cs_closedAt (up_row (plan_mitre actor k payload p) r) = cs_closedAt (up_row p r)"
  "same_key r' (up_row (plan_mitre actor k payload p) r) = same_key r' (up_row p r)"
  by (simp_all add: plan_severity_def plan_assignee_def plan_mitre_def same_key_def Let_def split: option.split)

lemma plan_start [simp]:
  "cs_status (plan_title payload r) = cs_status r" "cs_closedAt (plan_title payload r) = cs_closedAt r"
  "same_key r (plan_title payload r)"
  by (simp_all add: plan_title_def same_key_def split: option.split)

lemma case_plan_row [simp]:
  "cs_status (up_row (case_plan now actor k payload) r) = cs_status r"
  "cs_closedAt (up_row (case_plan now actor k payload) r) = cs_closedAt r"
  "same_key r (up_row (case_plan now actor k payload) r)"
  by (simp_all add: case_plan_def)

definition new_status :: "case_update \<Rightarrow> case_row \<Rightarrow> string" where
  "new_status payload k = (case cu_status payload of Some s \<Rightarrow> s | None \<Rightarrow> cs_status k)"

lemma plan_status_row:
  "same_key r' (up_row (plan_status now k payload p) r) = same_key r' (up_row p r)"
  "cs_status (up_row p k) = cs_status k \<Longrightarrow>
     cs_status (up_row (plan_status now k payload p) k) = new_status payload k"
  "cs_closedAt (up_row (plan_status now k payload p) r) =
     (if isOpenCaseStatus (new_status payload k) = isOpenCaseStatus (cs_status k) then cs_closedAt (up_row p r)
      else if isOpenCaseStatus (new_status payload k) then None else Some now)"
  by (auto simp: plan_status_def new_status_def same_key_def Let_def split: option.split)

lemma apply_plan_row [simp]:
  "cs_status (apply_plan now q r) = cs_status (up_row q r)"
  "cs_closedAt (apply_plan now q r) = cs_closedAt (up_row q r)"
  "same_key r' (apply_plan now q r) = same_key r' (up_row q r)"
  by (simp_all add: apply_plan_def same_key_def Let_def split: option.split)

lemma plan_row_key:
  "same_key r (apply_plan now (plan_status now k payload (case_plan now actor k payload)) r)"
  by (simp add: plan_status_row)

lemma plan_row_status:
  assumes "case_ok r" "\<not> invalid_choice (cu_status payload) (cs_status r) CASE_STATUSES"
  shows "case_ok (apply_plan now (plan_status now r payload (case_plan now actor r payload)) r)"
proof -
  have "new_status payload r \<in> set CASE_STATUSES"
    using assms by (auto simp: new_status_def invalid_choice_def case_ok_def split: option.splits)
  then show ?thesis
    using assms(1) by (auto simp: case_ok_def plan_status_row)
qed

lemma mild_notify: "mild_step db (notify_update env now ws k ev auth db)"
  unfolding notify_update_def Let_def
  by (auto split: option.splits intro: mild_step_of_rows [OF mild_dispatch])

lemma updateCase_inv:
  assumes "case_inv db"
  shows "case_inv (snd (updateCase env now ws c payload actor auth db))"
proof (cases "find_case ws c db")
  case (Some k)
  note k = find_case_SomeD [OF Some]
  let ?q = "plan_status now k payload (case_plan now actor k payload)"
  have "case_inv (update_case c (apply_plan now ?q) db1)"
    if "case_rows db1 = case_rows db" "\<not> invalid_choice (cu_status payload) (cs_status k) CASE_STATUSES" for db1
  proof (rule case_inv_update)
    show "case_inv db1" using that assms case_inv_rows by blast
    show "case_ok (apply_plan now ?q r)" if "r \<in> set (case_rows db1)" "cs_id r = c" "case_ok r" for r
      using case_unique [OF assms] k that \<open>case_rows db1 = case_rows db\<close> plan_row_status
        \<open>\<not> invalid_choice _ _ _\<close> by metis
  qed (rule plan_row_key)
  then show ?thesis
    using Some assms unfolding updateCase_def Let_def
    by (auto intro!: case_inv_mild [OF mild_notify])
qed (simp add: updateCase_def assms)

lemma bulk_inv: "case_inv db \<Longrightarrow> bulk_update env now ws cids payload actor auth db = (oks, failed, db') \<Longrightarrow> case_inv db'"
proof (induction cids arbitrary: db oks failed)
  case (Cons c cids)
  obtain r db1 where up: "updateCase env now ws c payload actor auth db = (r, db1)"
    by (cases "updateCase env now ws c payload actor auth db")
  then have "case_inv db1"
    using updateCase_inv [OF Cons.prems(1)] by (metis snd_conv)
  then show ?case
    using Cons up by (auto split: prod.splits sum.splits)
qed simp

lemma bulkUpdateCases_inv: "case_inv db \<Longrightarrow> case_inv (snd (bulkUpdateCases env now ws cids st who actor auth db))"
  unfolding bulkUpdateCases_def by (auto split: prod.splits intro: bulk_inv)

lemma mild_touch: "mild_step db (touch now c db)"
  unfolding touch_def by (rule mild_step_update) (simp add: row_view_def pair_of_def)

lemma runWorkflowFromCase_inv:
  assumes "case_inv db"
  shows "case_inv (snd (runWorkflowFromCase env now i ws c wid actor sa can db))"
proof -
  have "case_inv db1" if "launch_for_case now i w d ws db = (v, db1)" for w d v db1
    using rows_launch [OF that] assms by (rule case_inv_rows)
  then show ?thesis
    unfolding runWorkflowFromCase_def
    by (auto simp: assms intro: case_inv_mild [OF mild_link] split: option.splits sum.splits prod.splits)
qed

lemma retryCaseIntegrations_inv:
  assumes "case_inv db"
  shows "case_inv (snd (retryCaseIntegrations env now ws c actor db))"
  unfolding retryCaseIntegrations_def
  by (auto simp: assms intro!: case_inv_mild [OF mild_touch] case_inv_mild [OF mild_dispatch] split: option.splits)

lemma case_inv_refs:
  "case_inv db \<Longrightarrow> case_inv (update_case c (\<lambda>r. r\<lparr>cs_externalRefs := refs, cs_updatedAt := now\<rparr>) db)"
  by (rule case_inv_mild [OF mild_step_update]) (simp_all add: row_view_def pair_of_def)

lemma case_inv_resolve:
  assumes "case_inv db" "\<And>r. same_key r (f r)"
  shows "case_inv (update_case c (\<lambda>r. resolve_row now (f r)) db)"
proof (rule case_inv_update)
  show "same_key r (resolve_row now (f r))" for r
    using assms(2) by (simp add: same_key_def resolve_row_def)
qed (simp_all add: assms resolved_ok)

lemma syncCaseTicketStatus_inv:
  assumes "case_inv db"
  shows "case_inv (snd (syncCaseTicketStatus env now ws c actor db))"
  unfolding syncCaseTicketStatus_def Let_def
  by (auto simp: assms case_inv_refs same_key_def intro!: case_inv_resolve split: option.split prod.split list.split)

lemma addCaseNote_inv: "case_inv db \<Longrightarrow> case_inv (snd (addCaseNote env now ws c txt actor db))"
  unfolding addCaseNote_def
  by (auto intro!: case_inv_mild [OF mild_enrich] case_inv_mild [OF mild_touch] split: option.split)

lemma enrichCase_inv:
  assumes "case_inv db"
  shows "case_inv (snd (enrichCase env now ws c v force actor db))"
proof -
  have "case_inv (update_case c (\<lambda>r. r\<lparr>cs_threatIntel := xs, cs_updatedAt := now\<rparr>) db)" for xs
    by (rule case_inv_mild [OF mild_step_update assms]) (simp add: row_view_def pair_of_def)
  then show ?thesis
    unfolding enrichCase_def Let_def by (auto simp: assms split: option.split sum.split)
qed

lemma rules_inv:
  assumes "case_inv db"
  shows "case_inv (snd (createCaseAutoRunRule env i ws p actor db))"
    "case_inv (snd (updateCaseAutoRunRule env ws i p actor db))"
    "case_inv (snd (deleteCaseAutoRunRule ws i actor db))"
  unfolding createCaseAutoRunRule_def updateCaseAutoRunRule_def deleteCaseAutoRunRule_def Let_def
  by (auto simp: assms split: sum.split option.split)

lemma updateCaseSlaSettings_inv: "case_inv db \<Longrightarrow> case_inv (snd (updateCaseSlaSettings ws s actor db))"
  by (rule case_inv_rows) (simp_all add: updateCaseSlaSettings_def Let_def)

lemma latest_SomeD: "latest p db = Some k \<Longrightarrow> k \<in> set (case_rows db) \<and> p k"
proof -
  let ?ks = "sort_key (\<lambda>k. - cs_updatedAt k) (filter p (case_rows db))"
  assume "latest p db = Some k"
  then have "k \<in> set ?ks"
    unfolding latest_def by (cases ?ks) simp_all
  then show ?thesis unfolding set_sort by simp
qed

lemma latest_None: "latest p db = None \<longleftrightarrow> (\<forall>k\<in>set (case_rows db). \<not> p k)"
proof -
  let ?ks = "sort_key (\<lambda>k. - cs_updatedAt k) (filter p (case_rows db))"
  have "latest p db = None \<longleftrightarrow> ?ks = []"
    unfolding latest_def by (cases ?ks) simp_all
  also have "\<dots> \<longleftrightarrow> set ?ks = {}" by (simp only: set_empty)
  finally show ?thesis unfolding set_sort by auto
qed

lemma upsertCaseForViolation_inv:
  assumes "case_inv db" "fresh_case newId db"
  shows "case_inv (snd (upsertCaseForViolation newId now ws policy device sgm vid db))"
proof -
  let ?pair = "pair_case ws (cp_id policy) (ref_id device)"
  have link: "case_inv (update_case c (\<lambda>r. r\<lparr>cs_violationIds := cs_violationIds r @ [vid], cs_updatedAt := now\<rparr>) db)" for c
    by (rule case_inv_mild [OF mild_step_update assms(1)]) (simp add: row_view_def pair_of_def)
  have reopen: "case_inv (update_case c (reopen_row now policy vid) db)" for c
    by (rule case_inv_update) (simp_all add: assms open_ok reopen_row_def same_key_def)
  have "case_inv (insert_case (violation_case newId now ws policy device sgm vid) db)"
    if "List.find (\<lambda>k. ?pair k \<and> isOpenCaseStatus (cs_status k)) (case_rows db) = None"
      "latest (\<lambda>k. ?pair k \<and> \<not> isOpenCaseStatus (cs_status k)) db = None"
  proof (rule case_inv_insert)
    have "\<forall>k\<in>set (case_rows db). \<not> ?pair k"
      using that unfolding find_None_all latest_None by blast
    then show "cs_policyId (violation_case newId now ws policy device sgm vid) = None \<or>
        pair_of (violation_case newId now ws policy device sgm vid) \<notin> pair_of ` set (case_rows db)"
      by (auto simp: violation_case_def pair_case_def pair_of_def new_case_def)
  qed (use assms in \<open>simp_all add: open_ok violation_case_def new_case_def fresh_case_def\<close>)
  then show ?thesis
    using link reopen unfolding upsertCaseForViolation_def Let_def by (auto split: option.split)
qed

lemma markCaseRecovered_inv: "case_inv db \<Longrightarrow> case_inv (snd (markCaseRecovered now ws vid auto db))"
  unfolding markCaseRecovered_def Let_def
  by (auto intro!: case_inv_mild [OF mild_touch] case_inv_resolve [where f = "\<lambda>r. r"] simp: same_key_def split: option.split)

lemma openCaseForTrigger_inv:
  assumes "case_inv db" "fresh_case newId db"
  shows "case_inv (snd (openCaseForTrigger env now newId ws tn wn rid sev matched db))"
proof -
  have "case_inv (insert_case k db)" if "cs_id k = newId" "cs_policyId k = None" "cs_status k = ''open''" "cs_closedAt k = None" for k
    by (rule case_inv_insert) (use assms that in \<open>auto simp: open_ok fresh_case_def\<close>)
  then show ?thesis
    unfolding openCaseForTrigger_def Let_def
    by (auto intro!: case_inv_mild [OF mild_dispatch] simp: new_case_def)
qed

text \<open>The jobs.\<close>

lemma fold_inv: "(\<And>x db. x \<in> set xs \<Longrightarrow> P db \<Longrightarrow> P (f x db)) \<Longrightarrow> P db \<Longrightarrow> P (fold f xs db)"
  by (induction xs arbitrary: db) auto

lemma case_inv_same_view:
  "case_inv db \<Longrightarrow> (\<And>r. row_view (f r) = row_view r) \<Longrightarrow> case_inv (update_case c f db)"
  by (rule case_inv_mild [OF mild_step_update])

lemma sla_notice_inv:
  "case_inv db \<Longrightarrow> (\<And>r. row_view ((stamp r)\<lparr>cs_updatedAt := now\<rparr>) = row_view r) \<Longrightarrow>
   case_inv (sla_notice now ws notify ac kind entry stamp k db)"
  by (simp add: sla_notice_def Let_def case_inv_same_view)

lemma sla_check_inv: "case_inv db \<Longrightarrow> case_inv (sla_check now ws s k db)"
proof -
  have "case_inv (sla_ack_check now ws s k db)" if "case_inv db" for db
    unfolding sla_ack_check_def using that by (simp add: sla_notice_inv row_view_def pair_of_def)
  moreover have "case_inv (sla_resolve_check now ws s k db)" if "case_inv db" for db
    unfolding sla_resolve_check_def using that by (simp add: sla_notice_inv row_view_def pair_of_def)
  ultimately show "case_inv db \<Longrightarrow> case_inv (sla_check now ws s k db)"
    by (simp add: sla_check_def)
qed

lemma slaTick_inv:
  assumes "case_inv db"
  shows "case_inv (runCaseSlaMonitorTick now db)"
proof -
  have "case_inv (sla_workspace now ws db)" if "case_inv db" for ws db
    unfolding sla_workspace_def Let_def
    using that by (simp add: fold_inv [where P = case_inv] sla_check_inv)
  then show ?thesis
    unfolding runCaseSlaMonitorTick_def using assms by (rule fold_inv [where P = case_inv])
qed

lemma sync_case_inv:
  assumes "case_inv db"
  shows "case_inv (sync_case env now ws igs k db)"
proof -
  have refs: "case_inv (update_case c (\<lambda>r. r\<lparr>cs_externalRefs := refs, cs_updatedAt := now\<rparr>) db)" for c refs
    by (rule case_inv_refs [OF assms])
  moreover have "case_inv (update_case c (resolve_row now)
      (update_case c (\<lambda>r. r\<lparr>cs_externalRefs := refs, cs_updatedAt := now\<rparr>) db))" for c refs
    by (rule case_inv_resolve [OF refs]) (simp add: same_key_def)
  ultimately show ?thesis
    using assms by (simp add: sync_case_def Let_def split: prod.split list.split)
qed

lemma syncTick_inv:
  assumes "case_inv db"
  shows "case_inv (runTicketStatusSyncTick env now db)"
proof -
  have "case_inv (sync_workspace env now ws db)" if "case_inv db" for ws db
    unfolding sync_workspace_def Let_def
    using that by (simp add: fold_inv [where P = case_inv] sync_case_inv)
  then show ?thesis
    unfolding runTicketStatusSyncTick_def using assms by (rule fold_inv [where P = case_inv])
qed

section \<open>Reachable case tables\<close>

text \<open>
  One handler or job run to its end. A new row has an id no row has (\<open>uuid()\<close>). Handlers that interleave
  between their reads and writes are not in this relation.
\<close>

inductive case_step :: "case_db \<Rightarrow> case_db \<Rightarrow> bool" where
  create: "fresh_case newId db \<Longrightarrow> case_step db (snd (createCase env now newId runId ws payload actor auth db))"
| update: "case_step db (snd (updateCase env now ws caseId change actor auth db))"
| bulk: "case_step db (snd (bulkUpdateCases env now ws caseIds st assignee actor auth db))"
| run: "case_step db (snd (runWorkflowFromCase env now runId ws caseId wid actor superAdmin can db))"
| retry: "case_step db (snd (retryCaseIntegrations env now ws caseId actor db))"
| sync: "case_step db (snd (syncCaseTicketStatus env now ws caseId actor db))"
| note_added: "case_step db (snd (addCaseNote env now ws caseId txt actor db))"
| enrich: "case_step db (snd (enrichCase env now ws caseId ioc force actor db))"
| violation: "fresh_case newId db \<Longrightarrow>
    case_step db (snd (upsertCaseForViolation newId now ws policy device segmentId vid db))"
| recovered: "case_step db (snd (markCaseRecovered now ws violation auto db))"
| trigger: "fresh_case newId db \<Longrightarrow>
    case_step db (snd (openCaseForTrigger env now newId ws triggerName workflowName runId severity matched db))"
| rule_create: "case_step db (snd (createCaseAutoRunRule env ruleId ws rule actor db))"
| rule_update: "case_step db (snd (updateCaseAutoRunRule env ws ruleId rule actor db))"
| rule_delete: "case_step db (snd (deleteCaseAutoRunRule ws ruleId actor db))"
| sla_settings: "case_step db (snd (updateCaseSlaSettings ws settings actor db))"
| sla_tick: "case_step db (runCaseSlaMonitorTick now db)"
| sync_tick: "case_step db (runTicketStatusSyncTick env now db)"

inductive case_reachable :: "case_db \<Rightarrow> bool" where
  init: "case_rows db = [] \<Longrightarrow> case_reachable db"
| step: "case_reachable db \<Longrightarrow> case_step db db' \<Longrightarrow> case_reachable db'"

lemmas case_ops_inv = createCase_inv updateCase_inv bulkUpdateCases_inv runWorkflowFromCase_inv
  retryCaseIntegrations_inv syncCaseTicketStatus_inv addCaseNote_inv enrichCase_inv upsertCaseForViolation_inv
  markCaseRecovered_inv openCaseForTrigger_inv rules_inv updateCaseSlaSettings_inv slaTick_inv syncTick_inv

lemma case_step_inv: "case_step db db' \<Longrightarrow> case_inv db \<Longrightarrow> case_inv db'"
  by (induction rule: case_step.induct) (simp_all add: case_ops_inv)

lemma case_reachable_inv: "case_reachable db \<Longrightarrow> case_inv db"
proof (induction rule: case_reachable.induct)
  case (init db)
  then show ?case by (simp add: case_inv_def policy_cases_def)
qed (rule case_step_inv)

lemma pair_distinct:
  assumes "case_inv db" "k \<in> set (case_rows db)" "k' \<in> set (case_rows db)" "cs_policyId k \<noteq> None" "pair_of k = pair_of k'"
  shows "k = k'"
proof -
  have "k \<in> set (policy_cases (case_rows db))" "k' \<in> set (policy_cases (case_rows db))"
    using assms by (auto simp: policy_cases_def pair_of_def)
  then show ?thesis
    using assms(1,5) by (auto simp: case_inv_def distinct_map dest: inj_onD)
qed

definition empty_case_db :: case_db where
  "empty_case_db = \<lparr>case_rows = [], timeline = [], case_notes = [], slaTable = [], autoRules = [], case_audit = [],
     case_effects = [], case_runs = \<lparr>run_tables = \<lparr>runs = [], results = [], pendings = []\<rparr>, activeRuns = []\<rparr>, case_jobs = []\<rparr>"

definition sample_policy :: case_policy where
  "sample_policy = \<lparr>cp_id = ''p1'', cp_name = ''Disk encrypted'', cp_severity = Some ''high'', cp_mitreTechniques = [],
     cp_caseAssignee = None\<rparr>"

text \<open>
  C4: However the handlers and jobs of the incident layer follow each other, every case has one of the five
  statuses, has a closing date exactly when its status is not an open one, no two cases share an id, and there
  is at most one case for a policy and a device, however often the violation recurs.
\<close>

theorem case_lifecycle_invariant:
  assumes "case_reachable db" "k \<in> set (case_rows db)"
  shows "cs_status k \<in> set CASE_STATUSES \<and> (cs_closedAt k = None \<longleftrightarrow> isOpenCaseStatus (cs_status k)) \<and>
    (\<forall>k'\<in>set (case_rows db). cs_id k' = cs_id k \<or> cs_policyId k \<noteq> None \<and> pair_of k' = pair_of k \<longrightarrow> k' = k)"
proof (intro conjI ballI impI)
  note inv = case_reachable_inv [OF assms(1)]
  then show "cs_status k \<in> set CASE_STATUSES" "cs_closedAt k = None \<longleftrightarrow> isOpenCaseStatus (cs_status k)"
    using assms(2) by (simp_all add: case_inv_def list_all_iff case_ok_def)
  show "k' = k" if "k' \<in> set (case_rows db)" "cs_id k' = cs_id k \<or> cs_policyId k \<noteq> None \<and> pair_of k' = pair_of k" for k'
    using that case_unique [OF inv assms(2) that(1)] pair_distinct [OF inv assms(2) that(1)] by auto
qed

definition sample_case_db :: case_db where
  "sample_case_db = snd (upsertCaseForViolation ''c1'' 0 ''w'' sample_policy sample_device None ''v1'' empty_case_db)"

lemma sample_case_rows:
  "case_rows sample_case_db = [violation_case ''c1'' 0 ''w'' sample_policy sample_device None ''v1'']"
  by (simp add: sample_case_db_def upsertCaseForViolation_def empty_case_db_def latest_def)

lemma sample_case_reachable: "case_reachable sample_case_db"
  unfolding sample_case_db_def
  by (rule case_reachable.step [OF case_reachable.init case_step.violation])
    (simp_all add: empty_case_db_def fresh_case_def)

theorem case_lifecycle_invariant_witness:
  "isOpenCaseStatus (cs_status (hd (case_rows sample_case_db))) \<and> cs_closedAt (hd (case_rows sample_case_db)) = None"
  using case_lifecycle_invariant [OF sample_case_reachable, of "hd (case_rows sample_case_db)"]
  by (simp add: sample_case_rows violation_case_def new_case_def)

section \<open>The gate of the auto-run rules\<close>

definition deciding_rule :: "string \<Rightarrow> case_row \<Rightarrow> case_db \<Rightarrow> autorun_rule option" where
  "deciding_rule ws k db = List.find (rule_matches k) (listCaseAutoRunRules ws db)"

text \<open>The rules after a call: the launching rule has the fire recorded, nothing else changed.\<close>

definition with_fire :: "int \<Rightarrow> autorun_rule \<Rightarrow> autorun_rule list \<Rightarrow> autorun_rule list" where
  "with_fire now r rs = upd_where (\<lambda>x. ar_rule_id x = ar_rule_id r)
     (\<lambda>x. x\<lparr>ar_recentFires := last_n 200 (fires_since (now - 3600000) r @ [now])\<rparr>) rs"

lemma launch_db: "launch_for_case now i w d ws db = (v, db1) \<Longrightarrow> autoRules db1 = autoRules db"
  by (auto simp: launch_for_case_def split: prod.splits)

lemma runView_exists: "list_ex (\<lambda>r. run_id r = i) (runs db) \<Longrightarrow> \<exists>v. runView i db = Some v"
  by (cases "find_run i db") (auto simp: runView_def find_run_def find_None_all list_ex_iff Let_def)

lemma launch_some: "launch_for_case now i w d ws db = (v, db1) \<Longrightarrow> v \<noteq> None"
  by (auto simp: launch_for_case_def launchWorkflowRun_def Let_def runView_exists split: prod.splits if_splits)

lemma event_other_fields [simp]:
  "autoRules (case_event ws ac who k m s db) = autoRules db"
  "case_runs (case_event ws ac who k m s db) = case_runs db"
  "case_jobs (case_event ws ac who k m s db) = case_jobs db"
  "slaTable (case_event ws ac who k m s db) = slaTable db"
  by (simp_all add: case_event_def)

lemma fire_rule_outcome:
  assumes "fire_rule env now i ws k deviceId r db = (res, db')"
  shows "(case res of
      Inr (Some v) \<Rightarrow>
        (\<exists>w. find_case_workflow env ws (ar_workflowRef r) = Some w \<and> (workflowHasDestructiveStep (Some w) \<longrightarrow> ar_destructiveAck r)) \<and>
        int (length (fires_since (now - 3600000) r)) < hourly_cap r \<and> autoRules db' = with_fire now r (autoRules db)
    | _ \<Rightarrow> autoRules db' = autoRules db \<and> case_runs db' = case_runs db \<and> case_jobs db' = case_jobs db)"
proof (cases "find_case_workflow env ws (ar_workflowRef r)")
  case (Some w)
  show ?thesis
  proof (cases "ce_fleet env ws")
    case (Inr devices)
    show ?thesis
    proof (cases "List.find (\<lambda>d. ref_id d = deviceId) devices")
      case (Some d)
      obtain v db1 where "launch_for_case now i w d ws db = (Some v, db1)"
        using launch_some by (metis not_Some_eq surj_pair)
      then show ?thesis
        using assms Inr Some \<open>find_case_workflow _ _ _ = _\<close> launch_db
        by (auto simp: fire_rule_def Let_def with_fire_def split: if_splits)
    qed (use assms Inr \<open>find_case_workflow _ _ _ = _\<close> in \<open>auto simp: fire_rule_def Let_def split: if_splits\<close>)
  qed (use assms Some in \<open>auto simp: fire_rule_def Let_def split: if_splits\<close>)
qed (use assms in \<open>auto simp: fire_rule_def\<close>)

lemma autorun_outcome:
  assumes "tryCaseAutorun env now i ws k auth db = (res, db')"
  shows "(case res of
      Inr (Some v) \<Rightarrow>
        (\<exists>r w. deciding_rule ws k db = Some r \<and> find_case_workflow env ws (ar_workflowRef r) = Some w \<and>
           (workflowHasDestructiveStep (Some w) \<longrightarrow> ar_destructiveAck r) \<and>
           int (length (fires_since (now - 3600000) r)) < hourly_cap r \<and> autoRules db' = with_fire now r (autoRules db))
    | _ \<Rightarrow> autoRules db' = autoRules db \<and> case_runs db' = case_runs db \<and> case_jobs db' = case_jobs db)"
proof (cases "deciding_rule ws k db")
  case (Some r)
  show ?thesis
  proof (cases "filled (cs_deviceId k) [] = [] \<or> filled auth [] = []")
    case False
    then have "fire_rule env now i ws k (filled (cs_deviceId k) []) r db = (res, db')"
      using assms Some by (simp add: tryCaseAutorun_def deciding_rule_def)
    from fire_rule_outcome [OF this] show ?thesis
      using Some by (auto split: sum.splits option.splits)
  qed (use assms in \<open>auto simp: tryCaseAutorun_def\<close>)
qed (use assms in \<open>auto simp: tryCaseAutorun_def deciding_rule_def split: if_splits\<close>)

text \<open>
  C24: A call of the auto-run rules launches a workflow only through the first enabled rule that matches the case,
  whose workflow exists and is not destructive unless acknowledged, and which has fired less often than its cap in
  the last hour; that fire is then recorded. In every other case no run starts and the rules stay as they are.
\<close>

theorem autorun_gate:
  assumes "tryCaseAutorun env now i ws k auth db = (res, db')"
  shows "(case res of
      Inr (Some v) \<Rightarrow>
        (\<exists>r w. deciding_rule ws k db = Some r \<and> find_case_workflow env ws (ar_workflowRef r) = Some w \<and>
           (workflowHasDestructiveStep (Some w) \<longrightarrow> ar_destructiveAck r) \<and>
           int (length (fires_since (now - 3600000) r)) < hourly_cap r \<and> autoRules db' = with_fire now r (autoRules db))
    | _ \<Rightarrow> autoRules db' = autoRules db \<and> case_runs db' = case_runs db \<and> case_jobs db' = case_jobs db)"
  by (rule autorun_outcome [OF assms])

definition sample_rule :: autorun_rule where
  "sample_rule = \<lparr>ar_rule_id = ''r1'', ar_rule_workspace = ''w'', ar_rule_name = ''Isolate'', ar_enabled = True,
     ar_minSeverity = ''high'', ar_mitreTechniques = [], ar_workflowRef = wf_id wait_flow, ar_destructiveAck = False,
     ar_maxFiresPerHour = 2, ar_recentFires = []\<rparr>"

definition sample_env :: case_env where
  "sample_env = \<lparr>ce_dispatch = (\<lambda>_ _ _. []), ce_lookup = (\<lambda>_ _. Inr []), ce_iocs = (\<lambda>_. []), ce_providers = (\<lambda>_. 0),
     ce_fleet = (\<lambda>_. Inr [sample_device]), ce_integrations = [], ce_ticketStatus = (\<lambda>_ _. Inr None),
     ce_workflows = [wait_flow\<lparr>wf_workspace := ''w''\<rparr>]\<rparr>"

definition sample_manual_case :: case_row where
  "sample_manual_case = (new_case ''c2'' ''w'' 0)\<lparr>cs_severity := ''critical'', cs_deviceId := Some (ref_id sample_device)\<rparr>"

definition sample_autorun :: "(http_error + run_view option) \<times> case_db" where
  "sample_autorun = tryCaseAutorun sample_env 5000 ''run'' ''w'' sample_manual_case (Some ''token'')
     (empty_case_db\<lparr>autoRules := [sample_rule]\<rparr>)"

lemma sample_deciding: "deciding_rule ''w'' sample_manual_case (empty_case_db\<lparr>autoRules := [sample_rule]\<rparr>) = Some sample_rule"
  by code_simp

theorem autorun_gate_witness:
  "(case fst sample_autorun of
      Inr (Some v) \<Rightarrow> autoRules (snd sample_autorun) = [sample_rule\<lparr>ar_recentFires := [5000]\<rparr>]
    | _ \<Rightarrow> autoRules (snd sample_autorun) = [sample_rule])"
  using autorun_gate [OF surjective_pairing [of sample_autorun, unfolded sample_autorun_def]] sample_deciding
  by (auto simp: sample_autorun_def with_fire_def empty_case_db_def fires_since_def last_n_def sample_rule_def
      split: sum.split option.split)

section \<open>The hourly cap over time\<close>

record autorun_call =
  ac_env :: case_env
  ac_now :: int
  ac_runId :: string
  ac_case :: case_row
  ac_authorization :: "string option"

text \<open>The launches of a sequence of calls: which rule, and when.\<close>

fun autorun_history :: "string \<Rightarrow> autorun_call list \<Rightarrow> case_db \<Rightarrow> (string \<times> int) list" where
  "autorun_history ws [] db = []"
| "autorun_history ws (c # cs) db =
     (case tryCaseAutorun (ac_env c) (ac_now c) (ac_runId c) ws (ac_case c) (ac_authorization c) db of
        (res, db') \<Rightarrow>
          (case res of
             Inr (Some _) \<Rightarrow>
               (case deciding_rule ws (ac_case c) db of Some r \<Rightarrow> [(ar_rule_id r, ac_now c)] | None \<Rightarrow> [])
           | _ \<Rightarrow> []) @ autorun_history ws cs db')"

definition in_window :: "int \<Rightarrow> string \<Rightarrow> string \<times> int \<Rightarrow> bool" where
  "in_window t ruleId e \<longleftrightarrow> fst e = ruleId \<and> t - 3600000 \<le> snd e \<and> snd e \<le> t"

lemma in_window_pair [simp]: "in_window t i (j, s) \<longleftrightarrow> j = i \<and> t - 3600000 \<le> s \<and> s \<le> t"
  by (simp add: in_window_def)

definition capped :: "autorun_rule \<Rightarrow> int \<Rightarrow> bool" where
  "capped r t \<longleftrightarrow> (\<forall>s\<in>set (ar_recentFires r). s \<le> t) \<and> int (length (fires_since (t - 3600000) r)) \<le> max 0 (hourly_cap r)"

lemma fires_since_mono: "a \<le> b \<Longrightarrow> length (fires_since b r) \<le> length (fires_since a r)"
proof -
  assume "a \<le> b"
  then have "fires_since b r = filter (\<lambda>ts. b \<le> ts) (fires_since a r)"
    unfolding fires_since_def filter_filter by (intro filter_cong) auto
  then show ?thesis by simp
qed

lemma capped_later: "capped r t \<Longrightarrow> t \<le> t' \<Longrightarrow> capped r t'"
  unfolding capped_def using fires_since_mono [of "t - 3600000" "t' - 3600000" r] by force

lemma deciding_in: "deciding_rule ws k db = Some r \<Longrightarrow> r \<in> set (autoRules db)"
  unfolding deciding_rule_def listCaseAutoRunRules_def by (drule find_Some_in) simp

lemma with_fire_ids: "map ar_rule_id (with_fire now r rs) = map ar_rule_id rs"
  by (simp add: with_fire_def map_upd_where)

text \<open>A rule with its fire recorded: the same cap, and the fires of any later hour are the old ones and the new one.\<close>

lemma fired_rule:
  fixes r :: autorun_rule and now :: int
  defines "r' \<equiv> r\<lparr>ar_recentFires := last_n 200 (fires_since (now - 3600000) r @ [now])\<rparr>"
  assumes "capped r t" "t \<le> now" "int (length (fires_since (now - 3600000) r)) < hourly_cap r" "hourly_cap r \<le> 200"
  shows "capped r' now" "hourly_cap r' = hourly_cap r"
    "now \<le> u \<Longrightarrow> length (fires_since (u - 3600000) r') = length (fires_since (u - 3600000) r) + (if u - 3600000 \<le> now then 1 else 0)"
proof -
  have rec: "ar_recentFires r' = fires_since (now - 3600000) r @ [now]"
    using assms(4,5) by (simp add: r'_def last_n_def)
  show cap: "hourly_cap r' = hourly_cap r" by (simp add: r'_def hourly_cap_def)
  have since: "fires_since (u - 3600000) r' = fires_since (u - 3600000) r @ (if u - 3600000 \<le> now then [now] else [])"
    if "now \<le> u" for u
  proof -
    have "filter (\<lambda>ts. u - 3600000 \<le> ts) (fires_since (now - 3600000) r) = fires_since (u - 3600000) r"
      unfolding fires_since_def filter_filter using that by (intro filter_cong) auto
    then show ?thesis by (simp add: fires_since_def [of _ r'] rec)
  qed
  then show "now \<le> u \<Longrightarrow> length (fires_since (u - 3600000) r') = length (fires_since (u - 3600000) r) + (if u - 3600000 \<le> now then 1 else 0)"
    by simp
  show "capped r' now"
    using assms(2,3,4) since [of now] unfolding capped_def cap rec by (auto simp: fires_since_def)
qed

lemma history_times:
  "sorted (map ac_now cs) \<Longrightarrow> (\<forall>c\<in>set cs. n \<le> ac_now c) \<Longrightarrow> e \<in> set (autorun_history ws cs db) \<Longrightarrow> n \<le> snd e"
  by (induction cs arbitrary: db) (auto split: prod.splits sum.splits option.splits)

text \<open>One call, seen from one rule: it is left alone, or it is the one that fires.\<close>

lemma autorun_call_effect:
  assumes call: "tryCaseAutorun env now i ws k auth db = (res, db')"
    and "distinct (map ar_rule_id (autoRules db))" "r \<in> set (autoRules db)"
  shows "(\<exists>v. res = Inr (Some v) \<and> deciding_rule ws k db = Some r \<and>
        int (length (fires_since (now - 3600000) r)) < hourly_cap r \<and>
        r\<lparr>ar_recentFires := last_n 200 (fires_since (now - 3600000) r @ [now])\<rparr> \<in> set (autoRules db')) \<or>
      r \<in> set (autoRules db') \<and>
        (\<forall>v q. res = Inr (Some v) \<longrightarrow> deciding_rule ws k db = Some q \<longrightarrow> ar_rule_id q \<noteq> ar_rule_id r)"
    and "distinct (map ar_rule_id (autoRules db'))"
proof -
  note outcome = autorun_outcome [OF call]
  show "distinct (map ar_rule_id (autoRules db'))"
    using outcome assms(2) by (auto simp: with_fire_ids split: sum.splits option.splits)
  show "(\<exists>v. res = Inr (Some v) \<and> deciding_rule ws k db = Some r \<and>
        int (length (fires_since (now - 3600000) r)) < hourly_cap r \<and>
        r\<lparr>ar_recentFires := last_n 200 (fires_since (now - 3600000) r @ [now])\<rparr> \<in> set (autoRules db')) \<or>
      r \<in> set (autoRules db') \<and>
        (\<forall>v q. res = Inr (Some v) \<longrightarrow> deciding_rule ws k db = Some q \<longrightarrow> ar_rule_id q \<noteq> ar_rule_id r)"
  proof (cases "\<exists>v. res = Inr (Some v)")
    case True
    then obtain q where q: "deciding_rule ws k db = Some q" "autoRules db' = with_fire now q (autoRules db)"
        "int (length (fires_since (now - 3600000) q)) < hourly_cap q"
      using outcome by auto
    show ?thesis
    proof (cases "ar_rule_id q = ar_rule_id r")
      case same: True
      then have "q = r"
        using assms(2,3) deciding_in [OF q(1)] by (auto simp: distinct_map dest: inj_onD)
      then show ?thesis
        using q True assms(3) by (force simp: with_fire_def set_upd_where)
    next
      case False
      then have "r \<in> set (with_fire now q (autoRules db))"
        using assms(3) by (force simp: with_fire_def set_upd_where)
      then show ?thesis using False q by simp
    qed
  qed (use outcome assms(3) in \<open>auto split: sum.splits option.splits\<close>)
qed

lemma autorun_history_cap:
  assumes "distinct (map ar_rule_id (autoRules db))" "r \<in> set (autoRules db)" "capped r t" "hourly_cap r \<le> 200"
    "sorted (map ac_now calls)" "\<forall>c\<in>set calls. t \<le> ac_now c" "t \<le> u"
  shows "int (length (fires_since (u - 3600000) r) +
      length (filter (in_window u (ar_rule_id r)) (autorun_history ws calls db))) \<le> max 0 (hourly_cap r)"
  using assms
proof (induction calls arbitrary: db r t)
  case Nil
  then show ?case using capped_later [of r t u] by (simp add: capped_def)
next
  case (Cons c cs)
  let ?n = "ac_now c"
  show ?case
  proof (cases "u < ?n")
    case True
    have "\<not> in_window u (ar_rule_id r) e" if "e \<in> set (autorun_history ws (c # cs) db)" for e
      using history_times [OF Cons.prems(5) _ that, of ?n] Cons.prems(5) True by (auto simp: in_window_def)
    then show ?thesis
      using capped_later [OF Cons.prems(3) Cons.prems(7)] by (simp add: capped_def filter_False)
  next
    case False
    obtain res db' where call: "tryCaseAutorun (ac_env c) ?n (ac_runId c) ws (ac_case c) (ac_authorization c) db = (res, db')"
      by (cases "tryCaseAutorun (ac_env c) ?n (ac_runId c) ws (ac_case c) (ac_authorization c) db")
    have sorted': "sorted (map ac_now cs)" "\<forall>d\<in>set cs. ?n \<le> ac_now d" "t \<le> ?n" "?n \<le> u"
      using Cons.prems False by auto
    note IH = Cons.IH [OF autorun_call_effect(2) [OF call Cons.prems(1,2)] _ _ _ sorted'(1,2,4)]
    from autorun_call_effect(1) [OF call Cons.prems(1,2)] show ?thesis
    proof (elim disjE exE conjE)
      fix v
      let ?r = "r\<lparr>ar_recentFires := last_n 200 (fires_since (?n - 3600000) r @ [?n])\<rparr>"
      assume fire: "res = Inr (Some v)" "deciding_rule ws (ac_case c) db = Some r"
        "int (length (fires_since (?n - 3600000) r)) < hourly_cap r" "?r \<in> set (autoRules db')"
      note fired = fired_rule [OF Cons.prems(3) sorted'(3) fire(3) Cons.prems(4)]
      have "int (length (fires_since (u - 3600000) ?r) +
          length (filter (in_window u (ar_rule_id ?r)) (autorun_history ws cs db'))) \<le> max 0 (hourly_cap ?r)"
        by (rule IH [OF fire(4) fired(1)]) (simp add: fired(2) Cons.prems(4))
      then show ?thesis
        using call fire(1,2) fired(2,3) sorted'(4) by (simp split: if_splits)
    next
      assume rest: "r \<in> set (autoRules db')"
        "\<forall>v q. res = Inr (Some v) \<longrightarrow> deciding_rule ws (ac_case c) db = Some q \<longrightarrow> ar_rule_id q \<noteq> ar_rule_id r"
      show ?thesis
        using IH [OF rest(1) capped_later [OF Cons.prems(3) sorted'(3)] Cons.prems(4)] rest(2) call
        by (auto split: sum.split option.split)
    qed
  qed
qed

text \<open>
  C6: However the auto-run rules are called while the clock does not go back, a rule whose cap is at most 200 fires
  at most that often within any one hour (a rule keeps its last 200 fires: a higher cap is not enforced).
\<close>

theorem autorun_hourly_cap:
  assumes "distinct (map ar_rule_id (autoRules db))" "r \<in> set (autoRules db)" "ar_recentFires r = []"
    "hourly_cap r \<le> 200" "sorted (map ac_now calls)"
  shows "int (length (filter (in_window u (ar_rule_id r)) (autorun_history ws calls db))) \<le> max 0 (hourly_cap r)"
proof -
  define t where "t = min u (Min (insert u (ac_now ` set calls)))"
  have "capped r t" "t \<le> u" "\<forall>c\<in>set calls. t \<le> ac_now c"
    using assms(3) by (auto simp: capped_def fires_since_def t_def min_le_iff_disj)
  from autorun_history_cap [OF assms(1,2) this(1) assms(4,5) this(3,2), of ws] show ?thesis by linarith
qed

theorem autorun_hourly_cap_witness:
  "length (filter (in_window 9000 ''r1'') (autorun_history ''w''
     (map (\<lambda>t. \<lparr>ac_env = sample_env, ac_now = t, ac_runId = show_int t, ac_case = sample_manual_case,
        ac_authorization = Some ''token''\<rparr>) [5000, 6000, 7000]) (empty_case_db\<lparr>autoRules := [sample_rule]\<rparr>))) \<le> 2"
  using autorun_hourly_cap [of "empty_case_db\<lparr>autoRules := [sample_rule]\<rparr>" sample_rule
     "map (\<lambda>t. \<lparr>ac_env = sample_env, ac_now = t, ac_runId = show_int t, ac_case = sample_manual_case,
        ac_authorization = Some ''token''\<rparr>) [5000, 6000, 7000]" 9000 "''w''"]
  by (simp add: sample_rule_def hourly_cap_def)

end
