(* ===== verification/CaseNotices.thy ===== *)
theory CaseNotices
  imports CaseLife
begin

text \<open>
  What the SLA monitor promises (a breach is announced, and announced once), for its two clocks through one
  interface \<open>sla_clock\<close>; and the CSV export of cases, read back by an RFC 4180 reader.
\<close>

section \<open>The two clocks of the SLA monitor\<close>

definition sla_count :: "string \<Rightarrow> string \<Rightarrow> case_db \<Rightarrow> nat" where
  "sla_count act caseId db =
     length (filter (\<lambda>e. au_action e = act \<and> au_targetId e = Some caseId) (case_audit db))"

definition breach_entries :: "string \<Rightarrow> string \<Rightarrow> case_db \<Rightarrow> nat" where
  "breach_entries message caseId db =
     length (filter (\<lambda>t. tl_caseId t = caseId \<and> tl_type t = ''sla_breached'' \<and> tl_message t = message) (timeline db))"

definition breach_notices :: "string \<Rightarrow> string \<Rightarrow> case_db \<Rightarrow> nat" where
  "breach_notices kind caseId db = length (filter (\<lambda>e. e = SlaBreachSent caseId kind) (case_effects db))"

text \<open>What decides a breach; the monitor leaves it alone.\<close>

definition sla_view :: "case_row \<Rightarrow> string \<times> string \<times> string \<times> string \<times> int option \<times> int" where
  "sla_view k = (cs_id k, cs_workspace k, cs_status k, cs_severity k, cs_acknowledgedAt k, cs_slaClockStartedAt k)"

definition same_views :: "case_db \<Rightarrow> case_db \<Rightarrow> bool" where
  "same_views db db' \<longleftrightarrow> map sla_view (case_rows db') = map sla_view (case_rows db) \<and> slaTable db' = slaTable db"

lemma same_views_refl [simp]: "same_views db db"
  by (simp add: same_views_def)

lemma same_views_trans [trans]: "same_views a b \<Longrightarrow> same_views b c \<Longrightarrow> same_views a c"
  by (simp add: same_views_def)

lemma same_views_ids: "same_views db db' \<Longrightarrow> map cs_id (case_rows db') = map cs_id (case_rows db)"
proof -
  assume "same_views db db'"
  then have "map fst (map sla_view (case_rows db')) = map fst (map sla_view (case_rows db))"
    by (simp add: same_views_def)
  then show ?thesis by (simp add: sla_view_def o_def)
qed

lemma same_views_row:
  assumes "same_views db db'" "k \<in> set (case_rows db')"
  obtains k0 where "k0 \<in> set (case_rows db)" "sla_view k0 = sla_view k"
proof -
  have "sla_view k \<in> set (map sla_view (case_rows db))"
    using assms by (metis same_views_def image_eqI set_map)
  then show ?thesis using that by auto
qed

lemma settings_same: "same_views db db' \<Longrightarrow> getCaseSlaSettings ws db' = getCaseSlaSettings ws db"
  by (simp add: same_views_def getCaseSlaSettings_def)

lemma status_same: "sla_view k = sla_view k' \<Longrightarrow> caseSlaStatus now ths k = caseSlaStatus now ths k'"
  by (simp add: sla_view_def caseSlaStatus_def)

lemma same_case: "distinct (map cs_id rows) \<Longrightarrow> a \<in> set rows \<Longrightarrow> b \<in> set rows \<Longrightarrow> cs_id a = cs_id b \<Longrightarrow> a = b"
  by (auto simp: distinct_map dest: inj_onD)

lemma notice_fields:
  "case_rows (sla_notice now ws notify ac kind entry stamp k db) =
     upd_where (\<lambda>r. cs_id r = cs_id k) (\<lambda>r. (stamp r)\<lparr>cs_updatedAt := now\<rparr>) (case_rows db)"
  "slaTable (sla_notice now ws notify ac kind entry stamp k db) = slaTable db"
  "sla_count act c (sla_notice now ws notify ac kind entry stamp k db) =
     sla_count act c db + (if act = ac \<and> c = cs_id k then 1 else 0)"
  "breach_entries m c (sla_notice now ws notify ac kind entry stamp k db) =
     breach_entries m c db + (if m = entry \<and> c = cs_id k then 1 else 0)"
  "breach_notices kd c (sla_notice now ws notify ac kind entry stamp k db) =
     breach_notices kd c db + (if notify \<and> kd = kind \<and> c = cs_id k then 1 else 0)"
  by (simp_all add: sla_notice_def Let_def case_event_def addCaseTimelineEntry_def update_case_def sla_count_def
      breach_entries_def breach_notices_def recordAuditEvent_def audit_about_def)

text \<open>One clock: \<open>due\<close> at a moment, its stamp \<open>sel\<close>.\<close>

locale sla_clock =
  fixes sel :: "case_row \<Rightarrow> int option" and due :: "int \<Rightarrow> sla_settings \<Rightarrow> case_row \<Rightarrow> bool"
  assumes due_view: "sla_view k = sla_view k' \<Longrightarrow> due now s k = due now s k'"
    and check_views: "same_views db (sla_check now ws s k db)"
    and check_others: "r \<in> set (case_rows db) \<Longrightarrow> cs_id r \<noteq> cs_id k \<Longrightarrow> r \<in> set (case_rows (sla_check now ws s k db))"
    and check_rows: "r' \<in> set (case_rows (sla_check now ws s k db)) \<Longrightarrow>
      \<exists>r\<in>set (case_rows db). cs_id r' = cs_id r \<and>
        (if cs_id r = cs_id k \<and> due now s k \<and> sel k = None then sel r' = Some now else sel r' = sel r)"
begin

definition unannounced :: "string \<Rightarrow> case_db \<Rightarrow> bool" where
  "unannounced c db \<longleftrightarrow> (\<exists>r\<in>set (case_rows db). cs_id r = c \<and> sel r = None)"

text \<open>The clock of an open case of a workspace with SLAs enabled has run out and is not stamped.\<close>

definition fires :: "int \<Rightarrow> case_db \<Rightarrow> case_row \<Rightarrow> bool" where
  "fires now db k \<longleftrightarrow> isOpenCaseStatus (cs_status k) \<and> sla_enabled (getCaseSlaSettings (cs_workspace k) db) \<and>
     due now (getCaseSlaSettings (cs_workspace k) db) k \<and> sel k = None"

lemma check_sel:
  assumes "r \<in> set (case_rows db)" "distinct (map cs_id (case_rows db))" "r' \<in> set (case_rows (sla_check now ws s k db))"
    "cs_id r' = cs_id r"
  shows "sel r' = (if cs_id r = cs_id k \<and> due now s k \<and> sel k = None then Some now else sel r)"
proof -
  obtain r0 where r0: "r0 \<in> set (case_rows db)" "cs_id r' = cs_id r0"
      "if cs_id r0 = cs_id k \<and> due now s k \<and> sel k = None then sel r' = Some now else sel r' = sel r0"
    using check_rows [OF assms(3)] by blast
  have "r0 = r" using r0(1,2) assms(1,2,4) by (auto simp: distinct_map dest: inj_onD)
  with r0(3) show ?thesis by (simp split: if_splits)
qed

lemma check_row_exists:
  "r \<in> set (case_rows db) \<Longrightarrow> \<exists>r'\<in>set (case_rows (sla_check now ws s k db)). cs_id r' = cs_id r"
proof -
  assume "r \<in> set (case_rows db)"
  then have "cs_id r \<in> set (map cs_id (case_rows (sla_check now ws s k db)))"
    using same_views_ids [OF check_views] by simp
  then show ?thesis by auto
qed

lemma check_unannounced:
  assumes "k \<in> set (case_rows db)" "distinct (map cs_id (case_rows db))"
  shows "unannounced c (sla_check now ws s k db) \<longleftrightarrow>
    unannounced c db \<and> \<not> (c = cs_id k \<and> due now s k \<and> sel k = None)"
proof
  assume "unannounced c (sla_check now ws s k db)"
  then obtain r' where r': "r' \<in> set (case_rows (sla_check now ws s k db))" "cs_id r' = c" "sel r' = None"
    by (auto simp: unannounced_def)
  with check_rows [OF this(1)] show "unannounced c db \<and> \<not> (c = cs_id k \<and> due now s k \<and> sel k = None)"
    by (auto simp: unannounced_def split: if_splits)
next
  assume *: "unannounced c db \<and> \<not> (c = cs_id k \<and> due now s k \<and> sel k = None)"
  then obtain r where r: "r \<in> set (case_rows db)" "cs_id r = c" "sel r = None"
    by (auto simp: unannounced_def)
  obtain r' where "r' \<in> set (case_rows (sla_check now ws s k db))" "cs_id r' = cs_id r"
    using check_row_exists [OF r(1)] by blast
  with check_sel [OF r(1) assms(2) this] * r show "unannounced c (sla_check now ws s k db)"
    by (auto simp: unannounced_def)
qed

lemma fold_checks:
  assumes "set ks \<subseteq> set (case_rows db)" "distinct (map cs_id ks)" "distinct (map cs_id (case_rows db))"
  shows "same_views db (fold (sla_check now ws s) ks db) \<and>
    (\<forall>k\<in>set ks. due now s k \<longrightarrow> \<not> unannounced (cs_id k) (fold (sla_check now ws s) ks db)) \<and>
    (\<not> unannounced c db \<longrightarrow> \<not> unannounced c (fold (sla_check now ws s) ks db))"
  using assms
proof (induction ks arbitrary: db c)
  case (Cons k ks)
  let ?db = "sla_check now ws s k db"
  have k: "k \<in> set (case_rows db)" using Cons.prems(1) by simp
  have "cs_id x \<noteq> cs_id k" if "x \<in> set ks" for x
    using Cons.prems(2) that by (auto simp: rev_image_eqI)
  then have "set ks \<subseteq> set (case_rows ?db)"
    using Cons.prems(1) by (auto intro!: check_others)
  moreover have "distinct (map cs_id (case_rows ?db))"
    using Cons.prems(3) same_views_ids [OF check_views] by simp
  ultimately have IH: "same_views ?db (fold (sla_check now ws s) ks ?db) \<and>
      (\<forall>x\<in>set ks. due now s x \<longrightarrow> \<not> unannounced (cs_id x) (fold (sla_check now ws s) ks ?db)) \<and>
      (\<not> unannounced c ?db \<longrightarrow> \<not> unannounced c (fold (sla_check now ws s) ks ?db))" for c
    using Cons.IH [of ?db c] Cons.prems(2) by simp
  have "\<not> unannounced (cs_id k) ?db" if "due now s k"
    using that check_unannounced [OF k Cons.prems(3)] Cons.prems(3) k
    by (auto simp: unannounced_def distinct_map dest!: inj_onD)
  then show ?case
    using IH [of c] IH [of "cs_id k"] check_unannounced [OF k Cons.prems(3)]
      same_views_trans [OF check_views] by auto
qed simp

definition breaches_announced :: "int \<Rightarrow> string \<Rightarrow> case_db \<Rightarrow> bool" where
  "breaches_announced now ws db \<longleftrightarrow>
     (sla_enabled (getCaseSlaSettings ws db) \<longrightarrow>
        (\<forall>k\<in>set (open_cases ws db). due now (getCaseSlaSettings ws db) k \<longrightarrow> \<not> unannounced (cs_id k) db))"

lemma workspace_tick:
  assumes "distinct (map cs_id (case_rows db))"
  shows "same_views db (sla_workspace now ws db)"
    "\<not> unannounced c db \<Longrightarrow> \<not> unannounced c (sla_workspace now ws db)"
    "breaches_announced now ws (sla_workspace now ws db)"
proof -
  let ?s = "getCaseSlaSettings ws db"
  have ks: "set (open_cases ws db) \<subseteq> set (case_rows db)" "distinct (map cs_id (open_cases ws db))"
    using assms by (auto simp: open_cases_def distinct_map_filter)
  note fold = fold_checks [OF ks assms, of now ws ?s]
  show views: "same_views db (sla_workspace now ws db)"
    and "\<not> unannounced c db \<Longrightarrow> \<not> unannounced c (sla_workspace now ws db)"
    using fold [of c] by (simp_all add: sla_workspace_def Let_def)
  have "\<not> unannounced (cs_id k') (sla_workspace now ws db)"
    if asm: "sla_enabled ?s" "k' \<in> set (open_cases ws (sla_workspace now ws db))" "due now ?s k'" for k'
  proof -
    obtain k where k: "k \<in> set (case_rows db)" "sla_view k = sla_view k'"
      using same_views_row [OF views, of k'] asm(2) by (auto simp: open_cases_def)
    then have "k \<in> set (open_cases ws db)" "due now ?s k" "cs_id k = cs_id k'"
      using asm due_view [OF k(2)] by (auto simp: open_cases_def sla_view_def)
    then show ?thesis
      using fold [of "cs_id k"] asm(1) by (auto simp: sla_workspace_def Let_def)
  qed
  then show "breaches_announced now ws (sla_workspace now ws db)"
    by (auto simp: breaches_announced_def settings_same [OF views])
qed

lemma breaches_stay_announced:
  assumes "breaches_announced now ws db" "same_views db db'" "\<And>c. \<not> unannounced c db \<Longrightarrow> \<not> unannounced c db'"
  shows "breaches_announced now ws db'"
  unfolding breaches_announced_def settings_same [OF assms(2)]
proof (intro impI ballI)
  fix k' assume *: "sla_enabled (getCaseSlaSettings ws db)" "k' \<in> set (open_cases ws db')"
    "due now (getCaseSlaSettings ws db) k'"
  obtain k where k: "k \<in> set (case_rows db)" "sla_view k = sla_view k'"
    using same_views_row [OF assms(2), of k'] *(2) by (auto simp: open_cases_def)
  then have "k \<in> set (open_cases ws db)" "due now (getCaseSlaSettings ws db) k" "cs_id k = cs_id k'"
    using * due_view [OF k(2)] by (auto simp: open_cases_def sla_view_def)
  then show "\<not> unannounced (cs_id k') db'"
    using assms(1,3) *(1) by (auto simp: breaches_announced_def)
qed

lemma fold_workspaces:
  assumes "distinct (map cs_id (case_rows db))"
  shows "same_views db (fold (sla_workspace now) wss db) \<and>
    (\<not> unannounced c db \<longrightarrow> \<not> unannounced c (fold (sla_workspace now) wss db)) \<and>
    (\<forall>ws\<in>set wss. breaches_announced now ws (fold (sla_workspace now) wss db))"
  using assms
proof (induction wss arbitrary: db c)
  case (Cons ws wss)
  note one = workspace_tick [OF Cons.prems]
  have "distinct (map cs_id (case_rows (sla_workspace now ws db)))"
    using Cons.prems same_views_ids [OF one(1)] by simp
  note IH = Cons.IH [OF this]
  have "breaches_announced now ws (fold (sla_workspace now) wss (sla_workspace now ws db))"
    by (rule breaches_stay_announced [OF one(3)]) (use IH in auto)
  then show ?case
    using IH [of c] one(2) [of c] same_views_trans [OF one(1)] by auto
qed simp

lemma unannounced_row:
  "distinct (map cs_id (case_rows db)) \<Longrightarrow> r \<in> set (case_rows db) \<Longrightarrow> unannounced (cs_id r) db \<longleftrightarrow> sel r = None"
  using same_case by (fastforce simp: unannounced_def)

lemma tick_views:
  assumes "distinct (map cs_id (case_rows db))"
  shows "same_views db (runCaseSlaMonitorTick now db)"
    "\<not> unannounced c db \<Longrightarrow> \<not> unannounced c (runCaseSlaMonitorTick now db)"
  using fold_workspaces [OF assms] by (simp_all add: runCaseSlaMonitorTick_def)

lemma tick_announces:
  assumes "distinct (map cs_id (case_rows db))" "k \<in> set (case_rows (runCaseSlaMonitorTick now db))"
    "isOpenCaseStatus (cs_status k)" "sla_enabled (getCaseSlaSettings (cs_workspace k) db)"
    "due now (getCaseSlaSettings (cs_workspace k) db) k"
  shows "sel k \<noteq> None"
proof -
  note views = tick_views(1) [OF assms(1), of now]
  obtain k0 where "k0 \<in> set (case_rows db)" "sla_view k0 = sla_view k"
    using same_views_row [OF views assms(2)] .
  then have "cs_workspace k \<in> set (workspacesWithCases db)"
    by (auto simp: workspacesWithCases_def sla_view_def rev_image_eqI)
  then have "breaches_announced now (cs_workspace k) (runCaseSlaMonitorTick now db)"
    using fold_workspaces [OF assms(1)] by (simp add: runCaseSlaMonitorTick_def)
  then show ?thesis
    using assms(2-5) by (auto simp: breaches_announced_def settings_same [OF views] open_cases_def unannounced_def)
qed

text \<open>What a run of the monitor does to the stamp of one case.\<close>

lemma fold_check_row:
  assumes "r \<in> set (case_rows db)" "distinct (map cs_id (case_rows db))" "distinct (map cs_id ks)"
  shows "\<exists>r'\<in>set (case_rows (fold (sla_check now ws s) ks db)). cs_id r' = cs_id r \<and>
    sel r' = (if \<exists>k\<in>set ks. cs_id k = cs_id r \<and> due now s k \<and> sel k = None then Some now else sel r)"
  using assms
proof (induction ks arbitrary: db r)
  case (Cons k ks)
  let ?db = "sla_check now ws s k db"
  obtain r1 where r1: "r1 \<in> set (case_rows ?db)" "cs_id r1 = cs_id r" using check_row_exists [OF Cons.prems(1)] by blast
  note sel1 = check_sel [OF Cons.prems(1,2) r1]
  have "distinct (map cs_id (case_rows ?db))" using Cons.prems(2) same_views_ids [OF check_views] by simp
  then obtain r' where r': "r' \<in> set (case_rows (fold (sla_check now ws s) ks ?db))" "cs_id r' = cs_id r1"
      "sel r' = (if \<exists>k\<in>set ks. cs_id k = cs_id r1 \<and> due now s k \<and> sel k = None then Some now else sel r1)"
    using Cons.IH [OF r1(1)] Cons.prems(3) by fastforce
  have "\<exists>r'\<in>set (case_rows (fold (sla_check now ws s) ks ?db)). cs_id r' = cs_id r \<and>
      sel r' = (if \<exists>x\<in>set (k # ks). cs_id x = cs_id r \<and> due now s x \<and> sel x = None then Some now else sel r)"
    by (rule bexI [OF _ r'(1)]) (use r' r1 sel1 in \<open>auto split: if_splits\<close>)
  then show ?case by simp
qed auto

lemma fold_keeps_others:
  "r \<in> set (case_rows db) \<Longrightarrow> cs_id r \<notin> cs_id ` set ks \<Longrightarrow> r \<in> set (case_rows (fold (sla_check now ws s) ks db))"
proof (induction ks arbitrary: db)
  case (Cons k ks)
  then show ?case using check_others [of r db k now ws s] by (auto simp: image_iff)
qed simp

lemma workspace_keeps_others:
  assumes "r \<in> set (case_rows db)" "distinct (map cs_id (case_rows db))" "cs_workspace r \<noteq> ws"
  shows "cs_id r \<notin> cs_id ` set (open_cases ws db)" "r \<in> set (case_rows (sla_workspace now ws db))"
proof -
  show "cs_id r \<notin> cs_id ` set (open_cases ws db)"
    using assms by (auto simp: open_cases_def distinct_map dest: inj_onD)
  then show "r \<in> set (case_rows (sla_workspace now ws db))"
    using fold_keeps_others [OF assms(1)] assms(1) by (simp add: sla_workspace_def Let_def)
qed

lemma workspaces_keep_others:
  "r \<in> set (case_rows db) \<Longrightarrow> distinct (map cs_id (case_rows db)) \<Longrightarrow> cs_workspace r \<notin> set wss \<Longrightarrow>
     r \<in> set (case_rows (fold (sla_workspace now) wss db))"
proof (induction wss arbitrary: db)
  case (Cons ws wss)
  then show ?case
    using workspace_keeps_others(2) [of r db ws now] workspace_tick(1) [of db now ws] same_views_ids [of db "sla_workspace now ws db"]
    by auto
qed simp

lemma own_open_case:
  assumes "k \<in> set (case_rows db)" "distinct (map cs_id (case_rows db))"
  shows "(\<exists>x\<in>set (open_cases (cs_workspace k) db). cs_id x = cs_id k \<and> Q x) \<longleftrightarrow> isOpenCaseStatus (cs_status k) \<and> Q k"
  using assms by (auto simp: open_cases_def distinct_map dest: inj_onD)

text \<open>A run passes the workspaces before the one of a case, that one, and the ones after it.\<close>

lemma tick_splits:
  assumes "k \<in> set (case_rows db)" "distinct (map cs_id (case_rows db))"
  obtains xs ys where "workspacesWithCases db = xs @ cs_workspace k # ys" "cs_workspace k \<notin> set xs" "cs_workspace k \<notin> set ys"
    "k \<in> set (case_rows (fold (sla_workspace now) xs db))" "distinct (map cs_id (case_rows (fold (sla_workspace now) xs db)))"
    "same_views db (fold (sla_workspace now) xs db)"
proof -
  have "cs_workspace k \<in> set (workspacesWithCases db)" "distinct (workspacesWithCases db)"
    using assms(1) by (auto simp: workspacesWithCases_def)
  then obtain xs ys where xs: "workspacesWithCases db = xs @ cs_workspace k # ys" "cs_workspace k \<notin> set xs" "cs_workspace k \<notin> set ys"
    by (metis split_list distinct_append disjoint_iff distinct.simps(2) list.set_intros(1))
  note views = fold_workspaces [OF assms(2), of now xs, THEN conjunct1]
  show thesis
    by (rule that [OF xs workspaces_keep_others [OF assms xs(2)] _ views]) (use assms(2) same_views_ids [OF views] in simp)
qed

lemma tick_row:
  assumes "k \<in> set (case_rows db)" "distinct (map cs_id (case_rows db))"
  shows "\<exists>k'\<in>set (case_rows (runCaseSlaMonitorTick now db)). cs_id k' = cs_id k \<and>
    sel k' = (if fires now db k then Some now else sel k)"
proof -
  obtain xs ys where split: "workspacesWithCases db = xs @ cs_workspace k # ys" "cs_workspace k \<notin> set ys"
    and k: "k \<in> set (case_rows (fold (sla_workspace now) xs db))" "distinct (map cs_id (case_rows (fold (sla_workspace now) xs db)))"
    and views: "same_views db (fold (sla_workspace now) xs db)"
    using tick_splits [OF assms, where now = now] .
  let ?db = "fold (sla_workspace now) xs db" and ?s = "getCaseSlaSettings (cs_workspace k) db"
  have ks: "distinct (map cs_id (open_cases (cs_workspace k) ?db))" using k(2) by (simp add: open_cases_def distinct_map_filter)
  have "\<exists>k'\<in>set (case_rows (sla_workspace now (cs_workspace k) ?db)). cs_id k' = cs_id k \<and>
      sel k' = (if fires now db k then Some now else sel k)"
    using fold_check_row [OF k ks, of now "cs_workspace k" ?s] own_open_case [OF k, of "\<lambda>x. due now ?s x \<and> sel x = None"] k(1)
    by (auto simp: sla_workspace_def Let_def settings_same [OF views] fires_def)
  then obtain k' where k': "k' \<in> set (case_rows (sla_workspace now (cs_workspace k) ?db))" "cs_id k' = cs_id k"
      "sel k' = (if fires now db k then Some now else sel k)" by blast
  note step = workspace_tick(1) [OF k(2), of now "cs_workspace k"]
  obtain k0 where k0: "k0 \<in> set (case_rows ?db)" "sla_view k0 = sla_view k'" using same_views_row [OF step k'(1)] .
  then have "k0 = k" using k k'(2) by (auto simp: sla_view_def distinct_map dest: inj_onD)
  then have "cs_workspace k' = cs_workspace k" using k0(2) by (simp add: sla_view_def)
  then have "k' \<in> set (case_rows (fold (sla_workspace now) ys (sla_workspace now (cs_workspace k) ?db)))"
    using split(2) k(2) same_views_ids [OF step] by (intro workspaces_keep_others [OF k'(1)]) simp_all
  then show ?thesis using k'(2,3) split(1) by (auto simp: runCaseSlaMonitorTick_def)
qed

end

text \<open>Something a check adds for a case whose clock fires: \<open>wt\<close> of it, under the workspace's settings.\<close>

locale sla_counter = sla_clock sel due
  for sel :: "case_row \<Rightarrow> int option" and due :: "int \<Rightarrow> sla_settings \<Rightarrow> case_row \<Rightarrow> bool" +
  fixes cnt :: "string \<Rightarrow> case_db \<Rightarrow> nat" and wt :: "sla_settings \<Rightarrow> nat"
  assumes check_cnt: "cnt c (sla_check now ws s k db) =
      cnt c db + (if c = cs_id k \<and> due now s k \<and> sel k = None then wt s else 0)"
    and wt_le: "wt s \<le> 1"
begin

lemma fold_cnt:
  "distinct (map cs_id ks) \<Longrightarrow> cnt c (fold (sla_check now ws s) ks db) =
     cnt c db + (if \<exists>k\<in>set ks. cs_id k = c \<and> due now s k \<and> sel k = None then wt s else 0)"
proof (induction ks arbitrary: db)
  case (Cons k ks)
  have "\<not> (\<exists>x\<in>set ks. cs_id x = c)" if "cs_id k = c" using Cons.prems that by (auto simp: image_iff)
  then show ?case using Cons by (auto simp: check_cnt)
qed simp

lemma workspace_cnt_other: "c \<notin> cs_id ` set (open_cases ws db) \<Longrightarrow> cnt c (sla_workspace now ws db) = cnt c db"
proof -
  have "c \<notin> cs_id ` set ks \<Longrightarrow> cnt c (fold (sla_check now ws s) ks db) = cnt c db" for ks s db
    by (induction ks arbitrary: db) (auto simp: check_cnt)
  then show "c \<notin> cs_id ` set (open_cases ws db) \<Longrightarrow> cnt c (sla_workspace now ws db) = cnt c db"
    by (simp add: sla_workspace_def Let_def)
qed

lemma workspaces_cnt_other:
  "r \<in> set (case_rows db) \<Longrightarrow> distinct (map cs_id (case_rows db)) \<Longrightarrow> cs_workspace r \<notin> set wss \<Longrightarrow>
     cnt (cs_id r) (fold (sla_workspace now) wss db) = cnt (cs_id r) db"
proof (induction wss arbitrary: db)
  case (Cons ws wss)
  then show ?case
    using workspace_keeps_others [of r db ws] workspace_tick(1) [of db now ws] same_views_ids [of db "sla_workspace now ws db"]
      workspace_cnt_other [of "cs_id r" ws db now]
    by auto
qed simp

lemma workspaces_cnt_absent:
  "c \<notin> cs_id ` set (case_rows db) \<Longrightarrow> distinct (map cs_id (case_rows db)) \<Longrightarrow> cnt c (fold (sla_workspace now) wss db) = cnt c db"
proof (induction wss arbitrary: db)
  case (Cons ws wss)
  have ids: "map cs_id (case_rows (sla_workspace now ws db)) = map cs_id (case_rows db)"
    using same_views_ids [OF workspace_tick(1) [OF Cons.prems(2)]] .
  have "c \<notin> cs_id ` set (case_rows (sla_workspace now ws db))" "distinct (map cs_id (case_rows (sla_workspace now ws db)))"
    using Cons.prems ids by (metis list.set_map, simp)
  moreover have "c \<notin> cs_id ` set (open_cases ws db)" using Cons.prems(1) by (auto simp: open_cases_def)
  ultimately show ?case using Cons.IH workspace_cnt_other by simp
qed simp

lemma tick_cnt:
  assumes "k \<in> set (case_rows db)" "distinct (map cs_id (case_rows db))"
  shows "cnt (cs_id k) (runCaseSlaMonitorTick now db) =
    cnt (cs_id k) db + (if fires now db k then wt (getCaseSlaSettings (cs_workspace k) db) else 0)"
proof -
  obtain xs ys where split: "workspacesWithCases db = xs @ cs_workspace k # ys" "cs_workspace k \<notin> set xs" "cs_workspace k \<notin> set ys"
    and k: "k \<in> set (case_rows (fold (sla_workspace now) xs db))" "distinct (map cs_id (case_rows (fold (sla_workspace now) xs db)))"
    and views: "same_views db (fold (sla_workspace now) xs db)"
    using tick_splits [OF assms, where now = now] .
  let ?db = "fold (sla_workspace now) xs db" and ?s = "getCaseSlaSettings (cs_workspace k) db"
  let ?db2 = "sla_workspace now (cs_workspace k) ?db"
  have ks: "distinct (map cs_id (open_cases (cs_workspace k) ?db))" using k(2) by (simp add: open_cases_def distinct_map_filter)
  have before: "cnt (cs_id k) ?db = cnt (cs_id k) db" by (rule workspaces_cnt_other [OF assms split(2)])
  have own: "cnt (cs_id k) ?db2 = cnt (cs_id k) db + (if fires now db k then wt ?s else 0)"
    using fold_cnt [OF ks, of "cs_id k" now "cs_workspace k" ?s ?db] before
      own_open_case [OF k, of "\<lambda>x. due now ?s x \<and> sel x = None"]
    by (simp add: sla_workspace_def Let_def settings_same [OF views] fires_def)
  note step = workspace_tick(1) [OF k(2), of now "cs_workspace k"]
  have "cs_id k \<in> set (map cs_id (case_rows ?db2))" using k(1) same_views_ids [OF step] by simp
  then obtain k' where k': "k' \<in> set (case_rows ?db2)" "cs_id k' = cs_id k" by auto
  obtain k0 where k0: "k0 \<in> set (case_rows ?db)" "sla_view k0 = sla_view k'" using same_views_row [OF step k'(1)] .
  then have "k0 = k" using k k'(2) by (auto simp: sla_view_def distinct_map dest: inj_onD)
  then have "cs_workspace k' = cs_workspace k" using k0(2) by (simp add: sla_view_def)
  then have "cnt (cs_id k) (fold (sla_workspace now) ys ?db2) = cnt (cs_id k) ?db2"
    using workspaces_cnt_other [OF k'(1), of ys] split(3) k(2) same_views_ids [OF step] k'(2) by simp
  then show ?thesis using own split(1) by (simp add: runCaseSlaMonitorTick_def)
qed

lemma tick_cnt_le:
  assumes "distinct (map cs_id (case_rows db))"
  shows "cnt c (runCaseSlaMonitorTick now db) + (if unannounced c (runCaseSlaMonitorTick now db) then 1 else 0)
    \<le> cnt c db + (if unannounced c db then 1 else 0)"
proof (cases "c \<in> cs_id ` set (case_rows db)")
  case True
  then obtain k where k: "k \<in> set (case_rows db)" "c = cs_id k" by blast
  obtain k' where k': "k' \<in> set (case_rows (runCaseSlaMonitorTick now db))" "cs_id k' = cs_id k"
      "sel k' = (if fires now db k then Some now else sel k)"
    using tick_row [OF k(1) assms] by blast
  have "distinct (map cs_id (case_rows (runCaseSlaMonitorTick now db)))"
    using assms same_views_ids [OF tick_views(1) [OF assms]] by simp
  then have after: "unannounced c (runCaseSlaMonitorTick now db) \<longleftrightarrow> sel k' = None"
    using k' k(2) unannounced_row by metis
  have "unannounced c db \<longleftrightarrow> sel k = None" using k assms unannounced_row by metis
  then show ?thesis
    using tick_cnt [OF k(1) assms, of now] after k'(3) wt_le [of "getCaseSlaSettings (cs_workspace k) db"]
    by (auto simp: k(2) fires_def)
next
  case False
  then show ?thesis
    using workspaces_cnt_absent [OF _ assms] tick_views(2) [OF assms, of c now] by (auto simp: runCaseSlaMonitorTick_def)
qed

lemma ticks_cnt_le:
  "distinct (map cs_id (case_rows db)) \<Longrightarrow>
     cnt c (fold runCaseSlaMonitorTick ticks db) \<le> cnt c db + (if unannounced c db then 1 else 0)"
proof (induction ticks arbitrary: db)
  case (Cons t ts)
  have "distinct (map cs_id (case_rows (runCaseSlaMonitorTick t db)))"
    using Cons.prems same_views_ids [OF tick_views(1) [OF Cons.prems]] by simp
  note Cons.IH [OF this] tick_cnt_le [OF Cons.prems, of c t]
  then show ?case by (simp split: if_splits)
qed simp

lemma tick_cnt_mono: "distinct (map cs_id (case_rows db)) \<Longrightarrow> cnt c db \<le> cnt c (runCaseSlaMonitorTick now db)"
  using tick_cnt [of _ db now] workspaces_cnt_absent [of c db now] by (cases "c \<in> cs_id ` set (case_rows db)") (auto simp: runCaseSlaMonitorTick_def)

lemma ticks_cnt_mono: "distinct (map cs_id (case_rows db)) \<Longrightarrow> cnt c db \<le> cnt c (fold runCaseSlaMonitorTick ticks db)"
proof (induction ticks arbitrary: db)
  case (Cons t ts)
  have "distinct (map cs_id (case_rows (runCaseSlaMonitorTick t db)))"
    using Cons.prems same_views_ids [OF tick_views(1) [OF Cons.prems]] by simp
  from Cons.IH [OF this] tick_cnt_mono [OF Cons.prems, of c t] show ?case by simp
qed simp

text \<open>A run that finds the clock run out announces it; whatever runs follow, nothing is added.\<close>

lemma announced_once:
  assumes "k \<in> set (case_rows db)" "distinct (map cs_id (case_rows db))" "fires now db k \<or> sel k \<noteq> None"
  shows "cnt (cs_id k) (fold runCaseSlaMonitorTick (now # ticks) db) =
      cnt (cs_id k) db + (if fires now db k then wt (getCaseSlaSettings (cs_workspace k) db) else 0)"
proof -
  let ?db = "runCaseSlaMonitorTick now db"
  have dist: "distinct (map cs_id (case_rows ?db))" using assms(2) same_views_ids [OF tick_views(1) [OF assms(2)]] by simp
  obtain k' where k': "k' \<in> set (case_rows ?db)" "cs_id k' = cs_id k" "sel k' = (if fires now db k then Some now else sel k)"
    using tick_row [OF assms(1,2)] by blast
  then have "\<not> unannounced (cs_id k) ?db"
    using assms(3) unannounced_row [OF dist k'(1)] by (auto split: if_splits)
  then have "cnt (cs_id k) (fold runCaseSlaMonitorTick ticks ?db) = cnt (cs_id k) ?db"
    using ticks_cnt_le [OF dist, of "cs_id k" ticks] ticks_cnt_mono [OF dist, of "cs_id k" ticks] by simp
  then show ?thesis using tick_cnt [OF assms(1,2), of now] by simp
qed

end

definition ack_due :: "int \<Rightarrow> sla_settings \<Rightarrow> case_row \<Rightarrow> bool" where
  "ack_due now s k \<longleftrightarrow> ackBreached (caseSlaStatus now (sla_thresholds s) k)"

definition resolve_due :: "int \<Rightarrow> sla_settings \<Rightarrow> case_row \<Rightarrow> bool" where
  "resolve_due now s k \<longleftrightarrow> resolveBreached (caseSlaStatus now (sla_thresholds s) k)"

definition ack_stamp :: "int \<Rightarrow> sla_settings \<Rightarrow> case_row \<Rightarrow> case_row \<Rightarrow> case_row" where
  "ack_stamp now s k r = (if ack_due now s k \<and> cs_slaAckBreachNotifiedAt k = None
     then r\<lparr>cs_slaAckBreachNotifiedAt := Some now, cs_updatedAt := now\<rparr> else r)"

definition resolve_stamp :: "int \<Rightarrow> sla_settings \<Rightarrow> case_row \<Rightarrow> case_row \<Rightarrow> case_row" where
  "resolve_stamp now s k r = (if resolve_due now s k \<and> cs_slaResolveBreachNotifiedAt k = None
     then r\<lparr>cs_slaResolveBreachNotifiedAt := Some now, cs_updatedAt := now\<rparr> else r)"

definition both_stamps :: "int \<Rightarrow> sla_settings \<Rightarrow> case_row \<Rightarrow> case_row \<Rightarrow> case_row" where
  "both_stamps now s k r = resolve_stamp now s k (ack_stamp now s k r)"

lemma both_stamps_row [simp]:
  "sla_view (both_stamps now s k r) = sla_view r" "cs_id (both_stamps now s k r) = cs_id r"
  "cs_slaAckBreachNotifiedAt (both_stamps now s k r) =
     (if ack_due now s k \<and> cs_slaAckBreachNotifiedAt k = None then Some now else cs_slaAckBreachNotifiedAt r)"
  "cs_slaResolveBreachNotifiedAt (both_stamps now s k r) =
     (if resolve_due now s k \<and> cs_slaResolveBreachNotifiedAt k = None then Some now else cs_slaResolveBreachNotifiedAt r)"
  by (simp_all add: both_stamps_def ack_stamp_def resolve_stamp_def sla_view_def)

lemma ack_check_rows:
  "case_rows (sla_ack_check now ws s k db) = upd_where (\<lambda>r. cs_id r = cs_id k) (ack_stamp now s k) (case_rows db)"
proof (cases "ack_due now s k \<and> cs_slaAckBreachNotifiedAt k = None")
  case True
  then have "ack_stamp now s k = (\<lambda>r. r\<lparr>cs_slaAckBreachNotifiedAt := Some now, cs_updatedAt := now\<rparr>)"
    by (simp add: ack_stamp_def fun_eq_iff)
  then show ?thesis using True by (simp add: sla_ack_check_def notice_fields ack_due_def)
next
  case False
  then have "ack_stamp now s k = (\<lambda>r. r)" by (auto simp: ack_stamp_def fun_eq_iff)
  then show ?thesis using False by (auto simp: sla_ack_check_def ack_due_def upd_where_def)
qed

lemma resolve_check_rows:
  "case_rows (sla_resolve_check now ws s k db) = upd_where (\<lambda>r. cs_id r = cs_id k) (resolve_stamp now s k) (case_rows db)"
proof (cases "resolve_due now s k \<and> cs_slaResolveBreachNotifiedAt k = None")
  case True
  then have "resolve_stamp now s k = (\<lambda>r. r\<lparr>cs_slaResolveBreachNotifiedAt := Some now, cs_updatedAt := now\<rparr>)"
    by (simp add: resolve_stamp_def fun_eq_iff)
  then show ?thesis using True by (simp add: sla_resolve_check_def notice_fields resolve_due_def)
next
  case False
  then have "resolve_stamp now s k = (\<lambda>r. r)" by (auto simp: resolve_stamp_def fun_eq_iff)
  then show ?thesis using False by (auto simp: sla_resolve_check_def resolve_due_def upd_where_def)
qed

lemma check_rows_eq:
  "case_rows (sla_check now ws s k db) = upd_where (\<lambda>r. cs_id r = cs_id k) (both_stamps now s k) (case_rows db)"
  by (simp add: sla_check_def ack_check_rows resolve_check_rows upd_where_def both_stamps_def ack_stamp_def)

lemma check_table: "slaTable (sla_check now ws s k db) = slaTable db"
  by (simp add: sla_check_def sla_ack_check_def sla_resolve_check_def notice_fields)

definition ACK_BREACHED :: string where
  "ACK_BREACHED = ''Acknowledge SLA breached '' @ em_dash @ '' no assignee or investigation started in time''"

definition RESOLVE_BREACHED :: string where
  "RESOLVE_BREACHED = ''Resolve SLA breached '' @ em_dash @ '' case still open past its due time''"

lemma breach_texts: "ACK_BREACHED \<noteq> RESOLVE_BREACHED"
  by (simp add: ACK_BREACHED_def RESOLVE_BREACHED_def)

lemma check_counts:
  "sla_count ''case_sla_ack_breached'' c (sla_check now ws s k db) = sla_count ''case_sla_ack_breached'' c db +
     (if c = cs_id k \<and> ack_due now s k \<and> cs_slaAckBreachNotifiedAt k = None then 1 else 0)"
  "sla_count ''case_sla_resolve_breached'' c (sla_check now ws s k db) = sla_count ''case_sla_resolve_breached'' c db +
     (if c = cs_id k \<and> resolve_due now s k \<and> cs_slaResolveBreachNotifiedAt k = None then 1 else 0)"
  "breach_entries ACK_BREACHED c (sla_check now ws s k db) = breach_entries ACK_BREACHED c db +
     (if c = cs_id k \<and> ack_due now s k \<and> cs_slaAckBreachNotifiedAt k = None then 1 else 0)"
  "breach_entries RESOLVE_BREACHED c (sla_check now ws s k db) = breach_entries RESOLVE_BREACHED c db +
     (if c = cs_id k \<and> resolve_due now s k \<and> cs_slaResolveBreachNotifiedAt k = None then 1 else 0)"
  "breach_notices ''acknowledge'' c (sla_check now ws s k db) = breach_notices ''acknowledge'' c db +
     (if c = cs_id k \<and> ack_due now s k \<and> cs_slaAckBreachNotifiedAt k = None then (if sla_notifyOnBreach s then 1 else 0) else 0)"
  "breach_notices ''resolve'' c (sla_check now ws s k db) = breach_notices ''resolve'' c db +
     (if c = cs_id k \<and> resolve_due now s k \<and> cs_slaResolveBreachNotifiedAt k = None then (if sla_notifyOnBreach s then 1 else 0) else 0)"
  using breach_texts unfolding sla_check_def sla_ack_check_def sla_resolve_check_def
    ACK_BREACHED_def [symmetric] RESOLVE_BREACHED_def [symmetric]
  by (auto simp: notice_fields ack_due_def resolve_due_def)

lemma check_same_views: "same_views db (sla_check now ws s k db)"
  by (simp add: same_views_def check_rows_eq check_table map_upd_where)

lemma check_keeps: "r \<in> set (case_rows db) \<Longrightarrow> cs_id r \<noteq> cs_id k \<Longrightarrow> r \<in> set (case_rows (sla_check now ws s k db))"
  by (force simp: check_rows_eq set_upd_where)

interpretation ack: sla_clock cs_slaAckBreachNotifiedAt ack_due
proof
  show "\<exists>r\<in>set (case_rows db). cs_id r' = cs_id r \<and>
      (if cs_id r = cs_id k \<and> ack_due now s k \<and> cs_slaAckBreachNotifiedAt k = None
       then cs_slaAckBreachNotifiedAt r' = Some now else cs_slaAckBreachNotifiedAt r' = cs_slaAckBreachNotifiedAt r)"
    if "r' \<in> set (case_rows (sla_check now ws s k db))" for r' now ws s k db
    using that unfolding check_rows_eq set_upd_where by (elim imageE) (rule bexI, simp_all)
  show "ack_due now s k = ack_due now s k'" if "sla_view k = sla_view k'" for k k' now s
    using status_same [OF that] by (simp add: ack_due_def)
qed (simp_all add: check_same_views check_keeps)

interpretation resolve: sla_clock cs_slaResolveBreachNotifiedAt resolve_due
proof
  show "\<exists>r\<in>set (case_rows db). cs_id r' = cs_id r \<and>
      (if cs_id r = cs_id k \<and> resolve_due now s k \<and> cs_slaResolveBreachNotifiedAt k = None
       then cs_slaResolveBreachNotifiedAt r' = Some now
       else cs_slaResolveBreachNotifiedAt r' = cs_slaResolveBreachNotifiedAt r)"
    if "r' \<in> set (case_rows (sla_check now ws s k db))" for r' now ws s k db
    using that unfolding check_rows_eq set_upd_where by (elim imageE) (rule bexI, simp_all)
  show "resolve_due now s k = resolve_due now s k'" if "sla_view k = sla_view k'" for k k' now s
    using status_same [OF that] by (simp add: resolve_due_def)
qed (simp_all add: check_same_views check_keeps)

text \<open>The three things an announcement writes, for each clock.\<close>

interpretation ack_audit: sla_counter cs_slaAckBreachNotifiedAt ack_due "sla_count ''case_sla_ack_breached''" "\<lambda>_. 1"
  by unfold_locales (simp_all add: check_counts)

interpretation ack_entry: sla_counter cs_slaAckBreachNotifiedAt ack_due "breach_entries ACK_BREACHED" "\<lambda>_. 1"
  by unfold_locales (simp_all add: check_counts)

interpretation ack_notice: sla_counter cs_slaAckBreachNotifiedAt ack_due "breach_notices ''acknowledge''"
  "\<lambda>s. if sla_notifyOnBreach s then 1 else 0"
  by unfold_locales (simp_all add: check_counts)

interpretation resolve_audit: sla_counter cs_slaResolveBreachNotifiedAt resolve_due "sla_count ''case_sla_resolve_breached''" "\<lambda>_. 1"
  by unfold_locales (simp_all add: check_counts)

interpretation resolve_entry: sla_counter cs_slaResolveBreachNotifiedAt resolve_due "breach_entries RESOLVE_BREACHED" "\<lambda>_. 1"
  by unfold_locales (simp_all add: check_counts)

interpretation resolve_notice: sla_counter cs_slaResolveBreachNotifiedAt resolve_due "breach_notices ''resolve''"
  "\<lambda>s. if sla_notifyOnBreach s then 1 else 0"
  by unfold_locales (simp_all add: check_counts)

text \<open>Between two states a clock of a case was announced: in the audit log, on the case's timeline and - when
  the workspace asks for it - by a notification; or nothing was written about it.\<close>

definition announces :: "string \<Rightarrow> string \<Rightarrow> string \<Rightarrow> string \<Rightarrow> bool \<Rightarrow> bool \<Rightarrow> case_db \<Rightarrow> case_db \<Rightarrow> bool" where
  "announces action message kind c announced notify db db' \<longleftrightarrow>
     sla_count action c db' = sla_count action c db + (if announced then 1 else 0) \<and>
     breach_entries message c db' = breach_entries message c db + (if announced then 1 else 0) \<and>
     breach_notices kind c db' = breach_notices kind c db + (if announced \<and> notify then 1 else 0)"

definition sla_live :: "case_db \<Rightarrow> case_row \<Rightarrow> bool" where
  "sla_live db k \<longleftrightarrow> isOpenCaseStatus (cs_status k) \<and> sla_enabled (getCaseSlaSettings (cs_workspace k) db)"

definition ack_fires :: "int \<Rightarrow> case_db \<Rightarrow> case_row \<Rightarrow> bool" where
  "ack_fires now db k \<longleftrightarrow> sla_live db k \<and> ack_due now (getCaseSlaSettings (cs_workspace k) db) k \<and>
     cs_slaAckBreachNotifiedAt k = None"

definition resolve_fires :: "int \<Rightarrow> case_db \<Rightarrow> case_row \<Rightarrow> bool" where
  "resolve_fires now db k \<longleftrightarrow> sla_live db k \<and> resolve_due now (getCaseSlaSettings (cs_workspace k) db) k \<and>
     cs_slaResolveBreachNotifiedAt k = None"

lemma fires_iff: "ack.fires now db k \<longleftrightarrow> ack_fires now db k" "resolve.fires now db k \<longleftrightarrow> resolve_fires now db k"
  by (auto simp: ack.fires_def ack_fires_def resolve.fires_def resolve_fires_def sla_live_def)

text \<open>The row of a case after a run: each clock's stamp.\<close>

lemma tick_stamps:
  assumes "k \<in> set (case_rows db)" "distinct (map cs_id (case_rows db))"
  shows "\<exists>k'\<in>set (case_rows (runCaseSlaMonitorTick now db)). cs_id k' = cs_id k \<and>
    cs_slaAckBreachNotifiedAt k' = (if ack_fires now db k then Some now else cs_slaAckBreachNotifiedAt k) \<and>
    cs_slaResolveBreachNotifiedAt k' = (if resolve_fires now db k then Some now else cs_slaResolveBreachNotifiedAt k)"
proof -
  obtain a where a: "a \<in> set (case_rows (runCaseSlaMonitorTick now db))" "cs_id a = cs_id k"
      "cs_slaAckBreachNotifiedAt a = (if ack_fires now db k then Some now else cs_slaAckBreachNotifiedAt k)"
    using ack.tick_row [OF assms] unfolding fires_iff by blast
  obtain b where b: "b \<in> set (case_rows (runCaseSlaMonitorTick now db))" "cs_id b = cs_id k"
      "cs_slaResolveBreachNotifiedAt b = (if resolve_fires now db k then Some now else cs_slaResolveBreachNotifiedAt k)"
    using resolve.tick_row [OF assms] unfolding fires_iff by blast
  have "distinct (map cs_id (case_rows (runCaseSlaMonitorTick now db)))"
    using assms(2) same_views_ids [OF ack.tick_views(1) [OF assms(2)]] by simp
  then have "a = b" using same_case a b by metis
  then show ?thesis using a b by blast
qed

text \<open>
  C8: An SLA breach is announced, and announced once. Take any case of any workspace, and one run of the monitor. If
  the case is open, its workspace has SLAs enabled, its acknowledge (resolve) clock has run out and is not stamped,
  the run stamps it with the time of the run and writes exactly one audit entry, exactly one timeline entry and, when
  the workspace notifies on breaches, sends exactly one notification; otherwise it leaves the stamp and writes nothing
  about that clock. However often and whenever the monitor runs after that, an announced clock is not announced
  again. So after a run no open case has a clock that has run out without its stamp, and over any runs each clock
  of a case gets at most one audit entry, none when it was stamped.
\<close>

theorem sla_breach_announced_once:
  assumes "distinct (map cs_id (case_rows db))"
  shows "(\<forall>k\<in>set (case_rows db). let after = runCaseSlaMonitorTick now db; later = fold runCaseSlaMonitorTick ticks after;
        notify = sla_notifyOnBreach (getCaseSlaSettings (cs_workspace k) db) in
      (\<exists>k'\<in>set (case_rows after). cs_id k' = cs_id k \<and>
         cs_slaAckBreachNotifiedAt k' = (if ack_fires now db k then Some now else cs_slaAckBreachNotifiedAt k) \<and>
         cs_slaResolveBreachNotifiedAt k' = (if resolve_fires now db k then Some now else cs_slaResolveBreachNotifiedAt k)) \<and>
      announces ''case_sla_ack_breached'' ACK_BREACHED ''acknowledge'' (cs_id k) (ack_fires now db k) notify db after \<and>
      announces ''case_sla_resolve_breached'' RESOLVE_BREACHED ''resolve'' (cs_id k) (resolve_fires now db k) notify db after \<and>
      (ack_fires now db k \<or> cs_slaAckBreachNotifiedAt k \<noteq> None \<longrightarrow>
         announces ''case_sla_ack_breached'' ACK_BREACHED ''acknowledge'' (cs_id k) (ack_fires now db k) notify db later) \<and>
      (resolve_fires now db k \<or> cs_slaResolveBreachNotifiedAt k \<noteq> None \<longrightarrow>
         announces ''case_sla_resolve_breached'' RESOLVE_BREACHED ''resolve'' (cs_id k) (resolve_fires now db k) notify db later)) \<and>
    (\<forall>k\<in>set (case_rows (runCaseSlaMonitorTick now db)).
      isOpenCaseStatus (cs_status k) \<and> sla_enabled (getCaseSlaSettings (cs_workspace k) db) \<longrightarrow>
        (ack_due now (getCaseSlaSettings (cs_workspace k) db) k \<longrightarrow> cs_slaAckBreachNotifiedAt k \<noteq> None) \<and>
        (resolve_due now (getCaseSlaSettings (cs_workspace k) db) k \<longrightarrow> cs_slaResolveBreachNotifiedAt k \<noteq> None)) \<and>
    (\<forall>c. sla_count ''case_sla_ack_breached'' c (fold runCaseSlaMonitorTick ticks db)
        \<le> sla_count ''case_sla_ack_breached'' c db + (if ack.unannounced c db then 1 else 0) \<and>
      sla_count ''case_sla_resolve_breached'' c (fold runCaseSlaMonitorTick ticks db)
        \<le> sla_count ''case_sla_resolve_breached'' c db + (if resolve.unannounced c db then 1 else 0))"
proof (intro conjI ballI allI)
  fix k assume k: "k \<in> set (case_rows db)"
  note stamps = tick_stamps [OF k assms, of now]
  note ack = ack_audit.tick_cnt [OF k assms, of now] ack_entry.tick_cnt [OF k assms, of now] ack_notice.tick_cnt [OF k assms, of now]
  note resolve = resolve_audit.tick_cnt [OF k assms, of now] resolve_entry.tick_cnt [OF k assms, of now] resolve_notice.tick_cnt [OF k assms, of now]
  note ack_later = ack_audit.announced_once [OF k assms, of now ticks] ack_entry.announced_once [OF k assms, of now ticks]
    ack_notice.announced_once [OF k assms, of now ticks]
  note resolve_later = resolve_audit.announced_once [OF k assms, of now ticks] resolve_entry.announced_once [OF k assms, of now ticks]
    resolve_notice.announced_once [OF k assms, of now ticks]
  show "let after = runCaseSlaMonitorTick now db; later = fold runCaseSlaMonitorTick ticks after;
        notify = sla_notifyOnBreach (getCaseSlaSettings (cs_workspace k) db) in
      (\<exists>k'\<in>set (case_rows after). cs_id k' = cs_id k \<and>
         cs_slaAckBreachNotifiedAt k' = (if ack_fires now db k then Some now else cs_slaAckBreachNotifiedAt k) \<and>
         cs_slaResolveBreachNotifiedAt k' = (if resolve_fires now db k then Some now else cs_slaResolveBreachNotifiedAt k)) \<and>
      announces ''case_sla_ack_breached'' ACK_BREACHED ''acknowledge'' (cs_id k) (ack_fires now db k) notify db after \<and>
      announces ''case_sla_resolve_breached'' RESOLVE_BREACHED ''resolve'' (cs_id k) (resolve_fires now db k) notify db after \<and>
      (ack_fires now db k \<or> cs_slaAckBreachNotifiedAt k \<noteq> None \<longrightarrow>
         announces ''case_sla_ack_breached'' ACK_BREACHED ''acknowledge'' (cs_id k) (ack_fires now db k) notify db later) \<and>
      (resolve_fires now db k \<or> cs_slaResolveBreachNotifiedAt k \<noteq> None \<longrightarrow>
         announces ''case_sla_resolve_breached'' RESOLVE_BREACHED ''resolve'' (cs_id k) (resolve_fires now db k) notify db later)"
    unfolding Let_def announces_def
    by (intro conjI impI stamps) (simp_all add: ack resolve ack_later [simplified] resolve_later [simplified] fires_iff)
qed (use ack.tick_announces [OF assms] resolve.tick_announces [OF assms] ack_audit.ticks_cnt_le [OF assms]
    resolve_audit.ticks_cnt_le [OF assms] in auto)

theorem sla_breach_announced_once_witness:
  "let after = runCaseSlaMonitorTick 300000000 sample_case_db; later = fold runCaseSlaMonitorTick [400000000, 500000000] after in
   sla_count ''case_sla_ack_breached'' ''c1'' after = 1 \<and> breach_entries ACK_BREACHED ''c1'' after = 1 \<and>
   breach_notices ''acknowledge'' ''c1'' after = 1 \<and> sla_count ''case_sla_resolve_breached'' ''c1'' later = 1 \<and>
   breach_entries RESOLVE_BREACHED ''c1'' later = 1 \<and> breach_notices ''resolve'' ''c1'' later = 1"
proof -
  let ?k = "violation_case ''c1'' 0 ''w'' sample_policy sample_device None ''v1''"
  have rows: "distinct (map cs_id (case_rows sample_case_db))" "?k \<in> set (case_rows sample_case_db)"
    by (simp_all add: sample_case_rows)
  have settings: "getCaseSlaSettings ''w'' sample_case_db = \<lparr>sla_enabled = True, sla_notifyOnBreach = True,
      sla_thresholds = DEFAULT_CASE_SLA_THRESHOLDS\<rparr>"
    by (simp add: getCaseSlaSettings_def sample_case_db_def upsertCaseForViolation_def empty_case_db_def latest_def
        addCaseTimelineEntry_def insert_case_def backfillThresholds_def DEFAULT_CASE_SLA_THRESHOLDS_def)
  have "cs_id ?k = ''c1''" "cs_workspace ?k = ''w''" by (simp_all add: violation_case_def new_case_def)
  moreover have "ack_fires 300000000 sample_case_db ?k" "resolve_fires 300000000 sample_case_db ?k"
    by (simp_all add: ack_fires_def resolve_fires_def sla_live_def settings violation_case_def new_case_def ack_due_def
        resolve_due_def caseSlaStatus_def Let_def sla_of_def DEFAULT_CASE_SLA_THRESHOLDS_def isOpenCaseStatus_def
        CASE_OPEN_STATUSES_def sample_policy_def assignee_of_def)
  moreover have "sla_count a ''c1'' sample_case_db = 0" "breach_entries m ''c1'' sample_case_db = 0"
    "breach_notices kd ''c1'' sample_case_db = 0" for a m kd
    by (auto simp: sla_count_def breach_entries_def breach_notices_def sample_case_db_def upsertCaseForViolation_def
        empty_case_db_def latest_def addCaseTimelineEntry_def insert_case_def)
  ultimately show ?thesis
    using bspec [OF sla_breach_announced_once [OF rows(1), of 300000000 "[400000000, 500000000]", THEN conjunct1] rows(2)]
    by (simp add: Let_def announces_def settings)
qed

section \<open>The CSV export read back\<close>

datatype csv_state = CellStart | InQuotes | QuoteSeen

text \<open>A reader of RFC 4180: cells, rows; a doubled quote inside a quoted cell is one quote.\<close>

fun csv_read :: "csv_state \<Rightarrow> string \<Rightarrow> string list \<Rightarrow> string \<Rightarrow> string list list" where
  "csv_read st cell row [] = [row @ [cell]]"
| "csv_read InQuotes cell row (c # cs) =
     (if c = CHR 0x22 then csv_read QuoteSeen cell row cs else csv_read InQuotes (cell @ [c]) row cs)"
| "csv_read st cell row (c # cs) =
     (if c = CHR 0x22 then
        (if st = QuoteSeen then csv_read InQuotes (cell @ [c]) row cs else csv_read InQuotes cell row cs)
      else if c = CHR '','' then csv_read CellStart [] (row @ [cell]) cs
      else if c = CHR 0x0A then (row @ [cell]) # csv_read CellStart [] [] cs
      else csv_read st (cell @ [c]) row cs)"

definition csv_parse :: "string \<Rightarrow> string list list" where
  "csv_parse s = csv_read CellStart [] [] s"

lemma csv_read_quoted:
  "rest = [] \<or> hd rest \<noteq> CHR 0x22 \<Longrightarrow>
   csv_read InQuotes cell row (double_quotes s @ CHR 0x22 # rest) = csv_read QuoteSeen (cell @ s) row rest"
  by (induction s arbitrary: cell) auto

lemma csv_read_cell:
  "rest = [] \<or> hd rest \<noteq> CHR 0x22 \<Longrightarrow> csv_read CellStart [] row (csv_cell s @ rest) = csv_read QuoteSeen s row rest"
  by (simp add: csv_cell_def csv_read_quoted)

lemma csv_read_row:
  "cells \<noteq> [] \<Longrightarrow> rest = [] \<or> hd rest = CHR 0x0A \<Longrightarrow>
   csv_read CellStart [] row (joinWith '','' (map csv_cell cells) @ rest) =
     (case rest of [] \<Rightarrow> [row @ cells] | _ # later \<Rightarrow> (row @ cells) # csv_read CellStart [] [] later)"
proof (induction cells arbitrary: row)
  case (Cons c cells)
  show ?case
  proof (cases cells)
    case Nil
    then show ?thesis using Cons.prems(2) csv_read_cell [of "[]" row c] by (cases rest) (auto simp: csv_read_cell)
  next
    case (Cons d ds)
    then have "csv_read CellStart [] row (joinWith '','' (map csv_cell (c # cells)) @ rest) =
        csv_read CellStart [] (row @ [c]) (joinWith '','' (map csv_cell cells) @ rest)"
      by (simp add: csv_read_cell)
    then show ?thesis using Cons.IH [of "row @ [c]"] Cons.prems(2) Cons by (simp split: list.splits)
  qed
qed simp

lemma csv_parse_rows:
  "rows \<noteq> [] \<Longrightarrow> \<forall>r\<in>set rows. r \<noteq> [] \<Longrightarrow>
   csv_parse (joinWith [CHR 0x0A] (map (\<lambda>r. joinWith '','' (map csv_cell r)) rows)) = rows"
  unfolding csv_parse_def
proof (induction rows)
  case (Cons r rows)
  then show ?case
    using csv_read_row [of r "[]" "[]"]
      csv_read_row [of r "CHR 0x0A # joinWith [CHR 0x0A] (map (\<lambda>r. joinWith '','' (map csv_cell r)) rows)" "[]"]
    by (cases rows) simp_all
qed simp

text \<open>
  C28: Reading the CSV export of a workspace's cases back gives the header and, for every case in the order of
  creation, exactly its ten columns, whatever quotes, commas and line breaks its texts contain.
\<close>

theorem exportCasesCsv_roundtrip:
  "csv_parse (exportCasesCsv ws db) = case_csv_rows ws db"
  unfolding exportCasesCsv_def
  by (rule csv_parse_rows) (auto simp: case_csv_rows_def CSV_HEADER_def case_csv_row_def)

end
