(* ===== verification/CompliancePass.thy ===== *)
theory CompliancePass
  imports StepExecutors CaseNotices
begin

text \<open>
  The compliance engine (\<open>modules/compliance/compliance.service.ts\<close>, evaluation part, and \<open>complianceJobs.ts\<close>): the
  circuit breaker of auto-run, the tag and attribute markers, the violation alerts, the evaluation pass itself,
  the forced evaluations with their cooldowns, the scheduler tick, and the review queue of violations. A pass runs
  on \<open>comp_db\<close> with an accumulator (\<open>pass_acc\<close>) for what the source gathers in local variables and writes at the end.
\<close>

section \<open>Environment\<close>

text \<open>
  \<open>pn_step\<close> gives the fleet, the stores the conditions read, the Applivery calls and the clock; \<open>pn_case\<close> the
  workflows and the integrations; \<open>pn_chat\<close> the answer to the last webhook message; \<open>pn_automation\<close> the workspaces
  with an automation credential and \<open>pn_bearer\<close> the token read later; the random ids are indexed by the number of the violation.
\<close>

record pass_env =
  pn_case :: case_env
  pn_step :: step_env
  pn_chat :: "alert list \<Rightarrow> string + api_response"
  pn_violationId :: "nat \<Rightarrow> string"
  pn_caseId :: "nat \<Rightarrow> string"
  pn_runId :: "nat \<Rightarrow> string"
  pn_automation :: "string list"
  pn_bearer :: "string \<Rightarrow> string option"

definition pass_now :: "pass_env \<Rightarrow> int" where
  "pass_now env = sv_now (pn_step env)"

definition with_cases :: "(case_db \<Rightarrow> case_db) \<Rightarrow> comp_db \<Rightarrow> comp_db" where
  "with_cases f db = db\<lparr>cd_cases := f (cd_cases db)\<rparr>"

definition RISK_TIER_RANK :: "(string \<times> nat) list" where
  "RISK_TIER_RANK = [(''low'', 0), (''medium'', 1), (''high'', 2), (''critical'', 3)]"

definition risk_rank :: "string \<Rightarrow> nat \<Rightarrow> nat" where
  "risk_rank tier other = (case map_of RISK_TIER_RANK tier of Some r \<Rightarrow> r | None \<Rightarrow> other)"

definition AUTORUN_CIRCUIT_BREAKER_THRESHOLD :: nat where
  "AUTORUN_CIRCUIT_BREAKER_THRESHOLD = 3"

section \<open>The circuit breaker\<close>

definition lookupWorkflowRun :: "string \<Rightarrow> run_system \<Rightarrow> string \<Rightarrow> run_view option" where
  "lookupWorkflowRun workspaceSlug sys runId =
     (case getWorkflowRun workspaceSlug runId sys of Inl _ \<Rightarrow> None | Inr v \<Rightarrow> Some v)"

definition runFullyFailed :: "run_view \<Rightarrow> bool" where
  "runFullyFailed run \<longleftrightarrow> vw_results run \<noteq> [] \<and>
     \<not> list_ex (\<lambda>r. dr_finalStatus r = Some Success \<or> dr_finalStatus r = Some Partial) (vw_results run)"

text \<open>The scan of the violations: whether it meets the threshold of failed runs before one that did not fail.\<close>

fun breaker_scan :: "(string \<Rightarrow> run_view option) \<Rightarrow> string \<Rightarrow> nat \<Rightarrow> violation_row list \<Rightarrow> bool" where
  "breaker_scan lookup policyId checked [] = False"
| "breaker_scan lookup policyId checked (v # vs) =
     (if vi_policyId v \<noteq> policyId \<or> vi_status v \<noteq> ''auto_fired'' \<or> filled (vi_workflowRunId v) [] = [] then
        breaker_scan lookup policyId checked vs
      else (case lookup (filled (vi_workflowRunId v) []) of
          None \<Rightarrow> breaker_scan lookup policyId checked vs
        | Some run \<Rightarrow>
            if vw_status run = ''running'' \<or> vw_status run = ''waiting'' then breaker_scan lookup policyId checked vs
            else if \<not> runFullyFailed run then False
            else if AUTORUN_CIRCUIT_BREAKER_THRESHOLD \<le> checked + 1 then True
            else breaker_scan lookup policyId (checked + 1) vs))"

definition BREAKER_REASON :: string where
  "BREAKER_REASON = ''Last '' @ show_nat AUTORUN_CIRCUIT_BREAKER_THRESHOLD @
     '' auto-run workflow executions for this policy failed on every targeted device''"

definition autorunCircuitBreakerCheck :: "string \<Rightarrow> string \<Rightarrow> violation_row list \<Rightarrow> run_system \<Rightarrow> string option" where
  "autorunCircuitBreakerCheck workspaceSlug policyId violations sys =
     (if breaker_scan (lookupWorkflowRun workspaceSlug sys) policyId 0 violations then Some BREAKER_REASON else None)"

section \<open>Markers\<close>

definition write_device :: "mdm_env \<Rightarrow> string \<Rightarrow> fleet_device \<Rightarrow> jsval \<Rightarrow> mdm_state \<Rightarrow> bool \<times> mdm_state" where
  "write_device env path d payload st =
     (case send_call env (ApiPut (device_url (orgBaseUrl env) path (fd_id d)) payload) st of
        (Inl _, st1) \<Rightarrow> (False, st1)
      | (Inr res, st1) \<Rightarrow> (status res < 300, st1))"

text \<open>Whether the device changed, the device as the pass sees it afterwards, and the calls.\<close>

definition applyComplianceTag :: "mdm_env \<Rightarrow> fleet_device \<Rightarrow> string \<Rightarrow> bool \<Rightarrow> mdm_state \<Rightarrow> bool \<times> fleet_device \<times> mdm_state" where
  "applyComplianceTag env d tag present st =
     (case platformPathSegment (fd_platform d) of
        None \<Rightarrow> (False, d, st)
      | Some path \<Rightarrow>
          if tag = [] \<or> present = (tag \<in> set (fd_tags d)) then (False, d, st)
          else
            (let newTags = (if present then fd_tags d @ [tag] else filter (\<lambda>t. t \<noteq> tag) (fd_tags d))
             in case write_device env path d (JObj [(''tags'', JArr (map JStr newTags))]) st of
                  (ok, st1) \<Rightarrow> (ok, if ok then d\<lparr>fd_tags := newTags\<rparr> else d, st1)))"

definition attribute_body :: "string list \<Rightarrow> jsval" where
  "attribute_body ids =
     JObj [(''smartAttributeAssignments'', JArr (map (\<lambda>i. JObj [(''smartAttributeId'', JStr i)]) ids))]"

definition applyComplianceSmartAttribute :: "mdm_env \<Rightarrow> fleet_device \<Rightarrow> string \<Rightarrow> bool \<Rightarrow> mdm_state \<Rightarrow>
    bool \<times> fleet_device \<times> mdm_state" where
  "applyComplianceSmartAttribute env d smartAttributeId present st =
     (case platformPathSegment (fd_platform d) of
        None \<Rightarrow> (False, d, st)
      | Some path \<Rightarrow>
          if smartAttributeId = [] \<or> present = (smartAttributeId \<in> set (fd_smartAttributeAssignmentIds d)) then (False, d, st)
          else
            (let newIds = (if present then fd_smartAttributeAssignmentIds d @ [smartAttributeId]
                           else filter (\<lambda>t. t \<noteq> smartAttributeId) (fd_smartAttributeAssignmentIds d))
             in case write_device env path d (attribute_body newIds) st of
                  (ok, st1) \<Rightarrow> (ok, if ok then d\<lparr>fd_smartAttributeAssignmentIds := newIds\<rparr> else d, st1)))"

definition invalidate_devices :: "string \<Rightarrow> comp_db \<Rightarrow> comp_db" where
  "invalidate_devices workspaceSlug =
     with_cases (\<lambda>c. c\<lparr>case_effects := case_effects c @ [DevicesCacheInvalidated workspaceSlug]\<rparr>)"

definition removeComplianceMarkersForDevice :: "pass_env \<Rightarrow> string \<Rightarrow> string \<Rightarrow> string \<Rightarrow> comp_db \<Rightarrow> comp_db" where
  "removeComplianceMarkersForDevice env workspaceSlug policyId deviceId db =
     (case find_policy workspaceSlug policyId db of
        None \<Rightarrow> db
      | Some policy \<Rightarrow>
          (let tag = filled (pc_nonComplianceTag (pol_cfg policy)) [];
               attr = filled (pc_nonComplianceSmartAttributeId (pol_cfg policy)) []
           in if tag = [] \<and> attr = [] then db
              else case sv_fleet (pn_step env) workspaceSlug (cd_mdm db) of
                  Inl _ \<Rightarrow> db
                | Inr devices \<Rightarrow>
                    (case List.find (\<lambda>d. fd_id d = deviceId) devices of
                       None \<Rightarrow> db
                     | Some d \<Rightarrow>
                         (let (c1, d1, st1) = applyComplianceTag (sv_mdm (pn_step env)) d tag False (cd_mdm db);
                              (c2, _, st2) = applyComplianceSmartAttribute (sv_mdm (pn_step env)) d1 attr False st1;
                              db1 = db\<lparr>cd_mdm := st2\<rparr>
                          in if c1 \<or> c2 then invalidate_devices workspaceSlug db1 else db1))))"

record marker_action =
  ma_device :: fleet_device
  ma_tag :: "string option"
  ma_smartAttrId :: "string option"
  ma_present :: bool

definition marker_groups :: "marker_action list \<Rightarrow> marker_action list list" where
  "marker_groups actions =
     map (\<lambda>i. filter (\<lambda>a. fd_id (ma_device a) = i) actions) (js_set (map (\<lambda>a. fd_id (ma_device a)) actions))"

text \<open>One action on the device as the earlier actions of its group left it.\<close>

definition apply_marker :: "mdm_env \<Rightarrow> marker_action \<Rightarrow> bool \<times> fleet_device \<times> mdm_state \<Rightarrow> bool \<times> fleet_device \<times> mdm_state" where
  "apply_marker env a acc =
     (case acc of (changed, d, st) \<Rightarrow>
        (case (if filled (ma_tag a) [] \<noteq> [] then applyComplianceTag env d (filled (ma_tag a) []) (ma_present a) st
               else applyComplianceSmartAttribute env d (filled (ma_smartAttrId a) []) (ma_present a) st) of
           (c, d1, st1) \<Rightarrow> (changed \<or> c, d1, st1)))"

definition apply_group :: "mdm_env \<Rightarrow> marker_action list \<Rightarrow> bool \<times> mdm_state \<Rightarrow> bool \<times> mdm_state" where
  "apply_group env actions acc =
     (case actions of
        [] \<Rightarrow> acc
      | a # _ \<Rightarrow>
          (case fold (apply_marker env) actions (fst acc, ma_device a, snd acc) of
             (changed, _, st) \<Rightarrow> (changed, st)))"

definition write_markers :: "pass_env \<Rightarrow> string \<Rightarrow> marker_action list \<Rightarrow> comp_db \<Rightarrow> comp_db" where
  "write_markers env workspaceSlug actions db =
     (case fold (apply_group (sv_mdm (pn_step env))) (marker_groups actions) (False, cd_mdm db) of
        (changed, st) \<Rightarrow>
          (let db1 = db\<lparr>cd_mdm := st\<rparr> in if changed then invalidate_devices workspaceSlug db1 else db1))"

section \<open>Alerts\<close>

text \<open>\<open>sendChatText\<close>: the error it throws, if any.\<close>

definition chat_error :: "string + api_response \<Rightarrow> string option" where
  "chat_error answer =
     (case answer of
        Inl msg \<Rightarrow> Some msg
      | Inr res \<Rightarrow>
          if status res < 200 \<or> 300 \<le> status res then
            Some (''webhook returned '' @ show_nat (status res) @
              (if truthy (body res) then '': '' @ take 200 (json_text (body res)) else []))
          else (case body res of
              JStr s \<Rightarrow>
                (let b = js_trim s
                 in if b \<noteq> ''ok'' \<and> 0 < length b \<and> length b < 200 then
                      Some (''webhook accepted the request (HTTP 200) but reported: '' @ quoted b)
                    else None)
            | _ \<Rightarrow> None))"

definition send_alert :: "alert \<Rightarrow> comp_db \<Rightarrow> comp_db" where
  "send_alert a db = db\<lparr>cd_alerts := cd_alerts db @ [a]\<rparr>"

definition sendChatText :: "pass_env \<Rightarrow> string \<Rightarrow> string \<Rightarrow> comp_db \<Rightarrow> string option \<times> comp_db" where
  "sendChatText env url txt db =
     (let db1 = send_alert (ChatAlert url txt) db in (chat_error (pn_chat env (cd_alerts db1)), db1))"

text \<open>\<open>sendAlertEmail\<close> never throws; without an SMTP host or user it sends nothing.\<close>

definition sendAlertEmail :: "pass_env \<Rightarrow> string \<Rightarrow> string \<Rightarrow> string \<Rightarrow> comp_db \<Rightarrow> comp_db" where
  "sendAlertEmail env subject txt recipients db =
     (case Option.bind (sv_settings (pn_step env)) ns_smtp of
        None \<Rightarrow> db
      | Some sm \<Rightarrow>
          if sm_host sm = [] \<or> filled (sm_user sm) [] = [] \<or> recipients = [] then db
          else send_alert (EmailAlert (filled (sm_from sm) (filled (sm_user sm) [])) recipients subject txt) db)"

definition limit_reached :: "int option \<Rightarrow> int \<Rightarrow> bool" where
  "limit_reached cap sentToday = (case cap of None \<Rightarrow> False | Some c \<Rightarrow> c \<le> sentToday)"

definition limit_message :: "string \<Rightarrow> int option \<Rightarrow> string \<Rightarrow> string" where
  "limit_message channel cap todayKey =
     channel @ '': daily limit reached ('' @ show_int (case cap of Some c \<Rightarrow> c | None \<Rightarrow> 0) @ ''/day) '' @ em_dash @
     '' skipped, resets after '' @ todayKey"

definition trimmed_setting :: "jsval \<Rightarrow> string" where
  "trimmed_setting v = (case v of JStr s \<Rightarrow> js_trim s | _ \<Rightarrow> [])"

definition alert_url :: "pass_env \<Rightarrow> policy_cfg \<Rightarrow> string" where
  "alert_url env cfg =
     (let own = js_trim (filled (pc_alertWebhookUrl cfg) [])
      in if own \<noteq> [] then own
         else (case sv_settings (pn_step env) of None \<Rightarrow> [] | Some s \<Rightarrow> trimmed_setting (ns_webhookUrl s)))"

text \<open>A channel: the errors it adds, its counter afterwards, and what it sent.\<close>

definition alert_webhook :: "pass_env \<Rightarrow> policy_cfg \<Rightarrow> string \<Rightarrow> string \<Rightarrow> int \<Rightarrow> comp_db \<Rightarrow> (string list \<times> int) \<times> comp_db" where
  "alert_webhook env cfg todayKey txt sentToday db =
     (if \<not> pc_alertViaWebhook cfg then (([], sentToday), db)
      else if limit_reached (pc_alertWebhookMaxPerDay cfg) sentToday then
        (([limit_message ''webhook'' (pc_alertWebhookMaxPerDay cfg) todayKey], sentToday), db)
      else if alert_url env cfg = [] then
        (([''webhook: no webhook URL configured (set one on this policy or in Settings > General)''], sentToday), db)
      else (case sendChatText env (alert_url env cfg) txt db of
          (Some e, db1) \<Rightarrow> (([''webhook: '' @ e], sentToday), db1)
        | (None, db1) \<Rightarrow> (([], sentToday + 1), db1)))"

definition alert_email :: "pass_env \<Rightarrow> policy_cfg \<Rightarrow> string \<Rightarrow> string \<Rightarrow> string \<Rightarrow> int \<Rightarrow> comp_db \<Rightarrow>
    (string list \<times> int) \<times> comp_db" where
  "alert_email env cfg todayKey subject txt sentToday db =
     (if \<not> pc_alertViaEmail cfg then (([], sentToday), db)
      else if limit_reached (pc_alertEmailMaxPerDay cfg) sentToday then
        (([limit_message ''email'' (pc_alertEmailMaxPerDay cfg) todayKey], sentToday), db)
      else if js_trim (filled (pc_alertEmailRecipients cfg) []) = [] then
        (([''email: no recipients configured on this policy''], sentToday), db)
      else (([], sentToday + 1), sendAlertEmail env subject txt (filled (pc_alertEmailRecipients cfg) []) db))"

definition plural_s :: "nat \<Rightarrow> string" where
  "plural_s n = (if n = 1 then [] else ''s'')"

definition alert_subject :: "string \<Rightarrow> nat \<Rightarrow> string" where
  "alert_subject name n =
     ''[Compliance] '' @ quoted name @ '' '' @ em_dash @ '' '' @ show_nat n @ '' new violation'' @ plural_s n"

definition alert_text :: "string \<Rightarrow> nat \<Rightarrow> nat \<Rightarrow> string" where
  "alert_text name n devices =
     show_nat n @ '' device'' @ plural_s n @ '' newly violated Compliance Policy '' @ quoted name @
     '' this evaluation pass ('' @ show_nat devices @ '' device'' @ plural_s devices @
     '' in scope). Review in Compliance > Violations.''"

definition today_key :: "pass_env \<Rightarrow> string" where
  "today_key env = take 10 (toISOString (pass_now env))"

definition sent_on :: "string \<Rightarrow> policy_row \<Rightarrow> int \<times> int" where
  "sent_on todayKey p =
     (if pol_alertCountersDate p \<noteq> Some todayKey then (0, 0)
      else (pol_alertWebhookSentToday p, pol_alertEmailSentToday p))"

definition firePolicyViolationAlert :: "pass_env \<Rightarrow> policy_row \<Rightarrow> nat \<Rightarrow> nat \<Rightarrow> comp_db \<Rightarrow> comp_db" where
  "firePolicyViolationAlert env policy newViolationCount deviceCount db =
     (let cfg = pol_cfg policy; todayKey = today_key env;
          txt = alert_text (pc_name cfg) newViolationCount deviceCount
      in if \<not> pc_alertOnViolation cfg \<or> newViolationCount < 1 then db
         else if \<not> pc_alertViaWebhook cfg \<and> \<not> pc_alertViaEmail cfg then db
         else (case alert_webhook env cfg todayKey txt (fst (sent_on todayKey policy)) db of
             ((errs1, webhookSent), db1) \<Rightarrow>
               (case alert_email env cfg todayKey (alert_subject (pc_name cfg) newViolationCount) txt
                       (snd (sent_on todayKey policy)) db1 of
                  ((errs2, emailSent), db2) \<Rightarrow>
                    update_policy (pol_id policy)
                      (\<lambda>p. p\<lparr>pol_lastAlertSentAt := Some (pass_now env),
                         pol_lastAlertError := (if errs1 @ errs2 = [] then None
                                                else Some (take 500 (joinWith ''; '' (errs1 @ errs2)))),
                         pol_alertWebhookSentToday := webhookSent, pol_alertEmailSentToday := emailSent,
                         pol_alertCountersDate := Some todayKey\<rparr>) db2)))"

section \<open>The evaluation pass\<close>

record evaluation_summary =
  es_evaluatedPolicies :: nat
  es_devicesChecked :: nat
  es_violationsFound :: nat
  es_autoFired :: nat
  es_queuedForReview :: nat
  es_recovered :: nat
  es_autoRunSafetyBlocked :: nat

definition empty_summary :: "nat \<Rightarrow> evaluation_summary" where
  "empty_summary n = \<lparr>es_evaluatedPolicies = n, es_devicesChecked = 0, es_violationsFound = 0, es_autoFired = 0,
     es_queuedForReview = 0, es_recovered = 0, es_autoRunSafetyBlocked = 0\<rparr>"

text \<open>The variables of the pass; the last three are the counters of the policy at hand.\<close>

record pass_acc =
  px_db :: comp_db
  px_state :: comp_state
  px_rows :: "violation_row list"
  px_audit :: "audit_input list"
  px_markers :: "marker_action list"
  px_notify :: "(string \<times> string) list"
  px_alerts :: "(policy_row \<times> nat \<times> nat) list"
  px_fired :: "(string \<times> string) list"
  px_summary :: evaluation_summary
  px_policyAutofired :: nat
  px_policyNew :: nat
  px_policyRecovered :: nat

text \<open>What the pass fixes per policy before its devices.\<close>

record policy_ctx =
  cx_workspace :: string
  cx_actor :: string
  cx_policy :: policy_row
  cx_workflow :: "workflow_row option"
  cx_escalated :: "workflow_row option"
  cx_blockReason :: "string option"

definition on_summary :: "(evaluation_summary \<Rightarrow> evaluation_summary) \<Rightarrow> pass_acc \<Rightarrow> pass_acc" where
  "on_summary f acc = acc\<lparr>px_summary := f (px_summary acc)\<rparr>"

definition on_cases :: "(case_db \<Rightarrow> case_db) \<Rightarrow> pass_acc \<Rightarrow> pass_acc" where
  "on_cases f acc = acc\<lparr>px_db := with_cases f (px_db acc)\<rparr>"

definition push_audit :: "audit_input \<Rightarrow> pass_acc \<Rightarrow> pass_acc" where
  "push_audit ev acc = acc\<lparr>px_audit := px_audit acc @ [ev]\<rparr>"

definition violation_event :: "policy_ctx \<Rightarrow> fleet_device \<Rightarrow> string \<Rightarrow> string \<Rightarrow> string \<Rightarrow> pass_acc \<Rightarrow> pass_acc" where
  "violation_event ctx d action severity message =
     push_audit (audit_about ''violation'' action (cx_actor ctx) ''device'' (fd_id d) (fd_displayName d) message (Some severity))"

definition violated_text :: "policy_ctx \<Rightarrow> fleet_device \<Rightarrow> string" where
  "violated_text ctx d =
     fd_displayName d @ '' violated '' @ quoted (pc_name (pol_cfg (cx_policy ctx))) @ '' '' @ em_dash @ '' ''"

definition push_markers :: "policy_ctx \<Rightarrow> fleet_device \<Rightarrow> bool \<Rightarrow> pass_acc \<Rightarrow> pass_acc" where
  "push_markers ctx d present acc =
     (let cfg = pol_cfg (cx_policy ctx);
          tag = filled (pc_nonComplianceTag cfg) []; attr = filled (pc_nonComplianceSmartAttributeId cfg) []
      in acc\<lparr>px_markers := px_markers acc @
           (if tag = [] then [] else [\<lparr>ma_device = d, ma_tag = Some tag, ma_smartAttrId = None, ma_present = present\<rparr>]) @
           (if attr = [] then [] else [\<lparr>ma_device = d, ma_tag = None, ma_smartAttrId = Some attr, ma_present = present\<rparr>])\<rparr>)"

definition push_notify :: "string \<Rightarrow> string option \<Rightarrow> pass_acc \<Rightarrow> pass_acc" where
  "push_notify caseId ev acc =
     (case ev of None \<Rightarrow> acc | Some e \<Rightarrow> acc\<lparr>px_notify := px_notify acc @ [(caseId, e)]\<rparr>)"

text \<open>A device that no longer violates the policy and was flagged.\<close>

definition recover_device :: "pass_env \<Rightarrow> policy_ctx \<Rightarrow> fleet_device \<Rightarrow> suppression \<Rightarrow> pass_acc \<Rightarrow> pass_acc" where
  "recover_device env ctx d suppressed acc =
     (let p = cx_policy ctx; key = suppression_key (pol_id p) (fd_id d);
          acc1 = violation_event ctx d ''violation_recovered'' ''info''
                   (fd_displayName d @ '' recovered from '' @ quoted (pc_name (pol_cfg p)))
                   (push_markers ctx d False
                     (on_summary (\<lambda>s. s\<lparr>es_recovered := es_recovered s + 1\<rparr>)
                       (acc\<lparr>px_state := map_del key (px_state acc), px_policyRecovered := px_policyRecovered acc + 1\<rparr>)))
      in case markCaseRecovered (pass_now env) (cx_workspace ctx) (Some (su_violationId suppressed))
               (pc_autoResolveCaseOnRecovery (pol_cfg p)) (cd_cases (px_db acc1)) of
           (None, cdb) \<Rightarrow> on_cases (\<lambda>_. cdb) acc1
         | (Some (caseId, ev), cdb) \<Rightarrow> push_notify caseId ev (on_cases (\<lambda>_. cdb) acc1))"

definition device_ref_of :: "fleet_device \<Rightarrow> device_ref" where
  "device_ref_of d =
     \<lparr>ref_id = fd_id d, ref_displayName = Some (fd_displayName d), ref_platform = fd_platform d,
      ref_platformDeviceId = fd_platformDeviceId d,
      ref_fields = JObj [(''osLifecycleStatus'', coalesce (own_prop (fd_json d) ''osLifecycleStatus'') JNull)]\<rparr>"

definition case_policy_of :: "policy_row \<Rightarrow> case_policy" where
  "case_policy_of p =
     \<lparr>cp_id = pol_id p, cp_name = pc_name (pol_cfg p), cp_severity = Some (pc_severity (pol_cfg p)),
      cp_mitreTechniques = pc_mitreTechniques (pol_cfg p), cp_caseAssignee = pc_caseAssignee (pol_cfg p)\<rparr>"

text \<open>The case of a new violation, when the policy opens one.\<close>

definition open_case :: "pass_env \<Rightarrow> policy_ctx \<Rightarrow> fleet_device \<Rightarrow> nat \<Rightarrow> pass_acc \<Rightarrow> string option \<times> pass_acc" where
  "open_case env ctx d n acc =
     (if \<not> pc_openCaseOnViolation (pol_cfg (cx_policy ctx)) then (None, acc)
      else (case upsertCaseForViolation (pn_caseId env n) (pass_now env) (cx_workspace ctx) (case_policy_of (cx_policy ctx))
              (device_ref_of d) (fd_segmentId d) (pn_violationId env n) (cd_cases (px_db acc)) of
          ((caseId, ev), cdb) \<Rightarrow> (Some caseId, push_notify caseId ev (on_cases (\<lambda>_. cdb) acc))))"

definition link_case :: "pass_env \<Rightarrow> string option \<Rightarrow> string \<Rightarrow> string \<Rightarrow> pass_acc \<Rightarrow> pass_acc" where
  "link_case env caseId runId message acc =
     (case caseId of
        None \<Rightarrow> acc
      | Some c \<Rightarrow> on_cases (\<lambda>db. addCaseTimelineEntry c ''workflow_run_linked'' message None (link_run (pass_now env) c runId db)) acc)"

definition fired_key :: "workflow_row \<Rightarrow> fleet_device \<Rightarrow> string" where
  "fired_key w d = wf_id w @ '':'' @ fd_id d"

text \<open>The auto-run of a violation: reuse of the run of this pass, or a launch. The status and the run.\<close>

definition auto_fire :: "pass_env \<Rightarrow> policy_ctx \<Rightarrow> fleet_device \<Rightarrow> workflow_row \<Rightarrow> string \<Rightarrow> string option \<Rightarrow> nat \<Rightarrow> pass_acc \<Rightarrow>
    (string \<times> string option) \<times> pass_acc" where
  "auto_fire env ctx d w escalationNote caseId n acc =
     (case map_of (px_fired acc) (fired_key w d) of
        Some runId \<Rightarrow>
          ((''auto_fired'', Some runId),
           link_case env caseId runId (''Linked to the '' @ quoted (wf_name w) @
               '' run another policy already triggered this pass'' @ escalationNote)
             (violation_event ctx d ''violation_auto_fired'' ''warning''
               (violated_text ctx d @ quoted (wf_name w) @ '' was already auto-run for this device earlier in this pass '' @
                ''(another policy shares this workflow), so it wasn'' @ [CHR 0x27] @ ''t launched a second time'' @ escalationNote)
               acc))
      | None \<Rightarrow>
          (case launch_for_case (pass_now env) (pn_runId env n) w (device_ref_of d) (cx_workspace ctx) (cd_cases (px_db acc)) of
             (None, cdb) \<Rightarrow>
               ((''workflow_unavailable'', None),
                violation_event ctx d ''violation_detected'' ''critical''
                  (violated_text ctx d @ ''workflow '' @ quoted (wf_name w) @
                   '' could not run (durable storage not configured)'' @ escalationNote)
                  (on_cases (\<lambda>_. cdb) acc))
           | (Some v, cdb) \<Rightarrow>
               ((''auto_fired'', Some (vw_id v)),
                link_case env caseId (vw_id v) (''Auto-ran '' @ quoted (wf_name w) @ '' (policy autoRun is on)'' @ escalationNote)
                  (violation_event ctx d ''violation_auto_fired'' ''warning''
                    (violated_text ctx d @ ''auto-ran '' @ quoted (wf_name w) @ escalationNote)
                    (on_summary (\<lambda>s. s\<lparr>es_autoFired := es_autoFired s + 1\<rparr>)
                      ((on_cases (\<lambda>_. cdb) acc)\<lparr>px_fired := map_set (fired_key w d) (vw_id v) (px_fired acc)\<rparr>))))))"

definition queue_blocked :: "pass_acc \<Rightarrow> pass_acc" where
  "queue_blocked = on_summary (\<lambda>s. s\<lparr>es_autoRunSafetyBlocked := es_autoRunSafetyBlocked s + 1,
                                      es_queuedForReview := es_queuedForReview s + 1\<rparr>)"

definition is_escalated :: "policy_ctx \<Rightarrow> fleet_device \<Rightarrow> bool" where
  "is_escalated ctx d \<longleftrightarrow> cx_escalated ctx \<noteq> None \<and>
     risk_rank (filled (Some (pc_escalatedWorkflowMinRiskTier (pol_cfg (cx_policy ctx)))) ''high'') 2
       \<le> risk_rank (case fd_riskTier d of Some t \<Rightarrow> t | None \<Rightarrow> ''low'') 0"

definition effective_workflow :: "policy_ctx \<Rightarrow> fleet_device \<Rightarrow> workflow_row option" where
  "effective_workflow ctx d = (if is_escalated ctx d then cx_escalated ctx else cx_workflow ctx)"

definition escalation_note :: "policy_ctx \<Rightarrow> fleet_device \<Rightarrow> string" where
  "escalation_note ctx d =
     (if is_escalated ctx d then '' '' @ em_dash @ '' escalated (device risk tier: '' @
        (case fd_riskTier d of Some t \<Rightarrow> t | None \<Rightarrow> ''low'') @ '')'' else [])"

definition cap_reached :: "policy_cfg \<Rightarrow> nat \<Rightarrow> bool" where
  "cap_reached cfg fired = (case resolveAutoRunBatchCap cfg of None \<Rightarrow> False | Some c \<Rightarrow> c \<le> int fired)"

text \<open>What becomes of a new violation: its status and its run.\<close>

definition decide_violation :: "pass_env \<Rightarrow> policy_ctx \<Rightarrow> fleet_device \<Rightarrow> string option \<Rightarrow> nat \<Rightarrow> pass_acc \<Rightarrow>
    (string \<times> string option) \<times> pass_acc" where
  "decide_violation env ctx d caseId n acc =
     (let cfg = pol_cfg (cx_policy ctx); autoRun = (pc_autoRun cfg \<and> cx_workflow ctx \<noteq> None)
      in if autoRun \<and> cx_blockReason ctx \<noteq> None then
           ((''autorun_blocked'', None),
            violation_event ctx d ''violation_detected'' ''critical''
              (violated_text ctx d @ ''autoRun blocked ('' @ filled (cx_blockReason ctx) [] @ ''), queued for review'')
              (queue_blocked acc))
         else if autoRun \<and> cap_reached cfg (px_policyAutofired acc) then
           ((''autorun_capped'', None),
            violation_event ctx d ''violation_detected'' ''warning''
              (violated_text ctx d @ ''autoRun batch cap ('' @
               show_int (case resolveAutoRunBatchCap cfg of Some c \<Rightarrow> c | None \<Rightarrow> 0) @
               '') reached this pass, queued for manual review'') (queue_blocked acc))
         else (case (if autoRun then effective_workflow ctx d else None) of
             Some w \<Rightarrow> auto_fire env ctx d w (escalation_note ctx d) caseId n
               (acc\<lparr>px_policyAutofired := px_policyAutofired acc + 1\<rparr>)
           | None \<Rightarrow>
               if cx_workflow ctx = None then
                 ((''no_workflow'', None),
                  violation_event ctx d ''violation_detected'' ''warning'' (violated_text ctx d @ ''no workflow linked'') acc)
               else
                 ((''pending'', None),
                  violation_event ctx d ''violation_detected'' ''warning'' (violated_text ctx d @ ''queued for review'')
                    (on_summary (\<lambda>s. s\<lparr>es_queuedForReview := es_queuedForReview s + 1\<rparr>) acc))))"

definition violation_of :: "pass_env \<Rightarrow> policy_ctx \<Rightarrow> fleet_device \<Rightarrow> eval_condition list \<Rightarrow> nat \<Rightarrow> string option \<Rightarrow> string \<Rightarrow>
    string option \<Rightarrow> violation_row" where
  "violation_of env ctx d matched n caseId st runId =
     (let p = cx_policy ctx
      in \<lparr>vi_id = pn_violationId env n, vi_workspace = cx_workspace ctx, vi_policyId = pol_id p,
          vi_policyName = pc_name (pol_cfg p),
          vi_workflowId = (case effective_workflow ctx d of Some w \<Rightarrow> Some (wf_id w) | None \<Rightarrow> pc_workflowId (pol_cfg p)),
          vi_workflowName = map_option wf_name (effective_workflow ctx d), vi_workflowRunId = runId,
          vi_escalated = is_escalated ctx d, vi_deviceId = fd_id d, vi_deviceName = fd_displayName d,
          vi_platform = fd_platform d, vi_platformDeviceId = fd_platformDeviceId d, vi_matched = matched,
          vi_detectedAt = pass_now env, vi_resolvedAt = None, vi_status = st,
          vi_severity = filled (Some (pc_severity (pol_cfg p))) ''medium'', vi_caseId = caseId\<rparr>)"

text \<open>A device that violates the policy and was not flagged; \<open>base\<close> numbers the violations of the pass.\<close>

definition flag_device :: "pass_env \<Rightarrow> nat \<Rightarrow> policy_ctx \<Rightarrow> fleet_device \<Rightarrow> eval_condition list \<Rightarrow> pass_acc \<Rightarrow> pass_acc" where
  "flag_device env base ctx d matched acc =
     (let n = base + length (px_rows acc); key = suppression_key (pol_id (cx_policy ctx)) (fd_id d);
          acc1 = push_markers ctx d True
                   (on_summary (\<lambda>s. s\<lparr>es_violationsFound := es_violationsFound s + 1\<rparr>)
                     (acc\<lparr>px_policyNew := px_policyNew acc + 1\<rparr>))
      in case open_case env ctx d n acc1 of
           (caseId, acc2) \<Rightarrow>
             (case decide_violation env ctx d caseId n acc2 of
                ((st, runId), acc3) \<Rightarrow>
                  acc3\<lparr>px_rows := px_rows acc3 @ [violation_of env ctx d matched n caseId st runId],
                       px_state := map_set key
                         \<lparr>su_violationId = pn_violationId env n, su_status = st, su_lastDetectedAt = pass_now env\<rparr>
                         (px_state acc3)\<rparr>))"

definition evaluate_device :: "pass_env \<Rightarrow> eval_env \<Rightarrow> nat \<Rightarrow> policy_ctx \<Rightarrow> fleet_device \<Rightarrow> pass_acc \<Rightarrow> pass_acc" where
  "evaluate_device env ev base ctx d acc =
     (let cfg = pol_cfg (cx_policy ctx);
          matched = policyViolated ev (fd_json d) (pc_conditions cfg) (Some (pc_conditionLogic cfg));
          flagged = map_of (px_state acc) (suppression_key (pol_id (cx_policy ctx)) (fd_id d))
      in if matched = [] then
           (case flagged of None \<Rightarrow> acc | Some suppressed \<Rightarrow> recover_device env ctx d suppressed acc)
         else if flagged \<noteq> None then acc
         else flag_device env base ctx d matched acc)"

definition in_scope :: "policy_cfg \<Rightarrow> fleet_device \<Rightarrow> bool" where
  "in_scope cfg d \<longleftrightarrow>
     (filled (pc_targetDeviceAudienceId cfg) [] = [] \<or> filled (pc_targetDeviceAudienceId cfg) [] \<in> set (fd_deviceAudiences d)) \<and>
     (filled (pc_targetPlatform cfg) [] = [] \<or> fd_platform d = filled (pc_targetPlatform cfg) [])"

text \<open>A workflow of the workspace; the last one of an id wins, as in the \<open>Map\<close> of the source.\<close>

definition workflow_of :: "pass_env \<Rightarrow> string \<Rightarrow> string option \<Rightarrow> workflow_row option" where
  "workflow_of env workspaceSlug wid =
     (if filled wid [] = [] then None
      else List.find (\<lambda>w. wf_id w = filled wid [])
        (rev (filter (\<lambda>w. wf_workspace w = workspaceSlug) (ce_workflows (pn_case env)))))"

definition REARM :: string where
  "REARM = ''autoRun previously tripped '' @ em_dash @ '' re-save the policy to re-arm it''"

text \<open>Why auto-run may not fire in this pass, and whether the breaker has just tripped.\<close>

definition autorun_block :: "string \<Rightarrow> policy_row \<Rightarrow> workflow_row option \<Rightarrow> workflow_row option \<Rightarrow> violation_row list \<Rightarrow>
    run_system \<Rightarrow> string option \<times> bool" where
  "autorun_block workspaceSlug p workflow escalated violations sys =
     (if \<not> pc_autoRun (pol_cfg p) \<or> workflow = None then (None, False)
      else if pol_autoRunTripped p then (Some (filled (pol_autoRunTrippedReason p) REARM), False)
      else if (workflowHasDestructiveStep workflow \<or> workflowHasDestructiveStep escalated) \<and>
          \<not> pc_autoRunDestructiveAck (pol_cfg p) then
        (Some (''Linked workflow '' @ quoted (name_or_undefined (if workflowHasDestructiveStep workflow then workflow else escalated)) @
           '' now contains a destructive action '' @ em_dash @
           '' re-save this policy to acknowledge it before autoRun can fire again''), False)
      else (case autorunCircuitBreakerCheck workspaceSlug (pol_id p) violations sys of
          None \<Rightarrow> (None, False)
        | Some reason \<Rightarrow> (Some reason, True)))"

definition trip_policy :: "pass_env \<Rightarrow> string \<Rightarrow> policy_row \<Rightarrow> string \<Rightarrow> pass_acc \<Rightarrow> pass_acc" where
  "trip_policy env actor p reason acc =
     push_audit (audit_about ''policy'' ''autorun_tripped'' actor ''policy'' (pol_id p) (pc_name (pol_cfg p))
         (''autoRun disabled for '' @ quoted (pc_name (pol_cfg p)) @ '' '' @ em_dash @ '' '' @ reason @
          ''. Review and re-save the policy to re-enable it.'') (Some ''critical''))
       (acc\<lparr>px_db := update_policy (pol_id p)
          (\<lambda>r. r\<lparr>pol_autoRunTripped := True, pol_autoRunTrippedAt := Some (pass_now env),
                 pol_autoRunTrippedReason := Some reason\<rparr>) (px_db acc)\<rparr>)"

definition evaluated_message :: "string \<Rightarrow> nat \<Rightarrow> nat \<Rightarrow> nat \<Rightarrow> string" where
  "evaluated_message name new recovered scoped =
     quoted name @ '' evaluated '' @ em_dash @ '' '' @
     (if new \<noteq> 0 then show_nat new @ '' new violation(s) found''
      else if recovered \<noteq> 0 then ''clean ('' @ show_nat recovered @ '' device(s) recovered)''
      else ''no violations found'') @ '' among '' @ show_nat scoped @ '' device(s)''"

definition policy_context :: "pass_env \<Rightarrow> string \<Rightarrow> string \<Rightarrow> violation_row list \<Rightarrow> policy_row \<Rightarrow> pass_acc \<Rightarrow> policy_ctx" where
  "policy_context env ws actor violations p acc =
     (let workflow = workflow_of env ws (pc_workflowId (pol_cfg p));
          escalated = (if workflow = None then None else workflow_of env ws (pc_escalatedWorkflowId (pol_cfg p)))
      in \<lparr>cx_workspace = ws, cx_actor = actor, cx_policy = p, cx_workflow = workflow, cx_escalated = escalated,
          cx_blockReason = fst (autorun_block ws p workflow escalated violations (case_runs (cd_cases (px_db acc))))\<rparr>)"

definition start_policy :: "pass_env \<Rightarrow> policy_ctx \<Rightarrow> violation_row list \<Rightarrow> nat \<Rightarrow> pass_acc \<Rightarrow> pass_acc" where
  "start_policy env ctx violations scoped acc =
     (let acc1 = (on_summary (\<lambda>s. s\<lparr>es_devicesChecked := es_devicesChecked s + scoped\<rparr>) acc)
                   \<lparr>px_policyAutofired := 0, px_policyNew := 0, px_policyRecovered := 0\<rparr>
      in if snd (autorun_block (cx_workspace ctx) (cx_policy ctx) (cx_workflow ctx) (cx_escalated ctx) violations
              (case_runs (cd_cases (px_db acc))))
         then trip_policy env (cx_actor ctx) (cx_policy ctx) (filled (cx_blockReason ctx) []) acc1 else acc1)"

definition finish_policy :: "policy_ctx \<Rightarrow> nat \<Rightarrow> pass_acc \<Rightarrow> pass_acc" where
  "finish_policy ctx scoped acc =
     (let p = cx_policy ctx;
          acc1 = push_audit (audit_about ''policy'' ''policy_evaluated'' (cx_actor ctx) ''policy'' (pol_id p) (pc_name (pol_cfg p))
                   (evaluated_message (pc_name (pol_cfg p)) (px_policyNew acc) (px_policyRecovered acc) scoped)
                   (Some (if px_policyNew acc \<noteq> 0 then ''warning'' else ''info''))) acc
      in if 0 < px_policyNew acc then acc1\<lparr>px_alerts := px_alerts acc1 @ [(p, px_policyNew acc, scoped)]\<rparr> else acc1)"

definition evaluate_policy :: "pass_env \<Rightarrow> eval_env \<Rightarrow> nat \<Rightarrow> string \<Rightarrow> string \<Rightarrow> violation_row list \<Rightarrow> fleet_device list \<Rightarrow>
    policy_row \<Rightarrow> pass_acc \<Rightarrow> pass_acc" where
  "evaluate_policy env ev base ws actor violations devices p acc =
     (let ctx = policy_context env ws actor violations p acc;
          scoped = filter (in_scope (pol_cfg p)) devices
      in finish_policy ctx (length scoped)
           (fold (evaluate_device env ev base ctx) scoped (start_policy env ctx violations (length scoped) acc)))"

datatype device_scope = AllDevices | OneSerial string | Serials "string list"

fun scope_devices :: "device_scope \<Rightarrow> fleet_device list \<Rightarrow> fleet_device list" where
  "scope_devices AllDevices ds = ds"
| "scope_devices (OneSerial s) ds = filter (\<lambda>d. fd_serialNumber d = s) ds"
| "scope_devices (Serials ss) ds = filter (\<lambda>d. fd_serialNumber d \<in> set ss) ds"

text \<open>\<open>!onlyDeviceSerial\<close>: an empty string counts as no serial.\<close>

fun fleet_wide :: "device_scope \<Rightarrow> bool" where
  "fleet_wide AllDevices = True"
| "fleet_wide (OneSerial s) = (s = [])"
| "fleet_wide (Serials ss) = False"

text \<open>The inventories go to the last device of each id, as in the \<open>Map\<close> of the source.\<close>

fun attach_apps :: "pass_env \<Rightarrow> string \<Rightarrow> string list \<Rightarrow> fleet_device list \<Rightarrow> fleet_device list" where
  "attach_apps env ws ids [] = []"
| "attach_apps env ws ids (d # ds) =
     (if fd_id d \<in> set ids \<and> fd_id d \<notin> fd_id ` set ds then
        d\<lparr>fd_json := set_prop ''installedApps'' (readInstalledAppsFromStore ws (fd_id d) (sv_devices (pn_step env))) (fd_json d)\<rparr>
      else d) # attach_apps env ws ids ds"

definition pass_conditions :: "pass_env \<Rightarrow> string \<Rightarrow> policy_row list \<Rightarrow> fleet_device list \<Rightarrow> eval_env" where
  "pass_conditions env ws policies devices =
     (let se = pn_step env; ids = geofenceScopedDeviceIds devices policies
      in \<lparr>env_now = sv_now se, appLists = Some (loadAppListsContext ws (sv_apps se)),
          geo = Some \<lparr>zonesById = loadGeofenceZonesById ws (sv_zones se),
                      locationsByDeviceId = (if ids = [] then [] else loadDeviceLocations ws ids (sv_devices se))\<rparr>\<rparr>)"

definition selected_policies :: "string \<Rightarrow> string list option \<Rightarrow> comp_db \<Rightarrow> policy_row list" where
  "selected_policies ws policyIds db =
     filter (\<lambda>p. pc_enabled (pol_cfg p) \<and> (case policyIds of None \<Rightarrow> True | Some ids \<Rightarrow> pol_id p \<in> set ids))
       (listCompliancePolicies ws db)"

definition violations_desc :: "string \<Rightarrow> comp_db \<Rightarrow> violation_row list" where
  "violations_desc ws db = sort_key (\<lambda>v. - vi_detectedAt v) (filter (\<lambda>v. vi_workspace v = ws) (cd_violations db))"

definition start_pass :: "string \<Rightarrow> policy_row list \<Rightarrow> comp_db \<Rightarrow> pass_acc" where
  "start_pass ws policies db =
     \<lparr>px_db = db, px_state = loadComplianceState ws db, px_rows = [], px_audit = [], px_markers = [], px_notify = [],
      px_alerts = [], px_fired = [], px_summary = empty_summary (length policies), px_policyAutofired = 0,
      px_policyNew = 0, px_policyRecovered = 0\<rparr>"

definition evaluate_policies :: "pass_env \<Rightarrow> string \<Rightarrow> string \<Rightarrow> policy_row list \<Rightarrow> fleet_device list \<Rightarrow> comp_db \<Rightarrow> pass_acc" where
  "evaluate_policies env ws actor policies fleet db =
     (let devices = attach_apps env ws (appListScopedDeviceIds fleet policies) fleet
      in fold (evaluate_policy env (pass_conditions env ws policies fleet) (length (cd_violations db)) ws actor
            (violations_desc ws db) devices) policies (start_pass ws policies db))"

text \<open>The writes after the loop, in the order of the source.\<close>

definition finish_pass :: "pass_env \<Rightarrow> string \<Rightarrow> bool \<Rightarrow> policy_row list \<Rightarrow> pass_acc \<Rightarrow> comp_db" where
  "finish_pass env ws stampAll policies acc =
     (let db1 = saveComplianceState ws (px_state acc) (px_db acc);
          db2 = db1\<lparr>cd_violations := cd_violations db1 @ px_rows acc\<rparr>;
          db3 = fold (comp_audit ws) (px_audit acc) db2;
          db4 = fold (\<lambda>(caseId, ev). with_cases (dispatchAndAttachCaseEvent (pn_case env) (pass_now env) caseId ev)) (px_notify acc) db3;
          db5 = fold (\<lambda>(p, n, k). firePolicyViolationAlert env p n k) (px_alerts acc) db4;
          db6 = (if px_markers acc = [] then db5 else write_markers env ws (px_markers acc) db5)
      in if stampAll then
           db6\<lparr>cd_policies := upd_where (\<lambda>p. pol_id p \<in> pol_id ` set policies)
                 (\<lambda>p. p\<lparr>pol_lastEvaluatedAt := Some (pass_now env)\<rparr>) (cd_policies db6)\<rparr>
         else db6)"

definition runComplianceEvaluation :: "pass_env \<Rightarrow> string \<Rightarrow> string list option \<Rightarrow> string option \<Rightarrow> device_scope \<Rightarrow> comp_db \<Rightarrow>
    (string + evaluation_summary) \<times> comp_db" where
  "runComplianceEvaluation env ws policyIds actor scope db =
     (let policies = selected_policies ws policyIds db
      in if policies = [] then (Inr (empty_summary 0), db)
         else (case sv_fleet (pn_step env) ws (cd_mdm db) of
             Inl msg \<Rightarrow> (Inl msg, db)
           | Inr fleet \<Rightarrow>
               (let acc = evaluate_policies env ws (case actor of Some a \<Rightarrow> a | None \<Rightarrow> ''system'') policies
                      (scope_devices scope fleet) db
                in (Inr (px_summary acc), finish_pass env ws (fleet_wide scope) policies acc))))"

section \<open>Forced evaluations and the scheduler\<close>

datatype pass_error = RequestError http_error | PassCrash string

definition FORCED_EVALUATION_COOLDOWN_MS :: int where
  "FORCED_EVALUATION_COOLDOWN_MS = 60000"

definition FORCED_DEVICE_EVALUATION_COOLDOWN_MS :: int where
  "FORCED_DEVICE_EVALUATION_COOLDOWN_MS = 15000"

definition last_forced :: "string \<Rightarrow> (string \<times> int) list \<Rightarrow> int" where
  "last_forced key stamps = (case map_of stamps key of Some t \<Rightarrow> t | None \<Rightarrow> 0)"

definition NO_AUTOMATION :: string where
  "NO_AUTOMATION = ''No Automation Credential is configured for this workspace (Settings > Workspace Automation) '' @ em_dash @
     '' the SOAR Agent can'' @ [CHR 0x27] @ ''t trigger an unattended compliance evaluation without one.''"

definition COOLDOWN_DEVICE :: string where
  "COOLDOWN_DEVICE = ''A compliance evaluation was already triggered for this device in the last 15 seconds '' @ em_dash @
     '' please wait a moment before trying again.''"

definition COOLDOWN_WORKSPACE :: string where
  "COOLDOWN_WORKSPACE = ''A compliance evaluation was already triggered for this workspace in the last minute '' @ em_dash @
     '' please wait a moment before trying again.''"

text \<open>\<open>forceEvaluateNow\<close> is asynchronous. \<open>begin_forced\<close> is what it does before its first \<open>await\<close>: the cooldown, whose
  stamp is set before the credential is looked up; \<open>forced_pass\<close> is the rest, the evaluation of the scope it was
  started for.\<close>

definition begin_forced :: "pass_env \<Rightarrow> string \<Rightarrow> string option \<Rightarrow> comp_db \<Rightarrow> (http_error + device_scope) \<times> comp_db" where
  "begin_forced env ws serial db =
     (let now = pass_now env;
          scope = (case serial of None \<Rightarrow> AllDevices | Some s \<Rightarrow> OneSerial s)
      in if filled serial [] \<noteq> [] then
           (let key = ws @ '':'' @ filled serial []
            in if now - last_forced key (cd_forcedDevice db) < FORCED_DEVICE_EVALUATION_COOLDOWN_MS then
                 (Inl (HttpError 429 COOLDOWN_DEVICE), db)
               else (Inr scope, db\<lparr>cd_forcedDevice := map_set key now (cd_forcedDevice db)\<rparr>))
         else if now - last_forced ws (cd_forced db) < FORCED_EVALUATION_COOLDOWN_MS then
           (Inl (HttpError 429 COOLDOWN_WORKSPACE), db)
         else (Inr scope, db\<lparr>cd_forced := map_set ws now (cd_forced db)\<rparr>))"

definition forced_pass :: "pass_env \<Rightarrow> string \<Rightarrow> device_scope \<Rightarrow> comp_db \<Rightarrow> (pass_error + evaluation_summary) \<times> comp_db" where
  "forced_pass env ws scope db =
     (if filled (pn_bearer env ws) [] = [] then (Inl (RequestError (HttpError 503 NO_AUTOMATION)), db)
      else (case runComplianceEvaluation env ws None (Some ''device-agent'') scope db of
          (Inl msg, db1) \<Rightarrow> (Inl (PassCrash msg), db1)
        | (Inr s, db1) \<Rightarrow> (Inr s, db1)))"

definition forceEvaluateNow :: "pass_env \<Rightarrow> string \<Rightarrow> string option \<Rightarrow> comp_db \<Rightarrow> (pass_error + evaluation_summary) \<times> comp_db" where
  "forceEvaluateNow env ws serial db =
     (case begin_forced env ws serial db of
        (Inl e, db1) \<Rightarrow> (Inl (RequestError e), db1)
      | (Inr scope, db1) \<Rightarrow> forced_pass env ws scope db1)"

text \<open>\<open>triggerEventDrivenReEvaluation\<close> starts a forced evaluation and does not await it: it returns with the
  pass pending, if the cooldown let it start. Errors are logged only.\<close>

definition triggerEventDrivenReEvaluation :: "pass_env \<Rightarrow> string \<Rightarrow> string option \<Rightarrow> comp_db \<Rightarrow> device_scope option \<times> comp_db" where
  "triggerEventDrivenReEvaluation env ws serial db =
     (case begin_forced env ws serial db of (Inl e, db1) \<Rightarrow> (None, db1) | (Inr scope, db1) \<Rightarrow> (Some scope, db1))"

definition is_due_policy :: "int \<Rightarrow> policy_row \<Rightarrow> bool" where
  "is_due_policy now p \<longleftrightarrow>
     (case pol_lastEvaluatedAt p of None \<Rightarrow> True
      | Some t \<Rightarrow> pc_evaluationIntervalMinutes (pol_cfg p) * 60000 \<le> now - t)"

definition duePolicyIds :: "int \<Rightarrow> string \<Rightarrow> comp_db \<Rightarrow> string list" where
  "duePolicyIds now ws db =
     map pol_id (filter (is_due_policy now) (filter (\<lambda>p. pc_enabled (pol_cfg p)) (listCompliancePolicies ws db)))"

definition tick_workspace :: "pass_env \<Rightarrow> string \<Rightarrow> string list \<times> comp_db \<Rightarrow> string list \<times> comp_db" where
  "tick_workspace env ws acc =
     (case acc of (blocked, db) \<Rightarrow>
        (let due = duePolicyIds (pass_now env) ws db
         in if due = [] then (blocked, db)
            else if ws \<notin> set (pn_automation env) then
              (blocked @ [ws @ '' (no Automation Credential configured '' @ em_dash @ '' Settings > Workspace Automation)''], db)
            else if filled (pn_bearer env ws) [] = [] then
              (blocked @ [ws @ '' (Automation Credential not configured '' @ em_dash @ '' Settings > Workspace Automation)''], db)
            else (case runComplianceEvaluation env ws (Some due) (Some ''system'') AllDevices db of
                (Inl msg, db1) \<Rightarrow> (blocked @ [take 150 (ws @ '' ('' @ msg @ '')'')], db1)
              | (Inr _, db1) \<Rightarrow> (blocked, db1))))"

definition runComplianceSchedulerTick :: "pass_env \<Rightarrow> comp_db \<Rightarrow> unit result \<times> comp_db" where
  "runComplianceSchedulerTick env db =
     (case fold (tick_workspace env) (workspacesWithEnabledPolicies db) ([], db) of
        (blocked, db1) \<Rightarrow>
          (if blocked = [] then Inr ()
           else throw 502 (take 500 (show_nat (length blocked) @
             '' workspace(s) with due Compliance Policies were not evaluated this tick: '' @ joinWith ''; '' blocked)), db1))"

section \<open>The review queue\<close>

definition by_status :: "string \<Rightarrow> string option \<Rightarrow> comp_db \<Rightarrow> violation_row list" where
  "by_status ws st db =
     filter (\<lambda>v. vi_workspace v = ws \<and> (filled st [] = [] \<or> vi_status v = filled st [])) (cd_violations db)"

definition listComplianceViolations :: "string \<Rightarrow> string option \<Rightarrow> int \<Rightarrow> nat \<Rightarrow> comp_db \<Rightarrow> violation_row list \<times> nat" where
  "listComplianceViolations ws st limit offset db =
     (take (nat (max 1 (min limit 500))) (drop offset (sort_key (\<lambda>v. - vi_detectedAt v) (by_status ws st db))),
      length (by_status ws st db))"

definition violation_csv_row :: "violation_row \<Rightarrow> string list" where
  "violation_csv_row v =
     [toISOString (vi_detectedAt v), (case vi_resolvedAt v of Some t \<Rightarrow> toISOString t | None \<Rightarrow> []), vi_status v,
      vi_policyName v, vi_deviceName v, vi_platform v, (case vi_caseId v of Some c \<Rightarrow> c | None \<Rightarrow> [])]"

definition exportComplianceViolationsCsv :: "string \<Rightarrow> string option \<Rightarrow> comp_db \<Rightarrow> string" where
  "exportComplianceViolationsCsv ws st db =
     joinWith [CHR 0x0A] (map (\<lambda>r. joinWith '','' (map csv_cell r))
       ([''Created At'', ''Resolved At'', ''Status'', ''Policy'', ''Device'', ''Platform'', ''Case ID''] #
        map violation_csv_row (sort_key vi_detectedAt (by_status ws st db))))"

definition find_violation :: "string \<Rightarrow> string \<Rightarrow> comp_db \<Rightarrow> violation_row option" where
  "find_violation ws violationId db =
     List.find (\<lambda>v. vi_workspace v = ws \<and> vi_id v = violationId) (cd_violations db)"

definition update_violation :: "string \<Rightarrow> (violation_row \<Rightarrow> violation_row) \<Rightarrow> comp_db \<Rightarrow> comp_db" where
  "update_violation violationId f db = db\<lparr>cd_violations := upd_where (\<lambda>v. vi_id v = violationId) f (cd_violations db)\<rparr>"

definition review_event :: "string \<Rightarrow> string \<Rightarrow> string \<Rightarrow> violation_row \<Rightarrow> string \<Rightarrow> comp_db \<Rightarrow> comp_db" where
  "review_event ws action actor v what =
     comp_audit ws (audit_about ''violation'' action actor ''device'' (vi_deviceId v) (vi_deviceName v)
       (vi_deviceName v @ '' violation of '' @ quoted (vi_policyName v) @ '' '' @ what) None)"

text \<open>The status kept in the suppression state, where the pair is still flagged.\<close>

definition mark_state :: "string \<Rightarrow> violation_row \<Rightarrow> string \<Rightarrow> comp_db \<Rightarrow> comp_db" where
  "mark_state ws v st db =
     (let state = loadComplianceState ws db; key = suppression_key (vi_policyId v) (vi_deviceId v)
      in case map_of state key of
           None \<Rightarrow> db
         | Some su \<Rightarrow> saveComplianceState ws (map_set key (su\<lparr>su_status := st\<rparr>) state) db)"

definition violation_device :: "violation_row \<Rightarrow> device_ref" where
  "violation_device v =
     \<lparr>ref_id = vi_deviceId v, ref_displayName = Some (vi_deviceName v), ref_platform = vi_platform v,
      ref_platformDeviceId = vi_platformDeviceId v, ref_fields = JNull\<rparr>"

definition NEEDS_DURABLE :: string where
  "NEEDS_DURABLE = ''This workflow includes a '' @ sq ''wait'' @ '' or '' @ sq ''run script and wait for result'' @
     '' step, which requires durable storage (Phase 4b).''"

definition approveViolationCore :: "pass_env \<Rightarrow> string \<Rightarrow> string \<Rightarrow> string \<Rightarrow> string \<Rightarrow> comp_db \<Rightarrow>
    violation_row result \<times> comp_db" where
  "approveViolationCore env runId violationId ws actor db =
     (case find_violation ws violationId db of
        None \<Rightarrow> (throw 404 ''Violation not found'', db)
      | Some v \<Rightarrow>
          if vi_status v \<noteq> ''pending'' then (throw 400 (''Violation already '' @ sq (vi_status v)), db)
          else (case (if filled (vi_workflowId v) [] = [] then None
                      else find_case_workflow (pn_case env) ws (filled (vi_workflowId v) [])) of
              None \<Rightarrow> (throw 400 ''Linked workflow no longer exists'', db)
            | Some w \<Rightarrow>
                (case launch_for_case (pass_now env) runId w (violation_device v) ws (cd_cases db) of
                   (None, cdb) \<Rightarrow> (throw 400 NEEDS_DURABLE, db\<lparr>cd_cases := cdb\<rparr>)
                 | (Some view, cdb) \<Rightarrow>
                     (let approve = (\<lambda>r. r\<lparr>vi_status := ''approved'', vi_resolvedAt := Some (pass_now env),
                                           vi_workflowRunId := Some (vw_id view)\<rparr>);
                          db1 = mark_state ws v ''approved''
                            (review_event ws ''violation_approved'' actor v (''approved '' @ em_dash @ '' running '' @ quoted (wf_name w))
                              (update_violation violationId approve (db\<lparr>cd_cases := cdb\<rparr>)));
                          db2 = (case vi_caseId v of
                              None \<Rightarrow> db1
                            | Some c \<Rightarrow> with_cases (\<lambda>x. addCaseTimelineEntry c ''workflow_run_linked''
                                (''Violation approved by '' @ actor @ '' '' @ em_dash @ '' ran '' @ quoted (wf_name w)) (Some actor)
                                (link_run (pass_now env) c (vw_id view) x)) db1)
                      in (Inr (approve v), removeComplianceMarkersForDevice env ws (vi_policyId v) (vi_deviceId v) db2)))))"

definition dismissViolationCore :: "pass_env \<Rightarrow> string \<Rightarrow> string \<Rightarrow> string \<Rightarrow> string option \<Rightarrow> comp_db \<Rightarrow>
    violation_row result \<times> comp_db" where
  "dismissViolationCore env violationId ws actor authorization db =
     (case find_violation ws violationId db of
        None \<Rightarrow> (throw 404 ''Violation not found'', db)
      | Some v \<Rightarrow>
          (let dismiss = (\<lambda>r. r\<lparr>vi_status := ''dismissed'', vi_resolvedAt := Some (pass_now env)\<rparr>);
               db1 = mark_state ws v ''dismissed''
                 (review_event ws ''violation_dismissed'' actor v ''dismissed'' (update_violation violationId dismiss db));
               db2 = (case vi_caseId v of
                   None \<Rightarrow> db1
                 | Some c \<Rightarrow> with_cases (addCaseTimelineEntry c ''note_added''
                     (''Violation dismissed by '' @ actor @ '' '' @ em_dash @ '' remediation not run'') (Some actor)) db1)
           in (Inr (dismiss v),
               if filled authorization [] = [] then db2
               else removeComplianceMarkersForDevice env ws (vi_policyId v) (vi_deviceId v) db2)))"

text \<open>One review after the other; \<open>f\<close> gets the position of the violation in the request.\<close>

definition bulk_review :: "(nat \<Rightarrow> string \<Rightarrow> comp_db \<Rightarrow> violation_row result \<times> comp_db) \<Rightarrow> string list \<Rightarrow> comp_db \<Rightarrow>
    (string list \<times> (string \<times> string) list) \<times> comp_db" where
  "bulk_review f ids db =
     fold (\<lambda>(i, vid) acc. case acc of ((done_ids, failed), cur) \<Rightarrow>
         (case f i vid cur of
            (Inr _, cur1) \<Rightarrow> ((done_ids @ [vid], failed), cur1)
          | (Inl e, cur1) \<Rightarrow> ((done_ids, failed @ [(vid, error_detail e)]), cur1)))
       (List.enumerate 0 ids) (([], []), db)"

definition bulkApproveViolations :: "pass_env \<Rightarrow> string list \<Rightarrow> string \<Rightarrow> string \<Rightarrow> comp_db \<Rightarrow>
    (string list \<times> (string \<times> string) list) \<times> comp_db" where
  "bulkApproveViolations env ids ws actor = bulk_review (\<lambda>i vid. approveViolationCore env (pn_runId env i) vid ws actor) ids"

definition bulkDismissViolations :: "pass_env \<Rightarrow> string list \<Rightarrow> string \<Rightarrow> string \<Rightarrow> string option \<Rightarrow> comp_db \<Rightarrow>
    (string list \<times> (string \<times> string) list) \<times> comp_db" where
  "bulkDismissViolations env ids ws actor authorization = bulk_review (\<lambda>i vid. dismissViolationCore env vid ws actor authorization) ids"

section \<open>What the steps of a pass leave alone\<close>

lemma case_jobs_frame [simp]:
  "case_jobs (addCaseTimelineEntry c ty m a db) = case_jobs db"
  "case_jobs (update_case c f db) = case_jobs db"
  "case_jobs (insert_case k db) = case_jobs db"
  "case_jobs (link_run now c r db) = case_jobs db"
  by (simp_all add: addCaseTimelineEntry_def update_case_def insert_case_def link_run_def)

lemma upsert_jobs: "case_jobs (snd (upsertCaseForViolation i now ws p d sid v db)) = case_jobs db"
  by (simp add: upsertCaseForViolation_def Let_def split: option.splits)

lemma recovered_jobs: "case_jobs (snd (markCaseRecovered now ws v auto db)) = case_jobs db"
  by (simp add: markCaseRecovered_def Let_def touch_def split: option.splits)

lemma dispatch_jobs: "case_jobs (dispatchAndAttachCaseEvent env now c ev db) = case_jobs db"
proof -
  have "case_jobs (fold (\<lambda>ref. addCaseTimelineEntry c ty (m ref) a) refs x) = case_jobs x" for ty a x and m :: "ext_ref \<Rightarrow> string" and refs
    by (induction refs arbitrary: x) auto
  then show ?thesis
    by (simp add: dispatchAndAttachCaseEvent_def attachExternalRefs_def Let_def split: option.splits)
qed

lemmas acc_ops = on_summary_def on_cases_def push_audit_def violation_event_def push_markers_def push_notify_def
  with_cases_def queue_blocked_def link_case_def Let_def

text \<open>The tables a pass writes only at its end, and the variables of a device step.\<close>

definition late_tables :: "pass_acc \<Rightarrow> (string \<times> comp_state) list \<times> violation_row list" where
  "late_tables acc = (cd_states (px_db acc), cd_violations (px_db acc))"

definition pass_jobs :: "pass_acc \<Rightarrow> run_job list" where
  "pass_jobs acc = case_jobs (cd_cases (px_db acc))"

definition launch_view :: "pass_acc \<Rightarrow> run_job list \<times> (string \<times> string) list \<times> nat" where
  "launch_view acc = (pass_jobs acc, px_fired acc, es_autoFired (px_summary acc))"

definition tally :: "pass_acc \<Rightarrow> nat \<times> nat" where
  "tally acc = (es_violationsFound (px_summary acc), es_recovered (px_summary acc))"

lemmas pass_views = late_tables_def pass_jobs_def launch_view_def tally_def

lemma recover_device_effect:
  "px_state (recover_device env ctx d su acc) = map_del (suppression_key (pol_id (cx_policy ctx)) (fd_id d)) (px_state acc)"
  "px_rows (recover_device env ctx d su acc) = px_rows acc"
  "late_tables (recover_device env ctx d su acc) = late_tables acc"
  "launch_view (recover_device env ctx d su acc) = launch_view acc"
  "px_policyAutofired (recover_device env ctx d su acc) = px_policyAutofired acc"
  "tally (recover_device env ctx d su acc) = (fst (tally acc), snd (tally acc) + 1)"
  using recovered_jobs [of "pass_now env" "cx_workspace ctx" "Some (su_violationId su)"
      "pc_autoResolveCaseOnRecovery (pol_cfg (cx_policy ctx))" "cd_cases (px_db acc)"]
  by (auto simp: recover_device_def acc_ops pass_views split: prod.splits option.splits)

lemma open_case_effect:
  assumes "open_case env ctx d n acc = (c, acc')"
  shows "px_state acc' = px_state acc \<and> px_rows acc' = px_rows acc \<and> late_tables acc' = late_tables acc \<and>
    launch_view acc' = launch_view acc \<and> px_policyAutofired acc' = px_policyAutofired acc \<and> tally acc' = tally acc"
  using assms upsert_jobs [of "pn_caseId env n" "pass_now env" "cx_workspace ctx" "case_policy_of (cx_policy ctx)"
      "device_ref_of d" "fd_segmentId d" "pn_violationId env n" "cd_cases (px_db acc)"]
  by (auto simp: open_case_def acc_ops pass_views split: if_splits prod.splits option.splits)

text \<open>A launch on one device.\<close>

definition single_job :: "string \<Rightarrow> workflow_row \<Rightarrow> device_ref \<Rightarrow> string \<Rightarrow> run_job" where
  "single_job runId w d ws = (if has_wait w then DurableJob runId w [d] ws else MemoryJob runId w [d] ws)"

lemma launch_for_case_effect:
  "\<exists>v. launch_for_case now r w d ws db = (Some v, db\<lparr>case_runs := snd (snd (launchWorkflowRun now r w [d] ws None (case_runs db))),
     case_jobs := case_jobs db @ [single_job r w d ws]\<rparr>)"
  by (auto simp: launch_for_case_def launchWorkflowRun_def single_job_def Let_def runView_def find_run_def find_append
      split: option.splits)

text \<open>How a decision changes the launches: not at all, a reuse of a run of this pass, or one launch.\<close>

definition may_fire :: "policy_ctx \<Rightarrow> nat \<Rightarrow> bool" where
  "may_fire ctx fired \<longleftrightarrow> pc_autoRun (pol_cfg (cx_policy ctx)) \<and> cx_workflow ctx \<noteq> None \<and> cx_blockReason ctx = None \<and>
     \<not> cap_reached (pol_cfg (cx_policy ctx)) fired"

definition launches :: "pass_env \<Rightarrow> policy_ctx \<Rightarrow> fleet_device \<Rightarrow> workflow_row \<Rightarrow> pass_acc \<Rightarrow> pass_acc \<Rightarrow> bool" where
  "launches env ctx d w acc acc' \<longleftrightarrow> map_of (px_fired acc) (fired_key w d) = None \<and>
     (\<exists>i r. launch_view acc' = (pass_jobs acc @ [single_job i w (device_ref_of d) (cx_workspace ctx)],
        map_set (fired_key w d) r (px_fired acc), es_autoFired (px_summary acc) + 1))"

definition fire_step :: "pass_env \<Rightarrow> policy_ctx \<Rightarrow> fleet_device \<Rightarrow> string \<Rightarrow> string option \<Rightarrow> pass_acc \<Rightarrow> pass_acc \<Rightarrow> bool" where
  "fire_step env ctx d st run acc acc' \<longleftrightarrow>
     (if st = ''auto_fired'' then
        may_fire ctx (px_policyAutofired acc) \<and> px_policyAutofired acc' = px_policyAutofired acc + 1 \<and>
        (\<exists>w. effective_workflow ctx d = Some w \<and> (launch_view acc' = launch_view acc \<or> launches env ctx d w acc acc'))
      else px_policyAutofired acc' = px_policyAutofired acc \<and> launch_view acc' = launch_view acc)"

definition decided_frame :: "pass_acc \<Rightarrow> pass_acc \<Rightarrow> bool" where
  "decided_frame acc acc' \<longleftrightarrow> px_state acc' = px_state acc \<and> px_rows acc' = px_rows acc \<and> late_tables acc' = late_tables acc \<and>
     tally acc' = tally acc"

lemma auto_fire_effect:
  assumes "auto_fire env ctx d w esc c n acc = ((st, run), acc')"
  shows "st = ''auto_fired'' \<and> decided_frame acc acc' \<and> px_policyAutofired acc' = px_policyAutofired acc \<and>
    (launch_view acc' = launch_view acc \<or> launches env ctx d w acc acc')"
proof (cases "map_of (px_fired acc) (fired_key w d)")
  case (Some r)
  then show ?thesis
    using assms by (auto simp: auto_fire_def acc_ops pass_views decided_frame_def split: option.splits)
next
  case None
  obtain v cdb where launch: "launch_for_case (pass_now env) (pn_runId env n) w (device_ref_of d) (cx_workspace ctx)
      (cd_cases (px_db acc)) = (Some v, cdb)"
    and jobs: "case_jobs cdb = case_jobs (cd_cases (px_db acc)) @
      [single_job (pn_runId env n) w (device_ref_of d) (cx_workspace ctx)]"
    using launch_for_case_effect [of "pass_now env" "pn_runId env n" w "device_ref_of d" "cx_workspace ctx" "cd_cases (px_db acc)"]
    by auto
  show ?thesis
    using assms None launch jobs
    by (auto simp: auto_fire_def acc_ops pass_views decided_frame_def launches_def split: option.splits)
qed

lemma quiet_ops [simp]:
  "decided_frame acc (violation_event ctx d a s m acc') = decided_frame acc acc'"
  "decided_frame acc (queue_blocked acc') = decided_frame acc acc'"
  "decided_frame acc acc"
  "launch_view (violation_event ctx d a s m acc) = launch_view acc"
  "launch_view (queue_blocked acc) = launch_view acc"
  "px_policyAutofired (violation_event ctx d a s m acc) = px_policyAutofired acc"
  "px_policyAutofired (queue_blocked acc) = px_policyAutofired acc"
  by (simp_all add: acc_ops pass_views decided_frame_def)

lemma queued_ops [simp]:
  "decided_frame acc (on_summary (\<lambda>s. s\<lparr>es_queuedForReview := f s\<rparr>) acc') = decided_frame acc acc'"
  "launch_view (on_summary (\<lambda>s. s\<lparr>es_queuedForReview := f s\<rparr>) acc) = launch_view acc"
  "px_policyAutofired (on_summary g acc) = px_policyAutofired acc"
  by (simp_all add: on_summary_def pass_views decided_frame_def)

lemma not_fired: "st \<noteq> ''auto_fired'' \<Longrightarrow>
    fire_step env ctx d st run acc acc' = (px_policyAutofired acc' = px_policyAutofired acc \<and> launch_view acc' = launch_view acc)"
  by (simp add: fire_step_def)

lemma decide_effect:
  assumes "decide_violation env ctx d c n acc = ((st, run), acc')"
  shows "decided_frame acc acc' \<and> fire_step env ctx d st run acc acc'"
proof (cases "pc_autoRun (pol_cfg (cx_policy ctx)) \<and> cx_workflow ctx \<noteq> None \<and> cx_blockReason ctx = None \<and>
    \<not> cap_reached (pol_cfg (cx_policy ctx)) (px_policyAutofired acc) \<and> effective_workflow ctx d \<noteq> None")
  case True
  then obtain w where w: "effective_workflow ctx d = Some w" by auto
  have "auto_fire env ctx d w (escalation_note ctx d) c n (acc\<lparr>px_policyAutofired := px_policyAutofired acc + 1\<rparr>) = ((st, run), acc')"
    using assms True w by (auto simp: decide_violation_def Let_def)
  from auto_fire_effect [OF this] show ?thesis
    using True w by (auto simp: decided_frame_def fire_step_def may_fire_def pass_views launches_def)
next
  case False
  then have "decided_frame acc acc' \<and> st \<noteq> ''auto_fired'' \<and> px_policyAutofired acc' = px_policyAutofired acc \<and>
      launch_view acc' = launch_view acc"
    using assms unfolding decide_violation_def Let_def
    by (cases "pc_autoRun (pol_cfg (cx_policy ctx))"; cases "cx_workflow ctx"; cases "cx_blockReason ctx";
        cases "cap_reached (pol_cfg (cx_policy ctx)) (px_policyAutofired acc)"; cases "effective_workflow ctx d")
      (force simp del: not_None_eq)+
  then show ?thesis by (simp add: not_fired)
qed

text \<open>One device under one policy.\<close>

definition violates :: "eval_env \<Rightarrow> policy_row \<Rightarrow> fleet_device \<Rightarrow> bool" where
  "violates ev p d \<longleftrightarrow>
     policyViolated ev (fd_json d) (pc_conditions (pol_cfg p)) (Some (pc_conditionLogic (pol_cfg p))) \<noteq> []"

definition pair_key :: "policy_row \<Rightarrow> fleet_device \<Rightarrow> string" where
  "pair_key p d = suppression_key (pol_id p) (fd_id d)"

definition row_about :: "policy_row \<Rightarrow> fleet_device \<Rightarrow> violation_row \<Rightarrow> bool" where
  "row_about p d v \<longleftrightarrow> vi_policyId v = pol_id p \<and> vi_deviceId v = fd_id d"

inductive device_step :: "pass_env \<Rightarrow> eval_env \<Rightarrow> policy_ctx \<Rightarrow> fleet_device \<Rightarrow> pass_acc \<Rightarrow> pass_acc \<Rightarrow> bool"
  for env ev ctx d acc where
  unchanged: "violates ev (cx_policy ctx) d = (map_of (px_state acc) (pair_key (cx_policy ctx) d) \<noteq> None) \<Longrightarrow>
    device_step env ev ctx d acc acc"
| recovered: "\<not> violates ev (cx_policy ctx) d \<Longrightarrow> map_of (px_state acc) (pair_key (cx_policy ctx) d) \<noteq> None \<Longrightarrow>
    px_state acc' = map_del (pair_key (cx_policy ctx) d) (px_state acc) \<Longrightarrow> px_rows acc' = px_rows acc \<Longrightarrow>
    late_tables acc' = late_tables acc \<Longrightarrow> launch_view acc' = launch_view acc \<Longrightarrow>
    px_policyAutofired acc' = px_policyAutofired acc \<Longrightarrow> tally acc' = (fst (tally acc), snd (tally acc) + 1) \<Longrightarrow>
    device_step env ev ctx d acc acc'"
| flagged: "violates ev (cx_policy ctx) d \<Longrightarrow> map_of (px_state acc) (pair_key (cx_policy ctx) d) = None \<Longrightarrow>
    px_state acc' = map_set (pair_key (cx_policy ctx) d) su (px_state acc) \<Longrightarrow> px_rows acc' = px_rows acc @ [v] \<Longrightarrow>
    row_about (cx_policy ctx) d v \<Longrightarrow> vi_workspace v = cx_workspace ctx \<Longrightarrow> late_tables acc' = late_tables acc \<Longrightarrow>
    fire_step env ctx d (vi_status v) (vi_workflowRunId v) acc acc' \<Longrightarrow>
    tally acc' = (fst (tally acc) + 1, snd (tally acc)) \<Longrightarrow> device_step env ev ctx d acc acc'"

lemma fire_step_cong:
  "launch_view b = launch_view a \<Longrightarrow> px_policyAutofired b = px_policyAutofired a \<Longrightarrow> launch_view c' = launch_view c \<Longrightarrow>
   px_policyAutofired c' = px_policyAutofired c \<Longrightarrow> fire_step env ctx d st run b c \<Longrightarrow> fire_step env ctx d st run a c'"
  by (auto simp: fire_step_def launches_def launch_view_def split: if_splits)

lemma flag_device_step:
  assumes "violates ev (cx_policy ctx) d" "map_of (px_state acc) (pair_key (cx_policy ctx) d) = None"
  shows "device_step env ev ctx d acc (flag_device env base ctx d matched acc)"
proof -
  define n where "n = base + length (px_rows acc)"
  define acc1 where "acc1 = push_markers ctx d True (on_summary (\<lambda>s. s\<lparr>es_violationsFound := es_violationsFound s + 1\<rparr>)
    (acc\<lparr>px_policyNew := px_policyNew acc + 1\<rparr>))"
  obtain c acc2 where two: "open_case env ctx d n acc1 = (c, acc2)" by (cases "open_case env ctx d n acc1")
  obtain st run acc3 where three: "decide_violation env ctx d c n acc2 = ((st, run), acc3)"
    by (metis surj_pair)
  have one: "px_state acc1 = px_state acc" "px_rows acc1 = px_rows acc" "late_tables acc1 = late_tables acc"
    "launch_view acc1 = launch_view acc" "px_policyAutofired acc1 = px_policyAutofired acc"
    "tally acc1 = (fst (tally acc) + 1, snd (tally acc))"
    by (simp_all add: acc1_def acc_ops pass_views)
  note mid = open_case_effect [OF two] and last = decide_effect [OF three]
  define acc' where "acc' = flag_device env base ctx d matched acc"
  have eq: "acc' = acc3\<lparr>px_rows := px_rows acc3 @ [violation_of env ctx d matched n c st run],
      px_state := map_set (pair_key (cx_policy ctx) d) \<lparr>su_violationId = pn_violationId env n, su_status = st,
        su_lastDetectedAt = pass_now env\<rparr> (px_state acc3)\<rparr>"
    using two three by (simp add: acc'_def flag_device_def Let_def n_def acc1_def pair_key_def)
  have views: "late_tables acc' = late_tables acc3" "launch_view acc' = launch_view acc3" "tally acc' = tally acc3"
    "px_policyAutofired acc' = px_policyAutofired acc3"
    by (simp_all add: eq pass_views)
  have "fire_step env ctx d st run acc acc'"
    using last one mid views by (intro fire_step_cong [of acc2 acc acc' acc3]) auto
  then show ?thesis
    unfolding acc'_def [symmetric] using assms last one mid views
    by (intro flagged [of _ _ _ _ _ _ "violation_of env ctx d matched n c st run"])
      (auto simp: eq decided_frame_def violation_of_def Let_def row_about_def)
qed

lemma evaluate_device_step: "device_step env ev ctx d acc (evaluate_device env ev base ctx d acc)"
proof (cases "violates ev (cx_policy ctx) d \<and> map_of (px_state acc) (pair_key (cx_policy ctx) d) = None")
  case True
  then have "evaluate_device env ev base ctx d acc = flag_device env base ctx d
      (policyViolated ev (fd_json d) (pc_conditions (pol_cfg (cx_policy ctx))) (Some (pc_conditionLogic (pol_cfg (cx_policy ctx))))) acc"
    by (simp add: evaluate_device_def Let_def violates_def pair_key_def)
  with flag_device_step True show ?thesis by metis
next
  case False
  then show ?thesis
    by (cases "map_of (px_state acc) (pair_key (cx_policy ctx) d)")
      (auto simp: evaluate_device_def Let_def violates_def pair_key_def recover_device_effect
        intro!: device_step.unchanged device_step.recovered)
qed

section \<open>A pass brings the flags in line with the conditions\<close>

type_synonym scoped_pair = "policy_row \<times> fleet_device"

definition flagged_in :: "pass_acc \<Rightarrow> scoped_pair \<Rightarrow> bool" where
  "flagged_in acc x \<longleftrightarrow> map_of (px_state acc) (pair_key (fst x) (snd x)) \<noteq> None"

definition newly :: "eval_env \<Rightarrow> pass_acc \<Rightarrow> scoped_pair list \<Rightarrow> scoped_pair list" where
  "newly ev acc xs = filter (\<lambda>x. violates ev (fst x) (snd x) \<and> \<not> flagged_in acc x) xs"

definition healed :: "eval_env \<Rightarrow> pass_acc \<Rightarrow> scoped_pair list \<Rightarrow> scoped_pair list" where
  "healed ev acc xs = filter (\<lambda>x. \<not> violates ev (fst x) (snd x) \<and> flagged_in acc x) xs"

definition pair_keys :: "scoped_pair list \<Rightarrow> string list" where
  "pair_keys xs = map (\<lambda>x. pair_key (fst x) (snd x)) xs"

definition mirrored :: "eval_env \<Rightarrow> scoped_pair list \<Rightarrow> pass_acc \<Rightarrow> pass_acc \<Rightarrow> bool" where
  "mirrored ev xs acc acc' \<longleftrightarrow>
     late_tables acc' = late_tables acc \<and>
     (\<forall>k. k \<notin> set (pair_keys xs) \<longrightarrow> map_of (px_state acc') k = map_of (px_state acc) k) \<and>
     (\<forall>x\<in>set xs. flagged_in acc' x = violates ev (fst x) (snd x)) \<and>
     (\<exists>rows. px_rows acc' = px_rows acc @ rows \<and> list_all2 (\<lambda>x v. row_about (fst x) (snd x) v) (newly ev acc xs) rows) \<and>
     tally acc' = (fst (tally acc) + length (newly ev acc xs), snd (tally acc) + length (healed ev acc xs))"

lemmas pair_lists = newly_def healed_def pair_keys_def

lemma mirrored_quiet:
  "px_state acc' = px_state acc \<Longrightarrow> px_rows acc' = px_rows acc \<Longrightarrow> late_tables acc' = late_tables acc \<Longrightarrow> tally acc' = tally acc \<Longrightarrow>
   mirrored ev [] acc acc'"
  by (simp add: mirrored_def pair_lists)

lemma mirrored_append:
  assumes one: "mirrored ev xs a b" and two: "mirrored ev ys b c" and keys: "set (pair_keys xs) \<inter> set (pair_keys ys) = {}"
  shows "mirrored ev (xs @ ys) a c"
proof -
  have later: "flagged_in b y = flagged_in a y" if "y \<in> set ys" for y
  proof -
    have "pair_key (fst y) (snd y) \<notin> set (pair_keys xs)" using keys that by (auto simp: pair_keys_def)
    with one show ?thesis by (simp add: mirrored_def flagged_in_def)
  qed
  have earlier: "flagged_in c x = flagged_in b x" if "x \<in> set xs" for x
  proof -
    have "pair_key (fst x) (snd x) \<notin> set (pair_keys ys)" using keys that by (auto simp: pair_keys_def)
    with two show ?thesis by (simp add: mirrored_def flagged_in_def)
  qed
  have lists: "newly ev b ys = newly ev a ys" "healed ev b ys = healed ev a ys"
    unfolding newly_def healed_def using later by (auto intro!: filter_cong)
  obtain r1 where r1: "px_rows b = px_rows a @ r1" "list_all2 (\<lambda>x v. row_about (fst x) (snd x) v) (newly ev a xs) r1"
    using one by (auto simp: mirrored_def)
  obtain r2 where r2: "px_rows c = px_rows b @ r2" "list_all2 (\<lambda>x v. row_about (fst x) (snd x) v) (newly ev a ys) r2"
    using two lists by (auto simp: mirrored_def)
  have "px_rows c = px_rows a @ r1 @ r2 \<and>
      list_all2 (\<lambda>x v. row_about (fst x) (snd x) v) (newly ev a (xs @ ys)) (r1 @ r2)"
    using r1 r2 by (simp add: newly_def list_all2_appendI)
  moreover have "map_of (px_state c) k = map_of (px_state a) k" if "k \<notin> set (pair_keys (xs @ ys))" for k
    using one two that by (simp add: mirrored_def pair_keys_def)
  moreover have "\<forall>x\<in>set (xs @ ys). flagged_in c x = violates ev (fst x) (snd x)"
    using one two earlier by (auto simp: mirrored_def)
  moreover have "tally c = (fst (tally a) + length (newly ev a (xs @ ys)), snd (tally a) + length (healed ev a (xs @ ys)))"
    using one two lists by (simp add: mirrored_def newly_def healed_def)
  moreover have "late_tables c = late_tables a" using one two by (simp add: mirrored_def)
  ultimately show ?thesis unfolding mirrored_def by blast
qed

lemma mirrored_device:
  assumes "device_step env ev ctx d acc acc'"
  shows "mirrored ev [(cx_policy ctx, d)] acc acc'"
  using assms
proof cases
  case unchanged
  then show ?thesis by (auto simp: mirrored_def pair_lists flagged_in_def)
next
  case recovered
  then show ?thesis by (auto simp: mirrored_def pair_lists flagged_in_def)
next
  case (flagged su v)
  then show ?thesis by (auto simp: mirrored_def pair_lists flagged_in_def)
qed

lemma mirrored_devices:
  assumes "distinct (pair_keys (map (Pair (cx_policy ctx)) ds))"
  shows "mirrored ev (map (Pair (cx_policy ctx)) ds) acc (fold (evaluate_device env ev base ctx) ds acc)"
  using assms
proof (induction ds arbitrary: acc)
  case (Cons d ds)
  have "mirrored ev ([(cx_policy ctx, d)] @ map (Pair (cx_policy ctx)) ds) acc
      (fold (evaluate_device env ev base ctx) ds (evaluate_device env ev base ctx d acc))"
    using Cons.prems by (intro mirrored_append [OF mirrored_device [OF evaluate_device_step] Cons.IH])
      (auto simp: pair_keys_def)
  then show ?case by simp
qed (simp add: mirrored_quiet)

definition scoped_pairs :: "policy_row list \<Rightarrow> fleet_device list \<Rightarrow> scoped_pair list" where
  "scoped_pairs policies devices = concat (map (\<lambda>p. map (Pair p) (filter (in_scope (pol_cfg p)) devices)) policies)"

lemma context_policy [simp]:
  "cx_policy (policy_context env ws actor vs p acc) = p" "cx_workspace (policy_context env ws actor vs p acc) = ws"
  by (simp_all add: policy_context_def Let_def)

lemma push_audit_frame [simp]:
  "px_state (push_audit e acc) = px_state acc" "px_rows (push_audit e acc) = px_rows acc"
  "late_tables (push_audit e acc) = late_tables acc" "tally (push_audit e acc) = tally acc"
  "launch_view (push_audit e acc) = launch_view acc" "px_policyAutofired (push_audit e acc) = px_policyAutofired acc"
  by (simp_all add: push_audit_def pass_views)

lemma trip_policy_frame [simp]:
  "px_state (trip_policy env actor p r acc) = px_state acc" "px_rows (trip_policy env actor p r acc) = px_rows acc"
  "late_tables (trip_policy env actor p r acc) = late_tables acc" "tally (trip_policy env actor p r acc) = tally acc"
  "launch_view (trip_policy env actor p r acc) = launch_view acc"
  "px_policyAutofired (trip_policy env actor p r acc) = px_policyAutofired acc"
  by (simp_all add: trip_policy_def) (simp_all add: update_policy_def pass_views)

lemma start_policy_effect:
  "px_state (start_policy env ctx vs n acc) = px_state acc" "px_rows (start_policy env ctx vs n acc) = px_rows acc"
  "late_tables (start_policy env ctx vs n acc) = late_tables acc" "tally (start_policy env ctx vs n acc) = tally acc"
  "launch_view (start_policy env ctx vs n acc) = launch_view acc" "px_policyAutofired (start_policy env ctx vs n acc) = 0"
  by (simp_all add: start_policy_def Let_def) (simp_all add: on_summary_def pass_views)

lemma finish_policy_effect:
  "px_state (finish_policy ctx n acc) = px_state acc" "px_rows (finish_policy ctx n acc) = px_rows acc"
  "late_tables (finish_policy ctx n acc) = late_tables acc" "tally (finish_policy ctx n acc) = tally acc"
  "launch_view (finish_policy ctx n acc) = launch_view acc"
  by (simp_all add: finish_policy_def Let_def) (simp_all add: push_audit_def pass_views)

lemma mirrored_policy:
  assumes "distinct (pair_keys (scoped_pairs [p] devices))"
  shows "mirrored ev (scoped_pairs [p] devices) acc (evaluate_policy env ev base ws actor vs devices p acc)"
proof -
  let ?ctx = "policy_context env ws actor vs p acc" and ?ds = "filter (in_scope (pol_cfg p)) devices"
  let ?a = "start_policy env ?ctx vs (length ?ds) acc"
  have "mirrored ev (map (Pair p) ?ds) ?a (fold (evaluate_device env ev base ?ctx) ?ds ?a)"
    using mirrored_devices [of ?ctx ?ds] assms by (simp add: scoped_pairs_def)
  then have "mirrored ev ([] @ (map (Pair p) ?ds @ [])) acc
      (finish_policy ?ctx (length ?ds) (fold (evaluate_device env ev base ?ctx) ?ds ?a))"
    by (intro mirrored_append mirrored_quiet) (simp_all add: start_policy_effect finish_policy_effect pair_keys_def)
  then show ?thesis by (simp add: evaluate_policy_def Let_def scoped_pairs_def)
qed

lemma mirrored_policies:
  assumes "distinct (pair_keys (scoped_pairs ps devices))"
  shows "mirrored ev (scoped_pairs ps devices) acc (fold (evaluate_policy env ev base ws actor vs devices) ps acc)"
  using assms
proof (induction ps arbitrary: acc)
  case (Cons p ps)
  have split: "scoped_pairs (p # ps) devices = scoped_pairs [p] devices @ scoped_pairs ps devices"
    by (simp add: scoped_pairs_def)
  have "mirrored ev (scoped_pairs [p] devices @ scoped_pairs ps devices) acc
      (fold (evaluate_policy env ev base ws actor vs devices) ps (evaluate_policy env ev base ws actor vs devices p acc))"
    using Cons.prems unfolding split
    by (intro mirrored_append [OF mirrored_policy Cons.IH]) (auto simp: pair_keys_def)
  then show ?case unfolding split by simp
qed (simp add: mirrored_quiet scoped_pairs_def)

text \<open>What the writes after the loop leave alone.\<close>

lemma late_frame [simp]:
  "cd_states (with_cases f db) = cd_states db" "cd_violations (with_cases f db) = cd_violations db"
  "cd_states (comp_audit ws ev db) = cd_states db" "cd_violations (comp_audit ws ev db) = cd_violations db"
  "cd_states (update_policy i g db) = cd_states db" "cd_violations (update_policy i g db) = cd_violations db"
  "cd_states (send_alert a db) = cd_states db" "cd_violations (send_alert a db) = cd_violations db"
  "cd_states (invalidate_devices ws db) = cd_states db" "cd_violations (invalidate_devices ws db) = cd_violations db"
  by (simp_all add: with_cases_def comp_audit_def update_policy_def send_alert_def invalidate_devices_def)

lemma alert_frame:
  "cd_states (firePolicyViolationAlert env p n k db) = cd_states db"
  "cd_violations (firePolicyViolationAlert env p n k db) = cd_violations db"
  "case_jobs (cd_cases (firePolicyViolationAlert env p n k db)) = case_jobs (cd_cases db)"
  by (auto simp: firePolicyViolationAlert_def Let_def alert_webhook_def alert_email_def sendChatText_def sendAlertEmail_def
      send_alert_def update_policy_def split: option.splits prod.splits if_splits)

lemma write_markers_frame:
  "cd_states (write_markers env ws as db) = cd_states db" "cd_violations (write_markers env ws as db) = cd_violations db"
  "case_jobs (cd_cases (write_markers env ws as db)) = case_jobs (cd_cases db)"
  by (simp_all add: write_markers_def Let_def invalidate_devices_def with_cases_def split: prod.splits)

lemma fold_frame: "(\<And>x db. x \<in> set xs \<Longrightarrow> g (f x db) = g db) \<Longrightarrow> g (fold f xs db) = g db"
  by (induction xs arbitrary: db) auto

lemma fold_notify: "(\<And>c ev x. g (with_cases (dispatchAndAttachCaseEvent e n c ev) x) = g x) \<Longrightarrow>
    g (fold (\<lambda>(c, ev). with_cases (dispatchAndAttachCaseEvent e n c ev)) xs db) = g db"
  by (rule fold_frame) auto

lemma fold_alerts: "(\<And>p n k x. g (firePolicyViolationAlert env p n k x) = g x) \<Longrightarrow>
    g (fold (\<lambda>(p, n, k). firePolicyViolationAlert env p n k) xs db) = g db"
  by (rule fold_frame) auto

lemma finish_pass_tables:
  "cd_states (finish_pass env ws b ps acc) = map_set ws (px_state acc) (cd_states (px_db acc))"
  "cd_violations (finish_pass env ws b ps acc) = cd_violations (px_db acc) @ px_rows acc"
  "case_jobs (cd_cases (finish_pass env ws b ps acc)) = pass_jobs acc"
proof -
  have jobs: "case_jobs (cd_cases (with_cases (dispatchAndAttachCaseEvent e n c ev) x)) = case_jobs (cd_cases x)"
    "case_jobs (cd_cases (comp_audit ws i x)) = case_jobs (cd_cases x)" for e n c ev x i
    by (simp_all add: with_cases_def dispatch_jobs comp_audit_def)
  show "cd_states (finish_pass env ws b ps acc) = map_set ws (px_state acc) (cd_states (px_db acc))"
    by (simp add: finish_pass_def Let_def write_markers_frame alert_frame saveComplianceState_def
        fold_notify [where g = cd_states] fold_alerts [where g = cd_states] fold_frame [where g = cd_states])
  show "cd_violations (finish_pass env ws b ps acc) = cd_violations (px_db acc) @ px_rows acc"
    by (simp add: finish_pass_def Let_def write_markers_frame alert_frame saveComplianceState_def
        fold_notify [where g = cd_violations] fold_alerts [where g = cd_violations] fold_frame [where g = cd_violations])
  show "case_jobs (cd_cases (finish_pass env ws b ps acc)) = pass_jobs acc"
    by (simp add: finish_pass_def Let_def write_markers_frame alert_frame saveComplianceState_def pass_jobs_def jobs
        fold_notify [where g = "\<lambda>x. case_jobs (cd_cases x)"] fold_alerts [where g = "\<lambda>x. case_jobs (cd_cases x)"]
        fold_frame [where g = "\<lambda>x. case_jobs (cd_cases x)"])
qed

section \<open>Relations kept by a whole pass\<close>

locale pass_relation =
  fixes env :: pass_env and ev :: eval_env and ws :: string and policies :: "policy_row list"
    and devices :: "fleet_device list" and R :: "pass_acc \<Rightarrow> pass_acc \<Rightarrow> bool"
  assumes refl: "R a a"
    and trans: "R a b \<Longrightarrow> R b c \<Longrightarrow> R a c"
    and bookkeeping: "launch_view a' = launch_view a \<Longrightarrow> px_rows a' = px_rows a \<Longrightarrow> R a a'"
    and device: "p \<in> set policies \<Longrightarrow> d \<in> set devices \<Longrightarrow> in_scope (pol_cfg p) d \<Longrightarrow>
      device_step env ev (policy_context env ws actor vs p b) d a a' \<Longrightarrow> R a a'"
begin

lemma devices_fold:
  "p \<in> set policies \<Longrightarrow> set ds \<subseteq> {d \<in> set devices. in_scope (pol_cfg p) d} \<Longrightarrow>
   R acc (fold (evaluate_device env ev base (policy_context env ws actor vs p b)) ds acc)"
proof (induction ds arbitrary: acc)
  case (Cons d ds)
  have "R acc (evaluate_device env ev base (policy_context env ws actor vs p b) d acc)"
    using Cons.prems by (intro device [OF _ _ _ evaluate_device_step]) auto
  with Cons show ?case by (auto intro: trans)
qed (simp add: refl)

lemma policy_step: "p \<in> set policies \<Longrightarrow> R acc (evaluate_policy env ev base ws actor vs devices p acc)"
  unfolding evaluate_policy_def Let_def
  by (rule trans [OF bookkeeping trans [OF devices_fold bookkeeping]])
    (auto simp: start_policy_effect finish_policy_effect)

lemma pass: "set ps \<subseteq> set policies \<Longrightarrow> R acc (fold (evaluate_policy env ev base ws actor vs devices) ps acc)"
proof (induction ps arbitrary: acc)
  case (Cons p ps)
  then show ?case using trans [OF policy_step [of p acc] Cons.IH] by simp
qed (simp add: refl)

end

text \<open>What a policy must allow before a workflow is started on a device without a review.\<close>

definition authorised :: "pass_env \<Rightarrow> eval_env \<Rightarrow> string \<Rightarrow> policy_row \<Rightarrow> workflow_row \<Rightarrow> fleet_device \<Rightarrow> bool" where
  "authorised env ev ws p w d \<longleftrightarrow>
     pc_autoRun (pol_cfg p) \<and> \<not> pol_autoRunTripped p \<and> in_scope (pol_cfg p) d \<and> violates ev p d \<and>
     (workflow_of env ws (pc_workflowId (pol_cfg p)) = Some w \<or>
      workflow_of env ws (pc_workflowId (pol_cfg p)) \<noteq> None \<and> workflow_of env ws (pc_escalatedWorkflowId (pol_cfg p)) = Some w) \<and>
     (workflowHasDestructiveStep (Some w) \<longrightarrow> pc_autoRunDestructiveAck (pol_cfg p))"

lemma unblocked:
  "fst (autorun_block ws p w e vs sys) = None \<Longrightarrow> pc_autoRun (pol_cfg p) \<Longrightarrow> w \<noteq> None \<Longrightarrow>
   \<not> pol_autoRunTripped p \<and> (workflowHasDestructiveStep w \<or> workflowHasDestructiveStep e \<longrightarrow> pc_autoRunDestructiveAck (pol_cfg p))"
  by (auto simp: autorun_block_def split: if_splits)

lemma may_fire_authorised:
  assumes "may_fire (policy_context env ws actor vs p b) n" "effective_workflow (policy_context env ws actor vs p b) d = Some w"
    and "in_scope (pol_cfg p) d" "violates ev p d"
  shows "authorised env ev ws p w d"
proof -
  let ?w = "workflow_of env ws (pc_workflowId (pol_cfg p))"
  let ?e = "if ?w = None then None else workflow_of env ws (pc_escalatedWorkflowId (pol_cfg p))"
  have ctx: "pc_autoRun (pol_cfg p)" "?w \<noteq> None"
    "fst (autorun_block ws p ?w ?e vs (case_runs (cd_cases (px_db b)))) = None"
    using assms(1) by (auto simp: may_fire_def policy_context_def Let_def)
  have "Some w = ?w \<or> Some w = ?e"
    using assms(2) by (auto simp: effective_workflow_def policy_context_def Let_def split: if_splits)
  then show ?thesis
    using unblocked [OF ctx(3,1,2)] assms(3,4) ctx by (auto simp: authorised_def split: if_splits)
qed

text \<open>The launches between two states: each authorised, each on its own pair of workflow and device.\<close>

type_synonym launch = "string \<times> workflow_row \<times> fleet_device"

definition launch_key :: "launch \<Rightarrow> string" where
  "launch_key x = (case x of (_, w, d) \<Rightarrow> fired_key w d)"

definition launch_job :: "string \<Rightarrow> launch \<Rightarrow> run_job" where
  "launch_job ws x = (case x of (i, w, d) \<Rightarrow> single_job i w (device_ref_of d) ws)"

definition launched :: "(launch \<Rightarrow> bool) \<Rightarrow> string \<Rightarrow> pass_acc \<Rightarrow> pass_acc \<Rightarrow> bool" where
  "launched Q ws a a' \<longleftrightarrow>
     (\<exists>xs. pass_jobs a' = pass_jobs a @ map (launch_job ws) xs \<and>
        es_autoFired (px_summary a') = es_autoFired (px_summary a) + length xs \<and> distinct (map launch_key xs) \<and>
        (\<forall>x\<in>set xs. launch_key x \<notin> dom (map_of (px_fired a)) \<and> Q x) \<and>
        dom (map_of (px_fired a')) = dom (map_of (px_fired a)) \<union> launch_key ` set xs)"

lemma launched_same: "launch_view a' = launch_view a \<Longrightarrow> launched Q ws a a'"
  unfolding launched_def launch_view_def by (intro exI [of _ "[]"]) simp

lemma launched_trans:
  assumes "launched Q ws a b" "launched Q ws b c"
  shows "launched Q ws a c"
proof -
  obtain xs where xs: "pass_jobs b = pass_jobs a @ map (launch_job ws) xs"
    "es_autoFired (px_summary b) = es_autoFired (px_summary a) + length xs" "distinct (map launch_key xs)"
    "\<forall>x\<in>set xs. launch_key x \<notin> dom (map_of (px_fired a)) \<and> Q x"
    "dom (map_of (px_fired b)) = dom (map_of (px_fired a)) \<union> launch_key ` set xs"
    using assms(1) unfolding launched_def by blast
  obtain ys where ys: "pass_jobs c = pass_jobs b @ map (launch_job ws) ys"
    "es_autoFired (px_summary c) = es_autoFired (px_summary b) + length ys" "distinct (map launch_key ys)"
    "\<forall>x\<in>set ys. launch_key x \<notin> dom (map_of (px_fired b)) \<and> Q x"
    "dom (map_of (px_fired c)) = dom (map_of (px_fired b)) \<union> launch_key ` set ys"
    using assms(2) unfolding launched_def by blast
  have fresh: "launch_key y \<notin> launch_key ` set xs" if y: "y \<in> set ys" for y
  proof -
    have "launch_key y \<notin> dom (map_of (px_fired b))" using ys(4) y by blast
    then show ?thesis unfolding xs(5) by blast
  qed
  have disjoint: "launch_key ` set xs \<inter> launch_key ` set ys = {}"
  proof (rule equals0I)
    fix k assume "k \<in> launch_key ` set xs \<inter> launch_key ` set ys"
    then obtain y where "y \<in> set ys" "k = launch_key y" "k \<in> launch_key ` set xs" by blast
    with fresh show False by blast
  qed
  show ?thesis
    unfolding launched_def using xs ys disjoint by (intro exI [of _ "xs @ ys"]) auto
qed

lemma launched_device:
  assumes "device_step env ev ctx d a a'"
    and "\<And>i w n. may_fire ctx n \<Longrightarrow> effective_workflow ctx d = Some w \<Longrightarrow> violates ev (cx_policy ctx) d \<Longrightarrow> Q (i, w, d)"
  shows "launched Q (cx_workspace ctx) a a'"
  using assms(1)
proof cases
  case (flagged su v)
  show ?thesis
  proof (cases "launch_view a' = launch_view a")
    case False
    then obtain w i r where w: "may_fire ctx (px_policyAutofired a)" "effective_workflow ctx d = Some w"
      "map_of (px_fired a) (fired_key w d) = None"
      "launch_view a' = (pass_jobs a @ [single_job i w (device_ref_of d) (cx_workspace ctx)],
         map_set (fired_key w d) r (px_fired a), es_autoFired (px_summary a) + 1)"
      using \<open>fire_step env ctx d (vi_status v) (vi_workflowRunId v) a a'\<close>
      by (auto simp: fire_step_def launches_def split: if_splits)
    then show ?thesis
      using assms(2) [OF w(1,2) \<open>violates ev (cx_policy ctx) d\<close>]
      unfolding launched_def launch_view_def
      by (intro exI [of _ "[(i, w, d)]"]) (auto simp: launch_job_def launch_key_def)
  qed (rule launched_same)
qed (auto intro: launched_same)

definition row_ok :: "pass_env \<Rightarrow> eval_env \<Rightarrow> string \<Rightarrow> policy_row list \<Rightarrow> fleet_device list \<Rightarrow> violation_row \<Rightarrow> bool" where
  "row_ok env ev ws policies devices v \<longleftrightarrow> vi_workspace v = ws \<and>
     (\<exists>p\<in>set policies. \<exists>d\<in>set devices. row_about p d v \<and> in_scope (pol_cfg p) d \<and> violates ev p d \<and>
        (vi_status v = ''auto_fired'' \<longrightarrow> (\<exists>w. authorised env ev ws p w d)))"

definition rows_grow :: "(violation_row \<Rightarrow> bool) \<Rightarrow> pass_acc \<Rightarrow> pass_acc \<Rightarrow> bool" where
  "rows_grow Q a a' \<longleftrightarrow> (\<exists>rows. px_rows a' = px_rows a @ rows \<and> (\<forall>v\<in>set rows. Q v))"

lemma rows_grow_trans: "rows_grow Q a b \<Longrightarrow> rows_grow Q b c \<Longrightarrow> rows_grow Q a c"
  unfolding rows_grow_def by (metis (no_types, lifting) Un_iff append.assoc set_append)

interpretation pass_launches: pass_relation env ev ws policies devices
  "launched (\<lambda>(i, w, d). d \<in> set devices \<and> (\<exists>p\<in>set policies. authorised env ev ws p w d)) ws"
  for env ev ws policies devices
proof (unfold_locales, goal_cases)
  case (4 p d actor vs b a a')
  then show ?case
    using launched_device [OF 4(4), of "\<lambda>(i, w, d). d \<in> set devices \<and> (\<exists>p\<in>set policies. authorised env ev ws p w d)"]
    by (auto intro: may_fire_authorised)
qed (auto intro: launched_same launched_trans)

interpretation pass_rows: pass_relation env ev ws policies devices "rows_grow (row_ok env ev ws policies devices)"
  for env ev ws policies devices
proof (unfold_locales, goal_cases)
  case (4 p d actor vs b a a')
  from 4(4) show ?case
  proof cases
    case (flagged su v)
    then have "row_ok env ev ws policies devices v"
      using 4(1-3) unfolding row_ok_def
      by (auto simp: fire_step_def split: if_splits intro!: bexI [of _ p] bexI [of _ d] intro: may_fire_authorised)
    with flagged show ?thesis by (auto simp: rows_grow_def)
  qed (auto simp: rows_grow_def)
qed (auto simp: rows_grow_def intro: rows_grow_trans)

section \<open>The cap of a policy\<close>

definition fired_rows :: "string \<Rightarrow> pass_acc \<Rightarrow> nat" where
  "fired_rows policyId acc = length (filter (\<lambda>v. vi_policyId v = policyId \<and> vi_status v = ''auto_fired'') (px_rows acc))"

lemma device_other_policy: "device_step env ev ctx d a a' \<Longrightarrow> pol_id (cx_policy ctx) \<noteq> i \<Longrightarrow> fired_rows i a' = fired_rows i a"
  by (erule device_step.cases) (auto simp: fired_rows_def row_about_def)

lemma devices_other_policy:
  "pol_id (cx_policy ctx) \<noteq> i \<Longrightarrow> fired_rows i (fold (evaluate_device env ev base ctx) ds a) = fired_rows i a"
  by (induction ds arbitrary: a) (auto simp: device_other_policy [OF evaluate_device_step])

text \<open>The counter of the policy counts exactly its fired rows, and stops at the cap.\<close>

lemma device_counts:
  assumes "device_step env ev ctx d a a'" "resolveAutoRunBatchCap (pol_cfg (cx_policy ctx)) = Some c"
    and "int (px_policyAutofired a) \<le> c"
  shows "fired_rows (pol_id (cx_policy ctx)) a' + px_policyAutofired a =
      fired_rows (pol_id (cx_policy ctx)) a + px_policyAutofired a' \<and> int (px_policyAutofired a') \<le> c"
  using assms
  by cases (auto simp: fired_rows_def row_about_def fire_step_def may_fire_def cap_reached_def split: if_splits)

lemma devices_count:
  assumes "resolveAutoRunBatchCap (pol_cfg (cx_policy ctx)) = Some c" "int (px_policyAutofired a) \<le> c"
  shows "fired_rows (pol_id (cx_policy ctx)) (fold (evaluate_device env ev base ctx) ds a) + px_policyAutofired a =
      fired_rows (pol_id (cx_policy ctx)) a + px_policyAutofired (fold (evaluate_device env ev base ctx) ds a) \<and>
    int (px_policyAutofired (fold (evaluate_device env ev base ctx) ds a)) \<le> c"
  using assms(2)
proof (induction ds arbitrary: a)
  case (Cons d ds)
  let ?b = "evaluate_device env ev base ctx d a"
  from device_counts [OF evaluate_device_step [of env ev ctx d a base] assms(1) Cons.prems] Cons.IH [of ?b]
  show ?case by auto
qed simp

lemma cap_positive: "resolveAutoRunBatchCap cfg = Some c \<Longrightarrow> 0 < c"
  by (auto simp: resolveAutoRunBatchCap_def split: if_splits)

lemma policy_fired:
  assumes "resolveAutoRunBatchCap (pol_cfg p) = Some c"
  shows "int (fired_rows (pol_id p) (evaluate_policy env ev base ws actor vs devices p acc)) \<le> int (fired_rows (pol_id p) acc) + c"
proof -
  let ?ctx = "policy_context env ws actor vs p acc"
  let ?ds = "filter (in_scope (pol_cfg p)) devices"
  let ?a = "start_policy env ?ctx vs (length ?ds) acc"
  have "fired_rows (pol_id p) ?a = fired_rows (pol_id p) acc" by (simp add: fired_rows_def start_policy_effect)
  moreover have "fired_rows i (finish_policy ?ctx (length ?ds) b) = fired_rows i b" for i b
    by (simp add: fired_rows_def finish_policy_effect)
  ultimately show ?thesis
    using devices_count [of ?ctx c ?a env ev base ?ds] assms cap_positive [OF assms]
    by (simp add: evaluate_policy_def Let_def start_policy_effect)
qed

lemma other_policy_fired:
  "pol_id p \<noteq> i \<Longrightarrow> fired_rows i (evaluate_policy env ev base ws actor vs devices p acc) = fired_rows i acc"
  by (simp add: evaluate_policy_def Let_def fired_rows_def finish_policy_effect)
    (simp add: fired_rows_def [symmetric] devices_other_policy, simp add: fired_rows_def start_policy_effect)

lemma pass_fired:
  assumes "p \<in> set ps" "distinct (map pol_id ps)" "resolveAutoRunBatchCap (pol_cfg p) = Some c"
  shows "int (fired_rows (pol_id p) (fold (evaluate_policy env ev base ws actor vs devices) ps acc)) \<le> int (fired_rows (pol_id p) acc) + c"
proof -
  have rest: "fired_rows (pol_id p) (fold (evaluate_policy env ev base ws actor vs devices) qs a) = fired_rows (pol_id p) a"
    if "pol_id p \<notin> pol_id ` set qs" for qs a
    using that by (induction qs arbitrary: a) (auto simp: other_policy_fired)
  obtain xs ys where ps: "ps = xs @ p # ys" using assms(1) by (meson split_list)
  with assms(2) have "pol_id p \<notin> pol_id ` set xs" "pol_id p \<notin> pol_id ` set ys" by auto
  then show ?thesis
    using policy_fired [OF assms(3)] by (simp add: ps rest) (metis rest)
qed

lemma late_tables_device: "device_step env ev ctx d a a' \<Longrightarrow> late_tables a' = late_tables a"
  by (erule device_step.cases) auto

lemma late_tables_pass:
  "late_tables (fold (evaluate_policy env ev base ws actor vs devices) ps acc) = late_tables acc"
proof -
  have "late_tables (fold (evaluate_device env ev base ctx) ds a) = late_tables a" for ctx ds a
    by (induction ds arbitrary: a) (auto simp: late_tables_device [OF evaluate_device_step])
  then show ?thesis
    by (induction ps arbitrary: acc) (auto simp: evaluate_policy_def Let_def start_policy_effect finish_policy_effect)
qed

section \<open>The theorems of the pass\<close>

definition pass_devices :: "pass_env \<Rightarrow> string \<Rightarrow> policy_row list \<Rightarrow> fleet_device list \<Rightarrow> fleet_device list" where
  "pass_devices env ws policies fleet = attach_apps env ws (appListScopedDeviceIds fleet policies) fleet"

lemma pass_run:
  assumes "runComplianceEvaluation env ws pids actor scope db = (Inr s, db')"
    and "sv_fleet (pn_step env) ws (cd_mdm db) = Inr fleet"
    and "policies = selected_policies ws pids db" and "seen = scope_devices scope fleet"
  shows "policies = [] \<and> db' = db \<and> s = empty_summary 0 \<or>
    (\<exists>actor' acc. acc = fold (evaluate_policy env (pass_conditions env ws policies seen) (length (cd_violations db)) ws actor'
        (violations_desc ws db) (pass_devices env ws policies seen)) policies (start_pass ws policies db) \<and>
       s = px_summary acc \<and> db' = finish_pass env ws (fleet_wide scope) policies acc)"
  using assms
  by (auto simp: runComplianceEvaluation_def Let_def evaluate_policies_def pass_devices_def split: if_splits)

lemma pass_state:
  "loadComplianceState ws (finish_pass env ws b ps acc) = px_state acc"
  by (simp add: loadComplianceState_def finish_pass_tables)

text \<open>
  C1: After a pass that returned, the suppression state says exactly which of the pairs of a selected policy and a
  device in its scope violate the policy now, and is unchanged elsewhere; exactly one violation row is added for
  each pair that violates and was not flagged, in the order of the pass, and the summary counts those rows and the
  pairs that recovered. The hypothesis is that no two pairs share the key \<open>policyId:deviceId\<close>.
\<close>

theorem compliance_pass_mirrors_fleet:
  assumes "runComplianceEvaluation env ws pids actor scope db = (Inr s, db')"
    and "sv_fleet (pn_step env) ws (cd_mdm db) = Inr fleet"
    and "policies = selected_policies ws pids db" and "seen = scope_devices scope fleet"
    and "ev = pass_conditions env ws policies seen"
    and "pairs = scoped_pairs policies (pass_devices env ws policies seen)" and "distinct (pair_keys pairs)"
    and "was = map_of (loadComplianceState ws db)" and "is_now = map_of (loadComplianceState ws db')"
  shows "(\<forall>(p, d)\<in>set pairs. (is_now (pair_key p d) \<noteq> None) = violates ev p d) \<and>
    (\<forall>k. k \<notin> set (pair_keys pairs) \<longrightarrow> is_now k = was k) \<and>
    (\<exists>rows. cd_violations db' = cd_violations db @ rows \<and> es_violationsFound s = length rows \<and>
       list_all2 (\<lambda>(p, d) v. row_about p d v) (filter (\<lambda>(p, d). violates ev p d \<and> was (pair_key p d) = None) pairs) rows) \<and>
    es_recovered s = length (filter (\<lambda>(p, d). \<not> violates ev p d \<and> was (pair_key p d) \<noteq> None) pairs)"
  using pass_run [OF assms(1-4)]
proof (elim disjE exE conjE)
  assume "policies = []" "db' = db" "s = empty_summary 0"
  then show ?thesis by (simp add: assms scoped_pairs_def pair_keys_def empty_summary_def)
next
  fix actor' acc
  assume acc: "acc = fold (evaluate_policy env (pass_conditions env ws policies seen) (length (cd_violations db)) ws actor'
      (violations_desc ws db) (pass_devices env ws policies seen)) policies (start_pass ws policies db)"
    and s: "s = px_summary acc" and db': "db' = finish_pass env ws (fleet_wide scope) policies acc"
  let ?start = "start_pass ws policies db"
  have m: "mirrored ev pairs ?start acc"
    unfolding acc assms(5,6) using assms(6,7) by (intro mirrored_policies) simp
  have start: "px_state ?start = loadComplianceState ws db" "px_rows ?start = []" "tally ?start = (0, 0)"
    "cd_violations (px_db ?start) = cd_violations db"
    by (simp_all add: start_pass_def pass_views empty_summary_def)
  have now: "is_now = map_of (px_state acc)" by (simp add: assms(9) db' pass_state)
  have lists: "newly ev ?start pairs = filter (\<lambda>(p, d). violates ev p d \<and> was (pair_key p d) = None) pairs"
    "healed ev ?start pairs = filter (\<lambda>(p, d). \<not> violates ev p d \<and> was (pair_key p d) \<noteq> None) pairs"
    by (auto simp: newly_def healed_def flagged_in_def start assms(8) intro!: filter_cong)
  obtain rows where rows: "px_rows acc = rows" "list_all2 (\<lambda>x v. row_about (fst x) (snd x) v) (newly ev ?start pairs) rows"
    using m by (auto simp: mirrored_def start)
  have "cd_violations db' = cd_violations db @ rows"
    using m rows(1) by (simp add: db' finish_pass_tables mirrored_def start late_tables_def)
  moreover have "tally acc = (length rows, length (healed ev ?start pairs))"
    using m list_all2_lengthD [OF rows(2)] by (simp add: mirrored_def start)
  moreover have "\<forall>(p, d)\<in>set pairs. (is_now (pair_key p d) \<noteq> None) = violates ev p d"
    using m by (auto simp: mirrored_def flagged_in_def now)
  moreover have "is_now k = was k" if "k \<notin> set (pair_keys pairs)" for k
    using m that by (simp add: mirrored_def now start assms(8))
  ultimately show ?thesis
    using rows(2) unfolding lists by (auto simp: s tally_def case_prod_beta')
qed

text \<open>
  C2: Every run a pass starts without a review goes to one device that is in the scope of, and violates, a selected
  policy with auto-run on and not tripped, runs the workflow or the escalated workflow of that policy, and is
  destructive only if the policy acknowledged it; no pair of workflow and device is started twice; and the summary
  counts exactly these runs.
\<close>

theorem autorun_launches_authorised:
  assumes "runComplianceEvaluation env ws pids actor scope db = (Inr s, db')"
    and "sv_fleet (pn_step env) ws (cd_mdm db) = Inr fleet"
    and "policies = selected_policies ws pids db" and "seen = scope_devices scope fleet"
    and "ev = pass_conditions env ws policies seen" and "devices = pass_devices env ws policies seen"
  shows "\<exists>xs. case_jobs (cd_cases db') = case_jobs (cd_cases db) @ map (launch_job ws) xs \<and> length xs = es_autoFired s \<and>
    distinct (map launch_key xs) \<and>
    (\<forall>(i, w, d)\<in>set xs. d \<in> set devices \<and> (\<exists>p\<in>set policies. authorised env ev ws p w d))"
  using pass_run [OF assms(1-4)]
proof (elim disjE exE conjE)
  assume "policies = []" "db' = db" "s = empty_summary 0"
  then show ?thesis by (intro exI [of _ "[]"]) (simp add: empty_summary_def)
next
  fix actor' acc
  assume acc: "acc = fold (evaluate_policy env (pass_conditions env ws policies seen) (length (cd_violations db)) ws actor'
      (violations_desc ws db) (pass_devices env ws policies seen)) policies (start_pass ws policies db)"
    and s: "s = px_summary acc" and db': "db' = finish_pass env ws (fleet_wide scope) policies acc"
  have "launched (\<lambda>(i, w, d). d \<in> set devices \<and> (\<exists>p\<in>set policies. authorised env ev ws p w d)) ws (start_pass ws policies db) acc"
    unfolding acc assms(5,6) by (rule pass_launches.pass) simp
  then obtain xs where "pass_jobs acc = case_jobs (cd_cases db) @ map (launch_job ws) xs" "es_autoFired (px_summary acc) = length xs"
    "distinct (map launch_key xs)" "\<forall>(i, w, d)\<in>set xs. d \<in> set devices \<and> (\<exists>p\<in>set policies. authorised env ev ws p w d)"
    unfolding launched_def by (auto simp: start_pass_def pass_jobs_def empty_summary_def)
  then show ?thesis by (intro exI [of _ xs]) (simp add: db' s finish_pass_tables)
qed

text \<open>
  C5: The violations a pass adds belong to its workspace, to selected policies and to devices in scope that violate
  them; an auto-fired one was authorised; and per policy at most the batch cap of the policy are auto-fired, and
  none when auto-run is off or has tripped. The hypothesis is that the ids of the policies are distinct.
\<close>

theorem autorun_batch_capped:
  assumes "runComplianceEvaluation env ws pids actor scope db = (Inr s, db')"
    and "sv_fleet (pn_step env) ws (cd_mdm db) = Inr fleet"
    and "policies = selected_policies ws pids db" and "seen = scope_devices scope fleet"
    and "ev = pass_conditions env ws policies seen" and "devices = pass_devices env ws policies seen"
    and "distinct (map pol_id policies)"
  shows "\<exists>rows. cd_violations db' = cd_violations db @ rows \<and> (\<forall>v\<in>set rows. row_ok env ev ws policies devices v) \<and>
    (\<forall>p\<in>set policies. let fired = filter (\<lambda>v. vi_policyId v = pol_id p \<and> vi_status v = ''auto_fired'') rows in
       (\<forall>c. resolveAutoRunBatchCap (pol_cfg p) = Some c \<longrightarrow> int (length fired) \<le> c) \<and>
       (\<not> pc_autoRun (pol_cfg p) \<or> pol_autoRunTripped p \<longrightarrow> fired = []))"
  using pass_run [OF assms(1-4)]
proof (elim disjE exE conjE)
  assume "policies = []" "db' = db" "s = empty_summary 0"
  then show ?thesis by simp
next
  fix actor' acc
  assume acc: "acc = fold (evaluate_policy env (pass_conditions env ws policies seen) (length (cd_violations db)) ws actor'
      (violations_desc ws db) (pass_devices env ws policies seen)) policies (start_pass ws policies db)"
    and db': "db' = finish_pass env ws (fleet_wide scope) policies acc"
  let ?start = "start_pass ws policies db"
  have "rows_grow (row_ok env ev ws policies devices) ?start acc"
    unfolding acc assms(5,6) by (rule pass_rows.pass) simp
  then have rows: "\<forall>v\<in>set (px_rows acc). row_ok env ev ws policies devices v"
    by (auto simp: rows_grow_def start_pass_def)
  have tables: "cd_violations db' = cd_violations db @ px_rows acc"
    using late_tables_pass [of env "pass_conditions env ws policies seen" "length (cd_violations db)" ws actor'
        "violations_desc ws db" "pass_devices env ws policies seen" policies ?start]
    unfolding db' finish_pass_tables acc [symmetric] by (simp add: late_tables_def start_pass_def)
  have capped: "int (fired_rows (pol_id p) acc) \<le> c" if "p \<in> set policies" "resolveAutoRunBatchCap (pol_cfg p) = Some c" for p c
    using pass_fired [OF that(1) assms(7) that(2), of env "pass_conditions env ws policies seen" "length (cd_violations db)" ws actor'
        "violations_desc ws db" "pass_devices env ws policies seen" ?start]
    by (simp add: acc fired_rows_def start_pass_def)
  have off: "filter (\<lambda>v. vi_policyId v = pol_id p \<and> vi_status v = ''auto_fired'') (px_rows acc) = []"
    if p: "p \<in> set policies" "\<not> pc_autoRun (pol_cfg p) \<or> pol_autoRunTripped p" for p
  proof -
    have "q = p" if "q \<in> set policies" "pol_id q = pol_id p" for q
      using assms(7) p(1) that by (simp add: distinct_map inj_on_def)
    then show ?thesis
      using rows p(2) by (fastforce simp: filter_empty_conv row_ok_def row_about_def authorised_def)
  qed
  show ?thesis
    using tables rows capped off by (intro exI [of _ "px_rows acc"]) (simp add: Let_def fired_rows_def)
qed

lemma find_upd_flag:
  "(\<And>x. p (f x) = p x) \<Longrightarrow> List.find p (upd_where q f xs) = map_option (\<lambda>x. if q x then f x else x) (List.find p xs)"
  by (induction xs) auto

section \<open>Daily limits of the alerts\<close>

text \<open>The webhook messages that were delivered, and the emails handed to the mail server.\<close>

fun is_chat :: "alert \<Rightarrow> bool" where
  "is_chat (ChatAlert _ _) = True"
| "is_chat (EmailAlert _ _ _ _) = False"

definition delivered :: "pass_env \<Rightarrow> alert list \<Rightarrow> nat" where
  "delivered env alerts = length (filter (\<lambda>n. is_chat (alerts ! n) \<and> chat_error (pn_chat env (take (Suc n) alerts)) = None)
     [0..<length alerts])"

definition mailed :: "alert list \<Rightarrow> nat" where
  "mailed alerts = length (filter (\<lambda>a. \<not> is_chat a) alerts)"

lemma delivered_snoc:
  "delivered env (alerts @ [a]) = delivered env alerts + (if is_chat a \<and> chat_error (pn_chat env (alerts @ [a])) = None then 1 else 0)"
proof -
  have "filter (\<lambda>n. is_chat ((alerts @ [a]) ! n) \<and> chat_error (pn_chat env (take (Suc n) (alerts @ [a]))) = None) [0..<length alerts] =
      filter (\<lambda>n. is_chat (alerts ! n) \<and> chat_error (pn_chat env (take (Suc n) alerts)) = None) [0..<length alerts]"
    by (intro filter_cong) (auto simp: nth_append)
  then show ?thesis by (simp add: delivered_def)
qed

lemma mailed_snoc [simp]: "mailed (alerts @ [a]) = mailed alerts + (if is_chat a then 0 else 1)"
  by (simp add: mailed_def)

definition at_time :: "pass_env \<Rightarrow> int \<Rightarrow> pass_env" where
  "at_time env t = env\<lparr>pn_step := (pn_step env)\<lparr>sv_now := t\<rparr>\<rparr>"

lemma at_time_chat [simp]: "pn_chat (at_time env t) = pn_chat env"
  by (simp add: at_time_def)

lemma alert_webhook_effect:
  assumes "alert_webhook (at_time env t) cfg day txt n db = ((errs, n'), db')"
  shows "cd_policies db' = cd_policies db \<and> mailed (cd_alerts db') = mailed (cd_alerts db) \<and>
    (n' = n \<and> delivered env (cd_alerts db') = delivered env (cd_alerts db) \<or>
     n' = n + 1 \<and> delivered env (cd_alerts db') = delivered env (cd_alerts db) + 1 \<and>
     \<not> limit_reached (pc_alertWebhookMaxPerDay cfg) n)"
  using assms
  by (auto simp: alert_webhook_def sendChatText_def Let_def send_alert_def delivered_snoc split: if_splits option.splits)

lemma alert_email_effect:
  assumes "alert_email (at_time env t) cfg day subj txt n db = ((errs, n'), db')"
  shows "cd_policies db' = cd_policies db \<and> delivered env (cd_alerts db') = delivered env (cd_alerts db) \<and>
    (n' = n \<and> mailed (cd_alerts db') = mailed (cd_alerts db) \<or>
     n' = n + 1 \<and> mailed (cd_alerts db') \<le> mailed (cd_alerts db) + 1 \<and> \<not> limit_reached (pc_alertEmailMaxPerDay cfg) n)"
  using assms
  by (auto simp: alert_email_def sendAlertEmail_def send_alert_def delivered_snoc split: if_splits option.splits)

text \<open>An alert of the policy as it is stored at that time.\<close>

definition alert_at :: "pass_env \<Rightarrow> string \<Rightarrow> string \<Rightarrow> int \<times> nat \<times> nat \<Rightarrow> comp_db \<Rightarrow> comp_db" where
  "alert_at env ws pid x db =
     (case x of (t, n, k) \<Rightarrow>
        (case find_policy ws pid db of None \<Rightarrow> db | Some p \<Rightarrow> firePolicyViolationAlert (at_time env t) p n k db))"

definition room :: "int option \<Rightarrow> int \<Rightarrow> int" where
  "room cap sent_today = (case cap of None \<Rightarrow> 0 | Some c \<Rightarrow> max 0 (c - sent_today))"

lemma alert_at_effect:
  assumes "find_policy ws pid db = Some p" "today_key (at_time env t) = day"
    and "pc_alertWebhookMaxPerDay (pol_cfg p) \<noteq> None" "pc_alertEmailMaxPerDay (pol_cfg p) \<noteq> None"
  shows "\<exists>p'. find_policy ws pid (alert_at env ws pid (t, n, k) db) = Some p' \<and> pol_cfg p' = pol_cfg p \<and>
    int (delivered env (cd_alerts (alert_at env ws pid (t, n, k) db))) + room (pc_alertWebhookMaxPerDay (pol_cfg p)) (fst (sent_on day p'))
      \<le> int (delivered env (cd_alerts db)) + room (pc_alertWebhookMaxPerDay (pol_cfg p)) (fst (sent_on day p)) \<and>
    int (mailed (cd_alerts (alert_at env ws pid (t, n, k) db))) + room (pc_alertEmailMaxPerDay (pol_cfg p)) (snd (sent_on day p'))
      \<le> int (mailed (cd_alerts db)) + room (pc_alertEmailMaxPerDay (pol_cfg p)) (snd (sent_on day p))"
proof (cases "pc_alertOnViolation (pol_cfg p) \<and> 1 \<le> n \<and> (pc_alertViaWebhook (pol_cfg p) \<or> pc_alertViaEmail (pol_cfg p))")
  case False
  then have "alert_at env ws pid (t, n, k) db = db"
    using assms(1) by (auto simp: alert_at_def firePolicyViolationAlert_def Let_def)
  with assms(1) show ?thesis by auto
next
  case True
  let ?e = "at_time env t" and ?cfg = "pol_cfg p"
  let ?txt = "alert_text (pc_name ?cfg) n k" and ?subj = "alert_subject (pc_name ?cfg) n"
  obtain errs1 ws1 db1 where web: "alert_webhook ?e ?cfg day ?txt (fst (sent_on day p)) db = ((errs1, ws1), db1)"
    by (metis surj_pair)
  obtain errs2 es2 db2 where mail: "alert_email ?e ?cfg day ?subj ?txt (snd (sent_on day p)) db1 = ((errs2, es2), db2)"
    by (metis surj_pair)
  note w = alert_webhook_effect [OF web] and m = alert_email_effect [OF mail]
  define f :: "policy_row \<Rightarrow> policy_row" where "f = (\<lambda>q. q\<lparr>pol_lastAlertSentAt := Some (pass_now ?e),
    pol_lastAlertError := (if errs1 @ errs2 = [] then None else Some (take 500 (joinWith ''; '' (errs1 @ errs2)))),
    pol_alertWebhookSentToday := ws1, pol_alertEmailSentToday := es2, pol_alertCountersDate := Some day\<rparr>)"
  have db': "alert_at env ws pid (t, n, k) db = update_policy (pol_id p) f db2"
    using True assms(1,2) web mail by (auto simp: alert_at_def firePolicyViolationAlert_def Let_def f_def)
  have pid: "pol_id p = pid" using assms(1) find_Some_in [of _ "cd_policies db" p] by (auto simp: find_policy_def)
  have "find_policy ws pid (update_policy (pol_id p) f db2) = Some (f p)"
    using assms(1) w m pid unfolding find_policy_def update_policy_def
    by (auto simp: find_upd_flag f_def)
  moreover have "sent_on day (f p) = (ws1, es2)" "pol_cfg (f p) = pol_cfg p" by (simp_all add: sent_on_def f_def)
  moreover have "cd_alerts (update_policy (pol_id p) f db2) = cd_alerts db2" by (simp add: update_policy_def)
  ultimately show ?thesis
    unfolding db' using w m assms(3,4) by (auto simp: room_def limit_reached_def)
qed

text \<open>
  C16: However often a policy with daily limits raises alerts in the course of one day (UTC), the webhook messages
  delivered for it and the emails sent for it stay within what the limits left open at the start.
\<close>

theorem alerts_within_daily_limit:
  assumes "find_policy ws pid db = Some p"
    and "pc_alertWebhookMaxPerDay (pol_cfg p) = Some wc" "pc_alertEmailMaxPerDay (pol_cfg p) = Some ec"
    and "\<forall>(t, n, k)\<in>set calls. today_key (at_time env t) = day" and "db' = fold (alert_at env ws pid) calls db"
  shows "int (delivered env (cd_alerts db')) \<le> int (delivered env (cd_alerts db)) + max 0 (wc - fst (sent_on day p)) \<and>
    int (mailed (cd_alerts db')) \<le> int (mailed (cd_alerts db)) + max 0 (ec - snd (sent_on day p))"
  using assms unfolding assms(5)
proof (induction calls arbitrary: db p)
  case (Cons x calls)
  obtain t n k where x: "x = (t, n, k)" by (cases x)
  let ?db = "alert_at env ws pid x db"
  obtain p' where p': "find_policy ws pid ?db = Some p'" "pol_cfg p' = pol_cfg p"
    "int (delivered env (cd_alerts ?db)) + max 0 (wc - fst (sent_on day p')) \<le> int (delivered env (cd_alerts db)) + max 0 (wc - fst (sent_on day p))"
    "int (mailed (cd_alerts ?db)) + max 0 (ec - snd (sent_on day p')) \<le> int (mailed (cd_alerts db)) + max 0 (ec - snd (sent_on day p))"
    using alert_at_effect [OF Cons.prems(1), of env t day n k] Cons.prems(2-4) by (auto simp: x room_def)
  have "int (delivered env (cd_alerts (fold (alert_at env ws pid) calls ?db))) \<le>
      int (delivered env (cd_alerts ?db)) + max 0 (wc - fst (sent_on day p')) \<and>
    int (mailed (cd_alerts (fold (alert_at env ws pid) calls ?db))) \<le> int (mailed (cd_alerts ?db)) + max 0 (ec - snd (sent_on day p'))"
    using Cons.prems p'(2) by (intro Cons.IH [OF p'(1)]) auto
  with p'(3,4) show ?case by simp
qed simp

section \<open>One run per approved violation\<close>

lemma find_violation_update:
  "(\<And>v. vi_id (f v) = vi_id v \<and> vi_workspace (f v) = vi_workspace v) \<Longrightarrow>
   find_violation ws x (update_violation y f db) = map_option (\<lambda>v. if vi_id v = y then f v else v) (find_violation ws x db)"
  unfolding find_violation_def update_violation_def by (simp add: find_upd_flag)

lemma markers_frame [simp]:
  "cd_violations (removeComplianceMarkersForDevice env ws p d db) = cd_violations db"
  "case_jobs (cd_cases (removeComplianceMarkersForDevice env ws p d db)) = case_jobs (cd_cases db)"
  by (auto simp: removeComplianceMarkersForDevice_def invalidate_devices_def with_cases_def Let_def split: option.splits sum.splits prod.splits)

lemma review_frame [simp]:
  "cd_violations (mark_state ws v st db) = cd_violations db" "cd_cases (mark_state ws v st db) = cd_cases db"
  "cd_violations (review_event ws a w v s db) = cd_violations db"
  "case_jobs (cd_cases (review_event ws a w v s db)) = case_jobs (cd_cases db)"
  "cd_cases (update_violation y f db) = cd_cases db"
  by (auto simp: mark_state_def saveComplianceState_def Let_def review_event_def comp_audit_def update_violation_def split: option.splits)

lemma approve_outcome:
  assumes "approveViolationCore env r vid ws actor db = (res, db')"
  shows "(case res of
      Inl e \<Rightarrow> db' = db
    | Inr v' \<Rightarrow> \<exists>v w. find_violation ws vid db = Some v \<and> vi_status v = ''pending'' \<and> vi_id v = vid \<and>
        find_case_workflow (pn_case env) ws (filled (vi_workflowId v) []) = Some w \<and>
        case_jobs (cd_cases db') = case_jobs (cd_cases db) @ [single_job r w (violation_device v) ws] \<and>
        find_violation ws vid db' = Some v' \<and> vi_status v' = ''approved'' \<and>
        (\<forall>x. x \<noteq> vid \<longrightarrow> find_violation ws x db' = find_violation ws x db))"
proof (cases "find_violation ws vid db")
  case None
  then show ?thesis using assms by (auto simp: approveViolationCore_def throw_def)
next
  case (Some v)
  have vid: "vi_id v = vid" using Some find_Some_in [of _ "cd_violations db" v] by (auto simp: find_violation_def)
  show ?thesis
  proof (cases "vi_status v = ''pending'' \<and> filled (vi_workflowId v) [] \<noteq> [] \<and>
      find_case_workflow (pn_case env) ws (filled (vi_workflowId v) []) \<noteq> None")
    case False
    then show ?thesis using assms Some by (auto simp: approveViolationCore_def throw_def split: if_splits)
  next
    case True
    then obtain w where w: "find_case_workflow (pn_case env) ws (filled (vi_workflowId v) []) = Some w" by auto
    obtain view cdb where launch: "launch_for_case (pass_now env) r w (violation_device v) ws (cd_cases db) = (Some view, cdb)"
      and jobs: "case_jobs cdb = case_jobs (cd_cases db) @ [single_job r w (violation_device v) ws]"
      using launch_for_case_effect [of "pass_now env" r w "violation_device v" ws "cd_cases db"] by auto
    define f :: "violation_row \<Rightarrow> violation_row" where "f = (\<lambda>x. x\<lparr>vi_status := ''approved'', vi_resolvedAt := Some (pass_now env), vi_workflowRunId := Some (vw_id view)\<rparr>)"
    have res: "res = Inr (f v)" and viol: "cd_violations db' = cd_violations (update_violation vid f (db\<lparr>cd_cases := cdb\<rparr>))"
      and after: "case_jobs (cd_cases db') = case_jobs cdb"
      using assms Some True w launch
      by (auto simp: approveViolationCore_def Let_def f_def with_cases_def split: option.splits)
    have "find_violation ws x db' = map_option (\<lambda>u. if vi_id u = vid then f u else u) (find_violation ws x db)" for x
      using find_violation_update [of f ws x vid "db\<lparr>cd_cases := cdb\<rparr>"] viol by (simp add: f_def find_violation_def)
    moreover have "vi_id u = x" if "find_violation ws x db = Some u" for x u
      using that find_Some_in [of _ "cd_violations db" u] by (auto simp: find_violation_def)
    ultimately have "find_violation ws vid db' = Some (f v)" "\<forall>x. x \<noteq> vid \<longrightarrow> find_violation ws x db' = find_violation ws x db"
      using Some vid by (auto simp: map_option_case split: option.splits)
    then show ?thesis using res Some True w jobs after vid by (auto simp: f_def)
  qed
qed

text \<open>What a bulk approval holds at each point: the ids done so far are distinct and approved, one run each.\<close>

definition bulk_ok :: "string \<Rightarrow> comp_db \<Rightarrow> string list \<Rightarrow> (string list \<times> (string \<times> string) list) \<times> comp_db \<Rightarrow> bool" where
  "bulk_ok ws db seen acc \<longleftrightarrow>
     (case acc of ((ok, failed), cur) \<Rightarrow>
        distinct ok \<and> set ok \<union> fst ` set failed = set seen \<and> length ok + length failed = length seen \<and>
        length (case_jobs (cd_cases cur)) = length (case_jobs (cd_cases db)) + length ok \<and>
        (\<forall>x\<in>set ok. (\<exists>v. find_violation ws x db = Some v \<and> vi_status v = ''pending'') \<and>
           (\<exists>v. find_violation ws x cur = Some v \<and> vi_status v = ''approved'')) \<and>
        (\<forall>x. x \<notin> set ok \<longrightarrow> find_violation ws x cur = find_violation ws x db))"

lemma bulk_ok_step:
  assumes "bulk_ok ws db seen ((ok, failed), cur)" "approveViolationCore env r vid ws actor cur = (res, cur')"
  shows "bulk_ok ws db (seen @ [vid])
    (case res of Inr _ \<Rightarrow> ((ok @ [vid], failed), cur') | Inl e \<Rightarrow> ((ok, failed @ [(vid, error_detail e)]), cur'))"
proof (cases res)
  case (Inl e)
  then show ?thesis using approve_outcome [OF assms(2)] assms(1) by (auto simp: bulk_ok_def)
next
  case (Inr v')
  then obtain v w where o: "find_violation ws vid cur = Some v" "vi_status v = ''pending''"
    "length (case_jobs (cd_cases cur')) = length (case_jobs (cd_cases cur)) + 1"
    "find_violation ws vid cur' = Some v'" "vi_status v' = ''approved''"
    "\<forall>x. x \<noteq> vid \<longrightarrow> find_violation ws x cur' = find_violation ws x cur"
    using approve_outcome [OF assms(2)] by auto
  have "vid \<notin> set ok" using assms(1) o(1,2) by (auto simp: bulk_ok_def)
  then have "find_violation ws vid db = Some v" using assms(1) o(1) by (simp add: bulk_ok_def)
  then show ?thesis
    using Inr assms(1) o \<open>vid \<notin> set ok\<close> unfolding bulk_ok_def by auto
qed

text \<open>
  C17: A bulk approval, whatever ids it is given, splits them into approved and failed ones; an approved id occurs
  once among the approved, was a pending violation and is approved afterwards; exactly one run is started per
  approved id; and every violation that was not approved is as before.
\<close>

theorem bulk_approve_runs_once:
  "bulk_ok ws db ids (bulkApproveViolations env ids ws actor db)"
proof -
  define g where "g = (\<lambda>(i, vid) acc. case acc of ((ok, failed), cur) \<Rightarrow>
      (case approveViolationCore env (pn_runId env i) vid ws actor cur of
         (Inr _, cur1) \<Rightarrow> ((ok @ [vid], failed), cur1)
       | (Inl e, cur1) \<Rightarrow> ((ok, failed @ [(vid, error_detail e)]), cur1)))"
  have step: "bulk_ok ws db (seen @ [vid]) (g (i, vid) acc)" if "bulk_ok ws db seen acc" for seen i vid acc
  proof -
    obtain ok failed cur where acc: "acc = ((ok, failed), cur)" by (metis surj_pair)
    obtain res cur' where call: "approveViolationCore env (pn_runId env i) vid ws actor cur = (res, cur')" by fastforce
    from bulk_ok_step [OF that [unfolded acc] call] show ?thesis
      by (simp add: g_def acc call split: sum.splits)
  qed
  have "bulk_ok ws db (seen @ ids) (fold g (List.enumerate n ids) acc)" if "bulk_ok ws db seen acc" for seen n acc
    using that
  proof (induction ids arbitrary: seen n acc)
    case (Cons x xs)
    from Cons.IH [OF step [OF Cons.prems]] show ?case by simp
  qed simp
  from this [of "[]" "(([], []), db)" 0] show ?thesis
    by (simp add: bulkApproveViolations_def bulk_review_def g_def bulk_ok_def)
qed

section \<open>Witnesses\<close>

definition sample_cfg :: policy_cfg where
  "sample_cfg = \<lparr>pc_name = ''Old model'', pc_description = [], pc_enabled = True, pc_autoRun = True, pc_severity = ''high'',
     pc_conditionLogic = ''any'', pc_conditions = [\<lparr>field = ''model'', operator = ''equals'', cond_value = JStr ''A1''\<rparr>],
     pc_targetPlatform = None, pc_targetDeploymentModel = None, pc_workflowId = Some ''w1'', pc_nonComplianceTag = None,
     pc_nonComplianceSmartAttributeId = None, pc_openCaseOnViolation = False, pc_autoResolveCaseOnRecovery = False,
     pc_caseAssignee = None, pc_mitreTechniques = [], pc_framework = None, pc_controlRef = None,
     pc_targetDeviceAudienceId = None, pc_segmentId = None, pc_evaluationIntervalMinutes = 60, pc_autoRunBatchCap = Some 1,
     pc_autoRunDestructiveAck = False, pc_escalatedWorkflowId = None, pc_escalatedWorkflowMinRiskTier = ''high'',
     pc_alertOnViolation = True, pc_alertViaWebhook = True, pc_alertViaEmail = False, pc_alertWebhookUrl = Some ''u'',
     pc_alertEmailRecipients = None, pc_alertWebhookMaxPerDay = Some 2, pc_alertEmailMaxPerDay = Some 2\<rparr>"

definition sample_policy_row :: policy_row where
  "sample_policy_row = \<lparr>pol_id = ''p1'', pol_workspace = ''w'', pol_cfg = sample_cfg, pol_lastEvaluatedAt = None,
     pol_autoRunTripped = False, pol_autoRunTrippedAt = None, pol_autoRunTrippedReason = None, pol_lastAlertSentAt = None,
     pol_lastAlertError = None, pol_alertWebhookSentToday = 0, pol_alertEmailSentToday = 0, pol_alertCountersDate = None\<rparr>"

definition old_mac :: fleet_device where
  "old_mac = quarantined_mac\<lparr>fd_json := JObj [(''model'', JStr ''A1'')]\<rparr>"

definition sample_workflow :: workflow_row where
  "sample_workflow = wait_flow\<lparr>wf_id := ''w1'', wf_workspace := ''w''\<rparr>"

definition sample_pass :: pass_env where
  "sample_pass = \<lparr>pn_case = sample_env\<lparr>ce_workflows := [sample_workflow]\<rparr>,
     pn_step = sample_step_env\<lparr>sv_fleet := (\<lambda>_ _. Inr [old_mac])\<rparr>,
     pn_chat = (\<lambda>_. Inr \<lparr>status = 200, body = JStr ''ok'', retryAfter = None\<rparr>),
     pn_violationId = (\<lambda>n. ''v'' @ show_nat n), pn_caseId = (\<lambda>n. ''c'' @ show_nat n), pn_runId = (\<lambda>n. ''r'' @ show_nat n),
     pn_automation = [], pn_bearer = (\<lambda>_. None)\<rparr>"

definition sample_comp_db :: comp_db where
  "sample_comp_db = \<lparr>cd_policies = [sample_policy_row], cd_states = [], cd_violations = [], cd_cases = empty_case_db,
     cd_mdm = no_calls, cd_alerts = [], cd_forced = [], cd_forcedDevice = []\<rparr>"

definition sample_ev :: eval_env where
  "sample_ev = pass_conditions sample_pass ''w'' [sample_policy_row] [old_mac]"

lemma sample_selected: "selected_policies ''w'' None sample_comp_db = [sample_policy_row]"
  by (simp add: selected_policies_def listCompliancePolicies_def sample_comp_db_def sample_policy_row_def sample_cfg_def)

lemma sample_fleet: "sv_fleet (pn_step sample_pass) ''w'' (cd_mdm sample_comp_db) = Inr [old_mac]"
  by (simp add: sample_pass_def)

lemma sample_devices: "pass_devices sample_pass ''w'' [sample_policy_row] [old_mac] = [old_mac]"
  by (simp add: pass_devices_def appListScopedDeviceIds_def scoped_by_def sample_policy_row_def sample_cfg_def is_app_list_field_def)

lemma sample_pairs: "scoped_pairs [sample_policy_row] [old_mac] = [(sample_policy_row, old_mac)]"
  by (simp add: scoped_pairs_def in_scope_def sample_policy_row_def sample_cfg_def filled_def)

lemma sample_violates: "violates sample_ev sample_policy_row old_mac"
  by (simp add: violates_def policyViolated_def sample_policy_row_def sample_cfg_def old_mac_def Let_def evaluate_of_raw raw_scalar
      compareScalar_def own_prop_def text_of_def coalesce_def)

lemma sample_tables:
  "cd_violations sample_comp_db = []" "loadComplianceState ''w'' sample_comp_db = []" "case_jobs (cd_cases sample_comp_db) = []"
  "scope_devices AllDevices [old_mac] = [old_mac]"
  by (simp_all add: sample_comp_db_def loadComplianceState_def empty_case_db_def)

lemma sample_runs:
  "\<exists>s db'. runComplianceEvaluation sample_pass ''w'' None None AllDevices sample_comp_db = (Inr s, db')"
  by (simp add: runComplianceEvaluation_def sample_selected sample_fleet Let_def)

theorem compliance_pass_mirrors_fleet_witness:
  "\<exists>s db' v. runComplianceEvaluation sample_pass ''w'' None None AllDevices sample_comp_db = (Inr s, db') \<and>
     map_of (loadComplianceState ''w'' db') ''p1:d1'' \<noteq> None \<and> cd_violations db' = [v] \<and> vi_deviceId v = ''d1'' \<and>
     es_violationsFound s = 1 \<and> es_recovered s = 0"
proof -
  obtain s db' where run: "runComplianceEvaluation sample_pass ''w'' None None AllDevices sample_comp_db = (Inr s, db')"
    using sample_runs by blast
  have key: "pair_key sample_policy_row old_mac = ''p1:d1''"
    by (simp add: pair_key_def suppression_key_def sample_policy_row_def old_mac_def quarantined_mac_def broken_mac_def)
  have "fd_id old_mac = ''d1''" by (simp add: old_mac_def quarantined_mac_def broken_mac_def)
  then show ?thesis
    using compliance_pass_mirrors_fleet [OF run sample_fleet refl refl refl refl _ refl refl] run sample_violates
    by (auto simp: sample_selected sample_devices sample_pairs pair_keys_def key sample_ev_def [symmetric] row_about_def
        list_all2_Cons1 sample_tables simp del: scope_devices.simps)
qed

theorem autorun_launches_authorised_witness:
  "\<exists>s db' xs. runComplianceEvaluation sample_pass ''w'' None None AllDevices sample_comp_db = (Inr s, db') \<and>
     case_jobs (cd_cases db') = map (launch_job ''w'') xs \<and> length xs = es_autoFired s \<and> (\<forall>(i, w, d)\<in>set xs. d = old_mac)"
proof -
  obtain s db' where run: "runComplianceEvaluation sample_pass ''w'' None None AllDevices sample_comp_db = (Inr s, db')"
    using sample_runs by blast
  show ?thesis
    using autorun_launches_authorised [OF run sample_fleet refl refl refl refl] run
    by (fastforce simp: sample_selected sample_devices sample_tables simp del: scope_devices.simps)
qed

theorem autorun_batch_capped_witness:
  "\<exists>s db'. runComplianceEvaluation sample_pass ''w'' None None AllDevices sample_comp_db = (Inr s, db') \<and>
     length (filter (\<lambda>v. vi_policyId v = ''p1'' \<and> vi_status v = ''auto_fired'') (cd_violations db')) \<le> 1"
proof -
  obtain s db' where run: "runComplianceEvaluation sample_pass ''w'' None None AllDevices sample_comp_db = (Inr s, db')"
    using sample_runs by blast
  have cap: "resolveAutoRunBatchCap (pol_cfg sample_policy_row) = Some 1" "pol_id sample_policy_row = ''p1''"
    by (simp_all add: resolveAutoRunBatchCap_def sample_policy_row_def sample_cfg_def)
  show ?thesis
    using autorun_batch_capped [OF run sample_fleet refl refl refl refl] run
    by (auto simp: sample_selected sample_devices cap sample_tables Let_def)
qed

theorem alerts_within_daily_limit_witness:
  "delivered sample_pass (cd_alerts (fold (alert_at sample_pass ''w'' ''p1'') [(0, 1, 1), (1000, 2, 5), (2000, 1, 5)] sample_comp_db)) \<le> 2"
proof -
  have day: "today_key (at_time sample_pass 0) = ''1970-01-01''" "today_key (at_time sample_pass 1000) = ''1970-01-01''"
    "today_key (at_time sample_pass 2000) = ''1970-01-01''"
    unfolding today_key_def pass_now_def at_time_def by simp_all code_simp+
  have p: "find_policy ''w'' ''p1'' sample_comp_db = Some sample_policy_row"
    by (simp add: find_policy_def sample_comp_db_def sample_policy_row_def)
  have caps: "pc_alertWebhookMaxPerDay (pol_cfg sample_policy_row) = Some 2" "pc_alertEmailMaxPerDay (pol_cfg sample_policy_row) = Some 2"
    "sent_on ''1970-01-01'' sample_policy_row = (0, 0)" "delivered sample_pass (cd_alerts sample_comp_db) = 0"
    by (simp_all add: sample_policy_row_def sample_cfg_def sent_on_def sample_comp_db_def delivered_def)
  show ?thesis
    using alerts_within_daily_limit [OF p caps(1,2) _ refl, of "[(0, 1, 1), (1000, 2, 5), (2000, 1, 5)]" sample_pass "''1970-01-01''"]
    by (simp add: day caps)
qed

end
