(* ===== verification/Triggers.thy ===== *)
theory Triggers
  imports CompliancePass
begin

text \<open>
  Inbound webhook triggers (\<open>modules/workflows/triggers.service.ts\<close>): the table of triggers, the call of an external
  system that fires one (a run of the linked workflow, the state of the device, a case, a re-evaluation), the call
  that resolves it, and the read of these states into the fleet (\<open>modules/devices/devices.service.ts\<close>).
  \<open>trigger_db\<close> adds the two tables to \<open>comp_db\<close>; the request body is an object, as the router makes it. The two
  handlers start the re-evaluation of the device without awaiting it: \<open>td_background\<close> lists the passes that are
  pending, and \<open>run_background\<close> runs one of them, at any later moment, in one piece.
\<close>

section \<open>Tables\<close>

record trigger_row =
  tr_id :: string
  tr_workspace :: string
  tr_name :: string
  tr_description :: string
  tr_workflowId :: string
  tr_enabled :: bool
  tr_openCase :: bool
  tr_caseSeverity :: string
  tr_deviceLookupField :: "string option"
  tr_secret :: string
  tr_lastFiredAt :: "int option"
  tr_fireCount :: nat
  tr_createdAt :: int

record trigger_payload =
  tp_name :: string
  tp_description :: "string option"
  tp_workflowId :: string
  tp_enabled :: "bool option"
  tp_openCase :: "bool option"
  tp_caseSeverity :: "string option"
  tp_deviceLookupField :: "string option"

record fire_state =
  fi_workspace :: string
  fi_triggerId :: string
  fi_deviceId :: string
  fi_status :: string
  fi_lastFiredAt :: int
  fi_resolvedAt :: "int option"
  fi_fireCount :: nat
  fi_lastPayload :: jsval

record trigger_db =
  td_triggers :: "trigger_row list"
  td_fires :: "fire_state list"
  td_comp :: comp_db
  td_background :: "(string \<times> device_scope) list"

type_synonym fire_key = "string \<times> string \<times> string"

definition fire_key_of :: "fire_state \<Rightarrow> fire_key" where
  "fire_key_of f = (fi_workspace f, fi_triggerId f, fi_deviceId f)"

definition trigger_audit :: "string \<Rightarrow> audit_input \<Rightarrow> trigger_db \<Rightarrow> trigger_db" where
  "trigger_audit ws ev db = db\<lparr>td_comp := comp_audit ws ev (td_comp db)\<rparr>"

section \<open>The table of triggers\<close>

definition listTriggers :: "string \<Rightarrow> trigger_db \<Rightarrow> trigger_row list" where
  "listTriggers ws db = sort_key tr_createdAt (filter (\<lambda>t. tr_workspace t = ws) (td_triggers db))"

definition find_ws_trigger :: "string \<Rightarrow> string \<Rightarrow> trigger_db \<Rightarrow> trigger_row option" where
  "find_ws_trigger ws triggerId db = List.find (\<lambda>t. tr_workspace t = ws \<and> tr_id t = triggerId) (td_triggers db)"

definition assertWorkflowExists :: "pass_env \<Rightarrow> string \<Rightarrow> string \<Rightarrow> unit result" where
  "assertWorkflowExists env ws workflowId =
     (case find_case_workflow (pn_case env) ws workflowId of
        None \<Rightarrow> throw 400 ''Linked workflow not found''
      | Some _ \<Rightarrow> Inr ())"

definition trigger_event :: "string \<Rightarrow> string \<Rightarrow> trigger_row \<Rightarrow> string \<Rightarrow> string option \<Rightarrow> audit_input" where
  "trigger_event action actor t message severity =
     audit_about ''trigger'' action actor ''trigger'' (tr_id t) (tr_name t) message severity"

definition apply_trigger_payload :: "trigger_payload \<Rightarrow> trigger_row \<Rightarrow> trigger_row" where
  "apply_trigger_payload p t = t\<lparr>tr_name := tp_name p, tr_description := (case tp_description p of Some s \<Rightarrow> s | None \<Rightarrow> []),
     tr_workflowId := tp_workflowId p, tr_enabled := (case tp_enabled p of Some b \<Rightarrow> b | None \<Rightarrow> True),
     tr_openCase := (case tp_openCase p of Some b \<Rightarrow> b | None \<Rightarrow> False),
     tr_caseSeverity := (case tp_caseSeverity p of Some s \<Rightarrow> s | None \<Rightarrow> ''medium''),
     tr_deviceLookupField := tp_deviceLookupField p\<rparr>"

definition createTrigger :: "pass_env \<Rightarrow> string \<Rightarrow> string \<Rightarrow> string \<Rightarrow> trigger_payload \<Rightarrow> string \<Rightarrow> trigger_db \<Rightarrow>
    trigger_row result \<times> trigger_db" where
  "createTrigger env newId newSecret ws payload actorEmail db =
     (case assertWorkflowExists env ws (tp_workflowId payload) of
        Inl e \<Rightarrow> (Inl e, db)
      | Inr _ \<Rightarrow>
          (let t = apply_trigger_payload payload
                 \<lparr>tr_id = newId, tr_workspace = ws, tr_name = [], tr_description = [], tr_workflowId = [], tr_enabled = True,
                  tr_openCase = False, tr_caseSeverity = ''medium'', tr_deviceLookupField = None, tr_secret = newSecret,
                  tr_lastFiredAt = None, tr_fireCount = 0, tr_createdAt = pass_now env\<rparr>
           in (Inr t, trigger_audit ws (trigger_event ''trigger_created'' actorEmail t
                 (''Inbound webhook trigger '' @ quoted (tr_name t) @ '' created by '' @ actorEmail) None)
               (db\<lparr>td_triggers := td_triggers db @ [t]\<rparr>))))"

definition update_trigger_row :: "string \<Rightarrow> (trigger_row \<Rightarrow> trigger_row) \<Rightarrow> trigger_db \<Rightarrow> trigger_db" where
  "update_trigger_row triggerId f db = db\<lparr>td_triggers := upd_where (\<lambda>t. tr_id t = triggerId) f (td_triggers db)\<rparr>"

definition updateTrigger :: "pass_env \<Rightarrow> string \<Rightarrow> string \<Rightarrow> trigger_payload \<Rightarrow> string \<Rightarrow> trigger_db \<Rightarrow> trigger_row result \<times> trigger_db" where
  "updateTrigger env ws triggerId payload actorEmail db =
     (case assertWorkflowExists env ws (tp_workflowId payload) of
        Inl e \<Rightarrow> (Inl e, db)
      | Inr _ \<Rightarrow>
          (case find_ws_trigger ws triggerId db of
             None \<Rightarrow> (throw 404 ''Trigger not found'', db)
           | Some old \<Rightarrow>
               (let t = apply_trigger_payload payload old
                in (Inr t, trigger_audit ws (trigger_event ''trigger_updated'' actorEmail t
                      (''Inbound webhook trigger '' @ quoted (tr_name t) @ '' updated by '' @ actorEmail) None)
                    (update_trigger_row triggerId (apply_trigger_payload payload) db)))))"

definition deleteTrigger :: "string \<Rightarrow> string \<Rightarrow> string \<Rightarrow> trigger_db \<Rightarrow> unit result \<times> trigger_db" where
  "deleteTrigger ws triggerId actorEmail db =
     (case find_ws_trigger ws triggerId db of
        None \<Rightarrow> (throw 404 ''Trigger not found'', db)
      | Some t \<Rightarrow>
          (Inr (), trigger_audit ws (trigger_event ''trigger_deleted'' actorEmail t
               (''Inbound webhook trigger '' @ quoted (tr_name t) @ '' deleted by '' @ actorEmail @ '' '' @ em_dash @
                '' its URL stops working immediately'') (Some ''warning''))
             (db\<lparr>td_triggers := del_where (\<lambda>t. tr_id t = triggerId) (td_triggers db)\<rparr>)))"

definition rotateTriggerSecret :: "string \<Rightarrow> string \<Rightarrow> string \<Rightarrow> string \<Rightarrow> trigger_db \<Rightarrow> trigger_row result \<times> trigger_db" where
  "rotateTriggerSecret newSecret ws triggerId actorEmail db =
     (case find_ws_trigger ws triggerId db of
        None \<Rightarrow> (throw 404 ''Trigger not found'', db)
      | Some t \<Rightarrow>
          (Inr (t\<lparr>tr_secret := newSecret\<rparr>),
           trigger_audit ws (trigger_event ''trigger_secret_rotated'' actorEmail t
               (''Webhook URL rotated for trigger '' @ quoted (tr_name t) @ '' by '' @ actorEmail @ '' '' @ em_dash @
                '' the old URL stops working immediately'') (Some ''warning''))
             (update_trigger_row triggerId (\<lambda>t. t\<lparr>tr_secret := newSecret\<rparr>) db)))"

text \<open>The names the condition picker lists (\<open>compliance.service.ts\<close>).\<close>

definition getTriggerNames :: "string \<Rightarrow> trigger_db \<Rightarrow> (string \<times> string) list" where
  "getTriggerNames ws db = map (\<lambda>t. (tr_id t, tr_name t))
     (sort_key tr_name (filter (\<lambda>t. tr_workspace t = ws \<and> tr_enabled t) (td_triggers db)))"

section \<open>Who calls, and for which device\<close>

definition findTriggerById :: "string \<Rightarrow> trigger_db \<Rightarrow> trigger_row option" where
  "findTriggerById triggerId db = List.find (\<lambda>t. tr_id t = triggerId) (td_triggers db)"

text \<open>\<open>crypto.timingSafeEqual\<close> throws on buffers of different lengths; on others it is equality.\<close>

definition timingSafeEqual :: "string \<Rightarrow> string \<Rightarrow> bool" where
  "timingSafeEqual a b = (if length a \<noteq> length b then False else a = b)"

definition check_caller :: "string \<Rightarrow> string \<Rightarrow> trigger_db \<Rightarrow> trigger_row result" where
  "check_caller triggerId secret db =
     (case findTriggerById triggerId db of
        None \<Rightarrow> throw 404 ''Unknown trigger''
      | Some t \<Rightarrow>
          if \<not> timingSafeEqual secret (tr_secret t) then throw 401 ''Invalid trigger secret''
          else if \<not> tr_enabled t then throw 403 ''This trigger is disabled''
          else Inr t)"

definition normalised :: "string \<Rightarrow> string" where
  "normalised s = toLowerCase (js_trim s)"

definition device_email :: "fleet_device \<Rightarrow> string" where
  "device_email d = to_string (js_or (own_prop (js_or (own_prop (fd_json d) ''mdmUser'') (JObj [])) ''email'') (JStr []))"

definition device_answers :: "string \<Rightarrow> fleet_device \<Rightarrow> bool" where
  "device_answers v d \<longleftrightarrow>
     normalised (fd_serialNumber d) = v \<or> normalised (fd_id d) = v \<or> normalised (device_email d) = v"

definition resolveTriggerDevice :: "string option \<Rightarrow> jsval \<Rightarrow> fleet_device list \<Rightarrow> fleet_device option" where
  "resolveTriggerDevice deviceLookupField content devices =
     (let raw = own_prop content (filled deviceLookupField []); v = normalised (to_string raw)
      in if filled deviceLookupField [] = [] \<or> nullish raw \<or> v = [] then None
         else List.find (device_answers v) devices)"

definition trigger_device_ref :: "fleet_device \<Rightarrow> device_ref" where
  "trigger_device_ref d =
     \<lparr>ref_id = fd_id d, ref_displayName = Some (fd_displayName d), ref_platform = fd_platform d,
      ref_platformDeviceId = fd_platformDeviceId d,
      ref_fields = JObj [(''serialNumber'', JStr (fd_serialNumber d)), (''osVersion'', own_prop (fd_json d) ''osVersion''),
        (''manufacturer'', own_prop (fd_json d) ''manufacturer''), (''model'', own_prop (fd_json d) ''model''),
        (''udid'', own_prop (own_prop (fd_json d) ''identifiers'') ''udid''), (''mdmUser'', own_prop (fd_json d) ''mdmUser'')]\<rparr>"

definition object_keys :: "jsval \<Rightarrow> string list" where
  "object_keys v = (case v of JObj fs \<Rightarrow> map fst fs | _ \<Rightarrow> [])"

definition capTriggerPayload :: "jsval \<Rightarrow> jsval" where
  "capTriggerPayload content =
     (if 8000 < length (json_text content)
      then JObj [(''truncated'', JBool True), (''keys'', JArr (map JStr (object_keys content)))] else content)"

section \<open>The states of the devices\<close>

definition upsert_fire :: "fire_state \<Rightarrow> (fire_state \<Rightarrow> fire_state) \<Rightarrow> trigger_db \<Rightarrow> trigger_db" where
  "upsert_fire new f db =
     db\<lparr>td_fires := (if \<exists>r\<in>set (td_fires db). fire_key_of r = fire_key_of new
                    then upd_where (\<lambda>r. fire_key_of r = fire_key_of new) f (td_fires db) else td_fires db @ [new])\<rparr>"

definition record_fire :: "int \<Rightarrow> trigger_row \<Rightarrow> string \<Rightarrow> jsval \<Rightarrow> trigger_db \<Rightarrow> trigger_db" where
  "record_fire now t deviceId content =
     (let payload = capTriggerPayload content
      in upsert_fire
        \<lparr>fi_workspace = tr_workspace t, fi_triggerId = tr_id t, fi_deviceId = deviceId, fi_status = ''active'',
         fi_lastFiredAt = now, fi_resolvedAt = None, fi_fireCount = 1, fi_lastPayload = payload\<rparr>
        (\<lambda>r. r\<lparr>fi_status := ''active'', fi_lastFiredAt := now, fi_resolvedAt := None, fi_fireCount := fi_fireCount r + 1,
             fi_lastPayload := payload\<rparr>))"

definition record_resolve :: "int \<Rightarrow> trigger_row \<Rightarrow> string \<Rightarrow> jsval \<Rightarrow> trigger_db \<Rightarrow> trigger_db" where
  "record_resolve now t deviceId content =
     (let payload = capTriggerPayload content
      in upsert_fire
        \<lparr>fi_workspace = tr_workspace t, fi_triggerId = tr_id t, fi_deviceId = deviceId, fi_status = ''resolved'',
         fi_lastFiredAt = 0, fi_resolvedAt = Some now, fi_fireCount = 0, fi_lastPayload = payload\<rparr>
        (\<lambda>r. r\<lparr>fi_status := ''resolved'', fi_resolvedAt := Some now, fi_lastPayload := payload\<rparr>))"

text \<open>What the fleet read attaches to a device: its states by trigger, or \<open>null\<close>.\<close>

definition fire_json :: "fire_state \<Rightarrow> jsval" where
  "fire_json f = JObj [(''status'', JStr (fi_status f)), (''lastFiredAt'', JStr (toISOString (fi_lastFiredAt f))),
     (''resolvedAt'', case fi_resolvedAt f of Some t \<Rightarrow> JStr (toISOString t) | None \<Rightarrow> JNull),
     (''fireCount'', jint (int (fi_fireCount f)))]"

definition triggerFiresCache :: "string \<Rightarrow> fire_state list \<Rightarrow> (string \<times> (string \<times> jsval) list) list" where
  "triggerFiresCache ws fires =
     fold (\<lambda>f cache. map_set (fi_deviceId f)
         (map_set (fi_triggerId f) (fire_json f) (case map_of cache (fi_deviceId f) of Some e \<Rightarrow> e | None \<Rightarrow> [])) cache)
       (filter (\<lambda>f. fi_workspace f = ws) fires) []"

definition attach_fires :: "string \<Rightarrow> fire_state list \<Rightarrow> fleet_device \<Rightarrow> fleet_device" where
  "attach_fires ws fires d = d\<lparr>fd_json := set_prop ''triggerFires''
     (case map_of (triggerFiresCache ws fires) (fd_id d) of Some e \<Rightarrow> JObj e | None \<Rightarrow> JNull) (fd_json d)\<rparr>"

text \<open>The environment of a pass that reads the fleet with these states.\<close>

definition live_env :: "fire_state list \<Rightarrow> pass_env \<Rightarrow> pass_env" where
  "live_env fires env = env\<lparr>pn_step := (pn_step env)\<lparr>sv_fleet :=
     (\<lambda>ws st. case sv_fleet (pn_step env) ws st of Inl msg \<Rightarrow> Inl msg | Inr ds \<Rightarrow> Inr (map (attach_fires ws fires) ds))\<rparr>\<rparr>"

text \<open>The un-awaited start of a device's re-evaluation, and a pending pass that runs.\<close>

definition reevaluate :: "pass_env \<Rightarrow> string \<Rightarrow> fleet_device \<Rightarrow> trigger_db \<Rightarrow> trigger_db" where
  "reevaluate env ws d db =
     (case triggerEventDrivenReEvaluation env ws (Some (fd_serialNumber d)) (td_comp db) of
        (started, c) \<Rightarrow> db\<lparr>td_comp := c,
          td_background := td_background db @ (case started of None \<Rightarrow> [] | Some scope \<Rightarrow> [(ws, scope)])\<rparr>)"

definition run_background :: "pass_env \<Rightarrow> nat \<Rightarrow> trigger_db \<Rightarrow> trigger_db" where
  "run_background env n db =
     (if n < length (td_background db) then
        (case td_background db ! n of (ws, scope) \<Rightarrow>
           db\<lparr>td_comp := snd (forced_pass (live_env (td_fires db) env) ws scope (td_comp db)),
              td_background := remove_at n (td_background db)\<rparr>)
      else db)"

section \<open>Fire\<close>

record fire_result =
  fr_workflowRunId :: string
  fr_caseId :: "string option"
  fr_matchedDevice :: "string option"

definition launch_refs :: "int \<Rightarrow> string \<Rightarrow> workflow_row \<Rightarrow> device_ref list \<Rightarrow> string \<Rightarrow> trigger_db \<Rightarrow> run_view option \<times> trigger_db" where
  "launch_refs now runId w refs ws db =
     (let c = cd_cases (td_comp db)
      in case launchWorkflowRun now runId w refs ws None (case_runs c) of
           (v, job, sys) \<Rightarrow>
             (v, db\<lparr>td_comp := (td_comp db)\<lparr>cd_cases := c\<lparr>case_runs := sys, case_jobs := case_jobs c @ [job]\<rparr>\<rparr>\<rparr>))"

definition trigger_case :: "pass_env \<Rightarrow> string \<Rightarrow> trigger_row \<Rightarrow> workflow_row \<Rightarrow> string \<Rightarrow> fleet_device option \<Rightarrow> trigger_db \<Rightarrow>
    string option \<times> trigger_db" where
  "trigger_case env newId t w runId matched db =
     (if \<not> tr_openCase t then (None, db)
      else (case openCaseForTrigger (pn_case env) (pass_now env) newId (tr_workspace t) (tr_name t) (wf_name w) runId
              (tr_caseSeverity t) (map_option (\<lambda>d. (trigger_device_ref d, fd_segmentId d)) matched) (cd_cases (td_comp db)) of
          (caseId, cdb) \<Rightarrow> (Some caseId, db\<lparr>td_comp := (td_comp db)\<lparr>cd_cases := cdb\<rparr>\<rparr>)))"

definition no_device :: "string \<Rightarrow> string \<Rightarrow> string \<Rightarrow> trigger_row \<Rightarrow> jsval \<Rightarrow> trigger_db \<Rightarrow> (pass_error + 'r) \<times> trigger_db" where
  "no_device action verb rest t content db =
     (let f = filled (tr_deviceLookupField t) []
      in (Inl (RequestError (HttpError 404 (''No device matched on field '' @ sq f))),
          trigger_audit (tr_workspace t) (trigger_event action ''external'' t
            (''Trigger '' @ quoted (tr_name t) @ '' '' @ verb @ '' but no device matched '' @ f @ ''='' @
             stringified (own_prop content f) @ '' '' @ em_dash @ '' '' @ rest) (Some ''warning'')) db))"

definition WAIT_UNAVAILABLE :: string where
  "WAIT_UNAVAILABLE = ''This workflow includes a '' @ sq ''wait'' @
     '' step, which requires durable storage (DATABASE_URL) not configured on this server.''"

definition NO_TRIGGER_CREDENTIAL :: string where
  "NO_TRIGGER_CREDENTIAL = ''No automation credential configured for this workspace '' @ em_dash @
     '' set one in Settings > Workspace Automation''"

definition fired_event :: "trigger_row \<Rightarrow> workflow_row \<Rightarrow> fleet_device option \<Rightarrow> audit_input" where
  "fired_event t w matched = audit_about ''trigger'' ''trigger_fired'' ''external'' ''workflow'' (wf_id w) (wf_name w)
     (''Inbound trigger '' @ quoted (tr_name t) @ '' fired '' @ em_dash @ '' ran '' @ quoted (wf_name w) @
      (case matched of Some d \<Rightarrow> '' against '' @ fd_displayName d | None \<Rightarrow> '' (no device context)'')) None"

text \<open>The run and all that follows it, once the caller and the device are known.\<close>

definition fire_workflow :: "pass_env \<Rightarrow> string \<Rightarrow> string \<Rightarrow> trigger_row \<Rightarrow> workflow_row \<Rightarrow> jsval \<Rightarrow> fleet_device option \<Rightarrow> trigger_db \<Rightarrow>
    (pass_error + fire_result) \<times> trigger_db" where
  "fire_workflow env runId newCaseId t w content matched db =
     (let now = pass_now env; ws = tr_workspace t
      in case launch_refs now runId w (case matched of Some d \<Rightarrow> [trigger_device_ref d] | None \<Rightarrow> []) ws db of
           (None, db1) \<Rightarrow> (Inl (RequestError (HttpError 400 WAIT_UNAVAILABLE)), db1)
         | (Some v, db1) \<Rightarrow>
             (let db2 = update_trigger_row (tr_id t)
                    (\<lambda>r. r\<lparr>tr_lastFiredAt := Some now, tr_fireCount := tr_fireCount r + 1\<rparr>) db1;
                  db3 = (case matched of Some d \<Rightarrow> record_fire now t (fd_id d) content db2 | None \<Rightarrow> db2);
                  (caseId, db4) = trigger_case env newCaseId t w (vw_id v) matched db3;
                  db5 = trigger_audit ws (fired_event t w matched) db4
              in (Inr \<lparr>fr_workflowRunId = vw_id v, fr_caseId = caseId, fr_matchedDevice = map_option fd_displayName matched\<rparr>,
                  case matched of Some d \<Rightarrow> reevaluate env ws d db5 | None \<Rightarrow> db5)))"

definition fireTrigger :: "pass_env \<Rightarrow> string \<Rightarrow> string \<Rightarrow> string \<Rightarrow> string \<Rightarrow> jsval \<Rightarrow> trigger_db \<Rightarrow>
    (pass_error + fire_result) \<times> trigger_db" where
  "fireTrigger env runId newCaseId triggerId secret content db =
     (case check_caller triggerId secret db of
        Inl e \<Rightarrow> (Inl (RequestError e), db)
      | Inr t \<Rightarrow>
          (let ws = tr_workspace t
           in case find_case_workflow (pn_case env) ws (tr_workflowId t) of
                None \<Rightarrow> (Inl (RequestError (HttpError 400 ''Linked workflow no longer exists'')), db)
              | Some w \<Rightarrow>
                  if filled (pn_bearer env ws) [] = [] then
                    (Inl (RequestError (HttpError 503 (NO_TRIGGER_CREDENTIAL @ '' so unattended triggers can run workflows.''))), db)
                  else (case sv_fleet (pn_step env) ws (cd_mdm (td_comp db)) of
                      Inl msg \<Rightarrow> (Inl (PassCrash msg), db)
                    | Inr devices \<Rightarrow>
                        (case resolveTriggerDevice (tr_deviceLookupField t) content devices of
                           Some d \<Rightarrow> fire_workflow env runId newCaseId t w content (Some d) db
                         | None \<Rightarrow>
                             if filled (tr_deviceLookupField t) [] = [] then fire_workflow env runId newCaseId t w content None db
                             else no_device ''trigger_fired_no_device'' ''fired'' ''workflow not run'' t content db))))"

section \<open>Resolve\<close>

definition NO_LOOKUP_FIELD :: string where
  "NO_LOOKUP_FIELD = ''This trigger has no Device lookup field configured '' @ em_dash @
     '' set one (Settings > Inbound Webhooks) so a Resolved call knows which device'' @ [CHR 0x27] @ ''s state to clear.''"

definition resolveTrigger :: "pass_env \<Rightarrow> string \<Rightarrow> string \<Rightarrow> jsval \<Rightarrow> trigger_db \<Rightarrow> (pass_error + string) \<times> trigger_db" where
  "resolveTrigger env triggerId secret content db =
     (case check_caller triggerId secret db of
        Inl e \<Rightarrow> (Inl (RequestError e), db)
      | Inr t \<Rightarrow>
          (let ws = tr_workspace t
           in if filled (tr_deviceLookupField t) [] = [] then (Inl (RequestError (HttpError 400 NO_LOOKUP_FIELD)), db)
              else if filled (pn_bearer env ws) [] = [] then
                (Inl (RequestError (HttpError 503 (NO_TRIGGER_CREDENTIAL @ ''.''))), db)
              else (case sv_fleet (pn_step env) ws (cd_mdm (td_comp db)) of
                  Inl msg \<Rightarrow> (Inl (PassCrash msg), db)
                | Inr devices \<Rightarrow>
                    (case resolveTriggerDevice (tr_deviceLookupField t) content devices of
                       None \<Rightarrow> no_device ''trigger_resolved_no_device'' ''resolve received'' ''nothing cleared'' t content db
                     | Some d \<Rightarrow>
                         (Inr (fd_displayName d),
                          reevaluate env ws d
                            (trigger_audit ws (audit_about ''trigger'' ''trigger_resolved'' ''external'' ''device'' (fd_id d) (fd_displayName d)
                               (''Inbound trigger '' @ quoted (tr_name t) @ '' resolved for '' @ fd_displayName d @ '' '' @ em_dash @
                                '' condition reported no longer active'') None)
                              (record_resolve (pass_now env) t (fd_id d) content db)))))))"

section \<open>The caller\<close>

lemma check_caller_some:
  "check_caller triggerId secret db = Inr t \<longleftrightarrow>
     findTriggerById triggerId db = Some t \<and> tr_secret t = secret \<and> tr_enabled t"
  by (auto simp: check_caller_def timingSafeEqual_def throw_def split: option.splits if_splits)

lemma check_caller_error:
  "check_caller triggerId secret db = Inl e \<Longrightarrow>
     e = HttpError 404 ''Unknown trigger'' \<or> e = HttpError 401 ''Invalid trigger secret'' \<or> e = HttpError 403 ''This trigger is disabled''"
  by (auto simp: check_caller_def throw_def split: option.splits if_splits)

lemma found_trigger: "findTriggerById triggerId db = Some t \<Longrightarrow> t \<in> set (td_triggers db) \<and> tr_id t = triggerId"
  by (auto simp: findTriggerById_def find_Some_iff in_set_conv_nth)

lemma rejected:
  assumes "check_caller triggerId secret db = Inl e"
  shows "fireTrigger env r c triggerId secret content db = (Inl (RequestError e), db)"
    "resolveTrigger env triggerId secret content db = (Inl (RequestError e), db)"
  using assms by (simp_all add: fireTrigger_def resolveTrigger_def)

lemma find_upd_id:
  assumes "\<And>t. tr_id (f t) = tr_id t"
  shows "List.find (\<lambda>t. tr_id t = i) (upd_where (\<lambda>t. tr_id t = i) f ts) = map_option f (List.find (\<lambda>t. tr_id t = i) ts)"
  by (induction ts) (auto simp: assms)

lemma find_del_id: "List.find (\<lambda>t. tr_id t = i) (del_where (\<lambda>t. tr_id t = i) ts) = None"
  by (induction ts) (auto simp: del_where_def)

lemma find_weaker: "List.find (\<lambda>t. p t \<and> q t) ts = Some t \<Longrightarrow> \<exists>t'. List.find q ts = Some t'"
  by (induction ts) (auto split: if_splits)

lemma found_in_workspace: "find_ws_trigger ws triggerId db = Some t \<Longrightarrow> \<exists>t'. findTriggerById triggerId db = Some t'"
  unfolding find_ws_trigger_def findTriggerById_def by (rule find_weaker)

lemma rotated_check:
  assumes "rotateTriggerSecret new ws triggerId actor db = (Inr t, db')" "secret \<noteq> new"
  shows "check_caller triggerId secret db' = Inl (HttpError 401 ''Invalid trigger secret'')"
proof -
  obtain t0 where t0: "find_ws_trigger ws triggerId db = Some t0"
    using assms(1) by (auto simp: rotateTriggerSecret_def throw_def split: option.splits)
  obtain t1 where "findTriggerById triggerId db = Some t1"
    using found_in_workspace [OF t0] by blast
  then have "findTriggerById triggerId db' = Some (t1\<lparr>tr_secret := new\<rparr>)"
    using assms(1) t0 by (auto simp: rotateTriggerSecret_def findTriggerById_def trigger_audit_def update_trigger_row_def find_upd_id)
  then show ?thesis using assms(2) by (simp add: check_caller_def timingSafeEqual_def throw_def)
qed

lemma deleted_check:
  "deleteTrigger ws triggerId actor db = (Inr u, db') \<Longrightarrow> check_caller triggerId secret db' = Inl (HttpError 404 ''Unknown trigger'')"
  by (auto simp: deleteTrigger_def check_caller_def findTriggerById_def trigger_audit_def find_del_id throw_def split: option.splits)

text \<open>
  C21: Without the id and the current secret of an enabled trigger, neither URL does anything: no run, no case, no
  audit entry, no change of any table; the caller gets the error 404, 401 or 403.
\<close>

theorem webhook_fails_closed:
  assumes "\<not> (\<exists>t\<in>set (td_triggers db). tr_id t = triggerId \<and> tr_secret t = secret \<and> tr_enabled t)"
  shows "\<exists>e. statusCode e \<in> {404, 401, 403} \<and>
    fireTrigger env runId newCaseId triggerId secret content db = (Inl (RequestError e), db) \<and>
    resolveTrigger env triggerId secret content db = (Inl (RequestError e), db)"
proof -
  obtain e where e: "check_caller triggerId secret db = Inl e"
    using assms found_trigger check_caller_some by (cases "check_caller triggerId secret db") blast+
  moreover have "statusCode e \<in> {404, 401, 403}" using check_caller_error [OF e] by (elim disjE) simp_all
  ultimately show ?thesis using rejected [OF e] by blast
qed

text \<open>
  After a rotation the old secret is refused with 401, and after a deletion every secret with 404, on both URLs
  and without any effect.
\<close>

lemma revoked_url_stops:
  "(rotateTriggerSecret new ws triggerId actor db = (Inr t, db') \<and> secret \<noteq> new \<longrightarrow>
     fireTrigger env runId newCaseId triggerId secret content db' = (Inl (RequestError (HttpError 401 ''Invalid trigger secret'')), db') \<and>
     resolveTrigger env triggerId secret content db' = (Inl (RequestError (HttpError 401 ''Invalid trigger secret'')), db')) \<and>
   (deleteTrigger ws triggerId actor db = (Inr u, db') \<longrightarrow>
     fireTrigger env runId newCaseId triggerId secret content db' = (Inl (RequestError (HttpError 404 ''Unknown trigger'')), db') \<and>
     resolveTrigger env triggerId secret content db' = (Inl (RequestError (HttpError 404 ''Unknown trigger'')), db'))"
  (is "(?rotated \<longrightarrow> ?refused) \<and> (?deleted \<longrightarrow> ?unknown)")
proof (intro conjI)
  show "?rotated \<longrightarrow> ?refused"
    using rotated_check [of new ws triggerId actor db t db' secret] rejected by simp
  show "?deleted \<longrightarrow> ?unknown"
    using deleted_check [of ws triggerId actor db u db' secret] rejected by simp
qed

section \<open>The life of a device's state\<close>

definition active_fires :: "trigger_db \<Rightarrow> fire_key \<Rightarrow> bool" where
  "active_fires db k \<longleftrightarrow> (\<exists>f\<in>set (td_fires db). fire_key_of f = k \<and> fi_status f = ''active'')"

datatype ext_call = FireCall string string string string jsval | ResolveCall string string jsval

text \<open>What happens, in any order: calls, and pending passes that run.\<close>

datatype event = Call pass_env ext_call | PassRuns pass_env nat

fun run_call :: "pass_env \<times> ext_call \<Rightarrow> trigger_db \<Rightarrow> trigger_db" where
  "run_call (env, FireCall runId caseId triggerId secret content) db = snd (fireTrigger env runId caseId triggerId secret content db)"
| "run_call (env, ResolveCall triggerId secret content) db = snd (resolveTrigger env triggerId secret content db)"

fun run_event :: "event \<Rightarrow> trigger_db \<Rightarrow> trigger_db" where
  "run_event (Call env c) db = run_call (env, c) db"
| "run_event (PassRuns env n) db = run_background env n db"

text \<open>The abstract effect of a call: the pair it is about, and the state it leaves it in.\<close>

definition call_target :: "pass_env \<Rightarrow> string \<Rightarrow> string \<Rightarrow> jsval \<Rightarrow> trigger_db \<Rightarrow> fire_key option" where
  "call_target env triggerId secret content db =
     (case check_caller triggerId secret db of
        Inl _ \<Rightarrow> None
      | Inr t \<Rightarrow>
          if filled (pn_bearer env (tr_workspace t)) [] = [] then None
          else (case sv_fleet (pn_step env) (tr_workspace t) (cd_mdm (td_comp db)) of
              Inl _ \<Rightarrow> None
            | Inr devices \<Rightarrow> map_option (\<lambda>d. (tr_workspace t, tr_id t, fd_id d))
                (resolveTriggerDevice (tr_deviceLookupField t) content devices)))"

definition runs_workflow :: "pass_env \<Rightarrow> string \<Rightarrow> trigger_db \<Rightarrow> bool" where
  "runs_workflow env triggerId db \<longleftrightarrow>
     (case findTriggerById triggerId db of
        None \<Rightarrow> False
      | Some t \<Rightarrow> find_case_workflow (pn_case env) (tr_workspace t) (tr_workflowId t) \<noteq> None)"

fun call_effect :: "pass_env \<times> ext_call \<Rightarrow> trigger_db \<Rightarrow> (fire_key \<times> bool) option" where
  "call_effect (env, FireCall runId caseId triggerId secret content) db =
     (if runs_workflow env triggerId db then map_option (\<lambda>k. (k, True)) (call_target env triggerId secret content db) else None)"
| "call_effect (env, ResolveCall triggerId secret content) db =
     map_option (\<lambda>k. (k, False)) (call_target env triggerId secret content db)"

fun set_active :: "(fire_key \<times> bool) option \<Rightarrow> (fire_key \<Rightarrow> bool) \<Rightarrow> fire_key \<Rightarrow> bool" where
  "set_active None a = a"
| "set_active (Some (k, b)) a = a(k := b)"

fun event_effect :: "event \<Rightarrow> trigger_db \<Rightarrow> (fire_key \<times> bool) option" where
  "event_effect (Call env c) db = call_effect (env, c) db"
| "event_effect (PassRuns env n) db = None"

fun effects :: "event list \<Rightarrow> trigger_db \<Rightarrow> (fire_key \<times> bool) option list" where
  "effects [] db = []"
| "effects (e # es) db = event_effect e db # effects es (run_event e db)"

lemma bex_upd_where: "(\<exists>r\<in>set (upd_where p f xs). q r) \<longleftrightarrow> (\<exists>r\<in>set xs. q (if p r then f r else r))"
  by (auto simp: upd_where_def)

lemma upsert_active:
  assumes "\<And>r. fire_key_of (f r) = fire_key_of r" "\<And>r. fi_status (f r) = fi_status new"
  shows "active_fires (upsert_fire new f db) = (active_fires db)(fire_key_of new := (fi_status new = ''active''))"
proof (rule ext)
  fix k
  have "active_fires (db\<lparr>td_fires := upd_where (\<lambda>r. fire_key_of r = fire_key_of new) f (td_fires db)\<rparr>) k \<longleftrightarrow>
      (if k = fire_key_of new then (\<exists>r\<in>set (td_fires db). fire_key_of r = k) \<and> fi_status new = ''active'' else active_fires db k)"
    by (auto simp: active_fires_def bex_upd_where assms split: if_splits)
  moreover have "active_fires (db\<lparr>td_fires := td_fires db @ [new]\<rparr>) k \<longleftrightarrow>
      (k = fire_key_of new \<and> fi_status new = ''active'') \<or> active_fires db k"
    by (auto simp: active_fires_def)
  ultimately show "active_fires (upsert_fire new f db) k = ((active_fires db)(fire_key_of new := (fi_status new = ''active''))) k"
    by (auto simp: upsert_fire_def active_fires_def split: if_splits)
qed

lemma upsert_distinct:
  assumes "\<And>r. fire_key_of (f r) = fire_key_of r" "distinct (map fire_key_of (td_fires db))"
  shows "distinct (map fire_key_of (td_fires (upsert_fire new f db)))"
proof -
  have "map fire_key_of (upd_where P f xs) = map fire_key_of xs" for P xs
    by (simp add: upd_where_def assms(1))
  then show ?thesis using assms(2) by (auto simp: upsert_fire_def)
qed

lemma find_SomeD: "List.find p xs = Some x \<Longrightarrow> p x" and find_member: "List.find p xs = Some x \<Longrightarrow> x \<in> set xs"
  by (auto simp: find_Some_iff)

definition refs_job :: "string \<Rightarrow> workflow_row \<Rightarrow> device_ref list \<Rightarrow> string \<Rightarrow> run_job" where
  "refs_job runId w refs ws = (if has_wait w then DurableJob runId w refs ws else MemoryJob runId w refs ws)"

lemma launch_refs_effect:
  obtains v db1 where "launch_refs now runId w refs ws db = (Some v, db1)" "td_fires db1 = td_fires db" "td_triggers db1 = td_triggers db"
    "vw_id v = runId" "case_jobs (cd_cases (td_comp db1)) = case_jobs (cd_cases (td_comp db)) @ [refs_job runId w refs ws]"
proof -
  have "\<exists>v sys. launchWorkflowRun now runId w refs ws None (case_runs (cd_cases (td_comp db))) = (Some v, refs_job runId w refs ws, sys) \<and>
      vw_id v = runId"
    by (auto simp: launchWorkflowRun_def refs_job_def Let_def runView_def find_run_def find_append
        durableViewToPublicRun_def publicRunView_def split: option.splits dest: find_SomeD)
  with that show ?thesis by (auto simp: launch_refs_def Let_def)
qed

lemma fires_frame [simp]:
  "td_fires (trigger_audit ws ev db) = td_fires db" "td_fires (update_trigger_row i g db) = td_fires db"
  "td_fires (reevaluate env ws d db) = td_fires db" "td_triggers (trigger_audit ws ev db) = td_triggers db"
  "td_triggers (reevaluate env ws d db) = td_triggers db" "td_triggers (upsert_fire new f db) = td_triggers db"
  "td_fires (run_background env n db) = td_fires db" "td_triggers (run_background env n db) = td_triggers db"
  by (simp_all add: trigger_audit_def update_trigger_row_def reevaluate_def upsert_fire_def run_background_def split: prod.split)

lemma trigger_case_frame:
  "trigger_case env i t w r m db = (c, db') \<Longrightarrow> td_fires db' = td_fires db \<and> td_triggers db' = td_triggers db"
  by (auto simp: trigger_case_def split: if_splits prod.splits)

lemma fires_only: "td_fires a = td_fires b \<Longrightarrow> td_fires (upsert_fire n f a) = td_fires (upsert_fire n f b)"
  by (simp add: upsert_fire_def)

lemma fire_workflow_fires:
  "td_fires (snd (fire_workflow env runId cid t w content m db)) =
     (case m of Some d \<Rightarrow> td_fires (record_fire (pass_now env) t (fd_id d) content db) | None \<Rightarrow> td_fires db)"
proof -
  obtain v db1 where "launch_refs (pass_now env) runId w (case m of Some d \<Rightarrow> [trigger_device_ref d] | None \<Rightarrow> []) (tr_workspace t) db
      = (Some v, db1)" "td_fires db1 = td_fires db"
    by (rule launch_refs_effect)
  then show ?thesis
    by (auto simp: fire_workflow_def record_fire_def Let_def split: option.splits prod.splits dest!: trigger_case_frame
        intro!: fires_only)
qed

lemma no_device_frame [simp]:
  "td_fires (snd (no_device a v r t content db)) = td_fires db"
  "td_triggers (snd (no_device a v r t content db)) = td_triggers db"
  by (simp_all add: no_device_def Let_def)

lemma active_cong: "td_fires a = td_fires b \<Longrightarrow> active_fires a = active_fires b"
  by (simp add: active_fires_def fun_eq_iff)

lemma active_frame [simp]:
  "active_fires (snd (no_device a v r t content db)) = active_fires db"
  "active_fires (reevaluate env ws d (trigger_audit ws' ev db)) = active_fires db"
  by (rule active_cong, simp)+

lemma record_active:
  "active_fires (record_fire now t i content db) = (active_fires db)((tr_workspace t, tr_id t, i) := True)"
  "active_fires (record_resolve now t i content db) = (active_fires db)((tr_workspace t, tr_id t, i) := False)"
  by (simp_all add: record_fire_def record_resolve_def Let_def upsert_active fire_key_of_def)

lemma no_field: "filled f [] = [] \<Longrightarrow> resolveTriggerDevice f content ds = None"
  by (simp add: resolveTriggerDevice_def)

lemma fire_workflow_active:
  "active_fires (snd (fire_workflow env runId cid t w content m db)) =
     (case m of Some d \<Rightarrow> (active_fires db)((tr_workspace t, tr_id t, fd_id d) := True) | None \<Rightarrow> active_fires db)"
proof (cases m)
  case None
  then have "td_fires (snd (fire_workflow env runId cid t w content m db)) = td_fires db" by (simp add: fire_workflow_fires)
  from active_cong [OF this] None show ?thesis by simp
next
  case (Some d)
  then have "td_fires (snd (fire_workflow env runId cid t w content m db)) =
      td_fires (record_fire (pass_now env) t (fd_id d) content db)" by (simp add: fire_workflow_fires)
  from active_cong [OF this] Some show ?thesis by (simp add: record_active)
qed

text \<open>Each call refines its abstract effect.\<close>

lemma fire_refines:
  "active_fires (snd (fireTrigger env runId cid triggerId secret content db)) =
     set_active (call_effect (env, FireCall runId cid triggerId secret content) db) (active_fires db)"
proof (cases "check_caller triggerId secret db")
  case (Inl e)
  then show ?thesis by (simp add: rejected call_target_def)
next
  case (Inr t)
  then have find: "findTriggerById triggerId db = Some t" by (simp add: check_caller_some)
  show ?thesis
    by (simp add: fireTrigger_def Inr call_target_def runs_workflow_def find Let_def no_field fire_workflow_active
        split: option.split sum.split)
qed

lemma resolve_refines:
  "active_fires (snd (resolveTrigger env triggerId secret content db)) =
     set_active (call_effect (env, ResolveCall triggerId secret content) db) (active_fires db)"
proof (cases "check_caller triggerId secret db")
  case (Inl e)
  then show ?thesis by (simp add: rejected call_target_def)
next
  case (Inr t)
  show ?thesis
    by (simp add: resolveTrigger_def Inr call_target_def Let_def no_field record_active split: option.split sum.split)
qed

lemma call_refines: "active_fires (run_call c db) = set_active (call_effect c db) (active_fires db)"
  by (cases "(c, db)" rule: call_effect.cases) (simp_all only: run_call.simps fire_refines resolve_refines prod.inject)

lemma event_refines: "active_fires (run_event e db) = set_active (event_effect e db) (active_fires db)"
proof (cases e)
  case (PassRuns env n)
  then show ?thesis using active_cong [of "run_background env n db" db] by simp
qed (simp add: call_refines)

lemma events_refine: "active_fires (fold run_event es db) = fold set_active (effects es db) (active_fires db)"
  by (induction es arbitrary: db) (simp_all add: event_refines)

section \<open>One row per trigger and device\<close>

lemma fire_workflow_distinct:
  "distinct (map fire_key_of (td_fires db)) \<Longrightarrow> distinct (map fire_key_of (td_fires (snd (fire_workflow env r c t w content m db))))"
  by (cases m) (simp_all add: fire_workflow_fires record_fire_def Let_def upsert_distinct fire_key_of_def)

lemma call_distinct:
  assumes "distinct (map fire_key_of (td_fires db))"
  shows "distinct (map fire_key_of (td_fires (run_call c db)))"
proof (cases c)
  case (Pair env k)
  have "distinct (map fire_key_of (td_fires (record_resolve now t d content db)))" for now t d content
    using assms by (simp add: record_resolve_def Let_def upsert_distinct fire_key_of_def)
  then show ?thesis
    by (cases k) (auto simp: Pair fireTrigger_def resolveTrigger_def Let_def fire_workflow_distinct assms split: option.split sum.split)
qed

lemma event_distinct: "distinct (map fire_key_of (td_fires db)) \<Longrightarrow> distinct (map fire_key_of (td_fires (run_event e db)))"
  by (cases e) (simp_all add: call_distinct)

lemma events_distinct:
  "distinct (map fire_key_of (td_fires db)) \<Longrightarrow> distinct (map fire_key_of (td_fires (fold run_event es db)))"
  by (induction es arbitrary: db) (simp_all add: event_distinct)

section \<open>The condition reads the state\<close>

definition cached_fire :: "(string \<times> (string \<times> jsval) list) list \<Rightarrow> string \<Rightarrow> string \<Rightarrow> jsval option" where
  "cached_fire cache deviceId triggerId = Option.bind (map_of cache deviceId) (\<lambda>e. map_of e triggerId)"

lemma cached_fire_fold:
  "cached_fire (fold (\<lambda>f cache. map_set (fi_deviceId f)
       (map_set (fi_triggerId f) (fire_json f) (case map_of cache (fi_deviceId f) of Some e \<Rightarrow> e | None \<Rightarrow> [])) cache) fs cache) d i =
     (case List.find (\<lambda>f. fi_deviceId f = d \<and> fi_triggerId f = i) (rev fs) of
        Some f \<Rightarrow> Some (fire_json f) | None \<Rightarrow> cached_fire cache d i)"
proof (induction fs rule: rev_induct)
  case (snoc f fs)
  then show ?case by (auto simp: cached_fire_def split: option.splits)
qed simp

lemma cached_fire_row:
  "cached_fire (triggerFiresCache ws fires) d i =
     map_option fire_json (List.find (\<lambda>f. fi_deviceId f = d \<and> fi_triggerId f = i) (rev (filter (\<lambda>f. fi_workspace f = ws) fires)))"
  unfolding triggerFiresCache_def cached_fire_fold by (simp add: cached_fire_def split: option.split)

lemma find_key:
  assumes "distinct (map fire_key_of fires)" "f \<in> set fires" "fire_key_of f = (ws, i, d)"
  shows "List.find (\<lambda>f. fi_deviceId f = d \<and> fi_triggerId f = i) (rev (filter (\<lambda>f. fi_workspace f = ws) fires)) = Some f"
proof -
  let ?xs = "rev (filter (\<lambda>f. fi_workspace f = ws) fires)" and ?m = "\<lambda>f. fi_deviceId f = d \<and> fi_triggerId f = i"
  have "f \<in> set ?xs" "?m f" using assms by (auto simp: fire_key_of_def)
  then obtain g where g: "List.find ?m ?xs = Some g"
    by (cases "List.find ?m ?xs") (auto simp: find_None_iff)
  from find_SomeD [OF g] find_member [OF g] have "g \<in> set fires" "fire_key_of g = (ws, i, d)"
    by (auto simp: fire_key_of_def)
  then have "g = f" using assms by (metis distinct_map inj_onD)
  with g show ?thesis by simp
qed

lemma triggerFired_reads:
  assumes "distinct (map fire_key_of fires)" "fd_json d = JObj props" "own_prop v ''triggerId'' = JStr i"
    "\<not> truthy (own_prop v ''withinMinutes'')"
  shows "ev_triggerFired ev (fd_json (attach_fires ws fires d)) ''exists'' v \<longleftrightarrow>
    (\<exists>f\<in>set fires. fire_key_of f = (ws, i, fd_id d) \<and> fi_status f = ''active'')"
proof -
  let ?entry = "cached_fire (triggerFiresCache ws fires) (fd_id d) i"
  have v: "target_of v = v"
    using assms(3) by (cases v) (simp_all add: own_prop_def target_of_def coalesce_def)
  have fires: "own_prop (fd_json (attach_fires ws fires d)) ''triggerFires'' =
      (case map_of (triggerFiresCache ws fires) (fd_id d) of Some e \<Rightarrow> JObj e | None \<Rightarrow> JNull)"
    by (simp add: attach_fires_def assms(2))
  have "own_prop (coalesce (own_prop (fd_json (attach_fires ws fires d)) ''triggerFires'') (JObj [])) i =
      (case ?entry of Some e \<Rightarrow> e | None \<Rightarrow> JUndef)"
    unfolding fires by (simp add: cached_fire_def coalesce_def own_prop_def split: option.split)
  then have "ev_triggerFired ev (fd_json (attach_fires ws fires d)) ''exists'' v \<longleftrightarrow>
      (\<exists>e. ?entry = Some e \<and> truthy e \<and> own_prop e ''status'' = JStr ''active'')"
    by (simp add: ev_triggerFired_def trigger_present_def Let_def v assms(3,4) split: option.split)
  also have "\<dots> \<longleftrightarrow> (\<exists>f\<in>set fires. fire_key_of f = (ws, i, fd_id d) \<and> fi_status f = ''active'')"
  proof (cases "\<exists>f\<in>set fires. fire_key_of f = (ws, i, fd_id d)")
    case True
    then obtain f where f: "f \<in> set fires" "fire_key_of f = (ws, i, fd_id d)" by blast
    have "g = f" if "g \<in> set fires" "fire_key_of g = (ws, i, fd_id d)" for g
      using assms(1) f that by (metis distinct_map inj_onD)
    with f have "(\<exists>f\<in>set fires. fire_key_of f = (ws, i, fd_id d) \<and> fi_status f = ''active'') \<longleftrightarrow> fi_status f = ''active''" by blast
    moreover have "?entry = Some (fire_json f)" by (simp add: cached_fire_row find_key [OF assms(1) f])
    ultimately show ?thesis by (simp add: fire_json_def own_prop_def)
  next
    case False
    then have "List.find (\<lambda>f. fi_deviceId f = fd_id d \<and> fi_triggerId f = i) (rev (filter (\<lambda>f. fi_workspace f = ws) fires)) = None"
      by (auto simp: find_None_iff fire_key_of_def)
    then show ?thesis using False by (auto simp: cached_fire_row)
  qed
  finally show ?thesis .
qed

text \<open>
  C19: After any sequence of fire and resolve calls, accepted or refused, with pending passes running anywhere between
  them, the condition \<open>triggerFired\<close> that the next pass evaluates on a device of the fleet is true exactly when the
  last accepted call about that trigger and that device was a fire, or, without such a call, when it was active
  before. The hypotheses: one row per trigger and device, which the table enforces, and a condition without the
  staleness limit.
\<close>

theorem webhook_condition_follows_calls:
  assumes "distinct (map fire_key_of (td_fires db))" and "fd_json d = JObj props"
    and "own_prop v ''triggerId'' = JStr triggerId" and "\<not> truthy (own_prop v ''withinMinutes'')"
  shows "evaluate_raw ev (fd_json (attach_fires ws (td_fires (fold run_event events db)) d))
      \<lparr>field = ''triggerFired'', operator = ''exists'', cond_value = v\<rparr> =
    Some (fold set_active (effects events db) (active_fires db) (ws, triggerId, fd_id d))"
  using triggerFired_reads [OF events_distinct [OF assms(1)] assms(2-4), of ev ws events]
  by (simp add: raw_triggerFired events_refine [symmetric] active_fires_def)

section \<open>The run of a fire\<close>

lemma pass_jobs_grow:
  "\<exists>xs. case_jobs (cd_cases (snd (runComplianceEvaluation env ws pids actor scope db))) = case_jobs (cd_cases db) @ map (launch_job ws) xs"
proof (cases "selected_policies ws pids db = [] \<or> (\<exists>msg. sv_fleet (pn_step env) ws (cd_mdm db) = Inl msg)")
  case True
  then show ?thesis by (auto simp: runComplianceEvaluation_def Let_def intro!: exI [of _ "[]"])
next
  case False
  then obtain fleet where fleet: "sv_fleet (pn_step env) ws (cd_mdm db) = Inr fleet" and some: "selected_policies ws pids db \<noteq> []"
    by (metis sumE)
  let ?ps = "selected_policies ws pids db" and ?seen = "scope_devices scope fleet"
  let ?acc = "evaluate_policies env ws (case actor of Some a \<Rightarrow> a | None \<Rightarrow> ''system'') ?ps ?seen db"
  have "launched (\<lambda>(i, w, d). d \<in> set (pass_devices env ws ?ps ?seen) \<and>
      (\<exists>p\<in>set ?ps. authorised env (pass_conditions env ws ?ps ?seen) ws p w d)) ws (start_pass ws ?ps db) ?acc"
    unfolding evaluate_policies_def Let_def pass_devices_def by (rule pass_launches.pass) simp
  then obtain xs where "pass_jobs ?acc = case_jobs (cd_cases db) @ map (launch_job ws) xs"
    unfolding launched_def by (auto simp: start_pass_def pass_jobs_def)
  then show ?thesis
    using fleet some by (intro exI [of _ xs]) (simp add: runComplianceEvaluation_def Let_def finish_pass_tables)
qed

lemma forced_jobs_grow:
  "\<exists>xs. case_jobs (cd_cases (snd (forced_pass env ws scope db))) = case_jobs (cd_cases db) @ map (launch_job ws) xs"
proof (cases "filled (pn_bearer env ws) [] = []")
  case True
  then show ?thesis by (intro exI [of _ "[]"]) (simp add: forced_pass_def)
next
  case False
  moreover obtain r db1 where "runComplianceEvaluation env ws None (Some ''device-agent'') scope db = (r, db1)" by fastforce
  ultimately show ?thesis
    using pass_jobs_grow [of env ws None "Some ''device-agent''" scope db] by (cases r) (simp_all add: forced_pass_def)
qed

lemma background_jobs:
  "\<exists>ws xs. case_jobs (cd_cases (td_comp (run_background env n db))) = case_jobs (cd_cases (td_comp db)) @ map (launch_job ws) xs"
proof (cases "n < length (td_background db)")
  case True
  obtain ws scope where "td_background db ! n = (ws, scope)" by fastforce
  then show ?thesis
    using True forced_jobs_grow [of "live_env (td_fires db) env" ws scope "td_comp db"]
    by (intro exI [of _ ws]) (simp add: run_background_def)
next
  case False
  then show ?thesis by (intro exI [of _ "[]"]) (simp add: run_background_def)
qed

lemma begin_forced_cases:
  "cd_cases (snd (begin_forced e ws s c)) = cd_cases c"
  by (simp add: begin_forced_def Let_def)

lemma reevaluate_jobs: "case_jobs (cd_cases (td_comp (reevaluate env ws d db))) = case_jobs (cd_cases (td_comp db))"
  using begin_forced_cases [of env ws "Some (fd_serialNumber d)" "td_comp db"]
  by (auto simp: reevaluate_def triggerEventDrivenReEvaluation_def split: prod.split sum.split)

lemma trigger_case_jobs:
  "trigger_case env i t w r m db = (c, db') \<Longrightarrow> case_jobs (cd_cases (td_comp db')) = case_jobs (cd_cases (td_comp db))"
  by (auto simp: trigger_case_def openCaseForTrigger_def dispatch_jobs insert_case_def Let_def split: if_splits prod.splits)

lemma jobs_frame [simp]:
  "case_jobs (cd_cases (td_comp (trigger_audit ws ev db))) = case_jobs (cd_cases (td_comp db))"
  "td_comp (update_trigger_row i g db) = td_comp db" "td_comp (record_fire now t d content db) = td_comp db"
  "td_triggers (record_fire now t d content db) = td_triggers db"
  by (simp_all add: trigger_audit_def comp_audit_def update_trigger_row_def record_fire_def upsert_fire_def Let_def)

definition fired_for :: "trigger_row \<Rightarrow> jsval \<Rightarrow> fleet_device list \<Rightarrow> fleet_device option \<Rightarrow> bool" where
  "fired_for t content fleet m \<longleftrightarrow>
     (case m of
        None \<Rightarrow> filled (tr_deviceLookupField t) [] = []
      | Some d \<Rightarrow> d \<in> set fleet \<and> filled (tr_deviceLookupField t) [] \<noteq> [] \<and>
          device_answers (normalised (to_string (own_prop content (filled (tr_deviceLookupField t) [])))) d)"

lemma resolved_device:
  "resolveTriggerDevice (tr_deviceLookupField t) content fleet = Some d \<Longrightarrow> fired_for t content fleet (Some d)"
  by (auto simp: resolveTriggerDevice_def fired_for_def Let_def split: if_splits dest: find_SomeD find_member)

lemma no_device_needed: "filled (tr_deviceLookupField t) [] = [] \<Longrightarrow> fired_for t content fleet None"
  by (simp add: fired_for_def)

lemma fire_workflow_effect:
  assumes "fire_workflow env runId cid t w content m db = (Inr res, db')"
  shows "fr_workflowRunId res = runId"
    "case_jobs (cd_cases (td_comp db')) = case_jobs (cd_cases (td_comp db)) @
       [refs_job runId w (case m of Some d \<Rightarrow> [trigger_device_ref d] | None \<Rightarrow> []) (tr_workspace t)]"
    "td_triggers db' = upd_where (\<lambda>r. tr_id r = tr_id t)
       (\<lambda>r. r\<lparr>tr_lastFiredAt := Some (pass_now env), tr_fireCount := tr_fireCount r + 1\<rparr>) (td_triggers db)"
proof -
  let ?refs = "case m of Some d \<Rightarrow> [trigger_device_ref d] | None \<Rightarrow> []" and ?ws = "tr_workspace t"
  let ?count = "\<lambda>r. r\<lparr>tr_lastFiredAt := Some (pass_now env), tr_fireCount := Suc (tr_fireCount r)\<rparr>"
  obtain v db1 where launch: "launch_refs (pass_now env) runId w ?refs ?ws db = (Some v, db1)" "td_triggers db1 = td_triggers db"
    "vw_id v = runId" "case_jobs (cd_cases (td_comp db1)) = case_jobs (cd_cases (td_comp db)) @ [refs_job runId w ?refs ?ws]"
    by (rule launch_refs_effect)
  let ?db3 = "case m of Some d \<Rightarrow> record_fire (pass_now env) t (fd_id d) content (update_trigger_row (tr_id t) ?count db1)
    | None \<Rightarrow> update_trigger_row (tr_id t) ?count db1"
  obtain c db4 where case_opened: "trigger_case env cid t w (vw_id v) m ?db3 = (c, db4)" by fastforce
  have three: "case_jobs (cd_cases (td_comp ?db3)) = case_jobs (cd_cases (td_comp db)) @ [refs_job runId w ?refs ?ws]"
    "td_triggers ?db3 = upd_where (\<lambda>r. tr_id r = tr_id t) ?count (td_triggers db)"
    by (simp_all add: launch update_trigger_row_def split: option.split)
  let ?ev = "fired_event t w m"
  have db': "db' = (case m of Some d \<Rightarrow> reevaluate env ?ws d (trigger_audit ?ws ?ev db4) | None \<Rightarrow> trigger_audit ?ws ?ev db4)"
    and res: "fr_workflowRunId res = vw_id v"
    using assms by (auto simp: fire_workflow_def Let_def launch(1) case_opened)
  show "fr_workflowRunId res = runId" by (simp add: res launch)
  have "case_jobs (cd_cases (td_comp (trigger_audit ?ws ev db4))) = case_jobs (cd_cases (td_comp db)) @ [refs_job runId w ?refs ?ws]"
    for ev using trigger_case_jobs [OF case_opened] three(1) by simp
  then show "case_jobs (cd_cases (td_comp db')) = case_jobs (cd_cases (td_comp db)) @ [refs_job runId w ?refs ?ws]"
    by (cases m) (simp_all add: db' reevaluate_jobs)
  have "td_triggers db' = upd_where (\<lambda>r. tr_id r = tr_id t) ?count (td_triggers db)"
    using trigger_case_frame [OF case_opened] three(2) by (simp add: db' split: option.split)
  then show "td_triggers db' = upd_where (\<lambda>r. tr_id r = tr_id t)
       (\<lambda>r. r\<lparr>tr_lastFiredAt := Some (pass_now env), tr_fireCount := tr_fireCount r + 1\<rparr>) (td_triggers db)"
    by simp
qed

text \<open>
  C22: A fire that succeeds starts exactly one run, of the linked workflow, with the id it returns: on the one device of
  the fleet that carries the looked-up value as serial number, id or user mail, or on no device when the trigger has no
  lookup field; a trigger with a lookup field never runs without its device. It counts one fire on that trigger and
  leaves the other triggers alone. (The pass it leaves pending may launch more, later and by its own rules.)
\<close>

theorem fire_runs_workflow_once:
  assumes "fireTrigger env runId newCaseId triggerId secret content db = (Inr res, db')"
    and "findTriggerById triggerId db = Some t" and "sv_fleet (pn_step env) (tr_workspace t) (cd_mdm (td_comp db)) = Inr fleet"
  shows "\<exists>w m. find_case_workflow (pn_case env) (tr_workspace t) (tr_workflowId t) = Some w \<and> fired_for t content fleet m \<and>
    fr_workflowRunId res = runId \<and>
    case_jobs (cd_cases (td_comp db')) = case_jobs (cd_cases (td_comp db)) @
      [refs_job runId w (case m of Some d \<Rightarrow> [trigger_device_ref d] | None \<Rightarrow> []) (tr_workspace t)] \<and>
    td_triggers db' = upd_where (\<lambda>r. tr_id r = triggerId)
      (\<lambda>r. r\<lparr>tr_lastFiredAt := Some (pass_now env), tr_fireCount := tr_fireCount r + 1\<rparr>) (td_triggers db)"
proof -
  have id: "tr_id t = triggerId" using assms(2) found_trigger by blast
  have "check_caller triggerId secret db = Inr t"
    using assms(1,2) rejected(1) check_caller_some by (cases "check_caller triggerId secret db") auto
  then obtain w m where w: "find_case_workflow (pn_case env) (tr_workspace t) (tr_workflowId t) = Some w" and m: "fired_for t content fleet m"
    and fw: "fire_workflow env runId newCaseId t w content m db = (Inr res, db')"
    using assms(1,3) by (auto simp: fireTrigger_def Let_def no_device_def
        split: option.splits if_splits dest: resolved_device no_device_needed [of t content fleet])
  from fire_workflow_effect [OF fw] w m id show ?thesis by auto
qed

section \<open>A deleted trigger\<close>

lemma find_upd_none:
  assumes "\<And>r. tr_id (f r) = tr_id r"
  shows "List.find (\<lambda>t. tr_id t = i) (upd_where p f xs) = None \<longleftrightarrow> List.find (\<lambda>t. tr_id t = i) xs = None"
  by (induction xs) (auto simp: assms)

lemma fire_workflow_total: "\<exists>res db'. fire_workflow env runId cid t w content m db = (Inr res, db')"
proof -
  obtain v db1 where "launch_refs (pass_now env) runId w (case m of Some d \<Rightarrow> [trigger_device_ref d] | None \<Rightarrow> []) (tr_workspace t) db = (Some v, db1)"
    by (rule launch_refs_effect)
  then show ?thesis by (simp add: fire_workflow_def Let_def split: prod.split)
qed

lemma call_ids: "findTriggerById i (run_call c db) = None \<longleftrightarrow> findTriggerById i db = None"
proof (cases c)
  case (Pair env k)
  have fire: "findTriggerById i (snd (fire_workflow env r cid t w content m db)) = None \<longleftrightarrow> findTriggerById i db = None"
    for r cid t w content m
  proof -
    obtain res db' where fw: "fire_workflow env r cid t w content m db = (Inr res, db')"
      using fire_workflow_total by metis
    show ?thesis using fire_workflow_effect(3) [OF fw] by (simp add: fw findTriggerById_def find_upd_none)
  qed
  have "td_triggers (record_resolve n t d content db) = td_triggers db" for n t d content
    by (simp add: record_resolve_def Let_def)
  then show ?thesis
    using fire by (cases k) (auto simp: Pair fireTrigger_def resolveTrigger_def findTriggerById_def Let_def split: option.split sum.split)
qed

lemma unknown_no_effect:
  assumes "findTriggerById i db = None" "call_effect c db = Some (k, b)"
  shows "fst (snd k) \<noteq> i"
proof -
  have "fst (snd k) \<noteq> i" if target: "call_target env j s content db = Some k" for env j s content
  proof -
    obtain t where t: "check_caller j s db = Inr t"
      using target by (cases "check_caller j s db") (auto simp: call_target_def)
    then have "fst (snd k) = tr_id t"
      using target by (auto simp: call_target_def split: sum.splits if_splits)
    then show ?thesis using t assms(1) found_trigger by (force simp: check_caller_some)
  qed
  then show ?thesis using assms(2) by (cases "(c, db)" rule: call_effect.cases) (auto split: if_splits)
qed

text \<open>
  C40: Deleting a trigger leaves the states of its devices behind, and no later call can change them: a device whose
  state was active at the deletion stays active, for every sequence of calls of any system, whatever passes run
  between them. (A policy with the
  condition \<open>triggerFired\<close> on that trigger then flags the device until the policy is edited.)
\<close>

theorem deleted_trigger_stays_active:
  assumes "deleteTrigger ws triggerId actor db = (Inr u, db')"
  shows "active_fires (fold run_event events db') (slug, triggerId, deviceId) = active_fires db (slug, triggerId, deviceId)"
proof -
  have frame: "active_fires (fold run_event events e) (slug, triggerId, deviceId) = active_fires e (slug, triggerId, deviceId)"
    if "findTriggerById triggerId e = None" for e
    using that
  proof (induction events arbitrary: e)
    case (Cons ev events)
    have "set_active (event_effect ev e) (active_fires e) (slug, triggerId, deviceId) = active_fires e (slug, triggerId, deviceId)"
    proof (cases ev)
      case (Call env c)
      then show ?thesis using unknown_no_effect [OF Cons.prems, of "(env, c)"] by (cases "call_effect (env, c) e") auto
    qed simp
    moreover have "findTriggerById triggerId (run_event ev e) = None"
      using Cons.prems by (cases ev) (simp_all add: call_ids, simp add: findTriggerById_def)
    ultimately show ?case using Cons by (simp add: event_refines)
  qed simp
  have "findTriggerById triggerId db' = None" "td_fires db' = td_fires db"
    using assms by (auto simp: deleteTrigger_def trigger_audit_def findTriggerById_def find_del_id throw_def split: option.splits)
  then show ?thesis using frame active_cong by metis
qed

section \<open>From the call to the compliance state\<close>

text \<open>A policy whose only condition is that the trigger has fired, without a staleness limit.\<close>

definition watches :: "string \<Rightarrow> policy_row \<Rightarrow> bool" where
  "watches i p \<longleftrightarrow>
     (case pc_conditions (pol_cfg p) of
        [c] \<Rightarrow> field c = ''triggerFired'' \<and> operator c = ''exists'' \<and> own_prop (cond_value c) ''triggerId'' = JStr i \<and>
          \<not> truthy (own_prop (cond_value c) ''withinMinutes'')
      | _ \<Rightarrow> False)"

definition all_keys :: "policy_row list \<Rightarrow> fleet_device list \<Rightarrow> string list" where
  "all_keys ps ds = concat (map (\<lambda>p. map (pair_key p) ds) ps)"

lemma scoped_keys: "pair_keys (scoped_pairs ps ds) = concat (map (\<lambda>p. map (pair_key p) (filter (in_scope (pol_cfg p)) ds)) ps)"
  by (simp add: pair_keys_def scoped_pairs_def map_concat comp_def)

lemma subseq_concat_map: "(\<And>x. subseq (f x) (g x)) \<Longrightarrow> subseq (concat (map f xs)) (concat (map g xs))"
  by (induction xs) (simp_all add: list_emb_append_mono)

lemma scoped_keys_distinct:
  assumes "distinct (all_keys ps fleet)" "subseq (map fd_id ds) (map fd_id fleet)"
  shows "distinct (pair_keys (scoped_pairs ps ds))"
proof -
  have key: "map (pair_key p) xs = map (suppression_key (pol_id p)) (map fd_id xs)" for p xs
    by (simp add: pair_key_def)
  have "subseq (map (pair_key p) (filter (in_scope (pol_cfg p)) ds)) (map (pair_key p) ds)" for p
    by (intro subseq_map) (simp add: subseq_filter_left)
  moreover have "subseq (map (pair_key p) ds) (map (pair_key p) fleet)" for p
    unfolding key using assms(2) by (rule subseq_map)
  ultimately have "subseq (pair_keys (scoped_pairs ps ds)) (all_keys ps fleet)"
    unfolding scoped_keys all_keys_def by (intro subseq_concat_map) (rule subseq_order.order_trans)
  then show ?thesis using assms(1) subseq_conv_nths distinct_nthsI by metis
qed

lemma attach_apps_ids: "map fd_id (attach_apps env ws ids ds) = map fd_id ds"
  by (induction ds) auto

lemma attach_apps_member:
  "d \<in> set ds \<Longrightarrow> \<exists>d'\<in>set (attach_apps env ws ids ds). d' = d \<or> (\<exists>x. d' = d\<lparr>fd_json := set_prop ''installedApps'' x (fd_json d)\<rparr>)"
  by (induction ds) auto

lemma pass_flags:
  assumes "runComplianceEvaluation env ws pids actor scope db = (Inr s, db')"
    and "sv_fleet (pn_step env) ws (cd_mdm db) = Inr fleet"
    and "policies = selected_policies ws pids db" "seen = scope_devices scope fleet"
    and "distinct (pair_keys (scoped_pairs policies (pass_devices env ws policies seen)))"
    and "(p, d) \<in> set (scoped_pairs policies (pass_devices env ws policies seen))"
  shows "(map_of (loadComplianceState ws db') (pair_key p d) \<noteq> None) = violates (pass_conditions env ws policies seen) p d"
  using pass_run [OF assms(1-4)]
proof (elim disjE exE conjE)
  assume "policies = []"
  then show ?thesis using assms(6) by (simp add: scoped_pairs_def)
next
  fix actor' acc
  assume acc: "acc = fold (evaluate_policy env (pass_conditions env ws policies seen) (length (cd_violations db)) ws actor'
      (violations_desc ws db) (pass_devices env ws policies seen)) policies (start_pass ws policies db)"
    and "db' = finish_pass env ws (fleet_wide scope) policies acc"
  then show ?thesis
    using mirrored_policies [OF assms(5), of "pass_conditions env ws policies seen"] assms(6)
    by (fastforce simp: mirrored_def flagged_in_def pass_state)
qed

text \<open>The fleet a re-evaluation of one device sees, and what it does to the state of that device.\<close>

lemma live_env_frame [simp]:
  "pass_now (live_env fires env) = pass_now env" "pn_bearer (live_env fires env) = pn_bearer env"
  by (simp_all add: live_env_def pass_now_def)

lemma attach_fires_frame [simp]:
  "fd_id (attach_fires ws fires d) = fd_id d" "fd_serialNumber (attach_fires ws fires d) = fd_serialNumber d"
  "in_scope cfg (attach_fires ws fires d) = in_scope cfg d" "in_scope cfg (d\<lparr>fd_json := j\<rparr>) = in_scope cfg d"
  by (simp_all add: attach_fires_def in_scope_def)

lemma watches_violates:
  assumes "watches i p" "distinct (map fire_key_of fires)" "fd_json d = JObj props"
    and "d' = attach_fires ws fires d \<or>
      (\<exists>x. d' = (attach_fires ws fires d)\<lparr>fd_json := set_prop ''installedApps'' x (fd_json (attach_fires ws fires d))\<rparr>)"
  shows "violates ev p d' \<longleftrightarrow> (\<exists>f\<in>set fires. fire_key_of f = (ws, i, fd_id d) \<and> fi_status f = ''active'')"
proof -
  obtain c where c: "pc_conditions (pol_cfg p) = [c]" "field c = ''triggerFired''" "operator c = ''exists''"
    "own_prop (cond_value c) ''triggerId'' = JStr i" "\<not> truthy (own_prop (cond_value c) ''withinMinutes'')"
    using assms(1) by (auto simp: watches_def split: list.splits)
  have "evaluate_raw ev (fd_json d') c = Some (ev_triggerFired ev (fd_json d') ''exists'' (cond_value c))"
    using raw_triggerFired [of ev "fd_json d'" "operator c" "cond_value c"] c(2,3) by (cases c) simp
  moreover have "own_prop (fd_json d') ''triggerFires'' = own_prop (fd_json (attach_fires ws fires d)) ''triggerFires''"
    using assms(3,4) by (auto simp: attach_fires_def set_prop_def own_prop_def)
  then have "ev_triggerFired ev (fd_json d') ''exists'' (cond_value c) =
      ev_triggerFired ev (fd_json (attach_fires ws fires d)) ''exists'' (cond_value c)"
    by (simp add: ev_triggerFired_def)
  ultimately have "evaluateCondition ev (fd_json d') c \<longleftrightarrow>
      (\<exists>f\<in>set fires. fire_key_of f = (ws, i, fd_id d) \<and> fi_status f = ''active'')"
    by (simp add: evaluate_of_raw triggerFired_reads [OF assms(2,3) c(4,5)])
  then show ?thesis by (simp add: violates_def policyViolated_def c(1) Let_def)
qed

definition in_cooldown :: "pass_env \<Rightarrow> string \<Rightarrow> string \<Rightarrow> comp_db \<Rightarrow> bool" where
  "in_cooldown env ws serial c \<longleftrightarrow> pass_now env - last_forced (ws @ '':'' @ serial) (cd_forcedDevice c) < 15000"

text \<open>The \<open>n\<close>th pending pass is about device \<open>d\<close>: when it runs it has the credential of the workspace and reads a fleet
  with the device, and \<open>p\<close> is an enabled policy that watches the trigger and has the device in scope; the
  policies and devices have distinct keys.\<close>

definition pass_about :: "pass_env \<Rightarrow> nat \<Rightarrow> string \<Rightarrow> string \<Rightarrow> policy_row \<Rightarrow> fleet_device \<Rightarrow> trigger_db \<Rightarrow> bool" where
  "pass_about env n ws triggerId p d db \<longleftrightarrow>
     n < length (td_background db) \<and> td_background db ! n = (ws, OneSerial (fd_serialNumber d)) \<and>
     filled (pn_bearer env ws) [] \<noteq> [] \<and> (\<exists>props. fd_json d = JObj props) \<and>
     (\<exists>fleet. sv_fleet (pn_step env) ws (cd_mdm (td_comp db)) = Inr fleet \<and> d \<in> set fleet \<and>
        distinct (all_keys (selected_policies ws None (td_comp db)) fleet)) \<and>
     p \<in> set (selected_policies ws None (td_comp db)) \<and> in_scope (pol_cfg p) d \<and> watches triggerId p"

lemma background_flags:
  assumes "distinct (map fire_key_of (td_fires db))" "pass_about env n ws i p d db"
  shows "(map_of (loadComplianceState ws (td_comp (run_background env n db))) (pair_key p d) \<noteq> None) =
    active_fires db (ws, i, fd_id d)"
proof -
  let ?fires = "td_fires db" and ?serial = "fd_serialNumber d"
  obtain fleet props where fetched: "sv_fleet (pn_step env) ws (cd_mdm (td_comp db)) = Inr fleet" "d \<in> set fleet"
      "distinct (all_keys (selected_policies ws None (td_comp db)) fleet)" "fd_json d = JObj props"
    and p: "p \<in> set (selected_policies ws None (td_comp db))" "in_scope (pol_cfg p) d" "watches i p"
    and job: "n < length (td_background db)" "td_background db ! n = (ws, OneSerial ?serial)" "filled (pn_bearer env ws) [] \<noteq> []"
    using assms(2) by (auto simp: pass_about_def)
  let ?env = "live_env ?fires env" and ?fleet = "map (attach_fires ws ?fires) fleet"
  define policies where "policies = selected_policies ws None (td_comp db)"
  let ?seen = "scope_devices (OneSerial ?serial) ?fleet"
  have fleet: "sv_fleet (pn_step ?env) ws (cd_mdm (td_comp db)) = Inr ?fleet"
    using fetched(1) by (simp add: live_env_def)
  obtain s db1 where run: "runComplianceEvaluation ?env ws None (Some ''device-agent'') (OneSerial ?serial) (td_comp db) = (Inr s, db1)"
    using fleet by (cases "policies = []") (simp_all add: runComplianceEvaluation_def policies_def Let_def)
  have db1: "td_comp (run_background env n db) = db1"
    using job run by (simp add: run_background_def forced_pass_def)
  obtain d' where d': "d' \<in> set (pass_devices ?env ws policies ?seen)"
    "d' = attach_fires ws ?fires d \<or>
      (\<exists>x. d' = (attach_fires ws ?fires d)\<lparr>fd_json := set_prop ''installedApps'' x (fd_json (attach_fires ws ?fires d))\<rparr>)"
    using attach_apps_member [of "attach_fires ws ?fires d" ?seen ?env ws] fetched(2) unfolding pass_devices_def by auto
  have same_device: "in_scope (pol_cfg p) d'" "pair_key p d' = pair_key p d"
    using d'(2) p(2) by (auto simp: pair_key_def)
  have "(p, d') \<in> set (scoped_pairs policies (pass_devices ?env ws policies ?seen))"
    using p(1) d'(1) same_device(1) by (auto simp: scoped_pairs_def policies_def)
  moreover have "distinct (pair_keys (scoped_pairs policies (pass_devices ?env ws policies ?seen)))"
  proof (rule scoped_keys_distinct [OF fetched(3) [folded policies_def]])
    have "map fd_id (pass_devices ?env ws policies ?seen) = map fd_id (filter (\<lambda>d. fd_serialNumber d = ?serial) fleet)"
      by (simp add: pass_devices_def attach_apps_ids filter_map comp_def)
    then show "subseq (map fd_id (pass_devices ?env ws policies ?seen)) (map fd_id fleet)"
      by (simp add: subseq_map subseq_filter_left)
  qed
  ultimately have "(map_of (loadComplianceState ws db1) (pair_key p d') \<noteq> None) = violates (pass_conditions ?env ws policies ?seen) p d'"
    using pass_flags [OF run fleet policies_def] by metis
  then show ?thesis
    by (simp only: db1 same_device(2) watches_violates [OF p(3) assms(1) fetched(4) d'(2)] active_fires_def)
qed

definition only_cases :: "comp_db \<Rightarrow> comp_db \<Rightarrow> bool" where
  "only_cases a b \<longleftrightarrow> (\<exists>c. b = a\<lparr>cd_cases := c\<rparr>)"

lemma only_cases_refl: "only_cases a a"
  unfolding only_cases_def by (rule exI [of _ "cd_cases a"]) simp

lemma only_cases_trans: "only_cases a b \<Longrightarrow> only_cases b c \<Longrightarrow> only_cases a c"
  by (auto simp: only_cases_def)

lemma only_cases_steps:
  "only_cases (td_comp db) (td_comp (trigger_audit ws ev db))"
  "launch_refs now r w refs ws db = (v, db1) \<Longrightarrow> only_cases (td_comp db) (td_comp db1)"
  "trigger_case env i t w r m db = (x, db1) \<Longrightarrow> only_cases (td_comp db) (td_comp db1)"
  subgoal by (auto simp: only_cases_def trigger_audit_def comp_audit_def)
  subgoal by (auto simp: only_cases_def launch_refs_def Let_def split: prod.splits)
  subgoal by (cases "tr_openCase t") (auto simp: only_cases_def [of _ "_\<lparr>cd_cases := _\<rparr>"] only_cases_refl trigger_case_def split: prod.splits)
  done

lemma only_cases_frame:
  assumes "only_cases a b"
  shows "in_cooldown env ws serial b = in_cooldown env ws serial a" "loadComplianceState ws b = loadComplianceState ws a"
  using assms by (auto simp: only_cases_def in_cooldown_def loadComplianceState_def)

text \<open>What the un-awaited start does to the tables before the call is answered.\<close>

lemma reevaluate_starts:
  assumes "fd_serialNumber d \<noteq> []"
  shows "td_background (reevaluate env ws d db) = td_background db @
      (if in_cooldown env ws (fd_serialNumber d) (td_comp db) then [] else [(ws, OneSerial (fd_serialNumber d))])"
    "loadComplianceState slug (td_comp (reevaluate env ws d db)) = loadComplianceState slug (td_comp db)"
    "td_fires (reevaluate env ws d db) = td_fires db"
  using assms
  by (simp_all add: reevaluate_def triggerEventDrivenReEvaluation_def begin_forced_def Let_def filled_def in_cooldown_def
      FORCED_DEVICE_EVALUATION_COOLDOWN_MS_def loadComplianceState_def)

lemma pending_frame [simp]:
  "td_background (trigger_audit ws ev db) = td_background db" "td_background (update_trigger_row i g db) = td_background db"
  "td_background (upsert_fire new f db) = td_background db" "td_background (record_fire now t i content db) = td_background db"
  "td_background (record_resolve now t i content db) = td_background db" "td_background (snd (no_device a v r t content db)) = td_background db"
  by (simp_all add: trigger_audit_def update_trigger_row_def upsert_fire_def record_fire_def record_resolve_def no_device_def Let_def)

lemma pending_launch:
  "launch_refs now r w refs ws db = (v, db1) \<Longrightarrow> td_background db1 = td_background db"
  "trigger_case env i t w r' m db = (x, db1) \<Longrightarrow> td_background db1 = td_background db"
  by (auto simp: launch_refs_def trigger_case_def Let_def split: prod.splits if_splits)

lemma fire_workflow_reevaluates:
  "\<exists>db5. snd (fire_workflow env r cid t w content (Some d) db) = reevaluate env (tr_workspace t) d db5 \<and>
     td_fires db5 = td_fires (record_fire (pass_now env) t (fd_id d) content db) \<and> only_cases (td_comp db) (td_comp db5) \<and>
     td_background db5 = td_background db"
proof -
  let ?ws = "tr_workspace t"
  obtain v db1 where launch: "launch_refs (pass_now env) r w [trigger_device_ref d] ?ws db = (Some v, db1)" "td_fires db1 = td_fires db"
    by (rule launch_refs_effect)
  let ?db3 = "record_fire (pass_now env) t (fd_id d) content (update_trigger_row (tr_id t)
    (\<lambda>r. r\<lparr>tr_lastFiredAt := Some (pass_now env), tr_fireCount := Suc (tr_fireCount r)\<rparr>) db1)"
  obtain x db4 where opened: "trigger_case env cid t w (vw_id v) (Some d) ?db3 = (x, db4)" by fastforce
  have "td_fires ?db3 = td_fires (record_fire (pass_now env) t (fd_id d) content db)"
    unfolding record_fire_def Let_def by (rule fires_only) (simp add: launch(2))
  then have "td_fires db4 = td_fires (record_fire (pass_now env) t (fd_id d) content db)"
    using trigger_case_frame [OF opened] by simp
  moreover have "only_cases (td_comp db1) (td_comp db4)"
    using only_cases_steps(3) [OF opened] by simp
  then have "only_cases (td_comp db) (td_comp (trigger_audit ?ws (fired_event t w (Some d)) db4))"
    using only_cases_trans only_cases_steps(2) [OF launch(1)] only_cases_steps(1) by meson
  moreover have "snd (fire_workflow env r cid t w content (Some d) db) = reevaluate env ?ws d (trigger_audit ?ws (fired_event t w (Some d)) db4)"
    by (simp add: fire_workflow_def Let_def launch(1) opened)
  ultimately show ?thesis
    using pending_launch(1) [OF launch(1)] pending_launch(2) [OF opened]
    by (intro exI [of _ "trigger_audit ?ws (fired_event t w (Some d)) db4"]) simp
qed

text \<open>A call only adds to the pending passes.\<close>

lemma call_keeps_policies: "cd_policies (td_comp (run_call c db)) = cd_policies (td_comp db)"
proof (cases c)
  case (Pair env k)
  have re: "cd_policies (td_comp (reevaluate e ws d x)) = cd_policies (td_comp x)" for e ws d x
    by (auto simp: reevaluate_def triggerEventDrivenReEvaluation_def begin_forced_def Let_def split: prod.splits sum.splits if_splits)
  have only: "only_cases a b \<Longrightarrow> cd_policies b = cd_policies a" for a b by (auto simp: only_cases_def)
  have fire: "cd_policies (td_comp (snd (fire_workflow env r cid t w content m db))) = cd_policies (td_comp db)" for r cid t w content m
  proof (cases m)
    case (Some d)
    then show ?thesis using fire_workflow_reevaluates [of env r cid t w content d db] re only by metis
  next
    case None
    obtain v db1 where launch: "launch_refs (pass_now env) r w [] (tr_workspace t) db = (Some v, db1)"
      by (rule launch_refs_effect)
    obtain x db4 where opened: "trigger_case env cid t w (vw_id v) None (update_trigger_row (tr_id t)
        (\<lambda>r. r\<lparr>tr_lastFiredAt := Some (pass_now env), tr_fireCount := Suc (tr_fireCount r)\<rparr>) db1) = (x, db4)" by fastforce
    show ?thesis
      using only [OF only_cases_steps(2) [OF launch]] only [OF only_cases_steps(3) [OF opened]]
      by (simp add: None fire_workflow_def Let_def launch opened trigger_audit_def comp_audit_def)
  qed
  have "td_comp (record_resolve n t i content db) = td_comp db" for n t i content
    by (simp add: record_resolve_def upsert_fire_def Let_def)
  then show ?thesis
    by (cases k) (auto simp: Pair fireTrigger_def resolveTrigger_def Let_def fire re no_device_def trigger_audit_def comp_audit_def
        split: option.split sum.split)
qed

lemma reevaluate_pending: "prefix (td_background db) (td_background (reevaluate env ws d db))"
  by (simp add: reevaluate_def split: prod.split)

lemma fire_workflow_pending: "prefix (td_background db) (td_background (snd (fire_workflow env r cid t w content m db)))"
proof (cases m)
  case (Some d)
  then show ?thesis
    using fire_workflow_reevaluates [of env r cid t w content d db] reevaluate_pending by (metis (no_types))
next
  case None
  obtain v db1 where launch: "launch_refs (pass_now env) r w [] (tr_workspace t) db = (Some v, db1)"
    by (rule launch_refs_effect)
  obtain x db4 where opened: "trigger_case env cid t w (vw_id v) None (update_trigger_row (tr_id t)
      (\<lambda>r. r\<lparr>tr_lastFiredAt := Some (pass_now env), tr_fireCount := Suc (tr_fireCount r)\<rparr>) db1) = (x, db4)" by fastforce
  show ?thesis
    using pending_launch(1) [OF launch] pending_launch(2) [OF opened]
    by (simp add: None fire_workflow_def Let_def launch opened)
qed

lemma call_keeps_pending: "prefix (td_background db) (td_background (run_call c db))"
proof (cases c)
  case (Pair env k)
  have "prefix (td_background db) (td_background (reevaluate env ws d (trigger_audit ws ev (record_resolve n t i content db))))"
    for ws d ev n t i content
    using reevaluate_pending [of "trigger_audit ws ev (record_resolve n t i content db)"] by simp
  then show ?thesis
    by (cases k) (auto simp: Pair fireTrigger_def resolveTrigger_def Let_def fire_workflow_pending split: option.split sum.split)
qed

lemma calls_keep_pending: "prefix (td_background db) (td_background (fold run_call cs db))"
proof (induction cs arbitrary: db)
  case (Cons c cs)
  show ?case using prefix_order.trans [OF call_keeps_pending Cons.IH] by simp
qed simp

lemma resolve_reevaluates:
  assumes "check_caller i secret db = Inr t" "sv_fleet (pn_step env) (tr_workspace t) (cd_mdm (td_comp db)) = Inr fleet"
    and "resolveTriggerDevice (tr_deviceLookupField t) content fleet = Some d" "filled (pn_bearer env (tr_workspace t)) [] \<noteq> []"
  shows "\<exists>db5. snd (resolveTrigger env i secret content db) = reevaluate env (tr_workspace t) d db5 \<and>
     td_fires db5 = td_fires (record_resolve (pass_now env) t (fd_id d) content db) \<and> only_cases (td_comp db) (td_comp db5) \<and>
     td_background db5 = td_background db"
proof -
  have "filled (tr_deviceLookupField t) [] \<noteq> []" using assms(3) no_field by force
  moreover have "only_cases (td_comp db) (td_comp (trigger_audit ws ev (record_resolve n t x content db)))" for ws ev n x
    using only_cases_steps(1) [of "record_resolve n t x content db"] by (simp add: record_resolve_def upsert_fire_def Let_def)
  ultimately show ?thesis using assms by (auto simp: resolveTrigger_def Let_def)
qed

text \<open>
  C3: An accepted webhook call reaches the compliance state. The handler answers with the compliance state of the
  workspace unchanged, and with one pass for the device pending - none when a pass for that device was started less
  than 15 seconds before: then nothing happens to the device until another pass. The pending pass stays pending
  through further calls. Whenever it runs, after any events, without an accepted call about the same trigger and
  device among them, it leaves the device flagged under every enabled policy in scope that watches the trigger when
  the call was a fire, and not flagged when it was a resolve. The hypotheses: the caller is known, the workflow
  exists, the device is resolved and has a serial number, the workspace has a credential, and the table of states
  has one row per trigger and device.
\<close>

theorem webhook_reaches_compliance_state:
  assumes "findTriggerById triggerId db = Some t" "tr_secret t = secret" "tr_enabled t" "ws = tr_workspace t"
    and "find_case_workflow (pn_case env) ws (tr_workflowId t) = Some w"
    and "sv_fleet (pn_step env) ws (cd_mdm (td_comp db)) = Inr fleet" "filled (pn_bearer env ws) [] \<noteq> []"
    and "resolveTriggerDevice (tr_deviceLookupField t) content fleet = Some d" "fd_serialNumber d \<noteq> []"
    and "distinct (map fire_key_of (td_fires db))"
    and "call = FireCall runId newCaseId triggerId secret content \<and> fires \<or>
      call = ResolveCall triggerId secret content \<and> \<not> fires"
    and "answered = run_call (env, call) db"
  shows "loadComplianceState ws (td_comp answered) = loadComplianceState ws (td_comp db) \<and>
    td_background answered = td_background db @
      (if in_cooldown env ws (fd_serialNumber d) (td_comp db) then [] else [(ws, OneSerial (fd_serialNumber d))]) \<and>
    (\<forall>calls. prefix (td_background answered) (td_background (fold run_call calls answered))) \<and>
    (\<forall>events env' n p d'. let later = fold run_event events answered in
       (\<forall>b. Some ((ws, triggerId, fd_id d), b) \<notin> set (effects events answered)) \<and> fd_id d' = fd_id d \<and>
       pass_about env' n ws triggerId p d' later \<longrightarrow>
         (map_of (loadComplianceState ws (td_comp (run_background env' n later))) (pair_key p d') \<noteq> None) = fires)"
proof -
  have id: "tr_id t = triggerId" using assms(1) found_trigger by blast
  have caller: "check_caller triggerId secret db = Inr t" using assms(1-3) by (simp add: check_caller_some)
  obtain db5 where started: "answered = reevaluate env ws d db5" "only_cases (td_comp db) (td_comp db5)"
      "td_background db5 = td_background db"
    using assms(11)
  proof
    assume fire: "call = FireCall runId newCaseId triggerId secret content \<and> fires"
    then have "answered = snd (fire_workflow env runId newCaseId t w content (Some d) db)"
      using caller assms(4-8) by (simp add: assms(12) fireTrigger_def Let_def)
    then show thesis using fire_workflow_reevaluates [of env runId newCaseId t w content d db] assms(4) that by auto
  next
    assume "call = ResolveCall triggerId secret content \<and> \<not> fires"
    then show thesis using resolve_reevaluates [OF caller, of env fleet content d] assms(4,6-8) that by (auto simp: assms(12))
  qed
  note start = reevaluate_starts [OF assms(9), where env = env and ws = ws and db = db5] only_cases_frame [OF started(2)]
  have active: "active_fires answered = (active_fires db)((ws, triggerId, fd_id d) := fires)"
    using assms(11) caller assms(1,4-8) id
    by (auto simp: assms(12) call_refines call_target_def runs_workflow_def)
  have dist: "distinct (map fire_key_of (td_fires answered))" unfolding assms(12) by (rule call_distinct [OF assms(10)])
  have "(map_of (loadComplianceState ws (td_comp (run_background env' n (fold run_event events answered)))) (pair_key p d') \<noteq> None) = fires"
    if quiet: "\<forall>b. Some ((ws, triggerId, fd_id d), b) \<notin> set (effects events answered)" and same: "fd_id d' = fd_id d"
      and pass: "pass_about env' n ws triggerId p d' (fold run_event events answered)" for events env' n p d'
  proof -
    have "fold set_active effs a k = a k" if "\<forall>b. Some (k, b) \<notin> set effs" for effs a and k :: fire_key
      using that
    proof (induction effs arbitrary: a)
      case (Cons e effs)
      then show ?case by (cases "(e, a)" rule: set_active.cases) auto
    qed simp
    from this [OF quiet] have "active_fires (fold run_event events answered) (ws, triggerId, fd_id d) = fires"
      by (simp add: events_refine active)
    then show ?thesis using background_flags [OF events_distinct [OF dist] pass] same by simp
  qed
  moreover have "prefix (td_background answered) (td_background (fold run_call calls answered))" for calls
    by (rule calls_keep_pending)
  ultimately show ?thesis using start started(1,3) by (simp add: Let_def)
qed

section \<open>Witnesses\<close>

definition edr_trigger :: trigger_row where
  "edr_trigger = \<lparr>tr_id = ''t1'', tr_workspace = ''w'', tr_name = ''EDR'', tr_description = [], tr_workflowId = ''w1'', tr_enabled = True,
     tr_openCase = False, tr_caseSeverity = ''medium'', tr_deviceLookupField = Some ''host'', tr_secret = ''k'', tr_lastFiredAt = None,
     tr_fireCount = 0, tr_createdAt = 0\<rparr>"

definition edr_condition :: jsval where
  "edr_condition = JObj [(''triggerId'', JStr ''t1'')]"

definition edr_policy :: policy_row where
  "edr_policy = sample_policy_row\<lparr>pol_cfg := sample_cfg\<lparr>pc_conditions :=
     [\<lparr>field = ''triggerFired'', operator = ''exists'', cond_value = edr_condition\<rparr>]\<rparr>\<rparr>"

definition edr_mac :: fleet_device where
  "edr_mac = old_mac\<lparr>fd_serialNumber := ''S1''\<rparr>"

definition edr_env :: pass_env where
  "edr_env = sample_pass\<lparr>pn_bearer := (\<lambda>_. Some ''token''),
     pn_step := (pn_step sample_pass)\<lparr>sv_fleet := (\<lambda>_ _. Inr [edr_mac]), sv_now := 50000\<rparr>\<rparr>"

definition edr_db :: trigger_db where
  "edr_db = \<lparr>td_triggers = [edr_trigger], td_fires = [], td_comp = sample_comp_db\<lparr>cd_policies := [edr_policy]\<rparr>,
     td_background = []\<rparr>"

definition edr_body :: jsval where
  "edr_body = JObj [(''host'', JStr '' s1'')]"

lemma edr_facts:
  "findTriggerById ''t1'' edr_db = Some edr_trigger" "tr_workspace edr_trigger = ''w''" "tr_secret edr_trigger = ''k''" "tr_enabled edr_trigger"
  "find_case_workflow (pn_case edr_env) ''w'' (tr_workflowId edr_trigger) = Some sample_workflow"
  "sv_fleet (pn_step edr_env) ''w'' m = Inr [edr_mac]" "fd_json edr_mac = JObj [(''model'', JStr ''A1'')]"
  "selected_policies ''w'' None (td_comp edr_db) = [edr_policy]" "in_scope (pol_cfg edr_policy) edr_mac" "watches ''t1'' edr_policy"
  "distinct (all_keys [edr_policy] [edr_mac])" "td_fires edr_db = []" "tr_deviceLookupField edr_trigger = Some ''host''"
  by (simp_all add: findTriggerById_def edr_db_def edr_trigger_def find_case_workflow_def edr_env_def sample_pass_def sample_workflow_def
      edr_mac_def old_mac_def selected_policies_def listCompliancePolicies_def edr_policy_def sample_policy_row_def sample_cfg_def
      in_scope_def filled_def watches_def edr_condition_def own_prop_def all_keys_def wait_flow_def)

lemma edr_device: "resolveTriggerDevice (Some ''host'') edr_body [edr_mac] = Some edr_mac"
  by code_simp

text \<open>A fire of the EDR trigger and a resolve: the pass each leaves pending, and what it does.\<close>

theorem webhook_reaches_compliance_state_witness:
  "let fired = run_call (edr_env, FireCall ''r'' ''c'' ''t1'' ''k'' edr_body) edr_db;
       evaluated = run_background edr_env 0 fired
   in td_background fired = [(''w'', OneSerial ''S1'')] \<and> loadComplianceState ''w'' (td_comp fired) = [] \<and>
     map_of (loadComplianceState ''w'' (td_comp evaluated)) (pair_key edr_policy edr_mac) \<noteq> None \<and>
     (let resolved = run_call (edr_env, ResolveCall ''t1'' ''k'' edr_body) edr_db
      in map_of (loadComplianceState ''w'' (td_comp (run_background edr_env 0 resolved))) (pair_key edr_policy edr_mac) = None)"
proof -
  let ?fire = "FireCall ''r'' ''c'' ''t1'' ''k'' edr_body" and ?resolve = "ResolveCall ''t1'' ''k'' edr_body"
  have serial: "fd_serialNumber edr_mac = ''S1''" by (simp add: edr_mac_def)
  have bearer: "filled (pn_bearer edr_env ''w'') [] \<noteq> []" by (simp add: edr_env_def filled_def)
  have quiet: "\<not> in_cooldown edr_env ''w'' ''S1'' (td_comp edr_db)" and state: "loadComplianceState ''w'' (td_comp edr_db) = []"
    and queue: "td_background edr_db = []"
    by (simp_all add: in_cooldown_def edr_env_def edr_db_def sample_comp_db_def pass_now_def last_forced_def loadComplianceState_def)
  have reach: "loadComplianceState ''w'' (td_comp answered) = loadComplianceState ''w'' (td_comp edr_db) \<and>
      td_background answered = [(''w'', OneSerial ''S1'')] \<and>
      (pass_about edr_env 0 ''w'' ''t1'' edr_policy edr_mac answered \<longrightarrow>
         (map_of (loadComplianceState ''w'' (td_comp (run_background edr_env 0 answered))) (pair_key edr_policy edr_mac) \<noteq> None) = fires)"
    if "call = ?fire \<and> fires \<or> call = ?resolve \<and> \<not> fires" "answered = run_call (edr_env, call) edr_db" for call fires answered
    using webhook_reaches_compliance_state [of "''t1''" edr_db edr_trigger "''k''" "''w''" edr_env sample_workflow "[edr_mac]" edr_body edr_mac
        call "''r''" "''c''" fires answered] that
    by (simp add: edr_facts edr_device serial bearer quiet queue) (metis effects.simps(1) fold_simps(1) empty_iff list.set(1))
  have about: "pass_about edr_env 0 ''w'' ''t1'' edr_policy edr_mac db" if "td_background db = [(''w'', OneSerial ''S1'')]"
      "cd_policies (td_comp db) = [edr_policy]" for db
  proof -
    have "selected_policies ''w'' None (td_comp db) = selected_policies ''w'' None (td_comp edr_db)"
      using that(2) by (simp add: selected_policies_def listCompliancePolicies_def edr_db_def)
    then show ?thesis using that(1) by (simp add: pass_about_def serial bearer edr_facts)
  qed
  have policies: "cd_policies (td_comp (run_call (edr_env, ?fire) edr_db)) = [edr_policy]"
    "cd_policies (td_comp (run_call (edr_env, ?resolve) edr_db)) = [edr_policy]"
    by (simp_all only: call_keeps_policies) (simp_all add: edr_db_def)
  show ?thesis
    using reach [of ?fire True, OF _ refl] reach [of ?resolve False, OF _ refl] about policies state by (simp add: Let_def)
qed

theorem webhook_fails_closed_witness:
  "\<exists>e. statusCode e \<in> {404, 401, 403} \<and>
    fireTrigger edr_env ''r'' ''c'' ''t1'' ''wrong'' edr_body edr_db = (Inl (RequestError e), edr_db) \<and>
    resolveTrigger edr_env ''t1'' ''wrong'' edr_body edr_db = (Inl (RequestError e), edr_db)"
  by (rule webhook_fails_closed) (simp add: edr_db_def edr_trigger_def)

theorem revoked_url_stops_witness:
  "fst (fireTrigger edr_env ''r'' ''c'' ''t1'' ''k'' edr_body (snd (rotateTriggerSecret ''new'' ''w'' ''t1'' ''ann'' edr_db))) =
     Inl (RequestError (HttpError 401 ''Invalid trigger secret'')) \<and>
   fst (fireTrigger edr_env ''r'' ''c'' ''t1'' ''k'' edr_body (snd (deleteTrigger ''w'' ''t1'' ''ann'' edr_db))) =
     Inl (RequestError (HttpError 404 ''Unknown trigger''))"
proof -
  have "find_ws_trigger ''w'' ''t1'' edr_db = Some edr_trigger"
    by (simp add: find_ws_trigger_def edr_db_def edr_trigger_def)
  then obtain t rotated deleted where "rotateTriggerSecret ''new'' ''w'' ''t1'' ''ann'' edr_db = (Inr t, rotated)"
    "deleteTrigger ''w'' ''t1'' ''ann'' edr_db = (Inr (), deleted)"
    by (simp add: rotateTriggerSecret_def deleteTrigger_def)
  then show ?thesis
    using revoked_url_stops [of "''new''" "''w''" "''t1''" "''ann''" edr_db t rotated "''k''" edr_env "''r''" "''c''" edr_body]
      revoked_url_stops [of "''new''" "''w''" "''t1''" "''ann''" edr_db t deleted "''k''" edr_env "''r''" "''c''" edr_body "()"]
    by simp
qed

theorem webhook_condition_follows_calls_witness:
  "evaluate_raw sample_ev (fd_json (attach_fires ''w'' (td_fires (fold run_event
       [Call edr_env (FireCall ''r'' ''c'' ''t1'' ''k'' edr_body), PassRuns edr_env 0] edr_db)) edr_mac))
     \<lparr>field = ''triggerFired'', operator = ''exists'', cond_value = edr_condition\<rparr> = Some True"
proof -
  have effect: "runs_workflow edr_env ''t1'' edr_db \<and> call_target edr_env ''t1'' ''k'' edr_body edr_db = Some (''w'', ''t1'', fd_id edr_mac)"
  proof -
    have "check_caller ''t1'' ''k'' edr_db = Inr edr_trigger" by (simp add: check_caller_some edr_facts)
    moreover have "pn_bearer edr_env ''w'' = Some ''token''" "tr_id edr_trigger = ''t1''" by (simp_all add: edr_env_def edr_trigger_def)
    ultimately show ?thesis by (simp add: runs_workflow_def call_target_def edr_facts edr_device filled_def)
  qed
  show ?thesis
    using webhook_condition_follows_calls [of edr_db edr_mac "[(''model'', JStr ''A1'')]" edr_condition "''t1''" sample_ev "''w''"
        "[Call edr_env (FireCall ''r'' ''c'' ''t1'' ''k'' edr_body), PassRuns edr_env 0]"]
    by (simp add: edr_facts effect edr_condition_def own_prop_def)
qed

theorem fire_runs_workflow_once_witness:
  "\<exists>res db'. fireTrigger edr_env ''r'' ''c'' ''t1'' ''k'' edr_body edr_db = (Inr res, db') \<and> fr_workflowRunId res = ''r'' \<and>
     case_jobs (cd_cases (td_comp db')) = [DurableJob ''r'' sample_workflow [trigger_device_ref edr_mac] ''w'']"
proof -
  have "check_caller ''t1'' ''k'' edr_db = Inr edr_trigger" by (simp add: check_caller_some edr_facts)
  moreover have bearer: "pn_bearer edr_env ''w'' = Some ''token''" by (simp add: edr_env_def)
  moreover obtain res db' where "fire_workflow edr_env ''r'' ''c'' edr_trigger sample_workflow edr_body (Some edr_mac) edr_db = (Inr res, db')"
    using fire_workflow_total by metis
  ultimately have fire: "fireTrigger edr_env ''r'' ''c'' ''t1'' ''k'' edr_body edr_db = (Inr res, db')"
    by (simp add: fireTrigger_def edr_facts edr_device filled_def)
  have "has_wait sample_workflow" by code_simp
  moreover have "fired_for edr_trigger edr_body [edr_mac] m \<Longrightarrow> m = Some edr_mac" for m
    by (auto simp: fired_for_def edr_facts filled_def split: option.splits)
  moreover have "case_jobs (cd_cases (td_comp edr_db)) = []" by (simp add: edr_db_def sample_comp_db_def empty_case_db_def)
  ultimately show ?thesis
    using fire_runs_workflow_once [OF fire edr_facts(1), of "[edr_mac]"] fire
    by (fastforce simp: edr_facts refs_job_def)
qed

theorem deleted_trigger_stays_active_witness:
  "active_fires (fold run_event [Call edr_env (ResolveCall ''t1'' ''k'' edr_body)]
     (snd (deleteTrigger ''w'' ''t1'' ''ann'' (record_fire 5 edr_trigger ''d1'' edr_body edr_db)))) (''w'', ''t1'', ''d1'')"
proof -
  let ?db = "record_fire 5 edr_trigger ''d1'' edr_body edr_db"
  have "find_ws_trigger ''w'' ''t1'' ?db = Some edr_trigger"
    by (simp add: find_ws_trigger_def edr_db_def edr_trigger_def)
  then obtain db' where del: "deleteTrigger ''w'' ''t1'' ''ann'' ?db = (Inr (), db')"
    by (simp add: deleteTrigger_def)
  have "active_fires ?db (''w'', ''t1'', ''d1'')" by (simp add: record_active edr_trigger_def)
  with deleted_trigger_stays_active [OF del, of "[Call edr_env (ResolveCall ''t1'' ''k'' edr_body)]" "''w''" "''d1''"]
  show ?thesis by (simp only: del snd_conv)
qed

end
