(* ===== verification/DeviceRisk.thy ===== *)
theory DeviceRisk
  imports Triggers
begin

text \<open>
  The risk score of a device (\<open>computeDeviceRisk\<close>, \<open>modules/devices/deviceNormalize.ts\<close>) and the part of the fleet
  read that joins cases, violations and the compliance state to each device before it is scored
  (\<open>modules/devices/devices.service.ts\<close>). The tier of the score is what the escalation of the compliance pass compares.
  The points are rationals, as a count read from a catalog may be any number; entries of the lists are objects.
\<close>

section \<open>Factors\<close>

type_synonym factor = "string \<times> rat"
type_synonym risk_acc = "rat \<times> factor list"

definition add_factor :: "string \<Rightarrow> rat \<Rightarrow> risk_acc \<Rightarrow> risk_acc" where
  "add_factor label pts acc = (fst acc + pts, snd acc @ [(label, pts)])"

definition factor_if :: "bool \<Rightarrow> string \<Rightarrow> rat \<Rightarrow> risk_acc \<Rightarrow> risk_acc" where
  "factor_if b label pts acc = (if b then add_factor label pts acc else acc)"

definition list_of :: "jsval \<Rightarrow> jsval list" where
  "list_of v = (case v of JArr xs \<Rightarrow> xs | _ \<Rightarrow> [])"

text \<open>\<open>Math.min(n * k, cap)\<close> for \<open>n > 0\<close>, and the factor of a positive count.\<close>

definition capped :: "rat \<Rightarrow> rat \<Rightarrow> jsnum \<Rightarrow> rat" where
  "capped k cap n = (case n of Fin q \<Rightarrow> min (q * k) cap | _ \<Rightarrow> cap)"

definition positive :: "jsval \<Rightarrow> bool" where
  "positive v \<longleftrightarrow> num_less (Fin 0) (to_number (coalesce v (jint 0)))"

definition counted_factor :: "jsval \<Rightarrow> rat \<Rightarrow> rat \<Rightarrow> string \<Rightarrow> string \<Rightarrow> risk_acc \<Rightarrow> risk_acc" where
  "counted_factor v k cap noun rest =
     factor_if (positive v) (to_string v @ '' '' @ noun @ (if v \<noteq> jint 1 then ''s'' else []) @ rest)
       (capped k cap (to_number (coalesce v (jint 0))))"

text \<open>\<open>s.replace(/\w\S*/g, ...)\<close>: each run from a word character to the next space is capitalised.\<close>

definition word_char :: "char \<Rightarrow> bool" where
  "word_char c \<longleftrightarrow> is_letter c \<or> is_digit c \<or> c = CHR ''_''"

function titleCase :: "string \<Rightarrow> string" where
  "titleCase [] = []"
| "titleCase (c # cs) =
     (if word_char c then
        char_upper c # toLowerCase (takeWhile (\<lambda>x. \<not> is_space x) cs) @ titleCase (dropWhile (\<lambda>x. \<not> is_space x) cs)
      else c # titleCase cs)"
  by pat_completeness auto
termination
  by (relation "measure length") (auto simp: le_imp_less_Suc length_dropWhile_le)

definition underscores_to_spaces :: "string \<Rightarrow> string" where
  "underscores_to_spaces = map (\<lambda>c. if c = CHR ''_'' then CHR '' '' else c)"

definition titled :: "jsval \<Rightarrow> string" where
  "titled v = titleCase (underscores_to_spaces (to_string v))"

section \<open>The blocks of the score\<close>

definition risk_violations :: "jsval list \<Rightarrow> risk_acc \<Rightarrow> risk_acc" where
  "risk_violations activeViolations =
     fold (\<lambda>v. add_factor (''Violates policy: '' @ quoted (to_string (coalesce (own_prop v ''policyName'') (JStr ''Unknown policy'')))) 15)
       (take 3 activeViolations)"

definition attrPenalties :: "(string \<times> string \<times> rat) list" where
  "attrPenalties =
     [(''diskEncryptionEnabled'', ''Disk encryption disabled'', 15), (''firewallEnabled'', ''Firewall disabled'', 10),
      (''antivirusEnabled'', ''Antivirus disabled'', 15), (''secureBootEnabled'', ''Secure Boot disabled'', 10),
      (''tpmEnabled'', ''TPM not enabled'', 5), (''vbsEnabled'', ''Virtualization-based security disabled'', 5),
      (''credentialGuardEnabled'', ''Credential Guard disabled'', 5)]"

definition stale_report :: "int \<Rightarrow> jsval \<Rightarrow> bool" where
  "stale_report now lastReported \<longleftrightarrow>
     truthy lastReported \<and>
     (case date_parse (replace_Z (to_string lastReported)) of None \<Rightarrow> False | Some t \<Rightarrow> 30 * 86400000 < now - t)"

definition risk_reported :: "int \<Rightarrow> jsval \<Rightarrow> jsval \<Rightarrow> risk_acc \<Rightarrow> risk_acc" where
  "risk_reported now selfReported attrs acc =
     factor_if (stale_report now (own_prop selfReported ''lastReportedAt'')) ''Security attestation stale (30+ days)'' 10
       (fold (\<lambda>(key, label, pts). factor_if (own_prop attrs key = JBool False) label pts) attrPenalties acc)"

definition risk_native :: "jsval \<Rightarrow> risk_acc \<Rightarrow> risk_acc" where
  "risk_native ns acc =
     (let encryptionStatus = toUpperCase (to_string (coalesce (own_prop ns ''encryptionStatus'') (JStr [])));
          posture = own_prop ns ''devicePosture'';
          acc1 = factor_if (own_prop ns ''isDeviceSecure'' = JBool False)
            ''Android: device not secure (lock screen/encryption check failed)'' 15 acc;
          acc2 = factor_if (encryptionStatus \<noteq> [] \<and> encryptionStatus \<notin> set [''ENCRYPTED'', ''ENCRYPTED_PER_USER''])
            (''Android: encryption status is '' @ titled (JStr encryptionStatus)) 15 acc1;
          acc3 = factor_if (own_prop ns ''adbEnabled'' = JBool True) ''Android: USB debugging (ADB) enabled'' 5 acc2;
          acc4 = factor_if (own_prop ns ''unknownSourcesEnabled'' = JBool True) ''Android: install from unknown sources allowed'' 10 acc3;
          acc5 = factor_if (own_prop ns ''policyCompliant'' = JBool False)
            ''Android: not compliant with its Android Management policy'' 15 acc4;
          acc6 = factor_if (posture = JStr ''AT_RISK'' \<or> posture = JStr ''POTENTIALLY_COMPROMISED'')
            (''Android device posture: '' @ titled posture) (if posture = JStr ''POTENTIALLY_COMPROMISED'' then 25 else 15) acc5
      in fold (\<lambda>detail. add_factor (''Android policy non-compliance: '' @
             to_string (coalesce (own_prop detail ''settingName'')
               (coalesce (own_prop detail ''nonComplianceReason'') (JStr ''unknown setting'')))) 10)
           (take 3 (list_of (own_prop ns ''nonComplianceDetails''))) acc6)"

definition risk_attestation :: "int \<Rightarrow> jsval \<Rightarrow> risk_acc \<Rightarrow> risk_acc" where
  "risk_attestation now device =
     (let selfReported = coalesce (own_prop device ''selfReported'') (JObj []);
          attrs = coalesce (own_prop selfReported ''attributes'') (JObj []);
          ns = own_prop device ''nativeSecurity''
      in if truthy (own_prop device ''selfReported'') \<and> object_keys attrs \<noteq> [] then risk_reported now selfReported attrs
         else if truthy ns then risk_native ns
         else add_factor ''No security attestation reported'' 10)"

definition risk_cases :: "nat \<Rightarrow> risk_acc \<Rightarrow> risk_acc" where
  "risk_cases n = factor_if (0 < n) (show_nat n @ '' open case'' @ plural_s n) (min (of_nat n * 10) 20)"

definition risk_os_updates :: "jsval \<Rightarrow> risk_acc \<Rightarrow> risk_acc" where
  "risk_os_updates st acc =
     (if truthy st \<and> positive (own_prop st ''pendingCount'') then
        factor_if (list_ex (\<lambda>kb. truthy (own_prop kb ''exploited'')) (list_of (own_prop st ''pendingKbs'')))
          ''A pending Windows update fixes an exploited CVE'' 20
          (counted_factor (own_prop st ''pendingCount'') 5 20 ''pending Windows security update'' [] acc)
      else acc)"

definition is_severe :: "jsval \<Rightarrow> bool" where
  "is_severe c \<longleftrightarrow> own_prop c ''severity'' = JStr ''CRITICAL'' \<or> own_prop c ''severity'' = JStr ''HIGH''"

text \<open>\<open>Math.max(0, ...scores) >= 0.5\<close>: false as soon as a score is not a number.\<close>

definition likely_exploited :: "jsval list \<Rightarrow> bool" where
  "likely_exploited cves \<longleftrightarrow>
     (let scores = map (\<lambda>c. to_number (coalesce (own_prop c ''epss_score'') (jint 0))) cves
      in NaN \<notin> set scores \<and> list_ex (num_le (Fin (1 / 2))) scores)"

definition risk_os_vulns :: "jsval \<Rightarrow> risk_acc \<Rightarrow> risk_acc" where
  "risk_os_vulns vulns acc =
     (if truthy (own_prop vulns ''visible'') \<and> own_prop vulns ''state'' = JStr ''cves'' then
        (let cves = list_of (own_prop vulns ''cves'');
             n = length (filter is_severe cves);
             acc1 = factor_if (0 < n) (show_nat n @ '' critical/high CVE'' @ plural_s n @ '' against this device'' @ [CHR 0x27] @ ''s OS version'')
               (min (of_nat n * 5) 20) acc
         in if list_ex (\<lambda>c. truthy (own_prop c ''is_kev'')) cves then
              add_factor (''A known-exploited CVE (CISA KEV) is present against this device'' @ [CHR 0x27] @ ''s OS version'') 25 acc1
            else factor_if (likely_exploited cves) ''An OS CVE has a high exploitation-probability (EPSS) score'' 15 acc1)
      else acc)"

definition app_critical_high :: "jsval list \<Rightarrow> jsval" where
  "app_critical_high vulns =
     fold (\<lambda>v n. js_add n (js_add (coalesce (own_prop (own_prop v ''counts'') ''CRITICAL'') (jint 0))
         (coalesce (own_prop (own_prop v ''counts'') ''HIGH'') (jint 0)))) vulns (jint 0)"

definition risk_apps :: "jsval \<Rightarrow> risk_acc \<Rightarrow> risk_acc" where
  "risk_apps appsDetail acc =
     (let vulns = filter truthy (map (\<lambda>a. own_prop a ''vuln'') (list_of appsDetail))
      in factor_if (list_ex (\<lambda>v. truthy (own_prop v ''hasKev'')) vulns)
           ''A known-exploited CVE (CISA KEV) is present in an installed app'' 25
           (counted_factor (app_critical_high vulns) 5 20 ''critical/high CVE'' '' across installed apps'' acc))"

definition risk_app_updates :: "jsval \<Rightarrow> risk_acc \<Rightarrow> risk_acc" where
  "risk_app_updates st acc =
     (if truthy st then counted_factor (own_prop st ''pendingCount'') 2 10 ''app'' '' with an update available'' acc else acc)"

record risk_result =
  rk_score :: rat
  rk_tier :: string
  rk_factors :: "factor list"

definition tier_of :: "rat \<Rightarrow> string" where
  "tier_of score =
     (if 75 \<le> score then ''critical'' else if 50 \<le> score then ''high'' else if 25 \<le> score then ''medium'' else ''low'')"

definition risk_total :: "int \<Rightarrow> jsval \<Rightarrow> nat \<Rightarrow> jsval list \<Rightarrow> risk_acc" where
  "risk_total now device openCases activeViolations =
     (let acc1 = factor_if (own_prop device ''isCompliant'' = JBool False) ''Out of compliance with an assigned Applivery policy'' 25 (0, []);
          acc2 = risk_attestation now device (risk_violations activeViolations acc1);
          acc3 = risk_os_updates (own_prop device ''osUpdateStatus'') (risk_cases openCases acc2);
          acc4 = risk_apps (own_prop device ''installedAppsDetail'') (risk_os_vulns (own_prop device ''osVulnerabilities'') acc3);
          st = own_prop device ''osLifecycleStatus'';
          acc5 = factor_if (truthy st \<and> truthy (own_prop st ''isEol'')) ''OS version has reached end of life for security support'' 20 acc4
      in risk_app_updates (own_prop device ''appleAppUpdateStatus'') acc5)"

definition computeDeviceRisk :: "int \<Rightarrow> jsval \<Rightarrow> jsval list \<Rightarrow> jsval list \<Rightarrow> risk_result" where
  "computeDeviceRisk now device openCases activeViolations =
     (case risk_total now device (length openCases) activeViolations of
        (score, factors) \<Rightarrow> (let s = min score 100 in \<lparr>rk_score = s, rk_tier = tier_of s, rk_factors = factors\<rparr>))"

section \<open>The join of the fleet read\<close>

definition openCasesByDevice :: "string \<Rightarrow> comp_db \<Rightarrow> string \<Rightarrow> jsval list" where
  "openCasesByDevice ws db deviceId =
     map (\<lambda>c. JObj [(''id'', JStr (cs_id c)), (''title'', JStr (cs_title c)), (''severity'', JStr (cs_severity c)), (''status'', JStr (cs_status c))])
       (filter (\<lambda>c. cs_workspace c = ws \<and> cs_status c \<in> set CASE_OPEN_STATUSES \<and> filled (cs_deviceId c) [] \<noteq> [] \<and> cs_deviceId c = Some deviceId)
         (case_rows (cd_cases db)))"

definition activeViolationsByDevice :: "string \<Rightarrow> comp_db \<Rightarrow> string \<Rightarrow> jsval list" where
  "activeViolationsByDevice ws db deviceId =
     map (\<lambda>v. JObj [(''id'', JStr (vi_id v)), (''policyId'', JStr (vi_policyId v)), (''policyName'', JStr (vi_policyName v)),
                  (''detectedAt'', JStr (toISOString (vi_detectedAt v)))])
       (filter (\<lambda>v. vi_workspace v = ws \<and> vi_status v = ''pending'' \<and> vi_deviceId v = deviceId) (cd_violations db))"

text \<open>A key of the compliance state, split at its first colon.\<close>

definition split_key :: "string \<Rightarrow> (string \<times> string) option" where
  "split_key key = (case dropWhile (\<lambda>c. c \<noteq> CHR '':'') key of
     [] \<Rightarrow> None | _ # rest \<Rightarrow> Some (takeWhile (\<lambda>c. c \<noteq> CHR '':'') key, rest))"

definition state_entry :: "policy_row list \<Rightarrow> string \<times> suppression \<Rightarrow> (policy_row \<times> string \<times> suppression) option" where
  "state_entry policies e =
     (case split_key (fst e) of
        None \<Rightarrow> None
      | Some (policyId, deviceId) \<Rightarrow>
          if deviceId = [] then None
          else map_option (\<lambda>p. (p, deviceId, snd e)) (List.find (\<lambda>p. pol_id p = policyId) (rev policies)))"

definition policyViolationsByDevice :: "string \<Rightarrow> comp_db \<Rightarrow> string \<Rightarrow> jsval list" where
  "policyViolationsByDevice ws db deviceId =
     map (\<lambda>(p, _, su). JObj [(''policyId'', JStr (pol_id p)), (''policyName'', JStr (pc_name (pol_cfg p))),
            (''status'', JStr (su_status su)), (''lastDetectedAt'', JStr (toISOString (su_lastDetectedAt su)))])
       (filter (\<lambda>(_, i, _). i = deviceId) (List.map_filter (state_entry (listCompliancePolicies ws db)) (loadComplianceState ws db)))"

definition set_props :: "(string \<times> jsval) list \<Rightarrow> jsval \<Rightarrow> jsval" where
  "set_props kvs v = fold (\<lambda>(k, x). set_prop k x) kvs v"

definition risk_json :: "risk_result \<Rightarrow> (string \<times> jsval) list" where
  "risk_json r =
     [(''riskScore'', JNum (Fin (rk_score r))), (''riskTier'', JStr (rk_tier r)),
      (''riskFactors'', JArr (map (\<lambda>(l, n). JObj [(''label'', JStr l), (''points'', JNum (Fin n))]) (rk_factors r)))]"

definition join_device :: "int \<Rightarrow> string \<Rightarrow> comp_db \<Rightarrow> fleet_device \<Rightarrow> fleet_device" where
  "join_device now ws db d =
     (let openCases = openCasesByDevice ws db (fd_id d);
          activeViolations = activeViolationsByDevice ws db (fd_id d);
          policyViolations = policyViolationsByDevice ws db (fd_id d);
          json = set_props [(''openCases'', JArr openCases), (''activeViolations'', JArr activeViolations),
            (''policyViolations'', JArr policyViolations), (''policyCompliant'', JBool (policyViolations = []))] (fd_json d);
          risk = computeDeviceRisk now json openCases activeViolations
      in d\<lparr>fd_riskTier := Some (rk_tier risk), fd_json := set_props (risk_json risk) json\<rparr>)"

section \<open>Every point of the score is explained\<close>

text \<open>A block appends factors of 1 to 25 points and adds their sum, whatever came before.\<close>

definition explain :: "factor list \<Rightarrow> risk_acc \<Rightarrow> risk_acc" where
  "explain fs acc = (fst acc + sum_list (map snd fs), snd acc @ fs)"

definition explained :: "(risk_acc \<Rightarrow> risk_acc) \<Rightarrow> bool" where
  "explained f \<longleftrightarrow> (\<exists>fs. f = explain fs \<and> (\<forall>x\<in>set fs. 0 < snd x \<and> snd x \<le> 25))"

lemma explain_append: "explain gs (explain fs acc) = explain (fs @ gs) acc"
  by (simp add: explain_def)

lemma explained_id: "explained (\<lambda>acc. acc)"
  unfolding explained_def by (intro exI [of _ "[]"]) (simp add: explain_def fun_eq_iff)

lemma explained_comp: "explained f \<Longrightarrow> explained g \<Longrightarrow> explained (\<lambda>acc. g (f acc))"
proof -
  assume "explained f" "explained g"
  then obtain fs gs where "f = explain fs" "g = explain gs" "\<forall>x\<in>set (fs @ gs). 0 < snd x \<and> snd x \<le> 25"
    unfolding explained_def by auto
  then show ?thesis
    unfolding explained_def by (intro exI [of _ "fs @ gs"]) (auto simp: explain_append)
qed

lemma explained_if: "(b \<Longrightarrow> explained f) \<Longrightarrow> (\<not> b \<Longrightarrow> explained g) \<Longrightarrow> explained (\<lambda>acc. if b then f acc else g acc)"
  by (cases b) simp_all

lemma explained_factor: "0 < n \<Longrightarrow> n \<le> 25 \<Longrightarrow> explained (add_factor l n)"
  unfolding explained_def by (intro exI [of _ "[(l, n)]"]) (auto simp: explain_def add_factor_def fun_eq_iff)

lemma explained_factor_if: "(b \<Longrightarrow> 0 < n \<and> n \<le> 25) \<Longrightarrow> explained (factor_if b l n)"
  unfolding factor_if_def by (intro explained_if explained_factor explained_id) auto

lemma explained_fold: "(\<And>x. x \<in> set xs \<Longrightarrow> explained (f x)) \<Longrightarrow> explained (fold f xs)"
proof (induction xs)
  case Nil
  then show ?case using explained_id by (simp add: id_def)
next
  case (Cons x xs)
  then show ?case using explained_comp [of "f x" "fold f xs"] by (simp add: comp_def)
qed

lemma capped_range: "num_less (Fin 0) n \<Longrightarrow> 0 < k \<Longrightarrow> 0 < cap \<Longrightarrow> 0 < capped k cap n \<and> capped k cap n \<le> cap"
  by (cases n) (auto simp: capped_def)

lemma explained_counted: "0 < k \<Longrightarrow> 0 < cap \<Longrightarrow> cap \<le> 25 \<Longrightarrow> explained (counted_factor v k cap a b)"
  unfolding counted_factor_def positive_def
  by (intro explained_factor_if) (use capped_range in \<open>force dest: order_trans\<close>)

lemma explained_then_if: "explained f \<Longrightarrow> (b \<Longrightarrow> 0 < n \<and> n \<le> 25) \<Longrightarrow> explained (\<lambda>acc. factor_if b l n (f acc))"
  by (rule explained_comp [OF _ explained_factor_if])

lemma explained_then: "explained f \<Longrightarrow> 0 < n \<Longrightarrow> n \<le> 25 \<Longrightarrow> explained (\<lambda>acc. add_factor l n (f acc))"
  by (rule explained_comp [OF _ explained_factor])

lemma explained_violations: "explained (risk_violations vs)"
  unfolding risk_violations_def by (intro explained_fold explained_factor) simp_all

lemma explained_reported: "explained (risk_reported now s attrs)"
  unfolding risk_reported_def [abs_def]
proof (rule explained_then_if)
  show "explained (fold (\<lambda>(key, label, n). factor_if (own_prop attrs key = JBool False) label n) attrPenalties)"
    by (rule explained_fold) (auto simp: attrPenalties_def intro!: explained_factor_if)
qed simp

lemma explained_native: "explained (risk_native ns)"
proof -
  have details: "explained (fold (\<lambda>detail. add_factor (l detail) 10) xs)" for l :: "jsval \<Rightarrow> string" and xs
    by (rule explained_fold) (simp add: explained_factor)
  show ?thesis
    unfolding risk_native_def [abs_def] Let_def
    by (rule explained_comp [OF _ details], (rule explained_then_if)+, rule explained_id) simp_all
qed

lemma explained_attestation: "explained (risk_attestation now d)"
  by (simp add: risk_attestation_def Let_def explained_reported explained_native explained_factor)

lemma explained_cases: "explained (risk_cases n)"
  unfolding risk_cases_def by (intro explained_factor_if) auto

lemma explained_os_updates: "explained (risk_os_updates st)"
  unfolding risk_os_updates_def [abs_def]
  by (rule explained_if [OF explained_then_if [OF explained_counted] explained_id]) simp_all

lemma explained_os_vulns: "explained (risk_os_vulns v)"
proof -
  have severe: "explained (factor_if (0 < n) l (min (of_nat n * 5) 20))" for n l
    by (rule explained_factor_if) auto
  show ?thesis
    unfolding risk_os_vulns_def [abs_def] Let_def
    by (rule explained_if [OF explained_if [OF explained_then [OF severe] explained_then_if [OF severe]] explained_id]) simp_all
qed

lemma explained_apps: "explained (risk_apps v)"
  unfolding risk_apps_def [abs_def] Let_def by (rule explained_then_if [OF explained_counted]) simp_all

lemma explained_app_updates: "explained (risk_app_updates v)"
  unfolding risk_app_updates_def [abs_def] by (rule explained_if [OF explained_counted explained_id]) simp_all

lemmas explained_blocks = explained_violations explained_attestation explained_cases explained_os_updates explained_os_vulns
  explained_apps explained_app_updates

text \<open>The blocks before and after the open cases.\<close>

definition risk_before :: "int \<Rightarrow> jsval \<Rightarrow> jsval list \<Rightarrow> risk_acc \<Rightarrow> risk_acc" where
  "risk_before now device vs acc = risk_attestation now device (risk_violations vs
     (factor_if (own_prop device ''isCompliant'' = JBool False) ''Out of compliance with an assigned Applivery policy'' 25 acc))"

definition risk_after :: "jsval \<Rightarrow> risk_acc \<Rightarrow> risk_acc" where
  "risk_after device acc =
     (let st = own_prop device ''osLifecycleStatus''
      in risk_app_updates (own_prop device ''appleAppUpdateStatus'')
          (factor_if (truthy st \<and> truthy (own_prop st ''isEol'')) ''OS version has reached end of life for security support'' 20
            (risk_apps (own_prop device ''installedAppsDetail'') (risk_os_vulns (own_prop device ''osVulnerabilities'')
              (risk_os_updates (own_prop device ''osUpdateStatus'') acc)))))"

lemma risk_total_parts: "risk_total now device n vs = risk_after device (risk_cases n (risk_before now device vs (0, [])))"
  by (simp add: risk_total_def risk_before_def risk_after_def Let_def)

lemma explained_before: "explained (risk_before now device vs)"
  unfolding risk_before_def [abs_def]
  by (rule explained_comp [OF explained_comp [OF explained_factor_if explained_violations] explained_attestation]) simp

lemma explained_after: "explained (risk_after device)"
  unfolding risk_after_def [abs_def] Let_def
  by (rule explained_comp [OF explained_then_if [OF explained_comp [OF explained_comp [OF explained_os_updates explained_os_vulns]
        explained_apps]] explained_app_updates]) simp

lemma risk_total_explained:
  obtains fs where "risk_total now device n vs = (sum_list (map snd fs), fs)" "\<forall>x\<in>set fs. 0 < snd x \<and> snd x \<le> 25"
proof -
  have "explained (\<lambda>acc. risk_after device (risk_cases n (risk_before now device vs acc)))"
    by (rule explained_comp [OF explained_comp [OF explained_before explained_cases] explained_after])
  then obtain fs where "(\<lambda>acc. risk_after device (risk_cases n (risk_before now device vs acc))) = explain fs"
    "\<forall>x\<in>set fs. 0 < snd x \<and> snd x \<le> 25"
    unfolding explained_def by blast
  with that show ?thesis by (simp add: risk_total_parts explain_def fun_eq_iff)
qed

text \<open>
  C37: The score of a device is the sum of the points of the factors it lists, cut at 100; every factor is worth more
  than 0 and at most 25 points; and the tier follows from the sum with the thresholds 25, 50 and 75.
\<close>

theorem risk_score_explained:
  "let r = computeDeviceRisk now device openCases activeViolations; s = sum_list (map snd (rk_factors r))
   in rk_score r = min s 100 \<and> 0 \<le> rk_score r \<and> list_all (\<lambda>x. 0 < snd x \<and> snd x \<le> 25) (rk_factors r) \<and>
      rk_tier r = (if 75 \<le> s then ''critical'' else if 50 \<le> s then ''high'' else if 25 \<le> s then ''medium'' else ''low'')"
proof -
  obtain fs where fs: "risk_total now device (length openCases) activeViolations = (sum_list (map snd fs), fs)"
    "\<forall>x\<in>set fs. 0 < snd x \<and> snd x \<le> 25"
    by (rule risk_total_explained)
  have "0 \<le> sum_list (map snd fs)" using fs(2) by (intro sum_list_nonneg) force
  then show ?thesis using fs by (auto simp: computeDeviceRisk_def tier_of_def Let_def list_all_iff)
qed

lemma explained_shift:
  assumes "explained f"
  shows "\<exists>k\<ge>0. \<forall>acc. fst (f acc) = fst acc + k"
proof -
  obtain fs where fs: "f = explain fs" "\<forall>x\<in>set fs. 0 < snd x \<and> snd x \<le> 25"
    using assms unfolding explained_def by blast
  have "0 \<le> sum_list (map snd fs)" using fs(2) by (intro sum_list_nonneg) force
  then show ?thesis unfolding fs(1) explain_def by (intro exI [of _ "sum_list (map snd fs)"]) simp
qed

lemma risk_total_mono:
  assumes "m \<le> n" "length vs \<le> length ws"
  shows "fst (risk_total now device m vs) \<le> fst (risk_total now device n ws)"
proof -
  obtain a where after: "fst (risk_after device acc) = fst acc + a" for acc
    using explained_shift [OF explained_after] by blast
  obtain b where attest: "fst (risk_attestation now device acc) = fst acc + b" for acc
    using explained_shift [OF explained_attestation] by blast
  have cases: "fst (risk_cases k acc) = fst acc + min (of_nat k * 10) 20" for k acc
    by (simp add: risk_cases_def factor_if_def add_factor_def)
  have violations: "fst (risk_violations us acc) = fst acc + 15 * of_nat (min 3 (length us))" for us acc
  proof -
    have "fst (fold (\<lambda>v. add_factor (l v) 15) us acc) = fst acc + 15 * of_nat (length us)" for l :: "jsval \<Rightarrow> string" and us
      by (induction us arbitrary: acc) (simp_all add: add_factor_def algebra_simps)
    then show ?thesis by (simp add: risk_violations_def min.commute)
  qed
  have "min (of_nat m * 10) 20 \<le> min (of_nat n * 10) (20::rat)" using assms(1) by (simp add: min_def)
  moreover have "15 * of_nat (min 3 (length vs)) \<le> (15 * of_nat (min 3 (length ws)) :: rat)" using assms(2) by (simp add: min_def)
  ultimately show ?thesis
    by (simp add: risk_total_parts risk_before_def after attest cases violations)
qed

text \<open>
  C38: A further open case or pending violation never lowers the score of a device, nor the rank of its tier that the
  compliance pass compares with the escalation threshold of a policy.
\<close>

theorem risk_monotone:
  assumes "length openCases \<le> length openCases'" and "length activeViolations \<le> length activeViolations'"
  shows "let r = computeDeviceRisk now device openCases activeViolations; r' = computeDeviceRisk now device openCases' activeViolations'
    in rk_score r \<le> rk_score r' \<and> risk_rank (rk_tier r) 0 \<le> risk_rank (rk_tier r') 0"
proof -
  have tier: "risk_rank (tier_of s) 0 \<le> risk_rank (tier_of s') 0" if "s \<le> s'" for s s'
    using that by (auto simp: tier_of_def risk_rank_def RISK_TIER_RANK_def)
  have "min (fst (risk_total now device (length openCases) activeViolations)) 100 \<le>
      min (fst (risk_total now device (length openCases') activeViolations')) 100"
    using risk_total_mono [OF assms] by (intro min.mono) simp_all
  from this tier [OF this] show ?thesis
    by (simp add: computeDeviceRisk_def Let_def case_prod_beta)
qed

section \<open>What the fleet shows of the compliance state\<close>

lemma split_key_pair:
  assumes "CHR '':'' \<notin> set i"
  shows "split_key (suppression_key i d) = Some (i, d)"
proof -
  have "dropWhile (\<lambda>c. c \<noteq> CHR '':'') (i @ CHR '':'' # d) = CHR '':'' # d" "takeWhile (\<lambda>c. c \<noteq> CHR '':'') (i @ CHR '':'' # d) = i"
    using assms by (induction i) auto
  then show ?thesis by (simp add: split_key_def suppression_key_def)
qed

lemma split_key_inverse: "split_key k = Some (i, d) \<Longrightarrow> k = suppression_key i d"
proof -
  assume "split_key k = Some (i, d)"
  then have "dropWhile (\<lambda>c. c \<noteq> CHR '':'') k = CHR '':'' # d" "takeWhile (\<lambda>c. c \<noteq> CHR '':'') k = i"
    by (auto simp: split_key_def split: list.splits dest: dropWhile_eq_Cons_conv [THEN iffD1])
  then show ?thesis using takeWhile_dropWhile_id [of "\<lambda>c. c \<noteq> CHR '':''" k] by (simp add: suppression_key_def)
qed

lemma state_entry_some:
  assumes "state_entry ps e = Some (p, i, su)"
  shows "fst e = suppression_key (pol_id p) i \<and> p \<in> set ps \<and> su = snd e"
proof -
  obtain policyId where e: "split_key (fst e) = Some (policyId, i)" "List.find (\<lambda>p. pol_id p = policyId) (rev ps) = Some p" "su = snd e"
    using assms by (auto simp: state_entry_def split: option.splits if_splits prod.splits)
  from split_key_inverse [OF e(1)] find_SomeD [OF e(2)] find_member [OF e(2)] e(3) show ?thesis by simp
qed

lemma state_entry_known:
  assumes "p \<in> set ps" "CHR '':'' \<notin> set (pol_id p)" "i \<noteq> []"
  shows "\<exists>q. state_entry ps (suppression_key (pol_id p) i, su) = Some (q, i, su)"
proof -
  have "List.find (\<lambda>q. pol_id q = pol_id p) (rev ps) \<noteq> None"
    using assms(1) by (auto simp: find_None_iff)
  then show ?thesis using assms(2,3) by (auto simp: state_entry_def split_key_pair)
qed

lemma no_violation_iff:
  assumes "i \<noteq> []" "\<forall>p\<in>set (listCompliancePolicies ws db). CHR '':'' \<notin> set (pol_id p)"
  shows "policyViolationsByDevice ws db i = [] \<longleftrightarrow>
    (\<forall>p\<in>set (listCompliancePolicies ws db). map_of (loadComplianceState ws db) (suppression_key (pol_id p) i) = None)"
    (is "?none \<longleftrightarrow> ?clean")
proof -
  let ?ps = "listCompliancePolicies ws db" and ?state = "loadComplianceState ws db"
  have none: "?none \<longleftrightarrow> (\<forall>e\<in>set ?state. \<forall>p su. state_entry ?ps e \<noteq> Some (p, i, su))"
    by (force simp: policyViolationsByDevice_def filter_empty_conv map_filter_def)
  show ?thesis
  proof
    assume ?none
    have "suppression_key (pol_id p) i \<notin> fst ` set ?state" if "p \<in> set ?ps" for p
    proof
      assume "suppression_key (pol_id p) i \<in> fst ` set ?state"
      then obtain su where "(suppression_key (pol_id p) i, su) \<in> set ?state" by auto
      with state_entry_known [OF that bspec [OF assms(2) that] assms(1), of su] \<open>?none\<close> none show False by blast
    qed
    then show ?clean by (simp add: map_of_eq_None_iff)
  next
    assume ?clean
    then show ?none unfolding none map_of_eq_None_iff by (force dest: state_entry_some)
  qed
qed

lemma join_policyCompliant:
  "fd_json d = JObj props \<Longrightarrow>
     own_prop (fd_json (join_device now ws db d)) ''policyCompliant'' = JBool (policyViolationsByDevice ws db (fd_id d) = [])"
  by (simp add: join_device_def Let_def set_props_def risk_json_def set_prop_def own_prop_def)

text \<open>
  C36: The fleet shows a device as policy compliant exactly when no policy that still exists has flagged it in the
  compliance state, whatever the review status of the violation; entries of deleted policies do not count. The
  hypotheses: ids without a colon, which separates the two ids of a key, and a device with an id.
\<close>

theorem shown_compliant_iff:
  assumes "fd_json d = JObj props" and "fd_id d \<noteq> []"
    and "\<forall>p\<in>set (listCompliancePolicies ws db). CHR '':'' \<notin> set (pol_id p)"
  shows "own_prop (fd_json (join_device now ws db d)) ''policyCompliant'' =
    JBool (\<forall>p\<in>set (listCompliancePolicies ws db). map_of (loadComplianceState ws db) (pair_key p d) = None)"
  by (simp add: join_policyCompliant [OF assms(1)] no_violation_iff [OF assms(2,3)] pair_key_def)

section \<open>Witnesses\<close>

definition flagged_db :: comp_db where
  "flagged_db = sample_comp_db\<lparr>cd_states := [(''w'', [(''p1:d1'', \<lparr>su_violationId = ''v'', su_status = ''dismissed'', su_lastDetectedAt = 0\<rparr>)])]\<rparr>"

theorem shown_compliant_iff_witness:
  "own_prop (fd_json (join_device 0 ''w'' flagged_db edr_mac)) ''policyCompliant'' = JBool False \<and>
   own_prop (fd_json (join_device 0 ''w'' sample_comp_db edr_mac)) ''policyCompliant'' = JBool True"
proof -
  have policies: "listCompliancePolicies ''w'' flagged_db = [sample_policy_row]" "listCompliancePolicies ''w'' sample_comp_db = [sample_policy_row]"
    by (simp_all add: listCompliancePolicies_def flagged_db_def sample_comp_db_def sample_policy_row_def)
  have mac: "fd_id edr_mac = ''d1''" "pair_key sample_policy_row edr_mac = ''p1:d1''" "CHR '':'' \<notin> set (pol_id sample_policy_row)"
    by (simp_all add: edr_mac_def old_mac_def quarantined_mac_def broken_mac_def pair_key_def suppression_key_def sample_policy_row_def)
  have states: "map_of (loadComplianceState ''w'' flagged_db) ''p1:d1'' \<noteq> None" "loadComplianceState ''w'' sample_comp_db = []"
    by (simp_all add: loadComplianceState_def flagged_db_def sample_comp_db_def)
  show ?thesis
    using shown_compliant_iff [of edr_mac "[(''model'', JStr ''A1'')]" "''w''" flagged_db 0]
      shown_compliant_iff [of edr_mac "[(''model'', JStr ''A1'')]" "''w''" sample_comp_db 0] states
    by (simp add: policies mac edr_facts)
qed

theorem risk_monotone_witness:
  "rk_score (computeDeviceRisk 0 (JObj []) [] []) \<le> rk_score (computeDeviceRisk 0 (JObj []) [JNull] [JNull]) \<and>
   rk_tier (computeDeviceRisk 0 (JObj []) [JNull] [JNull]) = ''medium''"
  using risk_monotone [of "[]" "[JNull]" "[]" "[JNull]" 0 "JObj []"]
  by (simp add: Let_def) code_simp

end
