(* ===== verification/DeviceIdentity.thy ===== *)
theory DeviceIdentity
  imports Triggers
begin

text \<open>
  The identity of the agents (\<open>modules/mtls\<close>, \<open>middleware/mtlsIdentity.middleware.ts\<close>, and \<open>verifyDeviceIdentity\<close> of
  \<open>modules/devices/deviceData.service.ts\<close>): the certificate authority of a workspace, the bootstrap token, the
  registration and renewal of device certificates, their revocation and purge, and the checks at the door of the
  device routes. X.509 and the cipher of stored secrets are parameters (\<open>identity_env\<close>); dates are UTC milliseconds.
\<close>

section \<open>Tables and environment\<close>

record ca_row =
  ca_workspace :: string
  ca_certPem :: string
  ca_privateKeyPem :: string
  ca_source :: string
  ca_serialCounter :: nat
  ca_leafValidityDays :: int
  ca_notBefore :: int
  ca_notAfter :: int
  ca_uploadedBy :: "string option"
  ca_updatedAt :: int

record cert_row =
  dc_id :: string
  dc_workspace :: string
  dc_serialNumber :: string
  dc_serialHex :: string
  dc_certPem :: string
  dc_thumbprintHex :: "string option"
  dc_notBefore :: int
  dc_notAfter :: int
  dc_supersededAt :: "int option"
  dc_revokedAt :: "int option"
  dc_revokedReason :: "string option"
  dc_issuedAt :: int
  dc_lastSeenAt :: "int option"

record secret_row =
  sc_workspace :: string
  sc_secret :: string
  sc_rotatedBy :: string
  sc_updatedAt :: int

record identity_db =
  id_cas :: "ca_row list"
  id_certs :: "cert_row list"
  id_tokens :: "secret_row list"
  id_reportSecrets :: "secret_row list"
  id_purge :: "(string \<times> bool \<times> int) list"
  id_enforced :: "(string \<times> bool) list"
  id_audit :: "audit_event list"

record new_ca =
  nc_certPem :: string
  nc_privateKeyPem :: string
  nc_notBefore :: int
  nc_notAfter :: int

text \<open>
  \<open>in_sign csr cn ca key serial\<close> is the leaf certificate, or the error of a request that does not parse or verify;
  \<open>in_checkPair\<close> the check of an uploaded pair.
\<close>

record identity_env =
  in_now :: int
  in_sign :: "string \<Rightarrow> string \<Rightarrow> string \<Rightarrow> string \<Rightarrow> string \<Rightarrow> string + string"
  in_generateCa :: "string \<Rightarrow> new_ca"
  in_checkPair :: "string \<Rightarrow> string \<Rightarrow> string option + int \<times> int"
  in_thumbprint :: "string \<Rightarrow> string option"
  in_encrypt :: "string \<Rightarrow> string"
  in_decrypt :: "string \<Rightarrow> string"
  in_bearer :: "string \<Rightarrow> string option"
  in_fleet :: "string \<Rightarrow> string + fleet_device list"
  in_proxySecret :: string

definition identity_audit :: "string \<Rightarrow> audit_input \<Rightarrow> identity_db \<Rightarrow> identity_db" where
  "identity_audit ws ev db = db\<lparr>id_audit := recordAuditEvent ws ev (id_audit db)\<rparr>"

definition settings_event :: "string \<Rightarrow> string \<Rightarrow> string \<Rightarrow> string option \<Rightarrow> audit_input" where
  "settings_event action actor message severity =
     \<lparr>in_category = ''settings'', in_action = action, in_actor = Some actor, in_targetType = None, in_targetId = None,
      in_targetName = None, in_message = message, in_severity = severity\<rparr>"

definition agent_event :: "string \<Rightarrow> string \<Rightarrow> string \<Rightarrow> string \<Rightarrow> string option \<Rightarrow> audit_input" where
  "agent_event action actor serialNumber message severity =
     (settings_event action actor message severity)\<lparr>in_targetType := Some ''device'', in_targetId := Some serialNumber\<rparr>"

section \<open>The certificate authority\<close>

definition MTLS_KEY_ALGORITHM :: string where
  "MTLS_KEY_ALGORITHM = ''ECDSA-P256''"

definition MTLS_LEAF_VALIDITY_DAYS_DEFAULT :: int where
  "MTLS_LEAF_VALIDITY_DAYS_DEFAULT = 90"

definition MTLS_LEAF_VALIDITY_DAYS_FLOOR :: int where
  "MTLS_LEAF_VALIDITY_DAYS_FLOOR = 47"

definition find_ca :: "string \<Rightarrow> identity_db \<Rightarrow> ca_row option" where
  "find_ca ws db = List.find (\<lambda>c. ca_workspace c = ws) (id_cas db)"

text \<open>What the status endpoint shows: everything but the key; \<open>None\<close> is \<open>configured: false\<close>.\<close>

record ca_status =
  st_source :: string
  st_keyAlgorithm :: string
  st_leafValidityDays :: int
  st_notBefore :: string
  st_notAfter :: string
  st_uploadedBy :: "string option"
  st_certPem :: string
  st_updatedAt :: string

definition getCaStatus :: "string \<Rightarrow> identity_db \<Rightarrow> ca_status option" where
  "getCaStatus ws db = map_option (\<lambda>c. \<lparr>st_source = ca_source c, st_keyAlgorithm = MTLS_KEY_ALGORITHM,
     st_leafValidityDays = ca_leafValidityDays c, st_notBefore = toISOString (ca_notBefore c), st_notAfter = toISOString (ca_notAfter c),
     st_uploadedBy = ca_uploadedBy c, st_certPem = ca_certPem c, st_updatedAt = toISOString (ca_updatedAt c)\<rparr>) (find_ca ws db)"

definition assertReplaceConfirmed :: "string \<Rightarrow> bool \<Rightarrow> identity_db \<Rightarrow> unit result" where
  "assertReplaceConfirmed ws confirmReplace db =
     guard_that (find_ca ws db = None \<or> confirmReplace) 409
       (''A CA is already configured for this workspace. Replacing it invalidates every currently-issued device '' @
        ''certificate'' @ [CHR 0x27] @ ''s chain of trust '' @ em_dash @ '' pass confirmReplace: true to proceed anyway.'')"

definition put_ca :: "string \<Rightarrow> ca_row \<Rightarrow> identity_db \<Rightarrow> identity_db" where
  "put_ca ws row db = db\<lparr>id_cas := (if find_ca ws db = None then id_cas db @ [row]
     else upd_where (\<lambda>c. ca_workspace c = ws) (\<lambda>_. row) (id_cas db))\<rparr>"

definition new_ca_row :: "identity_env \<Rightarrow> string \<Rightarrow> string \<Rightarrow> new_ca \<Rightarrow> string option \<Rightarrow> ca_row" where
  "new_ca_row env ws source nc uploadedBy =
     \<lparr>ca_workspace = ws, ca_certPem = nc_certPem nc, ca_privateKeyPem = in_encrypt env (nc_privateKeyPem nc), ca_source = source,
      ca_serialCounter = 1, ca_leafValidityDays = MTLS_LEAF_VALIDITY_DAYS_DEFAULT, ca_notBefore = nc_notBefore nc,
      ca_notAfter = nc_notAfter nc, ca_uploadedBy = uploadedBy, ca_updatedAt = in_now env\<rparr>"

definition CHAIN_INVALID :: string where
  "CHAIN_INVALID = ''. Every previously-issued device certificate'' @ [CHR 0x27] @ ''s chain of trust is now invalid.''"

definition generateCa :: "identity_env \<Rightarrow> string \<Rightarrow> string \<Rightarrow> bool \<Rightarrow> identity_db \<Rightarrow> ca_status option result \<times> identity_db" where
  "generateCa env ws actor confirmReplace db =
     (case assertReplaceConfirmed ws confirmReplace db of
        Inl e \<Rightarrow> (Inl e, db)
      | Inr _ \<Rightarrow>
          (let db1 = identity_audit ws (settings_event ''mtls_ca_generated'' actor
                 (''mTLS Certificate Authority generated for this workspace by '' @ actor @ CHAIN_INVALID) (Some ''warning''))
               (put_ca ws (new_ca_row env ws ''generated'' (in_generateCa env ws) None) db)
           in (Inr (getCaStatus ws db1), db1)))"

definition uploadCa :: "identity_env \<Rightarrow> string \<Rightarrow> string \<Rightarrow> string \<Rightarrow> string \<Rightarrow> bool \<Rightarrow> identity_db \<Rightarrow> ca_status option result \<times> identity_db" where
  "uploadCa env ws actor certPem privateKeyPem confirmReplace db =
     (case assertReplaceConfirmed ws confirmReplace db of
        Inl e \<Rightarrow> (Inl e, db)
      | Inr _ \<Rightarrow>
          (case in_checkPair env certPem privateKeyPem of
             Inl err \<Rightarrow>
               (throw 400 (case err of Some m \<Rightarrow> m | None \<Rightarrow> ''The uploaded CA certificate/private key pair is invalid.''), db)
           | Inr (notBefore, notAfter) \<Rightarrow>
               (let db1 = identity_audit ws (settings_event ''mtls_ca_uploaded'' actor
                      (''mTLS Certificate Authority replaced with an uploaded cert/key pair for this workspace by '' @ actor @
                       CHAIN_INVALID) (Some ''warning''))
                    (put_ca ws (new_ca_row env ws ''uploaded''
                       \<lparr>nc_certPem = certPem, nc_privateKeyPem = privateKeyPem, nc_notBefore = notBefore, nc_notAfter = notAfter\<rparr>
                       (Some actor)) db)
                in (Inr (getCaStatus ws db1), db1))))"

definition setLeafValidityDays :: "identity_env \<Rightarrow> string \<Rightarrow> string \<Rightarrow> int \<Rightarrow> identity_db \<Rightarrow> ca_status option result \<times> identity_db" where
  "setLeafValidityDays env ws actor days db =
     (if days < MTLS_LEAF_VALIDITY_DAYS_FLOOR then
        (throw 400 (''Leaf certificate validity can'' @ [CHR 0x27] @ ''t be set below '' @ show_int MTLS_LEAF_VALIDITY_DAYS_FLOOR @ '' days.''), db)
      else if find_ca ws db = None then
        (throw 503 (''No CA is configured for this workspace yet '' @ em_dash @ '' generate or upload one first.''), db)
      else
        (let db1 = identity_audit ws (settings_event ''mtls_leaf_validity_updated'' actor
               (''mTLS leaf certificate validity window set to '' @ show_int days @ '' days by '' @ actor @ ''.'') None)
             (db\<lparr>id_cas := upd_where (\<lambda>c. ca_workspace c = ws)
                (\<lambda>c. c\<lparr>ca_leafValidityDays := days, ca_updatedAt := in_now env\<rparr>) (id_cas db)\<rparr>)
         in (Inr (getCaStatus ws db1), db1)))"

text \<open>The certificate, the key and the validity of the authority that signs.\<close>

definition getCaForSigning :: "identity_env \<Rightarrow> string \<Rightarrow> identity_db \<Rightarrow> (string \<times> string \<times> int) option" where
  "getCaForSigning env ws db =
     map_option (\<lambda>c. (ca_certPem c, in_decrypt env (ca_privateKeyPem c), ca_leafValidityDays c)) (find_ca ws db)"

definition claimNextSerial :: "string \<Rightarrow> identity_db \<Rightarrow> nat \<times> identity_db" where
  "claimNextSerial ws db =
     (let n = (case find_ca ws db of Some c \<Rightarrow> ca_serialCounter c | None \<Rightarrow> 0)
      in (n, db\<lparr>id_cas := upd_where (\<lambda>c. ca_workspace c = ws) (\<lambda>c. c\<lparr>ca_serialCounter := ca_serialCounter c + 1\<rparr>) (id_cas db)\<rparr>))"

section \<open>Secrets of a workspace\<close>

definition find_secret :: "string \<Rightarrow> secret_row list \<Rightarrow> secret_row option" where
  "find_secret ws rows = List.find (\<lambda>r. sc_workspace r = ws) rows"

definition put_secret :: "string \<Rightarrow> secret_row \<Rightarrow> secret_row list \<Rightarrow> secret_row list" where
  "put_secret ws row rows =
     (if find_secret ws rows = None then rows @ [row] else upd_where (\<lambda>r. sc_workspace r = ws) (\<lambda>_. row) rows)"

text \<open>\<open>None\<close> is \<open>configured: false\<close>.\<close>

record secret_status =
  ss_secret :: string
  ss_rotatedBy :: string
  ss_rotatedAt :: string

definition secret_view :: "identity_env \<Rightarrow> secret_row \<Rightarrow> secret_status" where
  "secret_view env r = \<lparr>ss_secret = in_decrypt env (sc_secret r), ss_rotatedBy = sc_rotatedBy r, ss_rotatedAt = toISOString (sc_updatedAt r)\<rparr>"

definition getGlobalBootstrapTokenStatus :: "identity_env \<Rightarrow> string \<Rightarrow> identity_db \<Rightarrow> secret_status option" where
  "getGlobalBootstrapTokenStatus env ws db = map_option (secret_view env) (find_secret ws (id_tokens db))"

definition getDeviceReportSecretStatus :: "identity_env \<Rightarrow> string \<Rightarrow> identity_db \<Rightarrow> secret_status option" where
  "getDeviceReportSecretStatus env ws db = map_option (secret_view env) (find_secret ws (id_reportSecrets db))"

definition rotateGlobalBootstrapToken :: "identity_env \<Rightarrow> string \<Rightarrow> string \<Rightarrow> string \<Rightarrow> identity_db \<Rightarrow> string \<times> identity_db" where
  "rotateGlobalBootstrapToken env newSecret ws actor db =
     (newSecret, identity_audit ws (settings_event ''mtls_global_bootstrap_token_rotated'' actor
         (''mTLS global bootstrap token generated/rotated for this workspace by '' @ actor @ '' '' @ em_dash @
          '' any Managed Configuration deployment carrying the old value must be updated, and any device that '' @
          ''hasn'' @ [CHR 0x27] @ ''t registered yet will need it.'') (Some ''warning''))
       (db\<lparr>id_tokens := put_secret ws
          \<lparr>sc_workspace = ws, sc_secret = in_encrypt env newSecret, sc_rotatedBy = actor, sc_updatedAt = in_now env\<rparr> (id_tokens db)\<rparr>))"

definition clearGlobalBootstrapToken :: "string \<Rightarrow> string \<Rightarrow> identity_db \<Rightarrow> identity_db" where
  "clearGlobalBootstrapToken ws actor db =
     (if find_secret ws (id_tokens db) = None then db
      else identity_audit ws (settings_event ''mtls_global_bootstrap_token_cleared'' actor
          (''mTLS global bootstrap token removed for this workspace by '' @ actor @ '' '' @ em_dash @
           '' no device can register for a new certificate until a new token is generated. Devices with an '' @
           ''already-issued certificate are unaffected (they authenticate via their cert, never this token, once registered).'')
          (Some ''warning''))
        (db\<lparr>id_tokens := del_where (\<lambda>r. sc_workspace r = ws) (id_tokens db)\<rparr>))"

definition rotateDeviceReportSecret :: "identity_env \<Rightarrow> string \<Rightarrow> string \<Rightarrow> string \<Rightarrow> identity_db \<Rightarrow> string \<times> identity_db" where
  "rotateDeviceReportSecret env newSecret ws actor db =
     (newSecret, identity_audit ws (settings_event ''device_report_secret_rotated'' actor
         (''Device-report webhook secret generated/rotated for this workspace by '' @ actor) None)
       (db\<lparr>id_reportSecrets := put_secret ws
          \<lparr>sc_workspace = ws, sc_secret = in_encrypt env newSecret, sc_rotatedBy = actor, sc_updatedAt = in_now env\<rparr> (id_reportSecrets db)\<rparr>))"

definition clearDeviceReportSecret :: "string \<Rightarrow> string \<Rightarrow> identity_db \<Rightarrow> identity_db" where
  "clearDeviceReportSecret ws actor db =
     (if find_secret ws (id_reportSecrets db) = None then db
      else identity_audit ws (settings_event ''device_report_secret_cleared'' actor
          (''Device-report webhook secret removed for this workspace '' @ em_dash @
           '' the webhook will reject all reports until a new one is generated'') (Some ''warning''))
        (db\<lparr>id_reportSecrets := del_where (\<lambda>r. sc_workspace r = ws) (id_reportSecrets db)\<rparr>))"

section \<open>Issued certificates\<close>

definition EXPIRING_SOON_WINDOW_MS :: int where
  "EXPIRING_SOON_WINDOW_MS = 14 * 24 * 60 * 60 * 1000"

definition computeStatus :: "int \<Rightarrow> cert_row \<Rightarrow> string" where
  "computeStatus now row =
     (if dc_revokedAt row \<noteq> None then ''revoked''
      else if dc_supersededAt row \<noteq> None then ''superseded''
      else if dc_notAfter row < now then ''expired''
      else if dc_notAfter row - now < EXPIRING_SOON_WINDOW_MS then ''expiring-soon''
      else ''active'')"

definition active_at :: "int \<Rightarrow> string \<Rightarrow> string \<Rightarrow> cert_row \<Rightarrow> bool" where
  "active_at now ws serialNumber row \<longleftrightarrow>
     dc_workspace row = ws \<and> dc_serialNumber row = serialNumber \<and> dc_revokedAt row = None \<and> dc_supersededAt row = None \<and>
     now < dc_notAfter row"

definition findActiveCertificate :: "identity_env \<Rightarrow> string \<Rightarrow> string \<Rightarrow> identity_db \<Rightarrow> string option" where
  "findActiveCertificate env ws serialNumber db =
     map_option dc_id (List.find (active_at (in_now env) ws serialNumber) (id_certs db))"

definition update_certs :: "(cert_row \<Rightarrow> bool) \<Rightarrow> (cert_row \<Rightarrow> cert_row) \<Rightarrow> identity_db \<Rightarrow> identity_db" where
  "update_certs p f db = db\<lparr>id_certs := upd_where p f (id_certs db)\<rparr>"

definition supersedeActiveCertificates :: "identity_env \<Rightarrow> string \<Rightarrow> string \<Rightarrow> identity_db \<Rightarrow> identity_db" where
  "supersedeActiveCertificates env ws serialNumber =
     update_certs (\<lambda>c. dc_workspace c = ws \<and> dc_serialNumber c = serialNumber \<and> dc_supersededAt c = None \<and> dc_revokedAt c = None)
       (\<lambda>c. c\<lparr>dc_supersededAt := Some (in_now env)\<rparr>)"

definition issueCertificateRecord :: "identity_env \<Rightarrow> string \<Rightarrow> string \<Rightarrow> string \<Rightarrow> string \<Rightarrow> string \<Rightarrow> int \<Rightarrow> int \<Rightarrow> identity_db \<Rightarrow> identity_db" where
  "issueCertificateRecord env newId ws serialNumber serialHex certPem notBefore notAfter db =
     db\<lparr>id_certs := id_certs db @
       [\<lparr>dc_id = newId, dc_workspace = ws, dc_serialNumber = serialNumber, dc_serialHex = serialHex, dc_certPem = certPem,
         dc_thumbprintHex = in_thumbprint env certPem, dc_notBefore = notBefore, dc_notAfter = notAfter, dc_supersededAt = None,
         dc_revokedAt = None, dc_revokedReason = None, dc_issuedAt = in_now env, dc_lastSeenAt = None\<rparr>]\<rparr>"

definition touchCertificateLastSeen :: "identity_env \<Rightarrow> string \<Rightarrow> identity_db \<Rightarrow> identity_db" where
  "touchCertificateLastSeen env certificateId =
     update_certs (\<lambda>c. dc_id c = certificateId) (\<lambda>c. c\<lparr>dc_lastSeenAt := Some (in_now env)\<rparr>)"

definition loadCertificateLastSeenBySerial :: "string \<Rightarrow> identity_db \<Rightarrow> (string \<times> string) list" where
  "loadCertificateLastSeenBySerial ws db =
     fold (\<lambda>c m. case dc_lastSeenAt c of
         None \<Rightarrow> m
       | Some t \<Rightarrow>
           (let iso = toISOString t
            in case map_of m (dc_serialNumber c) of
                 None \<Rightarrow> map_set (dc_serialNumber c) iso m
               | Some old \<Rightarrow> if old < iso then map_set (dc_serialNumber c) iso m else m))
       (filter (\<lambda>c. dc_workspace c = ws) (id_certs db)) []"

definition revokeCertificate :: "identity_env \<Rightarrow> string \<Rightarrow> string \<Rightarrow> string \<Rightarrow> string \<Rightarrow> identity_db \<Rightarrow> unit result \<times> identity_db" where
  "revokeCertificate env ws certId actor reason db =
     (case List.find (\<lambda>c. dc_id c = certId) (id_certs db) of
        None \<Rightarrow> (throw 404 ''Certificate not found.'', db)
      | Some row \<Rightarrow>
          if dc_workspace row \<noteq> ws then (throw 404 ''Certificate not found.'', db)
          else if dc_revokedAt row \<noteq> None then (throw 400 ''This certificate is already revoked.'', db)
          else (Inr (), identity_audit ws (agent_event ''mtls_certificate_revoked'' actor (dc_serialNumber row)
                   (''mTLS device certificate for '' @ sq (dc_serialNumber row) @ '' revoked by '' @ actor @ '': '' @ reason) (Some ''warning''))
                 (update_certs (\<lambda>c. dc_id c = certId) (\<lambda>c. c\<lparr>dc_revokedAt := Some (in_now env), dc_revokedReason := Some reason\<rparr>) db)))"

section \<open>The list of certificates\<close>

definition is_hex :: "char \<Rightarrow> bool" where
  "is_hex c \<longleftrightarrow> is_digit c \<or> toLowerCase [c] \<in> set [''a'', ''b'', ''c'', ''d'', ''e'', ''f'']"

definition normalizeHexSearch :: "string \<Rightarrow> string" where
  "normalizeHexSearch raw = toUpperCase (filter is_hex raw)"

text \<open>A filter with \<open>contains\<close>; \<open>NULL\<close> contains nothing.\<close>

definition contains_ci :: "string \<Rightarrow> string \<Rightarrow> bool" where
  "contains_ci hay needle = str_includes (toLowerCase hay) (toLowerCase needle)"

definition buildCertificatesWhere :: "string \<Rightarrow> string \<Rightarrow> string option \<Rightarrow> cert_row \<Rightarrow> bool" where
  "buildCertificatesWhere ws st search c \<longleftrightarrow>
     dc_workspace c = ws \<and> (dc_revokedAt c \<noteq> None) = (st = ''revoked'') \<and>
     (let needle = js_trim (filled search []); hex = normalizeHexSearch needle
      in needle = [] \<or> contains_ci (dc_serialNumber c) needle \<or> contains_ci (dc_serialHex c) needle \<or>
         (hex \<noteq> [] \<and> str_includes (filled (dc_thumbprintHex c) []) hex))"

fun formatThumbprint :: "string \<Rightarrow> string" where
  "formatThumbprint (a # b # c # cs) = a # b # CHR '':'' # formatThumbprint (c # cs)"
| "formatThumbprint s = s"

record certificate_status =
  cv_id :: string
  cv_serialNumber :: string
  cv_serialHex :: string
  cv_thumbprint :: "string option"
  cv_status :: string
  cv_notBefore :: string
  cv_notAfter :: string
  cv_supersededAt :: "string option"
  cv_revokedAt :: "string option"
  cv_revokedReason :: "string option"
  cv_issuedAt :: string
  cv_deviceId :: "string option"
  cv_deviceDisplayName :: "string option"
  cv_employeeName :: "string option"

definition employee_name :: "fleet_device \<Rightarrow> string option" where
  "employee_name d =
     (let u = own_prop (fd_json d) ''mdmUser''; name = js_or (own_prop u ''name'') (own_prop u ''email'')
      in if truthy name then Some (to_string name) else None)"

text \<open>The last device of a serial wins, as in the \<open>Map\<close> of the source.\<close>

definition matchDevicesBySerial :: "identity_env \<Rightarrow> string \<Rightarrow> string option \<Rightarrow> string \<Rightarrow> fleet_device option" where
  "matchDevicesBySerial env ws authorization serialNumber =
     (if filled authorization [] = [] then None
      else case in_fleet env ws of
          Inl _ \<Rightarrow> None
        | Inr ds \<Rightarrow> List.find (\<lambda>d. fd_serialNumber d = serialNumber) (rev (filter (\<lambda>d. fd_serialNumber d \<noteq> []) ds)))"

definition backfilled :: "identity_env \<Rightarrow> cert_row \<Rightarrow> string option" where
  "backfilled env c = (if filled (dc_thumbprintHex c) [] \<noteq> [] then dc_thumbprintHex c else in_thumbprint env (dc_certPem c))"

definition backfillThumbprints :: "identity_env \<Rightarrow> cert_row list \<Rightarrow> identity_db \<Rightarrow> identity_db" where
  "backfillThumbprints env rows =
     fold (\<lambda>r db. if filled (dc_thumbprintHex r) [] = [] \<and> filled (backfilled env r) [] \<noteq> []
         then update_certs (\<lambda>c. dc_id c = dc_id r) (\<lambda>c. c\<lparr>dc_thumbprintHex := backfilled env r\<rparr>) db else db) rows"

definition certificate_view :: "identity_env \<Rightarrow> string \<Rightarrow> string option \<Rightarrow> cert_row \<Rightarrow> certificate_status" where
  "certificate_view env ws authorization c =
     (let device = matchDevicesBySerial env ws authorization (dc_serialNumber c)
      in \<lparr>cv_id = dc_id c, cv_serialNumber = dc_serialNumber c, cv_serialHex = dc_serialHex c,
          cv_thumbprint = (case backfilled env c of Some h \<Rightarrow> if h = [] then None else Some (formatThumbprint h) | None \<Rightarrow> None),
          cv_status = computeStatus (in_now env) c, cv_notBefore = toISOString (dc_notBefore c), cv_notAfter = toISOString (dc_notAfter c),
          cv_supersededAt = map_option toISOString (dc_supersededAt c), cv_revokedAt = map_option toISOString (dc_revokedAt c),
          cv_revokedReason = dc_revokedReason c, cv_issuedAt = toISOString (dc_issuedAt c), cv_deviceId = map_option fd_id device,
          cv_deviceDisplayName = map_option fd_displayName device, cv_employeeName = Option.bind device employee_name\<rparr>)"

definition CERT_LIST_DEFAULT_LIMIT :: int where
  "CERT_LIST_DEFAULT_LIMIT = 50"

definition CERT_LIST_MAX_LIMIT :: int where
  "CERT_LIST_MAX_LIMIT = 200"

definition or_default :: "int option \<Rightarrow> int \<Rightarrow> int" where
  "or_default v other = (case v of Some n \<Rightarrow> if n = 0 then other else n | None \<Rightarrow> other)"

definition listCertificates :: "identity_env \<Rightarrow> string \<Rightarrow> string \<Rightarrow> string option \<Rightarrow> int option \<Rightarrow> int option \<Rightarrow> string option \<Rightarrow> identity_db \<Rightarrow>
    (certificate_status list \<times> nat) \<times> identity_db" where
  "listCertificates env ws st search limit offset authorization db =
     (let hits = filter (buildCertificatesWhere ws st search) (id_certs db);
          size_limit = nat (max 1 (min (or_default limit CERT_LIST_DEFAULT_LIMIT) CERT_LIST_MAX_LIMIT));
          page = take size_limit (drop (nat (max 0 (or_default offset 0))) (sort_key (\<lambda>c. - dc_issuedAt c) hits))
      in ((map (certificate_view env ws authorization) page, length hits), backfillThumbprints env page db))"

definition getCertificateCounts :: "string \<Rightarrow> identity_db \<Rightarrow> nat \<times> nat" where
  "getCertificateCounts ws db =
     (length (filter (\<lambda>c. dc_workspace c = ws \<and> dc_revokedAt c = None) (id_certs db)),
      length (filter (\<lambda>c. dc_workspace c = ws \<and> dc_revokedAt c \<noteq> None) (id_certs db)))"

section \<open>The purge of revoked certificates\<close>

definition CERT_PURGE_DEFAULT_RETENTION_DAYS :: int where
  "CERT_PURGE_DEFAULT_RETENTION_DAYS = 90"

definition CERT_PURGE_MIN_RETENTION_DAYS :: int where
  "CERT_PURGE_MIN_RETENTION_DAYS = 1"

definition retention_days :: "int \<Rightarrow> int" where
  "retention_days days = max CERT_PURGE_MIN_RETENTION_DAYS (if days = 0 then CERT_PURGE_DEFAULT_RETENTION_DAYS else days)"

definition getCertPurgeSettings :: "string \<Rightarrow> identity_db \<Rightarrow> bool \<times> int" where
  "getCertPurgeSettings ws db =
     (case map_of (id_purge db) ws of Some s \<Rightarrow> s | None \<Rightarrow> (False, CERT_PURGE_DEFAULT_RETENTION_DAYS))"

definition setCertPurgeSettings :: "string \<Rightarrow> string \<Rightarrow> bool \<times> int \<Rightarrow> identity_db \<Rightarrow> (bool \<times> int) \<times> identity_db" where
  "setCertPurgeSettings ws actor settings db =
     (let days = retention_days (snd settings)
      in ((fst settings, days), identity_audit ws (settings_event ''mtls_cert_purge_settings_updated'' actor
            (if fst settings then ''Automatic purge of revoked mTLS certificates enabled by '' @ actor @ '' '' @ em_dash @
               '' certificates revoked more than '' @ show_int days @ '' day(s) ago are deleted daily.''
             else ''Automatic purge of revoked mTLS certificates disabled by '' @ actor @ ''.'') (Some ''info''))
          (db\<lparr>id_purge := map_set ws (fst settings, days) (id_purge db)\<rparr>)))"

definition purge_candidate :: "int \<Rightarrow> string \<Rightarrow> int \<Rightarrow> cert_row \<Rightarrow> bool" where
  "purge_candidate now ws days c \<longleftrightarrow>
     dc_workspace c = ws \<and> (case dc_revokedAt c of None \<Rightarrow> False | Some t \<Rightarrow> t < now - days * 24 * 60 * 60 * 1000)"

definition purgeRevokedCertificates :: "identity_env \<Rightarrow> string \<Rightarrow> int \<Rightarrow> string \<Rightarrow> identity_db \<Rightarrow> nat \<times> identity_db" where
  "purgeRevokedCertificates env ws olderThanDays actor db =
     (let days = retention_days olderThanDays;
          n = length (filter (purge_candidate (in_now env) ws days) (id_certs db));
          db1 = db\<lparr>id_certs := del_where (purge_candidate (in_now env) ws days) (id_certs db)\<rparr>
      in (n, if 0 < n then identity_audit ws (settings_event ''mtls_certificates_purged'' actor
               (show_nat n @ '' revoked mTLS device certificate(s) older than '' @ show_int days @ '' day(s) permanently deleted by '' @
                actor @ ''.'') (Some ''warning'')) db1
             else db1))"

definition purgeRevokedCertificatesForAllWorkspaces :: "identity_env \<Rightarrow> identity_db \<Rightarrow> nat \<times> identity_db" where
  "purgeRevokedCertificatesForAllWorkspaces env db =
     fold (\<lambda>(ws, _, days) (purged, cur). case purgeRevokedCertificates env ws days ''system'' cur of (n, cur') \<Rightarrow> (purged + n, cur'))
       (filter (\<lambda>(_, enabled, _). enabled) (id_purge db)) (0, db)"

section \<open>Registration and renewal\<close>

fun hex_text :: "nat \<Rightarrow> string" where
  "hex_text n = (if n < 16 then [''0123456789abcdef'' ! n] else hex_text (n div 16) @ [''0123456789abcdef'' ! (n mod 16)])"

declare hex_text.simps [simp del]

definition serialToHex :: "nat \<Rightarrow> string" where
  "serialToHex n = (if even (length (hex_text n)) then hex_text n else CHR ''0'' # hex_text n)"

record issued =
  is_certPem :: string
  is_caCertPem :: string
  is_notAfter :: string

definition NO_CA :: "string \<Rightarrow> string" where
  "NO_CA ws = ''No mTLS Certificate Authority is configured for workspace '' @ sq ws @
     ''. An admin must generate or upload one from Settings before devices can register.''"

definition issueLeaf :: "identity_env \<Rightarrow> string \<Rightarrow> string \<Rightarrow> string \<Rightarrow> string \<Rightarrow> identity_db \<Rightarrow> (pass_error + issued) \<times> identity_db" where
  "issueLeaf env newId ws serialNumber csrPem db =
     (case getCaForSigning env ws db of
        None \<Rightarrow> (Inl (RequestError (HttpError 503 (NO_CA ws))), db)
      | Some (caPem, caKey, validityDays) \<Rightarrow>
          (case claimNextSerial ws db of
             (n, db1) \<Rightarrow>
               (case in_sign env csrPem serialNumber caPem caKey (serialToHex n) of
                  Inl msg \<Rightarrow> (Inl (PassCrash msg), db1)
                | Inr certPem \<Rightarrow>
                    (let notAfter = in_now env + validityDays * 86400000
                     in (Inr \<lparr>is_certPem = certPem, is_caCertPem = caPem, is_notAfter = toISOString notAfter\<rparr>,
                         issueCertificateRecord env newId ws serialNumber (serialToHex n) certPem (in_now env) notAfter db1)))))"

definition verifyGlobalBootstrapToken :: "identity_env \<Rightarrow> string \<Rightarrow> string option \<Rightarrow> identity_db \<Rightarrow> unit result" where
  "verifyGlobalBootstrapToken env ws provided db =
     (let secret = filled (map_option ss_secret (getGlobalBootstrapTokenStatus env ws db)) []
      in if secret = [] then throw 503 (''No global bootstrap token is configured for workspace '' @ sq ws @
             ''. Generate one from Settings > mTLS Agent Authentication before devices can register.'')
         else guard_that (filled provided [] \<noteq> [] \<and> timingSafeEqual (filled provided []) secret) 401 ''Invalid bootstrap token.'')"

definition assertNotAlreadyActive :: "identity_env \<Rightarrow> string \<Rightarrow> string \<Rightarrow> identity_db \<Rightarrow> unit result" where
  "assertNotAlreadyActive env ws serialNumber db =
     guard_that (findActiveCertificate env ws serialNumber db = None) 409
       (''Device '' @ sq serialNumber @ '' already has an active mTLS certificate '' @ em_dash @
        '' an admin must revoke it first before this device can re-register.'')"

definition assertKnownApplivertyDevice :: "identity_env \<Rightarrow> string \<Rightarrow> string \<Rightarrow> pass_error + string option" where
  "assertKnownApplivertyDevice env ws serialNumber =
     (if filled (in_bearer env ws) [] = [] then
        Inl (RequestError (HttpError 503 (''No Automation Credential configured for this workspace '' @ em_dash @
          '' device registration can'' @ [CHR 0x27] @ ''t verify device identity against Applivery without one.'')))
      else case in_fleet env ws of
          Inl msg \<Rightarrow> Inl (PassCrash msg)
        | Inr ds \<Rightarrow>
            (case List.find (\<lambda>d. fd_serialNumber d = serialNumber) ds of
               None \<Rightarrow> Inl (RequestError (HttpError 403 (''Serial number '' @ sq serialNumber @
                 '' is not a currently-enrolled device in this workspace'' @ [CHR 0x27] @ ''s Applivery fleet.'')))
             | Some d \<Rightarrow> Inr (if fd_displayName d = [] then None else Some (fd_displayName d))))"

definition registerDevice :: "identity_env \<Rightarrow> string \<Rightarrow> string \<Rightarrow> string \<Rightarrow> string \<Rightarrow> string option \<Rightarrow> identity_db \<Rightarrow>
    (pass_error + issued) \<times> identity_db" where
  "registerDevice env newId ws csrPem serialNumber bootstrapToken db =
     (case verifyGlobalBootstrapToken env ws bootstrapToken db of
        Inl e \<Rightarrow> (Inl (RequestError e), db)
      | Inr _ \<Rightarrow>
          (case assertNotAlreadyActive env ws serialNumber db of
             Inl e \<Rightarrow> (Inl (RequestError e), db)
           | Inr _ \<Rightarrow>
               (case assertKnownApplivertyDevice env ws serialNumber of
                  Inl e \<Rightarrow> (Inl e, db)
                | Inr displayName \<Rightarrow>
                    (case issueLeaf env newId ws serialNumber csrPem db of
                       (Inl e, db1) \<Rightarrow> (Inl e, db1)
                     | (Inr leaf, db1) \<Rightarrow>
                         (Inr leaf, identity_audit ws (agent_event ''mtls_device_registered'' ''device-agent'' serialNumber
                             (''Device '' @ sq serialNumber @ (case displayName of Some n \<Rightarrow> '' ('' @ n @ '')'' | None \<Rightarrow> []) @
                              '' completed mTLS registration via the global bootstrap token '' @ em_dash @
                              '' client certificate issued, valid until '' @ is_notAfter leaf @ ''.'') None) db1)))))"

definition renewDevice :: "identity_env \<Rightarrow> string \<Rightarrow> string \<Rightarrow> string \<Rightarrow> string \<Rightarrow> string \<Rightarrow> identity_db \<Rightarrow>
    (pass_error + issued) \<times> identity_db" where
  "renewDevice env newId ws csrPem serialNumber verifiedSerialNumber db =
     (if serialNumber \<noteq> verifiedSerialNumber then
        (Inl (RequestError (HttpError 403 (''mTLS identity ('' @ verifiedSerialNumber @
           '') does not match the serialNumber in the renewal request ('' @ serialNumber @ '').''))), db)
      else (case issueLeaf env newId ws serialNumber csrPem (supersedeActiveCertificates env ws serialNumber db) of
          (Inl e, db1) \<Rightarrow> (Inl e, db1)
        | (Inr leaf, db1) \<Rightarrow>
            (Inr leaf, identity_audit ws (agent_event ''mtls_device_renewed'' ''device-agent'' serialNumber
                (''Device '' @ sq serialNumber @ '' renewed its mTLS client certificate (valid until '' @ is_notAfter leaf @ '').'') None) db1)))"

section \<open>The door of the device routes\<close>

text \<open>The headers of a request the checks read; a missing header is \<open>None\<close>.\<close>

record agent_request =
  rq_workspace :: string
  rq_proxySecret :: "string option"
  rq_verified :: "string option"
  rq_cn :: "string option"
  rq_reportSecret :: "string option"

text \<open>\<open>/(?:^|,)\s*CN=([^,]+)/i\<close>: the first part between commas that starts with \<open>CN=\<close> and has a value.\<close>

definition cn_part :: "string \<Rightarrow> string option" where
  "cn_part part =
     (let p = dropWhile is_space part
      in if toLowerCase (take 3 p) = ''cn='' \<and> drop 3 p \<noteq> [] then Some (drop 3 p) else None)"

definition extractCommonName :: "string \<Rightarrow> string" where
  "extractCommonName headerValue =
     js_trim (case List.map_filter cn_part (split_on (\<lambda>c. c = CHR '','') headerValue) of
       [] \<Rightarrow> headerValue | v # _ \<Rightarrow> v)"

definition assertMtlsIdentity :: "identity_env \<Rightarrow> agent_request \<Rightarrow> identity_db \<Rightarrow> string result \<times> identity_db" where
  "assertMtlsIdentity env rq db =
     (if in_proxySecret env = [] then
        (throw 503 (''MTLS_INTERNAL_PROXY_SECRET is not configured for this deployment '' @ em_dash @ '' mTLS enforcement is not active yet.''), db)
      else if filled (rq_proxySecret rq) [] = [] \<or> \<not> timingSafeEqual (filled (rq_proxySecret rq) []) (in_proxySecret env) then
        (throw 401 ''Missing or invalid internal proxy secret.'', db)
      else if rq_verified rq \<noteq> Some ''SUCCESS'' \<or> filled (rq_cn rq) [] = [] then
        (throw 401 ''No verified client certificate identity was presented.'', db)
      else
        (let cn = extractCommonName (filled (rq_cn rq) [])
         in case findActiveCertificate env (rq_workspace rq) cn db of
              None \<Rightarrow> (throw 401 (''The presented client certificate is not a currently active certificate for this workspace '' @
                         ''(it may be revoked, superseded, or expired).''), db)
            | Some certId \<Rightarrow> (Inr cn, touchCertificateLastSeen env certId db)))"

text \<open>The renewal route: the renewal behind the identity check.\<close>

definition renew_route :: "identity_env \<Rightarrow> string \<Rightarrow> agent_request \<Rightarrow> string \<Rightarrow> string \<Rightarrow> identity_db \<Rightarrow> (pass_error + issued) \<times> identity_db" where
  "renew_route env newId rq csrPem serialNumber db =
     (case assertMtlsIdentity env rq db of
        (Inl e, db1) \<Rightarrow> (Inl (RequestError e), db1)
      | (Inr cn, db1) \<Rightarrow> renewDevice env newId (rq_workspace rq) csrPem serialNumber cn db1)"

definition getMtlsEnforcementEnabled :: "string \<Rightarrow> identity_db \<Rightarrow> bool" where
  "getMtlsEnforcementEnabled ws db = (case map_of (id_enforced db) ws of Some b \<Rightarrow> b | None \<Rightarrow> False)"

definition setMtlsEnforcementEnabled :: "string \<Rightarrow> string \<Rightarrow> bool \<Rightarrow> identity_db \<Rightarrow> bool result \<times> identity_db" where
  "setMtlsEnforcementEnabled ws actor enabled db =
     (if enabled \<and> find_ca ws db = None then
        (throw 400 (''Cannot enable mTLS enforcement: no Certificate Authority is configured for this workspace yet. Generate or '' @
           ''upload one from Settings > mTLS first, and confirm your fleet has registered (GET /api/mtls/certificates) before cutting over.''), db)
      else (Inr enabled, identity_audit ws (settings_event (if enabled then ''mtls_enforcement_enabled'' else ''mtls_enforcement_disabled'') actor
             (if enabled then ''mTLS enforcement ENABLED for this workspace by '' @ actor @ '' '' @ em_dash @
                '' the 6 device-caller routes now require a valid client certificate instead of the legacy X-Device-Report-Secret. '' @
                ''Any device without one goes dark until it registers.''
              else ''mTLS enforcement disabled for this workspace by '' @ actor @ '' '' @ em_dash @
                '' the legacy X-Device-Report-Secret is accepted again on the 6 device-caller routes.'')
             (Some (if enabled then ''warning'' else ''info'')))
           (db\<lparr>id_enforced := map_set ws enabled (id_enforced db)\<rparr>)))"

definition verifyDeviceReportSecret :: "identity_env \<Rightarrow> string \<Rightarrow> string option \<Rightarrow> identity_db \<Rightarrow> unit result" where
  "verifyDeviceReportSecret env ws providedSecret db =
     (case find_secret ws (id_reportSecrets db) of
        None \<Rightarrow> throw 503 (''No device-report webhook secret is configured for workspace '' @ sq ws @ ''. Generate one from Settings.'')
      | Some r \<Rightarrow> guard_that (filled providedSecret [] \<noteq> [] \<and> timingSafeEqual (filled providedSecret []) (in_decrypt env (sc_secret r)))
          401 ''Invalid device-report secret'')"

definition verifyDeviceIdentity :: "identity_env \<Rightarrow> agent_request \<Rightarrow> identity_db \<Rightarrow> unit result \<times> identity_db" where
  "verifyDeviceIdentity env rq db =
     (if getMtlsEnforcementEnabled (rq_workspace rq) db then
        (case assertMtlsIdentity env rq db of (Inl e, db1) \<Rightarrow> (Inl e, db1) | (Inr _, db1) \<Rightarrow> (Inr (), db1))
      else (verifyDeviceReportSecret env (rq_workspace rq) (rq_reportSecret rq) db, db))"

section \<open>Runs of the identity tables\<close>

datatype id_call =
    GenerateCa string string bool
  | UploadCa string string string string bool
  | SetValidity string string int
  | RotateToken string string string
  | ClearToken string string
  | Register string string string string "string option"
  | Renew string agent_request string string
  | CheckIdentity agent_request
  | ListCerts string string "string option" "int option" "int option" "string option"
  | Revoke string string string string
  | SetPurge string string "bool \<times> int"
  | Purge string int string
  | PurgeAll
  | SetEnforcement string string bool

fun run_identity :: "identity_env \<times> id_call \<Rightarrow> identity_db \<Rightarrow> identity_db" where
  "run_identity (env, GenerateCa ws actor confirmed) db = snd (generateCa env ws actor confirmed db)"
| "run_identity (env, UploadCa ws actor pem key confirmed) db = snd (uploadCa env ws actor pem key confirmed db)"
| "run_identity (env, SetValidity ws actor days) db = snd (setLeafValidityDays env ws actor days db)"
| "run_identity (env, RotateToken new ws actor) db = snd (rotateGlobalBootstrapToken env new ws actor db)"
| "run_identity (env, ClearToken ws actor) db = clearGlobalBootstrapToken ws actor db"
| "run_identity (env, Register newId ws csr serial token) db = snd (registerDevice env newId ws csr serial token db)"
| "run_identity (env, Renew newId rq csr serial) db = snd (renew_route env newId rq csr serial db)"
| "run_identity (env, CheckIdentity rq) db = snd (verifyDeviceIdentity env rq db)"
| "run_identity (env, ListCerts ws st search limit offset token) db = snd (listCertificates env ws st search limit offset token db)"
| "run_identity (env, Revoke ws certId actor reason) db = snd (revokeCertificate env ws certId actor reason db)"
| "run_identity (env, SetPurge ws actor s) db = snd (setCertPurgeSettings ws actor s db)"
| "run_identity (env, Purge ws days actor) db = snd (purgeRevokedCertificates env ws days actor db)"
| "run_identity (env, PurgeAll) db = snd (purgeRevokedCertificatesForAllWorkspaces env db)"
| "run_identity (env, SetEnforcement ws actor b) db = snd (setMtlsEnforcementEnabled ws actor b db)"

text \<open>The calls happen one after the other, the clock does not go back.\<close>

definition in_order :: "int \<Rightarrow> (identity_env \<times> id_call) list \<Rightarrow> bool" where
  "in_order t calls \<longleftrightarrow> sorted_wrt (\<le>) (t # map (\<lambda>c. in_now (fst c)) calls)"

fun last_time :: "int \<Rightarrow> (identity_env \<times> id_call) list \<Rightarrow> int" where
  "last_time t [] = t"
| "last_time t (c # cs) = last_time (in_now (fst c)) cs"

section \<open>How a call changes the certificates\<close>

definition actives :: "int \<Rightarrow> string \<Rightarrow> string \<Rightarrow> identity_db \<Rightarrow> cert_row list" where
  "actives t ws serial db = filter (active_at t ws serial) (id_certs db)"

definition shrinks :: "int \<Rightarrow> identity_db \<Rightarrow> identity_db \<Rightarrow> bool" where
  "shrinks t db db' \<longleftrightarrow> (\<forall>ws serial. length (actives t ws serial db') \<le> length (actives t ws serial db))"

lemma shrinks_refl [simp]: "shrinks t db db"
  by (simp add: shrinks_def)

lemma shrinks_trans: "shrinks t a b \<Longrightarrow> shrinks t b c \<Longrightarrow> shrinks t a c"
  unfolding shrinks_def using le_trans by blast

lemma shrinks_same: "id_certs db' = id_certs db \<Longrightarrow> shrinks t db db'"
  by (simp add: shrinks_def actives_def)

lemma shrinks_upd:
  assumes "\<And>c ws serial. active_at t ws serial (f c) \<Longrightarrow> active_at t ws serial c"
  shows "shrinks t db (update_certs p f db)"
proof -
  have "length (filter (active_at t ws serial) (upd_where p f cs)) \<le> length (filter (active_at t ws serial) cs)" for ws serial cs
    by (induction cs) (auto dest: assms)
  then show ?thesis by (simp add: shrinks_def actives_def update_certs_def)
qed

lemma certs_frame [simp]:
  "id_certs (identity_audit ws ev db) = id_certs db" "id_certs (put_ca ws row db) = id_certs db"
  "id_certs (snd (claimNextSerial ws db)) = id_certs db"
  by (simp_all add: identity_audit_def put_ca_def claimNextSerial_def Let_def)

lemma purge_certs:
  "id_certs (snd (purgeRevokedCertificates env ws days actor db)) =
     filter (\<lambda>c. \<not> purge_candidate (in_now env) ws (retention_days days) c) (id_certs db)"
  by (simp add: purgeRevokedCertificates_def Let_def del_where_def)

lemma purge_shrinks: "shrinks t db (snd (purgeRevokedCertificates env ws days actor db))"
proof -
  have "length (filter p (filter q xs)) \<le> length (filter p xs)" for p q and xs :: "cert_row list"
    by (induction xs) auto
  then show ?thesis by (simp add: shrinks_def actives_def purge_certs)
qed

lemma purge_all_shrinks: "shrinks t db (snd (purgeRevokedCertificatesForAllWorkspaces env db))"
proof -
  have "shrinks t (snd acc) (snd (fold (\<lambda>(ws, _, days) (purged, cur).
      case purgeRevokedCertificates env ws days ''system'' cur of (n, cur') \<Rightarrow> (purged + n, cur')) xs acc))"
    for xs :: "(string \<times> bool \<times> int) list" and acc
  proof (induction xs arbitrary: acc)
    case (Cons x xs)
    obtain ws b days where x: "x = (ws, b, days)" by (cases x)
    obtain n cur where acc: "acc = (n, cur)" by (cases acc)
    obtain k cur' where purge: "purgeRevokedCertificates env ws days ''system'' cur = (k, cur')" by fastforce
    have "shrinks t cur cur'" using purge_shrinks [of t cur env ws days "''system''"] by (simp add: purge)
    from shrinks_trans [OF this] Cons.IH [of "(n + k, cur')"] show ?case by (simp add: x acc purge)
  qed simp
  from this [of "(0, db)"] show ?thesis by (simp add: purgeRevokedCertificatesForAllWorkspaces_def)
qed

lemma touch_shrinks: "shrinks t db (touchCertificateLastSeen env i db)"
  unfolding touchCertificateLastSeen_def by (rule shrinks_upd) (simp add: active_at_def)

lemma backfill_shrinks: "shrinks t db (backfillThumbprints env rows db)"
proof (induction rows arbitrary: db)
  case (Cons r rows)
  have "shrinks t db (update_certs p (\<lambda>c. c\<lparr>dc_thumbprintHex := x\<rparr>) db)" for p x
    by (rule shrinks_upd) (simp add: active_at_def)
  with shrinks_trans Cons show ?case
    by (simp add: backfillThumbprints_def) blast
qed (simp add: backfillThumbprints_def)

lemma revoke_shrinks: "shrinks t db (snd (revokeCertificate env ws i actor reason db))"
proof -
  have "shrinks t db (update_certs p (\<lambda>c. c\<lparr>dc_revokedAt := Some a, dc_revokedReason := b\<rparr>) db)" for p a b
    by (rule shrinks_upd) (simp add: active_at_def)
  moreover have "shrinks t db (identity_audit w ev x)" if "shrinks t db x" for w ev x
    using shrinks_trans [OF that shrinks_same] by simp
  ultimately show ?thesis by (simp add: revokeCertificate_def split: option.split)
qed

lemma identity_shrinks: "shrinks t db (snd (assertMtlsIdentity env rq db))"
  by (simp add: assertMtlsIdentity_def Let_def touch_shrinks split: option.split)

text \<open>An issue: no change, or one new row about the serial.\<close>

definition issue_row :: "identity_env \<Rightarrow> string \<Rightarrow> string \<Rightarrow> string \<Rightarrow> string \<Rightarrow> identity_db \<Rightarrow> cert_row \<Rightarrow> bool" where
  "issue_row env newId ws serial csr db row \<longleftrightarrow>
     dc_id row = newId \<and> dc_workspace row = ws \<and> dc_serialNumber row = serial \<and> dc_revokedAt row = None \<and> dc_supersededAt row = None \<and>
     (\<exists>c n. find_ca ws db = Some c \<and>
        in_sign env csr serial (ca_certPem c) (in_decrypt env (ca_privateKeyPem c)) (serialToHex n) = Inr (dc_certPem row) \<and>
        n = ca_serialCounter c \<and> dc_serialHex row = serialToHex n \<and> dc_notAfter row = in_now env + ca_leafValidityDays c * 86400000)"

lemma issueLeaf_certs:
  "(\<exists>e. fst (issueLeaf env newId ws serial csr db) = Inl e \<and> id_certs (snd (issueLeaf env newId ws serial csr db)) = id_certs db) \<or>
   (\<exists>leaf row. fst (issueLeaf env newId ws serial csr db) = Inr leaf \<and> issue_row env newId ws serial csr db row \<and>
      id_certs (snd (issueLeaf env newId ws serial csr db)) = id_certs db @ [row])"
proof (cases "find_ca ws db")
  case None
  then show ?thesis by (simp add: issueLeaf_def getCaForSigning_def)
next
  case (Some c)
  then show ?thesis
    by (cases "in_sign env csr serial (ca_certPem c) (in_decrypt env (ca_privateKeyPem c)) (serialToHex (ca_serialCounter c))")
      (simp_all add: issueLeaf_def getCaForSigning_def claimNextSerial_def issueCertificateRecord_def issue_row_def Let_def)
qed

lemma no_active: "findActiveCertificate env ws serial db = None \<longleftrightarrow> actives (in_now env) ws serial db = []"
  by (auto simp: findActiveCertificate_def actives_def find_None_iff filter_empty_conv)

definition enrolled :: "identity_env \<Rightarrow> string \<Rightarrow> string \<Rightarrow> bool" where
  "enrolled env ws serial \<longleftrightarrow>
     (case in_fleet env ws of Inl _ \<Rightarrow> False | Inr ds \<Rightarrow> \<exists>d\<in>set ds. fd_serialNumber d = serial)"

lemma register_certs:
  "(\<exists>e. fst (registerDevice env newId ws csr serial token db) = Inl e \<and> id_certs (snd (registerDevice env newId ws csr serial token db)) = id_certs db) \<or>
   (\<exists>leaf row. fst (registerDevice env newId ws csr serial token db) = Inr leaf \<and> issue_row env newId ws serial csr db row \<and>
      id_certs (snd (registerDevice env newId ws csr serial token db)) = id_certs db @ [row] \<and> actives (in_now env) ws serial db = [] \<and>
      token \<noteq> None \<and> token = map_option ss_secret (getGlobalBootstrapTokenStatus env ws db) \<and> enrolled env ws serial)"
proof -
  obtain r where r: "registerDevice env newId ws csr serial token db = r" by simp
  have token: "token \<noteq> None \<and> token = map_option ss_secret (getGlobalBootstrapTokenStatus env ws db)" if "verifyGlobalBootstrapToken env ws token db = Inr u" for u
    using that by (auto simp: verifyGlobalBootstrapToken_def guard_that_def throw_def timingSafeEqual_def filled_def Let_def
        split: if_splits option.splits)
  have fleet: "enrolled env ws serial" if "assertKnownApplivertyDevice env ws serial = Inr n" for n
    using that by (auto simp: assertKnownApplivertyDevice_def enrolled_def split: if_splits sum.splits option.splits
        dest: find_SomeD find_member)
  have active: "actives (in_now env) ws serial db = []" if "assertNotAlreadyActive env ws serial db = Inr u" for u
    using that by (auto simp: assertNotAlreadyActive_def guard_that_def throw_def no_active split: if_splits)
  show ?thesis
  proof (cases "verifyGlobalBootstrapToken env ws token db")
    case 1: (Inr u1)
    show ?thesis
    proof (cases "assertNotAlreadyActive env ws serial db")
      case 2: (Inr u2)
      show ?thesis
      proof (cases "assertKnownApplivertyDevice env ws serial")
        case 3: (Inr n)
        then show ?thesis
          using issueLeaf_certs [of env newId ws serial csr db] token [OF 1] active [OF 2] fleet [OF 3] 1 2
          by (cases "issueLeaf env newId ws serial csr db"; cases "fst (issueLeaf env newId ws serial csr db)")
            (auto simp: registerDevice_def)
      qed (simp add: registerDevice_def 1 2)
    qed (simp add: registerDevice_def 1)
  qed (simp add: registerDevice_def)
qed

lemma filter_upd_where:
  "(\<And>c. p c \<Longrightarrow> \<not> q (f c)) \<Longrightarrow> (\<And>c. q c \<Longrightarrow> p c = b) \<Longrightarrow> filter q (upd_where p f cs) = (if b then [] else filter q cs)"
proof (induction cs)
  case (Cons c cs)
  then show ?case by (cases "p c"; cases "q c"; cases b) simp_all
qed simp

lemma supersede_actives:
  "actives t w s (supersedeActiveCertificates env ws serial db) = (if w = ws \<and> s = serial then [] else actives t w s db)"
proof -
  have "filter (active_at t w s) (upd_where
      (\<lambda>c. dc_workspace c = ws \<and> dc_serialNumber c = serial \<and> dc_supersededAt c = None \<and> dc_revokedAt c = None)
      (\<lambda>c. c\<lparr>dc_supersededAt := Some (in_now env)\<rparr>) cs) = (if w = ws \<and> s = serial then [] else filter (active_at t w s) cs)" for cs
    by (rule filter_upd_where) (auto simp: active_at_def)
  then show ?thesis by (simp add: actives_def supersedeActiveCertificates_def update_certs_def)
qed

lemma issue_row_base: "issue_row env i ws serial csr db row \<Longrightarrow> find_ca ws db' = find_ca ws db \<Longrightarrow> issue_row env i ws serial csr db' row"
  by (simp add: issue_row_def)

text \<open>A renewal: refused, or the certificates of the verified serial are superseded and at most one new row follows.\<close>

lemma renew_certs:
  "(shrinks t db (snd (renew_route env newId rq csr serial db)) \<and>
      (\<forall>cn. fst (assertMtlsIdentity env rq db) = Inr cn \<longrightarrow> cn \<noteq> serial)) \<or>
   (fst (assertMtlsIdentity env rq db) = Inr serial \<and>
    (\<exists>rows. (\<forall>row\<in>set rows. dc_workspace row = rq_workspace rq \<and> dc_serialNumber row = serial) \<and> length rows \<le> 1 \<and>
       (rows = [] \<longleftrightarrow> (\<exists>e. fst (renew_route env newId rq csr serial db) = Inl e)) \<and>
       id_certs (snd (renew_route env newId rq csr serial db)) =
         id_certs (supersedeActiveCertificates env (rq_workspace rq) serial (snd (assertMtlsIdentity env rq db))) @ rows))"
proof -
  obtain r db1 where who: "assertMtlsIdentity env rq db = (r, db1)" by fastforce
  have small: "shrinks t db db1" using identity_shrinks [of t db env rq] by (simp add: who)
  show ?thesis
  proof (cases "r = Inr serial")
    case True
    let ?base = "supersedeActiveCertificates env (rq_workspace rq) serial db1"
    from issueLeaf_certs [of env newId "rq_workspace rq" serial csr ?base] show ?thesis
    proof (elim disjE exE conjE)
      fix e assume "fst (issueLeaf env newId (rq_workspace rq) serial csr ?base) = Inl e"
        "id_certs (snd (issueLeaf env newId (rq_workspace rq) serial csr ?base)) = id_certs ?base"
      then show ?thesis
        by (cases "issueLeaf env newId (rq_workspace rq) serial csr ?base")
          (simp add: renew_route_def renewDevice_def who True)
    next
      fix leaf row assume "fst (issueLeaf env newId (rq_workspace rq) serial csr ?base) = Inr leaf"
        "issue_row env newId (rq_workspace rq) serial csr ?base row"
        "id_certs (snd (issueLeaf env newId (rq_workspace rq) serial csr ?base)) = id_certs ?base @ [row]"
      then show ?thesis
        by (cases "issueLeaf env newId (rq_workspace rq) serial csr ?base")
          (auto simp: renew_route_def renewDevice_def who True issue_row_def intro!: exI [of _ "[row]"])
    qed
  next
    case False
    then show ?thesis using small by (cases r) (simp_all add: renew_route_def renewDevice_def who)
  qed
qed

lemma other_calls_shrink:
  assumes "\<And>i ws csr s tok. c \<noteq> Register i ws csr s tok" "\<And>i rq csr s. c \<noteq> Renew i rq csr s"
  shows "shrinks t db (run_identity (env, c) db)"
proof (cases c)
  case (CheckIdentity rq)
  then show ?thesis using identity_shrinks [of t db env rq] by (auto simp: verifyDeviceIdentity_def split: prod.split sum.split)
next
  case (ListCerts ws st search limit offset token)
  then show ?thesis by (simp add: listCertificates_def Let_def backfill_shrinks)
next
  case (Revoke ws i actor reason)
  then show ?thesis by (simp add: revoke_shrinks)
next
  case (Purge ws days actor)
  then show ?thesis by (simp add: purge_shrinks)
next
  case PurgeAll
  then show ?thesis by (simp add: purge_all_shrinks)
qed (use assms in \<open>auto simp: generateCa_def uploadCa_def setLeafValidityDays_def rotateGlobalBootstrapToken_def clearGlobalBootstrapToken_def
    setCertPurgeSettings_def setMtlsEnforcementEnabled_def Let_def split: sum.split prod.split intro!: shrinks_same\<close>)

section \<open>One active certificate per device\<close>

definition at_most_one :: "int \<Rightarrow> identity_db \<Rightarrow> bool" where
  "at_most_one t db \<longleftrightarrow> (\<forall>ws serial. length (actives t ws serial db) \<le> 1)"

lemma actives_later: "t \<le> t' \<Longrightarrow> length (actives t' ws serial db) \<le> length (actives t ws serial db)"
proof -
  assume "t \<le> t'"
  then have "active_at t' ws serial c \<Longrightarrow> active_at t ws serial c" for c by (auto simp: active_at_def)
  then have "length (filter (active_at t' ws serial) cs) \<le> length (filter (active_at t ws serial) cs)" for cs
    by (induction cs) auto
  then show ?thesis by (simp add: actives_def)
qed

lemma at_most_one_later: "at_most_one t db \<Longrightarrow> t \<le> t' \<Longrightarrow> at_most_one t' db"
  unfolding at_most_one_def using actives_later le_trans by blast

lemma at_most_one_shrinks: "at_most_one t db \<Longrightarrow> shrinks t db db' \<Longrightarrow> at_most_one t db'"
  unfolding at_most_one_def shrinks_def using le_trans by blast

lemma actives_append: "id_certs db' = id_certs db @ rows \<Longrightarrow> actives t ws serial db' = actives t ws serial db @ filter (active_at t ws serial) rows"
  by (simp add: actives_def)

lemma call_at_most_one:
  assumes "at_most_one (in_now env) db"
  shows "at_most_one (in_now env) (run_identity (env, c) db)"
proof -
  let ?t = "in_now env"
  consider i ws csr serial token where "c = Register i ws csr serial token" | i rq csr serial where "c = Renew i rq csr serial"
    | "shrinks ?t db (run_identity (env, c) db)"
    using other_calls_shrink [of c ?t db env] by blast
  then show ?thesis
  proof cases
    case 1
    from register_certs [of env i ws csr serial token db] show ?thesis
    proof (elim disjE exE conjE)
      fix e assume "id_certs (snd (registerDevice env i ws csr serial token db)) = id_certs db"
      then show ?thesis using at_most_one_shrinks [OF assms shrinks_same] 1 by simp
    next
      fix leaf row
      assume row: "issue_row env i ws serial csr db row" "actives ?t ws serial db = []"
        and certs: "id_certs (snd (registerDevice env i ws csr serial token db)) = id_certs db @ [row]"
      have "length (actives ?t w s (run_identity (env, c) db)) \<le> 1" for w s
        using actives_append [of "run_identity (env, c) db" db "[row]" ?t w s] certs row assms
        by (cases "w = ws \<and> s = serial") (auto simp: 1 issue_row_def active_at_def at_most_one_def)
      then show ?thesis by (simp add: at_most_one_def)
    qed
  next
    case 2
    from renew_certs [of ?t db env i rq csr serial] show ?thesis
    proof (elim disjE exE conjE)
      assume "shrinks ?t db (snd (renew_route env i rq csr serial db))"
      then show ?thesis using at_most_one_shrinks [OF assms] 2 by simp
    next
      fix rows
      let ?db1 = "snd (assertMtlsIdentity env rq db)"
      assume rows: "\<forall>row\<in>set rows. dc_workspace row = rq_workspace rq \<and> dc_serialNumber row = serial" "length rows \<le> 1"
        and certs: "id_certs (snd (renew_route env i rq csr serial db)) =
          id_certs (supersedeActiveCertificates env (rq_workspace rq) serial ?db1) @ rows"
      have one: "length (actives ?t w s ?db1) \<le> 1" for w s
        using at_most_one_shrinks [OF assms identity_shrinks] by (simp add: at_most_one_def)
      have parts: "actives ?t w s (run_identity (env, c) db) =
          actives ?t w s (supersedeActiveCertificates env (rq_workspace rq) serial ?db1) @ filter (active_at ?t w s) rows" for w s
        by (rule actives_append) (simp add: 2 certs)
      have "length (actives ?t w s (run_identity (env, c) db)) \<le> 1" for w s
      proof (cases "w = rq_workspace rq \<and> s = serial")
        case True
        then show ?thesis using rows(2) le_trans [OF length_filter_le] by (simp add: parts supersede_actives)
      next
        case False
        then have "filter (active_at ?t w s) rows = []" using rows(1) by (auto simp: filter_empty_conv active_at_def)
        then show ?thesis using one [of w s] False by (auto simp: parts supersede_actives)
      qed
      then show ?thesis by (simp add: at_most_one_def)
    qed
  next
    case 3
    then show ?thesis by (rule at_most_one_shrinks [OF assms])
  qed
qed

lemma in_order_Cons: "in_order t (c # cs) \<longleftrightarrow> t \<le> in_now (fst c) \<and> in_order (in_now (fst c)) cs"
  unfolding in_order_def by (auto intro: order_trans)

lemma calls_at_most_one:
  "at_most_one t db \<Longrightarrow> in_order t calls \<Longrightarrow> at_most_one (last_time t calls) (fold run_identity calls db)"
proof (induction calls arbitrary: t db)
  case (Cons c cs)
  obtain env k where c: "c = (env, k)" by (cases c)
  have "at_most_one (in_now env) (run_identity (env, k) db)"
    using Cons.prems at_most_one_later by (intro call_at_most_one) (auto simp: in_order_Cons c)
  with Cons.IH Cons.prems show ?case by (simp add: in_order_Cons c)
qed simp

text \<open>
  C7: Whatever the calls and their order, at no time do two certificates of one device count as valid: in every
  state reached from a table without certificates, and at every later time, at most one row of a workspace and a
  serial number is neither revoked nor superseded nor expired.
\<close>

theorem one_active_certificate:
  assumes "id_certs db = []" and "in_order start calls" and "last_time start calls \<le> t"
  shows "length (filter (active_at t ws serial) (id_certs (fold run_identity calls db))) \<le> 1"
proof -
  have "at_most_one start db" using assms(1) by (simp add: at_most_one_def actives_def)
  from at_most_one_later [OF calls_at_most_one [OF this assms(2)] assms(3)] show ?thesis
    by (simp add: at_most_one_def actives_def)
qed

section \<open>Nothing opens the door again but a registration\<close>

fun registers :: "string \<Rightarrow> string \<Rightarrow> id_call \<Rightarrow> bool" where
  "registers ws serial (Register i ws' csr serial' token) \<longleftrightarrow> ws' = ws \<and> serial' = serial"
| "registers ws serial c \<longleftrightarrow> False"

lemma identity_needs_active:
  "fst (assertMtlsIdentity env rq db) = Inr cn \<Longrightarrow>
     cn = extractCommonName (filled (rq_cn rq) []) \<and> actives (in_now env) (rq_workspace rq) cn db \<noteq> []"
  by (auto simp: assertMtlsIdentity_def throw_def Let_def no_active [symmetric] split: if_splits option.splits)

lemma shut_out:
  assumes "actives (in_now env) (rq_workspace rq) (extractCommonName (filled (rq_cn rq) [])) db = []"
  shows "\<exists>e. fst (assertMtlsIdentity env rq db) = Inl e"
  using identity_needs_active [of env rq db] assms by (cases "fst (assertMtlsIdentity env rq db)") auto

lemma actives_later_empty: "t \<le> t' \<Longrightarrow> actives t ws serial db = [] \<Longrightarrow> actives t' ws serial db = []"
  using actives_later [of t t' ws serial db] by simp

lemma shrinks_empty: "shrinks t db db' \<Longrightarrow> actives t ws serial db = [] \<Longrightarrow> actives t ws serial db' = []"
  unfolding shrinks_def by (metis le_zero_eq length_0_conv)

lemma call_stays_out:
  assumes none: "actives (in_now env) ws serial db = []" and call: "\<not> registers ws serial c"
  shows "actives (in_now env) ws serial (run_identity (env, c) db) = []"
proof -
  let ?t = "in_now env"
  consider i w csr s token where "c = Register i w csr s token" | i rq csr s where "c = Renew i rq csr s"
    | "shrinks ?t db (run_identity (env, c) db)"
    using other_calls_shrink [of c ?t db env] by blast
  then show ?thesis
  proof cases
    case 1
    from register_certs [of env i w csr s token db] show ?thesis
    proof (elim disjE exE conjE)
      fix e assume "id_certs (snd (registerDevice env i w csr s token db)) = id_certs db"
      then show ?thesis using none by (simp add: 1 actives_def)
    next
      fix leaf row assume "issue_row env i w s csr db row" "id_certs (snd (registerDevice env i w csr s token db)) = id_certs db @ [row]"
      then show ?thesis using none call by (auto simp: 1 issue_row_def actives_def active_at_def)
    qed
  next
    case 2
    let ?db1 = "snd (assertMtlsIdentity env rq db)"
    from renew_certs [of ?t db env i rq csr s] show ?thesis
    proof (elim disjE exE conjE)
      assume "shrinks ?t db (snd (renew_route env i rq csr s db))"
      then show ?thesis using shrinks_empty none by (simp add: 2)
    next
      fix rows
      assume who: "fst (assertMtlsIdentity env rq db) = Inr s"
        and rows: "\<forall>row\<in>set rows. dc_workspace row = rq_workspace rq \<and> dc_serialNumber row = s"
        and certs: "id_certs (snd (renew_route env i rq csr s db)) =
          id_certs (supersedeActiveCertificates env (rq_workspace rq) s ?db1) @ rows"
      have other: "\<not> (ws = rq_workspace rq \<and> serial = s)" using identity_needs_active [OF who] none by auto
      then have "filter (active_at ?t ws serial) rows = []" using rows by (auto simp: filter_empty_conv active_at_def)
      moreover have "actives ?t ws serial ?db1 = []" using shrinks_empty [OF identity_shrinks none] .
      ultimately show ?thesis using actives_append [OF certs, of ?t ws serial] other by (auto simp: 2 supersede_actives)
    qed
  next
    case 3
    then show ?thesis using shrinks_empty none by blast
  qed
qed

lemma calls_stay_out:
  "actives t ws serial db = [] \<Longrightarrow> in_order t calls \<Longrightarrow> \<forall>c\<in>set calls. \<not> registers ws serial (snd c) \<Longrightarrow>
     actives (last_time t calls) ws serial (fold run_identity calls db) = []"
proof (induction calls arbitrary: t db)
  case (Cons c cs)
  obtain env k where c: "c = (env, k)" by (cases c)
  have "actives (in_now env) ws serial (run_identity (env, k) db) = []"
    using Cons.prems actives_later_empty by (intro call_stays_out) (auto simp: in_order_Cons c)
  with Cons.IH Cons.prems show ?case by (simp add: in_order_Cons c)
qed simp

lemma revoke_empties:
  assumes "at_most_one (in_now env) db" and "findActiveCertificate env ws serial db = Some i"
    and ok: "fst (revokeCertificate env w i actor reason db) = Inr ()"
  shows "actives (in_now env) ws serial (snd (revokeCertificate env w i actor reason db)) = []"
proof -
  let ?A = "active_at (in_now env) ws serial"
  have certs: "id_certs (snd (revokeCertificate env w i actor reason db)) =
      upd_where (\<lambda>c. dc_id c = i) (\<lambda>c. c\<lparr>dc_revokedAt := Some (in_now env), dc_revokedReason := Some reason\<rparr>) (id_certs db)"
    using ok by (auto simp: revokeCertificate_def throw_def update_certs_def split: option.splits if_splits)
  have "filter ?A (upd_where (\<lambda>c. dc_id c = i) (\<lambda>c. c\<lparr>dc_revokedAt := Some a, dc_revokedReason := b\<rparr>) cs) =
      filter (\<lambda>c. dc_id c \<noteq> i) (filter ?A cs)" for a b cs
    by (induction cs) (auto simp: active_at_def)
  then have rest: "actives (in_now env) ws serial (snd (revokeCertificate env w i actor reason db)) =
      filter (\<lambda>c. dc_id c \<noteq> i) (actives (in_now env) ws serial db)"
    by (simp add: actives_def certs)
  have one: "length (actives (in_now env) ws serial db) \<le> 1" using assms(1) by (simp add: at_most_one_def)
  obtain c where "c \<in> set (actives (in_now env) ws serial db)" "dc_id c = i"
    using assms(2) by (auto simp: findActiveCertificate_def actives_def dest: find_SomeD find_member)
  with one show ?thesis
    by (cases "actives (in_now env) ws serial db") (auto simp: rest)
qed

text \<open>
  C10: A revoked device is out until it registers again: once the active certificate of a device is revoked, no
  request under its name passes the identity check, with any calls in between - renewals, checks, purges, new
  authorities, other devices - as long as none of them registers this device anew; with enforcement on its reports
  are refused, and so are its renewals.
\<close>

theorem revoked_stays_out:
  assumes "id_certs db0 = []" and "in_order start calls" and "last_time start calls \<le> in_now env"
    and "findActiveCertificate env ws serial (fold run_identity calls db0) = Some i"
    and "revokeCertificate env ws i actor reason (fold run_identity calls db0) = (Inr (), db)"
    and "in_order (in_now env) later" and "\<forall>c\<in>set later. \<not> registers ws serial (snd c)"
    and "last_time (in_now env) later \<le> in_now env'"
    and "rq_workspace rq = ws" and "extractCommonName (filled (rq_cn rq) []) = serial"
  shows "(\<exists>e. fst (assertMtlsIdentity env' rq (fold run_identity later db)) = Inl e) \<and>
    (\<exists>e. fst (renew_route env' newId rq csr serial (fold run_identity later db)) = Inl e) \<and>
    (getMtlsEnforcementEnabled ws (fold run_identity later db) \<longrightarrow>
       (\<exists>e. fst (verifyDeviceIdentity env' rq (fold run_identity later db)) = Inl e))"
proof -
  have "at_most_one start db0" using assms(1) by (simp add: at_most_one_def actives_def)
  from at_most_one_later [OF calls_at_most_one [OF this assms(2)] assms(3)] have "actives (in_now env) ws serial db = []"
    using revoke_empties [OF _ assms(4), of ws actor reason] assms(5) by simp
  from actives_later_empty [OF assms(8) calls_stay_out [OF this assms(6,7)]]
  obtain e where "fst (assertMtlsIdentity env' rq (fold run_identity later db)) = Inl e"
    using shut_out [of env' rq "fold run_identity later db"] assms(9,10) by auto
  then show ?thesis
    by (cases "assertMtlsIdentity env' rq (fold run_identity later db)")
      (simp add: renew_route_def verifyDeviceIdentity_def assms(9))
qed

text \<open>
  C18: A registration passes two gates and the guard against taking a device over: it succeeds only with the stored
  bootstrap token, for a serial of the live fleet that has no active certificate; it then adds one certificate, bound
  to that serial and not to the name in the request, and the device is let in with it until it expires. A refused
  registration changes no certificate.
\<close>

theorem register_gate:
  assumes "registerDevice env newId ws csr serial token db = (r, db')"
  shows "case r of
      Inl e \<Rightarrow> id_certs db' = id_certs db
    | Inr leaf \<Rightarrow> token \<noteq> None \<and> token = map_option ss_secret (getGlobalBootstrapTokenStatus env ws db) \<and> enrolled env ws serial \<and>
        findActiveCertificate env ws serial db = None \<and>
        (\<exists>row. issue_row env newId ws serial csr db row \<and> id_certs db' = id_certs db @ [row] \<and>
           (\<forall>t < dc_notAfter row. active_at t ws serial row))"
proof -
  from register_certs [of env newId ws csr serial token db] assms show ?thesis
    by (elim disjE exE conjE) (auto simp: no_active issue_row_def active_at_def)
qed

text \<open>
  C39: A renewal that fails after the identity check locks the device out: the old certificate is already superseded
  when the new one cannot be signed (no authority, a bad request), so no active certificate is left, the same request
  is refused from then on, and the only way back is a registration.
\<close>

theorem renew_failure_locks_out:
  assumes "fst (assertMtlsIdentity env rq db) = Inr serial"
    and "renew_route env newId rq csr serial db = (Inl e, db')" and "in_now env \<le> in_now env'"
  shows "findActiveCertificate env' (rq_workspace rq) serial db' = None \<and> (\<exists>e'. fst (assertMtlsIdentity env' rq db') = Inl e')"
proof -
  from renew_certs [of "in_now env" db env newId rq csr serial] assms(1,2)
  have "id_certs db' = id_certs (supersedeActiveCertificates env (rq_workspace rq) serial (snd (assertMtlsIdentity env rq db)))"
    by (elim disjE exE conjE) auto
  then have "actives (in_now env) (rq_workspace rq) serial db' = []"
    using supersede_actives [of "in_now env" "rq_workspace rq" serial env "rq_workspace rq" serial "snd (assertMtlsIdentity env rq db)"]
    by (simp add: actives_def)
  from actives_later_empty [OF assms(3) this] show ?thesis
    using shut_out [of env' rq db'] identity_needs_active [OF assms(1)] by (simp add: no_active)
qed

section \<open>A workspace with one device\<close>

definition door_env :: "int \<Rightarrow> identity_env" where
  "door_env now = \<lparr>in_now = now, in_sign = (\<lambda>csr cn ca key serial. if csr = ''bad'' then Inl ''Could not parse the submitted CSR as a valid PKCS#10 PEM.''
       else Inr (cn @ ''#'' @ serial)),
     in_generateCa = (\<lambda>ws. \<lparr>nc_certPem = ''ca'', nc_privateKeyPem = ''key'', nc_notBefore = 0, nc_notAfter = 864000000000\<rparr>),
     in_checkPair = (\<lambda>_ _. Inl None), in_thumbprint = (\<lambda>_. None), in_encrypt = id, in_decrypt = id, in_bearer = (\<lambda>_. Some ''token''),
     in_fleet = (\<lambda>_. Inr [edr_mac]), in_proxySecret = ''p''\<rparr>"

definition door_empty :: identity_db where
  "door_empty = \<lparr>id_cas = [], id_certs = [], id_tokens = [], id_reportSecrets = [], id_purge = [], id_enforced = [], id_audit = []\<rparr>"

definition door_serial :: string where
  "door_serial = fd_serialNumber edr_mac"

definition door_request :: agent_request where
  "door_request = \<lparr>rq_workspace = ''w'', rq_proxySecret = Some ''p'', rq_verified = Some ''SUCCESS'', rq_cn = Some (''CN='' @ door_serial @ '',O=Example''),
     rq_reportSecret = None\<rparr>"

definition door_calls :: "(identity_env \<times> id_call) list" where
  "door_calls = [(door_env 1, GenerateCa ''w'' ''ann'' False), (door_env 2, RotateToken ''boot'' ''w'' ''ann''),
     (door_env 3, SetEnforcement ''w'' ''ann'' True), (door_env 4, Register ''c1'' ''w'' ''csr'' door_serial (Some ''boot'')),
     (door_env 5, CheckIdentity door_request)]"

lemma audit_frame [simp]:
  "id_cas (identity_audit ws ev db) = id_cas db" "id_tokens (identity_audit ws ev db) = id_tokens db"
  "id_enforced (identity_audit ws ev db) = id_enforced db" "id_reportSecrets (identity_audit ws ev db) = id_reportSecrets db"
  by (simp_all add: identity_audit_def)

lemma door_serial: "door_serial = ''S1''"
  by (simp add: door_serial_def edr_mac_def)

lemma door_cn: "extractCommonName (filled (rq_cn door_request) []) = door_serial"
  unfolding door_serial door_request_def by code_simp

lemmas door_simps = find_ca_def find_secret_def put_ca_def put_secret_def new_ca_row_def generateCa_def assertReplaceConfirmed_def
  guard_that_def Let_def rotateGlobalBootstrapToken_def setMtlsEnforcementEnabled_def registerDevice_def verifyGlobalBootstrapToken_def
  getGlobalBootstrapTokenStatus_def secret_view_def filled_def timingSafeEqual_def assertNotAlreadyActive_def findActiveCertificate_def
  assertKnownApplivertyDevice_def issueLeaf_def getCaForSigning_def claimNextSerial_def issueCertificateRecord_def active_at_def
  MTLS_LEAF_VALIDITY_DAYS_DEFAULT_def verifyDeviceIdentity_def getMtlsEnforcementEnabled_def map_set_def
  touchCertificateLastSeen_def update_certs_def door_env_def

definition door_row :: cert_row where
  "door_row = \<lparr>dc_id = ''c1'', dc_workspace = ''w'', dc_serialNumber = ''S1'', dc_serialHex = serialToHex 1, dc_certPem = ''S1#'' @ serialToHex 1,
     dc_thumbprintHex = None, dc_notBefore = 4, dc_notAfter = 4 + 90 * 86400000, dc_supersededAt = None, dc_revokedAt = None,
     dc_revokedReason = None, dc_issuedAt = 4, dc_lastSeenAt = Some 5\<rparr>"

lemma door_ready:
  "id_certs (fold run_identity door_calls door_empty) = [door_row] \<and>
   id_enforced (fold run_identity door_calls door_empty) = [(''w'', True)] \<and>
   map ca_workspace (id_cas (fold run_identity door_calls door_empty)) = [''w'']"
proof -
  have cn: "extractCommonName (''CN='' @ ''S1,O=Example'') = ''S1''" by code_simp
  show ?thesis
    unfolding door_calls_def door_empty_def using cn
    by (simp add: door_simps door_serial door_row_def assertMtlsIdentity_def door_request_def edr_mac_def)
qed

lemma door_in_order: "in_order 0 door_calls" "last_time 0 door_calls = 5"
  by (simp_all add: in_order_def door_calls_def door_env_def)

lemma in_now_door [simp]: "in_now (door_env n) = n"
  by (simp add: door_env_def)

lemma door_active: "t < 7776000004 \<Longrightarrow> active_at t ''w'' ''S1'' door_row"
  by (simp add: active_at_def door_row_def)

lemma door_find: "now < 7776000004 \<Longrightarrow> findActiveCertificate (door_env now) ''w'' ''S1'' (fold run_identity door_calls door_empty) = Some ''c1''"
  by (simp add: findActiveCertificate_def door_ready door_active door_env_def) (simp add: door_row_def)

lemma door_workspace: "rq_workspace door_request = ''w''"
  by (simp add: door_request_def)

lemma door_passes: "now < 7776000004 \<Longrightarrow> fst (assertMtlsIdentity (door_env now) door_request (fold run_identity door_calls door_empty)) = Inr ''S1''"
  using door_cn by (simp add: assertMtlsIdentity_def door_serial door_workspace door_find)
    (simp add: door_request_def door_env_def filled_def timingSafeEqual_def)

theorem one_active_certificate_witness:
  "id_certs (fold run_identity door_calls door_empty) = [door_row] \<and>
   length (filter (active_at 6 ''w'' ''S1'') (id_certs (fold run_identity door_calls door_empty))) \<le> 1"
  using one_active_certificate [of door_empty 0 door_calls 6 "''w''" "''S1''"] door_ready door_in_order
  by (simp add: door_empty_def)

theorem revoked_stays_out_witness:
  "\<exists>e. fst (assertMtlsIdentity (door_env 9) door_request (fold run_identity [(door_env 8, Renew ''c2'' door_request ''csr'' ''S1'')]
     (snd (revokeCertificate (door_env 7) ''w'' ''c1'' ''ann'' ''lost'' (fold run_identity door_calls door_empty))))) = Inl e"
proof -
  obtain db where "revokeCertificate (door_env 7) ''w'' ''c1'' ''ann'' ''lost'' (fold run_identity door_calls door_empty) = (Inr (), db)"
    using door_ready by (simp add: revokeCertificate_def door_row_def)
  with revoked_stays_out [of door_empty 0 door_calls "door_env 7" "''w''" "''S1''" "''c1''" "''ann''" "''lost''" db
      "[(door_env 8, Renew ''c2'' door_request ''csr'' ''S1'')]" "door_env 9" door_request] door_in_order door_find [of 7] door_cn
  show ?thesis by (simp add: door_empty_def door_workspace door_serial in_order_def)
qed

theorem renew_failure_locks_out_witness:
  "\<exists>e. fst (assertMtlsIdentity (door_env 8) door_request
     (snd (renew_route (door_env 7) ''c2'' door_request ''bad'' ''S1'' (fold run_identity door_calls door_empty)))) = Inl e"
proof -
  have bad: "\<exists>e db'. issueLeaf (door_env 7) ''c2'' ''w'' ''S1'' ''bad'' db = (Inl e, db')" for db
    by (simp add: issueLeaf_def door_env_def split: option.split prod.split)
  obtain db1 where "assertMtlsIdentity (door_env 7) door_request (fold run_identity door_calls door_empty) = (Inr ''S1'', db1)"
    using door_passes [of 7] by (cases "assertMtlsIdentity (door_env 7) door_request (fold run_identity door_calls door_empty)") simp
  moreover obtain e db' where "issueLeaf (door_env 7) ''c2'' ''w'' ''S1'' ''bad'' (supersedeActiveCertificates (door_env 7) ''w'' ''S1'' db1) = (Inl e, db')"
    using bad by blast
  ultimately have "renew_route (door_env 7) ''c2'' door_request ''bad'' ''S1'' (fold run_identity door_calls door_empty) = (Inl e, db')"
    by (simp add: renew_route_def renewDevice_def door_workspace)
  with renew_failure_locks_out [OF door_passes this, of "door_env 8"] show ?thesis by simp
qed

theorem register_gate_witness:
  "\<exists>row. id_certs (snd (registerDevice (door_env 4) ''c1'' ''w'' ''csr'' ''S1'' (Some ''boot'') (fold run_identity (take 3 door_calls) door_empty))) = [row] \<and>
     dc_serialNumber row = ''S1'' \<and> findActiveCertificate (door_env 4) ''w'' ''S1'' (fold run_identity (take 3 door_calls) door_empty) = None"
proof -
  obtain leaf db' where reg:
    "registerDevice (door_env 4) ''c1'' ''w'' ''csr'' ''S1'' (Some ''boot'') (fold run_identity (take 3 door_calls) door_empty) = (Inr leaf, db')"
    by (simp add: door_calls_def door_empty_def door_simps edr_mac_def)
  have none: "id_certs (fold run_identity (take 3 door_calls) door_empty) = []"
    by (simp add: door_calls_def door_empty_def door_simps)
  from register_gate [OF reg] obtain row where row: "issue_row (door_env 4) ''c1'' ''w'' ''S1'' ''csr'' (fold run_identity (take 3 door_calls) door_empty) row"
    "id_certs db' = [row]" "findActiveCertificate (door_env 4) ''w'' ''S1'' (fold run_identity (take 3 door_calls) door_empty) = None"
    by (simp only: sum.case none append_Nil) blast
  from row(1) have "dc_serialNumber row = ''S1''" by (simp only: issue_row_def)
  with row(2,3) show ?thesis by (simp only: reg snd_conv) blast
qed

end
