(* ===== verification/Spec2Isabelle.thy ===== *)
theory Spec2Isabelle
  imports Rbac DeviceRisk DeviceIdentity
begin

text \<open>
  \<^bold>\<open>Applivery SOAR, a verification library.\<close>

  The program is a backend (\<open>src/backend/src\<close>) that watches a fleet of devices managed by Applivery and reacts:
  compliance policies are evaluated against the devices, a violation opens a case, raises an alert and may start
  a workflow, and a workflow is a chain of steps on a device (MDM commands, scripts, policy changes, notifications,
  waits). Around this core stand the roles that decide who may do what, the limiters and caches of the Applivery
  API, and the tables. The parts call each other top down: evaluation pass, cases, launch of runs, step chains, step
  executors, Applivery API.

  \<^bold>\<open>Theories and code\<close> (paths below \<open>src/backend/src\<close>).
  \<^item> \<open>Prelude\<close>, \<open>JsValue\<close>: errors as \<open>http_error + 'a\<close>, string and table operations (\<open>map_set\<close> is a write to a
    JavaScript object, \<open>upd_where\<close> and \<open>del_where\<close> are row updates), untyped values with truthiness, coercions,
    number text and dates.
  \<^item> \<open>RateControl\<close>: \<open>utils/tokenBucket.ts\<close>, \<open>middleware/rateLimiter.middleware.ts\<close>, \<open>services/liveCache.ts\<close>,
    \<open>jobs/jobReentrancyGuard.ts\<close>. The cache is an instance of \<open>ttl_store\<close>, as is the access cache of \<open>Rbac\<close>.
  \<^item> \<open>AppliveryApi\<close>: retry and pagination of \<open>services/appliveryClient.ts\<close> and \<open>appliveryPaginate.ts\<close>.
  \<^item> \<open>AuditLog\<close>, \<open>Rbac\<close>: \<open>services/auditLog.ts\<close>; \<open>modules/auth/rbac.service.ts\<close>, the access endpoint,
    \<open>middleware/rbac.middleware.ts\<close> and the role table.
  \<^item> \<open>ComplianceEval\<close>, \<open>ComplianceCatalog\<close>, \<open>Geofence\<close>: the conditions of a policy (\<open>complianceEvaluate.ts\<close>),
    the catalogs and templates of \<open>complianceFields.ts\<close>, the zones of \<open>modules/geofencing\<close>.
  \<^item> \<open>WorkflowEngine\<close>, \<open>DurableRuns\<close>: the walks over a step chain, in memory and durable, the dry run; the run
    tables, parking, resumption, completion and the launch. The steps are a parameter (\<open>'w engine\<close>).
  \<^item> \<open>Templates\<close>, \<open>MdmActions\<close>, \<open>DeviceStack\<close>, \<open>StepExecutors\<close>: placeholders; the registry and executor of MDM actions;
    the policy stack of a device; every step executor and their dispatch, which instantiates the parameter of the
    engines (\<open>step_engine\<close>, \<open>step_chain_env\<close>).
  \<^item> \<open>WorkflowTable\<close>: workflows, their versions, the destructive test and the manual run.
  \<^item> \<open>Cases\<close>, \<open>CaseLife\<close>, \<open>CaseNotices\<close>: every operation on cases, the auto-run rules, the SLA monitor, the ticket
    sync, the export; \<open>case_step\<close> is the transition relation they generate.
  \<^item> \<open>DeviceStores\<close>: app catalog, App Lists, inventories, locations, and the two refreshers, instances of \<open>refresher\<close>.
  \<^item> \<open>CompliancePolicies\<close>, \<open>CompliancePass\<close>: the policy table; the evaluation pass with its circuit breaker, caps,
    markers, alerts and cases, the forced evaluations, the scheduler and the review queue.
  \<^item> \<open>Triggers\<close>: \<open>modules/workflows/triggers.service.ts\<close>, the webhooks through which external systems start a workflow
    and report that a device is affected or recovered; \<open>trigger_db\<close> adds their tables to \<open>comp_db\<close>, and \<open>live_env\<close> is
    the fleet as the next pass reads it. The handlers start a pass for the device and do not await it:
    \<open>begin_forced\<close> is what happens before the answer, \<open>td_background\<close> the pending passes, \<open>run_background\<close> one of them
    running, and \<open>event\<close> a call or a pass that runs, in any order.
  \<^item> \<open>DeviceRisk\<close>: \<open>computeDeviceRisk\<close> of \<open>modules/devices/deviceNormalize.ts\<close> and the join of cases, violations and
    compliance state to a device in \<open>devices.service.ts\<close>; its tier is what the escalation of a pass compares.
  \<^item> \<open>DeviceIdentity\<close>: \<open>modules/mtls\<close>, \<open>middleware/mtlsIdentity.middleware.ts\<close> and the check at the door of the device
    routes (\<open>devices/deviceData.service.ts\<close>, \<open>settings/deviceReportSecret.service.ts\<close>): how a device gets, renews and
    loses its certificate. \<open>id_call\<close> and \<open>run_identity\<close> are the calls on its tables (\<open>identity_db\<close>).

  \<^bold>\<open>State.\<close> A table is a list of records in insertion order, a JavaScript object or \<open>Map\<close> an association list; a
  handler takes the tables it writes and returns them with its result. \<open>comp_db\<close> holds the compliance tables and,
  inside, \<open>case_db\<close>, which holds the runs (\<open>run_system\<close>); \<open>step_world\<close> holds the Applivery calls made so far, and the
  answer of the remote side is a function of that history. What a pass gathers in local variables is \<open>pass_acc\<close>.

  \<^bold>\<open>What the lemmas show.\<close>
  \<^item> Evaluation: a pass leaves exactly the violating pairs flagged and reports each new one once; its launches are
    authorised, capped and never doubled; alerts respect the daily limits; an approval starts one run. They rest on
    one step relation (\<open>device_step\<close>) and on the locale \<open>pass_relation\<close>, which carries a relation on single devices
    to the whole pass.
  \<^item> Webhooks: without the secret nothing happens; the state of a device follows the last accepted call
    (\<open>call_refines\<close>, a simulation of the map from trigger and device to active or not), and reaches the compliance
    state when the pass that the call left pending runs (\<open>background_flags\<close>), not before; a fire starts one run. A
    deleted trigger leaves its states behind.
  \<^item> Risk: each block of the score appends factors and adds their points (\<open>explained\<close>), so the score is explained by
    its factors and grows with cases and violations; the fleet shows a device compliant when nothing has flagged it.
  \<^item> Identity: every call but a registration or a renewal only takes active certificates away (\<open>shrinks\<close>); so at most
    one is active per device, a revoked device stays out, and a renewal that fails leaves none.
  \<^item> Conditions: what a violation is, the order of versions, the even-odd rule under any rounding, the consistency of the
    templates.
  \<^item> Engines: a run walks the step graph for at most 50 steps, both engines agree without waits, the dry run is a
    prefix of the successful run, a waiting device has a pending row, a token resumes its chain, once and on
    the right branch, a run completes exactly when no device waits, and a launched run stays visible.
  \<^item> Executors: calls stay on the device of the run, erasing calls need a destructive action, a saved policy stack
    is not lost and comes back (\<open>written_stack\<close> says what that means for the request body). They rest on \<open>engine_relation\<close>, the closure of the executors under a relation.
  \<^item> Cases: the invariant of every reachable table, the gates and the hourly cap of auto-run, each SLA breach
    announced, and once (\<open>sla_clock\<close>, \<open>sla_counter\<close>), the export read back.
  \<^item> Access and limits: access fails closed, what the permission check decides, token bucket and limiter bounds,
    the six endings of a page walk, version history and restore, bounded refreshers.

  \<^bold>\<open>Bounds and fuel.\<close> The walks over a chain have the source's own guard of 50 steps; the wait for a token takes fuel and
  \<open>waitForToken_returns\<close> gives the amount that is enough; the page walk ends at the source's page limit by a measure.
  The version history keeps 50 versions, a rule 200 fires, a tick of a refresher 2 to 33 devices.

  \<^bold>\<open>Parameters.\<close> The Applivery API, HTTP hosts, chat webhooks, the mail server, the trackers and threat
  intelligence, the normalized fleet (the JSON of a device), \<open>JSON.parse\<close>, \<open>localeCompare\<close>, the clock and random identifiers. Database
  failures are not modelled, nor is the interleaving of two requests: a handler runs alone, and so does a pending pass
  once it runs. A pass uses one time stamp where the source reads the clock again. The calls recorded in \<open>sent\<close> are
  those of the steps: reading the fleet and the base URL of the organisation is not recorded and, for the base
  URL, taken to succeed - a failure there after a pass, which skips the stamp of its policies, is left out. Numbers
  are exact: rationals in the token bucket, reals in the zones (the polygon theorem holds for any rounding); a
  certificate ends a whole number of days of 86400000 ms after its issue. A name that every JavaScript object
  inherits is not found by a registry lookup of the model (\<open>inherited_names\<close>).

  \<^bold>\<open>Not modelled\<close>: the Vue frontend; the fetch, normalization and cache of the fleet, apart from the joins above; the vulnerability catalogs and other
  feeds; the calls to trackers, VirusTotal and MISP; X.509 signing and Play Integrity attestation; reports, dashboards and PDF
  output; CRUD on settings, custom checks, event watches, firewall rule sets and scripts; log export; the queue
  wiring and the native agents. They are input and output, cryptography, third-party data or forms, and the parts
  above take what they produce as parameters.
\<close>

end
